(* ===== verification/Prelude.thy ===== *)
theory Prelude
  imports
    Main
    "HOL-Library.List_Lexorder"
    "HOL-Library.Char_ord"
    "HOL-Library.Product_Lexorder"
    "HOL-Library.Multiset"
begin

text \<open>
  What every component shares: the error monad in which a Python \<open>raise\<close> is a value
  \<open>Inl e\<close>, the loops over it, dictionaries as association lists in insertion order,
  Python's slice \<open>xs[:n]\<close>, and the generic facts on sums and sorted lists that the
  component proofs use through the simplifier.
\<close>

section \<open>Errors as values\<close>

named_theorems err_simps \<open>rewrite rules that turn success of a fallible program into a formula\<close>

definition bindE :: "'e + 'a \<Rightarrow> ('a \<Rightarrow> 'e + 'b) \<Rightarrow> 'e + 'b" where
  "bindE m f = (case m of Inl e \<Rightarrow> Inl e | Inr x \<Rightarrow> f x)"

fun mapE :: "('a \<Rightarrow> 'e + 'b) \<Rightarrow> 'a list \<Rightarrow> 'e + 'b list" where
  "mapE f [] = Inr []"
| "mapE f (x # xs) = bindE (f x) (\<lambda>y. bindE (mapE f xs) (\<lambda>ys. Inr (y # ys)))"

fun forE :: "'a list \<Rightarrow> ('a \<Rightarrow> 'e + unit) \<Rightarrow> 'e + unit" where
  "forE [] f = Inr ()"
| "forE (x # xs) f = bindE (f x) (\<lambda>_. forE xs f)"

text \<open>A loop that threads an accumulator and may raise.\<close>

fun foldE :: "('a \<Rightarrow> 's \<Rightarrow> 'e + 's) \<Rightarrow> 'a list \<Rightarrow> 's \<Rightarrow> 'e + 's" where
  "foldE f [] s = Inr s"
| "foldE f (x # xs) s = bindE (f x s) (foldE f xs)"

lemma bindE_Inl [simp]: "bindE (Inl e) f = Inl e"
  by (simp add: bindE_def)

lemma bindE_Inr [simp]: "bindE (Inr x) f = f x"
  by (simp add: bindE_def)

lemma bindE_eq_Inr [err_simps]: "bindE m f = Inr y \<longleftrightarrow> (\<exists>x. m = Inr x \<and> f x = Inr y)"
  by (cases m) auto

lemma bindE_eq_Inl:
  "bindE m f = Inl e \<longleftrightarrow> m = Inl e \<or> (\<exists>x. m = Inr x \<and> f x = Inl e)"
  by (cases m) auto

lemma if_Inl_eq_Inr [err_simps]: "(if b then Inl e else k) = Inr y \<longleftrightarrow> \<not> b \<and> k = Inr y"
  by simp

lemma bindE_cong [fundef_cong]:
  "m = m' \<Longrightarrow> (\<And>x. m' = Inr x \<Longrightarrow> f x = f' x) \<Longrightarrow> bindE m f = bindE m' f'"
  by (cases m') auto

lemma mapE_eq_Inr [err_simps]:
  "mapE f xs = Inr ys \<longleftrightarrow> list_all2 (\<lambda>x y. f x = Inr y) xs ys"
  by (induction xs arbitrary: ys) (auto simp: bindE_eq_Inr list_all2_Cons1)

lemma mapE_Inr: "(\<And>x. x \<in> set xs \<Longrightarrow> f x = Inr (g x)) \<Longrightarrow> mapE f xs = Inr (map g xs)"
  by (induction xs) auto

lemma mapE_cong [fundef_cong]:
  "xs = ys \<Longrightarrow> (\<And>x. x \<in> set ys \<Longrightarrow> f x = g x) \<Longrightarrow> mapE f xs = mapE g ys"
proof (induction xs arbitrary: ys)
  case (Cons x xs)
  then show ?case by (auto intro!: bindE_cong)
qed simp

lemma forE_eq_Inr [err_simps]: "forE xs f = Inr u \<longleftrightarrow> (\<forall>x \<in> set xs. f x = Inr ())"
  by (induction xs) (auto simp: bindE_eq_Inr)

lemma foldE_append: "foldE f (xs @ ys) s = bindE (foldE f xs s) (foldE f ys)"
  by (induction xs arbitrary: s) (auto simp: bindE_def split: sum.splits)

lemma foldE_cong [fundef_cong]:
  "xs = ys \<Longrightarrow> s = t \<Longrightarrow> (\<And>x u. x \<in> set ys \<Longrightarrow> f x u = g x u) \<Longrightarrow> foldE f xs s = foldE g ys t"
proof (induction xs arbitrary: ys s t)
  case (Cons x xs)
  then show ?case by (auto intro!: bindE_cong)
qed simp

text \<open>A loop invariant of \<open>foldE\<close>, and a loop whose steps all succeed.\<close>

lemma foldE_invariant:
  assumes "foldE f xs s = Inr t" and "P s"
    and "\<And>x s s'. x \<in> set xs \<Longrightarrow> P s \<Longrightarrow> f x s = Inr s' \<Longrightarrow> P s'"
  shows "P t"
  using assms
  by (induction xs arbitrary: s) (auto simp: bindE_eq_Inr)

lemma foldE_succeeds:
  assumes "P s" and "\<And>x s. x \<in> set xs \<Longrightarrow> P s \<Longrightarrow> \<exists>s'. f x s = Inr s' \<and> P s'"
  shows "\<exists>t. foldE f xs s = Inr t \<and> P t"
  using assms
proof (induction xs arbitrary: s)
  case (Cons x xs)
  then obtain s' where "f x s = Inr s'" "P s'" by (metis list.set_intros(1))
  with Cons show ?case by simp
qed simp

section \<open>Dictionaries as association lists\<close>

text \<open>
  A Python \<open>dict\<close> keeps insertion order and one value per key: assigning to a present
  key keeps its place, assigning to a new key appends it.
\<close>

fun dict_set :: "'k \<Rightarrow> 'v \<Rightarrow> ('k \<times> 'v) list \<Rightarrow> ('k \<times> 'v) list" where
  "dict_set k v [] = [(k, v)]"
| "dict_set k v ((k', v') # d) = (if k = k' then (k, v) # d else (k', v') # dict_set k v d)"

definition dict_get :: "'k \<Rightarrow> 'v \<Rightarrow> ('k \<times> 'v) list \<Rightarrow> 'v" where
  "dict_get k v0 d = (case map_of d k of None \<Rightarrow> v0 | Some v \<Rightarrow> v)"

text \<open>The idiom \<open>d[k] = d.get(k, 0) + n\<close>.\<close>

definition dict_add :: "'k \<Rightarrow> int \<Rightarrow> ('k \<times> int) list \<Rightarrow> ('k \<times> int) list" where
  "dict_add k n d = dict_set k (dict_get k 0 d + n) d"

text \<open>Summing rows into a dict, in order.\<close>

definition dict_sum :: "('k \<times> int) list \<Rightarrow> ('k \<times> int) list \<Rightarrow> ('k \<times> int) list" where
  "dict_sum rows d = fold (\<lambda>(k, n). dict_add k n) rows d"

definition dict_of :: "('k \<times> 'v) list \<Rightarrow> ('k \<times> 'v) list" where
  "dict_of rows = fold (\<lambda>(k, v). dict_set k v) rows []"

lemma map_of_dict_set [simp]: "map_of (dict_set k v d) = (map_of d)(k \<mapsto> v)"
  by (induction d) auto

lemma keys_dict_set [simp]: "fst ` set (dict_set k v d) = insert k (fst ` set d)"
  by (induction d) (force simp: image_iff)+

lemma set_dict_set_subset: "set (dict_set k v d) \<subseteq> insert (k, v) (set d)"
  by (induction k v d rule: dict_set.induct) auto

lemma distinct_dict_set: "distinct (map fst d) \<Longrightarrow> distinct (map fst (dict_set k v d))"
  by (induction d) auto

lemma dict_set_new: "k \<notin> fst ` set d \<Longrightarrow> dict_set k v d = d @ [(k, v)]"
  by (induction d) auto

lemma map_fst_dict_set: "k \<in> set (map fst d) \<Longrightarrow> map fst (dict_set k v d) = map fst d"
  by (induction d) force+

lemma dict_of_distinct: "distinct (map fst rows) \<Longrightarrow> dict_of rows = rows"
proof -
  have "distinct (map fst (d @ rows)) \<Longrightarrow> fold (\<lambda>(k, v). dict_set k v) rows d = d @ rows" for d
    by (induction rows arbitrary: d) (auto simp: dict_set_new split: prod.splits)
  from this [of "[]"] show "distinct (map fst rows) \<Longrightarrow> ?thesis"
    by (simp add: dict_of_def)
qed

lemma dict_get_absent: "k \<notin> fst ` set d \<Longrightarrow> dict_get k w d = w"
  by (simp add: dict_get_def map_of_eq_None_iff [THEN iffD2])

lemma dict_get_Cons: "dict_get k w ((j, v) # d) = (if k = j then v else dict_get k w d)"
  by (simp add: dict_get_def)

lemma sum_dict_set:
  "distinct (map fst d) \<Longrightarrow>
     sum_list (map snd (dict_set k (v::int) d)) = sum_list (map snd d) - dict_get k 0 d + v"
  by (induction d) (auto simp: dict_get_Cons dict_get_absent dict_get_def)

lemma sum_dict_add:
  "distinct (map fst d) \<Longrightarrow> sum_list (map snd (dict_add k n d)) = sum_list (map snd d) + n"
  by (simp add: dict_add_def sum_dict_set)

lemma distinct_dict_add: "distinct (map fst d) \<Longrightarrow> distinct (map fst (dict_add k n d))"
  by (simp add: dict_add_def distinct_dict_set)

lemma keys_dict_add [simp]: "fst ` set (dict_add k n d) = insert k (fst ` set d)"
  by (simp add: dict_add_def)

lemma distinct_dict_sum: "distinct (map fst d) \<Longrightarrow> distinct (map fst (dict_sum rows d))"
  unfolding dict_sum_def
  by (induction rows arbitrary: d) (auto simp: distinct_dict_add)

lemma sum_dict_sum:
  "distinct (map fst d) \<Longrightarrow>
     sum_list (map snd (dict_sum rows d)) = sum_list (map snd d) + sum_list (map snd rows)"
  unfolding dict_sum_def
  by (induction rows arbitrary: d) (auto simp: distinct_dict_add sum_dict_add)

lemma keys_dict_sum: "fst ` set (dict_sum rows d) = fst ` set d \<union> fst ` set rows"
  unfolding dict_sum_def
  by (induction rows arbitrary: d) (simp_all add: case_prod_beta)

lemma dict_get_dict_set: "dict_get j w (dict_set k v d) = (if j = k then v else dict_get j w d)"
  by (simp add: dict_get_def)

lemma dict_get_dict_add:
  "dict_get j 0 (dict_add k n d) = dict_get j 0 d + (if j = k then n else 0)"
  by (simp add: dict_add_def dict_get_dict_set)

lemma dict_get_dict_sum:
  "dict_get j 0 (dict_sum rows d) =
     dict_get j 0 d + sum_list (map snd (filter (\<lambda>p. fst p = j) rows))"
  unfolding dict_sum_def
  by (induction rows arbitrary: d) (auto simp: dict_get_dict_add)

lemma dict_get_Nil [simp]: "dict_get k v [] = v"
  by (simp add: dict_get_def)

lemma dict_get_eq: "distinct (map fst d) \<Longrightarrow> (k, v) \<in> set d \<Longrightarrow> dict_get k w d = v"
  by (simp add: dict_get_def)

text \<open>Rebuilding a dict in key order keeps its entries and its sum.\<close>

lemma dict_rebuild_set:
  "distinct (map fst d) \<Longrightarrow>
     set (map (\<lambda>h. (h, dict_get h w d)) (sort (map fst d))) = set (d :: ('k::linorder \<times> 'v) list)"
  by (force simp: dict_get_eq)

section \<open>Slices and sorted sequences\<close>

text \<open>Python's \<open>xs[:n]\<close>: a negative bound counts from the end.\<close>

definition py_slice_to :: "'a list \<Rightarrow> int \<Rightarrow> 'a list" where
  "py_slice_to xs n = (if n < 0 then take (length xs - nat (- n)) xs else take (nat n) xs)"

text \<open>\<open>tuple(xs) == tuple(sorted(set(xs)))\<close> and \<open>len(set(xs)) == len(xs)\<close>.\<close>

definition sorted_unique :: "'a::linorder list \<Rightarrow> bool" where
  "sorted_unique xs \<longleftrightarrow> xs = sort (remdups xs)"

lemma sorted_unique_iff: "sorted_unique xs \<longleftrightarrow> sorted xs \<and> distinct xs"
proof
  assume "sorted_unique xs"
  then have eq: "xs = sort (remdups xs)" by (simp add: sorted_unique_def)
  show "sorted xs \<and> distinct xs" by (subst (1 2) eq) simp
next
  assume "sorted xs \<and> distinct xs"
  then show "sorted_unique xs"
    by (simp add: sorted_unique_def distinct_remdups_id sorted_sort_id)
qed

lemma length_remdups_eq_distinct: "length (remdups xs) = length xs \<longleftrightarrow> distinct xs"
  by (simp add: length_remdups_eq)

lemma length_remdups_map: "length (remdups (map f xs)) = length xs \<longleftrightarrow> distinct (map f xs)"
  using length_remdups_eq [of "map f xs"] by simp

lemma sum_list_sort_key: "sum_list (map f (sort_key g xs)) = sum_list (map (f :: _ \<Rightarrow> int) xs)"
  by (metis mset_map mset_sort sum_mset_sum_list)

lemma sum_list_sort: "sum_list (sort xs) = sum_list (xs :: int list)"
  by (metis mset_sort sum_mset_sum_list)

lemma distinct_map_sort_key: "distinct (map f (sort_key g xs)) \<longleftrightarrow> distinct (map f xs)"
  by (metis distinct_sort mset_eq_imp_distinct_iff mset_map mset_sort)

lemma sum_list_nonneg_ints: "(\<And>x. x \<in> set xs \<Longrightarrow> 0 \<le> f x) \<Longrightarrow> 0 \<le> sum_list (map f xs)"
  for f :: "'a \<Rightarrow> int"
  by (induction xs) auto

lemma sum_list_mono_ints:
  "(\<And>x. x \<in> set xs \<Longrightarrow> f x \<le> g x) \<Longrightarrow> sum_list (map f xs) \<le> sum_list (map g xs)"
  for f g :: "'a \<Rightarrow> int"
  by (induction xs) (auto intro: add_mono)

lemma member_le_sum_list_ints:
  "(\<And>y. y \<in> set xs \<Longrightarrow> 0 \<le> f y) \<Longrightarrow> x \<in> set xs \<Longrightarrow> f x \<le> sum_list (map f xs)"
  for f :: "'a \<Rightarrow> int"
proof (induction xs)
  case (Cons y xs)
  then have "0 \<le> sum_list (map f xs)" by (auto intro: sum_list_nonneg_ints)
  with Cons show ?case by (auto simp: add_increasing add_increasing2)
qed simp

lemma sum_list_pos_ints: "\<forall>x \<in> set xs. 0 < f x \<Longrightarrow> xs \<noteq> [] \<Longrightarrow> 0 < sum_list (map f xs)"
  for f :: "'a \<Rightarrow> int"
  by (induction xs) (fastforce intro: add_pos_nonneg add_pos_pos)+

lemma sum_list_filter_pos:
  "(\<And>x. x \<in> set xs \<Longrightarrow> 0 \<le> f x) \<Longrightarrow>
     sum_list (map f (filter (\<lambda>x. 0 < f x) xs)) = sum_list (map f xs)"
  for f :: "'a \<Rightarrow> int"
  by (induction xs) (auto simp: order_antisym)

lemma dict_rebuild_sum:
  "distinct (map fst d) \<Longrightarrow>
     sum_list (map (\<lambda>h. dict_get h 0 d) (sort (map fst d))) = sum_list (map snd (d :: ('k::linorder \<times> int) list))"
proof -
  assume d: "distinct (map fst d)"
  have "sum_list (map (\<lambda>h. dict_get h 0 d) (sort (map fst d))) = sum_list (map (\<lambda>h. dict_get h 0 d) (map fst d))"
    by (rule sum_list_sort_key)
  also have "map (\<lambda>h. dict_get h 0 d) (map fst d) = map snd d"
    using d by (auto simp: dict_get_eq)
  finally show ?thesis .
qed

lemma dict_sum_pos:
  assumes "\<forall>r \<in> set rows. 0 < snd r" and "(h, u) \<in> set (dict_sum rows [])"
  shows "0 < u"
proof -
  let ?hs = "filter (\<lambda>p. fst p = h) rows"
  have "u = sum_list (map snd ?hs)"
    using dict_get_eq [OF distinct_dict_sum assms(2), of 0] by (simp add: dict_get_dict_sum)
  moreover have "h \<in> fst ` set (dict_sum rows [])" using assms(2) by force
  then have "?hs \<noteq> []" unfolding keys_dict_sum by (auto simp: filter_empty_conv)
  moreover have "\<forall>r \<in> set ?hs. 0 < snd r" using assms(1) by auto
  ultimately show ?thesis using sum_list_pos_ints [of ?hs snd] by simp
qed

lemma sort_map_sort_key: "sort (map f (sort_key g xs)) = sort (map (f :: _ \<Rightarrow> 'b::linorder) xs)"
  by (rule properties_for_sort) simp_all

lemma sorted_map_filter_sort_key: "sorted (map f (filter P (sort_key f xs)))"
  by (intro sorted_filter) simp

end
