(* ===== verification/Py_Value.thy ===== *)
theory Py_Value
  imports Complex_Main Prelude
begin

text \<open>
  The Python values that cross the trust boundary (\<open>json.loads\<close> output and constructor
  arguments), the exceptions the modelled modules raise, and the parts of the standard
  library their text depends on: \<open>str\<close> of an integer, the white space of \<open>re\<close>'s
  \<open>\s\<close> and UTF-8. A Python \<open>str\<close> is a list of code points below 256.
\<close>

section \<open>Exceptions\<close>

datatype py_error =
    StackIdentityError string
  | EconomicsError string
  | FiniteDebtError string
  | IncentiveCompositionError string
  | WeightPublicationError string
  | ChainWeightStateError string
  | TargetCatalogError string
  | TargetResolutionError string
  | StackManifestError string
  | StackPlanError string
  | StaleStackPlanError string
  | ChainRevealHistoryError string
  | IntakeError string
  | DebtPublicationError string
  | SettlementError string
  | SessionProtocolError string
  | EvidenceStoreError string
  | DepPatchError string
  | QualificationIntakeError string
  | ArenaServiceError string
  | PyTypeError string
  | PyKeyError string
  | PyValueError string
  | PyAssertionError string
  | PyIndexError string
  | SQLiteIntegrityError string
  | DecimalOverflow

text \<open>\<open>str(exc)\<close>.\<close>

fun err_text :: "py_error \<Rightarrow> string" where
  "err_text (StackIdentityError m) = m"
| "err_text (EconomicsError m) = m"
| "err_text (FiniteDebtError m) = m"
| "err_text (IncentiveCompositionError m) = m"
| "err_text (WeightPublicationError m) = m"
| "err_text (ChainWeightStateError m) = m"
| "err_text (TargetCatalogError m) = m"
| "err_text (TargetResolutionError m) = m"
| "err_text (StackManifestError m) = m"
| "err_text (StackPlanError m) = m"
| "err_text (StaleStackPlanError m) = m"
| "err_text (ChainRevealHistoryError m) = m"
| "err_text (IntakeError m) = m"
| "err_text (DebtPublicationError m) = m"
| "err_text (SettlementError m) = m"
| "err_text (SessionProtocolError m) = m"
| "err_text (EvidenceStoreError m) = m"
| "err_text (DepPatchError m) = m"
| "err_text (QualificationIntakeError m) = m"
| "err_text (ArenaServiceError m) = m"
| "err_text (PyTypeError m) = m"
| "err_text (PyKeyError m) = m"
| "err_text (PyValueError m) = m"
| "err_text (PyAssertionError m) = m"
| "err_text (PyIndexError m) = m"
| "err_text (SQLiteIntegrityError m) = m"
| "err_text DecimalOverflow = ''[<class 'decimal.Overflow'>]''"

section \<open>Values\<close>

text \<open>
  \<open>PyFloat None\<close> is a float that is not finite; \<open>PyOther t\<close> is any object of another
  type, by its type's name. A dict is its items in insertion order.
\<close>

datatype pyval =
    PyNone
  | PyBool bool
  | PyInt int
  | PyFloat "rat option"
  | PyStr string
  | PyList "pyval list"
  | PyTuple "pyval list"
  | PyDict "(pyval \<times> pyval) list"
  | PyOther string

text \<open>JSON data, the values that canonical encoding accepts.\<close>

datatype json =
    JNull
  | JBool bool
  | JInt int
  | JStr string
  | JList "json list"
  | JObj "(string \<times> json) list"

fun py_of_json :: "json \<Rightarrow> pyval" where
  "py_of_json JNull = PyNone"
| "py_of_json (JBool b) = PyBool b"
| "py_of_json (JInt n) = PyInt n"
| "py_of_json (JStr s) = PyStr s"
| "py_of_json (JList xs) = PyList (map py_of_json xs)"
| "py_of_json (JObj kvs) = PyDict (map (\<lambda>(k, v). (PyStr k, py_of_json v)) kvs)"

definition json_of_option :: "('a \<Rightarrow> json) \<Rightarrow> 'a option \<Rightarrow> json" where
  "json_of_option f x = (case x of None \<Rightarrow> JNull | Some y \<Rightarrow> f y)"

lemma json_of_option_simps [simp]:
  "json_of_option f None = JNull" "json_of_option f (Some y) = f y"
  by (simp_all add: json_of_option_def)

text \<open>Python's \<open>==\<close> between an arbitrary value and an \<open>int\<close>: \<open>True == 1\<close> and \<open>1.0 == 1\<close> hold.\<close>

fun py_eq_int :: "pyval \<Rightarrow> int \<Rightarrow> bool" where
  "py_eq_int (PyBool b) n = ((if b then 1 else 0) = n)"
| "py_eq_int (PyInt m) n = (m = n)"
| "py_eq_int (PyFloat (Some q)) n = (q = of_int n)"
| "py_eq_int _ n = False"

fun py_eq_str :: "pyval \<Rightarrow> string \<Rightarrow> bool" where
  "py_eq_str (PyStr s) t = (s = t)"
| "py_eq_str _ t = False"

text \<open>Hashing a list or a dict raises, so \<open>x in frozenset(...)\<close> does.\<close>

fun py_hashable :: "pyval \<Rightarrow> bool" where
  "py_hashable (PyList _) = False"
| "py_hashable (PyDict _) = False"
| "py_hashable (PyTuple xs) = (\<forall>x \<in> set xs. py_hashable x)"
| "py_hashable _ = True"

definition py_in_strs :: "pyval \<Rightarrow> string list \<Rightarrow> py_error + bool" where
  "py_in_strs v names =
     (if \<not> py_hashable v then Inl (PyTypeError ''unhashable type'')
      else Inr (\<exists>s \<in> set names. py_eq_str v s))"

fun py_truthy :: "pyval \<Rightarrow> bool" where
  "py_truthy PyNone = False"
| "py_truthy (PyBool b) = b"
| "py_truthy (PyInt n) = (n \<noteq> 0)"
| "py_truthy (PyFloat q) = (q \<noteq> Some 0)"
| "py_truthy (PyStr s) = (s \<noteq> [])"
| "py_truthy (PyList xs) = (xs \<noteq> [])"
| "py_truthy (PyTuple xs) = (xs \<noteq> [])"
| "py_truthy (PyDict d) = (d \<noteq> [])"
| "py_truthy (PyOther t) = True"

section \<open>Text\<close>

definition digit_char :: "nat \<Rightarrow> char" where
  "digit_char n = char_of (48 + n)"

fun show_nat :: "nat \<Rightarrow> string" where
  "show_nat n = (if n < 10 then [digit_char n] else show_nat (n div 10) @ [digit_char (n mod 10)])"

declare show_nat.simps [simp del]

definition show_int :: "int \<Rightarrow> string" where
  "show_int n = (if n < 0 then CHR ''-'' # show_nat (nat (- n)) else show_nat (nat n))"

text \<open>The code points below 256 that \<open>re\<close>'s \<open>\s\<close> and \<open>str.strip\<close> take as white space.\<close>

definition py_space :: "char \<Rightarrow> bool" where
  "py_space c = ((of_char c :: nat) \<in> {9, 10, 11, 12, 13, 28, 29, 30, 31, 32, 133, 160})"

definition py_strip :: "string \<Rightarrow> string" where
  "py_strip s = rev (dropWhile py_space (rev (dropWhile py_space s)))"

definition has_control :: "string \<Rightarrow> bool" where
  "has_control s = (\<exists>c \<in> set s. c \<in> set [CHR 0x00, CHR 0x0D, CHR 0x0A])"

lemma has_control_simps [simp]:
  "has_control [] = False"
  "has_control (c # s) = (c = CHR 0x00 \<or> c = CHR 0x0D \<or> c = CHR 0x0A \<or> has_control s)"
  by (auto simp: has_control_def)

definition utf8_char :: "char \<Rightarrow> string" where
  "utf8_char c = (let n = of_char c :: nat in
     if n < 128 then [c] else [char_of (192 + n div 64), char_of (128 + n mod 64)])"

definition utf8 :: "string \<Rightarrow> string" where
  "utf8 s = concat (map utf8_char s)"

subsection \<open>Integer literals are uniquely readable\<close>

definition is_digit :: "char \<Rightarrow> bool" where
  "is_digit c = (48 \<le> (of_char c :: nat) \<and> (of_char c :: nat) < 58)"

definition read_nat :: "string \<Rightarrow> nat" where
  "read_nat s = foldl (\<lambda>n c. 10 * n + (of_char c - 48)) 0 s"

lemma of_char_digit_char: "n < 10 \<Longrightarrow> of_char (digit_char n) = 48 + n"
  by (simp add: digit_char_def)

lemma is_digit_digit_char: "n < 10 \<Longrightarrow> is_digit (digit_char n)"
  by (simp add: is_digit_def of_char_digit_char)

lemma read_nat_snoc: "read_nat (s @ [c]) = 10 * read_nat s + (of_char c - 48)"
  by (simp add: read_nat_def)

lemma read_show_nat: "read_nat (show_nat n) = n"
proof (induction n rule: show_nat.induct)
  case (1 n)
  show ?case
  proof (cases "n < 10")
    case True
    then show ?thesis
      by (subst show_nat.simps) (simp add: read_nat_def of_char_digit_char)
  next
    case False
    with "1.IH" show ?thesis
      by (subst show_nat.simps) (simp add: read_nat_snoc of_char_digit_char)
  qed
qed

lemma show_nat_digits: "list_all is_digit (show_nat n) \<and> show_nat n \<noteq> []"
proof (induction n rule: show_nat.induct)
  case (1 n)
  then show ?case
    by (subst (1 2) show_nat.simps) (auto simp: is_digit_digit_char)
qed

lemma show_nat_inj: "show_nat m = show_nat n \<Longrightarrow> m = n"
  by (metis read_show_nat)

text \<open>A run of digits ends where the next character is not a digit.\<close>

lemma digits_append_unique:
  assumes "list_all is_digit xs" "list_all is_digit ys"
    and "r = [] \<or> \<not> is_digit (hd r)" "q = [] \<or> \<not> is_digit (hd q)"
    and "xs @ r = ys @ q"
  shows "xs = ys \<and> r = q"
proof -
  have "takeWhile is_digit (zs @ p) = zs"
    if "list_all is_digit zs" "p = [] \<or> \<not> is_digit (hd p)" for zs p
    using that by (induction zs) (cases p; auto)+
  with assms show ?thesis by (metis append_same_eq same_append_eq)
qed

end
