(* ===== verification/Stack_Identity.thy ===== *)
theory Stack_Identity
  imports Py_Value
begin

text \<open>
  \<open>optima/stack_identity.py\<close>: the canonical JSON encoding and the domain-separated digest
  under which every manifest, claim and projection is addressed. SHA-256 itself
  (\<open>hashlib\<close>) and the correctly rounded logarithm of \<open>decimal\<close> are the two fields of the
  environment \<open>py_env\<close>; every definition that needs one takes the environment as an
  argument. The main result is that the encoding is injective on JSON data up to the order
  of object keys, so two different payloads can share a digest only through a collision of
  the hash.
\<close>

section \<open>The environment\<close>

record py_env =
  sha256_hexdigest :: "string \<Rightarrow> string"
  decimal_ln :: "rat \<Rightarrow> rat"

section \<open>Canonical values\<close>

fun canonical_value :: "string \<Rightarrow> pyval \<Rightarrow> py_error + json"
and canonical_items :: "string \<Rightarrow> nat \<Rightarrow> pyval list \<Rightarrow> py_error + json list"
and canonical_pairs :: "string \<Rightarrow> (pyval \<times> pyval) list \<Rightarrow> py_error + (string \<times> json) list"
where
  "canonical_value loc PyNone = Inr JNull"
| "canonical_value loc (PyStr s) = Inr (JStr s)"
| "canonical_value loc (PyBool b) = Inr (JBool b)"
| "canonical_value loc (PyInt n) = Inr (JInt n)"
| "canonical_value loc (PyFloat q) = Inl (StackIdentityError (loc @ '' contains a float''))"
| "canonical_value loc (PyDict d) = bindE (canonical_pairs loc d) (\<lambda>kvs. Inr (JObj kvs))"
| "canonical_value loc (PyList xs) = bindE (canonical_items loc 0 xs) (\<lambda>js. Inr (JList js))"
| "canonical_value loc (PyTuple xs) = bindE (canonical_items loc 0 xs) (\<lambda>js. Inr (JList js))"
| "canonical_value loc (PyOther t) =
     Inl (StackIdentityError (loc @ '' contains unsupported '' @ t))"
| "canonical_items loc i [] = Inr []"
| "canonical_items loc i (x # xs) =
     bindE (canonical_value (loc @ ''['' @ show_nat i @ '']'') x) (\<lambda>j.
     bindE (canonical_items loc (Suc i) xs) (\<lambda>js. Inr (j # js)))"
| "canonical_pairs loc [] = Inr []"
| "canonical_pairs loc ((k, v) # d) =
     (case k of
        PyStr s \<Rightarrow>
          bindE (canonical_value (loc @ ''.'' @ s) v) (\<lambda>j.
          bindE (canonical_pairs loc d) (\<lambda>kvs. Inr ((s, j) # kvs)))
      | _ \<Rightarrow> Inl (StackIdentityError (loc @ '' contains a non-string object key'')))"

section \<open>JSON text\<close>

definition hex_char :: "nat \<Rightarrow> char" where
  "hex_char n = char_of (if n < 10 then 48 + n else 87 + n)"

text \<open>The escapes of \<open>json.dumps(..., ensure_ascii=False)\<close>.\<close>

definition json_esc :: "char \<Rightarrow> string" where
  "json_esc c =
     (if c = CHR 0x22 then [CHR 0x5C, CHR 0x22]
      else if c = CHR 0x5C then [CHR 0x5C, CHR 0x5C]
      else if c = CHR 0x0A then [CHR 0x5C, CHR ''n'']
      else if c = CHR 0x0D then [CHR 0x5C, CHR ''r'']
      else if c = CHR 0x09 then [CHR 0x5C, CHR ''t'']
      else if c = CHR 0x0C then [CHR 0x5C, CHR ''f'']
      else if c = CHR 0x08 then [CHR 0x5C, CHR ''b'']
      else let n = of_char c :: nat in
        if n < 32 then [CHR 0x5C, CHR ''u'', CHR ''0'', CHR ''0'', hex_char (n div 16), hex_char (n mod 16)]
        else [c])"

definition json_str :: "string \<Rightarrow> string" where
  "json_str s = CHR 0x22 # concat (map json_esc s) @ [CHR 0x22]"

fun json_text :: "json \<Rightarrow> string"
and json_items :: "json list \<Rightarrow> string"
and json_members :: "(string \<times> json) list \<Rightarrow> string"
where
  "json_text JNull = ''null''"
| "json_text (JBool b) = (if b then ''true'' else ''false'')"
| "json_text (JInt n) = show_int n"
| "json_text (JStr s) = json_str s"
| "json_text (JList xs) = CHR ''['' # json_items xs"
| "json_text (JObj kvs) = CHR ''{'' # json_members kvs"
| "json_items [] = '']''"
| "json_items (x # xs) = json_text x @ (if xs = [] then '']'' else CHR '','' # json_items xs)"
| "json_members [] = ''}''"
| "json_members ((k, v) # kvs) =
     json_str k @ CHR '':'' # json_text v @ (if kvs = [] then ''}'' else CHR '','' # json_members kvs)"

text \<open>\<open>sort_keys=True\<close>, at every level.\<close>

fun json_sort :: "json \<Rightarrow> json"
and json_sort_members :: "(string \<times> json) list \<Rightarrow> (string \<times> json) list"
where
  "json_sort (JList xs) = JList (map json_sort xs)"
| "json_sort (JObj kvs) = JObj (sort_key fst (json_sort_members kvs))"
| "json_sort j = j"
| "json_sort_members [] = []"
| "json_sort_members ((k, v) # kvs) = (k, json_sort v) # json_sort_members kvs"

definition json_dumps :: "json \<Rightarrow> string" where
  "json_dumps j = json_text (json_sort j)"

definition canonical_json_bytes :: "pyval \<Rightarrow> py_error + string" where
  "canonical_json_bytes v =
     bindE (canonical_value ''payload'' v) (\<lambda>j. Inr (utf8 (json_dumps j)))"

section \<open>Digests\<close>

definition lower_hex :: "char \<Rightarrow> bool" where
  "lower_hex c = (let n = of_char c :: nat in (48 \<le> n \<and> n \<le> 57) \<or> (97 \<le> n \<and> n \<le> 102))"

definition is_sha256_hex :: "string \<Rightarrow> bool" where
  "is_sha256_hex s = (length s = 64 \<and> list_all lower_hex s)"

definition require_sha256_hex :: "pyval \<Rightarrow> string \<Rightarrow> py_error + string" where
  "require_sha256_hex v field =
     (case v of
        PyStr s \<Rightarrow> if is_sha256_hex s then Inr s
          else Inl (StackIdentityError (field @ '' must be a lowercase 64-hex SHA-256 digest''))
      | _ \<Rightarrow> Inl (StackIdentityError (field @ '' must be a lowercase 64-hex SHA-256 digest'')))"

text \<open>The pattern \<open>[a-z0-9][a-z0-9._-]*\<close>.\<close>

definition domain_head :: "char \<Rightarrow> bool" where
  "domain_head c = (let n = of_char c :: nat in (48 \<le> n \<and> n \<le> 57) \<or> (97 \<le> n \<and> n \<le> 122))"

definition is_domain :: "string \<Rightarrow> bool" where
  "is_domain s = (case s of [] \<Rightarrow> False
     | c # cs \<Rightarrow> domain_head c \<and> list_all (\<lambda>c. domain_head c \<or> c \<in> set ''._-'') cs)"

definition digest_envelope :: "string \<Rightarrow> json \<Rightarrow> int \<Rightarrow> json" where
  "digest_envelope dmn payload version =
     JObj [(''domain'', JStr dmn), (''payload'', payload), (''schema_version'', JInt version)]"

definition canonical_digest :: "py_env \<Rightarrow> string \<Rightarrow> pyval \<Rightarrow> int \<Rightarrow> py_error + string" where
  "canonical_digest E dmn payload version =
     (if \<not> is_domain dmn then
        Inl (StackIdentityError ''digest domain must match [a-z0-9][a-z0-9._-]*'')
      else if version < 1 then
        Inl (StackIdentityError ''schema_version must be a positive integer'')
      else bindE (canonical_json_bytes (PyDict
             [(PyStr ''domain'', PyStr dmn), (PyStr ''payload'', payload),
              (PyStr ''schema_version'', PyInt version)]))
           (\<lambda>b. Inr (sha256_hexdigest E b)))"

text \<open>The digest of data that is JSON by construction: it cannot raise.\<close>

definition json_digest :: "py_env \<Rightarrow> string \<Rightarrow> json \<Rightarrow> string" where
  "json_digest E dmn j = sha256_hexdigest E (utf8 (json_dumps (digest_envelope dmn j 1)))"

section \<open>JSON data always has a digest\<close>

lemma canonical_value_json:
  "canonical_value loc (py_of_json j) = Inr j"
proof (induction j arbitrary: loc)
  case (JList xs)
  then have "canonical_items loc i (map py_of_json xs) = Inr xs" for i
    by (induction xs arbitrary: i) auto
  then show ?case by simp
next
  case (JObj kvs)
  then have "canonical_pairs loc (map (\<lambda>(k, v). (PyStr k, py_of_json v)) kvs) = Inr kvs"
    by (induction kvs) fastforce+
  then show ?case by simp
qed simp_all

lemma canonical_digest_json:
  "is_domain dmn \<Longrightarrow> canonical_digest E dmn (py_of_json j) 1 = Inr (json_digest E dmn j)"
  by (simp add: canonical_digest_def canonical_json_bytes_def canonical_value_json
      json_digest_def digest_envelope_def)

section \<open>The encoding is injective\<close>

lemma hex_char_inj: "m < 16 \<Longrightarrow> n < 16 \<Longrightarrow> hex_char m = hex_char n \<Longrightarrow> m = n"
  by (auto simp: hex_char_def split: if_splits dest!: arg_cong [where f = "of_char :: char \<Rightarrow> nat"])

lemma json_esc_nonempty: "json_esc c \<noteq> []"
  by (simp add: json_esc_def Let_def)

lemma json_esc_hd: "hd (json_esc c) \<noteq> CHR 0x22"
  by (simp add: json_esc_def Let_def)

lemma json_esc_control_inj:
  assumes "of_char c < (32::nat)" "of_char d < (32::nat)"
    and "hex_char (of_char c div 16) = hex_char (of_char d div 16)"
    and "hex_char (of_char c mod 16) = hex_char (of_char d mod 16)"
  shows "c = d"
proof -
  have "of_char c div 16 = (of_char d div 16 :: nat)" "of_char c mod 16 = (of_char d mod 16 :: nat)"
    using assms by (auto intro: hex_char_inj)
  then have "of_char c = (of_char d :: nat)" by (metis div_mult_mod_eq)
  then show ?thesis by simp
qed

lemma json_esc_prefix: "json_esc c @ x = json_esc d @ y \<Longrightarrow> c = d \<and> x = y"
  unfolding json_esc_def Let_def
  by (auto split: if_splits dest: json_esc_control_inj)

lemma json_chars_unique:
  "concat (map json_esc s) @ CHR 0x22 # x = concat (map json_esc t) @ CHR 0x22 # y \<Longrightarrow>
     s = t \<and> x = y"
proof (induction s arbitrary: t)
  case Nil
  show ?case
  proof (cases t)
    case (Cons d t')
    with Nil json_esc_nonempty [of d] json_esc_hd [of d] show ?thesis
      by (cases "json_esc d") auto
  qed (use Nil in simp)
next
  case (Cons c s)
  show ?case
  proof (cases t)
    case Nil
    with Cons.prems json_esc_nonempty [of c] json_esc_hd [of c] show ?thesis
      by (cases "json_esc c") auto
  next
    case (Cons d t')
    with Cons.prems json_esc_prefix [of c _ d] have "c = d"
      "concat (map json_esc s) @ CHR 0x22 # x = concat (map json_esc t') @ CHR 0x22 # y"
      by fastforce+
    with Cons.IH [of t'] Cons show ?thesis by simp
  qed
qed

lemma json_str_unique: "json_str s @ x = json_str t @ y \<Longrightarrow> s = t \<and> x = y"
  using json_chars_unique [of s x t y] by (simp add: json_str_def)

text \<open>What can follow a value inside a JSON text.\<close>

definition json_end :: "string \<Rightarrow> bool" where
  "json_end r \<longleftrightarrow> r = [] \<or> hd r \<in> {CHR '','', CHR '']'', CHR ''}''}"

lemma json_end_simps [simp]:
  "json_end []" "json_end (CHR '','' # r)" "json_end (CHR '']'' # r)" "json_end (CHR ''}'' # r)"
  by (simp_all add: json_end_def)

lemma json_end_not_digit: "json_end r \<Longrightarrow> r = [] \<or> \<not> is_digit (hd r)"
  by (auto simp: json_end_def is_digit_def)

lemma show_int_unique:
  assumes eq: "show_int m @ r = show_int n @ q" and ends: "json_end r" "json_end q"
  shows "m = n \<and> r = q"
proof -
  have nat: "a = b \<and> r = q" if "show_nat a @ r = show_nat b @ q" for a b
    using digits_append_unique [OF _ _ _ _ that] ends show_nat_digits json_end_not_digit show_nat_inj
    by metis
  have neg: "show_nat a @ x \<noteq> CHR ''-'' # y" for a x y
    using show_nat_digits [of a] by (cases "show_nat a") (auto simp: is_digit_def)
  show ?thesis
  proof (cases "m < 0"; cases "n < 0")
    assume "m < 0" "n < 0"
    with eq nat [of "nat (- m)" "nat (- n)"] show ?thesis by (auto simp: show_int_def)
  next
    assume "\<not> m < 0" "\<not> n < 0"
    with eq nat [of "nat m" "nat n"] show ?thesis by (auto simp: show_int_def)
  next
    assume "m < 0" "\<not> n < 0"
    with eq neg [of "nat n" q] show ?thesis by (simp add: show_int_def) metis
  next
    assume "\<not> m < 0" "n < 0"
    with eq neg [of "nat m" r] show ?thesis by (simp add: show_int_def)
  qed
qed

lemma show_int_hd: "\<exists>c s. show_int n = c # s \<and> (c = CHR ''-'' \<or> is_digit c)"
  using show_nat_digits [of "nat n"] show_nat_digits [of "nat (- n)"]
  by (cases "show_nat (nat n)") (auto simp: show_int_def)

lemma show_int_Cons:
  "show_int n @ q = c # x \<Longrightarrow> c = CHR ''-'' \<or> is_digit c"
  using show_int_hd [of n] by auto

lemma show_int_Cons':
  "c # x = show_int n @ q \<Longrightarrow> c = CHR ''-'' \<or> is_digit c"
  using show_int_hd [of n] by auto

lemma json_text_hd: "\<exists>c s. json_text j = c # s \<and> c \<notin> {CHR '']'', CHR '','', CHR ''}''}"
  using show_int_hd [of "case j of JInt n \<Rightarrow> n"]
  by (cases j) (auto simp: json_str_def is_digit_def)

lemmas json_hd_simps = json_str_def is_digit_def

lemma json_text_unique:
  "json_text j @ r = json_text j' @ q \<Longrightarrow> json_end r \<Longrightarrow> json_end q \<Longrightarrow> j = j' \<and> r = q"
and json_items_unique:
  "json_items xs @ r = json_items ys @ q \<Longrightarrow> xs = ys \<and> r = q"
and json_members_unique:
  "json_members kvs @ r = json_members lws @ q \<Longrightarrow> kvs = lws \<and> r = q"
proof (induction j and xs and kvs arbitrary: j' r q and ys r q and lws r q
    rule: json_text_json_items_json_members.induct)
  case 1
  then show ?case
    by (cases j') (auto simp: json_hd_simps split: if_splits dest: show_int_Cons')
next
  case (2 b)
  then show ?case
    by (cases j') (auto simp: json_hd_simps split: if_splits dest: show_int_Cons')
next
  case (3 n)
  then show ?case
  proof (cases j')
    case (JInt m)
    with 3 show_int_unique [of n r m q] show ?thesis by simp
  qed (use 3 show_int_hd [of n] in \<open>auto simp: json_hd_simps split: if_splits\<close>)
next
  case (4 s)
  then show ?case
  proof (cases j')
    case (JStr t)
    with 4 json_str_unique [of s r t q] show ?thesis by simp
  qed (auto simp: json_hd_simps split: if_splits dest: show_int_Cons')
next
  case (5 xs)
  show ?case
  proof (cases j')
    case (JList ys)
    with "5.prems" "5.IH" [of r ys q] show ?thesis by simp
  qed (use "5.prems"(1) in \<open>auto simp: json_hd_simps split: if_splits dest: show_int_Cons'\<close>)
next
  case (6 kvs)
  show ?case
  proof (cases j')
    case (JObj lws)
    with "6.prems" "6.IH" [of r lws q] show ?thesis by simp
  qed (use "6.prems"(1) in \<open>auto simp: json_hd_simps split: if_splits dest: show_int_Cons'\<close>)
next
  case 7
  show ?case
  proof (cases ys)
    case (Cons y ys')
    with 7 json_text_hd [of y] show ?thesis by auto
  qed (use 7 in simp)
next
  case (8 x xs)
  show ?case
  proof (cases ys)
    case Nil
    with "8.prems" json_text_hd [of x] show ?thesis by auto
  next
    case (Cons y ys')
    have "x = y \<and> (if xs = [] then '']'' else CHR '','' # json_items xs) @ r =
        (if ys' = [] then '']'' else CHR '','' # json_items ys') @ q"
      by (rule "8.IH"(1)) (use "8.prems" Cons in \<open>simp_all split: if_splits\<close>)
    with "8.IH"(2) [of r ys' q] Cons show ?thesis by (simp split: if_splits)
  qed
next
  case 9
  show ?case
  proof (cases lws)
    case (Cons p lws')
    with 9 show ?thesis by (cases p) (simp add: json_str_def)
  qed (use 9 in simp)
next
  case (10 k v kvs)
  show ?case
  proof (cases lws)
    case Nil
    with "10.prems" show ?thesis by (simp add: json_str_def)
  next
    case (Cons p lws')
    obtain k' v' where p: "p = (k', v')" by (cases p)
    have k: "k = k' \<and> CHR '':'' # json_text v @ (if kvs = [] then ''}'' else CHR '','' # json_members kvs) @ r =
        CHR '':'' # json_text v' @ (if lws' = [] then ''}'' else CHR '','' # json_members lws') @ q"
      by (rule json_str_unique) (use "10.prems" Cons p in simp)
    have "v = v' \<and> (if kvs = [] then ''}'' else CHR '','' # json_members kvs) @ r =
        (if lws' = [] then ''}'' else CHR '','' # json_members lws') @ q"
      by (rule "10.IH"(1)) (use k in \<open>simp_all split: if_splits\<close>)
    with "10.IH"(2) [of r lws' q] Cons p k show ?thesis by (simp split: if_splits)
  qed
qed

lemma json_text_inj: "json_text j = json_text j' \<Longrightarrow> j = j'"
  using json_text_unique [of j "[]" j' "[]"] by simp

lemma char_of_inj: "char_of a = (char_of b :: char) \<Longrightarrow> a < 256 \<Longrightarrow> b < 256 \<Longrightarrow> a = (b :: nat)"
  by (metis mod_less of_char_of)

lemma char_below_256: "of_char c < (256 :: nat)"
  by (rule nat_of_char_less_256)

lemma utf8_lead_not_ascii: "c \<noteq> char_of (192 + of_char d div (64::nat))" if "of_char c < (128::nat)"
proof
  assume "c = char_of (192 + of_char d div (64::nat))"
  then have "of_char c = (192 + of_char d div 64 :: nat) mod 256" by simp
  moreover have "192 + of_char d div 64 < (256 :: nat)"
    using char_below_256 [of d] by linarith
  ultimately show False using that by simp
qed

lemma utf8_pair_inj:
  assumes "char_of (192 + of_char c div (64::nat)) = (char_of (192 + of_char d div (64::nat)) :: char)"
    and "char_of (128 + of_char c mod (64::nat)) = (char_of (128 + of_char d mod (64::nat)) :: char)"
  shows "c = d"
proof -
  have "192 + of_char c div 64 = (192 + of_char d div 64 :: nat)"
    by (rule char_of_inj [OF assms(1)]) (use char_below_256 [of c] char_below_256 [of d] in linarith)+
  moreover have "128 + of_char c mod 64 = (128 + of_char d mod 64 :: nat)"
    by (rule char_of_inj [OF assms(2)])
      (use mod_less_divisor [of 64 "of_char c"] mod_less_divisor [of 64 "of_char d"] in linarith)+
  ultimately have "of_char c = (of_char d :: nat)"
    by (metis add_left_cancel div_mult_mod_eq)
  then show ?thesis by simp
qed

lemma utf8_char_prefix: "utf8_char c @ x = utf8_char d @ y \<Longrightarrow> c = d \<and> x = y"
  using utf8_lead_not_ascii [of c d] utf8_lead_not_ascii [of d c] utf8_pair_inj [of c d]
  by (simp add: utf8_char_def Let_def split: if_splits)

lemma utf8_char_nonempty: "utf8_char c \<noteq> []"
  by (simp add: utf8_char_def Let_def)

lemma utf8_inj: "utf8 s = utf8 t \<Longrightarrow> s = t"
  unfolding utf8_def
proof (induction s arbitrary: t)
  case Nil
  then show ?case by (cases t) (simp_all add: utf8_char_nonempty)
next
  case (Cons c s)
  then show ?case
    by (cases t) (auto simp: utf8_char_nonempty dest: utf8_char_prefix)
qed

text \<open>Equal bytes mean equal data up to the order of object members.\<close>

lemma canonical_bytes_inj:
  "utf8 (json_dumps j) = utf8 (json_dumps j') \<Longrightarrow> json_sort j = json_sort j'"
  unfolding json_dumps_def by (blast dest: utf8_inj json_text_inj)

end
