(* ===== verification/Char_Bits.thy ===== *)
theory Char_Bits
  imports Stack_Identity
begin

text \<open>
  The tests on characters, restated on the bits of a character. These equations only make the
  evaluation of the witnesses fast: code equations for \<open>lower_hex\<close>, \<open>utf8_char\<close> and \<open>json_esc\<close>.
\<close>

lemma char_bits_of:
  "(of_char (Char b0 b1 b2 b3 b4 b5 b6 b7) :: nat) = of_bool b0 + 2 * of_bool b1 + 4 * of_bool b2 + 8 * of_bool b3
     + 16 * of_bool b4 + 32 * of_bool b5 + 64 * of_bool b6 + 128 * of_bool b7"
  by simp

lemma lower_hex_bits [code]:
  "lower_hex (Char b0 b1 b2 b3 b4 b5 b6 b7) =
     (\<not> b7 \<and> b5 \<and> (if b6 then \<not> b4 \<and> \<not> b3 \<and> (b0 \<or> b1 \<or> b2) \<and> \<not> (b0 \<and> b1 \<and> b2) else b4 \<and> (b3 \<longrightarrow> \<not> b2 \<and> \<not> b1)))"
  unfolding lower_hex_def char_bits_of Let_def
  by (cases b7; cases b6; cases b5; cases b4; cases b3; cases b2; cases b1; simp)

lemma utf8_char_bits [code]:
  "utf8_char (Char b0 b1 b2 b3 b4 b5 b6 b7) =
     (if b7 then (let n = of_char (Char b0 b1 b2 b3 b4 b5 b6 b7) :: nat in [char_of (192 + n div 64), char_of (128 + n mod 64)])
      else [Char b0 b1 b2 b3 b4 b5 b6 b7])"
  unfolding utf8_char_def char_bits_of Let_def
  by (cases b7; cases b6; cases b5; cases b4; cases b3; cases b2; cases b1; simp)

definition json_control :: "char \<Rightarrow> string" where
  "json_control c =
     (if c = CHR 0x0A then [CHR 0x5C, CHR ''n'']
      else if c = CHR 0x0D then [CHR 0x5C, CHR ''r'']
      else if c = CHR 0x09 then [CHR 0x5C, CHR ''t'']
      else if c = CHR 0x0C then [CHR 0x5C, CHR ''f'']
      else if c = CHR 0x08 then [CHR 0x5C, CHR ''b'']
      else let n = of_char c :: nat in
        if n < 32 then [CHR 0x5C, CHR ''u'', CHR ''0'', CHR ''0'', hex_char (n div 16), hex_char (n mod 16)]
        else [c])"

lemma json_esc_control: "json_esc c =
   (if c = CHR 0x22 then [CHR 0x5C, CHR 0x22] else if c = CHR 0x5C then [CHR 0x5C, CHR 0x5C] else json_control c)"
  unfolding json_esc_def json_control_def by (rule refl)

lemma json_control_plain:
  assumes "b5 \<or> b6 \<or> b7"
  shows "json_control (Char b0 b1 b2 b3 b4 b5 b6 b7) = [Char b0 b1 b2 b3 b4 b5 b6 b7]"
proof -
  have "\<not> (of_char (Char b0 b1 b2 b3 b4 b5 b6 b7) :: nat) < 32" unfolding char_bits_of using assms by auto
  then show ?thesis unfolding json_control_def Let_def using assms by (simp only: char.inject if_False) auto
qed

lemma json_esc_bits [code]:
  "json_esc (Char b0 b1 b2 b3 b4 b5 b6 b7) =
     (if b7 then [Char b0 b1 b2 b3 b4 b5 b6 b7]
      else if b6 then (if \<not> b5 \<and> b4 \<and> b3 \<and> b2 \<and> \<not> b1 \<and> \<not> b0 then [CHR 0x5C, CHR 0x5C] else [Char b0 b1 b2 b3 b4 b5 b6 b7])
      else if b5 then (if \<not> b4 \<and> \<not> b3 \<and> \<not> b2 \<and> b1 \<and> \<not> b0 then [CHR 0x5C, CHR 0x22] else [Char b0 b1 b2 b3 b4 b5 b6 b7])
      else json_control (Char b0 b1 b2 b3 b4 b5 b6 b7))"
  by (auto simp: json_esc_control json_control_plain)

fun bits_below :: "bool list \<Rightarrow> bool list \<Rightarrow> bool \<Rightarrow> bool" where
  "bits_below (b # bs) (c # cs) r = bits_below bs cs (if b then c \<and> r else c \<or> r)"
| "bits_below _ _ r = r"

lemma bit_step:
  "of_bool b + 2 * m < of_bool c + 2 * n \<or> of_bool b + 2 * m = of_bool c + 2 * n \<and> r \<longleftrightarrow>
     m < n \<or> m = n \<and> (if b then c \<and> r else c \<or> r)" for m n :: nat
  by (cases b; cases c; cases r; simp; arith)

lemma bits_below_horner:
  "length bs = length cs \<Longrightarrow> bits_below bs cs r \<longleftrightarrow>
     (let m = horner_sum of_bool 2 bs :: nat; n = horner_sum of_bool 2 cs in m < n \<or> m = n \<and> r)"
proof (induction bs cs arbitrary: r rule: list_induct2)
  case (Cons b bs c cs)
  show ?case unfolding bits_below.simps Cons.IH Let_def horner_sum_simps bit_step ..
qed simp

lemma char_order_bits [code]:
  "Char b0 b1 b2 b3 b4 b5 b6 b7 \<le> Char c0 c1 c2 c3 c4 c5 c6 c7 \<longleftrightarrow>
     bits_below [b0, b1, b2, b3, b4, b5, b6, b7] [c0, c1, c2, c3, c4, c5, c6, c7] True"
  "Char b0 b1 b2 b3 b4 b5 b6 b7 < Char c0 c1 c2 c3 c4 c5 c6 c7 \<longleftrightarrow>
     bits_below [b0, b1, b2, b3, b4, b5, b6, b7] [c0, c1, c2, c3, c4, c5, c6, c7] False"
  by (simp_all only: bits_below_horner less_eq_char_def less_char_def of_char_Char Let_def list.size simp_thms le_less)

end
