(* ===== verification/Strict.thy ===== *)
theory Strict
  imports Char_Bits
begin

text \<open>
  \<open>optima/_strict.py\<close>: the shared validation kernel. Every validator takes the caller's
  exception class as its constructor \<open>err\<close>, checks an arbitrary Python value and returns
  the typed value. The dataclass constructors of the other components are built from these;
  keyword arguments are a list of field names with values (\<open>kwargs\<close>).
\<close>

section \<open>Validators\<close>

definition zero_digest :: string where
  "zero_digest = replicate 64 (CHR ''0'')"

definition require_digest ::
    "pyval \<Rightarrow> string \<Rightarrow> (string \<Rightarrow> py_error) \<Rightarrow> bool \<Rightarrow> bool \<Rightarrow> py_error + string" where
  "require_digest v field err allow_zero optional =
     (if optional \<and> py_eq_str v [] then Inr []
      else case require_sha256_hex v field of
             Inl e \<Rightarrow> Inl (err (err_text e))
           | Inr d \<Rightarrow>
               if \<not> allow_zero \<and> d = zero_digest
               then Inl (err (field @ '' must not be the all-zero digest''))
               else Inr d)"

definition int_within :: "int option \<Rightarrow> int option \<Rightarrow> int \<Rightarrow> bool" where
  "int_within lo hi n =
     ((case lo of None \<Rightarrow> True | Some m \<Rightarrow> m \<le> n) \<and> (case hi of None \<Rightarrow> True | Some m \<Rightarrow> n \<le> m))"

definition require_int ::
    "pyval \<Rightarrow> string \<Rightarrow> (string \<Rightarrow> py_error) \<Rightarrow> int option \<Rightarrow> int option \<Rightarrow> py_error + int" where
  "require_int v field err minimum maximum =
     (let fail = Inl (err (case (minimum, maximum) of
            (Some lo, Some hi) \<Rightarrow>
              field @ '' must be an integer in ['' @ show_int lo @ '', '' @ show_int hi @ '']''
          | (Some lo, None) \<Rightarrow> field @ '' must be an integer >= '' @ show_int lo
          | (None, Some hi) \<Rightarrow> field @ '' must be an integer <= '' @ show_int hi
          | (None, None) \<Rightarrow> field @ '' must be an integer''))
      in case v of
           PyInt n \<Rightarrow> if int_within minimum maximum n then Inr n else fail
         | _ \<Rightarrow> fail)"

definition require_identifier ::
    "pyval \<Rightarrow> string \<Rightarrow> (string \<Rightarrow> py_error) \<Rightarrow> (string \<Rightarrow> bool) \<Rightarrow> py_error + string" where
  "require_identifier v field err pattern =
     (case v of
        PyStr s \<Rightarrow> if pattern s then Inr s else Inl (err (field @ '' is not a canonical identifier''))
      | _ \<Rightarrow> Inl (err (field @ '' is not a canonical identifier'')))"

text \<open>The names of the keys, when all of them are strings.\<close>

fun str_keys :: "(pyval \<times> pyval) list \<Rightarrow> (string \<times> pyval) list option" where
  "str_keys [] = Some []"
| "str_keys ((PyStr k, v) # d) = map_option (\<lambda>r. (k, v) # r) (str_keys d)"
| "str_keys (_ # d) = None"

text \<open>\<open>repr\<close> of a sorted tuple of names that need no escapes.\<close>

definition show_name :: "string \<Rightarrow> string" where
  "show_name s = CHR 0x27 # s @ [CHR 0x27]"

fun show_names :: "string list \<Rightarrow> string" where
  "show_names [] = []"
| "show_names [s] = show_name s"
| "show_names (s # ss) = show_name s @ '', '' @ show_names ss"

definition show_strs :: "string list \<Rightarrow> string" where
  "show_strs xs = (case sort xs of
       [s] \<Rightarrow> ''('' @ show_name s @ '',)''
     | ss \<Rightarrow> ''('' @ show_names ss @ '')'')"

definition require_exact_fields ::
    "pyval \<Rightarrow> string list \<Rightarrow> string \<Rightarrow> (string \<Rightarrow> py_error) \<Rightarrow> py_error + (string \<times> pyval) list" where
  "require_exact_fields v flds label err =
     (case v of
        PyDict d \<Rightarrow>
          (case str_keys d of
             None \<Rightarrow> Inl (err (label @ '' keys must be strings''))
           | Some row \<Rightarrow>
               if set (map fst row) = set flds then Inr row
               else Inl (err (label @ '' fields mismatch: missing='' @
                      show_strs (filter (\<lambda>f. f \<notin> set (map fst row)) flds) @ '', extra='' @
                      show_strs (filter (\<lambda>f. f \<notin> set flds) (map fst row)))))
      | _ \<Rightarrow> Inl (err (label @ '' must be a JSON object'')))"

definition duplicate_key_pairs ::
    "(string \<times> pyval) list \<Rightarrow> string \<Rightarrow> (string \<Rightarrow> py_error) \<Rightarrow> py_error + (string \<times> pyval) list" where
  "duplicate_key_pairs pairs label err =
     foldE (\<lambda>(k, v) result.
         if k \<in> fst ` set result then Inl (err (label @ '' contains duplicate key '' @ k))
         else Inr (dict_set k v result)) pairs []"

definition lower_char :: "char \<Rightarrow> char" where
  "lower_char c = (let n = of_char c :: nat in
     if (65 \<le> n \<and> n \<le> 90) \<or> (192 \<le> n \<and> n \<le> 222 \<and> n \<noteq> 215) then char_of (n + 32) else c)"

definition truthy_flag :: "string option \<Rightarrow> bool" where
  "truthy_flag v = (map lower_char (py_strip (case v of None \<Rightarrow> [] | Some s \<Rightarrow> s))
     \<in> set [''1'', ''true'', ''yes'', ''on''])"

text \<open>\<open>getattr(self, field)\<close> of a dataclass built from keyword arguments.\<close>

definition kwarg :: "(string \<times> pyval) list \<Rightarrow> string \<Rightarrow> pyval" where
  "kwarg row field = (case map_of row field of None \<Rightarrow> PyNone | Some v \<Rightarrow> v)"

definition kwargs_of :: "(string \<times> json) list \<Rightarrow> (string \<times> pyval) list" where
  "kwargs_of flds = map (\<lambda>(k, j). (k, py_of_json j)) flds"

text \<open>
  A list of strings. A list with an element that is no string is always refused by the callers:
  \<open>sorted(set(...))\<close> raises \<open>TypeError\<close> on what cannot be hashed or compared, and the validator of
  the elements raises on the rest. The model gives one error for both.
\<close>

definition str_items :: "pyval list \<Rightarrow> string \<Rightarrow> py_error + string list" where
  "str_items vs field = mapE (\<lambda>v. case v of PyStr s \<Rightarrow> Inr s | _ \<Rightarrow> Inl (PyTypeError field)) vs"

text \<open>The hotkey pattern \<open>[^\s]{1,256}\Z\<close> and the bounded reason text of several modules.\<close>

definition is_hotkey :: "string \<Rightarrow> bool" where
  "is_hotkey s = (1 \<le> length s \<and> length s \<le> 256 \<and> list_all (\<lambda>c. \<not> py_space c) s)"

definition require_hotkey :: "pyval \<Rightarrow> string \<Rightarrow> (string \<Rightarrow> py_error) \<Rightarrow> py_error + string" where
  "require_hotkey v field err =
     (case v of
        PyStr s \<Rightarrow> if is_hotkey s then Inr s else Inl (err (field @ '' is malformed''))
      | _ \<Rightarrow> Inl (err (field @ '' is malformed'')))"

definition reason_ok :: "string \<Rightarrow> bool" where
  "reason_ok s = (s \<noteq> [] \<and> length s \<le> 2048 \<and> \<not> has_control s)"

section \<open>What acceptance means\<close>

definition is_digest :: "string \<Rightarrow> bool" where
  "is_digest s = (is_sha256_hex s \<and> s \<noteq> zero_digest)"

text \<open>
  What \<open>hashlib.sha256(...).hexdigest()\<close> documents: 64 lower-case hexadecimal digits; the
  validators also refuse the all-zero digest, of which no preimage is known.
\<close>

definition sha256_digests :: "py_env \<Rightarrow> bool" where
  "sha256_digests E \<longleftrightarrow> (\<forall>b. is_digest (sha256_hexdigest E b))"

lemma is_sha256_hex_Nil [simp]: "\<not> is_sha256_hex []"
  by (simp add: is_sha256_hex_def)

lemma require_digest_eq_Inr [err_simps]:
  "require_digest v field err False False = Inr d \<longleftrightarrow> v = PyStr d \<and> is_digest d"
  by (cases v) (auto simp: require_digest_def require_sha256_hex_def is_digest_def split: if_splits)

lemma require_digest_optional [err_simps]:
  "require_digest v field err False True = Inr d \<longleftrightarrow> v = PyStr d \<and> (d = [] \<or> is_digest d)"
  by (cases v) (auto simp: require_digest_def require_sha256_hex_def is_digest_def split: if_splits)

lemma require_digest_PyStr [simp]:
  "is_digest d \<Longrightarrow> require_digest (PyStr d) field err False False = Inr d"
  by (simp add: require_digest_eq_Inr)

lemma require_int_eq_Inr [err_simps]:
  "require_int v field err lo hi = Inr n \<longleftrightarrow> v = PyInt n \<and> int_within lo hi n"
  by (cases v) (auto simp: require_int_def Let_def)

lemma require_int_PyInt [simp]:
  "int_within lo hi n \<Longrightarrow> require_int (PyInt n) field err lo hi = Inr n"
  by (simp add: require_int_eq_Inr)

lemma int_within_simps [simp]:
  "int_within None None n"
  "int_within (Some a) None n \<longleftrightarrow> a \<le> n"
  "int_within None (Some b) n \<longleftrightarrow> n \<le> b"
  "int_within (Some a) (Some b) n \<longleftrightarrow> a \<le> n \<and> n \<le> b"
  by (simp_all add: int_within_def)

lemma require_hotkey_eq_Inr [err_simps]:
  "require_hotkey v field err = Inr h \<longleftrightarrow> v = PyStr h \<and> is_hotkey h"
  by (cases v) (auto simp: require_hotkey_def split: if_splits)

lemma require_hotkey_PyStr [simp]: "is_hotkey h \<Longrightarrow> require_hotkey (PyStr h) field err = Inr h"
  by (simp add: require_hotkey_eq_Inr)

lemma require_identifier_eq_Inr [err_simps]:
  "require_identifier v field err pat = Inr s \<longleftrightarrow> v = PyStr s \<and> pat s"
  by (cases v) (auto simp: require_identifier_def)

lemma str_keys_json [simp]:
  "str_keys (map (\<lambda>(k, j). (PyStr k, py_of_json j)) kvs) = Some (kwargs_of kvs)"
  by (induction kvs) (auto simp: kwargs_of_def)

lemma str_keys_Some: "str_keys d = Some row \<longleftrightarrow> d = map (\<lambda>(k, v). (PyStr k, v)) row"
proof (induction d arbitrary: row rule: str_keys.induct)
  case (2 k v d)
  then show ?case by (cases row) auto
qed auto

lemma map_fst_kwargs_of [simp]: "map fst (kwargs_of kvs) = map fst kvs"
  by (simp add: kwargs_of_def comp_def case_prod_beta)

lemma require_exact_fields_json [simp]:
  "set (map fst kvs) = set flds \<Longrightarrow>
     require_exact_fields (py_of_json (JObj kvs)) flds label err = Inr (kwargs_of kvs)"
  using map_fst_kwargs_of [of kvs]
  by (simp add: require_exact_fields_def del: map_fst_kwargs_of set_map)

lemma require_exact_fields_eq_Inr:
  "require_exact_fields v flds label err = Inr row \<longleftrightarrow>
     v = PyDict (map (\<lambda>(k, w). (PyStr k, w)) row) \<and> fst ` set row = set flds"
proof (cases v)
  case (PyDict d)
  show ?thesis
  proof (cases "str_keys d")
    case None
    then have "d \<noteq> map (\<lambda>(k, w). (PyStr k, w)) row" using str_keys_Some [of d row] by simp
    with None PyDict show ?thesis by (simp add: require_exact_fields_def)
  next
    case (Some r)
    then have "d = map (\<lambda>(k, w). (PyStr k, w)) row \<longleftrightarrow> r = row"
      using str_keys_Some [of d row] by auto
    with Some PyDict show ?thesis by (auto simp: require_exact_fields_def)
  qed
qed (simp_all add: require_exact_fields_def)

lemma kwarg_kwargs_of [simp]:
  "kwarg (kwargs_of ((k, j) # kvs)) f = (if f = k then py_of_json j else kwarg (kwargs_of kvs) f)"
  by (simp add: kwarg_def kwargs_of_def)

text \<open>The hook that \<open>json.loads\<close> runs keeps a JSON object exactly when its keys differ.\<close>

lemma duplicate_key_pairs_ok:
  "duplicate_key_pairs pairs label err = Inr d \<longleftrightarrow> distinct (map fst pairs) \<and> d = pairs"
proof -
  let ?f = "\<lambda>(k, v) result. if k \<in> fst ` set result
      then Inl (err (label @ '' contains duplicate key '' @ k)) else Inr (dict_set k v result)"
  have "distinct (map fst acc) \<Longrightarrow>
      foldE ?f ps acc = Inr d \<longleftrightarrow> distinct (map fst (acc @ ps)) \<and> d = acc @ ps" for ps acc
  proof (induction ps arbitrary: acc)
    case (Cons p ps)
    obtain k v where p: "p = (k, v)" by (cases p)
    show ?case
    proof (cases "k \<in> fst ` set acc")
      case True
      then show ?thesis by (auto simp: p)
    next
      case False
      with Cons.IH [of "acc @ [(k, v)]"] Cons.prems show ?thesis
        by (auto simp: p dict_set_new)
    qed
  qed auto
  from this [of "[]" pairs] show ?thesis by (simp add: duplicate_key_pairs_def)
qed

end
