(* ===== verification/Py_Decimal.thy ===== *)
theory Py_Decimal
  imports Strict
begin

text \<open>
  The part of Python's \<open>decimal\<close> that the economics uses: parsing, comparison with an
  integer, \<open>normalize\<close> in the default context (28 digits, half even, \<open>Emax\<close> 999999),
  \<open>format(..., 'f')\<close>, and arithmetic rounded towards minus infinity at a given precision.
  On top of it, \<open>finite_debt._canonical_decimal\<close>: a speedup is accepted only in its one
  canonical spelling.
\<close>

section \<open>Numbers\<close>

text \<open>\<open>DFin neg c e\<close> is \<open>\<plusminus>c \<cdot> 10\<^sup>e\<close>; \<open>DSpecial\<close> is an infinity or a NaN.\<close>

datatype decimal = DFin bool nat int | DSpecial

definition ten_pow :: "int \<Rightarrow> rat" where
  "ten_pow e = (if 0 \<le> e then 10 ^ nat e else 1 / 10 ^ nat (- e))"

fun dec_value :: "decimal \<Rightarrow> rat" where
  "dec_value (DFin neg c e) = (if neg then - 1 else 1) * of_nat c * ten_pow e"
| "dec_value DSpecial = 0"

fun ndigits :: "nat \<Rightarrow> nat" where
  "ndigits n = (if n < 10 then 1 else Suc (ndigits (n div 10)))"

declare ndigits.simps [simp del]

section \<open>Parsing\<close>

definition lower_text :: "string \<Rightarrow> string" where
  "lower_text s = map lower_char s"

definition dec_special_text :: "string \<Rightarrow> bool" where
  "dec_special_text t =
     (let u = lower_text t;
          nan = (\<lambda>v. take 3 v = ''nan'' \<and> list_all is_digit (drop 3 v))
      in u = ''inf'' \<or> u = ''infinity'' \<or> nan u \<or> (take 1 u = ''s'' \<and> nan (drop 1 u)))"

definition dec_exponent :: "string \<Rightarrow> int option" where
  "dec_exponent t =
     (let digits = (\<lambda>r. if r \<noteq> [] \<and> list_all is_digit r then Some (int (read_nat r)) else None)
      in case t of
           [] \<Rightarrow> Some 0
         | c # r \<Rightarrow>
             if c = CHR ''e'' \<or> c = CHR ''E'' then
               (case r of
                  [] \<Rightarrow> None
                | d # r' \<Rightarrow>
                    if d = CHR ''-'' then map_option uminus (digits r')
                    else if d = CHR ''+'' then digits r' else digits r)
             else None)"

definition dec_unsigned :: "bool \<Rightarrow> string \<Rightarrow> decimal option" where
  "dec_unsigned neg t =
     (if dec_special_text t then Some DSpecial
      else let whole = takeWhile is_digit t;
               rest = dropWhile is_digit t;
               frac = (case rest of c # r \<Rightarrow> if c = CHR ''.'' then takeWhile is_digit r else [] | [] \<Rightarrow> []);
               tail = (case rest of c # r \<Rightarrow> if c = CHR ''.'' then dropWhile is_digit r else rest | [] \<Rightarrow> [])
           in if whole @ frac = [] then None
              else case dec_exponent tail of
                     None \<Rightarrow> None
                   | Some e \<Rightarrow>
                       let c = read_nat (whole @ frac); e' = e - int (length frac)
                       in if 999999999999999999 < e' + int (ndigits c) - 1 then None
                          else Some (DFin neg c e'))"

text \<open>\<open>Decimal(text)\<close>; \<open>None\<close> is \<open>InvalidOperation\<close>.\<close>

definition dec_parse :: "string \<Rightarrow> decimal option" where
  "dec_parse s =
     (case filter (\<lambda>c. c \<noteq> CHR ''_'') (py_strip s) of
        [] \<Rightarrow> None
      | c # r \<Rightarrow>
          if c = CHR ''-'' then dec_unsigned True r
          else if c = CHR ''+'' then dec_unsigned False r
          else dec_unsigned False (c # r))"

section \<open>Normalising and printing\<close>

definition dec_round28 :: "nat \<Rightarrow> int \<Rightarrow> nat \<times> int" where
  "dec_round28 c e =
     (let d = ndigits c in
      if d \<le> 28 then (c, e)
      else let s = d - 28; q = c div 10 ^ s; r = c mod 10 ^ s; half = 5 * 10 ^ (s - 1);
               q' = (if half < r \<or> (r = half \<and> odd q) then q + 1 else q)
           in (q', e + int s))"

fun strip_zeros :: "nat \<Rightarrow> int \<Rightarrow> nat \<times> int" where
  "strip_zeros c e = (if c \<noteq> 0 \<and> 10 dvd c then strip_zeros (c div 10) (e + 1) else (c, e))"

declare strip_zeros.simps [simp del]

text \<open>\<open>normalize()\<close> of a positive number; a result above \<open>Emax\<close> raises \<open>Overflow\<close>.\<close>

definition dec_normalize :: "nat \<Rightarrow> int \<Rightarrow> py_error + (nat \<times> int)" where
  "dec_normalize c e =
     (let (c', e') = dec_round28 c e in
      if 999999 < e' + int (ndigits c') - 1 then Inl DecimalOverflow
      else Inr (strip_zeros c' e'))"

definition dec_format_f :: "nat \<Rightarrow> int \<Rightarrow> string" where
  "dec_format_f c e =
     (let ds = show_nat c in
      if 0 \<le> e then ds @ replicate (nat e) (CHR ''0'')
      else let k = nat (- e) in
        if k < length ds then take (length ds - k) ds @ ''.'' @ drop (length ds - k) ds
        else ''0.'' @ replicate (k - length ds) (CHR ''0'') @ ds)"

definition rstrip_char :: "char \<Rightarrow> string \<Rightarrow> string" where
  "rstrip_char c s = rev (dropWhile (\<lambda>x. x = c) (rev s))"

definition dec_canonical_text :: "nat \<Rightarrow> int \<Rightarrow> string" where
  "dec_canonical_text c e =
     (let t = dec_format_f c e in
      if CHR ''.'' \<in> set t then rstrip_char (CHR ''.'') (rstrip_char (CHR ''0'') t) else t)"

text \<open>
  \<open>finite_debt._canonical_decimal\<close> with an integer minimum; the result is the text and the
  exact value. All its callers use minimum 1.
\<close>

definition canonical_decimal ::
    "pyval \<Rightarrow> string \<Rightarrow> int \<Rightarrow> bool \<Rightarrow> py_error + (string \<times> rat)" where
  "canonical_decimal v field minimum strict =
     (case v of
        PyStr s \<Rightarrow>
          (case dec_parse s of
             None \<Rightarrow> Inl (FiniteDebtError (field @ '' is not decimal''))
           | Some d \<Rightarrow>
               let fail = Inl (FiniteDebtError (field @ '' must be finite and '' @
                     (if strict then ''greater than '' else ''at least '') @ show_int minimum))
               in case d of
                    DSpecial \<Rightarrow> fail
                  | DFin neg c e \<Rightarrow>
                      if (if strict then dec_value d \<le> of_int minimum else dec_value d < of_int minimum)
                      then fail
                      else bindE (dec_normalize c e) (\<lambda>(c', e').
                        let canonical = dec_canonical_text c' e' in
                        if s \<noteq> canonical
                        then Inl (FiniteDebtError
                          (field @ '' must use canonical decimal spelling '' @ show_name canonical))
                        else Inr (canonical, dec_value d)))
      | _ \<Rightarrow> Inl (FiniteDebtError (field @ '' must be a canonical decimal string'')))"

section \<open>Arithmetic rounded towards minus infinity\<close>

definition dec_scaled_floor :: "rat \<Rightarrow> int \<Rightarrow> int" where
  "dec_scaled_floor q e = \<lfloor>q / ten_pow e\<rfloor>"

text \<open>A number rounded down to \<open>p\<close> significant digits.\<close>

definition dec_floor_prec :: "nat \<Rightarrow> rat \<Rightarrow> rat" where
  "dec_floor_prec p q =
     (if q = 0 then 0
      else let (a, b) = quotient_of q;
               e = int (ndigits (nat \<bar>a\<bar>)) - int (ndigits (nat b)) - int p;
               e' = (if 10 ^ p \<le> \<bar>dec_scaled_floor q e\<bar> then e + 1 else e)
           in of_int (dec_scaled_floor q e') * ten_pow e')"

section \<open>Facts\<close>

lemma canonical_decimal_text:
  "canonical_decimal v field m strict = Inr (s, q) \<Longrightarrow> v = PyStr s"
  by (auto simp: canonical_decimal_def Let_def err_simps split: pyval.splits option.splits
      decimal.splits if_splits)

lemma canonical_decimal_bound:
  "canonical_decimal v field m strict = Inr (s, q) \<Longrightarrow>
     of_int m \<le> q \<and> (strict \<longrightarrow> of_int m < q)"
  by (auto simp: canonical_decimal_def Let_def err_simps split: pyval.splits option.splits
      decimal.splits if_splits)

text \<open>
  The reading of an accepted spelling; it does not depend on the field name that the caller
  reports.
\<close>

definition decimal_reading :: "string \<Rightarrow> int \<Rightarrow> bool \<Rightarrow> rat option" where
  "decimal_reading s m strict =
     (case canonical_decimal (PyStr s) [] m strict of Inl _ \<Rightarrow> None | Inr (_, q) \<Rightarrow> Some q)"

lemma canonical_decimal_field:
  "canonical_decimal v field m strict = Inr r \<Longrightarrow> canonical_decimal v field' m strict = Inr r"
  by (auto simp: canonical_decimal_def Let_def err_simps split: pyval.splits option.splits
      decimal.splits if_splits)

lemma canonical_decimal_eq_Inr [err_simps]:
  "canonical_decimal v field m strict = Inr (s, q) \<longleftrightarrow> v = PyStr s \<and> decimal_reading s m strict = Some q"
proof
  assume h: "canonical_decimal v field m strict = Inr (s, q)"
  then have v: "v = PyStr s" by (rule canonical_decimal_text)
  with canonical_decimal_field [OF h, of "[]"] show "v = PyStr s \<and> decimal_reading s m strict = Some q"
    by (simp add: decimal_reading_def)
next
  assume h: "v = PyStr s \<and> decimal_reading s m strict = Some q"
  then obtain t where t: "canonical_decimal (PyStr s) [] m strict = Inr (t, q)"
    by (auto simp: decimal_reading_def split: sum.splits)
  then have "t = s" using canonical_decimal_text by blast
  with t h show "canonical_decimal v field m strict = Inr (s, q)"
    using canonical_decimal_field by blast
qed

lemma canonical_decimal_PyStr [simp]:
  "decimal_reading s m strict = Some q \<Longrightarrow> canonical_decimal (PyStr s) field m strict = Inr (s, q)"
  by (simp add: canonical_decimal_eq_Inr)

lemma decimal_reading_bound:
  "decimal_reading s m strict = Some q \<Longrightarrow> of_int m \<le> q \<and> (strict \<longrightarrow> of_int m < q)"
  using canonical_decimal_bound [of "PyStr s" "[]" m strict s q] by simp

text \<open>Integers of at most \<open>p\<close> digits are exact.\<close>

lemma dec_scaled_floor_int:
  assumes "e \<le> 0"
  shows "of_int (dec_scaled_floor (of_int n) e) * ten_pow e = (of_int n :: rat)"
proof -
  define k where "k = nat (- e)"
  have t: "ten_pow e = 1 / 10 ^ k"
    using assms by (cases "e = 0") (simp_all add: ten_pow_def k_def)
  have "dec_scaled_floor (of_int n) e = n * 10 ^ k"
  proof -
    have "(of_int n :: rat) / (1 / 10 ^ k) = of_int (n * 10 ^ k)" by simp
    then show ?thesis unfolding dec_scaled_floor_def t by (simp only: floor_of_int)
  qed
  then show ?thesis by (simp add: t)
qed

lemma dec_floor_prec_int:
  assumes "n \<noteq> 0" "ndigits (nat \<bar>n\<bar>) \<le> p"
  shows "dec_floor_prec p (of_int n) = of_int n"
  using assms dec_scaled_floor_int [of _ n]
  by (simp add: dec_floor_prec_def Let_def ndigits.simps [of "Suc 0"] quotient_of_int)

end
