(* ===== verification/Finite_Debt.thy ===== *)
theory Finite_Debt
  imports Py_Decimal
begin

text \<open>
  \<open>optima/finite_debt.py\<close>, first half: the finite-debt policy, the issuance arithmetic, the
  immutable claim and its balance. A dataclass is a \<open>record\<close>; its constructor with
  \<open>__post_init__\<close> is \<open><Class>_init\<close> on keyword arguments; \<open><Class>_fields\<close> are the members of
  \<open>to_dict\<close>; \<open><Class>_new\<close> runs the constructor on typed values; \<open><Class>_from_dict\<close> and
  \<open><Class>_digest\<close> are the methods of these names.
\<close>

section \<open>Constants and validators\<close>

definition PPM :: int where "PPM = 1000000"

definition REFERENCE_EPOCH_UNITS :: int where "REFERENCE_EPOCH_UNITS = PPM"

definition MAX_ACTIVE_CAMPAIGNS :: nat where "MAX_ACTIVE_CAMPAIGNS = 2"

definition DECIMAL_PRECISION :: nat where "DECIMAL_PRECISION = 80"

definition IMPROVEMENT_BASES :: "string list" where
  "IMPROVEMENT_BASES = [''gross'', ''excess_over_threshold'']"

definition BALANCE_STATUSES :: "string list" where
  "BALANCE_STATUSES = [''open'', ''paid'', ''expired'', ''cancelled'']"

definition fd_integer :: "pyval \<Rightarrow> string \<Rightarrow> int \<Rightarrow> int option \<Rightarrow> py_error + int" where
  "fd_integer v field minimum maximum = require_int v field FiniteDebtError (Some minimum) maximum"

definition fd_digest :: "pyval \<Rightarrow> string \<Rightarrow> py_error + string" where
  "fd_digest v field = require_digest v field FiniteDebtError False False"

definition fd_hotkey :: "pyval \<Rightarrow> string \<Rightarrow> py_error + string" where
  "fd_hotkey v field = require_hotkey v field FiniteDebtError"

definition fd_strict :: "pyval \<Rightarrow> string list \<Rightarrow> string \<Rightarrow> py_error + (string \<times> pyval) list" where
  "fd_strict v flds label = require_exact_fields v flds label FiniteDebtError"

lemma fd_eq_Inr [err_simps]:
  "fd_integer v field lo hi = Inr n \<longleftrightarrow> v = PyInt n \<and> int_within (Some lo) hi n"
  "fd_digest v field = Inr d \<longleftrightarrow> v = PyStr d \<and> is_digest d"
  "fd_hotkey v field = Inr h \<longleftrightarrow> v = PyStr h \<and> is_hotkey h"
  by (simp_all add: fd_integer_def fd_digest_def fd_hotkey_def err_simps)

lemma fd_ok [simp]:
  "lo \<le> n \<Longrightarrow> fd_integer (PyInt n) field lo None = Inr n"
  "lo \<le> n \<Longrightarrow> n \<le> hi \<Longrightarrow> fd_integer (PyInt n) field lo (Some hi) = Inr n"
  "is_digest d \<Longrightarrow> fd_digest (PyStr d) field = Inr d"
  "is_hotkey h \<Longrightarrow> fd_hotkey (PyStr h) field = Inr h"
  by (simp_all add: err_simps)

section \<open>Campaign shares and reward families\<close>

record CampaignBudgetShare =
  cbs_campaign_id :: string
  cbs_share_ppm :: int

definition CampaignBudgetShare_init :: "(string \<times> pyval) list \<Rightarrow> py_error + CampaignBudgetShare" where
  "CampaignBudgetShare_init row =
     bindE (fd_digest (kwarg row ''campaign_id'') ''campaign_id'') (\<lambda>c.
     bindE (fd_integer (kwarg row ''share_ppm'') ''campaign share_ppm'' 1 (Some PPM)) (\<lambda>s.
     Inr \<lparr>cbs_campaign_id = c, cbs_share_ppm = s\<rparr>))"

definition CampaignBudgetShare_fields :: "CampaignBudgetShare \<Rightarrow> (string \<times> json) list" where
  "CampaignBudgetShare_fields r =
     [(''campaign_id'', JStr (cbs_campaign_id r)), (''share_ppm'', JInt (cbs_share_ppm r))]"

definition CampaignBudgetShare_new :: "string \<Rightarrow> int \<Rightarrow> py_error + CampaignBudgetShare" where
  "CampaignBudgetShare_new c s =
     CampaignBudgetShare_init (kwargs_of
       (CampaignBudgetShare_fields \<lparr>cbs_campaign_id = c, cbs_share_ppm = s\<rparr>))"

definition CampaignBudgetShare_from_dict :: "pyval \<Rightarrow> py_error + CampaignBudgetShare" where
  "CampaignBudgetShare_from_dict v =
     bindE (fd_strict v [''campaign_id'', ''share_ppm''] ''campaign budget share'')
       CampaignBudgetShare_init"

record RewardFamilyCampaign =
  rfc_family_id :: string
  rfc_campaign_id :: string

definition RewardFamilyCampaign_init :: "(string \<times> pyval) list \<Rightarrow> py_error + RewardFamilyCampaign" where
  "RewardFamilyCampaign_init row =
     bindE (fd_digest (kwarg row ''family_id'') ''family_id'') (\<lambda>f.
     bindE (fd_digest (kwarg row ''campaign_id'') ''campaign_id'') (\<lambda>c.
     Inr \<lparr>rfc_family_id = f, rfc_campaign_id = c\<rparr>))"

definition RewardFamilyCampaign_fields :: "RewardFamilyCampaign \<Rightarrow> (string \<times> json) list" where
  "RewardFamilyCampaign_fields r =
     [(''campaign_id'', JStr (rfc_campaign_id r)), (''family_id'', JStr (rfc_family_id r))]"

definition RewardFamilyCampaign_from_dict :: "pyval \<Rightarrow> py_error + RewardFamilyCampaign" where
  "RewardFamilyCampaign_from_dict v =
     bindE (fd_strict v [''family_id'', ''campaign_id''] ''reward-family campaign'')
       RewardFamilyCampaign_init"

definition equal_campaign_budget_shares :: "string list \<Rightarrow> py_error + CampaignBudgetShare list" where
  "equal_campaign_budget_shares ids =
     bindE (mapE (\<lambda>i. fd_digest (PyStr i) ''campaign_id'') ids) (\<lambda>ds.
     let campaigns = sort ds in
     if campaigns = [] \<or> length (remdups campaigns) \<noteq> length campaigns then
       Inl (FiniteDebtError ''campaign catalog must be nonempty and unique'')
     else if MAX_ACTIVE_CAMPAIGNS < length campaigns then
       Inl (FiniteDebtError ''policy supports at most two active campaigns'')
     else let share = PPM div int (length campaigns) in
       mapE (\<lambda>c. CampaignBudgetShare_new c share) campaigns)"

section \<open>The policy\<close>

record FiniteDebtPolicyManifest =
  fdp_campaign_budget_shares :: "CampaignBudgetShare list"
  fdp_reward_family_campaigns :: "RewardFamilyCampaign list"
  fdp_selection_report_digest :: string
  fdp_reserve_hotkey :: string
  fdp_reserve_ppm :: int
  fdp_epoch_blocks :: int
  fdp_beta_ppm :: int
  fdp_tau_blocks :: int
  fdp_lifetime_blocks :: int
  fdp_k_ppm :: int
  fdp_improvement_basis :: string
  fdp_clock_reset_threshold_log_units_ppm :: int
  fdp_schema_version :: pyval
  fdp_policy_version :: string

definition FDP_SCHEMA_VERSION :: int where "FDP_SCHEMA_VERSION = 2"

definition FDP_POLICY_VERSION :: string where "FDP_POLICY_VERSION = ''optima.finite-debt.v2''"

definition FiniteDebtPolicyManifest_init ::
    "CampaignBudgetShare list \<Rightarrow> RewardFamilyCampaign list \<Rightarrow> (string \<times> pyval) list \<Rightarrow>
     py_error + FiniteDebtPolicyManifest" where
  "FiniteDebtPolicyManifest_init shares0 mappings0 row =
     (let shares = sort_key cbs_campaign_id shares0;
          budget_error = Inl (FiniteDebtError
            ''campaign budget must be one 100% campaign or two 50% campaigns'')
      in if shares = [] \<or> length (remdups (map cbs_campaign_id shares)) \<noteq> length shares
      then budget_error else
      bindE (equal_campaign_budget_shares (map cbs_campaign_id shares)) (\<lambda>equal.
      if shares \<noteq> equal then budget_error else
      let mappings = sort_key rfc_family_id mappings0 in
      if mappings = [] \<or> length (remdups (map rfc_family_id mappings)) \<noteq> length mappings
        \<or> set (map rfc_campaign_id mappings) \<noteq> set (map cbs_campaign_id shares)
      then Inl (FiniteDebtError
        ''every reward family must map once and every campaign must have a family'') else
      bindE (fd_digest (kwarg row ''selection_report_digest'') ''selection_report_digest'') (\<lambda>report.
      bindE (fd_hotkey (kwarg row ''reserve_hotkey'') ''reserve_hotkey'') (\<lambda>reserve_hotkey.
      bindE (fd_integer (kwarg row ''reserve_ppm'') ''reserve_ppm'' 0 (Some (PPM - 1))) (\<lambda>reserve.
      let reference_pool = (PPM - reserve) * REFERENCE_EPOCH_UNITS div PPM in
      if \<exists>s \<in> set shares. reference_pool * cbs_share_ppm s div PPM \<le> 0
      then Inl (FiniteDebtError ''a campaign reference claim pool rounds to zero'') else
      bindE (fd_integer (kwarg row ''epoch_blocks'') ''epoch_blocks'' 1 None) (\<lambda>epoch.
      bindE (fd_integer (kwarg row ''beta_ppm'') ''beta_ppm'' 0 (Some PPM)) (\<lambda>beta.
      bindE (fd_integer (kwarg row ''tau_blocks'') ''tau_blocks'' 1 None) (\<lambda>tau.
      bindE (fd_integer (kwarg row ''lifetime_blocks'') ''lifetime_blocks'' 1 None) (\<lambda>lifetime.
      bindE (fd_integer (kwarg row ''k_ppm'') ''k_ppm'' 1 None) (\<lambda>k.
      bindE (py_in_strs (kwarg row ''improvement_basis'') IMPROVEMENT_BASES) (\<lambda>supported.
      if \<not> supported then Inl (FiniteDebtError ''improvement_basis is unsupported'') else
      bindE (fd_integer (kwarg row ''clock_reset_threshold_log_units_ppm'')
        ''clock_reset_threshold_log_units_ppm'' 1 None) (\<lambda>threshold.
      if \<not> py_eq_int (kwarg row ''schema_version'') FDP_SCHEMA_VERSION
      then Inl (FiniteDebtError ''finite-debt policy schema_version is unsupported'') else
      if \<not> py_eq_str (kwarg row ''policy_version'') FDP_POLICY_VERSION
      then Inl (FiniteDebtError ''finite-debt policy_version is unsupported'') else
      Inr \<lparr>fdp_campaign_budget_shares = shares, fdp_reward_family_campaigns = mappings,
           fdp_selection_report_digest = report, fdp_reserve_hotkey = reserve_hotkey,
           fdp_reserve_ppm = reserve, fdp_epoch_blocks = epoch, fdp_beta_ppm = beta,
           fdp_tau_blocks = tau, fdp_lifetime_blocks = lifetime, fdp_k_ppm = k,
           fdp_improvement_basis =
             (case kwarg row ''improvement_basis'' of PyStr s \<Rightarrow> s | _ \<Rightarrow> []),
           fdp_clock_reset_threshold_log_units_ppm = threshold,
           fdp_schema_version = kwarg row ''schema_version'',
           fdp_policy_version = FDP_POLICY_VERSION\<rparr>))))))))))))"

definition campaign_shares :: "FiniteDebtPolicyManifest \<Rightarrow> (string \<times> int) list" where
  "campaign_shares p =
     dict_of (map (\<lambda>r. (cbs_campaign_id r, cbs_share_ppm r)) (fdp_campaign_budget_shares p))"

definition family_ids :: "FiniteDebtPolicyManifest \<Rightarrow> string list" where
  "family_ids p = map rfc_family_id (fdp_reward_family_campaigns p)"

definition campaign_for_family :: "FiniteDebtPolicyManifest \<Rightarrow> string \<Rightarrow> py_error + string" where
  "campaign_for_family p family_id =
     bindE (fd_digest (PyStr family_id) ''family_id'') (\<lambda>family.
     case find (\<lambda>r. rfc_family_id r = family) (fdp_reward_family_campaigns p) of
       None \<Rightarrow> Inl (FiniteDebtError ''claim family is absent from the policy campaign map'')
     | Some r \<Rightarrow> Inr (rfc_campaign_id r))"

definition campaign_share_ppm_for_family ::
    "FiniteDebtPolicyManifest \<Rightarrow> string \<Rightarrow> py_error + int" where
  "campaign_share_ppm_for_family p family_id =
     bindE (campaign_for_family p family_id) (\<lambda>c.
     case map_of (campaign_shares p) c of None \<Rightarrow> Inl (PyKeyError c) | Some s \<Rightarrow> Inr s)"

definition reference_claim_pool_units :: "FiniteDebtPolicyManifest \<Rightarrow> int" where
  "reference_claim_pool_units p = (PPM - fdp_reserve_ppm p) * REFERENCE_EPOCH_UNITS div PPM"

definition FiniteDebtPolicyManifest_to_dict :: "FiniteDebtPolicyManifest \<Rightarrow> pyval" where
  "FiniteDebtPolicyManifest_to_dict p = PyDict
     [(PyStr ''beta_ppm'', PyInt (fdp_beta_ppm p)),
      (PyStr ''campaign_budget_shares'', PyList (map (\<lambda>r. py_of_json (JObj (CampaignBudgetShare_fields r)))
         (fdp_campaign_budget_shares p))),
      (PyStr ''clock_reset_threshold_log_units_ppm'', PyInt (fdp_clock_reset_threshold_log_units_ppm p)),
      (PyStr ''epoch_blocks'', PyInt (fdp_epoch_blocks p)),
      (PyStr ''improvement_basis'', PyStr (fdp_improvement_basis p)),
      (PyStr ''k_ppm'', PyInt (fdp_k_ppm p)),
      (PyStr ''lifetime_blocks'', PyInt (fdp_lifetime_blocks p)),
      (PyStr ''policy_version'', PyStr (fdp_policy_version p)),
      (PyStr ''reserve_hotkey'', PyStr (fdp_reserve_hotkey p)),
      (PyStr ''reserve_ppm'', PyInt (fdp_reserve_ppm p)),
      (PyStr ''reward_family_campaigns'', PyList (map (\<lambda>r. py_of_json (JObj (RewardFamilyCampaign_fields r)))
         (fdp_reward_family_campaigns p))),
      (PyStr ''schema_version'', fdp_schema_version p),
      (PyStr ''selection_report_digest'', PyStr (fdp_selection_report_digest p)),
      (PyStr ''tau_blocks'', PyInt (fdp_tau_blocks p))]"

definition fdp_field_names :: "string list" where
  "fdp_field_names =
     [''campaign_budget_shares'', ''reward_family_campaigns'', ''selection_report_digest'',
      ''reserve_hotkey'', ''reserve_ppm'', ''epoch_blocks'', ''beta_ppm'', ''tau_blocks'',
      ''lifetime_blocks'', ''k_ppm'', ''improvement_basis'', ''clock_reset_threshold_log_units_ppm'',
      ''schema_version'', ''policy_version'']"

definition FiniteDebtPolicyManifest_from_dict :: "pyval \<Rightarrow> py_error + FiniteDebtPolicyManifest" where
  "FiniteDebtPolicyManifest_from_dict v =
     bindE (fd_strict v fdp_field_names ''finite-debt policy'') (\<lambda>row.
     case kwarg row ''campaign_budget_shares'' of
       PyList shares \<Rightarrow>
         (case kwarg row ''reward_family_campaigns'' of
            PyList mappings \<Rightarrow>
              bindE (mapE CampaignBudgetShare_from_dict shares) (\<lambda>ss.
              bindE (mapE RewardFamilyCampaign_from_dict mappings) (\<lambda>ms.
              FiniteDebtPolicyManifest_init ss ms row))
          | _ \<Rightarrow> Inl (FiniteDebtError ''reward_family_campaigns must be an array''))
     | _ \<Rightarrow> Inl (FiniteDebtError ''campaign_budget_shares must be an array''))"

definition FiniteDebtPolicyManifest_digest ::
    "py_env \<Rightarrow> FiniteDebtPolicyManifest \<Rightarrow> py_error + string" where
  "FiniteDebtPolicyManifest_digest E p =
     canonical_digest E ''optima.finite-debt.policy'' (FiniteDebtPolicyManifest_to_dict p) 1"

section \<open>Issuance arithmetic\<close>

definition log_improvement_units_ppm :: "py_env \<Rightarrow> string \<Rightarrow> string \<Rightarrow> string \<Rightarrow> py_error + int" where
  "log_improvement_units_ppm E settled_speedup basis threshold_speedup =
     (if basis \<notin> set IMPROVEMENT_BASES then Inl (FiniteDebtError ''improvement basis is unsupported'') else
      bindE (canonical_decimal (PyStr settled_speedup) ''settled_speedup'' 1 True) (\<lambda>(_, speed).
      bindE (canonical_decimal (PyStr threshold_speedup) ''threshold_speedup'' 1 False)
        (\<lambda>(threshold_text, threshold).
      bindE (if basis = ''gross''
             then (if threshold_text \<noteq> ''1''
                   then Inl (FiniteDebtError (''gross improvement requires threshold_speedup='' @ show_name ''1''))
                   else Inr speed)
             else (if speed \<le> threshold
                   then Inl (FiniteDebtError ''excess-over-threshold speedup must exceed its threshold'')
                   else Inr (dec_floor_prec DECIMAL_PRECISION (speed / threshold)))) (\<lambda>effective.
      let units = dec_floor_prec DECIMAL_PRECISION
            (dec_floor_prec DECIMAL_PRECISION (decimal_ln E effective / decimal_ln E (101 / 100))
              * of_int PPM);
          result = \<lfloor>units\<rfloor>
      in if result \<le> 0
         then Inl (FiniteDebtError ''improvement rounds to zero 1%-log-unit ppm'')
         else Inr result))))"

definition rational_time_multiplier_ppm ::
    "FiniteDebtPolicyManifest \<Rightarrow> int \<Rightarrow> int option \<Rightarrow> py_error + int" where
  "rational_time_multiplier_ppm p accepted_crown_block prior_accepted_crown_block =
     bindE (fd_integer (PyInt accepted_crown_block) ''accepted_crown_block'' 0 None) (\<lambda>current.
     case prior_accepted_crown_block of
       None \<Rightarrow> Inr PPM
     | Some prior0 \<Rightarrow>
         bindE (fd_integer (PyInt prior0) ''prior_accepted_crown_block'' 0 None) (\<lambda>prior.
         if current < prior
         then Inl (FiniteDebtError ''prior family crown is newer than the accepted crown'')
         else let delta = current - prior;
                  bonus = fdp_beta_ppm p * delta div (delta + fdp_tau_blocks p);
                  result = PPM + bonus
              in if PPM + fdp_beta_ppm p < result
                 then Inl (FiniteDebtError ''rational time multiplier exceeded its cap'')
                 else Inr result))"

definition resets_family_clock :: "FiniteDebtPolicyManifest \<Rightarrow> int \<Rightarrow> py_error + bool" where
  "resets_family_clock p log_units_ppm =
     bindE (fd_integer (PyInt log_units_ppm) ''log_units_ppm'' 0 None) (\<lambda>units.
     Inr (0 < units \<and> fdp_clock_reset_threshold_log_units_ppm p \<le> units))"

definition claim_principal_units ::
    "FiniteDebtPolicyManifest \<Rightarrow> string \<Rightarrow> int \<Rightarrow> int \<Rightarrow> py_error + (string \<times> int \<times> int \<times> int)" where
  "claim_principal_units p family_id log_units_ppm time_multiplier_ppm =
     bindE (campaign_for_family p family_id) (\<lambda>campaign_id.
     bindE (campaign_share_ppm_for_family p family_id) (\<lambda>campaign_share.
     let campaign_pool = reference_claim_pool_units p * campaign_share div PPM;
         principal = campaign_pool * fdp_k_ppm p * log_units_ppm * time_multiplier_ppm
           div (PPM * PPM * PPM)
     in if campaign_pool \<le> 0 \<or> principal \<le> 0
        then Inl (FiniteDebtError ''claim principal rounds to zero'')
        else Inr (campaign_id, campaign_share, campaign_pool, principal)))"

section \<open>The claim\<close>

record InnovationDebtClaim =
  idc_policy_digest :: string
  idc_family_id :: string
  idc_campaign_id :: string
  idc_candidate_digest :: string
  idc_retained_evidence_digest :: string
  idc_hotkey :: string
  idc_settled_speedup :: string
  idc_threshold_speedup :: string
  idc_accepted_crown_block :: int
  idc_prior_accepted_crown_block :: "int option"
  idc_settlement_block :: int
  idc_expires_block :: int
  idc_campaign_budget_ppm :: int
  idc_reference_campaign_pool_units :: int
  idc_log_units_ppm :: int
  idc_time_multiplier_ppm :: int
  idc_principal_units :: int
  idc_resets_clock :: bool

definition claim_prior :: "int \<Rightarrow> pyval \<Rightarrow> py_error + int option" where
  "claim_prior accepted v =
     (if v = PyNone then Inr None
      else bindE (fd_integer v ''prior_accepted_crown_block'' 0 None) (\<lambda>prior.
        if accepted < prior
        then Inl (FiniteDebtError ''claim prior family crown is newer than this crown'')
        else Inr (Some prior)))"

definition InnovationDebtClaim_init :: "(string \<times> pyval) list \<Rightarrow> py_error + InnovationDebtClaim" where
  "InnovationDebtClaim_init row =
     bindE (fd_digest (kwarg row ''policy_digest'') ''policy_digest'') (\<lambda>policy_digest.
     bindE (fd_digest (kwarg row ''family_id'') ''family_id'') (\<lambda>family_id.
     bindE (fd_digest (kwarg row ''campaign_id'') ''campaign_id'') (\<lambda>campaign_id.
     bindE (fd_digest (kwarg row ''candidate_digest'') ''candidate_digest'') (\<lambda>candidate_digest.
     bindE (fd_digest (kwarg row ''retained_evidence_digest'') ''retained_evidence_digest'') (\<lambda>evidence.
     bindE (fd_hotkey (kwarg row ''hotkey'') ''hotkey'') (\<lambda>hotkey.
     bindE (canonical_decimal (kwarg row ''settled_speedup'') ''settled_speedup'' 1 True) (\<lambda>(speed_text, _).
     bindE (canonical_decimal (kwarg row ''threshold_speedup'') ''threshold_speedup'' 1 False)
       (\<lambda>(threshold_text, _).
     bindE (fd_integer (kwarg row ''accepted_crown_block'') ''accepted_crown_block'' 0 None) (\<lambda>accepted.
     bindE (fd_integer (kwarg row ''settlement_block'') ''settlement_block'' 0 None) (\<lambda>settlement.
     bindE (fd_integer (kwarg row ''expires_block'') ''expires_block'' 0 None) (\<lambda>expiry.
     if settlement < accepted \<or> expiry \<le> settlement
     then Inl (FiniteDebtError ''claim reveal, settlement, and expiry chronology is invalid'') else
     bindE (claim_prior accepted (kwarg row ''prior_accepted_crown_block'')) (\<lambda>prior.
     bindE (fd_integer (kwarg row ''campaign_budget_ppm'') ''campaign_budget_ppm'' 1 (Some PPM)) (\<lambda>budget.
     bindE (fd_integer (kwarg row ''reference_campaign_pool_units'')
       ''reference_campaign_pool_units'' 1 None) (\<lambda>pool.
     bindE (fd_integer (kwarg row ''log_units_ppm'') ''log_units_ppm'' 1 None) (\<lambda>units.
     bindE (fd_integer (kwarg row ''time_multiplier_ppm'') ''time_multiplier_ppm'' PPM None) (\<lambda>multiplier.
     bindE (fd_integer (kwarg row ''principal_units'') ''principal_units'' 1 None) (\<lambda>principal.
     case kwarg row ''resets_clock'' of
       PyBool resets \<Rightarrow>
         Inr \<lparr>idc_policy_digest = policy_digest, idc_family_id = family_id,
              idc_campaign_id = campaign_id, idc_candidate_digest = candidate_digest,
              idc_retained_evidence_digest = evidence, idc_hotkey = hotkey,
              idc_settled_speedup = speed_text, idc_threshold_speedup = threshold_text,
              idc_accepted_crown_block = accepted, idc_prior_accepted_crown_block = prior,
              idc_settlement_block = settlement, idc_expires_block = expiry,
              idc_campaign_budget_ppm = budget, idc_reference_campaign_pool_units = pool,
              idc_log_units_ppm = units, idc_time_multiplier_ppm = multiplier,
              idc_principal_units = principal, idc_resets_clock = resets\<rparr>
     | _ \<Rightarrow> Inl (FiniteDebtError ''resets_clock must be boolean''))))))))))))))))))"

definition InnovationDebtClaim_fields :: "InnovationDebtClaim \<Rightarrow> (string \<times> json) list" where
  "InnovationDebtClaim_fields r =
     [(''policy_digest'', JStr (idc_policy_digest r)),
      (''family_id'', JStr (idc_family_id r)),
      (''campaign_id'', JStr (idc_campaign_id r)),
      (''candidate_digest'', JStr (idc_candidate_digest r)),
      (''retained_evidence_digest'', JStr (idc_retained_evidence_digest r)),
      (''hotkey'', JStr (idc_hotkey r)),
      (''settled_speedup'', JStr (idc_settled_speedup r)),
      (''threshold_speedup'', JStr (idc_threshold_speedup r)),
      (''accepted_crown_block'', JInt (idc_accepted_crown_block r)),
      (''prior_accepted_crown_block'', json_of_option JInt (idc_prior_accepted_crown_block r)),
      (''settlement_block'', JInt (idc_settlement_block r)),
      (''expires_block'', JInt (idc_expires_block r)),
      (''campaign_budget_ppm'', JInt (idc_campaign_budget_ppm r)),
      (''reference_campaign_pool_units'', JInt (idc_reference_campaign_pool_units r)),
      (''log_units_ppm'', JInt (idc_log_units_ppm r)),
      (''time_multiplier_ppm'', JInt (idc_time_multiplier_ppm r)),
      (''principal_units'', JInt (idc_principal_units r)),
      (''resets_clock'', JBool (idc_resets_clock r))]"

definition InnovationDebtClaim_new :: "InnovationDebtClaim \<Rightarrow> py_error + InnovationDebtClaim" where
  "InnovationDebtClaim_new r = InnovationDebtClaim_init (kwargs_of (InnovationDebtClaim_fields r))"

definition idc_field_names :: "string list" where
  "idc_field_names =
     [''policy_digest'', ''family_id'', ''campaign_id'', ''candidate_digest'',
      ''retained_evidence_digest'', ''hotkey'', ''settled_speedup'', ''threshold_speedup'',
      ''accepted_crown_block'', ''prior_accepted_crown_block'', ''settlement_block'',
      ''expires_block'', ''campaign_budget_ppm'', ''reference_campaign_pool_units'',
      ''log_units_ppm'', ''time_multiplier_ppm'', ''principal_units'', ''resets_clock'']"

definition InnovationDebtClaim_from_dict :: "pyval \<Rightarrow> py_error + InnovationDebtClaim" where
  "InnovationDebtClaim_from_dict v =
     bindE (fd_strict v idc_field_names ''innovation debt claim'') InnovationDebtClaim_init"

definition InnovationDebtClaim_digest :: "py_env \<Rightarrow> InnovationDebtClaim \<Rightarrow> string" where
  "InnovationDebtClaim_digest E r =
     json_digest E ''optima.finite-debt.claim'' (JObj (InnovationDebtClaim_fields r))"

definition InnovationDebtClaim_validate_policy ::
    "py_env \<Rightarrow> InnovationDebtClaim \<Rightarrow> FiniteDebtPolicyManifest \<Rightarrow> py_error + unit" where
  "InnovationDebtClaim_validate_policy E c p =
     bindE (FiniteDebtPolicyManifest_digest E p) (\<lambda>policy_digest.
     if idc_policy_digest c \<noteq> policy_digest
     then Inl (FiniteDebtError ''claim differs from its finite-debt policy'') else
     bindE (log_improvement_units_ppm E (idc_settled_speedup c) (fdp_improvement_basis p)
       (idc_threshold_speedup c)) (\<lambda>units.
     bindE (rational_time_multiplier_ppm p (idc_accepted_crown_block c)
       (idc_prior_accepted_crown_block c)) (\<lambda>multiplier.
     bindE (claim_principal_units p (idc_family_id c) units multiplier)
       (\<lambda>(campaign, campaign_share, campaign_pool, principal).
     bindE (resets_family_clock p units) (\<lambda>resets.
     if idc_expires_block c \<noteq> idc_settlement_block c + fdp_lifetime_blocks p
        \<or> idc_campaign_id c \<noteq> campaign
        \<or> idc_campaign_budget_ppm c \<noteq> campaign_share
        \<or> idc_reference_campaign_pool_units c \<noteq> campaign_pool
        \<or> idc_log_units_ppm c \<noteq> units
        \<or> idc_time_multiplier_ppm c \<noteq> multiplier
        \<or> idc_principal_units c \<noteq> principal
        \<or> idc_resets_clock c \<noteq> resets
     then Inl (FiniteDebtError ''claim derived terms differ from policy arithmetic'')
     else Inr ())))))"

definition issue_innovation_claim ::
    "py_env \<Rightarrow> FiniteDebtPolicyManifest \<Rightarrow> string \<Rightarrow> string \<Rightarrow> string \<Rightarrow> string \<Rightarrow> string \<Rightarrow> string \<Rightarrow>
     int \<Rightarrow> int option \<Rightarrow> int \<Rightarrow> py_error + InnovationDebtClaim" where
  "issue_innovation_claim E p family_id candidate_digest retained_evidence_digest hotkey
       settled_speedup threshold_speedup accepted_crown_block prior_accepted_crown_block
       settlement_block =
     bindE (fd_digest (PyStr family_id) ''family_id'') (\<lambda>family.
     bindE (fd_integer (PyInt accepted_crown_block) ''accepted_crown_block'' 0 None) (\<lambda>accepted.
     bindE (fd_integer (PyInt settlement_block) ''settlement_block'' 0 None) (\<lambda>settled.
     if settled < accepted
     then Inl (FiniteDebtError ''accepted crown cannot be newer than settlement'') else
     bindE (log_improvement_units_ppm E settled_speedup (fdp_improvement_basis p) threshold_speedup)
       (\<lambda>units.
     bindE (rational_time_multiplier_ppm p accepted prior_accepted_crown_block) (\<lambda>multiplier.
     bindE (claim_principal_units p family units multiplier)
       (\<lambda>(campaign, campaign_share, campaign_pool, principal).
     bindE (FiniteDebtPolicyManifest_digest E p) (\<lambda>policy_digest.
     bindE (resets_family_clock p units) (\<lambda>resets.
     bindE (InnovationDebtClaim_new
       \<lparr>idc_policy_digest = policy_digest, idc_family_id = family, idc_campaign_id = campaign,
        idc_candidate_digest = candidate_digest,
        idc_retained_evidence_digest = retained_evidence_digest, idc_hotkey = hotkey,
        idc_settled_speedup = settled_speedup, idc_threshold_speedup = threshold_speedup,
        idc_accepted_crown_block = accepted,
        idc_prior_accepted_crown_block = prior_accepted_crown_block,
        idc_settlement_block = settled, idc_expires_block = settled + fdp_lifetime_blocks p,
        idc_campaign_budget_ppm = campaign_share,
        idc_reference_campaign_pool_units = campaign_pool, idc_log_units_ppm = units,
        idc_time_multiplier_ppm = multiplier, idc_principal_units = principal,
        idc_resets_clock = resets\<rparr>) (\<lambda>claim.
     bindE (InnovationDebtClaim_validate_policy E claim p) (\<lambda>_. Inr claim))))))))))"

section \<open>The balance\<close>

record DebtClaimBalance =
  dcb_claim_digest :: string
  dcb_principal_units :: int
  dcb_paid_units :: int
  dcb_forfeited_units :: int
  dcb_remaining_units :: int
  dcb_status :: string
  dcb_terminal_block :: "int option"
  dcb_terminal_reason :: string

definition balance_terminal :: "string \<Rightarrow> int \<Rightarrow> pyval \<Rightarrow> pyval \<Rightarrow> py_error + int option" where
  "balance_terminal status remaining block reason =
     (if status \<noteq> ''open'' then
        if remaining \<noteq> 0 \<or> block = PyNone \<or> \<not> py_truthy reason
        then Inl (FiniteDebtError ''terminal claim balance is incomplete'')
        else bindE (fd_integer block ''terminal_block'' 0 None) (\<lambda>b. Inr (Some b))
      else if remaining \<le> 0 \<or> block \<noteq> PyNone \<or> py_truthy reason
      then Inl (FiniteDebtError ''open claim balance has terminal state'')
      else Inr None)"

definition DebtClaimBalance_init :: "(string \<times> pyval) list \<Rightarrow> py_error + DebtClaimBalance" where
  "DebtClaimBalance_init row =
     bindE (fd_digest (kwarg row ''claim_digest'') ''claim_digest'') (\<lambda>claim_digest.
     bindE (fd_integer (kwarg row ''principal_units'') ''principal_units'' 1 None) (\<lambda>principal.
     bindE (fd_integer (kwarg row ''paid_units'') ''paid_units'' 0 None) (\<lambda>paid.
     bindE (fd_integer (kwarg row ''forfeited_units'') ''forfeited_units'' 0 None) (\<lambda>forfeited.
     bindE (fd_integer (kwarg row ''remaining_units'') ''remaining_units'' 0 None) (\<lambda>remaining.
     if paid + forfeited + remaining \<noteq> principal
     then Inl (FiniteDebtError ''claim balance does not conserve principal'') else
     bindE (py_in_strs (kwarg row ''status'') BALANCE_STATUSES) (\<lambda>supported.
     if \<not> supported then Inl (FiniteDebtError ''claim balance status is unsupported'') else
     let status = (case kwarg row ''status'' of PyStr s \<Rightarrow> s | _ \<Rightarrow> []);
         block = kwarg row ''terminal_block'';
         reason = kwarg row ''terminal_reason''
     in bindE (balance_terminal status remaining block reason) (\<lambda>terminal_block.
     case reason of
       PyStr why \<Rightarrow>
         if 2048 < length why \<or> has_control why
         then Inl (FiniteDebtError ''terminal_reason is malformed'')
         else if status = ''paid'' \<and> paid \<noteq> principal
         then Inl (FiniteDebtError ''paid claim did not pay its full principal'')
         else if (status = ''expired'' \<or> status = ''cancelled'') \<and> forfeited \<le> 0
         then Inl (FiniteDebtError ''forfeited claim has no forfeited principal'')
         else Inr \<lparr>dcb_claim_digest = claim_digest, dcb_principal_units = principal,
                   dcb_paid_units = paid, dcb_forfeited_units = forfeited,
                   dcb_remaining_units = remaining, dcb_status = status,
                   dcb_terminal_block = terminal_block, dcb_terminal_reason = why\<rparr>
     | _ \<Rightarrow> Inl (FiniteDebtError ''terminal_reason is malformed''))))))))"

definition DebtClaimBalance_fields :: "DebtClaimBalance \<Rightarrow> (string \<times> json) list" where
  "DebtClaimBalance_fields b =
     [(''claim_digest'', JStr (dcb_claim_digest b)),
      (''principal_units'', JInt (dcb_principal_units b)),
      (''paid_units'', JInt (dcb_paid_units b)),
      (''forfeited_units'', JInt (dcb_forfeited_units b)),
      (''remaining_units'', JInt (dcb_remaining_units b)),
      (''status'', JStr (dcb_status b)),
      (''terminal_block'', json_of_option JInt (dcb_terminal_block b)),
      (''terminal_reason'', JStr (dcb_terminal_reason b))]"

definition DebtClaimBalance_new :: "DebtClaimBalance \<Rightarrow> py_error + DebtClaimBalance" where
  "DebtClaimBalance_new b = DebtClaimBalance_init (kwargs_of (DebtClaimBalance_fields b))"

definition DebtClaimBalance_open :: "py_env \<Rightarrow> InnovationDebtClaim \<Rightarrow> py_error + DebtClaimBalance" where
  "DebtClaimBalance_open E c = DebtClaimBalance_new
     \<lparr>dcb_claim_digest = InnovationDebtClaim_digest E c,
      dcb_principal_units = idc_principal_units c, dcb_paid_units = 0, dcb_forfeited_units = 0,
      dcb_remaining_units = idc_principal_units c, dcb_status = ''open'',
      dcb_terminal_block = None, dcb_terminal_reason = []\<rparr>"

definition dcb_field_names :: "string list" where
  "dcb_field_names = [''claim_digest'', ''principal_units'', ''paid_units'', ''forfeited_units'',
     ''remaining_units'', ''status'', ''terminal_block'', ''terminal_reason'']"

definition DebtClaimBalance_from_dict :: "pyval \<Rightarrow> py_error + DebtClaimBalance" where
  "DebtClaimBalance_from_dict v =
     bindE (fd_strict v dcb_field_names ''debt claim balance'') DebtClaimBalance_init"

definition DebtClaimBalance_digest :: "py_env \<Rightarrow> DebtClaimBalance \<Rightarrow> string" where
  "DebtClaimBalance_digest E b =
     json_digest E ''optima.finite-debt.balance'' (JObj (DebtClaimBalance_fields b))"

definition pay_claim_balance ::
    "py_env \<Rightarrow> InnovationDebtClaim \<Rightarrow> DebtClaimBalance \<Rightarrow> int \<Rightarrow> int \<Rightarrow> py_error + DebtClaimBalance" where
  "pay_claim_balance E claim balance amount at_block =
     (if dcb_claim_digest balance \<noteq> InnovationDebtClaim_digest E claim
         \<or> dcb_principal_units balance \<noteq> idc_principal_units claim
      then Inl (FiniteDebtError ''claim and balance differ'') else
      if dcb_status balance \<noteq> ''open''
      then Inl (FiniteDebtError ''only an open claim balance may be paid'') else
      bindE (fd_integer (PyInt amount) ''payment amount'' 1 None) (\<lambda>paid.
      bindE (fd_integer (PyInt at_block) ''payment block'' 0 None) (\<lambda>block.
      if block < idc_settlement_block claim \<or> idc_expires_block claim \<le> block
      then Inl (FiniteDebtError ''claim payment is outside its live settlement window'') else
      if dcb_remaining_units balance < paid
      then Inl (FiniteDebtError ''claim payment exceeds remaining principal'') else
      let remaining = dcb_remaining_units balance - paid in
      DebtClaimBalance_new
        \<lparr>dcb_claim_digest = dcb_claim_digest balance,
         dcb_principal_units = dcb_principal_units balance,
         dcb_paid_units = dcb_paid_units balance + paid,
         dcb_forfeited_units = dcb_forfeited_units balance,
         dcb_remaining_units = remaining,
         dcb_status = (if remaining \<noteq> 0 then ''open'' else ''paid''),
         dcb_terminal_block = (if remaining \<noteq> 0 then None else Some block),
         dcb_terminal_reason = (if remaining \<noteq> 0 then [] else ''principal_paid'')\<rparr>)))"

definition expire_claim_balance ::
    "py_env \<Rightarrow> InnovationDebtClaim \<Rightarrow> DebtClaimBalance \<Rightarrow> int \<Rightarrow> py_error + DebtClaimBalance" where
  "expire_claim_balance E claim balance at_block =
     (if dcb_claim_digest balance \<noteq> InnovationDebtClaim_digest E claim
         \<or> dcb_principal_units balance \<noteq> idc_principal_units claim
      then Inl (FiniteDebtError ''claim and balance differ'') else
      bindE (fd_integer (PyInt at_block) ''expiration block'' 0 None) (\<lambda>block.
      if dcb_status balance \<noteq> ''open'' \<or> block < idc_expires_block claim then Inr balance else
      DebtClaimBalance_new
        \<lparr>dcb_claim_digest = dcb_claim_digest balance,
         dcb_principal_units = dcb_principal_units balance,
         dcb_paid_units = dcb_paid_units balance,
         dcb_forfeited_units = dcb_forfeited_units balance + dcb_remaining_units balance,
         dcb_remaining_units = 0, dcb_status = ''expired'',
         dcb_terminal_block = Some block,
         dcb_terminal_reason = ''claim_lifetime_expired''\<rparr>))"

definition cancel_claim_balance ::
    "py_env \<Rightarrow> InnovationDebtClaim \<Rightarrow> DebtClaimBalance \<Rightarrow> int \<Rightarrow> string \<Rightarrow> py_error + DebtClaimBalance" where
  "cancel_claim_balance E claim balance at_block reason =
     (if dcb_claim_digest balance \<noteq> InnovationDebtClaim_digest E claim
         \<or> dcb_principal_units balance \<noteq> idc_principal_units claim
      then Inl (FiniteDebtError ''claim and balance differ'') else
      bindE (fd_integer (PyInt at_block) ''cancellation block'' 0 None) (\<lambda>block.
      if dcb_status balance \<noteq> ''open'' \<or> block < idc_settlement_block claim
         \<or> reason = [] \<or> 2048 < length reason \<or> has_control reason
      then Inl (FiniteDebtError ''claim cancellation is malformed or not open'') else
      DebtClaimBalance_new
        \<lparr>dcb_claim_digest = dcb_claim_digest balance,
         dcb_principal_units = dcb_principal_units balance,
         dcb_paid_units = dcb_paid_units balance,
         dcb_forfeited_units = dcb_forfeited_units balance + dcb_remaining_units balance,
         dcb_remaining_units = 0, dcb_status = ''cancelled'',
         dcb_terminal_block = Some block, dcb_terminal_reason = reason\<rparr>))"

section \<open>Claim and balance together\<close>

record DebtClaimState =
  dcs_claim :: InnovationDebtClaim
  dcs_balance :: DebtClaimBalance

definition DebtClaimState_new ::
    "py_env \<Rightarrow> InnovationDebtClaim \<Rightarrow> DebtClaimBalance \<Rightarrow> py_error + DebtClaimState" where
  "DebtClaimState_new E claim balance =
     (if dcb_claim_digest balance \<noteq> InnovationDebtClaim_digest E claim
         \<or> dcb_principal_units balance \<noteq> idc_principal_units claim
      then Inl (FiniteDebtError ''debt claim and balance differ'') else
      if (case dcb_terminal_block balance of None \<Rightarrow> False
          | Some terminal \<Rightarrow> terminal < idc_settlement_block claim)
      then Inl (FiniteDebtError ''claim balance terminal block predates settlement'') else
      if dcb_status balance = ''expired'' \<and> (case dcb_terminal_block balance of None \<Rightarrow> False
          | Some terminal \<Rightarrow> terminal < idc_expires_block claim)
      then Inl (FiniteDebtError ''claim balance expired before its lifetime ended'') else
      Inr \<lparr>dcs_claim = claim, dcs_balance = balance\<rparr>)"

definition DebtClaimState_fields :: "DebtClaimState \<Rightarrow> (string \<times> json) list" where
  "DebtClaimState_fields st =
     [(''balance'', JObj (DebtClaimBalance_fields (dcs_balance st))),
      (''claim'', JObj (InnovationDebtClaim_fields (dcs_claim st)))]"

definition DebtClaimState_from_dict :: "py_env \<Rightarrow> pyval \<Rightarrow> py_error + DebtClaimState" where
  "DebtClaimState_from_dict E v =
     bindE (fd_strict v [''balance'', ''claim''] ''debt claim state'') (\<lambda>row.
     bindE (InnovationDebtClaim_from_dict (kwarg row ''claim'')) (\<lambda>claim.
     bindE (DebtClaimBalance_from_dict (kwarg row ''balance'')) (\<lambda>balance.
     DebtClaimState_new E claim balance)))"

definition DebtClaimState_digest :: "py_env \<Rightarrow> DebtClaimState \<Rightarrow> string" where
  "DebtClaimState_digest E st =
     json_digest E ''optima.finite-debt.claim-state'' (JObj (DebtClaimState_fields st))"

end
