(* ===== verification/Dataclass.thy ===== *)
theory Dataclass
  imports Strict
begin

text \<open>
  The contract of a frozen dataclass with a strict constructor. Its constructor \<open>init\<close> takes
  keyword arguments, \<open>flds\<close> are the members of \<open>to_dict\<close>, \<open>valid\<close> says which typed values
  the constructor accepts. Round trips through \<open>to_dict\<close>/\<open>from_dict\<close> and the
  non-malleability of \<open>from_dict\<close> are proved once here for every dataclass of the
  development.
\<close>

section \<open>Rewriting success of a constructor\<close>

lemma py_in_strs_eq_Inr [err_simps]:
  "py_in_strs v names = Inr b \<longleftrightarrow> py_hashable v \<and> b = (\<exists>s \<in> set names. v = PyStr s)"
  by (cases v) (auto simp: py_in_strs_def)

text \<open>Matching on the type of a value and raising otherwise.\<close>

lemma case_pyval_eq_Inr [err_simps]:
  "(case v of PyStr s \<Rightarrow> f s | _ \<Rightarrow> Inl e) = Inr y \<longleftrightarrow> (\<exists>s. v = PyStr s \<and> f s = Inr y)"
  "(case v of PyBool b \<Rightarrow> g b | _ \<Rightarrow> Inl e) = Inr y \<longleftrightarrow> (\<exists>b. v = PyBool b \<and> g b = Inr y)"
  "(case v of PyList xs \<Rightarrow> h xs | _ \<Rightarrow> Inl e) = Inr y \<longleftrightarrow> (\<exists>xs. v = PyList xs \<and> h xs = Inr y)"
  by (cases v; simp)+

lemma kwarg_Nil [simp]: "kwarg (kwargs_of []) f = PyNone"
  by (simp add: kwarg_def kwargs_of_def)

lemma py_of_json_option_int:
  "py_of_json (json_of_option JInt x) = (case x of None \<Rightarrow> PyNone | Some n \<Rightarrow> PyInt n)"
  by (cases x) auto

text \<open>A row carries a record when every member of its \<open>to_dict\<close> is the keyword argument.\<close>

definition row_carries :: "(string \<times> pyval) list \<Rightarrow> (string \<times> json) list \<Rightarrow> bool" where
  "row_carries row flds \<longleftrightarrow> (\<forall>(k, j) \<in> set flds. kwarg row k = py_of_json j)"

lemma row_carries_Cons [simp]:
  "row_carries row ((k, j) # flds) \<longleftrightarrow> kwarg row k = py_of_json j \<and> row_carries row flds"
  "row_carries row []"
  by (auto simp: row_carries_def)

lemma row_carries_kwargs_of: "distinct (map fst flds) \<Longrightarrow> row_carries (kwargs_of flds) flds"
proof -
  assume d: "distinct (map fst flds)"
  have "map_of (kwargs_of flds) k = Some (py_of_json j)" if "(k, j) \<in> set flds" for k j
  proof -
    have "distinct (map fst (kwargs_of flds))" using d by simp
    moreover have "(k, py_of_json j) \<in> set (kwargs_of flds)"
      using that by (force simp: kwargs_of_def)
    ultimately show ?thesis by simp
  qed
  then show ?thesis by (auto simp: row_carries_def kwarg_def)
qed

lemma py_of_json_inj: "py_of_json j = py_of_json j' \<Longrightarrow> j = j'"
  by (metis canonical_value_json sum.inject(2))

lemma json_sort_members_map: "json_sort_members kvs = map (\<lambda>(k, v). (k, json_sort v)) kvs"
  by (induction kvs) auto

lemma json_sort_JObj_mset:
  assumes "mset kvs = mset lws" and "distinct (map fst kvs)"
  shows "json_sort (JObj kvs) = json_sort (JObj lws)"
proof -
  let ?f = "\<lambda>(k, v). (k, json_sort v)"
  have "mset (map ?f kvs) = mset (map ?f lws)" using assms(1) by (metis mset_map)
  moreover have "inj_on fst (set (map ?f kvs))"
    using assms(2) by (fastforce simp: distinct_map inj_on_def)
  ultimately show ?thesis
    by (simp add: json_sort_members_map sort_key_inj_key_eq)
qed

section \<open>The contract\<close>

locale dataclass =
  fixes init :: "(string \<times> pyval) list \<Rightarrow> py_error + 'r"
    and flds :: "'r \<Rightarrow> (string \<times> json) list"
    and names :: "string list"
    and valid :: "'r \<Rightarrow> bool"
  assumes init_iff: "init row = Inr r \<longleftrightarrow> valid r \<and> row_carries row (flds r)"
    and flds_keys: "map fst (flds r) = map fst (flds r')"
    and flds_names: "set (map fst (flds r)) = set names"
    and flds_distinct: "distinct (map fst (flds r))"
    and flds_inj: "flds r = flds r' \<Longrightarrow> r = r'"
begin

lemma carries_unique:
  assumes "row_carries row (flds r)" and "row_carries row (flds r')"
  shows "r = r'"
proof -
  have "flds r = flds r'"
  proof (rule nth_equalityI)
    show len: "length (flds r) = length (flds r')" using flds_keys [of r r'] map_eq_imp_length_eq by blast
    fix i assume i: "i < length (flds r)"
    obtain k j where kj: "flds r ! i = (k, j)" by (cases "flds r ! i")
    obtain k' j' where kj': "flds r' ! i = (k', j')" by (cases "flds r' ! i")
    have "k = k'" using flds_keys [of r r'] i len kj kj' by (metis fst_conv nth_map)
    moreover have "(k, j) \<in> set (flds r)" "(k', j') \<in> set (flds r')"
      using i len kj kj' by (metis nth_mem)+
    ultimately have "py_of_json j = py_of_json j'"
      using assms by (fastforce simp: row_carries_def)
    with \<open>k = k'\<close> show "flds r ! i = flds r' ! i" using kj kj' py_of_json_inj by simp
  qed
  then show ?thesis by (rule flds_inj)
qed

text \<open>Constructing from typed values succeeds exactly on valid ones and changes nothing.\<close>

lemma new_iff: "init (kwargs_of (flds r)) = Inr r' \<longleftrightarrow> valid r \<and> r' = r"
  using row_carries_kwargs_of [OF flds_distinct, of r] init_iff carries_unique by metis

lemma init_valid: "init row = Inr r \<Longrightarrow> valid r"
  by (simp add: init_iff)

text \<open>\<open>from_dict(to_dict(r)) == r\<close>.\<close>

lemma roundtrip:
  "valid r \<Longrightarrow> bindE (require_exact_fields (py_of_json (JObj (flds r))) names label err) init = Inr r"
  using flds_names [of r] by (simp add: new_iff del: py_of_json.simps set_map)

text \<open>
  A dict that \<open>from_dict\<close> accepts has the canonical encoding of the record it gave: nothing
  else reads as the same value.
\<close>

lemma accepted_is_canonical:
  assumes acc: "bindE (require_exact_fields (PyDict d) names label err) init = Inr r"
    and dist: "distinct (map fst d)"
  shows "valid r" and "canonical_json_bytes (PyDict d) = canonical_json_bytes (py_of_json (JObj (flds r)))"
proof -
  obtain row where d: "d = map (\<lambda>(k, w). (PyStr k, w)) row"
    and keys: "fst ` set row = set names" and init: "init row = Inr r"
    using acc by (auto simp: bindE_eq_Inr require_exact_fields_eq_Inr)
  from init show "valid r" by (rule init_valid)
  have carries: "row_carries row (flds r)" using init by (simp add: init_iff)
  have distrow: "distinct (map fst row)"
  proof -
    have "map fst d = map PyStr (map fst row)" by (simp add: d case_prod_beta)
    with dist show ?thesis by (metis distinct_map)
  qed
  have sub: "w = py_of_json j" if "(k, w) \<in> set row" "(k, j) \<in> set (flds r)" for k w j
    using that carries distrow by (fastforce simp: row_carries_def kwarg_def)
  define kvs where "kvs = map (\<lambda>(k, w). (k, the (map_of (flds r) k))) row"
  have look: "map_of (flds r) k = Some j \<and> (k, j) \<in> set (flds r) \<and> w = py_of_json j"
    if kw: "(k, w) \<in> set row" and j: "j = the (map_of (flds r) k)" for k w j
  proof -
    have "k \<in> set (map fst (flds r))" using kw keys flds_names [of r] by force
    then obtain j' where j': "(k, j') \<in> set (flds r)" by auto
    then have "map_of (flds r) k = Some j'" using flds_distinct [of r] by simp
    with j j' sub [OF kw j'] show ?thesis by simp
  qed
  have row: "row = map (\<lambda>(k, j). (k, py_of_json j)) kvs"
    unfolding kvs_def map_map by (rule map_idI [symmetric]) (use look in fastforce)
  have "set kvs = set (flds r)"
  proof
    show "set kvs \<subseteq> set (flds r)" using look by (fastforce simp: kvs_def)
    show "set (flds r) \<subseteq> set kvs"
    proof
      fix x assume x: "x \<in> set (flds r)"
      obtain k j where kj: "x = (k, j)" by (cases x)
      have "k \<in> fst ` set row" using x kj keys flds_names [of r] by force
      then obtain w where "(k, w) \<in> set row" by auto
      with x kj flds_distinct [of r] show "x \<in> set kvs" by (force simp: kvs_def)
    qed
  qed
  moreover have distk: "distinct (map fst kvs)"
    using distrow by (simp add: row case_prod_beta comp_def)
  ultimately have mset: "mset kvs = mset (flds r)"
    using flds_distinct [of r] by (simp add: distinct_map set_eq_iff_mset_eq_distinct)
  have dj: "PyDict d = py_of_json (JObj kvs)"
    by (simp add: d row case_prod_beta comp_def)
  have "json_sort (JObj kvs) = json_sort (JObj (flds r))"
    using mset distk by (rule json_sort_JObj_mset)
  then show "canonical_json_bytes (PyDict d) = canonical_json_bytes (py_of_json (JObj (flds r)))"
    unfolding dj canonical_json_bytes_def canonical_value_json by (simp add: json_dumps_def)
qed

end

end
