(* ===== verification/Ledger.thy ===== *)
theory Ledger
  imports Py_Value
begin

text \<open>
  The contract of a finite claim balance. \<open>finite_debt.DebtClaimBalance\<close> and
  \<open>incentive_composition.DiscoveryClaimBalance\<close> are two classes with the same three
  operations: pay a part, expire the rest, cancel the rest. Their common life is proved once
  in the locale \<open>claim_ledger\<close> and holds for both by interpretation.
\<close>

datatype balance_op = Pay int int | Expire int | Cancel int string

fun op_paid :: "balance_op \<Rightarrow> int" where
  "op_paid (Pay amount block) = amount"
| "op_paid _ = 0"

fun is_pay :: "balance_op \<Rightarrow> bool" where
  "is_pay (Pay amount block) = True"
| "is_pay _ = False"

text \<open>The balances reached by successful operations, latest operation last.\<close>

inductive ledger_reaches ::
    "(balance_op \<Rightarrow> 'b \<Rightarrow> py_error + 'b) \<Rightarrow> 'b \<Rightarrow> balance_op list \<Rightarrow> 'b \<Rightarrow> bool"
  for step b0 where
  start: "ledger_reaches step b0 [] b0"
| op: "ledger_reaches step b0 ops b \<Longrightarrow> step x b = Inr b' \<Longrightarrow> ledger_reaches step b0 (ops @ [x]) b'"

inductive_cases ledger_reaches_snocE: "ledger_reaches step b0 (ops @ [x]) b'"

lemma ledger_reaches_foldE: "ledger_reaches step b0 ops b \<longleftrightarrow> foldE step ops b0 = Inr b"
proof
  assume "ledger_reaches step b0 ops b"
  then show "foldE step ops b0 = Inr b" by induction (auto simp: foldE_append)
next
  assume "foldE step ops b0 = Inr b"
  then show "ledger_reaches step b0 ops b"
  proof (induction ops arbitrary: b rule: rev_induct)
    case (snoc x ops)
    then obtain c where "foldE step ops b0 = Inr c" "step x c = Inr b"
      by (auto simp: foldE_append bindE_eq_Inr)
    with snoc.IH show ?case by (auto intro: ledger_reaches.op)
  qed (auto intro: ledger_reaches.start)
qed

locale claim_ledger =
  fixes good :: "'b \<Rightarrow> bool"
    and step :: "balance_op \<Rightarrow> 'b \<Rightarrow> py_error + 'b"
    and debt paid forfeited remaining :: "'b \<Rightarrow> int"
  assumes conserve: "good b \<Longrightarrow> paid b + forfeited b + remaining b = debt b"
    and nonneg: "good b \<Longrightarrow> 0 \<le> paid b \<and> 0 \<le> forfeited b \<and> 0 \<le> remaining b"
    and step_good: "good b \<Longrightarrow> step x b = Inr b' \<Longrightarrow> good b' \<and> debt b' = debt b
      \<and> paid b' = paid b + op_paid x \<and> forfeited b \<le> forfeited b'"
    and pay_positive: "good b \<Longrightarrow> step (Pay n t) b = Inr b' \<Longrightarrow> 0 < n"
    and closed_final: "good b \<Longrightarrow> remaining b = 0 \<Longrightarrow> step x b = Inr b' \<Longrightarrow> b' = b"
begin

text \<open>Along every history the balance stays good and has paid exactly what was asked.\<close>

lemma reaches_good:
  assumes "ledger_reaches step b0 ops b" and "good b0"
  shows "good b \<and> debt b = debt b0 \<and> paid b = paid b0 + sum_list (map op_paid ops)
    \<and> forfeited b0 \<le> forfeited b"
  using assms
proof induction
  case (op ops b x b')
  then show ?case using step_good [of b x b'] by auto
qed simp

lemma never_overpaid:
  assumes "ledger_reaches step b0 ops b" and "good b0"
  shows "paid b0 + sum_list (map op_paid ops) \<le> debt b0"
  using reaches_good [OF assms] conserve [of b] nonneg [of b] by linarith

text \<open>A closed balance is final, whatever is tried later.\<close>

lemma closed_forever:
  assumes "ledger_reaches step b0 ops b" and "good b0" "remaining b0 = 0"
  shows "b = b0"
  using assms(1)
proof induction
  case (op ops b x b')
  then show ?case using closed_final [OF assms(2,3)] by simp
qed simp

text \<open>A claim of \<open>n\<close> units is closed after at most \<open>n\<close> payments.\<close>

lemma payments_bounded:
  assumes "ledger_reaches step b0 ops b" and "good b0"
  shows "int (length (filter is_pay ops)) \<le> debt b0 - paid b0"
proof -
  have "int (length (filter is_pay ops)) \<le> sum_list (map op_paid ops)"
    using assms(1)
  proof induction
    case (op ops b x b')
    have "good b" using reaches_good [OF op.hyps(1) assms(2)] by simp
    with op.hyps(2) have "is_pay x \<Longrightarrow> 1 \<le> op_paid x" "\<not> is_pay x \<Longrightarrow> op_paid x = 0"
      using pay_positive [of b] by (cases x; force)+
    with op.IH show ?case by auto
  qed simp
  with never_overpaid [OF assms] show ?thesis by linarith
qed

end

end
