(* ===== verification/Finite_Debt_Laws.thy ===== *)
theory Finite_Debt_Laws
  imports Finite_Debt Dataclass Ledger
begin

text \<open>
  What the claim and balance operations of \<open>Finite_Debt\<close> guarantee. Each dataclass has a
  predicate \<open><class>_valid\<close> that says exactly which typed values its constructor accepts;
  the operations are then characterised without error plumbing, and the life of a balance
  is a step relation whose invariants are proved by rule induction.
\<close>

section \<open>What the constructors accept\<close>

definition balance_valid :: "DebtClaimBalance \<Rightarrow> bool" where
  "balance_valid b \<longleftrightarrow>
     is_digest (dcb_claim_digest b) \<and> 1 \<le> dcb_principal_units b \<and> 0 \<le> dcb_paid_units b
     \<and> 0 \<le> dcb_forfeited_units b \<and> 0 \<le> dcb_remaining_units b
     \<and> dcb_paid_units b + dcb_forfeited_units b + dcb_remaining_units b = dcb_principal_units b
     \<and> dcb_status b \<in> set BALANCE_STATUSES
     \<and> (if dcb_status b = ''open''
        then 0 < dcb_remaining_units b \<and> dcb_terminal_block b = None \<and> dcb_terminal_reason b = []
        else dcb_remaining_units b = 0 \<and> (\<exists>t \<ge> 0. dcb_terminal_block b = Some t)
          \<and> dcb_terminal_reason b \<noteq> [])
     \<and> length (dcb_terminal_reason b) \<le> 2048 \<and> \<not> has_control (dcb_terminal_reason b)
     \<and> (dcb_status b = ''paid'' \<longrightarrow> dcb_paid_units b = dcb_principal_units b)
     \<and> (dcb_status b = ''expired'' \<or> dcb_status b = ''cancelled'' \<longrightarrow> 0 < dcb_forfeited_units b)"

lemma balance_terminal_eq_Inr [err_simps]:
  "balance_terminal status remaining block reason = Inr tb \<longleftrightarrow>
     (if status = ''open'' then 0 < remaining \<and> block = PyNone \<and> \<not> py_truthy reason \<and> tb = None
      else remaining = 0 \<and> py_truthy reason \<and> (\<exists>t \<ge> 0. block = PyInt t \<and> tb = Some t))"
  by (auto simp: balance_terminal_def err_simps)

lemma DebtClaimBalance_init_carries:
  "DebtClaimBalance_init row = Inr b \<Longrightarrow> balance_valid b \<and> row_carries row (DebtClaimBalance_fields b)"
  unfolding DebtClaimBalance_init_def
  by (simp only: err_simps Let_def, elim exE conjE,
      simp only: err_simps not_not sum.inject pyval.case, elim exE conjE bexE, hypsubst,
      simp only: balance_valid_def DebtClaimBalance_fields_def DebtClaimBalance.simps
        row_carries_Cons pyval.case, simp split: if_splits, elim exE conjE, hypsubst, simp, linarith)

lemma DebtClaimBalance_init_ok:
  "balance_valid b \<Longrightarrow> row_carries row (DebtClaimBalance_fields b) \<Longrightarrow> DebtClaimBalance_init row = Inr b"
  unfolding DebtClaimBalance_init_def balance_valid_def DebtClaimBalance_fields_def
  by (auto simp: py_in_strs_def balance_terminal_def split: if_splits)

lemma DebtClaimBalance_init_iff:
  "DebtClaimBalance_init row = Inr b \<longleftrightarrow> balance_valid b \<and> row_carries row (DebtClaimBalance_fields b)"
  using DebtClaimBalance_init_carries DebtClaimBalance_init_ok by blast

lemma CampaignBudgetShare_init_iff:
  "CampaignBudgetShare_init row = Inr r \<longleftrightarrow>
     is_digest (cbs_campaign_id r) \<and> 1 \<le> cbs_share_ppm r \<and> cbs_share_ppm r \<le> PPM
     \<and> row_carries row (CampaignBudgetShare_fields r)"
  by (cases r)
    (auto simp: CampaignBudgetShare_init_def CampaignBudgetShare_fields_def err_simps)

lemma RewardFamilyCampaign_init_iff:
  "RewardFamilyCampaign_init row = Inr r \<longleftrightarrow>
     is_digest (rfc_family_id r) \<and> is_digest (rfc_campaign_id r)
     \<and> row_carries row (RewardFamilyCampaign_fields r)"
  by (cases r)
    (auto simp: RewardFamilyCampaign_init_def RewardFamilyCampaign_fields_def err_simps)

definition claim_valid :: "InnovationDebtClaim \<Rightarrow> bool" where
  "claim_valid c \<longleftrightarrow>
     is_digest (idc_policy_digest c) \<and> is_digest (idc_family_id c) \<and> is_digest (idc_campaign_id c)
     \<and> is_digest (idc_candidate_digest c) \<and> is_digest (idc_retained_evidence_digest c)
     \<and> is_hotkey (idc_hotkey c)
     \<and> decimal_reading (idc_settled_speedup c) 1 True \<noteq> None
     \<and> decimal_reading (idc_threshold_speedup c) 1 False \<noteq> None
     \<and> 0 \<le> idc_accepted_crown_block c \<and> idc_accepted_crown_block c \<le> idc_settlement_block c
     \<and> idc_settlement_block c < idc_expires_block c
     \<and> (case idc_prior_accepted_crown_block c of None \<Rightarrow> True
        | Some prior \<Rightarrow> 0 \<le> prior \<and> prior \<le> idc_accepted_crown_block c)
     \<and> 1 \<le> idc_campaign_budget_ppm c \<and> idc_campaign_budget_ppm c \<le> PPM
     \<and> 1 \<le> idc_reference_campaign_pool_units c \<and> 1 \<le> idc_log_units_ppm c
     \<and> PPM \<le> idc_time_multiplier_ppm c \<and> 1 \<le> idc_principal_units c"

lemma claim_prior_eq_Inr [err_simps]:
  "claim_prior accepted v = Inr prior \<longleftrightarrow>
     v = py_of_json (json_of_option JInt prior)
     \<and> (case prior of None \<Rightarrow> True | Some p \<Rightarrow> 0 \<le> p \<and> p \<le> accepted)"
  by (auto simp: claim_prior_def err_simps split: option.splits)

lemma InnovationDebtClaim_init_iff:
  "InnovationDebtClaim_init row = Inr c \<longleftrightarrow> claim_valid c \<and> row_carries row (InnovationDebtClaim_fields c)"
proof (cases c)
  case (fields policy_digest family campaign candidate evidence hotkey speed threshold accepted prior
      settlement expiry budget pool units multiplier principal resets)
  show ?thesis
    unfolding fields InnovationDebtClaim_init_def claim_valid_def InnovationDebtClaim_fields_def
    by (cases prior; simp add: err_simps split_paired_Ex; rule iffI; elim conjE exE; simp)
qed

section \<open>The dataclass contract\<close>

interpretation share: dataclass CampaignBudgetShare_init CampaignBudgetShare_fields
  "[''campaign_id'', ''share_ppm'']"
  "\<lambda>r. is_digest (cbs_campaign_id r) \<and> 1 \<le> cbs_share_ppm r \<and> cbs_share_ppm r \<le> PPM"
  by unfold_locales
    (simp_all add: CampaignBudgetShare_init_iff CampaignBudgetShare_fields_def conj_assoc)

interpretation family: dataclass RewardFamilyCampaign_init RewardFamilyCampaign_fields
  "[''family_id'', ''campaign_id'']" "\<lambda>r. is_digest (rfc_family_id r) \<and> is_digest (rfc_campaign_id r)"
  by unfold_locales
    (auto simp: RewardFamilyCampaign_init_iff RewardFamilyCampaign_fields_def conj_assoc)

interpretation claim: dataclass InnovationDebtClaim_init InnovationDebtClaim_fields
  idc_field_names claim_valid
  by unfold_locales
    (simp_all add: InnovationDebtClaim_init_iff InnovationDebtClaim_fields_def idc_field_names_def
      json_of_option_def split: option.splits)

interpretation balance: dataclass DebtClaimBalance_init DebtClaimBalance_fields
  dcb_field_names balance_valid
  by unfold_locales
    (simp_all add: DebtClaimBalance_init_iff DebtClaimBalance_fields_def dcb_field_names_def
      json_of_option_def split: option.splits)

section \<open>Issuance arithmetic\<close>

text \<open>
  For a policy with \<open>0 <= beta\<close> and \<open>1 <= tau\<close> the time multiplier is a total function of an
  ordered pair of blocks: the check against its cap never fires.
\<close>

lemma time_bonus_bounds:
  fixes beta tau delta :: int
  assumes "0 \<le> beta" "1 \<le> tau" "0 \<le> delta"
  shows "0 \<le> beta * delta div (delta + tau)" "beta * delta div (delta + tau) \<le> beta"
proof -
  show "0 \<le> beta * delta div (delta + tau)" using assms by (simp add: pos_imp_zdiv_nonneg_iff)
  have "beta * delta \<le> beta * (delta + tau)" using assms by (simp add: mult_left_mono)
  then have "beta * delta div (delta + tau) \<le> beta * (delta + tau) div (delta + tau)"
    using assms by (intro zdiv_mono1) auto
  then show "beta * delta div (delta + tau) \<le> beta" using assms by simp
qed

lemma time_bonus_mono:
  fixes beta tau d d' :: int
  assumes "0 \<le> beta" "1 \<le> tau" "0 \<le> d" "d \<le> d'"
  shows "beta * d div (d + tau) \<le> beta * d' div (d' + tau)"
proof -
  define q where "q = beta * d div (d + tau)"
  have "q * (d + tau) \<le> beta * d" unfolding q_def using assms by (simp add: minus_mod_eq_div_mult [symmetric])
  moreover have "q \<le> beta" unfolding q_def using assms time_bonus_bounds by blast
  then have "q * (d' - d) \<le> beta * (d' - d)" using assms by (intro mult_right_mono) auto
  ultimately have "q * (d' + tau) \<le> beta * d'" by (simp add: algebra_simps)
  then have "q * (d' + tau) div (d' + tau) \<le> beta * d' div (d' + tau)"
    using assms by (intro zdiv_mono1) auto
  then show ?thesis using assms by (simp add: q_def)
qed

lemma rational_time_multiplier_eq:
  assumes "0 \<le> fdp_beta_ppm p" "1 \<le> fdp_tau_blocks p"
  shows "rational_time_multiplier_ppm p current prior = Inr m \<longleftrightarrow>
    0 \<le> current \<and> (case prior of None \<Rightarrow> m = PPM
      | Some q \<Rightarrow> 0 \<le> q \<and> q \<le> current
          \<and> m = PPM + fdp_beta_ppm p * (current - q) div (current - q + fdp_tau_blocks p))"
proof (cases prior)
  case (Some q)
  have "0 \<le> current - q \<Longrightarrow>
      fdp_beta_ppm p * (current - q) div (current - q + fdp_tau_blocks p) \<le> fdp_beta_ppm p"
    using time_bonus_bounds(2) [OF assms] .
  with Some show ?thesis by (auto simp: rational_time_multiplier_ppm_def err_simps Let_def)
qed (auto simp: rational_time_multiplier_ppm_def err_simps)

section \<open>Operations on a balance\<close>

lemma DebtClaimBalance_new_eq_Inr [err_simps]:
  "DebtClaimBalance_new b = Inr b' \<longleftrightarrow> balance_valid b \<and> b' = b"
  unfolding DebtClaimBalance_new_def by (rule balance.new_iff)

lemma InnovationDebtClaim_new_eq_Inr [err_simps]:
  "InnovationDebtClaim_new c = Inr c' \<longleftrightarrow> claim_valid c \<and> c' = c"
  unfolding InnovationDebtClaim_new_def by (rule claim.new_iff)

definition paid_balance :: "DebtClaimBalance \<Rightarrow> int \<Rightarrow> int \<Rightarrow> DebtClaimBalance" where
  "paid_balance b amount block =
     (let rest = dcb_remaining_units b - amount in
      b\<lparr>dcb_paid_units := dcb_paid_units b + amount, dcb_remaining_units := rest,
        dcb_status := (if rest = 0 then ''paid'' else ''open''),
        dcb_terminal_block := (if rest = 0 then Some block else None),
        dcb_terminal_reason := (if rest = 0 then ''principal_paid'' else [])\<rparr>)"

definition forfeited_balance :: "DebtClaimBalance \<Rightarrow> string \<Rightarrow> int \<Rightarrow> string \<Rightarrow> DebtClaimBalance" where
  "forfeited_balance b status block reason =
     b\<lparr>dcb_forfeited_units := dcb_forfeited_units b + dcb_remaining_units b,
       dcb_remaining_units := 0, dcb_status := status,
       dcb_terminal_block := Some block, dcb_terminal_reason := reason\<rparr>"

text \<open>
  A balance that belongs to a claim. An open balance has forfeited nothing: this is what lets
  a last payment close it as paid.
\<close>

definition balance_of :: "py_env \<Rightarrow> InnovationDebtClaim \<Rightarrow> DebtClaimBalance \<Rightarrow> bool" where
  "balance_of E c b \<longleftrightarrow> balance_valid b \<and> dcb_claim_digest b = InnovationDebtClaim_digest E c
     \<and> dcb_principal_units b = idc_principal_units c
     \<and> (dcb_status b = ''open'' \<longrightarrow> dcb_forfeited_units b = 0)"

lemma balance_valid_paid:
  assumes "balance_valid b" "dcb_status b = ''open''" "dcb_forfeited_units b = 0"
    "0 < amount" "amount \<le> dcb_remaining_units b" "0 \<le> block"
  shows "balance_valid (paid_balance b amount block)"
  using assms by (simp add: balance_valid_def paid_balance_def Let_def BALANCE_STATUSES_def)

lemma balance_valid_forfeited:
  assumes "balance_valid b" "dcb_status b = ''open''" "0 \<le> block" "reason_ok reason"
    "status = ''expired'' \<or> status = ''cancelled''"
  shows "balance_valid (forfeited_balance b status block reason)"
  using assms by (auto simp: balance_valid_def forfeited_balance_def BALANCE_STATUSES_def
      reason_ok_def)

lemma pay_claim_balance_eq:
  assumes "balance_of E c b"
  shows "pay_claim_balance E c b amount block = Inr b' \<longleftrightarrow>
    dcb_status b = ''open'' \<and> 1 \<le> amount \<and> 0 \<le> block \<and> idc_settlement_block c \<le> block
    \<and> block < idc_expires_block c \<and> amount \<le> dcb_remaining_units b
    \<and> b' = paid_balance b amount block"
proof -
  have eq: "\<lparr>dcb_claim_digest = dcb_claim_digest b, dcb_principal_units = dcb_principal_units b,
      dcb_paid_units = dcb_paid_units b + amount, dcb_forfeited_units = dcb_forfeited_units b,
      dcb_remaining_units = dcb_remaining_units b - amount,
      dcb_status = (if dcb_remaining_units b - amount \<noteq> 0 then ''open'' else ''paid''),
      dcb_terminal_block = (if dcb_remaining_units b - amount \<noteq> 0 then None else Some block),
      dcb_terminal_reason = (if dcb_remaining_units b - amount \<noteq> 0 then [] else ''principal_paid'')\<rparr>
      = paid_balance b amount block" for amount block
    by (cases b) (simp add: paid_balance_def Let_def)
  show ?thesis
    using assms balance_valid_paid [of b amount block]
    unfolding pay_claim_balance_def Let_def eq balance_of_def
    by (auto simp: err_simps)
qed

lemma expire_claim_balance_eq:
  assumes "balance_of E c b"
  shows "expire_claim_balance E c b block = Inr b' \<longleftrightarrow> 0 \<le> block \<and>
    b' = (if dcb_status b = ''open'' \<and> idc_expires_block c \<le> block
          then forfeited_balance b ''expired'' block ''claim_lifetime_expired'' else b)"
proof -
  have eq: "\<lparr>dcb_claim_digest = dcb_claim_digest b, dcb_principal_units = dcb_principal_units b,
      dcb_paid_units = dcb_paid_units b,
      dcb_forfeited_units = dcb_forfeited_units b + dcb_remaining_units b,
      dcb_remaining_units = 0, dcb_status = ''expired'', dcb_terminal_block = Some block,
      dcb_terminal_reason = ''claim_lifetime_expired''\<rparr>
      = forfeited_balance b ''expired'' block ''claim_lifetime_expired''" for block
    by (cases b) (simp add: forfeited_balance_def)
  have "reason_ok ''claim_lifetime_expired''" by (simp add: reason_ok_def)
  with assms balance_valid_forfeited [of b block "''claim_lifetime_expired''" "''expired''"]
  show ?thesis unfolding expire_claim_balance_def eq balance_of_def
    by (auto simp: err_simps)
qed

lemma cancel_claim_balance_eq:
  assumes "balance_of E c b"
  shows "cancel_claim_balance E c b block reason = Inr b' \<longleftrightarrow>
    dcb_status b = ''open'' \<and> 0 \<le> block \<and> idc_settlement_block c \<le> block \<and> reason_ok reason
    \<and> b' = forfeited_balance b ''cancelled'' block reason"
proof -
  have eq: "\<lparr>dcb_claim_digest = dcb_claim_digest b, dcb_principal_units = dcb_principal_units b,
      dcb_paid_units = dcb_paid_units b,
      dcb_forfeited_units = dcb_forfeited_units b + dcb_remaining_units b,
      dcb_remaining_units = 0, dcb_status = ''cancelled'', dcb_terminal_block = Some block,
      dcb_terminal_reason = reason\<rparr> = forfeited_balance b ''cancelled'' block reason" for block
    by (cases b) (simp add: forfeited_balance_def)
  show ?thesis
    using assms balance_valid_forfeited [of b block reason "''cancelled''"]
    unfolding cancel_claim_balance_def eq balance_of_def
    by (auto simp: err_simps reason_ok_def)
qed

section \<open>The life of a balance\<close>

fun balance_op_apply ::
    "py_env \<Rightarrow> InnovationDebtClaim \<Rightarrow> balance_op \<Rightarrow> DebtClaimBalance \<Rightarrow> py_error + DebtClaimBalance" where
  "balance_op_apply E c (Pay amount block) b = pay_claim_balance E c b amount block"
| "balance_op_apply E c (Expire block) b = expire_claim_balance E c b block"
| "balance_op_apply E c (Cancel block reason) b = cancel_claim_balance E c b block reason"

lemma paid_balance_sel [simp]:
  "dcb_claim_digest (paid_balance b n t) = dcb_claim_digest b"
  "dcb_principal_units (paid_balance b n t) = dcb_principal_units b"
  "dcb_paid_units (paid_balance b n t) = dcb_paid_units b + n"
  "dcb_forfeited_units (paid_balance b n t) = dcb_forfeited_units b"
  "dcb_remaining_units (paid_balance b n t) = dcb_remaining_units b - n"
  "dcb_status (paid_balance b n t) = (if dcb_remaining_units b = n then ''paid'' else ''open'')"
  "dcb_terminal_block (paid_balance b n t) = (if dcb_remaining_units b = n then Some t else None)"
  by (simp_all add: paid_balance_def Let_def)

lemma forfeited_balance_sel [simp]:
  "dcb_claim_digest (forfeited_balance b s t r) = dcb_claim_digest b"
  "dcb_principal_units (forfeited_balance b s t r) = dcb_principal_units b"
  "dcb_paid_units (forfeited_balance b s t r) = dcb_paid_units b"
  "dcb_forfeited_units (forfeited_balance b s t r) = dcb_forfeited_units b + dcb_remaining_units b"
  "dcb_remaining_units (forfeited_balance b s t r) = 0"
  "dcb_status (forfeited_balance b s t r) = s"
  "dcb_terminal_block (forfeited_balance b s t r) = Some t"
  by (simp_all add: forfeited_balance_def)

lemma DebtClaimBalance_open_balance_of:
  "DebtClaimBalance_open E c = Inr b \<Longrightarrow> balance_of E c b \<and> dcb_paid_units b = 0 \<and> dcb_status b = ''open''"
  by (auto simp: DebtClaimBalance_open_def balance_of_def err_simps)

lemma balance_op_preserves:
  assumes "balance_of E c b" and "balance_op_apply E c x b = Inr b'"
  shows "balance_of E c b'" and "dcb_paid_units b' = dcb_paid_units b + op_paid x"
    and "dcb_forfeited_units b \<le> dcb_forfeited_units b'"
    and "dcb_remaining_units b' \<le> dcb_remaining_units b"
proof -
  have v: "balance_valid b" using assms(1) by (simp add: balance_of_def)
  have nn: "0 \<le> dcb_remaining_units b" using v by (simp add: balance_valid_def)
  have "balance_of E c b' \<and> dcb_paid_units b' = dcb_paid_units b + op_paid x
      \<and> dcb_forfeited_units b \<le> dcb_forfeited_units b' \<and> dcb_remaining_units b' \<le> dcb_remaining_units b"
  proof (cases x)
    case (Pay amount block)
    with assms have "dcb_status b = ''open''" "1 \<le> amount" "0 \<le> block"
      "amount \<le> dcb_remaining_units b" "b' = paid_balance b amount block"
      by (auto simp: pay_claim_balance_eq)
    with assms(1) Pay balance_valid_paid [of b amount block] show ?thesis
      by (auto simp: balance_of_def)
  next
    case (Expire block)
    have "reason_ok ''claim_lifetime_expired''" by (simp add: reason_ok_def)
    with assms Expire nn balance_valid_forfeited [of b block "''claim_lifetime_expired''" "''expired''"]
    show ?thesis by (auto simp: expire_claim_balance_eq balance_of_def)
  next
    case (Cancel block reason)
    with assms nn balance_valid_forfeited [of b block reason "''cancelled''"] show ?thesis
      by (auto simp: cancel_claim_balance_eq balance_of_def)
  qed
  then show "balance_of E c b'" "dcb_paid_units b' = dcb_paid_units b + op_paid x"
    "dcb_forfeited_units b \<le> dcb_forfeited_units b'"
    "dcb_remaining_units b' \<le> dcb_remaining_units b" by blast+
qed

text \<open>A closed balance takes no payment and no cancellation, and expiry leaves it alone.\<close>

lemma closed_is_final:
  assumes "balance_of E c b" and "dcb_status b \<noteq> ''open''"
    and "balance_op_apply E c x b = Inr b'"
  shows "b' = b"
  using assms by (cases x) (auto simp: pay_claim_balance_eq expire_claim_balance_eq cancel_claim_balance_eq)

interpretation crown: claim_ledger "balance_of E c" "balance_op_apply E c"
  dcb_principal_units dcb_paid_units dcb_forfeited_units dcb_remaining_units
proof
  fix b assume b: "balance_of E c b"
  then have v: "balance_valid b" by (simp add: balance_of_def)
  then show "dcb_paid_units b + dcb_forfeited_units b + dcb_remaining_units b = dcb_principal_units b"
    and "0 \<le> dcb_paid_units b \<and> 0 \<le> dcb_forfeited_units b \<and> 0 \<le> dcb_remaining_units b"
    by (simp_all add: balance_valid_def)
  show "0 < n" if "balance_op_apply E c (Pay n t) b = Inr b'" for n t b'
    using that b by (simp add: pay_claim_balance_eq)
  fix x b' assume op: "balance_op_apply E c x b = Inr b'"
  show "balance_of E c b' \<and> dcb_principal_units b' = dcb_principal_units b
      \<and> dcb_paid_units b' = dcb_paid_units b + op_paid x \<and> dcb_forfeited_units b \<le> dcb_forfeited_units b'"
    using balance_op_preserves [OF b op] b by (simp add: balance_of_def)
  show "b' = b" if "dcb_remaining_units b = 0"
  proof (rule closed_is_final [OF b _ op])
    show "dcb_status b \<noteq> ''open''" using v that by (simp add: balance_valid_def split: if_splits)
  qed
qed

definition state_valid :: "py_env \<Rightarrow> DebtClaimState \<Rightarrow> bool" where
  "state_valid E st \<longleftrightarrow> claim_valid (dcs_claim st) \<and> balance_of E (dcs_claim st) (dcs_balance st)
     \<and> (\<forall>t. dcb_terminal_block (dcs_balance st) = Some t \<longrightarrow> idc_settlement_block (dcs_claim st) \<le> t
          \<and> (dcb_status (dcs_balance st) = ''expired'' \<longrightarrow> idc_expires_block (dcs_claim st) \<le> t))"

lemma DebtClaimState_new_eq_Inr [err_simps]:
  "DebtClaimState_new E c b = Inr st \<longleftrightarrow>
     dcb_claim_digest b = InnovationDebtClaim_digest E c \<and> dcb_principal_units b = idc_principal_units c
     \<and> (\<forall>t. dcb_terminal_block b = Some t \<longrightarrow> idc_settlement_block c \<le> t
          \<and> (dcb_status b = ''expired'' \<longrightarrow> idc_expires_block c \<le> t))
     \<and> st = \<lparr>dcs_claim = c, dcs_balance = b\<rparr>"
  by (cases "dcb_terminal_block b") (auto simp: DebtClaimState_new_def not_less)

text \<open>Every operation on a well-formed claim state gives a well-formed claim state.\<close>

lemma op_preserves_state:
  assumes st: "state_valid E \<lparr>dcs_claim = c, dcs_balance = b\<rparr>"
    and op: "balance_op_apply E c x b = Inr b'"
  shows "state_valid E \<lparr>dcs_claim = c, dcs_balance = b'\<rparr>"
proof -
  have b: "balance_of E c b" and c: "claim_valid c" using st by (simp_all add: state_valid_def)
  have "balance_of E c b'" using b op by (rule balance_op_preserves(1))
  moreover have "idc_settlement_block c < idc_expires_block c" using c by (simp add: claim_valid_def)
  ultimately show ?thesis using st b op
    by (cases x) (auto simp: pay_claim_balance_eq expire_claim_balance_eq cancel_claim_balance_eq
        state_valid_def split: if_splits)
qed

lemma state_valid_new:
  "state_valid E \<lparr>dcs_claim = c, dcs_balance = b\<rparr> \<Longrightarrow>
     DebtClaimState_new E c b = Inr \<lparr>dcs_claim = c, dcs_balance = b\<rparr>"
  by (auto simp: err_simps state_valid_def balance_of_def)

lemma reaches_state_valid:
  assumes "ledger_reaches (balance_op_apply E c) b0 ops b"
    and "claim_valid c" "DebtClaimBalance_open E c = Inr b0"
  shows "state_valid E \<lparr>dcs_claim = c, dcs_balance = b\<rparr>"
  using assms(1)
proof induction
  case start
  then show ?case
    using assms DebtClaimBalance_open_balance_of [of E c b0]
    by (auto simp: state_valid_def balance_of_def balance_valid_def)
next
  case (op ops b x b')
  then show ?case using op_preserves_state by blast
qed

section \<open>The policy\<close>

definition policy_valid :: "FiniteDebtPolicyManifest \<Rightarrow> bool" where
  "policy_valid p \<longleftrightarrow>
     (let shares = fdp_campaign_budget_shares p; families = fdp_reward_family_campaigns p in
     shares \<noteq> [] \<and> length shares \<le> MAX_ACTIVE_CAMPAIGNS
     \<and> sorted (map cbs_campaign_id shares) \<and> distinct (map cbs_campaign_id shares)
     \<and> (\<forall>r \<in> set shares. is_digest (cbs_campaign_id r) \<and> cbs_share_ppm r = PPM div int (length shares))
     \<and> families \<noteq> [] \<and> sorted (map rfc_family_id families) \<and> distinct (map rfc_family_id families)
     \<and> set (map rfc_campaign_id families) = set (map cbs_campaign_id shares)
     \<and> (\<forall>r \<in> set shares. 0 < reference_claim_pool_units p * cbs_share_ppm r div PPM))
     \<and> is_digest (fdp_selection_report_digest p) \<and> is_hotkey (fdp_reserve_hotkey p)
     \<and> 0 \<le> fdp_reserve_ppm p \<and> fdp_reserve_ppm p < PPM
     \<and> 1 \<le> fdp_epoch_blocks p \<and> 0 \<le> fdp_beta_ppm p \<and> fdp_beta_ppm p \<le> PPM
     \<and> 1 \<le> fdp_tau_blocks p \<and> 1 \<le> fdp_lifetime_blocks p \<and> 1 \<le> fdp_k_ppm p
     \<and> fdp_improvement_basis p \<in> set IMPROVEMENT_BASES
     \<and> 1 \<le> fdp_clock_reset_threshold_log_units_ppm p
     \<and> py_eq_int (fdp_schema_version p) FDP_SCHEMA_VERSION
     \<and> fdp_policy_version p = FDP_POLICY_VERSION"

lemma CampaignBudgetShare_new_eq_Inr [err_simps]:
  "CampaignBudgetShare_new c s = Inr r \<longleftrightarrow>
     is_digest c \<and> 1 \<le> s \<and> s \<le> PPM \<and> r = \<lparr>cbs_campaign_id = c, cbs_share_ppm = s\<rparr>"
  unfolding CampaignBudgetShare_new_def share.new_iff by auto

lemma equal_campaign_budget_shares_eq_Inr [err_simps]:
  "equal_campaign_budget_shares ids = Inr shares \<longleftrightarrow>
     ids \<noteq> [] \<and> distinct ids \<and> length ids \<le> MAX_ACTIVE_CAMPAIGNS \<and> (\<forall>i \<in> set ids. is_digest i)
     \<and> shares = map (\<lambda>c. \<lparr>cbs_campaign_id = c, cbs_share_ppm = PPM div int (length ids)\<rparr>) (sort ids)"
proof (cases "\<forall>i \<in> set ids. is_digest i")
  case True
  then have "mapE (\<lambda>i. fd_digest (PyStr i) ''campaign_id'') ids = Inr ids"
    using mapE_Inr [of ids "\<lambda>i. fd_digest (PyStr i) ''campaign_id''" id] by simp
  moreover have "1 \<le> PPM div int (length ids) \<and> PPM div int (length ids) \<le> PPM"
    if "ids \<noteq> []" "length ids \<le> MAX_ACTIVE_CAMPAIGNS"
  proof -
    have "length ids = 1 \<or> length ids = 2"
      using that by (cases ids rule: remdups_adj.cases) (auto simp: MAX_ACTIVE_CAMPAIGNS_def)
    then show ?thesis by (auto simp: PPM_def)
  qed
  then have "mapE (\<lambda>c. CampaignBudgetShare_new c (PPM div int (length ids))) (sort ids) =
      Inr (map (\<lambda>c. \<lparr>cbs_campaign_id = c, cbs_share_ppm = PPM div int (length ids)\<rparr>) (sort ids))"
    if "ids \<noteq> []" "length ids \<le> MAX_ACTIVE_CAMPAIGNS"
    using that True by (intro mapE_Inr) (simp add: err_simps)
  moreover have "sort ids = [] \<longleftrightarrow> ids = []" by (metis length_0_conv length_sort)
  ultimately show ?thesis using True
    by (auto simp: equal_campaign_budget_shares_def Let_def length_remdups_eq)
next
  case False
  have "list_all2 (\<lambda>x y. x = y \<and> is_digest y) xs ys \<Longrightarrow> \<forall>i \<in> set xs. is_digest i" for xs ys
    by (induction rule: list_all2_induct) auto
  with False have "mapE (\<lambda>i. fd_digest (PyStr i) ''campaign_id'') ids \<noteq> Inr ds" for ds
    by (auto simp: err_simps)
  with False show ?thesis by (auto simp: equal_campaign_budget_shares_def err_simps)
qed

lemma equal_shares_fixpoint:
  "equal_campaign_budget_shares (map cbs_campaign_id shares) = Inr shares \<Longrightarrow>
     \<forall>r \<in> set shares. is_digest (cbs_campaign_id r) \<and> cbs_share_ppm r = PPM div int (length shares)"
  "equal_campaign_budget_shares (map cbs_campaign_id shares) = Inr shares \<Longrightarrow>
     distinct (map cbs_campaign_id shares) \<and> length shares \<le> MAX_ACTIVE_CAMPAIGNS"
proof -
  let ?n = "PPM div int (length shares)"
  assume "equal_campaign_budget_shares (map cbs_campaign_id shares) = Inr shares"
  note all = this [unfolded equal_campaign_budget_shares_eq_Inr length_map]
  from all have eq: "shares = map (\<lambda>c. \<lparr>cbs_campaign_id = c, cbs_share_ppm = ?n\<rparr>) (sort (map cbs_campaign_id shares))"
    and d: "distinct (map cbs_campaign_id shares)" "length shares \<le> MAX_ACTIVE_CAMPAIGNS"
    by blast+
  from all have "\<forall>i \<in> set (map cbs_campaign_id shares). is_digest i" by blast
  then have "\<forall>r \<in> set shares. is_digest (cbs_campaign_id r)" by simp
  moreover have "cbs_share_ppm r = ?n" if "r \<in> set shares" for r
  proof -
    have "r \<in> set (map (\<lambda>c. \<lparr>cbs_campaign_id = c, cbs_share_ppm = ?n\<rparr>) (sort (map cbs_campaign_id shares)))"
      by (rule ssubst [OF eq [symmetric], where P = "\<lambda>x. r \<in> set x"]) (rule that)
    then show ?thesis by auto
  qed
  ultimately show "\<forall>r \<in> set shares. is_digest (cbs_campaign_id r) \<and> cbs_share_ppm r = ?n" by simp
  from d show "distinct (map cbs_campaign_id shares) \<and> length shares \<le> MAX_ACTIVE_CAMPAIGNS" by simp
qed

lemma FiniteDebtPolicyManifest_init_policy_valid:
  assumes "FiniteDebtPolicyManifest_init shares mappings row = Inr p"
  shows "policy_valid p \<and> fdp_campaign_budget_shares p = sort_key cbs_campaign_id shares
    \<and> fdp_reward_family_campaigns p = sort_key rfc_family_id mappings"
  using assms unfolding FiniteDebtPolicyManifest_init_def Let_def
  apply (simp only: bindE_eq_Inr if_Inl_eq_Inr fd_eq_Inr py_in_strs_eq_Inr length_remdups_map
      de_Morgan_disj bex_simps(8) not_not not_le int_within_simps sum.inject)
  apply (elim exE conjE)
  apply hypsubst
  apply (elim bexE)
  apply (frule equal_shares_fixpoint(1), drule equal_shares_fixpoint(2))
  apply (simp only: policy_valid_def Let_def reference_claim_pool_units_def
        FiniteDebtPolicyManifest.simps pyval.case)
  apply simp
  done

lemma policy_bounds:
  assumes "policy_valid p"
  shows "0 \<le> fdp_beta_ppm p" "1 \<le> fdp_tau_blocks p" "0 < fdp_lifetime_blocks p"
    "0 < reference_claim_pool_units p" "reference_claim_pool_units p \<le> PPM"
    "reference_claim_pool_units p = PPM - fdp_reserve_ppm p"
  using assms by (simp_all add: policy_valid_def reference_claim_pool_units_def
      REFERENCE_EPOCH_UNITS_def PPM_def)

text \<open>The campaign shares of a policy split the whole pool.\<close>

lemma policy_shares_total:
  assumes "policy_valid p"
  shows "sum_list (map cbs_share_ppm (fdp_campaign_budget_shares p)) = PPM"
proof -
  let ?ss = "fdp_campaign_budget_shares p"
  have "length ?ss = 1 \<or> length ?ss = 2"
    using assms by (cases ?ss rule: remdups_adj.cases)
      (auto simp: policy_valid_def Let_def MAX_ACTIVE_CAMPAIGNS_def)
  moreover have "map cbs_share_ppm ?ss = map (\<lambda>_. PPM div int (length ?ss)) ?ss"
    using assms by (auto simp: policy_valid_def Let_def)
  ultimately show ?thesis by (auto simp: map_replicate_const sum_list_replicate PPM_def)
qed

lemma campaign_for_family_eq_Inr [err_simps]:
  "campaign_for_family p f = Inr c \<longleftrightarrow>
     is_digest f \<and> (\<exists>r. find (\<lambda>r. rfc_family_id r = f) (fdp_reward_family_campaigns p) = Some r
       \<and> c = rfc_campaign_id r)"
  by (auto simp: campaign_for_family_def err_simps split: option.splits)

text \<open>Every family of a policy has a campaign with a share: the lookup never fails.\<close>

lemma campaign_share_ppm_for_family_eq:
  assumes "policy_valid p" and c: "campaign_for_family p f = Inr c"
  shows "campaign_share_ppm_for_family p f = Inr (PPM div int (length (fdp_campaign_budget_shares p)))"
proof -
  let ?ss = "fdp_campaign_budget_shares p" and ?fs = "fdp_reward_family_campaigns p"
  from c obtain r where "r \<in> set ?fs" "rfc_campaign_id r = c"
    using nth_mem by (fastforce simp: err_simps find_Some_iff)
  then have "c \<in> set (map cbs_campaign_id ?ss)"
    using assms(1) by (auto simp: policy_valid_def Let_def)
  then obtain s where s: "s \<in> set ?ss" "cbs_campaign_id s = c" by auto
  have d: "distinct (map cbs_campaign_id ?ss)" using assms(1) by (simp add: policy_valid_def Let_def)
  have "campaign_shares p = map (\<lambda>r. (cbs_campaign_id r, cbs_share_ppm r)) ?ss"
    unfolding campaign_shares_def using d by (intro dict_of_distinct) (simp add: comp_def)
  moreover have "map_of (map (\<lambda>r. (cbs_campaign_id r, cbs_share_ppm r)) ?ss) c = Some (cbs_share_ppm s)"
    using d s by (intro map_of_is_SomeI) (auto simp: comp_def)
  moreover have "cbs_share_ppm s = PPM div int (length ?ss)"
    using assms(1) s by (simp add: policy_valid_def Let_def)
  ultimately show ?thesis using c by (simp add: campaign_share_ppm_for_family_def)
qed

lemma claim_principal_units_eq_Inr:
  assumes "policy_valid p"
  shows "claim_principal_units p f units m = Inr (c, share, pool, debt) \<longleftrightarrow>
    campaign_for_family p f = Inr c \<and> share = PPM div int (length (fdp_campaign_budget_shares p))
    \<and> pool = reference_claim_pool_units p * share div PPM
    \<and> debt = pool * fdp_k_ppm p * units * m div (PPM * PPM * PPM) \<and> 0 < pool \<and> 0 < debt"
  using campaign_share_ppm_for_family_eq [OF assms]
  by (auto simp: claim_principal_units_def err_simps Let_def simp del: campaign_for_family_eq_Inr)

section \<open>Issuing a claim\<close>

lemma decimal_canonical_log:
  "log_improvement_units_ppm E speed basis threshold = Inr units \<Longrightarrow> 0 < units"
  by (auto simp: log_improvement_units_ppm_def bindE_eq_Inr Let_def split: if_splits)

text \<open>
  The claim that issuance builds repeats the policy arithmetic on the same inputs, so the
  policy check at the end of issuance accepts whatever the constructor accepts.
\<close>

lemma issue_innovation_claim_eq_Inr:
  "issue_innovation_claim E p f candidate evidence hotkey speed threshold accepted prior settled = Inr c \<longleftrightarrow>
    (\<exists>units m campaign share pool debt pd resets.
      log_improvement_units_ppm E speed (fdp_improvement_basis p) threshold = Inr units
      \<and> rational_time_multiplier_ppm p accepted prior = Inr m
      \<and> claim_principal_units p f units m = Inr (campaign, share, pool, debt)
      \<and> FiniteDebtPolicyManifest_digest E p = Inr pd \<and> resets_family_clock p units = Inr resets
      \<and> c = \<lparr>idc_policy_digest = pd, idc_family_id = f, idc_campaign_id = campaign,
        idc_candidate_digest = candidate, idc_retained_evidence_digest = evidence, idc_hotkey = hotkey,
        idc_settled_speedup = speed, idc_threshold_speedup = threshold,
        idc_accepted_crown_block = accepted, idc_prior_accepted_crown_block = prior,
        idc_settlement_block = settled, idc_expires_block = settled + fdp_lifetime_blocks p,
        idc_campaign_budget_ppm = share, idc_reference_campaign_pool_units = pool,
        idc_log_units_ppm = units, idc_time_multiplier_ppm = m, idc_principal_units = debt,
        idc_resets_clock = resets\<rparr>
      \<and> claim_valid c)"
  unfolding issue_innovation_claim_def InnovationDebtClaim_validate_policy_def
  apply (simp only: err_simps int_within_simps pyval.inject split_paired_Ex prod.case)
  apply (rule iffI)
   apply (elim exE conjE, hypsubst, simp)
  apply (elim exE conjE, hypsubst, simp add: claim_valid_def)
  done

lemma issue_validates:
  assumes "issue_innovation_claim E p f candidate evidence hotkey speed threshold accepted prior settled = Inr c"
  shows "InnovationDebtClaim_validate_policy E c p = Inr ()" and "claim_valid c"
  using assms by (auto simp: issue_innovation_claim_def err_simps split: prod.splits)

end
