(* ===== verification/Apportion.thy ===== *)
theory Apportion
  imports Prelude
begin

text \<open>
  Integer apportionment by largest remainder. \<open>economics._allocate_pool\<close>, the contended
  branch of \<open>finite_debt.project_debt_epoch\<close> and \<open>incentive_composition._pro_rata\<close> run
  the same loop: every key gets the floor of its exact share, the units still missing go
  one each to the largest remainders, and ties are broken by the key. The loop is
  \<open>largest_remainder\<close>; the contract the three callers rely on is the locale
  \<open>apportionment\<close>, whose consequences are proved once.
\<close>

section \<open>The loop\<close>

text \<open>\<open>amounts[key] = quotient\<close> and \<open>remainders.append((remainder, key))\<close>.\<close>

definition lr_quotients :: "('k \<times> int) list \<Rightarrow> int \<Rightarrow> int \<Rightarrow> ('k \<times> int) list" where
  "lr_quotients rows payout tot = dict_of (map (\<lambda>(k, w). (k, w * payout div tot)) rows)"

definition lr_remainders :: "('k \<times> int) list \<Rightarrow> int \<Rightarrow> int \<Rightarrow> (int \<times> 'k) list" where
  "lr_remainders rows payout tot = map (\<lambda>(k, w). (w * payout mod tot, k)) rows"

text \<open>\<open>sorted(remainders, key=lambda row: (-row[0], row[1]))\<close>.\<close>

definition lr_order :: "(int \<times> 'k::linorder) list \<Rightarrow> (int \<times> 'k) list" where
  "lr_order rs = sort_key (\<lambda>row. (- fst row, snd row)) rs"

definition largest_remainder ::
    "('k::linorder \<times> int) list \<Rightarrow> int \<Rightarrow> int \<Rightarrow> ('k \<times> int) list" where
  "largest_remainder rows payout tot =
     (let amounts = lr_quotients rows payout tot;
          missing = payout - sum_list (map snd amounts)
      in fold (\<lambda>(_, k) d. dict_add k 1 d)
           (py_slice_to (lr_order (lr_remainders rows payout tot)) missing) amounts)"

section \<open>Its contract\<close>

text \<open>What the callers pass: distinct keys, nonnegative weights with a positive sum.\<close>

definition lr_input :: "('k \<times> int) list \<Rightarrow> int \<Rightarrow> int \<Rightarrow> bool" where
  "lr_input rows payout tot \<longleftrightarrow>
     distinct (map fst rows) \<and> (\<forall>(k, w) \<in> set rows. 0 \<le> w) \<and>
     tot = sum_list (map snd rows) \<and> 0 < tot \<and> 0 \<le> payout"

locale apportionment =
  fixes alloc :: "('k::linorder \<times> int) list \<Rightarrow> int \<Rightarrow> int \<Rightarrow> ('k \<times> int) list"
  assumes alloc_keys: "lr_input rows p t \<Longrightarrow> map fst (alloc rows p t) = map fst rows"
    and alloc_total: "lr_input rows p t \<Longrightarrow> sum_list (map snd (alloc rows p t)) = p"
    and alloc_quota: "lr_input rows p t \<Longrightarrow> (k, w) \<in> set rows \<Longrightarrow>
      w * p div t \<le> dict_get k 0 (alloc rows p t) \<and> dict_get k 0 (alloc rows p t) * t < w * p + t"
begin

lemma alloc_nonneg:
  assumes "lr_input rows p t" and "(k, w) \<in> set rows"
  shows "0 \<le> dict_get k 0 (alloc rows p t)"
proof -
  from assms have "0 \<le> w * p div t"
    by (auto simp: lr_input_def intro!: pos_imp_zdiv_nonneg_iff [THEN iffD2])
  with alloc_quota [OF assms] show ?thesis by linarith
qed

text \<open>A payout that does not exceed the debt never gives a key more than it is owed.\<close>

lemma alloc_within_weight:
  assumes inp: "lr_input rows p t" and kw: "(k, w) \<in> set rows" and le: "p \<le> t"
  shows "dict_get k 0 (alloc rows p t) \<le> w"
proof -
  from inp kw have "0 \<le> w" and "0 < t" by (auto simp: lr_input_def)
  have "dict_get k 0 (alloc rows p t) * t < w * p + t"
    using alloc_quota [OF inp kw] by simp
  also have "\<dots> \<le> w * t + t" using \<open>0 \<le> w\<close> le by (simp add: mult_left_mono)
  also have "\<dots> = (w + 1) * t" by (simp add: algebra_simps)
  finally show ?thesis using \<open>0 < t\<close> by (simp add: mult_less_cancel_right)
qed

lemma alloc_full: "lr_input rows p t \<Longrightarrow> p = t \<Longrightarrow> (k, w) \<in> set rows \<Longrightarrow>
    dict_get k 0 (alloc rows p t) = w"
  using alloc_quota [of rows p t k w] alloc_within_weight [of rows p t k w]
  by (auto simp: lr_input_def)

lemma alloc_distinct: "lr_input rows p t \<Longrightarrow> distinct (map fst (alloc rows p t))"
  by (simp add: alloc_keys lr_input_def)

lemma alloc_mem:
  assumes "lr_input rows p t" and "(k, a) \<in> set (alloc rows p t)"
  shows "a = dict_get k 0 (alloc rows p t)" and "\<exists>w. (k, w) \<in> set rows"
proof -
  show "a = dict_get k 0 (alloc rows p t)"
    using alloc_distinct [OF assms(1)] assms(2) by (simp add: dict_get_eq)
  have "k \<in> set (map fst (alloc rows p t))" using assms(2) by force
  then show "\<exists>w. (k, w) \<in> set rows" by (auto simp: alloc_keys [OF assms(1)])
qed

end

section \<open>The loop satisfies it\<close>

lemma lr_quotients_eq:
  "distinct (map fst rows) \<Longrightarrow>
     lr_quotients rows p t = map (\<lambda>(k, w). (k, w * p div t)) rows"
  unfolding lr_quotients_def by (rule dict_of_distinct) (simp add: comp_def case_prod_beta)

lemma lr_missing_times_total:
  assumes "tot = sum_list (map snd rows)"
  shows "(payout - sum_list (map (\<lambda>r. snd r * payout div tot) rows)) * tot =
    sum_list (map fst (lr_remainders rows payout tot))"
proof -
  have "sum_list (map (\<lambda>r. snd r * payout div tot) rs) * tot +
      sum_list (map fst (lr_remainders rs payout tot)) = sum_list (map snd rs) * payout" for rs
  proof (induction rs)
    case (Cons r rs)
    have "snd r * payout div tot * tot + snd r * payout mod tot = snd r * payout" by simp
    with Cons show ?case
      by (simp add: lr_remainders_def case_prod_beta distrib_right)
  qed (simp add: lr_remainders_def)
  from this [of rows] assms show ?thesis by (simp add: algebra_simps)
qed

lemma sum_le_count_pos:
  "(\<And>r. r \<in> set rs \<Longrightarrow> 0 \<le> r \<and> r < (t::int)) \<Longrightarrow>
     sum_list rs \<le> int (length (filter (\<lambda>r. 0 < r) rs)) * t"
proof (induction rs)
  case (Cons r rs)
  then have "0 \<le> r" "r < t" "sum_list rs \<le> int (length (filter (\<lambda>r. 0 < r) rs)) * t"
    by auto
  then show ?case by (auto simp: algebra_simps)
qed simp

lemma take_sorted_desc_pos:
  "sorted_wrt (\<lambda>a b. f b \<le> (f a :: int)) xs \<Longrightarrow> n \<le> length (filter (\<lambda>x. 0 < f x) xs) \<Longrightarrow>
     \<forall>x \<in> set (take n xs). 0 < f x"
proof (induction xs arbitrary: n)
  case (Cons x xs)
  show ?case
  proof (cases "0 < f x")
    case True
    show ?thesis
    proof (cases n)
      case (Suc m)
      with True Cons.prems have "m \<le> length (filter (\<lambda>x. 0 < f x) xs)" by simp
      with Cons.IH [of m] Cons.prems(1) have "\<forall>x \<in> set (take m xs). 0 < f x" by simp
      with True Suc show ?thesis by simp
    qed simp
  next
    case False
    with Cons.prems(1) have "filter (\<lambda>x. 0 < f x) xs = []"
      by (auto simp: filter_empty_conv)
    with False Cons.prems(2) have "n = 0" by simp
    then show ?thesis by simp
  qed
qed simp

lemma lr_order_desc: "sorted_wrt (\<lambda>a b. fst b \<le> fst a) (lr_order rs)"
proof -
  have "sorted (map (\<lambda>row. (- fst row, snd row)) (lr_order rs))"
    by (simp add: lr_order_def)
  then show ?thesis
    unfolding sorted_map
    by (rule sorted_wrt_mono_rel [rotated]) (auto simp: less_eq_prod_def)
qed

lemma fold_add_winners:
  "distinct (map fst d) \<Longrightarrow> distinct (map snd ws) \<Longrightarrow> snd ` set ws \<subseteq> fst ` set d \<Longrightarrow>
     map fst (fold (\<lambda>(_, k) d. dict_add k 1 d) ws d) = map fst d \<and>
     dict_get k 0 (fold (\<lambda>(_, k) d. dict_add k 1 d) ws d) =
       dict_get k 0 d + (if k \<in> snd ` set ws then 1 else 0) \<and>
     sum_list (map snd (fold (\<lambda>(_, k) d. dict_add k 1 d) ws d)) =
       sum_list (map snd d) + int (length ws)"
proof (induction ws arbitrary: d)
  case (Cons x ws)
  obtain r j where x: "x = (r, j)" by (cases x)
  have keys: "map fst (dict_add j 1 d) = map fst d"
    using Cons.prems(3) x by (simp add: dict_add_def map_fst_dict_set)
  then have "snd ` set ws \<subseteq> fst ` set (dict_add j 1 d)"
    using Cons.prems(3) by auto
  with Cons.IH [of "dict_add j 1 d"] Cons.prems keys x show ?case
    by (auto simp: dict_get_dict_add sum_dict_add)
qed simp

lemma lr_missing_bounds:
  fixes rows :: "('k::linorder \<times> int) list"
  assumes inp: "lr_input rows p t"
  defines "m \<equiv> p - sum_list (map snd (lr_quotients rows p t))"
  shows "0 \<le> m" and "nat m \<le> length (filter (\<lambda>row. 0 < fst row) (lr_order (lr_remainders rows p t)))"
proof -
  let ?R = "lr_remainders rows p t"
  have t: "0 < t" and dist: "distinct (map fst rows)" and tot: "t = sum_list (map snd rows)"
    using inp by (auto simp: lr_input_def)
  have mt: "m * t = sum_list (map fst ?R)"
    using lr_missing_times_total [OF tot, of p]
    by (simp add: m_def lr_quotients_eq [OF dist] comp_def case_prod_beta)
  have R: "0 \<le> r \<and> r < t" if "r \<in> set (map fst ?R)" for r
    using that t by (auto simp: lr_remainders_def)
  have "0 \<le> m * t" unfolding mt by (rule sum_list_nonneg) (use R in blast)
  with t show "0 \<le> m" by (simp add: zero_le_mult_iff)
  have "m * t \<le> int (length (filter (\<lambda>r. 0 < r) (map fst ?R))) * t"
    unfolding mt by (rule sum_le_count_pos) (use R in blast)
  with t have "m \<le> int (length (filter (\<lambda>r. 0 < r) (map fst ?R)))" by simp
  also have "length (filter (\<lambda>r. 0 < r) (map fst ?R)) = length (filter (\<lambda>row. 0 < fst row) ?R)"
    by (simp add: filter_map comp_def)
  also have "\<dots> = length (filter (\<lambda>row. 0 < fst row) (lr_order ?R))"
    by (metis lr_order_def mset_filter mset_sort size_mset)
  finally show "nat m \<le> length (filter (\<lambda>row. 0 < fst row) (lr_order ?R))" by simp
qed

lemma largest_remainder_facts:
  fixes rows :: "('k::linorder \<times> int) list"
  assumes inp: "lr_input rows p t"
  defines "ws \<equiv> py_slice_to (lr_order (lr_remainders rows p t))
      (p - sum_list (map snd (lr_quotients rows p t)))"
  shows "map fst (largest_remainder rows p t) = map fst rows"
    and "sum_list (map snd (largest_remainder rows p t)) = p"
    and "\<And>k w. (k, w) \<in> set rows \<Longrightarrow>
      dict_get k 0 (largest_remainder rows p t) = w * p div t + (if k \<in> snd ` set ws then 1 else 0)"
    and "\<And>k w. (k, w) \<in> set rows \<Longrightarrow> k \<in> snd ` set ws \<Longrightarrow> 0 < w * p mod t"
proof -
  let ?q = "lr_quotients rows p t" and ?R = "lr_remainders rows p t"
  define m where "m = p - sum_list (map snd ?q)"
  have dist: "distinct (map fst rows)" using inp by (simp add: lr_input_def)
  note q = lr_quotients_eq [OF dist, of p t]
  note m = lr_missing_bounds [OF inp, folded m_def]
  have ws: "ws = take (nat m) (lr_order ?R)"
    using m(1) by (simp add: ws_def m_def py_slice_to_def)
  have len: "length ws = nat m"
    using m(2) by (simp add: ws le_trans [OF m(2)])
  have setR: "set (lr_order ?R) = set ?R" by (simp add: lr_order_def)
  have distR: "distinct (map snd ?R)"
    using dist by (simp add: lr_remainders_def comp_def case_prod_beta)
  then have distws: "distinct (map snd ws)"
    by (simp add: ws lr_order_def distinct_map_sort_key flip: take_map)
  have sub: "set ws \<subseteq> set ?R" by (metis setR set_take_subset ws)
  then have keys: "snd ` set ws \<subseteq> fst ` set ?q"
    by (force simp: q lr_remainders_def)
  have lr: "largest_remainder rows p t = fold (\<lambda>(_, k) d. dict_add k 1 d) ws ?q"
    by (simp add: largest_remainder_def ws_def Let_def)
  have distq: "distinct (map fst ?q)"
    using dist by (simp add: q comp_def case_prod_beta)
  note facts = fold_add_winners [OF distq distws keys, folded lr]
  show "map fst (largest_remainder rows p t) = map fst rows"
    using facts by (simp add: q comp_def case_prod_beta)
  show "sum_list (map snd (largest_remainder rows p t)) = p"
    using facts len m(1) by (simp add: m_def)
  show "dict_get k 0 (largest_remainder rows p t) =
      w * p div t + (if k \<in> snd ` set ws then 1 else 0)" if "(k, w) \<in> set rows" for k w
  proof -
    have "(k, w * p div t) \<in> set ?q" using that by (force simp: q)
    with distq facts [of k] show ?thesis by (simp add: dict_get_eq)
  qed
  show "0 < w * p mod t" if kw: "(k, w) \<in> set rows" and k: "k \<in> snd ` set ws" for k w
  proof -
    from k obtain r where r: "(r, k) \<in> set ws" by force
    then have "0 < r"
      using take_sorted_desc_pos [OF lr_order_desc m(2)] by (auto simp: ws)
    moreover from r sub have "(r, k) \<in> set ?R" by blast
    then obtain w' where "(k, w') \<in> set rows" "r = w' * p mod t"
      by (auto simp: lr_remainders_def)
    ultimately show ?thesis using dist kw by (metis eq_key_imp_eq_value)
  qed
qed

interpretation lr: apportionment largest_remainder
proof
  fix rows :: "('k::linorder \<times> int) list" and p t k w
  assume inp: "lr_input rows p t"
  show "map fst (largest_remainder rows p t) = map fst rows"
    and "sum_list (map snd (largest_remainder rows p t)) = p"
    by (rule largest_remainder_facts [OF inp])+
  assume kw: "(k, w) \<in> set rows"
  have t: "0 < t" using inp by (simp add: lr_input_def)
  define q r where "q = w * p div t" and "r = w * p mod t"
  have wp: "w * p = q * t + r" by (simp add: q_def r_def)
  have r: "r < t" "0 \<le> r" using t by (simp_all add: r_def)
  show "w * p div t \<le> dict_get k 0 (largest_remainder rows p t) \<and>
      dict_get k 0 (largest_remainder rows p t) * t < w * p + t"
    using largest_remainder_facts(3,4) [OF inp kw, folded q_def r_def] t r
    unfolding wp by (simp add: q_def [symmetric] distrib_right split: if_splits)
qed

section \<open>Paying debts from a capacity\<close>

text \<open>
  The callers first ask whether the capacity covers the whole debt: then every key gets what
  it is owed, otherwise the payout is apportioned.
\<close>

definition capped_amounts ::
    "('k::linorder \<times> int) list \<Rightarrow> int \<Rightarrow> int \<Rightarrow> int \<Rightarrow> ('k \<times> int) list" where
  "capped_amounts owed payout tot capacity =
     (if payout \<noteq> 0 \<and> tot \<le> capacity then dict_of owed
      else if payout \<noteq> 0 then largest_remainder owed payout tot
      else [])"

text \<open>An amount is a fair share of a payout: within one unit of the exact quota, at most what is owed.\<close>

definition fair_amount :: "int \<Rightarrow> int \<Rightarrow> int \<Rightarrow> int \<Rightarrow> bool" where
  "fair_amount owed pay debt a \<longleftrightarrow>
     0 \<le> a \<and> a \<le> owed \<and> owed * pay div debt \<le> a \<and> a * debt < owed * pay + debt"

lemma capped_amounts_facts:
  assumes dist: "distinct (map fst owed)" and pos: "\<forall>r \<in> set owed. 0 < snd r"
    and debt: "debt = sum_list (map snd owed)" and pay: "pay = min cap debt"
    and cap: "0 \<le> cap" and ne: "pay \<noteq> 0"
  shows "map fst (capped_amounts owed pay debt cap) = map fst owed"
    and "sum_list (map snd (capped_amounts owed pay debt cap)) = pay"
    and "\<And>k w. (k, w) \<in> set owed \<Longrightarrow> fair_amount w pay debt (dict_get k 0 (capped_amounts owed pay debt cap))"
proof -
  let ?A = "capped_amounts owed pay debt cap"
  have nn: "\<forall>r \<in> set owed. 0 \<le> snd r" using pos by (auto intro: less_imp_le)
  have "0 \<le> debt" unfolding debt using nn by (intro sum_list_nonneg_ints) auto
  with cap pay ne have pay_pos: "0 < pay" "pay \<le> debt" "0 < debt" by auto
  have inp: "lr_input owed pay debt"
    using dist nn debt pay_pos by (auto simp: lr_input_def)
  have "map fst ?A = map fst owed \<and> sum_list (map snd ?A) = pay
    \<and> (\<forall>(k, w) \<in> set owed. fair_amount w pay debt (dict_get k 0 ?A))"
  proof (cases "debt \<le> cap")
    case True
    then have "?A = owed" "pay = debt"
      using pay ne dist by (simp_all add: capped_amounts_def dict_of_distinct)
    then show ?thesis
      using dict_get_eq [OF dist] nn debt pay_pos by (auto simp: fair_amount_def)
  next
    case False
    then have A: "?A = largest_remainder owed pay debt"
      using ne by (simp add: capped_amounts_def)
    show ?thesis
      using lr.alloc_keys [OF inp] lr.alloc_total [OF inp] lr.alloc_quota [OF inp] pay_pos
        lr.alloc_nonneg [OF inp] lr.alloc_within_weight [OF inp _ pay_pos(2)]
      unfolding A fair_amount_def by auto
  qed
  then show "map fst ?A = map fst owed" "sum_list (map snd ?A) = pay"
    "\<And>k w. (k, w) \<in> set owed \<Longrightarrow> fair_amount w pay debt (dict_get k 0 ?A)" by auto
qed

text \<open>In every case the amounts looked up for the debts sum to the payout.\<close>

lemma capped_amounts_lookup:
  assumes dist: "distinct (map fst owed)" and pos: "\<forall>r \<in> set owed. 0 < snd r"
    and debt: "debt = sum_list (map snd owed)" and pay: "pay = min cap debt" and cap: "0 \<le> cap"
  shows "sum_list (map (\<lambda>r. dict_get (fst r) 0 (capped_amounts owed pay debt cap)) owed) = pay"
    and "\<And>k. k \<notin> fst ` set owed \<Longrightarrow> dict_get k 0 (capped_amounts owed pay debt cap) = 0"
    and "\<And>k w. (k, w) \<in> set owed \<Longrightarrow> 0 < debt \<and>
      fair_amount w pay debt (dict_get k 0 (capped_amounts owed pay debt cap))"
proof -
  let ?A = "capped_amounts owed pay debt cap"
  note facts = capped_amounts_facts [OF dist pos debt pay cap]
  have zero: "?A = []" if "pay = 0" using that by (simp add: capped_amounts_def)
  have debt_pos: "0 < debt" if "(k, w) \<in> set owed" for k w
    unfolding debt using that pos by (intro sum_list_pos_ints) auto
  show "sum_list (map (\<lambda>r. dict_get (fst r) 0 ?A) owed) = pay"
  proof (cases "pay = 0")
    case False
    have "distinct (map fst ?A)" using dist facts(1) [OF False] by simp
    then have "map snd ?A = map (\<lambda>k. dict_get k 0 ?A) (map fst ?A)" by (auto simp: dict_get_eq)
    then show ?thesis using facts(2) [OF False] unfolding facts(1) [OF False] by (simp add: comp_def)
  qed (use zero in simp)
  show "dict_get k 0 ?A = 0" if "k \<notin> fst ` set owed" for k
  proof (cases "pay = 0")
    case False
    with facts(1) have "fst ` set ?A = fst ` set owed" by (metis set_map)
    with that show ?thesis by (simp add: dict_get_absent)
  qed (use zero in simp)
  show "0 < debt \<and> fair_amount w pay debt (dict_get k 0 ?A)" if kw: "(k, w) \<in> set owed" for k w
  proof (cases "pay = 0")
    case False
    then show ?thesis using facts(3) kw debt_pos by blast
  next
    case True
    have "0 < w" using pos kw by force
    with zero [OF True] True debt_pos [OF kw] show ?thesis by (simp add: fair_amount_def)
  qed
qed

end
