(* ===== verification/Debt_Epoch.thy ===== *)
theory Debt_Epoch
  imports Finite_Debt_Laws Apportion
begin

text \<open>
  \<open>optima/finite_debt.py\<close>, second half: the projection of one payout epoch over the open
  claims, and its application to their balances. The contended branch of
  \<open>project_debt_epoch\<close> runs the loop of \<open>Apportion\<close>.
\<close>

section \<open>Rows of a projection\<close>

record DebtEpochAllocation =
  dea_claim_digest :: string
  dea_hotkey :: string
  dea_units :: int

definition DebtEpochAllocation_init :: "(string \<times> pyval) list \<Rightarrow> py_error + DebtEpochAllocation" where
  "DebtEpochAllocation_init row =
     bindE (fd_digest (kwarg row ''claim_digest'') ''claim_digest'') (\<lambda>d.
     bindE (fd_hotkey (kwarg row ''hotkey'') ''hotkey'') (\<lambda>h.
     bindE (fd_integer (kwarg row ''units'') ''allocation units'' 1 None) (\<lambda>u.
     Inr \<lparr>dea_claim_digest = d, dea_hotkey = h, dea_units = u\<rparr>)))"

definition DebtEpochAllocation_fields :: "DebtEpochAllocation \<Rightarrow> (string \<times> json) list" where
  "DebtEpochAllocation_fields r =
     [(''claim_digest'', JStr (dea_claim_digest r)), (''hotkey'', JStr (dea_hotkey r)),
      (''units'', JInt (dea_units r))]"

definition DebtEpochAllocation_new :: "string \<Rightarrow> string \<Rightarrow> int \<Rightarrow> py_error + DebtEpochAllocation" where
  "DebtEpochAllocation_new d h u = DebtEpochAllocation_init (kwargs_of
     (DebtEpochAllocation_fields \<lparr>dea_claim_digest = d, dea_hotkey = h, dea_units = u\<rparr>))"

definition DebtEpochAllocation_from_dict :: "pyval \<Rightarrow> py_error + DebtEpochAllocation" where
  "DebtEpochAllocation_from_dict v =
     bindE (fd_strict v [''claim_digest'', ''hotkey'', ''units''] ''debt epoch allocation'')
       DebtEpochAllocation_init"

record DebtHotkeyWeight =
  dhw_hotkey :: string
  dhw_units :: int

definition DebtHotkeyWeight_init :: "(string \<times> pyval) list \<Rightarrow> py_error + DebtHotkeyWeight" where
  "DebtHotkeyWeight_init row =
     bindE (fd_hotkey (kwarg row ''hotkey'') ''hotkey'') (\<lambda>h.
     bindE (fd_integer (kwarg row ''units'') ''hotkey weight units'' 1 (Some REFERENCE_EPOCH_UNITS)) (\<lambda>u.
     Inr \<lparr>dhw_hotkey = h, dhw_units = u\<rparr>))"

definition DebtHotkeyWeight_fields :: "DebtHotkeyWeight \<Rightarrow> (string \<times> json) list" where
  "DebtHotkeyWeight_fields r =
     [(''hotkey'', JStr (dhw_hotkey r)), (''units'', JInt (dhw_units r))]"

definition DebtHotkeyWeight_new :: "string \<Rightarrow> int \<Rightarrow> py_error + DebtHotkeyWeight" where
  "DebtHotkeyWeight_new h u = DebtHotkeyWeight_init (kwargs_of
     (DebtHotkeyWeight_fields \<lparr>dhw_hotkey = h, dhw_units = u\<rparr>))"

definition DebtHotkeyWeight_from_dict :: "pyval \<Rightarrow> py_error + DebtHotkeyWeight" where
  "DebtHotkeyWeight_from_dict v =
     bindE (fd_strict v [''hotkey'', ''units''] ''debt hotkey weight'') DebtHotkeyWeight_init"

section \<open>The projection\<close>

record DebtEpochProjection =
  dep_policy_digest :: string
  dep_effective_block :: int
  dep_reference_epoch_units :: pyval
  dep_claim_pool_capacity_units :: int
  dep_total_remaining_units :: int
  dep_payout_units :: int
  dep_reserve_hotkey :: string
  dep_reserve_units :: int
  dep_input_state_digests :: "string list"
  dep_allocations :: "DebtEpochAllocation list"
  dep_weights :: "DebtHotkeyWeight list"

text \<open>
  \<open>{row.hotkey: row.units for row in weights} == {hotkey: units for ... if units > 0}\<close>:
  dictionaries are compared without their order.
\<close>

definition same_dict :: "('k \<times> 'v) list \<Rightarrow> ('k \<times> 'v) list \<Rightarrow> bool" where
  "same_dict d d' \<longleftrightarrow> set d = set d'"

definition hotkey_totals :: "DebtEpochAllocation list \<Rightarrow> (string \<times> int) list" where
  "hotkey_totals allocations = dict_sum (map (\<lambda>a. (dea_hotkey a, dea_units a)) allocations) []"

definition DebtEpochProjection_init ::
    "string list \<Rightarrow> DebtEpochAllocation list \<Rightarrow> DebtHotkeyWeight list \<Rightarrow> (string \<times> pyval) list \<Rightarrow>
     py_error + DebtEpochProjection" where
  "DebtEpochProjection_init inputs allocations weights row =
     bindE (fd_digest (kwarg row ''policy_digest'') ''policy_digest'') (\<lambda>policy_digest.
     bindE (fd_integer (kwarg row ''effective_block'') ''effective_block'' 0 None) (\<lambda>block.
     if \<not> py_eq_int (kwarg row ''reference_epoch_units'') REFERENCE_EPOCH_UNITS
     then Inl (FiniteDebtError ''reference_epoch_units is unsupported'') else
     bindE (fd_integer (kwarg row ''claim_pool_capacity_units'') ''claim_pool_capacity_units'' 0
       (Some REFERENCE_EPOCH_UNITS)) (\<lambda>capacity.
     bindE (fd_integer (kwarg row ''total_remaining_units'') ''total_remaining_units'' 0 None) (\<lambda>remaining.
     bindE (fd_integer (kwarg row ''payout_units'') ''payout_units'' 0 (Some capacity)) (\<lambda>payout.
     bindE (fd_integer (kwarg row ''reserve_units'') ''reserve_units'' 0 (Some REFERENCE_EPOCH_UNITS))
       (\<lambda>reserve.
     bindE (fd_hotkey (kwarg row ''reserve_hotkey'') ''reserve_hotkey'') (\<lambda>reserve_hotkey.
     if \<not> sorted_unique inputs
     then Inl (FiniteDebtError ''projection input states are not canonical'') else
     bindE (forE inputs (\<lambda>d. bindE (fd_digest (PyStr d) ''input state digest'') (\<lambda>_. Inr ()))) (\<lambda>_.
     if \<not> sorted_unique (map dea_claim_digest allocations) \<or> \<not> sorted_unique (map dhw_hotkey weights)
     then Inl (FiniteDebtError ''projection allocations or weights are not canonical'') else
     if payout \<noteq> min capacity remaining
        \<or> sum_list (map dea_units allocations) \<noteq> payout
        \<or> reserve \<noteq> REFERENCE_EPOCH_UNITS - payout
        \<or> sum_list (map dhw_units weights) \<noteq> REFERENCE_EPOCH_UNITS
     then Inl (FiniteDebtError ''debt epoch projection does not conserve capacity'') else
     let by_hotkey = dict_add reserve_hotkey reserve (hotkey_totals allocations) in
     if \<not> same_dict (dict_of (map (\<lambda>w. (dhw_hotkey w, dhw_units w)) weights))
          (filter (\<lambda>(_, units). 0 < units) by_hotkey)
     then Inl (FiniteDebtError ''projection hotkey weights differ from claim allocations'') else
     Inr \<lparr>dep_policy_digest = policy_digest, dep_effective_block = block,
          dep_reference_epoch_units = kwarg row ''reference_epoch_units'',
          dep_claim_pool_capacity_units = capacity, dep_total_remaining_units = remaining,
          dep_payout_units = payout, dep_reserve_hotkey = reserve_hotkey,
          dep_reserve_units = reserve, dep_input_state_digests = inputs,
          dep_allocations = allocations, dep_weights = weights\<rparr>))))))))"

definition DebtEpochProjection_scalars :: "DebtEpochProjection \<Rightarrow> (string \<times> pyval) list" where
  "DebtEpochProjection_scalars r =
     [(''policy_digest'', PyStr (dep_policy_digest r)),
      (''effective_block'', PyInt (dep_effective_block r)),
      (''reference_epoch_units'', dep_reference_epoch_units r),
      (''claim_pool_capacity_units'', PyInt (dep_claim_pool_capacity_units r)),
      (''total_remaining_units'', PyInt (dep_total_remaining_units r)),
      (''payout_units'', PyInt (dep_payout_units r)),
      (''reserve_hotkey'', PyStr (dep_reserve_hotkey r)),
      (''reserve_units'', PyInt (dep_reserve_units r))]"

definition DebtEpochProjection_new :: "DebtEpochProjection \<Rightarrow> py_error + DebtEpochProjection" where
  "DebtEpochProjection_new r =
     DebtEpochProjection_init (dep_input_state_digests r) (dep_allocations r) (dep_weights r)
       (DebtEpochProjection_scalars r)"

definition DebtEpochProjection_to_dict :: "DebtEpochProjection \<Rightarrow> pyval" where
  "DebtEpochProjection_to_dict r = PyDict
     ((PyStr ''allocations'', PyList (map (\<lambda>a. py_of_json (JObj (DebtEpochAllocation_fields a)))
         (dep_allocations r))) #
      (PyStr ''input_state_digests'', PyList (map PyStr (dep_input_state_digests r))) #
      (PyStr ''weights'', PyList (map (\<lambda>w. py_of_json (JObj (DebtHotkeyWeight_fields w)))
         (dep_weights r))) #
      map (\<lambda>(k, v). (PyStr k, v)) (DebtEpochProjection_scalars r))"

definition dep_field_names :: "string list" where
  "dep_field_names = [''policy_digest'', ''effective_block'', ''reference_epoch_units'',
     ''claim_pool_capacity_units'', ''total_remaining_units'', ''payout_units'', ''reserve_hotkey'',
     ''reserve_units'', ''input_state_digests'', ''allocations'', ''weights'']"

definition DebtEpochProjection_from_dict :: "pyval \<Rightarrow> py_error + DebtEpochProjection" where
  "DebtEpochProjection_from_dict v =
     bindE (fd_strict v dep_field_names ''debt epoch projection'') (\<lambda>row.
     case kwarg row ''allocations'' of
       PyList allocations \<Rightarrow>
         (case kwarg row ''input_state_digests'' of
            PyList inputs \<Rightarrow>
              (case kwarg row ''weights'' of
                 PyList weights \<Rightarrow>
                   bindE (mapE DebtEpochAllocation_from_dict allocations) (\<lambda>alls.
                   bindE (mapE DebtHotkeyWeight_from_dict weights) (\<lambda>ws.
                   bindE (str_items inputs ''input state digest'') (\<lambda>ds.
                   DebtEpochProjection_init ds alls ws row)))
               | _ \<Rightarrow> Inl (FiniteDebtError ''projection weights must be an array''))
          | _ \<Rightarrow> Inl (FiniteDebtError ''projection input_state_digests must be an array''))
     | _ \<Rightarrow> Inl (FiniteDebtError ''projection allocations must be an array''))"

definition DebtEpochProjection_weights_by_hotkey :: "DebtEpochProjection \<Rightarrow> (string \<times> int) list" where
  "DebtEpochProjection_weights_by_hotkey r =
     dict_of (map (\<lambda>w. (dhw_hotkey w, dhw_units w)) (dep_weights r))"

definition DebtEpochProjection_digest :: "py_env \<Rightarrow> DebtEpochProjection \<Rightarrow> py_error + string" where
  "DebtEpochProjection_digest E r =
     canonical_digest E ''optima.finite-debt.epoch-projection'' (DebtEpochProjection_to_dict r) 1"

section \<open>Projecting an epoch\<close>

abbreviation state_claim_digest :: "py_env \<Rightarrow> DebtClaimState \<Rightarrow> string" where
  "state_claim_digest E st \<equiv> InnovationDebtClaim_digest E (dcs_claim st)"

abbreviation state_open :: "DebtClaimState \<Rightarrow> bool" where
  "state_open st \<equiv> dcb_status (dcs_balance st) = ''open''"

abbreviation state_remaining :: "DebtClaimState \<Rightarrow> int" where
  "state_remaining st \<equiv> dcb_remaining_units (dcs_balance st)"

definition project_check_row ::
    "py_env \<Rightarrow> FiniteDebtPolicyManifest \<Rightarrow> int \<Rightarrow> DebtClaimState \<Rightarrow> py_error + unit" where
  "project_check_row E p block row =
     bindE (InnovationDebtClaim_validate_policy E (dcs_claim row) p) (\<lambda>_.
     if idc_hotkey (dcs_claim row) = fdp_reserve_hotkey p \<and> state_open row
     then Inl (FiniteDebtError ''reserve hotkey cannot own an open debt claim'') else
     if state_open row \<and> block < idc_settlement_block (dcs_claim row)
     then Inl (FiniteDebtError ''claim cannot receive payout before settlement'') else
     if state_open row \<and> idc_expires_block (dcs_claim row) \<le> block
     then Inl (FiniteDebtError ''open claim is expired; expire its balance before projection'') else
     Inr ())"

definition project_amounts ::
    "py_env \<Rightarrow> DebtClaimState list \<Rightarrow> int \<Rightarrow> int \<Rightarrow> int \<Rightarrow> (string \<times> int) list" where
  "project_amounts E open_rows payout total_remaining capacity =
     capped_amounts (map (\<lambda>row. (state_claim_digest E row, state_remaining row)) open_rows)
       payout total_remaining capacity"

definition project_debt_epoch ::
    "py_env \<Rightarrow> FiniteDebtPolicyManifest \<Rightarrow> int \<Rightarrow> DebtClaimState list \<Rightarrow> py_error + DebtEpochProjection" where
  "project_debt_epoch E p effective_block states =
     bindE (fd_integer (PyInt effective_block) ''effective_block'' 0 None) (\<lambda>block.
     if length (remdups (map (state_claim_digest E) states)) \<noteq> length states
     then Inl (FiniteDebtError ''debt claim states contain duplicate claims'') else
     let rows = sort_key (state_claim_digest E) states in
     bindE (forE rows (project_check_row E p block)) (\<lambda>_.
     let open_rows = filter state_open rows;
         total_remaining = sum_list (map state_remaining open_rows);
         capacity = reference_claim_pool_units p;
         payout = min capacity total_remaining;
         amounts = project_amounts E open_rows payout total_remaining capacity
     in bindE (mapE (\<lambda>row. DebtEpochAllocation_new (state_claim_digest E row)
              (idc_hotkey (dcs_claim row)) (dict_get (state_claim_digest E row) 0 amounts))
            (filter (\<lambda>row. 0 < dict_get (state_claim_digest E row) 0 amounts) open_rows))
       (\<lambda>allocations.
     let reserve = REFERENCE_EPOCH_UNITS - payout;
         by_hotkey = (if reserve \<noteq> 0
            then dict_set (fdp_reserve_hotkey p) reserve (hotkey_totals allocations)
            else hotkey_totals allocations)
     in bindE (mapE (\<lambda>h. DebtHotkeyWeight_new h (dict_get h 0 by_hotkey)) (sort (map fst by_hotkey)))
       (\<lambda>weights.
     bindE (FiniteDebtPolicyManifest_digest E p) (\<lambda>policy_digest.
     bindE (DebtEpochProjection_new
       \<lparr>dep_policy_digest = policy_digest, dep_effective_block = block,
        dep_reference_epoch_units = PyInt REFERENCE_EPOCH_UNITS,
        dep_claim_pool_capacity_units = capacity, dep_total_remaining_units = total_remaining,
        dep_payout_units = payout, dep_reserve_hotkey = fdp_reserve_hotkey p,
        dep_reserve_units = reserve,
        dep_input_state_digests = sort (map (DebtClaimState_digest E) rows),
        dep_allocations = allocations, dep_weights = weights\<rparr>) (\<lambda>result.
     let remaining_by_claim =
           dict_of (map (\<lambda>row. (state_claim_digest E row, state_remaining row)) open_rows)
     in if \<exists>a \<in> set (dep_allocations result).
             dict_get (dea_claim_digest a) 0 remaining_by_claim < dea_units a
        then Inl (FiniteDebtError ''projection allocation exceeds remaining principal'')
        else Inr result))))))"

definition apply_debt_epoch_projection ::
    "py_env \<Rightarrow> DebtClaimState list \<Rightarrow> DebtEpochProjection \<Rightarrow> py_error + DebtClaimState list" where
  "apply_debt_epoch_projection E states projection =
     (let rows = sort_key (state_claim_digest E) states in
      if sort (map (DebtClaimState_digest E) rows) \<noteq> dep_input_state_digests projection
      then Inl (FiniteDebtError ''projection input balances changed before application'') else
      let state_by_claim = dict_of (map (\<lambda>row. (state_claim_digest E row, row)) rows) in
      bindE (forE (dep_allocations projection) (\<lambda>a.
        case map_of state_by_claim (dea_claim_digest a) of
          None \<Rightarrow> Inl (FiniteDebtError ''projection allocation differs from its claim state'')
        | Some st \<Rightarrow>
            if \<not> state_open st \<or> idc_hotkey (dcs_claim st) \<noteq> dea_hotkey a
               \<or> state_remaining st < dea_units a
            then Inl (FiniteDebtError ''projection allocation differs from its claim state'')
            else Inr ())) (\<lambda>_.
      let amounts = dict_of (map (\<lambda>a. (dea_claim_digest a, dea_units a)) (dep_allocations projection)) in
      bindE (mapE (\<lambda>row.
          let amount = dict_get (state_claim_digest E row) 0 amounts in
          bindE (if amount = 0 then Inr (dcs_balance row)
                 else pay_claim_balance E (dcs_claim row) (dcs_balance row) amount
                        (dep_effective_block projection)) (\<lambda>balance.
          DebtClaimState_new E (dcs_claim row) balance)) rows) (\<lambda>updated.
      if sum_list (map (\<lambda>row. dcb_paid_units (dcs_balance row)
           - dcb_paid_units (dcs_balance (dict_get (state_claim_digest E row) row state_by_claim)))
           updated) \<noteq> dep_payout_units projection
      then Inl (FiniteDebtError ''projection application did not consume its full payout'')
      else Inr updated)))"

end
