(* ===== verification/Debt_Epoch_Laws.thy ===== *)
theory Debt_Epoch_Laws
  imports Debt_Epoch
begin

text \<open>
  What one payout epoch guarantees. On well-formed claim states \<open>project_debt_epoch\<close> succeeds,
  its allocations are the largest-remainder shares of the open claims and conserve the
  capacity; applying the projection to the same states succeeds, pays every claim its
  allocation, and cannot be repeated.
\<close>

section \<open>Rows\<close>

lemma DebtEpochAllocation_init_iff:
  "DebtEpochAllocation_init row = Inr r \<longleftrightarrow>
     (is_digest (dea_claim_digest r) \<and> is_hotkey (dea_hotkey r) \<and> 1 \<le> dea_units r)
     \<and> row_carries row (DebtEpochAllocation_fields r)"
  by (cases r)
    (auto simp: DebtEpochAllocation_init_def DebtEpochAllocation_fields_def err_simps)

lemma DebtHotkeyWeight_init_iff:
  "DebtHotkeyWeight_init row = Inr r \<longleftrightarrow>
     (is_hotkey (dhw_hotkey r) \<and> 1 \<le> dhw_units r \<and> dhw_units r \<le> REFERENCE_EPOCH_UNITS)
     \<and> row_carries row (DebtHotkeyWeight_fields r)"
  by (cases r) (auto simp: DebtHotkeyWeight_init_def DebtHotkeyWeight_fields_def err_simps)

interpretation allocation: dataclass DebtEpochAllocation_init DebtEpochAllocation_fields
  "[''claim_digest'', ''hotkey'', ''units'']"
  "\<lambda>r. is_digest (dea_claim_digest r) \<and> is_hotkey (dea_hotkey r) \<and> 1 \<le> dea_units r"
  by unfold_locales (simp_all add: DebtEpochAllocation_init_iff DebtEpochAllocation_fields_def)

interpretation weight: dataclass DebtHotkeyWeight_init DebtHotkeyWeight_fields
  "[''hotkey'', ''units'']"
  "\<lambda>r. is_hotkey (dhw_hotkey r) \<and> 1 \<le> dhw_units r \<and> dhw_units r \<le> REFERENCE_EPOCH_UNITS"
  by unfold_locales (simp_all add: DebtHotkeyWeight_init_iff DebtHotkeyWeight_fields_def)

lemma DebtEpochAllocation_new_eq_Inr [err_simps]:
  "DebtEpochAllocation_new d h u = Inr r \<longleftrightarrow> is_digest d \<and> is_hotkey h \<and> 1 \<le> u
     \<and> r = \<lparr>dea_claim_digest = d, dea_hotkey = h, dea_units = u\<rparr>"
  unfolding DebtEpochAllocation_new_def allocation.new_iff by auto

lemma DebtHotkeyWeight_new_eq_Inr [err_simps]:
  "DebtHotkeyWeight_new h u = Inr r \<longleftrightarrow> is_hotkey h \<and> 1 \<le> u \<and> u \<le> REFERENCE_EPOCH_UNITS
     \<and> r = \<lparr>dhw_hotkey = h, dhw_units = u\<rparr>"
  unfolding DebtHotkeyWeight_new_def weight.new_iff by auto

section \<open>Amounts of an epoch\<close>

definition epoch_ready :: "py_env \<Rightarrow> FiniteDebtPolicyManifest \<Rightarrow> int \<Rightarrow> DebtClaimState list \<Rightarrow> bool" where
  "epoch_ready E p block states \<longleftrightarrow>
     policy_valid p \<and> 0 \<le> block \<and> distinct (map (state_claim_digest E) states)
     \<and> (\<forall>st \<in> set states. state_valid E st \<and> project_check_row E p block st = Inr ())"

definition open_states :: "py_env \<Rightarrow> DebtClaimState list \<Rightarrow> DebtClaimState list" where
  "open_states E states = filter state_open (sort_key (state_claim_digest E) states)"

definition epoch_debt :: "py_env \<Rightarrow> DebtClaimState list \<Rightarrow> int" where
  "epoch_debt E states = sum_list (map state_remaining (open_states E states))"

definition epoch_payout :: "py_env \<Rightarrow> FiniteDebtPolicyManifest \<Rightarrow> DebtClaimState list \<Rightarrow> int" where
  "epoch_payout E p states = min (reference_claim_pool_units p) (epoch_debt E states)"

definition epoch_amount :: "py_env \<Rightarrow> FiniteDebtPolicyManifest \<Rightarrow> DebtClaimState list \<Rightarrow> DebtClaimState \<Rightarrow> int" where
  "epoch_amount E p states st = dict_get (state_claim_digest E st) 0
     (project_amounts E (open_states E states) (epoch_payout E p states) (epoch_debt E states)
       (reference_claim_pool_units p))"

lemma set_open_states: "set (open_states E states) = {st \<in> set states. state_open st}"
  by (auto simp: open_states_def)

lemma distinct_open_states:
  "distinct (map (state_claim_digest E) states) \<Longrightarrow>
     distinct (map (state_claim_digest E) (open_states E states))"
  unfolding open_states_def by (intro distinct_map_filter) (simp add: distinct_map_sort_key)

lemma open_state_facts:
  "state_valid E st \<Longrightarrow> state_open st \<Longrightarrow>
     0 < state_remaining st \<and> is_digest (state_claim_digest E st) \<and> is_hotkey (idc_hotkey (dcs_claim st))"
  by (auto simp: state_valid_def balance_of_def balance_valid_def claim_valid_def)

lemma open_states_ready:
  assumes "epoch_ready E p block states"
  shows "distinct (map (state_claim_digest E) (open_states E states))"
    and "\<forall>st \<in> set (open_states E states). 0 < state_remaining st"
    and "0 < reference_claim_pool_units p" "reference_claim_pool_units p \<le> PPM"
  using assms policy_bounds(4,5) [of p] open_state_facts distinct_open_states
  by (auto simp: epoch_ready_def set_open_states)

definition epoch_owed :: "py_env \<Rightarrow> DebtClaimState list \<Rightarrow> (string \<times> int) list" where
  "epoch_owed E states =
     map (\<lambda>row. (state_claim_digest E row, state_remaining row)) (open_states E states)"

lemma epoch_owed_facts:
  assumes "epoch_ready E p block states"
  shows "distinct (map fst (epoch_owed E states))" and "\<forall>r \<in> set (epoch_owed E states). 0 < snd r"
    and "epoch_debt E states = sum_list (map snd (epoch_owed E states))"
    and "0 \<le> reference_claim_pool_units p"
  using open_states_ready [OF assms] by (auto simp: epoch_owed_def epoch_debt_def comp_def)

lemmas epoch_lookup = capped_amounts_lookup [OF epoch_owed_facts(1-3) epoch_payout_def epoch_owed_facts(4)]

lemma epoch_amount_lookup:
  "epoch_amount E p states st = dict_get (state_claim_digest E st) 0
     (capped_amounts (epoch_owed E states) (epoch_payout E p states) (epoch_debt E states)
       (reference_claim_pool_units p))"
  by (simp add: epoch_amount_def project_amounts_def epoch_owed_def)

lemma epoch_amount_fair:
  assumes "epoch_ready E p block states" and "st \<in> set (open_states E states)"
  shows "fair_amount (state_remaining st) (epoch_payout E p states) (epoch_debt E states)
    (epoch_amount E p states st)"
  unfolding epoch_amount_lookup using epoch_lookup(3) [OF assms(1) assms(1) assms(1) assms(1)] assms(2)
  by (force simp: epoch_owed_def)

lemma epoch_amount_total:
  assumes "epoch_ready E p block states"
  shows "sum_list (map (epoch_amount E p states) (open_states E states)) = epoch_payout E p states"
  using epoch_lookup(1) [OF assms assms assms assms]
  by (simp add: epoch_amount_lookup [abs_def] epoch_owed_def comp_def)

lemma epoch_amount_closed:
  assumes "epoch_ready E p block states" and "st \<in> set states" "\<not> state_open st"
  shows "epoch_amount E p states st = 0"
proof -
  have "inj_on (state_claim_digest E) (set states)"
    using assms(1) by (simp add: epoch_ready_def distinct_map)
  then have "state_claim_digest E st \<notin> fst ` set (epoch_owed E states)"
    using assms(2,3) by (auto simp: epoch_owed_def set_open_states inj_on_def)
  then show ?thesis
    unfolding epoch_amount_lookup by (rule epoch_lookup(2) [OF assms(1) assms(1) assms(1) assms(1)])
qed

section \<open>The projection exists\<close>

definition epoch_allocations ::
    "py_env \<Rightarrow> FiniteDebtPolicyManifest \<Rightarrow> DebtClaimState list \<Rightarrow> DebtEpochAllocation list" where
  "epoch_allocations E p states =
     map (\<lambda>st. \<lparr>dea_claim_digest = state_claim_digest E st, dea_hotkey = idc_hotkey (dcs_claim st),
              dea_units = epoch_amount E p states st\<rparr>)
       (filter (\<lambda>st. 0 < epoch_amount E p states st) (open_states E states))"

definition epoch_by_hotkey ::
    "py_env \<Rightarrow> FiniteDebtPolicyManifest \<Rightarrow> DebtClaimState list \<Rightarrow> (string \<times> int) list" where
  "epoch_by_hotkey E p states =
     (let reserve = REFERENCE_EPOCH_UNITS - epoch_payout E p states;
          totals = hotkey_totals (epoch_allocations E p states)
      in if reserve \<noteq> 0 then dict_set (fdp_reserve_hotkey p) reserve totals else totals)"

definition epoch_weights ::
    "py_env \<Rightarrow> FiniteDebtPolicyManifest \<Rightarrow> DebtClaimState list \<Rightarrow> DebtHotkeyWeight list" where
  "epoch_weights E p states =
     map (\<lambda>h. \<lparr>dhw_hotkey = h, dhw_units = dict_get h 0 (epoch_by_hotkey E p states)\<rparr>)
       (sort (map fst (epoch_by_hotkey E p states)))"

lemma epoch_allocations_total:
  assumes "epoch_ready E p block states"
  shows "sum_list (map dea_units (epoch_allocations E p states)) = epoch_payout E p states"
proof -
  have "\<And>st. st \<in> set (open_states E states) \<Longrightarrow> 0 \<le> epoch_amount E p states st"
    using epoch_amount_fair [OF assms] by (simp add: fair_amount_def)
  from sum_list_filter_pos [OF this, of "open_states E states"] epoch_amount_total [OF assms]
  show ?thesis by (simp add: epoch_allocations_def comp_def)
qed

lemma hotkey_totals_facts:
  "distinct (map fst (hotkey_totals as))"
  "sum_list (map snd (hotkey_totals as)) = sum_list (map dea_units as)"
  "fst ` set (hotkey_totals as) = dea_hotkey ` set as"
  by (simp_all add: hotkey_totals_def distinct_dict_sum sum_dict_sum keys_dict_sum comp_def image_image)

lemma hotkey_totals_pos:
  "\<forall>a \<in> set as. 0 < dea_units a \<Longrightarrow> (h, u) \<in> set (hotkey_totals as) \<Longrightarrow> 0 < u"
  unfolding hotkey_totals_def by (rule dict_sum_pos) auto

lemma reserve_owns_nothing:
  assumes "epoch_ready E p block states"
  shows "fdp_reserve_hotkey p \<notin> fst ` set (hotkey_totals (epoch_allocations E p states))"
proof -
  have "idc_hotkey (dcs_claim st) \<noteq> fdp_reserve_hotkey p" if "st \<in> set (open_states E states)" for st
    using that assms by (auto simp: set_open_states epoch_ready_def project_check_row_def err_simps)
  then show ?thesis unfolding hotkey_totals_facts by (fastforce simp: epoch_allocations_def)
qed

lemma epoch_by_hotkey_facts:
  assumes "epoch_ready E p block states"
  shows "distinct (map fst (epoch_by_hotkey E p states))"
    and "sum_list (map snd (epoch_by_hotkey E p states)) = REFERENCE_EPOCH_UNITS"
    and "\<And>h u. (h, u) \<in> set (epoch_by_hotkey E p states) \<Longrightarrow> 0 < u \<and> is_hotkey h"
    and "set (filter (\<lambda>(_, u). 0 < u) (dict_add (fdp_reserve_hotkey p)
      (REFERENCE_EPOCH_UNITS - epoch_payout E p states) (hotkey_totals (epoch_allocations E p states))))
      = set (epoch_by_hotkey E p states)"
proof -
  let ?t = "hotkey_totals (epoch_allocations E p states)" and ?h = "fdp_reserve_hotkey p"
  define reserve where "reserve = REFERENCE_EPOCH_UNITS - epoch_payout E p states"
  have new: "?h \<notin> fst ` set ?t" using reserve_owns_nothing [OF assms] .
  have eq: "epoch_by_hotkey E p states = (if reserve \<noteq> 0 then ?t @ [(?h, reserve)] else ?t)"
    using new by (simp add: epoch_by_hotkey_def reserve_def Let_def dict_set_new)
  have add: "dict_add ?h reserve ?t = ?t @ [(?h, reserve)]"
    using new by (simp add: dict_add_def dict_get_absent dict_set_new)
  have nonneg: "0 \<le> reserve"
    using open_states_ready(4) [OF assms] by (simp add: reserve_def epoch_payout_def REFERENCE_EPOCH_UNITS_def)
  have pos: "0 < u" if "(h, u) \<in> set ?t" for h u
    using hotkey_totals_pos [OF _ that] by (simp add: epoch_allocations_def)
  have valid: "is_hotkey h" if "(h, u) \<in> set ?t" for h u
  proof -
    have "h \<in> fst ` set ?t" using that by force
    then obtain st where "st \<in> set (open_states E states)" "h = idc_hotkey (dcs_claim st)"
      unfolding hotkey_totals_facts by (auto simp: epoch_allocations_def)
    then show ?thesis using assms open_state_facts by (auto simp: epoch_ready_def set_open_states)
  qed
  have "is_hotkey ?h" using assms by (simp add: epoch_ready_def policy_valid_def)
  with pos valid nonneg show "\<And>h u. (h, u) \<in> set (epoch_by_hotkey E p states) \<Longrightarrow> 0 < u \<and> is_hotkey h"
    by (auto simp: eq split: if_splits)
  show "distinct (map fst (epoch_by_hotkey E p states))"
    using hotkey_totals_facts(1) new by (auto simp: eq)
  show "sum_list (map snd (epoch_by_hotkey E p states)) = REFERENCE_EPOCH_UNITS"
    using epoch_allocations_total [OF assms] by (simp add: eq hotkey_totals_facts(2) reserve_def)
  show "set (filter (\<lambda>(_, u). 0 < u) (dict_add ?h (REFERENCE_EPOCH_UNITS - epoch_payout E p states) ?t))
      = set (epoch_by_hotkey E p states)"
    using nonneg pos unfolding reserve_def [symmetric] add eq by auto
qed

definition epoch_projection ::
    "py_env \<Rightarrow> FiniteDebtPolicyManifest \<Rightarrow> string \<Rightarrow> int \<Rightarrow> DebtClaimState list \<Rightarrow> DebtEpochProjection" where
  "epoch_projection E p pd block states =
     \<lparr>dep_policy_digest = pd, dep_effective_block = block,
      dep_reference_epoch_units = PyInt REFERENCE_EPOCH_UNITS,
      dep_claim_pool_capacity_units = reference_claim_pool_units p,
      dep_total_remaining_units = epoch_debt E states, dep_payout_units = epoch_payout E p states,
      dep_reserve_hotkey = fdp_reserve_hotkey p,
      dep_reserve_units = REFERENCE_EPOCH_UNITS - epoch_payout E p states,
      dep_input_state_digests = sort (map (DebtClaimState_digest E) states),
      dep_allocations = epoch_allocations E p states, dep_weights = epoch_weights E p states\<rparr>"

lemma epoch_projection_sel:
  "dep_effective_block (epoch_projection E p pd block states) = block"
  "dep_payout_units (epoch_projection E p pd block states) = epoch_payout E p states"
  "dep_input_state_digests (epoch_projection E p pd block states) = sort (map (DebtClaimState_digest E) states)"
  "dep_allocations (epoch_projection E p pd block states) = epoch_allocations E p states"
  by (simp_all add: epoch_projection_def)

lemma epoch_weights_facts:
  assumes "epoch_ready E p block states"
  shows "sum_list (map dhw_units (epoch_weights E p states)) = REFERENCE_EPOCH_UNITS"
    and "map dhw_hotkey (epoch_weights E p states) = sort (map fst (epoch_by_hotkey E p states))"
    and "set (map (\<lambda>w. (dhw_hotkey w, dhw_units w)) (epoch_weights E p states)) = set (epoch_by_hotkey E p states)"
    and "mapE (\<lambda>h. DebtHotkeyWeight_new h (dict_get h 0 (epoch_by_hotkey E p states)))
      (sort (map fst (epoch_by_hotkey E p states))) = Inr (epoch_weights E p states)"
proof -
  let ?d = "epoch_by_hotkey E p states"
  note d = epoch_by_hotkey_facts [OF assms]
  show "sum_list (map dhw_units (epoch_weights E p states)) = REFERENCE_EPOCH_UNITS"
    using dict_rebuild_sum [OF d(1)] d(2) by (simp add: epoch_weights_def comp_def)
  show "map dhw_hotkey (epoch_weights E p states) = sort (map fst ?d)"
    by (simp add: epoch_weights_def comp_def)
  show "set (map (\<lambda>w. (dhw_hotkey w, dhw_units w)) (epoch_weights E p states)) = set ?d"
    using dict_rebuild_set [OF d(1), of 0] by (simp add: epoch_weights_def comp_def image_image)
  show "mapE (\<lambda>h. DebtHotkeyWeight_new h (dict_get h 0 ?d)) (sort (map fst ?d)) = Inr (epoch_weights E p states)"
    unfolding epoch_weights_def
  proof (rule mapE_Inr)
    fix h assume "h \<in> set (sort (map fst ?d))"
    then obtain u where hu: "(h, u) \<in> set ?d" by auto
    have "u \<le> sum_list (map snd ?d)"
      using member_le_sum_list_ints [of ?d snd "(h, u)"] hu d(3) by (force intro: less_imp_le)
    then have "0 < u \<and> u \<le> REFERENCE_EPOCH_UNITS \<and> is_hotkey h" using d(2) d(3) [OF hu] by simp
    then show "DebtHotkeyWeight_new h (dict_get h 0 ?d) = Inr \<lparr>dhw_hotkey = h, dhw_units = dict_get h 0 ?d\<rparr>"
      using dict_get_eq [OF d(1) hu] by (simp add: err_simps)
  qed
qed

lemma epoch_allocations_facts:
  assumes "epoch_ready E p block states"
  shows "sorted_unique (map dea_claim_digest (epoch_allocations E p states))"
    and "mapE (\<lambda>row. DebtEpochAllocation_new (state_claim_digest E row)
              (idc_hotkey (dcs_claim row)) (epoch_amount E p states row))
            (filter (\<lambda>row. 0 < epoch_amount E p states row) (open_states E states))
         = Inr (epoch_allocations E p states)"
proof -
  have "sorted (map (state_claim_digest E) (open_states E states))"
    unfolding open_states_def by (rule sorted_map_filter_sort_key)
  then show "sorted_unique (map dea_claim_digest (epoch_allocations E p states))"
    using open_states_ready(1) [OF assms]
    by (simp add: sorted_unique_iff epoch_allocations_def comp_def sorted_filter distinct_map_filter)
  show "mapE (\<lambda>row. DebtEpochAllocation_new (state_claim_digest E row)
              (idc_hotkey (dcs_claim row)) (epoch_amount E p states row))
            (filter (\<lambda>row. 0 < epoch_amount E p states row) (open_states E states))
         = Inr (epoch_allocations E p states)"
    unfolding epoch_allocations_def
  proof (rule mapE_Inr)
    fix st assume "st \<in> set (filter (\<lambda>row. 0 < epoch_amount E p states row) (open_states E states))"
    then have "0 < epoch_amount E p states st" "state_valid E st" "state_open st"
      using assms by (auto simp: set_open_states epoch_ready_def)
    with open_state_facts [of E st]
    show "DebtEpochAllocation_new (state_claim_digest E st) (idc_hotkey (dcs_claim st))
        (epoch_amount E p states st) = Inr \<lparr>dea_claim_digest = state_claim_digest E st,
        dea_hotkey = idc_hotkey (dcs_claim st), dea_units = epoch_amount E p states st\<rparr>"
      by (simp add: err_simps)
  qed
qed

lemma epoch_projection_new:
  assumes ready: "epoch_ready E p block states" and sha: "sha256_digests E" and pd: "is_digest pd"
    and dist: "distinct (map (DebtClaimState_digest E) states)"
  shows "DebtEpochProjection_new (epoch_projection E p pd block states) = Inr (epoch_projection E p pd block states)"
proof -
  let ?ws = "epoch_weights E p states"
  note w = epoch_weights_facts [OF ready] and d = epoch_by_hotkey_facts [OF ready]
  have dw: "distinct (map dhw_hotkey ?ws)" unfolding w(2) using d(1) by simp
  then have "dict_of (map (\<lambda>w. (dhw_hotkey w, dhw_units w)) ?ws) = map (\<lambda>w. (dhw_hotkey w, dhw_units w)) ?ws"
    by (intro dict_of_distinct) (simp add: comp_def)
  then have same: "same_dict (dict_of (map (\<lambda>w. (dhw_hotkey w, dhw_units w)) ?ws))
      (filter (\<lambda>(_, u). 0 < u) (dict_add (fdp_reserve_hotkey p)
        (REFERENCE_EPOCH_UNITS - epoch_payout E p states) (hotkey_totals (epoch_allocations E p states))))"
    unfolding same_dict_def using w(3) d(4) by simp
  have "0 \<le> epoch_payout E p states" "epoch_payout E p states \<le> reference_claim_pool_units p"
    "0 \<le> epoch_debt E states"
    using open_states_ready [OF ready] sum_list_nonneg_ints [of "open_states E states" state_remaining]
    by (force simp: epoch_payout_def epoch_debt_def)+
  moreover have "sorted_unique (map dhw_hotkey ?ws)" using dw by (simp add: w(2) sorted_unique_iff)
  moreover have "is_digest (DebtClaimState_digest E st)" for st
    using sha by (simp add: sha256_digests_def DebtClaimState_digest_def json_digest_def)
  then have "forE (sort (map (DebtClaimState_digest E) states))
      (\<lambda>d. bindE (fd_digest (PyStr d) ''input state digest'') (\<lambda>_. Inr ())) = Inr ()"
    by (auto simp: forE_eq_Inr)
  moreover have "0 \<le> block" "is_hotkey (fdp_reserve_hotkey p)"
    using ready by (simp_all add: epoch_ready_def policy_valid_def)
  ultimately show ?thesis
    using same pd dist w(1) epoch_allocations_facts(1) [OF ready] epoch_allocations_total [OF ready]
      open_states_ready [OF ready]
    by (simp add: DebtEpochProjection_new_def DebtEpochProjection_init_def epoch_projection_def
        DebtEpochProjection_scalars_def kwarg_def Let_def sorted_unique_iff
        epoch_payout_def [symmetric] REFERENCE_EPOCH_UNITS_def)
qed

lemma project_debt_epoch_eq:
  assumes ready: "epoch_ready E p block states" and sha: "sha256_digests E"
    and pd: "FiniteDebtPolicyManifest_digest E p = Inr pd"
    and dist: "distinct (map (DebtClaimState_digest E) states)"
  shows "project_debt_epoch E p block states = Inr (epoch_projection E p pd block states)"
proof -
  have digest: "is_digest pd"
    using pd sha by (auto simp: FiniteDebtPolicyManifest_digest_def canonical_digest_def err_simps
        sha256_digests_def split: if_splits)
  have checks: "forE (sort_key (state_claim_digest E) states) (project_check_row E p block) = Inr ()"
    using ready by (simp add: forE_eq_Inr epoch_ready_def)
  have owed: "dict_of (map (\<lambda>row. (state_claim_digest E row, state_remaining row)) (open_states E states))
      = map (\<lambda>row. (state_claim_digest E row, state_remaining row)) (open_states E states)"
    using open_states_ready(1) [OF ready] by (intro dict_of_distinct) (simp add: comp_def)
  have within: "\<not> dict_get (dea_claim_digest a) 0
      (map (\<lambda>row. (state_claim_digest E row, state_remaining row)) (open_states E states)) < dea_units a"
    if "a \<in> set (epoch_allocations E p states)" for a
  proof -
    from that obtain st where st: "st \<in> set (open_states E states)"
      and a: "dea_claim_digest a = state_claim_digest E st" "dea_units a = epoch_amount E p states st"
      by (auto simp: epoch_allocations_def)
    have "dict_get (state_claim_digest E st) 0
        (map (\<lambda>row. (state_claim_digest E row, state_remaining row)) (open_states E states)) = state_remaining st"
      using st open_states_ready(1) [OF ready] by (intro dict_get_eq) (auto simp: comp_def)
    then show ?thesis using a epoch_amount_fair [OF ready st] by (simp add: fair_amount_def)
  qed
  have "distinct (map (state_claim_digest E) states)" "0 \<le> block"
    using ready by (simp_all add: epoch_ready_def)
  then have start: "fd_integer (PyInt block) ''effective_block'' 0 None = Inr block"
    "\<not> length (remdups (map (state_claim_digest E) states)) \<noteq> length states"
    by (simp_all add: length_remdups_map)
  show ?thesis
    unfolding project_debt_epoch_def Let_def start bindE_Inr if_False if_not_P [OF start(2)] checks
      open_states_def [symmetric] epoch_debt_def [symmetric] epoch_payout_def [symmetric]
      epoch_amount_def [symmetric] epoch_allocations_facts(2) [OF ready]
      epoch_by_hotkey_def [unfolded Let_def, symmetric] epoch_weights_facts(4) [OF ready] pd
      sort_map_sort_key epoch_projection_def [symmetric] epoch_projection_new [OF ready sha digest dist] owed
    using within by (simp add: epoch_projection_def)
qed

section \<open>Applying the projection\<close>

text \<open>The state of a claim after the epoch.\<close>

definition epoch_paid :: "py_env \<Rightarrow> FiniteDebtPolicyManifest \<Rightarrow> int \<Rightarrow> DebtClaimState list \<Rightarrow> DebtClaimState \<Rightarrow> DebtClaimState" where
  "epoch_paid E p block states st =
     (let amount = epoch_amount E p states st in
      if amount = 0 then st else st\<lparr>dcs_balance := paid_balance (dcs_balance st) amount block\<rparr>)"

lemma allocation_amounts:
  assumes ready: "epoch_ready E p block states" and st: "st \<in> set states"
  shows "dict_get (state_claim_digest E st) 0
    (dict_of (map (\<lambda>a. (dea_claim_digest a, dea_units a)) (epoch_allocations E p states))) = epoch_amount E p states st"
proof -
  let ?os = "filter (\<lambda>st. 0 < epoch_amount E p states st) (open_states E states)"
  let ?rows = "map (\<lambda>st. (state_claim_digest E st, epoch_amount E p states st)) ?os"
  have eq: "map (\<lambda>a. (dea_claim_digest a, dea_units a)) (epoch_allocations E p states) = ?rows"
    by (simp add: epoch_allocations_def comp_def)
  have d: "distinct (map fst ?rows)"
    using open_states_ready(1) [OF ready] by (simp add: comp_def distinct_map_filter)
  show ?thesis
  proof (cases "st \<in> set ?os")
    case True
    then show ?thesis unfolding eq dict_of_distinct [OF d] by (intro dict_get_eq [OF d]) auto
  next
    case False
    have "inj_on (state_claim_digest E) (set states)"
      using ready by (simp add: epoch_ready_def distinct_map)
    moreover have "set ?os \<subseteq> set states" by (auto simp: set_open_states)
    ultimately have "state_claim_digest E st \<notin> fst ` set ?rows"
      using st False by (auto simp: image_image dest: inj_onD)
    moreover have "epoch_amount E p states st = 0"
    proof (cases "state_open st")
      case True
      then have "st \<in> set (open_states E states)" using st by (simp add: set_open_states)
      with False epoch_amount_fair [OF ready] show ?thesis by (force simp: fair_amount_def)
    qed (use epoch_amount_closed [OF ready st] in simp)
    ultimately show ?thesis unfolding eq dict_of_distinct [OF d] by (simp add: dict_get_absent)
  qed
qed

lemma epoch_paid_step:
  assumes ready: "epoch_ready E p block states" and st: "st \<in> set states"
  shows "bindE (if epoch_amount E p states st = 0 then Inr (dcs_balance st)
      else pay_claim_balance E (dcs_claim st) (dcs_balance st) (epoch_amount E p states st) block)
      (DebtClaimState_new E (dcs_claim st)) = Inr (epoch_paid E p block states st)"
    and "state_valid E (epoch_paid E p block states st)"
    and "state_claim_digest E (epoch_paid E p block states st) = state_claim_digest E st"
    and "dcb_paid_units (dcs_balance (epoch_paid E p block states st)) =
      dcb_paid_units (dcs_balance st) + epoch_amount E p states st"
proof -
  let ?n = "epoch_amount E p states st" and ?st = "epoch_paid E p block states st"
  have v: "state_valid E st" and chk: "project_check_row E p block st = Inr ()" and blk: "0 \<le> block"
    using ready st by (simp_all add: epoch_ready_def)
  have pay: "balance_op_apply E (dcs_claim st) (Pay ?n block) (dcs_balance st) =
      Inr (paid_balance (dcs_balance st) ?n block)" if "?n \<noteq> 0"
  proof -
    have o: "state_open st" using that epoch_amount_closed [OF ready st] by blast
    then have "fair_amount (state_remaining st) (epoch_payout E p states) (epoch_debt E states) ?n"
      using epoch_amount_fair [OF ready] st by (simp add: set_open_states)
    moreover have "balance_of E (dcs_claim st) (dcs_balance st)" using v by (simp add: state_valid_def)
    ultimately show ?thesis using that o chk blk
      by (auto simp: pay_claim_balance_eq fair_amount_def project_check_row_def err_simps)
  qed
  show v': "state_valid E ?st"
    using v pay op_preserves_state [of E "dcs_claim st" "dcs_balance st" "Pay ?n block"]
    by (cases st) (auto simp: epoch_paid_def Let_def)
  show "bindE (if ?n = 0 then Inr (dcs_balance st)
      else pay_claim_balance E (dcs_claim st) (dcs_balance st) ?n block)
      (DebtClaimState_new E (dcs_claim st)) = Inr ?st"
    using v' pay state_valid_new [of E "dcs_claim st" "dcs_balance ?st"]
    by (cases st) (auto simp: epoch_paid_def Let_def split: if_splits)
  show "state_claim_digest E ?st = state_claim_digest E st"
    and "dcb_paid_units (dcs_balance ?st) = dcb_paid_units (dcs_balance st) + ?n"
    by (simp_all add: epoch_paid_def Let_def)
qed

lemma epoch_amount_all:
  assumes ready: "epoch_ready E p block states"
  shows "sum_list (map (epoch_amount E p states) states) = epoch_payout E p states"
proof -
  let ?rows = "sort_key (state_claim_digest E) states"
  have "sum_list (map (epoch_amount E p states) (filter state_open ?rows)) = sum_list (map (epoch_amount E p states) ?rows)"
    by (rule sum_list_map_filter) (use epoch_amount_closed [OF ready] in auto)
  then show ?thesis using epoch_amount_total [OF ready] by (simp add: open_states_def sum_list_sort_key)
qed

lemma claim_lookup:
  assumes "distinct (map (state_claim_digest E) states)" and "st \<in> set states"
  shows "map_of (dict_of (map (\<lambda>row. (state_claim_digest E row, row)) (sort_key (state_claim_digest E) states)))
    (state_claim_digest E st) = Some st"
proof -
  have d: "distinct (map fst (map (\<lambda>row. (state_claim_digest E row, row)) (sort_key (state_claim_digest E) states)))"
    using assms(1) by (simp add: comp_def distinct_map_sort_key)
  show ?thesis unfolding dict_of_distinct [OF d]
    using assms(2) by (intro map_of_is_SomeI [OF d]) auto
qed

lemma apply_debt_epoch_projection_eq:
  assumes ready: "epoch_ready E p block states"
  shows "apply_debt_epoch_projection E states (epoch_projection E p pd block states) =
    Inr (map (epoch_paid E p block states) (sort_key (state_claim_digest E) states))"
proof -
  let ?rows = "sort_key (state_claim_digest E) states"
  let ?by = "dict_of (map (\<lambda>row. (state_claim_digest E row, row)) ?rows)"
  let ?amounts = "dict_of (map (\<lambda>a. (dea_claim_digest a, dea_units a)) (epoch_allocations E p states))"
  have dist: "distinct (map (state_claim_digest E) states)" using ready by (simp add: epoch_ready_def)
  note lookup = claim_lookup [OF dist]
  have checks: "forE (epoch_allocations E p states) (\<lambda>a.
        case map_of ?by (dea_claim_digest a) of
          None \<Rightarrow> Inl (FiniteDebtError ''projection allocation differs from its claim state'')
        | Some st \<Rightarrow>
            if \<not> state_open st \<or> idc_hotkey (dcs_claim st) \<noteq> dea_hotkey a
               \<or> state_remaining st < dea_units a
            then Inl (FiniteDebtError ''projection allocation differs from its claim state'')
            else Inr ()) = Inr ()"
    unfolding forE_eq_Inr
  proof
    fix a assume "a \<in> set (epoch_allocations E p states)"
    then obtain st where st: "st \<in> set (open_states E states)" and
      a: "a = \<lparr>dea_claim_digest = state_claim_digest E st, dea_hotkey = idc_hotkey (dcs_claim st),
        dea_units = epoch_amount E p states st\<rparr>"
      by (auto simp: epoch_allocations_def)
    have "st \<in> set states" "state_open st" using st by (simp_all add: set_open_states)
    with lookup [of st] epoch_amount_fair [OF ready st]
    show "(case map_of ?by (dea_claim_digest a) of
          None \<Rightarrow> Inl (FiniteDebtError ''projection allocation differs from its claim state'')
        | Some st \<Rightarrow>
            if \<not> state_open st \<or> idc_hotkey (dcs_claim st) \<noteq> dea_hotkey a
               \<or> state_remaining st < dea_units a
            then Inl (FiniteDebtError ''projection allocation differs from its claim state'')
            else Inr ()) = Inr ()"
      by (simp add: a fair_amount_def)
  qed
  have pays: "mapE (\<lambda>row. bindE (if dict_get (state_claim_digest E row) 0 ?amounts = 0 then Inr (dcs_balance row)
        else pay_claim_balance E (dcs_claim row) (dcs_balance row)
          (dict_get (state_claim_digest E row) 0 ?amounts) block) (DebtClaimState_new E (dcs_claim row))) ?rows
      = Inr (map (epoch_paid E p block states) ?rows)"
  proof (rule mapE_Inr)
    fix st assume "st \<in> set ?rows"
    then have st: "st \<in> set states" by simp
    show "bindE (if dict_get (state_claim_digest E st) 0 ?amounts = 0 then Inr (dcs_balance st)
        else pay_claim_balance E (dcs_claim st) (dcs_balance st)
          (dict_get (state_claim_digest E st) 0 ?amounts) block) (DebtClaimState_new E (dcs_claim st))
        = Inr (epoch_paid E p block states st)"
      unfolding allocation_amounts [OF ready st] by (rule epoch_paid_step(1) [OF ready st])
  qed
  note epoch_amount_all [OF ready]
  moreover have "map (\<lambda>row. dcb_paid_units (dcs_balance (epoch_paid E p block states row))
      - dcb_paid_units (dcs_balance (dict_get (state_claim_digest E (epoch_paid E p block states row))
          (epoch_paid E p block states row) ?by))) ?rows = map (epoch_amount E p states) ?rows"
    using epoch_paid_step(3,4) [OF ready] lookup by (auto simp: dict_get_def)
  ultimately show ?thesis
    unfolding apply_debt_epoch_projection_def Let_def epoch_projection_sel sort_map_sort_key
      checks pays bindE_Inr map_map comp_def
    by (simp add: sum_list_sort_key cong: map_cong)
qed

text \<open>
  The projection names the digests of the states it was made from, so it does not apply to
  the states it produced, unless two different states share a digest.
\<close>

lemma apply_changed_inputs:
  "sort (map (DebtClaimState_digest E) states) \<noteq> dep_input_state_digests r \<Longrightarrow>
     apply_debt_epoch_projection E states r =
       Inl (FiniteDebtError ''projection input balances changed before application'')"
  by (simp add: apply_debt_epoch_projection_def Let_def sort_map_sort_key)

lemma epoch_changes_digests:
  assumes ready: "epoch_ready E p block states" and pay: "0 < epoch_payout E p states"
    and inj: "inj_on (DebtClaimState_digest E) (set states \<union> epoch_paid E p block states ` set states)"
  shows "sort (map (DebtClaimState_digest E) (map (epoch_paid E p block states) states))
    \<noteq> sort (map (DebtClaimState_digest E) states)"
proof -
  let ?f = "epoch_paid E p block states" and ?d = "DebtClaimState_digest E"
  have "\<exists>st \<in> set (open_states E states). epoch_amount E p states st \<noteq> 0"
  proof (rule ccontr)
    assume "\<not> ?thesis"
    then have "sum_list (map (epoch_amount E p states) (open_states E states)) = 0" by (simp cong: map_cong)
    with epoch_amount_total [OF ready] pay show False by simp
  qed
  then obtain st where st: "st \<in> set states" and n: "epoch_amount E p states st \<noteq> 0"
    by (auto simp: set_open_states)
  have "?f st \<notin> set states"
  proof
    assume "?f st \<in> set states"
    moreover have "inj_on (state_claim_digest E) (set states)"
      using ready by (simp add: epoch_ready_def distinct_map)
    ultimately have "?f st = st" using epoch_paid_step(3) [OF ready st] st by (auto dest: inj_onD)
    with epoch_paid_step(4) [OF ready st] n show False by simp
  qed
  then have "?d (?f st) \<notin> set (map ?d states)" using inj st by (auto dest: inj_onD)
  moreover have "?d (?f st) \<in> set (map ?d (map ?f states))" using st by simp
  ultimately show ?thesis by (metis set_sort)
qed

end
