(* ===== verification/Samples.thy ===== *)
theory Samples
  imports Debt_Epoch_Laws "HOL-Library.Code_Target_Nat"
begin

text \<open>
  Concrete inputs on which the properties are instantiated: an environment whose hash and
  logarithm compute, a policy with one campaign, and claims under it.
\<close>

definition sample_hash :: "string \<Rightarrow> string" where
  "sample_hash b = (let s = show_nat (length b mod 1000000) in replicate (64 - length s) (CHR ''a'') @ s)"

definition sample_env :: py_env where
  "sample_env = \<lparr>sha256_hexdigest = sample_hash, decimal_ln = (\<lambda>x. x - 1)\<rparr>"

definition sample_id :: "char \<Rightarrow> string" where
  "sample_id c = replicate 64 c"

definition sample_policy_row :: "(string \<times> pyval) list" where
  "sample_policy_row =
     [(''selection_report_digest'', PyStr (sample_id (CHR ''b''))),
      (''reserve_hotkey'', PyStr ''reserve''), (''reserve_ppm'', PyInt 100000),
      (''epoch_blocks'', PyInt 360), (''beta_ppm'', PyInt 500000), (''tau_blocks'', PyInt 1000),
      (''lifetime_blocks'', PyInt 5000), (''k_ppm'', PyInt 200000),
      (''improvement_basis'', PyStr ''gross''),
      (''clock_reset_threshold_log_units_ppm'', PyInt 1000000),
      (''schema_version'', PyInt 2), (''policy_version'', PyStr ''optima.finite-debt.v2'')]"

definition sample_policy :: FiniteDebtPolicyManifest where
  "sample_policy =
     \<lparr>fdp_campaign_budget_shares = [\<lparr>cbs_campaign_id = sample_id (CHR ''c''), cbs_share_ppm = 1000000\<rparr>],
      fdp_reward_family_campaigns =
        [\<lparr>rfc_family_id = sample_id (CHR ''d''), rfc_campaign_id = sample_id (CHR ''c'')\<rparr>],
      fdp_selection_report_digest = sample_id (CHR ''b''), fdp_reserve_hotkey = ''reserve'',
      fdp_reserve_ppm = 100000, fdp_epoch_blocks = 360, fdp_beta_ppm = 500000, fdp_tau_blocks = 1000,
      fdp_lifetime_blocks = 5000, fdp_k_ppm = 200000, fdp_improvement_basis = ''gross'',
      fdp_clock_reset_threshold_log_units_ppm = 1000000, fdp_schema_version = PyInt 2,
      fdp_policy_version = ''optima.finite-debt.v2''\<rparr>"

lemma sample_policy_init:
  "FiniteDebtPolicyManifest_init (fdp_campaign_budget_shares sample_policy)
     (fdp_reward_family_campaigns sample_policy) sample_policy_row = Inr sample_policy"
  by code_simp

lemma sample_policy_valid: "policy_valid sample_policy"
  using FiniteDebtPolicyManifest_init_policy_valid [OF sample_policy_init] by simp

lemma sample_speed:
  "canonical_decimal (PyStr ''1.05'') ''settled_speedup'' 1 True = Inr (''1.05'', 21/20)"
  "canonical_decimal (PyStr ''1'') ''threshold_speedup'' 1 False = Inr (''1'', 1)"
  by code_simp+

lemma sample_units: "log_improvement_units_ppm sample_env ''1.05'' ''gross'' ''1'' = Inr 5000000"
  using dec_floor_prec_int [of 5 80] dec_floor_prec_int [of 5000000 80]
  by (simp add: log_improvement_units_ppm_def sample_speed IMPROVEMENT_BASES_def sample_env_def
      DECIMAL_PRECISION_def PPM_def ndigits.simps)

definition sample_digest :: "string \<Rightarrow> string" where
  "sample_digest s = replicate 61 (CHR ''a'') @ s"

lemma sample_policy_digest:
  "FiniteDebtPolicyManifest_digest sample_env sample_policy = Inr (sample_digest ''757'')"
  by code_simp

definition sample_claim :: "string \<Rightarrow> int option \<Rightarrow> int \<Rightarrow> int \<Rightarrow> InnovationDebtClaim" where
  "sample_claim hotkey prior multiplier debt =
     \<lparr>idc_policy_digest = sample_digest ''757'', idc_family_id = sample_id (CHR ''d''),
      idc_campaign_id = sample_id (CHR ''c''), idc_candidate_digest = sample_id (CHR ''e''),
      idc_retained_evidence_digest = sample_id (CHR ''f''), idc_hotkey = hotkey,
      idc_settled_speedup = ''1.05'', idc_threshold_speedup = ''1'',
      idc_accepted_crown_block = 9000, idc_prior_accepted_crown_block = prior,
      idc_settlement_block = 9100, idc_expires_block = 14100,
      idc_campaign_budget_ppm = 1000000, idc_reference_campaign_pool_units = 900000,
      idc_log_units_ppm = 5000000, idc_time_multiplier_ppm = multiplier,
      idc_principal_units = debt, idc_resets_clock = True\<rparr>"

definition sample_alice :: InnovationDebtClaim where
  "sample_alice = sample_claim ''alice'' (Some 8500) 1166666 1049999"

definition sample_carl :: InnovationDebtClaim where
  "sample_carl = sample_claim ''carl'' None 1000000 900000"

lemma sample_principal:
  "rational_time_multiplier_ppm sample_policy 9000 (Some 8500) = Inr 1166666"
  "rational_time_multiplier_ppm sample_policy 9000 None = Inr 1000000"
  "claim_principal_units sample_policy (sample_id (CHR ''d'')) 5000000 1166666 =
     Inr (sample_id (CHR ''c''), 1000000, 900000, 1049999)"
  "claim_principal_units sample_policy (sample_id (CHR ''d'')) 5000000 1000000 =
     Inr (sample_id (CHR ''c''), 1000000, 900000, 900000)"
  "resets_family_clock sample_policy 5000000 = Inr True"
  by code_simp+

lemma sample_claims_valid: "claim_valid sample_alice" "claim_valid sample_carl"
  by code_simp+

lemma sample_issue:
  "issue_innovation_claim sample_env sample_policy (sample_id (CHR ''d'')) (sample_id (CHR ''e''))
     (sample_id (CHR ''f'')) ''alice'' ''1.05'' ''1'' 9000 (Some 8500) 9100 = Inr sample_alice"
  "issue_innovation_claim sample_env sample_policy (sample_id (CHR ''d'')) (sample_id (CHR ''e''))
     (sample_id (CHR ''f'')) ''carl'' ''1.05'' ''1'' 9000 None 9100 = Inr sample_carl"
  using sample_claims_valid unfolding issue_innovation_claim_eq_Inr
  by (simp_all add: sample_policy_def [THEN arg_cong, of fdp_improvement_basis]
      sample_policy_def [THEN arg_cong, of fdp_lifetime_blocks]
      sample_units sample_principal sample_policy_digest sample_alice_def sample_carl_def sample_claim_def)
    blast+

lemma sample_claim_digests:
  "InnovationDebtClaim_digest sample_env sample_alice = sample_digest ''834''"
  "InnovationDebtClaim_digest sample_env sample_carl = sample_digest ''832''"
  by code_simp+

lemma sample_hash_digest: "is_digest (sample_hash b)"
proof -
  let ?s = "show_nat (length b mod 1000000)"
  have len: "length (show_nat n) \<le> 6" if "n < 1000000" for n
    using that by (simp add: show_nat.simps)
  have "lower_hex c" if "is_digit c" for c using that by (auto simp: lower_hex_def is_digit_def)
  then have "list_all lower_hex (sample_hash b)" "length (sample_hash b) = 64"
    using show_nat_digits [of "length b mod 1000000"] len [of "length b mod 1000000"]
    by (auto simp: sample_hash_def Let_def list_all_iff lower_hex_def)
  moreover have "hd (sample_hash b) = CHR ''a''"
    using len [of "length b mod 1000000"] by (auto simp: sample_hash_def Let_def hd_append)
  then have "sample_hash b \<noteq> zero_digest" by (auto simp: zero_digest_def)
  ultimately show ?thesis by (simp add: is_digest_def is_sha256_hex_def)
qed

definition sample_open :: "InnovationDebtClaim \<Rightarrow> string \<Rightarrow> DebtClaimState" where
  "sample_open c d = \<lparr>dcs_claim = c, dcs_balance = \<lparr>dcb_claim_digest = sample_digest d,
     dcb_principal_units = idc_principal_units c, dcb_paid_units = 0, dcb_forfeited_units = 0,
     dcb_remaining_units = idc_principal_units c, dcb_status = ''open'', dcb_terminal_block = None,
     dcb_terminal_reason = []\<rparr>\<rparr>"

definition sample_states :: "DebtClaimState list" where
  "sample_states = [sample_open sample_alice ''834'', sample_open sample_carl ''832'']"

lemma sample_open_balance:
  "DebtClaimBalance_open sample_env sample_alice = Inr (dcs_balance (sample_open sample_alice ''834''))"
  "DebtClaimBalance_open sample_env sample_carl = Inr (dcs_balance (sample_open sample_carl ''832''))"
  unfolding DebtClaimBalance_open_def sample_claim_digests by code_simp+

lemma sample_states_valid:
  "state_valid sample_env (sample_open sample_alice ''834'')"
  "state_valid sample_env (sample_open sample_carl ''832'')"
  using DebtClaimBalance_open_balance_of [OF sample_open_balance(1)]
    DebtClaimBalance_open_balance_of [OF sample_open_balance(2)] sample_claims_valid
  by (simp_all add: state_valid_def sample_open_def)

lemma sample_states_ready: "epoch_ready sample_env sample_policy 9200 sample_states"
  using sample_policy_valid sample_states_valid sample_claim_digests
    issue_validates(1) [OF sample_issue(1)] issue_validates(1) [OF sample_issue(2)]
  by (simp add: epoch_ready_def sample_states_def project_check_row_def sample_open_def
      sample_digest_def sample_alice_def sample_carl_def sample_claim_def sample_policy_def)

lemma sample_state_digests:
  "map (DebtClaimState_digest sample_env) sample_states = [replicate 60 (CHR ''a'') @ ''1090'', replicate 60 (CHR ''a'') @ ''1086'']"
  by code_simp

lemma sample_open_states:
  "open_states sample_env sample_states = [sample_open sample_carl ''832'', sample_open sample_alice ''834'']"
proof -
  have "sample_digest ''832'' \<le> sample_digest ''834''" "\<not> sample_digest ''834'' \<le> sample_digest ''832''"
    by code_simp+
  then show ?thesis
    by (simp add: open_states_def sample_states_def sample_open_def sample_claim_digests)
qed

lemma sample_epoch:
  "epoch_debt sample_env sample_states = 1949999"
  "epoch_payout sample_env sample_policy sample_states = 900000"
proof -
  show d: "epoch_debt sample_env sample_states = 1949999"
    by (simp add: epoch_debt_def sample_open_states sample_open_def sample_alice_def sample_carl_def
        sample_claim_def)
  have "reference_claim_pool_units sample_policy = 900000" by code_simp
  then show "epoch_payout sample_env sample_policy sample_states = 900000"
    by (simp add: epoch_payout_def d)
qed

lemma sample_amounts:
  "epoch_amount sample_env sample_policy sample_states (sample_open sample_alice ''834'') = 484615"
  "epoch_amount sample_env sample_policy sample_states (sample_open sample_carl ''832'') = 415385"
proof -
  have pool: "reference_claim_pool_units sample_policy = 900000" by code_simp
  have owed: "epoch_owed sample_env sample_states = [(sample_digest ''832'', 900000), (sample_digest ''834'', 1049999)]"
    by (simp add: epoch_owed_def sample_open_states sample_open_def sample_claim_digests)
      (simp add: sample_alice_def sample_carl_def sample_claim_def)
  have "dict_get (sample_digest ''834'') 0 (capped_amounts
      [(sample_digest ''832'', 900000), (sample_digest ''834'', 1049999)] 900000 1949999 900000) = 484615"
    "dict_get (sample_digest ''832'') 0 (capped_amounts
      [(sample_digest ''832'', 900000), (sample_digest ''834'', 1049999)] 900000 1949999 900000) = 415385"
    by code_simp+
  then show "epoch_amount sample_env sample_policy sample_states (sample_open sample_alice ''834'') = 484615"
    "epoch_amount sample_env sample_policy sample_states (sample_open sample_carl ''832'') = 415385"
    by (simp_all add: epoch_amount_lookup owed pool sample_epoch sample_open_def sample_claim_digests)
qed

definition sample_paid :: "InnovationDebtClaim \<Rightarrow> string \<Rightarrow> int \<Rightarrow> DebtClaimState" where
  "sample_paid c d n = (sample_open c d)\<lparr>dcs_balance := paid_balance (dcs_balance (sample_open c d)) n 9200\<rparr>"

lemma sample_paid_states:
  "map (epoch_paid sample_env sample_policy 9200 sample_states) sample_states =
     [sample_paid sample_alice ''834'' 484615, sample_paid sample_carl ''832'' 415385]"
  by (simp add: epoch_paid_def sample_states_def sample_amounts [unfolded sample_states_def] sample_paid_def)

lemma sample_paid_digests:
  "DebtClaimState_digest sample_env (sample_paid sample_alice ''834'' 484615) = replicate 60 (CHR ''a'') @ ''1094''"
  "DebtClaimState_digest sample_env (sample_paid sample_carl ''832'' 415385) = replicate 60 (CHR ''a'') @ ''1091''"
  by code_simp+

end
