(* ===== verification/Debt_Properties.thy ===== *)
theory Debt_Properties
  imports Samples
begin

text \<open>
  The properties of \<open>optima/finite_debt.py\<close>: construction and serialisation of its records,
  issuance, the life of a balance, and one payout epoch, each with an instance on the
  concrete inputs of \<open>Samples\<close>.
\<close>

section \<open>One payout epoch\<close>


lemma sample_digests: "sha256_digests sample_env"
  by (simp add: sha256_digests_def sample_env_def sample_hash_digest)

lemma sample_states_apart: "distinct (map (DebtClaimState_digest sample_env) sample_states)"
  unfolding sample_state_digests by simp


text \<open>C2. Applying a projection to the states it was made from succeeds: every claim is paid its
  allocation and nothing else, so the balances together grow by exactly the payout, and every
  resulting claim state is well formed again.\<close>

theorem apply_pays_projection:
  assumes "epoch_ready E p block states" and "sha256_digests E"
    and "distinct (map (DebtClaimState_digest E) states)"
    and "project_debt_epoch E p block states = Inr r"
  shows "\<exists>after. apply_debt_epoch_projection E states r = Inr after
    \<and> map (state_claim_digest E) after = sort (map (state_claim_digest E) states)
    \<and> (\<forall>st \<in> set after. state_valid E st)
    \<and> sum_list (map (\<lambda>st. dcb_paid_units (dcs_balance st)) after) =
        sum_list (map (\<lambda>st. dcb_paid_units (dcs_balance st)) states) + dep_payout_units r"
proof -
  obtain pd where pd: "FiniteDebtPolicyManifest_digest E p = Inr pd"
    using assms(4) by (auto simp: project_debt_epoch_def err_simps Let_def)
  have r: "r = epoch_projection E p pd block states"
    using project_debt_epoch_eq [OF assms(1,2) pd assms(3)] assms(4) by simp
  let ?rows = "sort_key (state_claim_digest E) states" and ?f = "epoch_paid E p block states"
  have "apply_debt_epoch_projection E states r = Inr (map ?f ?rows)"
    unfolding r by (rule apply_debt_epoch_projection_eq [OF assms(1)])
  moreover have "map (state_claim_digest E) (map ?f ?rows) = sort (map (state_claim_digest E) states)"
  proof -
    have "map (\<lambda>st. state_claim_digest E (?f st)) ?rows = map (state_claim_digest E) ?rows"
      using epoch_paid_step(3) [OF assms(1)] by simp
    also have "\<dots> = sort (map (state_claim_digest E) states)"
      using sort_map_sort_key [of "state_claim_digest E" "state_claim_digest E" states] by (simp add: sorted_sort_id)
    finally show ?thesis by (simp add: comp_def)
  qed
  moreover have "\<forall>st \<in> set (map ?f ?rows). state_valid E st" using epoch_paid_step(2) [OF assms(1)] by auto
  moreover have "sum_list (map (\<lambda>st. dcb_paid_units (dcs_balance st)) (map ?f ?rows)) =
      sum_list (map (\<lambda>st. dcb_paid_units (dcs_balance st)) states) + dep_payout_units r"
  proof -
    have "map (\<lambda>st. dcb_paid_units (dcs_balance (?f st))) ?rows =
        map (\<lambda>st. dcb_paid_units (dcs_balance st) + epoch_amount E p states st) ?rows"
      using epoch_paid_step(4) [OF assms(1)] by simp
    then show ?thesis
      using epoch_amount_all [OF assms(1)]
      by (simp add: comp_def sum_list_addf sum_list_sort_key r epoch_projection_sel cong: map_cong)
  qed
  ultimately show ?thesis by blast
qed

theorem apply_pays_projection_witness:
  "\<exists>r after. project_debt_epoch sample_env sample_policy 9200 sample_states = Inr r
     \<and> apply_debt_epoch_projection sample_env sample_states r = Inr after
     \<and> sum_list (map (\<lambda>st. dcb_paid_units (dcs_balance st)) after) = 900000"
proof -
  let ?r = "epoch_projection sample_env sample_policy (sample_digest ''757'') 9200 sample_states"
  have r: "project_debt_epoch sample_env sample_policy 9200 sample_states = Inr ?r"
    by (rule project_debt_epoch_eq [OF sample_states_ready sample_digests sample_policy_digest sample_states_apart])
  have "sum_list (map (\<lambda>st. dcb_paid_units (dcs_balance st)) sample_states) = 0"
    by (simp add: sample_states_def sample_open_def)
  with apply_pays_projection [OF sample_states_ready sample_digests sample_states_apart r]
  show ?thesis using r by (auto simp: epoch_projection_sel sample_epoch)
qed




section \<open>The life of a balance\<close>

text \<open>C4. Whatever sequence of payments, expirations and cancellations succeeds on a freshly opened
  balance, the claim is never overpaid: the balance has paid exactly the amounts of the successful
  payments, they never exceed the principal, at most principal-many payments succeed, what is paid,
  forfeited and remaining always adds up to the principal, and claim and balance still form an
  acceptable \<open>DebtClaimState\<close>.\<close>

theorem balance_history_conserves:
  assumes "claim_valid c" and "DebtClaimBalance_open E c = Inr b0"
    and "ledger_reaches (balance_op_apply E c) b0 ops b"
  shows "dcb_paid_units b = sum_list (map op_paid ops)
    \<and> sum_list (map op_paid ops) \<le> idc_principal_units c
    \<and> int (length (filter is_pay ops)) \<le> idc_principal_units c
    \<and> dcb_paid_units b + dcb_forfeited_units b + dcb_remaining_units b = idc_principal_units c
    \<and> DebtClaimState_new E c b = Inr \<lparr>dcs_claim = c, dcs_balance = b\<rparr>"
proof (intro conjI)
  have b0: "balance_of E c b0" and zero: "dcb_paid_units b0 = 0"
    using DebtClaimBalance_open_balance_of [OF assms(2)] by simp_all
  have p: "dcb_principal_units b0 = idc_principal_units c" using b0 by (simp add: balance_of_def)
  note g = crown.reaches_good [OF assms(3) b0]
  show "dcb_paid_units b = sum_list (map op_paid ops)" using g zero by simp
  show "sum_list (map op_paid ops) \<le> idc_principal_units c"
    using crown.never_overpaid [OF assms(3) b0] zero p by simp
  show "int (length (filter is_pay ops)) \<le> idc_principal_units c"
    using crown.payments_bounded [OF assms(3) b0] zero p by simp
  show "dcb_paid_units b + dcb_forfeited_units b + dcb_remaining_units b = idc_principal_units c"
    using g crown.conserve [of E c b] p by simp
  show "DebtClaimState_new E c b = Inr \<lparr>dcs_claim = c, dcs_balance = b\<rparr>"
    by (rule state_valid_new [OF reaches_state_valid [OF assms(3,1,2)]])
qed

theorem balance_history_conserves_witness:
  "\<exists>b. ledger_reaches (balance_op_apply sample_env sample_alice)
      (dcs_balance (sample_open sample_alice ''834'')) [Pay 49999 9200, Expire 14100] b
     \<and> dcb_paid_units b = 49999 \<and> dcb_forfeited_units b = 1000000"
proof -
  let ?b0 = "dcs_balance (sample_open sample_alice ''834'')"
  have of: "balance_of sample_env sample_alice ?b0"
    using DebtClaimBalance_open_balance_of [OF sample_open_balance(1)] by simp
  let ?b1 = "paid_balance ?b0 49999 9200"
  have s: "idc_principal_units sample_alice = 1049999" "idc_settlement_block sample_alice = 9100"
    "idc_expires_block sample_alice = 14100"
    by (simp_all add: sample_alice_def sample_claim_def)
  have b1: "balance_op_apply sample_env sample_alice (Pay 49999 9200) ?b0 = Inr ?b1"
    using of s by (simp add: pay_claim_balance_eq sample_open_def)
  have of1: "balance_of sample_env sample_alice ?b1" by (rule balance_op_preserves(1) [OF of b1])
  have b2: "balance_op_apply sample_env sample_alice (Expire 14100) ?b1 =
      Inr (forfeited_balance ?b1 ''expired'' 14100 ''claim_lifetime_expired'')"
    using of1 s by (simp add: expire_claim_balance_eq sample_open_def)
  have r: "ledger_reaches (balance_op_apply sample_env sample_alice) ?b0 [Pay 49999 9200, Expire 14100]
      (forfeited_balance ?b1 ''expired'' 14100 ''claim_lifetime_expired'')"
    unfolding ledger_reaches_foldE by (simp add: b1 [simplified] b2 [simplified])
  show ?thesis
    using balance_history_conserves [OF sample_claims_valid(1) sample_open_balance(1) r] r s
    by (intro exI [of _ "forfeited_balance ?b1 ''expired'' 14100 ''claim_lifetime_expired''"]) simp
qed

text \<open>A balance that is paid, expired or cancelled is final: no later operation changes it.\<close>

theorem closed_balance_is_final:
  assumes "balance_of E c b" and "dcb_status b \<noteq> ''open''"
    and "ledger_reaches (balance_op_apply E c) b ops b'"
  shows "b' = b"
proof -
  have "dcb_remaining_units b = 0" using assms(1,2) by (simp add: balance_of_def balance_valid_def)
  then show ?thesis by (rule crown.closed_forever [OF assms(3,1)])
qed

lemma sample_alice_expired:
  defines "b1 \<equiv> forfeited_balance (dcs_balance (sample_open sample_alice ''834'')) ''expired'' 14100
    ''claim_lifetime_expired''"
  shows "balance_of sample_env sample_alice b1 \<and> dcb_status b1 = ''expired''
    \<and> balance_op_apply sample_env sample_alice (Expire 14200) b1 = Inr b1"
proof -
  let ?b0 = "dcs_balance (sample_open sample_alice ''834'')"
  have of: "balance_of sample_env sample_alice ?b0"
    using DebtClaimBalance_open_balance_of [OF sample_open_balance(1)] by simp
  have "balance_op_apply sample_env sample_alice (Expire 14100) ?b0 = Inr b1"
    using of by (simp add: expire_claim_balance_eq sample_open_def b1_def sample_alice_def sample_claim_def)
  then have of1: "balance_of sample_env sample_alice b1" using balance_op_preserves(1) [OF of] by blast
  then show ?thesis by (simp add: expire_claim_balance_eq b1_def)
qed

theorem closed_balance_is_final_witness:
  "\<exists>b. dcb_status b = ''expired'' \<and> (\<forall>b'.
     ledger_reaches (balance_op_apply sample_env sample_alice) b [Expire 14200] b' \<longleftrightarrow> b' = b)"
proof -
  let ?b = "forfeited_balance (dcs_balance (sample_open sample_alice ''834'')) ''expired'' 14100
    ''claim_lifetime_expired''"
  have "b' = ?b" if "ledger_reaches (balance_op_apply sample_env sample_alice) ?b [Expire 14200] b'" for b'
    using closed_balance_is_final [OF _ _ that] sample_alice_expired by simp
  moreover have "ledger_reaches (balance_op_apply sample_env sample_alice) ?b [Expire 14200] ?b"
    unfolding ledger_reaches_foldE using sample_alice_expired by simp
  ultimately show ?thesis using sample_alice_expired by blast
qed

section \<open>Issuing a claim\<close>

text \<open>C5. A claim that \<open>issue_innovation_claim\<close> returns passes its own policy check, names a
  campaign of the policy, expires one lifetime after settlement, carries a time multiplier between
  one and one plus beta, and its principal is the product of pool, k, improvement and multiplier
  rounded down to whole units.\<close>

theorem issued_claim_is_exact:
  assumes "policy_valid p"
    and "issue_innovation_claim E p f candidate evidence hotkey speed threshold accepted prior settled = Inr c"
  shows "InnovationDebtClaim_validate_policy E c p = Inr ()
    \<and> claim_valid c
    \<and> idc_campaign_id c \<in> cbs_campaign_id ` set (fdp_campaign_budget_shares p)
    \<and> idc_expires_block c = settled + fdp_lifetime_blocks p
    \<and> PPM \<le> idc_time_multiplier_ppm c
    \<and> idc_time_multiplier_ppm c \<le> PPM + fdp_beta_ppm p
    \<and> idc_principal_units c * PPM ^ 3 \<le> idc_reference_campaign_pool_units c * fdp_k_ppm p
      * idc_log_units_ppm c * idc_time_multiplier_ppm c
    \<and> idc_reference_campaign_pool_units c * fdp_k_ppm p * idc_log_units_ppm c
      * idc_time_multiplier_ppm c < (idc_principal_units c + 1) * PPM ^ 3"
proof (intro conjI)
  show "InnovationDebtClaim_validate_policy E c p = Inr ()" and valid: "claim_valid c"
    by (rule issue_validates [OF assms(2)])+
  obtain units m campaign share pool debt where
    m: "rational_time_multiplier_ppm p accepted prior = Inr m"
    and cp: "claim_principal_units p f units m = Inr (campaign, share, pool, debt)"
    and c: "idc_campaign_id c = campaign" "idc_expires_block c = settled + fdp_lifetime_blocks p"
      "idc_time_multiplier_ppm c = m" "idc_principal_units c = debt"
      "idc_reference_campaign_pool_units c = pool" "idc_log_units_ppm c = units"
    using assms(2) unfolding issue_innovation_claim_eq_Inr by auto
  show "idc_expires_block c = settled + fdp_lifetime_blocks p" by (rule c)
  have debt: "debt = pool * fdp_k_ppm p * units * m div (PPM * PPM * PPM)"
    and camp: "campaign_for_family p f = Inr campaign"
    using cp by (simp_all add: claim_principal_units_eq_Inr [OF assms(1)])
  then show "idc_campaign_id c \<in> cbs_campaign_id ` set (fdp_campaign_budget_shares p)"
    using assms(1) nth_mem by (fastforce simp: c err_simps find_Some_iff policy_valid_def Let_def)
  show "PPM \<le> idc_time_multiplier_ppm c" using valid by (simp add: claim_valid_def)
  show "idc_time_multiplier_ppm c \<le> PPM + fdp_beta_ppm p"
    using m time_bonus_bounds(2) [OF policy_bounds(1,2) [OF assms(1)]] policy_bounds(1) [OF assms(1)]
    by (auto simp: c rational_time_multiplier_eq [OF policy_bounds(1,2) [OF assms(1)]] split: option.splits)
  have "debt * (PPM * PPM * PPM) \<le> pool * fdp_k_ppm p * units * m
      \<and> pool * fdp_k_ppm p * units * m < (debt + 1) * (PPM * PPM * PPM)"
    unfolding debt by (simp add: PPM_def pos_mod_bound minus_mod_eq_div_mult [symmetric] distrib_right)
  then show "idc_principal_units c * PPM ^ 3 \<le> idc_reference_campaign_pool_units c * fdp_k_ppm p
      * idc_log_units_ppm c * idc_time_multiplier_ppm c"
    and "idc_reference_campaign_pool_units c * fdp_k_ppm p * idc_log_units_ppm c
      * idc_time_multiplier_ppm c < (idc_principal_units c + 1) * PPM ^ 3"
    by (simp_all add: c power3_eq_cube mult.assoc)
qed

theorem issued_claim_is_exact_witness:
  "InnovationDebtClaim_validate_policy sample_env sample_alice sample_policy = Inr ()
     \<and> idc_time_multiplier_ppm sample_alice \<le> 1500000"
  using issued_claim_is_exact [OF sample_policy_valid sample_issue(1)]
  by (simp add: PPM_def sample_policy_def)

text \<open>C6. A policy that \<open>FiniteDebtPolicyManifest.from_dict\<close> accepts has one campaign with the whole
  budget or two with half each, every reward family maps to one of them, every campaign's reference
  pool is positive, and all parameters are in range.\<close>

theorem policy_from_dict_valid:
  assumes "FiniteDebtPolicyManifest_from_dict v = Inr p"
  shows "policy_valid p \<and> sum_list (map cbs_share_ppm (fdp_campaign_budget_shares p)) = PPM
    \<and> length (fdp_campaign_budget_shares p) \<in> {1, 2}
    \<and> (\<forall>f \<in> set (family_ids p). is_digest f \<longrightarrow>
         campaign_share_ppm_for_family p f = Inr (PPM div int (length (fdp_campaign_budget_shares p))))"
proof -
  obtain ss ms row where "FiniteDebtPolicyManifest_init ss ms row = Inr p"
    using assms unfolding FiniteDebtPolicyManifest_from_dict_def by (auto simp: err_simps)
  then have v: "policy_valid p" using FiniteDebtPolicyManifest_init_policy_valid by blast
  have len: "length (fdp_campaign_budget_shares p) \<in> {1, 2}"
    using v by (cases "fdp_campaign_budget_shares p" rule: remdups_adj.cases)
      (auto simp: policy_valid_def Let_def MAX_ACTIVE_CAMPAIGNS_def)
  have "\<exists>c. campaign_for_family p f = Inr c" if "f \<in> set (family_ids p)" "is_digest f" for f
  proof -
    have "find (\<lambda>r. rfc_family_id r = f) (fdp_reward_family_campaigns p) \<noteq> None"
      using that(1) by (auto simp: family_ids_def find_None_iff)
    then show ?thesis using that(2) by (auto simp: err_simps)
  qed
  then have "\<forall>f \<in> set (family_ids p). is_digest f \<longrightarrow>
      campaign_share_ppm_for_family p f = Inr (PPM div int (length (fdp_campaign_budget_shares p)))"
    using campaign_share_ppm_for_family_eq [OF v] by blast
  with v len policy_shares_total [OF v] show ?thesis by blast
qed

lemma sample_policy_from_dict:
  "FiniteDebtPolicyManifest_from_dict (FiniteDebtPolicyManifest_to_dict sample_policy) = Inr sample_policy"
  by code_simp

theorem policy_from_dict_valid_witness:
  "FiniteDebtPolicyManifest_from_dict (FiniteDebtPolicyManifest_to_dict sample_policy) = Inr sample_policy
     \<and> sum_list (map cbs_share_ppm (fdp_campaign_budget_shares sample_policy)) = PPM"
  using policy_from_dict_valid [OF sample_policy_from_dict] sample_policy_from_dict by blast

text \<open>The time multiplier grows with the wait since the family's last crown and is bounded by the
  policy's beta, so a later crown never earns a smaller multiplier; the cap check in the code never
  fires.\<close>

theorem time_multiplier_monotone:
  assumes "policy_valid p" and "0 \<le> prior" "prior \<le> current" "current \<le> later"
  shows "\<exists>m m'. rational_time_multiplier_ppm p current (Some prior) = Inr m
    \<and> rational_time_multiplier_ppm p later (Some prior) = Inr m'
    \<and> PPM \<le> m \<and> m \<le> m' \<and> m' \<le> PPM + fdp_beta_ppm p"
proof -
  note b = policy_bounds(1,2) [OF assms(1)]
  have "0 \<le> current - prior" "current - prior \<le> later - prior" using assms by auto
  with time_bonus_mono [OF b this] time_bonus_bounds [OF b] assms(2-4) show ?thesis
    by (simp add: rational_time_multiplier_eq [OF b])
qed

theorem time_multiplier_monotone_witness:
  "\<exists>m m'. rational_time_multiplier_ppm sample_policy 9000 (Some 8500) = Inr m
    \<and> rational_time_multiplier_ppm sample_policy 9500 (Some 8500) = Inr m' \<and> m \<le> m' \<and> m' \<le> 1500000"
  using time_multiplier_monotone [OF sample_policy_valid, of 8500 9000 9500]
  by (auto simp: PPM_def sample_policy_def)

section \<open>Serialisation\<close>

text \<open>\<open>DebtClaimState.from_dict(state.to_dict()) == state\<close> for every well-formed claim state.\<close>

theorem claim_state_roundtrip:
  assumes "state_valid E st"
  shows "DebtClaimState_from_dict E (py_of_json (JObj (DebtClaimState_fields st))) = Inr st"
proof -
  have "InnovationDebtClaim_from_dict (py_of_json (JObj (InnovationDebtClaim_fields (dcs_claim st)))) =
      Inr (dcs_claim st)"
    unfolding InnovationDebtClaim_from_dict_def fd_strict_def
    by (rule claim.roundtrip) (use assms in \<open>simp add: state_valid_def\<close>)
  moreover have "DebtClaimBalance_from_dict (py_of_json (JObj (DebtClaimBalance_fields (dcs_balance st)))) =
      Inr (dcs_balance st)"
    unfolding DebtClaimBalance_from_dict_def fd_strict_def
    by (rule balance.roundtrip) (use assms in \<open>simp add: state_valid_def balance_of_def\<close>)
  moreover have "DebtClaimState_new E (dcs_claim st) (dcs_balance st) = Inr st"
    using state_valid_new [of E "dcs_claim st" "dcs_balance st"] assms by (cases st) simp
  ultimately show ?thesis
    by (simp add: DebtClaimState_from_dict_def DebtClaimState_fields_def fd_strict_def
        del: py_of_json.simps)
qed

theorem claim_state_roundtrip_witness:
  "DebtClaimState_from_dict sample_env
     (py_of_json (JObj (DebtClaimState_fields (sample_open sample_alice ''834'')))) =
   Inr (sample_open sample_alice ''834'')"
  by (rule claim_state_roundtrip [OF sample_states_valid(1)])

text \<open>Nothing but the canonical form reads as a claim: a dict that
  \<open>InnovationDebtClaim.from_dict\<close> accepts has the same canonical JSON bytes, hence the same digest,
  as the \<open>to_dict\<close> of the claim it gives, and that claim satisfies every constructor check.\<close>

theorem claim_from_dict_canonical:
  assumes "InnovationDebtClaim_from_dict (PyDict d) = Inr c" and "distinct (map fst d)"
  shows "claim_valid c \<and>
    canonical_json_bytes (PyDict d) = canonical_json_bytes (py_of_json (JObj (InnovationDebtClaim_fields c)))"
  using claim.accepted_is_canonical [of d] assms
  by (auto simp: InnovationDebtClaim_from_dict_def fd_strict_def)

theorem claim_from_dict_canonical_witness:
  "\<exists>d. InnovationDebtClaim_from_dict (PyDict d) = Inr sample_alice \<and> claim_valid sample_alice
     \<and> canonical_json_bytes (PyDict d) =
         canonical_json_bytes (py_of_json (JObj (InnovationDebtClaim_fields sample_alice)))"
proof -
  let ?d = "rev (map (\<lambda>(k, j). (PyStr k, py_of_json j)) (InnovationDebtClaim_fields sample_alice))"
  have "InnovationDebtClaim_from_dict (PyDict ?d) = Inr sample_alice" by code_simp
  moreover have "distinct (map fst ?d)" by (simp add: InnovationDebtClaim_fields_def)
  ultimately show ?thesis using claim_from_dict_canonical by blast
qed

end
