(* ===== verification/Incentive_Composition.thy ===== *)
theory Incentive_Composition
  imports Debt_Epoch_Laws
begin

text \<open>
  \<open>optima/incentive_composition.py\<close>: the reviewed-discovery class of claims and the ordered
  composition of its payout with the payout of the registered-crown claims of
  \<open>Finite_Debt\<close>. The conventions of the definitions are those of \<open>Finite_Debt\<close>.
\<close>

section \<open>Validators\<close>

definition ic_integer :: "pyval \<Rightarrow> string \<Rightarrow> int \<Rightarrow> int option \<Rightarrow> py_error + int" where
  "ic_integer v field minimum maximum =
     require_int v field IncentiveCompositionError (Some minimum) maximum"

definition ic_digest :: "pyval \<Rightarrow> string \<Rightarrow> py_error + string" where
  "ic_digest v field = require_digest v field IncentiveCompositionError False False"

definition ic_hotkey :: "pyval \<Rightarrow> string \<Rightarrow> py_error + string" where
  "ic_hotkey v field = require_hotkey v field IncentiveCompositionError"

definition ic_strict :: "pyval \<Rightarrow> string list \<Rightarrow> string \<Rightarrow> py_error + (string \<times> pyval) list" where
  "ic_strict v flds label = require_exact_fields v flds label IncentiveCompositionError"

definition ic_reason :: "pyval \<Rightarrow> string \<Rightarrow> py_error + string" where
  "ic_reason v field =
     (case v of
        PyStr s \<Rightarrow> if s = [] \<or> 2048 < length s \<or> has_control s
                   then Inl (IncentiveCompositionError (field @ '' is malformed'')) else Inr s
      | _ \<Rightarrow> Inl (IncentiveCompositionError (field @ '' is malformed'')))"

lemma ic_eq_Inr [err_simps]:
  "ic_integer v field lo hi = Inr n \<longleftrightarrow> v = PyInt n \<and> int_within (Some lo) hi n"
  "ic_digest v field = Inr d \<longleftrightarrow> v = PyStr d \<and> is_digest d"
  "ic_hotkey v field = Inr h \<longleftrightarrow> v = PyStr h \<and> is_hotkey h"
  "ic_reason v field = Inr s \<longleftrightarrow> v = PyStr s \<and> reason_ok s"
  by (simp_all add: ic_integer_def ic_digest_def ic_hotkey_def err_simps)
    (cases v; auto simp: ic_reason_def reason_ok_def)

lemma ic_ok [simp]:
  "lo \<le> n \<Longrightarrow> ic_integer (PyInt n) field lo None = Inr n"
  "lo \<le> n \<Longrightarrow> n \<le> hi \<Longrightarrow> ic_integer (PyInt n) field lo (Some hi) = Inr n"
  "is_digest d \<Longrightarrow> ic_digest (PyStr d) field = Inr d"
  "is_hotkey h \<Longrightarrow> ic_hotkey (PyStr h) field = Inr h"
  "reason_ok s \<Longrightarrow> ic_reason (PyStr s) field = Inr s"
  by (simp_all add: err_simps)

section \<open>The composition policy\<close>

definition ICP_SCHEMA_VERSION :: int where "ICP_SCHEMA_VERSION = 1"

definition ICP_POLICY_VERSION :: string where
  "ICP_POLICY_VERSION = ''optima.incentive-composition.v1''"

definition DISCOVERY_BOUNTY_ONLY :: string where "DISCOVERY_BOUNTY_ONLY = ''bounty_only''"

definition DISCOVERY_REGISTERED_PROMOTION :: string where
  "DISCOVERY_REGISTERED_PROMOTION = ''registered_promotion''"

definition DISCOVERY_DECISIONS :: "string list" where
  "DISCOVERY_DECISIONS = [DISCOVERY_BOUNTY_ONLY, DISCOVERY_REGISTERED_PROMOTION]"

definition DISCOVERY_BALANCE_STATUSES :: "string list" where
  "DISCOVERY_BALANCE_STATUSES = [''open'', ''paid'', ''expired'', ''cancelled'']"

record IncentiveCompositionPolicyManifest =
  icp_innovation_policy_digest :: string
  icp_selection_report_digest :: string
  icp_reserve_ppm :: int
  icp_epoch_blocks :: int
  icp_discovery_cap_units :: int
  icp_per_award_principal_cap_epochs :: int
  icp_discovery_lifetime_blocks :: int
  icp_schema_version :: pyval
  icp_policy_version :: string

definition IncentiveCompositionPolicyManifest_init ::
    "(string \<times> pyval) list \<Rightarrow> py_error + IncentiveCompositionPolicyManifest" where
  "IncentiveCompositionPolicyManifest_init row =
     bindE (ic_digest (kwarg row ''innovation_policy_digest'') ''innovation_policy_digest'') (\<lambda>innovation.
     bindE (ic_digest (kwarg row ''selection_report_digest'') ''selection_report_digest'') (\<lambda>report.
     bindE (ic_integer (kwarg row ''reserve_ppm'') ''reserve_ppm'' 0 (Some (PPM - 1))) (\<lambda>reserve.
     bindE (ic_integer (kwarg row ''epoch_blocks'') ''epoch_blocks'' 1 None) (\<lambda>epoch.
     bindE (ic_integer (kwarg row ''discovery_cap_units'') ''discovery_cap_units'' 1
       (Some (PPM - reserve))) (\<lambda>cap.
     bindE (ic_integer (kwarg row ''per_award_principal_cap_epochs'')
       ''per_award_principal_cap_epochs'' 1 None) (\<lambda>award.
     bindE (ic_integer (kwarg row ''discovery_lifetime_blocks'')
       ''discovery_lifetime_blocks'' 1 None) (\<lambda>lifetime.
     if \<not> py_eq_int (kwarg row ''schema_version'') ICP_SCHEMA_VERSION
     then Inl (IncentiveCompositionError ''composition policy schema is unsupported'') else
     if \<not> py_eq_str (kwarg row ''policy_version'') ICP_POLICY_VERSION
     then Inl (IncentiveCompositionError ''composition policy version is unsupported'') else
     Inr \<lparr>icp_innovation_policy_digest = innovation, icp_selection_report_digest = report,
          icp_reserve_ppm = reserve, icp_epoch_blocks = epoch, icp_discovery_cap_units = cap,
          icp_per_award_principal_cap_epochs = award, icp_discovery_lifetime_blocks = lifetime,
          icp_schema_version = kwarg row ''schema_version'',
          icp_policy_version = ICP_POLICY_VERSION\<rparr>)))))))"

definition icp_rows :: "IncentiveCompositionPolicyManifest \<Rightarrow> (string \<times> pyval) list" where
  "icp_rows p =
     [(''innovation_policy_digest'', PyStr (icp_innovation_policy_digest p)),
      (''selection_report_digest'', PyStr (icp_selection_report_digest p)),
      (''reserve_ppm'', PyInt (icp_reserve_ppm p)),
      (''epoch_blocks'', PyInt (icp_epoch_blocks p)),
      (''discovery_cap_units'', PyInt (icp_discovery_cap_units p)),
      (''per_award_principal_cap_epochs'', PyInt (icp_per_award_principal_cap_epochs p)),
      (''discovery_lifetime_blocks'', PyInt (icp_discovery_lifetime_blocks p)),
      (''schema_version'', icp_schema_version p),
      (''policy_version'', PyStr (icp_policy_version p))]"

definition IncentiveCompositionPolicyManifest_to_dict :: "IncentiveCompositionPolicyManifest \<Rightarrow> pyval" where
  "IncentiveCompositionPolicyManifest_to_dict p = PyDict (map (\<lambda>(k, v). (PyStr k, v)) (icp_rows p))"

definition icp_field_names :: "string list" where
  "icp_field_names = [''innovation_policy_digest'', ''selection_report_digest'', ''reserve_ppm'',
     ''epoch_blocks'', ''discovery_cap_units'', ''per_award_principal_cap_epochs'',
     ''discovery_lifetime_blocks'', ''schema_version'', ''policy_version'']"

definition IncentiveCompositionPolicyManifest_from_dict ::
    "pyval \<Rightarrow> py_error + IncentiveCompositionPolicyManifest" where
  "IncentiveCompositionPolicyManifest_from_dict v =
     bindE (ic_strict v icp_field_names ''composition policy'') IncentiveCompositionPolicyManifest_init"

definition IncentiveCompositionPolicyManifest_digest ::
    "py_env \<Rightarrow> IncentiveCompositionPolicyManifest \<Rightarrow> py_error + string" where
  "IncentiveCompositionPolicyManifest_digest E p =
     canonical_digest E ''optima.incentive-composition.policy''
       (IncentiveCompositionPolicyManifest_to_dict p) 1"

definition reserve_floor_units :: "IncentiveCompositionPolicyManifest \<Rightarrow> int" where
  "reserve_floor_units p = icp_reserve_ppm p"

definition discovery_principal_cap_units :: "IncentiveCompositionPolicyManifest \<Rightarrow> int" where
  "discovery_principal_cap_units p =
     icp_discovery_cap_units p * icp_per_award_principal_cap_epochs p"

definition validate_innovation_policy ::
    "py_env \<Rightarrow> IncentiveCompositionPolicyManifest \<Rightarrow> FiniteDebtPolicyManifest \<Rightarrow> py_error + unit" where
  "validate_innovation_policy E cp p =
     bindE (FiniteDebtPolicyManifest_digest E p) (\<lambda>pd.
     if pd \<noteq> icp_innovation_policy_digest cp \<or> fdp_reserve_ppm p \<noteq> icp_reserve_ppm cp
        \<or> fdp_epoch_blocks p \<noteq> icp_epoch_blocks cp
     then Inl (IncentiveCompositionError ''composition policy differs from its innovation policy'')
     else Inr ())"

section \<open>Reviewed dispositions\<close>

record ReviewedDiscoveryDisposition =
  rdd_policy_digest :: string
  rdd_win_digest :: string
  rdd_proposal_digest :: string
  rdd_retained_evidence_digest :: string
  rdd_review_digest :: string
  rdd_hotkey :: string
  rdd_win_block :: int
  rdd_authority_block :: int
  rdd_decision :: string
  rdd_requested_principal_epochs :: pyval
  rdd_promoted_target_digest :: string

text \<open>
  The two mutually exclusive paths: the promoted target and the requested epochs. A promotion
  compares the requested epochs with \<open>0\<close> and keeps the value it was given.
\<close>

definition disposition_path :: "string \<Rightarrow> pyval \<Rightarrow> pyval \<Rightarrow> py_error + string" where
  "disposition_path decision requested promoted =
     (if decision = DISCOVERY_BOUNTY_ONLY then
        bindE (ic_integer requested ''requested_principal_epochs'' 1 None) (\<lambda>_.
        if \<not> py_eq_str promoted []
        then Inl (IncentiveCompositionError ''bounty-only disposition cannot name a promoted target'')
        else Inr [])
      else if \<not> py_eq_int requested 0
      then Inl (IncentiveCompositionError ''registered promotion cannot request discovery principal'')
      else ic_digest promoted ''promoted_target_digest'')"

definition ReviewedDiscoveryDisposition_init ::
    "(string \<times> pyval) list \<Rightarrow> py_error + ReviewedDiscoveryDisposition" where
  "ReviewedDiscoveryDisposition_init row =
     bindE (ic_digest (kwarg row ''policy_digest'') ''policy_digest'') (\<lambda>policy.
     bindE (ic_digest (kwarg row ''win_digest'') ''win_digest'') (\<lambda>win.
     bindE (ic_digest (kwarg row ''proposal_digest'') ''proposal_digest'') (\<lambda>proposal.
     bindE (ic_digest (kwarg row ''retained_evidence_digest'') ''retained_evidence_digest'') (\<lambda>evidence.
     bindE (ic_digest (kwarg row ''review_digest'') ''review_digest'') (\<lambda>review.
     bindE (ic_hotkey (kwarg row ''hotkey'') ''hotkey'') (\<lambda>hotkey.
     bindE (ic_integer (kwarg row ''win_block'') ''win_block'' 0 None) (\<lambda>win_block.
     bindE (ic_integer (kwarg row ''authority_block'') ''authority_block'' 0 None) (\<lambda>authority.
     if authority < win_block
     then Inl (IncentiveCompositionError ''discovery review authority predates its retained win'') else
     bindE (py_in_strs (kwarg row ''decision'') DISCOVERY_DECISIONS) (\<lambda>supported.
     if \<not> supported then Inl (IncentiveCompositionError ''discovery decision is unsupported'') else
     let decision = (case kwarg row ''decision'' of PyStr s \<Rightarrow> s | _ \<Rightarrow> []) in
     bindE (disposition_path decision (kwarg row ''requested_principal_epochs'')
       (kwarg row ''promoted_target_digest'')) (\<lambda>promoted.
     Inr \<lparr>rdd_policy_digest = policy, rdd_win_digest = win, rdd_proposal_digest = proposal,
          rdd_retained_evidence_digest = evidence, rdd_review_digest = review,
          rdd_hotkey = hotkey, rdd_win_block = win_block, rdd_authority_block = authority,
          rdd_decision = decision,
          rdd_requested_principal_epochs = kwarg row ''requested_principal_epochs'',
          rdd_promoted_target_digest = promoted\<rparr>))))))))))"

definition rdd_rows :: "ReviewedDiscoveryDisposition \<Rightarrow> (string \<times> pyval) list" where
  "rdd_rows d =
     [(''policy_digest'', PyStr (rdd_policy_digest d)),
      (''win_digest'', PyStr (rdd_win_digest d)),
      (''proposal_digest'', PyStr (rdd_proposal_digest d)),
      (''retained_evidence_digest'', PyStr (rdd_retained_evidence_digest d)),
      (''review_digest'', PyStr (rdd_review_digest d)),
      (''hotkey'', PyStr (rdd_hotkey d)),
      (''win_block'', PyInt (rdd_win_block d)),
      (''authority_block'', PyInt (rdd_authority_block d)),
      (''decision'', PyStr (rdd_decision d)),
      (''requested_principal_epochs'', rdd_requested_principal_epochs d),
      (''promoted_target_digest'', PyStr (rdd_promoted_target_digest d))]"

definition ReviewedDiscoveryDisposition_to_dict :: "ReviewedDiscoveryDisposition \<Rightarrow> pyval" where
  "ReviewedDiscoveryDisposition_to_dict d = PyDict (map (\<lambda>(k, v). (PyStr k, v)) (rdd_rows d))"

definition rdd_field_names :: "string list" where
  "rdd_field_names = [''policy_digest'', ''win_digest'', ''proposal_digest'',
     ''retained_evidence_digest'', ''review_digest'', ''hotkey'', ''win_block'', ''authority_block'',
     ''decision'', ''requested_principal_epochs'', ''promoted_target_digest'']"

definition ReviewedDiscoveryDisposition_from_dict :: "pyval \<Rightarrow> py_error + ReviewedDiscoveryDisposition" where
  "ReviewedDiscoveryDisposition_from_dict v =
     bindE (ic_strict v rdd_field_names ''reviewed discovery disposition'')
       ReviewedDiscoveryDisposition_init"

definition ReviewedDiscoveryDisposition_digest ::
    "py_env \<Rightarrow> ReviewedDiscoveryDisposition \<Rightarrow> py_error + string" where
  "ReviewedDiscoveryDisposition_digest E d =
     canonical_digest E ''optima.incentive-composition.discovery-disposition''
       (ReviewedDiscoveryDisposition_to_dict d) 1"

definition disposition_validate_policy ::
    "py_env \<Rightarrow> ReviewedDiscoveryDisposition \<Rightarrow> IncentiveCompositionPolicyManifest \<Rightarrow> py_error + unit" where
  "disposition_validate_policy E d p =
     bindE (IncentiveCompositionPolicyManifest_digest E p) (\<lambda>pd.
     if rdd_policy_digest d \<noteq> pd
     then Inl (IncentiveCompositionError ''disposition policy digest differs'') else Inr ())"

definition review_discovery_disposition ::
    "py_env \<Rightarrow> IncentiveCompositionPolicyManifest \<Rightarrow> (string \<times> pyval) list \<Rightarrow>
     py_error + ReviewedDiscoveryDisposition" where
  "review_discovery_disposition E p row =
     bindE (IncentiveCompositionPolicyManifest_digest E p) (\<lambda>pd.
     bindE (ReviewedDiscoveryDisposition_init ((''policy_digest'', PyStr pd) # row)) (\<lambda>result.
     bindE (disposition_validate_policy E result p) (\<lambda>_. Inr result)))"

section \<open>Discovery claims\<close>

record DiscoveryDebtClaim =
  ddc_policy_digest :: string
  ddc_disposition_digest :: string
  ddc_proposal_digest :: string
  ddc_retained_evidence_digest :: string
  ddc_review_digest :: string
  ddc_hotkey :: string
  ddc_awarded_block :: int
  ddc_expires_block :: int
  ddc_requested_principal_epochs :: int
  ddc_capped_principal_epochs :: int
  ddc_principal_units :: int

definition DiscoveryDebtClaim_init :: "(string \<times> pyval) list \<Rightarrow> py_error + DiscoveryDebtClaim" where
  "DiscoveryDebtClaim_init row =
     bindE (ic_digest (kwarg row ''policy_digest'') ''policy_digest'') (\<lambda>policy.
     bindE (ic_digest (kwarg row ''disposition_digest'') ''disposition_digest'') (\<lambda>disposition.
     bindE (ic_digest (kwarg row ''proposal_digest'') ''proposal_digest'') (\<lambda>proposal.
     bindE (ic_digest (kwarg row ''retained_evidence_digest'') ''retained_evidence_digest'') (\<lambda>evidence.
     bindE (ic_digest (kwarg row ''review_digest'') ''review_digest'') (\<lambda>review.
     bindE (ic_hotkey (kwarg row ''hotkey'') ''hotkey'') (\<lambda>hotkey.
     bindE (ic_integer (kwarg row ''awarded_block'') ''awarded_block'' 0 None) (\<lambda>awarded.
     bindE (ic_integer (kwarg row ''expires_block'') ''expires_block'' 1 None) (\<lambda>expires.
     bindE (ic_integer (kwarg row ''requested_principal_epochs'')
       ''requested_principal_epochs'' 1 None) (\<lambda>requested.
     bindE (ic_integer (kwarg row ''capped_principal_epochs'')
       ''capped_principal_epochs'' 1 None) (\<lambda>capped.
     bindE (ic_integer (kwarg row ''principal_units'') ''principal_units'' 1 None) (\<lambda>debt.
     if expires \<le> awarded \<or> requested < capped
     then Inl (IncentiveCompositionError ''discovery claim lifetime or cap is invalid'') else
     Inr \<lparr>ddc_policy_digest = policy, ddc_disposition_digest = disposition,
          ddc_proposal_digest = proposal, ddc_retained_evidence_digest = evidence,
          ddc_review_digest = review, ddc_hotkey = hotkey, ddc_awarded_block = awarded,
          ddc_expires_block = expires, ddc_requested_principal_epochs = requested,
          ddc_capped_principal_epochs = capped, ddc_principal_units = debt\<rparr>)))))))))))"

definition DiscoveryDebtClaim_fields :: "DiscoveryDebtClaim \<Rightarrow> (string \<times> json) list" where
  "DiscoveryDebtClaim_fields c =
     [(''policy_digest'', JStr (ddc_policy_digest c)),
      (''disposition_digest'', JStr (ddc_disposition_digest c)),
      (''proposal_digest'', JStr (ddc_proposal_digest c)),
      (''retained_evidence_digest'', JStr (ddc_retained_evidence_digest c)),
      (''review_digest'', JStr (ddc_review_digest c)),
      (''hotkey'', JStr (ddc_hotkey c)),
      (''awarded_block'', JInt (ddc_awarded_block c)),
      (''expires_block'', JInt (ddc_expires_block c)),
      (''requested_principal_epochs'', JInt (ddc_requested_principal_epochs c)),
      (''capped_principal_epochs'', JInt (ddc_capped_principal_epochs c)),
      (''principal_units'', JInt (ddc_principal_units c))]"

definition DiscoveryDebtClaim_new :: "DiscoveryDebtClaim \<Rightarrow> py_error + DiscoveryDebtClaim" where
  "DiscoveryDebtClaim_new c = DiscoveryDebtClaim_init (kwargs_of (DiscoveryDebtClaim_fields c))"

definition ddc_field_names :: "string list" where
  "ddc_field_names = [''policy_digest'', ''disposition_digest'', ''proposal_digest'',
     ''retained_evidence_digest'', ''review_digest'', ''hotkey'', ''awarded_block'', ''expires_block'',
     ''requested_principal_epochs'', ''capped_principal_epochs'', ''principal_units'']"

definition DiscoveryDebtClaim_from_dict :: "pyval \<Rightarrow> py_error + DiscoveryDebtClaim" where
  "DiscoveryDebtClaim_from_dict v =
     bindE (ic_strict v ddc_field_names ''discovery debt claim'') DiscoveryDebtClaim_init"

definition DiscoveryDebtClaim_digest :: "py_env \<Rightarrow> DiscoveryDebtClaim \<Rightarrow> string" where
  "DiscoveryDebtClaim_digest E c =
     json_digest E ''optima.incentive-composition.discovery-claim'' (JObj (DiscoveryDebtClaim_fields c))"

definition discovery_validate_terms ::
    "py_env \<Rightarrow> DiscoveryDebtClaim \<Rightarrow> IncentiveCompositionPolicyManifest \<Rightarrow> py_error + unit" where
  "discovery_validate_terms E c p =
     bindE (IncentiveCompositionPolicyManifest_digest E p) (\<lambda>pd.
     if ddc_policy_digest c \<noteq> pd
        \<or> ddc_capped_principal_epochs c \<noteq>
            min (ddc_requested_principal_epochs c) (icp_per_award_principal_cap_epochs p)
        \<or> ddc_principal_units c \<noteq> ddc_capped_principal_epochs c * icp_discovery_cap_units p
        \<or> ddc_expires_block c \<noteq> ddc_awarded_block c + icp_discovery_lifetime_blocks p
     then Inl (IncentiveCompositionError ''discovery claim differs from its policy'')
     else Inr ())"

definition DiscoveryDebtClaim_validate_policy ::
    "py_env \<Rightarrow> DiscoveryDebtClaim \<Rightarrow> IncentiveCompositionPolicyManifest \<Rightarrow>
     ReviewedDiscoveryDisposition option \<Rightarrow> py_error + unit" where
  "DiscoveryDebtClaim_validate_policy E c p disposition =
     bindE (discovery_validate_terms E c p) (\<lambda>_.
     case disposition of
       None \<Rightarrow> Inr ()
     | Some d \<Rightarrow>
         bindE (disposition_validate_policy E d p) (\<lambda>_.
         let differs = Inl (IncentiveCompositionError
               ''discovery claim differs from its reviewed disposition'') in
         if rdd_decision d \<noteq> DISCOVERY_BOUNTY_ONLY then differs else
         bindE (ReviewedDiscoveryDisposition_digest E d) (\<lambda>dd.
         if ddc_disposition_digest c \<noteq> dd
            \<or> ddc_proposal_digest c \<noteq> rdd_proposal_digest d
            \<or> ddc_retained_evidence_digest c \<noteq> rdd_retained_evidence_digest d
            \<or> ddc_review_digest c \<noteq> rdd_review_digest d
            \<or> ddc_hotkey c \<noteq> rdd_hotkey d
            \<or> ddc_awarded_block c \<noteq> rdd_win_block d
            \<or> ddc_expires_block c \<le> rdd_authority_block d
            \<or> \<not> py_eq_int (rdd_requested_principal_epochs d) (ddc_requested_principal_epochs c)
         then differs else Inr ())))"

text \<open>
  \<open>issue_discovery_claim\<close>: a promotion returns no claim. A bounty disposition holds an
  integer by its constructor.
\<close>

definition py_int_of :: "pyval \<Rightarrow> int" where
  "py_int_of v = (case v of PyInt n \<Rightarrow> n | _ \<Rightarrow> 0)"

definition issue_discovery_claim ::
    "py_env \<Rightarrow> IncentiveCompositionPolicyManifest \<Rightarrow> ReviewedDiscoveryDisposition \<Rightarrow>
     py_error + DiscoveryDebtClaim option" where
  "issue_discovery_claim E p d =
     bindE (disposition_validate_policy E d p) (\<lambda>_.
     if rdd_decision d = DISCOVERY_REGISTERED_PROMOTION then Inr None else
     let expires = rdd_win_block d + icp_discovery_lifetime_blocks p in
     if expires \<le> rdd_authority_block d
     then Inl (IncentiveCompositionError
       ''discovery bounty review is at or after the retained win expiry'') else
     let requested = py_int_of (rdd_requested_principal_epochs d);
         capped = min requested (icp_per_award_principal_cap_epochs p)
     in bindE (IncentiveCompositionPolicyManifest_digest E p) (\<lambda>pd.
     bindE (ReviewedDiscoveryDisposition_digest E d) (\<lambda>dd.
     bindE (DiscoveryDebtClaim_new
       \<lparr>ddc_policy_digest = pd, ddc_disposition_digest = dd,
        ddc_proposal_digest = rdd_proposal_digest d,
        ddc_retained_evidence_digest = rdd_retained_evidence_digest d,
        ddc_review_digest = rdd_review_digest d, ddc_hotkey = rdd_hotkey d,
        ddc_awarded_block = rdd_win_block d, ddc_expires_block = expires,
        ddc_requested_principal_epochs = requested, ddc_capped_principal_epochs = capped,
        ddc_principal_units = icp_discovery_cap_units p * capped\<rparr>) (\<lambda>result.
     bindE (DiscoveryDebtClaim_validate_policy E result p (Some d)) (\<lambda>_. Inr (Some result))))))"

section \<open>Discovery balances\<close>

record DiscoveryClaimBalance =
  dyb_claim_digest :: string
  dyb_principal_units :: int
  dyb_paid_units :: int
  dyb_forfeited_units :: int
  dyb_remaining_units :: int
  dyb_status :: string
  dyb_terminal_block :: "int option"
  dyb_terminal_reason :: string

definition discovery_terminal ::
    "string \<Rightarrow> int \<Rightarrow> pyval \<Rightarrow> pyval \<Rightarrow> py_error + (int option \<times> string)" where
  "discovery_terminal status remaining block reason =
     (if status = ''open'' then
        if remaining \<le> 0 \<or> block \<noteq> PyNone \<or> \<not> py_eq_str reason []
        then Inl (IncentiveCompositionError ''open discovery balance has terminal state'')
        else Inr (None, [])
      else if remaining \<noteq> 0 \<or> block = PyNone
      then Inl (IncentiveCompositionError ''terminal discovery balance is incomplete'')
      else bindE (ic_integer block ''terminal_block'' 0 None) (\<lambda>t.
           bindE (ic_reason reason ''terminal_reason'') (\<lambda>why. Inr (Some t, why))))"

definition DiscoveryClaimBalance_init :: "(string \<times> pyval) list \<Rightarrow> py_error + DiscoveryClaimBalance" where
  "DiscoveryClaimBalance_init row =
     bindE (ic_digest (kwarg row ''claim_digest'') ''claim_digest'') (\<lambda>claim_digest.
     bindE (ic_integer (kwarg row ''principal_units'') ''principal_units'' 1 None) (\<lambda>debt.
     bindE (ic_integer (kwarg row ''paid_units'') ''paid_units'' 0 None) (\<lambda>paid.
     bindE (ic_integer (kwarg row ''forfeited_units'') ''forfeited_units'' 0 None) (\<lambda>forfeited.
     bindE (ic_integer (kwarg row ''remaining_units'') ''remaining_units'' 0 None) (\<lambda>remaining.
     if paid + forfeited + remaining \<noteq> debt
     then Inl (IncentiveCompositionError ''discovery balance does not conserve principal'') else
     bindE (py_in_strs (kwarg row ''status'') DISCOVERY_BALANCE_STATUSES) (\<lambda>supported.
     if \<not> supported
     then Inl (IncentiveCompositionError ''discovery balance status is unsupported'') else
     let status = (case kwarg row ''status'' of PyStr s \<Rightarrow> s | _ \<Rightarrow> []) in
     bindE (discovery_terminal status remaining (kwarg row ''terminal_block'')
       (kwarg row ''terminal_reason'')) (\<lambda>(terminal, why).
     if status = ''paid'' \<and> paid \<noteq> debt
     then Inl (IncentiveCompositionError ''paid discovery claim did not consume principal'') else
     if (status = ''expired'' \<or> status = ''cancelled'') \<and> forfeited \<le> 0
     then Inl (IncentiveCompositionError ''forfeited discovery balance has no forfeited principal'') else
     Inr \<lparr>dyb_claim_digest = claim_digest, dyb_principal_units = debt, dyb_paid_units = paid,
          dyb_forfeited_units = forfeited, dyb_remaining_units = remaining, dyb_status = status,
          dyb_terminal_block = terminal, dyb_terminal_reason = why\<rparr>)))))))"

definition DiscoveryClaimBalance_fields :: "DiscoveryClaimBalance \<Rightarrow> (string \<times> json) list" where
  "DiscoveryClaimBalance_fields b =
     [(''claim_digest'', JStr (dyb_claim_digest b)),
      (''principal_units'', JInt (dyb_principal_units b)),
      (''paid_units'', JInt (dyb_paid_units b)),
      (''forfeited_units'', JInt (dyb_forfeited_units b)),
      (''remaining_units'', JInt (dyb_remaining_units b)),
      (''status'', JStr (dyb_status b)),
      (''terminal_block'', json_of_option JInt (dyb_terminal_block b)),
      (''terminal_reason'', JStr (dyb_terminal_reason b))]"

definition DiscoveryClaimBalance_new :: "DiscoveryClaimBalance \<Rightarrow> py_error + DiscoveryClaimBalance" where
  "DiscoveryClaimBalance_new b =
     DiscoveryClaimBalance_init (kwargs_of (DiscoveryClaimBalance_fields b))"

definition DiscoveryClaimBalance_open ::
    "py_env \<Rightarrow> DiscoveryDebtClaim \<Rightarrow> py_error + DiscoveryClaimBalance" where
  "DiscoveryClaimBalance_open E c = DiscoveryClaimBalance_new
     \<lparr>dyb_claim_digest = DiscoveryDebtClaim_digest E c,
      dyb_principal_units = ddc_principal_units c, dyb_paid_units = 0, dyb_forfeited_units = 0,
      dyb_remaining_units = ddc_principal_units c, dyb_status = ''open'',
      dyb_terminal_block = None, dyb_terminal_reason = []\<rparr>"

definition DiscoveryClaimBalance_from_dict :: "pyval \<Rightarrow> py_error + DiscoveryClaimBalance" where
  "DiscoveryClaimBalance_from_dict v =
     bindE (ic_strict v dcb_field_names ''discovery balance'') DiscoveryClaimBalance_init"

definition DiscoveryClaimBalance_digest :: "py_env \<Rightarrow> DiscoveryClaimBalance \<Rightarrow> string" where
  "DiscoveryClaimBalance_digest E b =
     json_digest E ''optima.incentive-composition.discovery-balance''
       (JObj (DiscoveryClaimBalance_fields b))"

definition validate_claim_balance ::
    "py_env \<Rightarrow> DiscoveryDebtClaim \<Rightarrow> DiscoveryClaimBalance \<Rightarrow> py_error + unit" where
  "validate_claim_balance E c b =
     (if dyb_claim_digest b \<noteq> DiscoveryDebtClaim_digest E c
         \<or> dyb_principal_units b \<noteq> ddc_principal_units c
      then Inl (IncentiveCompositionError ''discovery claim and balance differ'') else Inr ())"

definition pay_discovery_balance ::
    "py_env \<Rightarrow> DiscoveryDebtClaim \<Rightarrow> DiscoveryClaimBalance \<Rightarrow> int \<Rightarrow> int \<Rightarrow>
     py_error + DiscoveryClaimBalance" where
  "pay_discovery_balance E claim balance amount at_block =
     bindE (validate_claim_balance E claim balance) (\<lambda>_.
     bindE (ic_integer (PyInt amount) ''payment amount'' 1 None) (\<lambda>paid.
     bindE (ic_integer (PyInt at_block) ''payment block'' 0 None) (\<lambda>block.
     if dyb_status balance \<noteq> ''open'' \<or> block < ddc_awarded_block claim
        \<or> ddc_expires_block claim \<le> block \<or> dyb_remaining_units balance < paid
     then Inl (IncentiveCompositionError ''discovery payment is outside its live remaining principal'') else
     let remaining = dyb_remaining_units balance - paid in
     DiscoveryClaimBalance_new
       \<lparr>dyb_claim_digest = dyb_claim_digest balance,
        dyb_principal_units = dyb_principal_units balance,
        dyb_paid_units = dyb_paid_units balance + paid,
        dyb_forfeited_units = dyb_forfeited_units balance,
        dyb_remaining_units = remaining,
        dyb_status = (if remaining \<noteq> 0 then ''open'' else ''paid''),
        dyb_terminal_block = (if remaining \<noteq> 0 then None else Some block),
        dyb_terminal_reason = (if remaining \<noteq> 0 then [] else ''principal_paid'')\<rparr>)))"

definition expire_discovery_balance ::
    "py_env \<Rightarrow> DiscoveryDebtClaim \<Rightarrow> DiscoveryClaimBalance \<Rightarrow> int \<Rightarrow> py_error + DiscoveryClaimBalance" where
  "expire_discovery_balance E claim balance at_block =
     bindE (validate_claim_balance E claim balance) (\<lambda>_.
     bindE (ic_integer (PyInt at_block) ''expiration block'' 0 None) (\<lambda>block.
     if dyb_status balance \<noteq> ''open'' \<or> block < ddc_expires_block claim then Inr balance else
     DiscoveryClaimBalance_new
       \<lparr>dyb_claim_digest = dyb_claim_digest balance,
        dyb_principal_units = dyb_principal_units balance,
        dyb_paid_units = dyb_paid_units balance,
        dyb_forfeited_units = dyb_forfeited_units balance + dyb_remaining_units balance,
        dyb_remaining_units = 0, dyb_status = ''expired'', dyb_terminal_block = Some block,
        dyb_terminal_reason = ''claim_lifetime_expired''\<rparr>))"

definition cancel_discovery_balance ::
    "py_env \<Rightarrow> DiscoveryDebtClaim \<Rightarrow> DiscoveryClaimBalance \<Rightarrow> int \<Rightarrow> string \<Rightarrow>
     py_error + DiscoveryClaimBalance" where
  "cancel_discovery_balance E claim balance at_block reason =
     bindE (validate_claim_balance E claim balance) (\<lambda>_.
     bindE (ic_integer (PyInt at_block) ''cancellation block'' 0 None) (\<lambda>block.
     bindE (ic_reason (PyStr reason) ''cancellation reason'') (\<lambda>why.
     if dyb_status balance \<noteq> ''open'' \<or> block < ddc_awarded_block claim
     then Inl (IncentiveCompositionError ''discovery cancellation is not open or predates its award'') else
     DiscoveryClaimBalance_new
       \<lparr>dyb_claim_digest = dyb_claim_digest balance,
        dyb_principal_units = dyb_principal_units balance,
        dyb_paid_units = dyb_paid_units balance,
        dyb_forfeited_units = dyb_forfeited_units balance + dyb_remaining_units balance,
        dyb_remaining_units = 0, dyb_status = ''cancelled'', dyb_terminal_block = Some block,
        dyb_terminal_reason = why\<rparr>)))"

record DiscoveryClaimState =
  dys_claim :: DiscoveryDebtClaim
  dys_balance :: DiscoveryClaimBalance

definition DiscoveryClaimState_new ::
    "py_env \<Rightarrow> DiscoveryDebtClaim \<Rightarrow> DiscoveryClaimBalance \<Rightarrow> py_error + DiscoveryClaimState" where
  "DiscoveryClaimState_new E claim balance =
     bindE (validate_claim_balance E claim balance) (\<lambda>_.
     if (case dyb_terminal_block balance of None \<Rightarrow> False
         | Some terminal \<Rightarrow> terminal < ddc_awarded_block claim)
     then Inl (IncentiveCompositionError ''discovery terminal block predates its award'') else
     if dyb_status balance = ''expired'' \<and> (case dyb_terminal_block balance of None \<Rightarrow> False
         | Some terminal \<Rightarrow> terminal < ddc_expires_block claim)
     then Inl (IncentiveCompositionError ''discovery claim expired before its lifetime ended'') else
     Inr \<lparr>dys_claim = claim, dys_balance = balance\<rparr>)"

definition DiscoveryClaimState_fields :: "DiscoveryClaimState \<Rightarrow> (string \<times> json) list" where
  "DiscoveryClaimState_fields st =
     [(''balance'', JObj (DiscoveryClaimBalance_fields (dys_balance st))),
      (''claim'', JObj (DiscoveryDebtClaim_fields (dys_claim st)))]"

definition DiscoveryClaimState_from_dict :: "py_env \<Rightarrow> pyval \<Rightarrow> py_error + DiscoveryClaimState" where
  "DiscoveryClaimState_from_dict E v =
     bindE (ic_strict v [''balance'', ''claim''] ''discovery claim state'') (\<lambda>row.
     bindE (DiscoveryDebtClaim_from_dict (kwarg row ''claim'')) (\<lambda>claim.
     bindE (DiscoveryClaimBalance_from_dict (kwarg row ''balance'')) (\<lambda>balance.
     DiscoveryClaimState_new E claim balance)))"

definition DiscoveryClaimState_digest :: "py_env \<Rightarrow> DiscoveryClaimState \<Rightarrow> string" where
  "DiscoveryClaimState_digest E st =
     json_digest E ''optima.incentive-composition.discovery-state'' (JObj (DiscoveryClaimState_fields st))"

end
