(* ===== verification/Discovery_Laws.thy ===== *)
theory Discovery_Laws
  imports Incentive_Composition
begin

text \<open>
  What the discovery half of \<open>Incentive_Composition\<close> guarantees: which values its constructors
  accept, the life of a discovery balance as an instance of \<open>claim_ledger\<close>, and the bounty
  that a reviewed disposition issues.
\<close>

section \<open>What the constructors accept\<close>

definition discovery_claim_valid :: "DiscoveryDebtClaim \<Rightarrow> bool" where
  "discovery_claim_valid c \<longleftrightarrow>
     is_digest (ddc_policy_digest c) \<and> is_digest (ddc_disposition_digest c)
     \<and> is_digest (ddc_proposal_digest c) \<and> is_digest (ddc_retained_evidence_digest c)
     \<and> is_digest (ddc_review_digest c) \<and> is_hotkey (ddc_hotkey c)
     \<and> 0 \<le> ddc_awarded_block c \<and> ddc_awarded_block c < ddc_expires_block c
     \<and> 1 \<le> ddc_capped_principal_epochs c
     \<and> ddc_capped_principal_epochs c \<le> ddc_requested_principal_epochs c \<and> 1 \<le> ddc_principal_units c"

lemma DiscoveryDebtClaim_init_iff:
  "DiscoveryDebtClaim_init row = Inr c \<longleftrightarrow>
     discovery_claim_valid c \<and> row_carries row (DiscoveryDebtClaim_fields c)"
proof (cases c)
  case (fields policy disposition proposal evidence review hotkey awarded expires requested capped debt)
  show ?thesis
    unfolding fields DiscoveryDebtClaim_init_def discovery_claim_valid_def DiscoveryDebtClaim_fields_def
    by (simp add: err_simps; rule iffI; elim conjE exE; simp)
qed

definition discovery_balance_valid :: "DiscoveryClaimBalance \<Rightarrow> bool" where
  "discovery_balance_valid b \<longleftrightarrow>
     is_digest (dyb_claim_digest b) \<and> 1 \<le> dyb_principal_units b \<and> 0 \<le> dyb_paid_units b
     \<and> 0 \<le> dyb_forfeited_units b \<and> 0 \<le> dyb_remaining_units b
     \<and> dyb_paid_units b + dyb_forfeited_units b + dyb_remaining_units b = dyb_principal_units b
     \<and> dyb_status b \<in> set DISCOVERY_BALANCE_STATUSES
     \<and> (if dyb_status b = ''open''
        then 0 < dyb_remaining_units b \<and> dyb_terminal_block b = None \<and> dyb_terminal_reason b = []
        else dyb_remaining_units b = 0 \<and> (\<exists>t \<ge> 0. dyb_terminal_block b = Some t)
          \<and> reason_ok (dyb_terminal_reason b))
     \<and> (dyb_status b = ''paid'' \<longrightarrow> dyb_paid_units b = dyb_principal_units b)
     \<and> (dyb_status b = ''expired'' \<or> dyb_status b = ''cancelled'' \<longrightarrow> 0 < dyb_forfeited_units b)"

lemma py_eq_str_iff [simp]: "py_eq_str v s \<longleftrightarrow> v = PyStr s"
  by (cases v) auto

lemma discovery_terminal_eq_Inr [err_simps]:
  "discovery_terminal status remaining block reason = Inr (tb, why) \<longleftrightarrow>
     (if status = ''open''
      then 0 < remaining \<and> block = PyNone \<and> reason = PyStr [] \<and> tb = None \<and> why = []
      else remaining = 0 \<and> (\<exists>t \<ge> 0. block = PyInt t \<and> tb = Some t) \<and> reason = PyStr why \<and> reason_ok why)"
  by (auto simp: discovery_terminal_def err_simps)

lemma DiscoveryClaimBalance_init_carries:
  "DiscoveryClaimBalance_init row = Inr b \<Longrightarrow>
     discovery_balance_valid b \<and> row_carries row (DiscoveryClaimBalance_fields b)"
  unfolding DiscoveryClaimBalance_init_def
  by (simp only: err_simps Let_def split_paired_Ex prod.case, elim exE conjE,
      simp only: err_simps not_not sum.inject pyval.case, elim exE conjE bexE, hypsubst,
      simp only: discovery_balance_valid_def DiscoveryClaimBalance_fields_def DiscoveryClaimBalance.simps
        row_carries_Cons pyval.case, simp split: if_splits, elim exE conjE, hypsubst, simp, linarith)

lemma DiscoveryClaimBalance_init_ok:
  "discovery_balance_valid b \<Longrightarrow> row_carries row (DiscoveryClaimBalance_fields b) \<Longrightarrow>
     DiscoveryClaimBalance_init row = Inr b"
  unfolding DiscoveryClaimBalance_init_def discovery_balance_valid_def DiscoveryClaimBalance_fields_def
  by (auto simp: py_in_strs_def discovery_terminal_def split: if_splits)

lemma DiscoveryClaimBalance_init_iff:
  "DiscoveryClaimBalance_init row = Inr b \<longleftrightarrow>
     discovery_balance_valid b \<and> row_carries row (DiscoveryClaimBalance_fields b)"
  using DiscoveryClaimBalance_init_carries DiscoveryClaimBalance_init_ok by blast

interpretation dclaim: dataclass DiscoveryDebtClaim_init DiscoveryDebtClaim_fields
  ddc_field_names discovery_claim_valid
  by unfold_locales
    (simp_all add: DiscoveryDebtClaim_init_iff DiscoveryDebtClaim_fields_def ddc_field_names_def)

interpretation dbalance: dataclass DiscoveryClaimBalance_init DiscoveryClaimBalance_fields
  dcb_field_names discovery_balance_valid
  by unfold_locales
    (simp_all add: DiscoveryClaimBalance_init_iff DiscoveryClaimBalance_fields_def dcb_field_names_def
      json_of_option_def split: option.splits)

lemma DiscoveryDebtClaim_new_eq_Inr [err_simps]:
  "DiscoveryDebtClaim_new c = Inr c' \<longleftrightarrow> discovery_claim_valid c \<and> c' = c"
  unfolding DiscoveryDebtClaim_new_def by (rule dclaim.new_iff)

lemma DiscoveryClaimBalance_new_eq_Inr [err_simps]:
  "DiscoveryClaimBalance_new b = Inr b' \<longleftrightarrow> discovery_balance_valid b \<and> b' = b"
  unfolding DiscoveryClaimBalance_new_def by (rule dbalance.new_iff)

section \<open>The life of a discovery balance\<close>

definition discovery_paid :: "DiscoveryClaimBalance \<Rightarrow> int \<Rightarrow> int \<Rightarrow> DiscoveryClaimBalance" where
  "discovery_paid b amount block =
     (let rest = dyb_remaining_units b - amount in
      b\<lparr>dyb_paid_units := dyb_paid_units b + amount, dyb_remaining_units := rest,
        dyb_status := (if rest = 0 then ''paid'' else ''open''),
        dyb_terminal_block := (if rest = 0 then Some block else None),
        dyb_terminal_reason := (if rest = 0 then ''principal_paid'' else [])\<rparr>)"

definition discovery_forfeited ::
    "DiscoveryClaimBalance \<Rightarrow> string \<Rightarrow> int \<Rightarrow> string \<Rightarrow> DiscoveryClaimBalance" where
  "discovery_forfeited b status block reason =
     b\<lparr>dyb_forfeited_units := dyb_forfeited_units b + dyb_remaining_units b,
       dyb_remaining_units := 0, dyb_status := status,
       dyb_terminal_block := Some block, dyb_terminal_reason := reason\<rparr>"

lemma discovery_paid_sel [simp]:
  "dyb_claim_digest (discovery_paid b n t) = dyb_claim_digest b"
  "dyb_principal_units (discovery_paid b n t) = dyb_principal_units b"
  "dyb_paid_units (discovery_paid b n t) = dyb_paid_units b + n"
  "dyb_forfeited_units (discovery_paid b n t) = dyb_forfeited_units b"
  "dyb_remaining_units (discovery_paid b n t) = dyb_remaining_units b - n"
  "dyb_status (discovery_paid b n t) = (if dyb_remaining_units b = n then ''paid'' else ''open'')"
  "dyb_terminal_block (discovery_paid b n t) = (if dyb_remaining_units b = n then Some t else None)"
  by (simp_all add: discovery_paid_def Let_def)

lemma discovery_forfeited_sel [simp]:
  "dyb_claim_digest (discovery_forfeited b s t r) = dyb_claim_digest b"
  "dyb_principal_units (discovery_forfeited b s t r) = dyb_principal_units b"
  "dyb_paid_units (discovery_forfeited b s t r) = dyb_paid_units b"
  "dyb_forfeited_units (discovery_forfeited b s t r) = dyb_forfeited_units b + dyb_remaining_units b"
  "dyb_remaining_units (discovery_forfeited b s t r) = 0"
  "dyb_status (discovery_forfeited b s t r) = s"
  "dyb_terminal_block (discovery_forfeited b s t r) = Some t"
  by (simp_all add: discovery_forfeited_def)

definition discovery_balance_of :: "py_env \<Rightarrow> DiscoveryDebtClaim \<Rightarrow> DiscoveryClaimBalance \<Rightarrow> bool" where
  "discovery_balance_of E c b \<longleftrightarrow> discovery_balance_valid b
     \<and> dyb_claim_digest b = DiscoveryDebtClaim_digest E c \<and> dyb_principal_units b = ddc_principal_units c
     \<and> (dyb_status b = ''open'' \<longrightarrow> dyb_forfeited_units b = 0)"

lemma discovery_valid_paid:
  assumes "discovery_balance_valid b" "dyb_status b = ''open''" "dyb_forfeited_units b = 0"
    "0 < amount" "amount \<le> dyb_remaining_units b" "0 \<le> block"
  shows "discovery_balance_valid (discovery_paid b amount block)"
  using assms by (simp add: discovery_balance_valid_def discovery_paid_def Let_def
      DISCOVERY_BALANCE_STATUSES_def reason_ok_def)

lemma discovery_valid_forfeited:
  assumes "discovery_balance_valid b" "dyb_status b = ''open''" "0 \<le> block" "reason_ok reason"
    "status = ''expired'' \<or> status = ''cancelled''"
  shows "discovery_balance_valid (discovery_forfeited b status block reason)"
  using assms by (auto simp: discovery_balance_valid_def discovery_forfeited_def
      DISCOVERY_BALANCE_STATUSES_def)

lemma validate_claim_balance_of [simp]:
  "discovery_balance_of E c b \<Longrightarrow> validate_claim_balance E c b = Inr ()"
  by (simp add: validate_claim_balance_def discovery_balance_of_def)

lemma pay_discovery_balance_eq:
  assumes "discovery_balance_of E c b"
  shows "pay_discovery_balance E c b amount block = Inr b' \<longleftrightarrow>
    dyb_status b = ''open'' \<and> 1 \<le> amount \<and> 0 \<le> block \<and> ddc_awarded_block c \<le> block
    \<and> block < ddc_expires_block c \<and> amount \<le> dyb_remaining_units b
    \<and> b' = discovery_paid b amount block"
proof -
  have eq: "\<lparr>dyb_claim_digest = dyb_claim_digest b, dyb_principal_units = dyb_principal_units b,
      dyb_paid_units = dyb_paid_units b + amount, dyb_forfeited_units = dyb_forfeited_units b,
      dyb_remaining_units = dyb_remaining_units b - amount,
      dyb_status = (if dyb_remaining_units b - amount \<noteq> 0 then ''open'' else ''paid''),
      dyb_terminal_block = (if dyb_remaining_units b - amount \<noteq> 0 then None else Some block),
      dyb_terminal_reason = (if dyb_remaining_units b - amount \<noteq> 0 then [] else ''principal_paid'')\<rparr>
      = discovery_paid b amount block" for amount block
    by (cases b) (simp add: discovery_paid_def Let_def)
  have v: "discovery_balance_valid b" "dyb_status b = ''open'' \<Longrightarrow> dyb_forfeited_units b = 0"
    using assms by (simp_all add: discovery_balance_of_def)
  show ?thesis
    unfolding pay_discovery_balance_def Let_def eq validate_claim_balance_of [OF assms] bindE_Inr
    using discovery_valid_paid [OF v(1) _ v(2)] by (auto simp: err_simps)
qed

lemma expire_discovery_balance_eq:
  assumes "discovery_balance_of E c b"
  shows "expire_discovery_balance E c b block = Inr b' \<longleftrightarrow> 0 \<le> block \<and>
    b' = (if dyb_status b = ''open'' \<and> ddc_expires_block c \<le> block
          then discovery_forfeited b ''expired'' block ''claim_lifetime_expired'' else b)"
proof -
  have eq: "\<lparr>dyb_claim_digest = dyb_claim_digest b, dyb_principal_units = dyb_principal_units b,
      dyb_paid_units = dyb_paid_units b,
      dyb_forfeited_units = dyb_forfeited_units b + dyb_remaining_units b,
      dyb_remaining_units = 0, dyb_status = ''expired'', dyb_terminal_block = Some block,
      dyb_terminal_reason = ''claim_lifetime_expired''\<rparr>
      = discovery_forfeited b ''expired'' block ''claim_lifetime_expired''" for block
    by (cases b) (simp add: discovery_forfeited_def)
  have "reason_ok ''claim_lifetime_expired''" by (simp add: reason_ok_def)
  moreover have "discovery_balance_valid b" using assms by (simp add: discovery_balance_of_def)
  ultimately show ?thesis
    unfolding expire_discovery_balance_def eq validate_claim_balance_of [OF assms] bindE_Inr
    using discovery_valid_forfeited [of b block "''claim_lifetime_expired''" "''expired''"]
    by (auto simp: err_simps)
qed

lemma cancel_discovery_balance_eq:
  assumes "discovery_balance_of E c b"
  shows "cancel_discovery_balance E c b block reason = Inr b' \<longleftrightarrow>
    dyb_status b = ''open'' \<and> 0 \<le> block \<and> ddc_awarded_block c \<le> block \<and> reason_ok reason
    \<and> b' = discovery_forfeited b ''cancelled'' block reason"
proof -
  have eq: "\<lparr>dyb_claim_digest = dyb_claim_digest b, dyb_principal_units = dyb_principal_units b,
      dyb_paid_units = dyb_paid_units b,
      dyb_forfeited_units = dyb_forfeited_units b + dyb_remaining_units b,
      dyb_remaining_units = 0, dyb_status = ''cancelled'', dyb_terminal_block = Some block,
      dyb_terminal_reason = reason\<rparr> = discovery_forfeited b ''cancelled'' block reason" for block reason
    by (cases b) (simp add: discovery_forfeited_def)
  have "discovery_balance_valid b" using assms by (simp add: discovery_balance_of_def)
  then show ?thesis
    unfolding cancel_discovery_balance_def eq validate_claim_balance_of [OF assms] bindE_Inr
    using discovery_valid_forfeited [of b block reason "''cancelled''"]
    by (auto simp: err_simps)
qed

fun discovery_op_apply ::
    "py_env \<Rightarrow> DiscoveryDebtClaim \<Rightarrow> balance_op \<Rightarrow> DiscoveryClaimBalance \<Rightarrow> py_error + DiscoveryClaimBalance" where
  "discovery_op_apply E c (Pay amount block) b = pay_discovery_balance E c b amount block"
| "discovery_op_apply E c (Expire block) b = expire_discovery_balance E c b block"
| "discovery_op_apply E c (Cancel block reason) b = cancel_discovery_balance E c b block reason"

lemmas discovery_op_eqs = pay_discovery_balance_eq expire_discovery_balance_eq cancel_discovery_balance_eq

lemma discovery_op_preserves:
  assumes b: "discovery_balance_of E c b" and op: "discovery_op_apply E c x b = Inr b'"
  shows "discovery_balance_of E c b' \<and> dyb_paid_units b' = dyb_paid_units b + op_paid x
    \<and> dyb_forfeited_units b \<le> dyb_forfeited_units b'"
proof -
  have v: "discovery_balance_valid b" using b by (simp add: discovery_balance_of_def)
  have nn: "0 \<le> dyb_remaining_units b" using v by (simp add: discovery_balance_valid_def)
  have r: "reason_ok ''claim_lifetime_expired''" by (simp add: reason_ok_def)
  show ?thesis
  proof (cases x)
    case (Pay amount block)
    with op b have "dyb_status b = ''open''" "1 \<le> amount" "0 \<le> block"
      "amount \<le> dyb_remaining_units b" "b' = discovery_paid b amount block"
      by (auto simp: discovery_op_eqs)
    with b Pay v discovery_valid_paid [of b amount block] show ?thesis by (auto simp: discovery_balance_of_def)
  next
    case (Expire block)
    with op b r nn v discovery_valid_forfeited [of b block "''claim_lifetime_expired''" "''expired''"]
    show ?thesis by (auto simp: discovery_op_eqs discovery_balance_of_def)
  next
    case (Cancel block reason)
    with op b nn v discovery_valid_forfeited [of b block reason "''cancelled''"] show ?thesis
      by (auto simp: discovery_op_eqs discovery_balance_of_def)
  qed
qed

interpretation discovery: claim_ledger "discovery_balance_of E c" "discovery_op_apply E c"
  dyb_principal_units dyb_paid_units dyb_forfeited_units dyb_remaining_units
proof
  fix b assume b: "discovery_balance_of E c b"
  then have v: "discovery_balance_valid b" by (simp add: discovery_balance_of_def)
  then show "dyb_paid_units b + dyb_forfeited_units b + dyb_remaining_units b = dyb_principal_units b"
    and "0 \<le> dyb_paid_units b \<and> 0 \<le> dyb_forfeited_units b \<and> 0 \<le> dyb_remaining_units b"
    by (simp_all add: discovery_balance_valid_def)
  show "0 < n" if "discovery_op_apply E c (Pay n t) b = Inr b'" for n t b'
    using that b by (simp add: pay_discovery_balance_eq)
  fix x b' assume op: "discovery_op_apply E c x b = Inr b'"
  show "discovery_balance_of E c b' \<and> dyb_principal_units b' = dyb_principal_units b
      \<and> dyb_paid_units b' = dyb_paid_units b + op_paid x \<and> dyb_forfeited_units b \<le> dyb_forfeited_units b'"
    using discovery_op_preserves [OF b op] b by (simp add: discovery_balance_of_def)
  show "b' = b" if "dyb_remaining_units b = 0"
  proof -
    have "dyb_status b \<noteq> ''open''" using v that by (simp add: discovery_balance_valid_def split: if_splits)
    with op b show ?thesis by (cases x) (auto simp: discovery_op_eqs)
  qed
qed

end
