(* ===== verification/Composed_Epoch.thy ===== *)
theory Composed_Epoch
  imports Discovery_Laws
begin

text \<open>
  \<open>optima/incentive_composition.py\<close>, second half: the ordered two-class epoch projection and
  its application to crown and discovery claims.
\<close>

section \<open>Allocations of one class\<close>

record CompositionClassAllocation =
  cca_claim_digest :: string
  cca_hotkey :: string
  cca_units :: int

definition CompositionClassAllocation_init ::
    "(string \<times> pyval) list \<Rightarrow> py_error + CompositionClassAllocation" where
  "CompositionClassAllocation_init row =
     bindE (ic_digest (kwarg row ''claim_digest'') ''claim_digest'') (\<lambda>d.
     bindE (ic_hotkey (kwarg row ''hotkey'') ''hotkey'') (\<lambda>h.
     bindE (ic_integer (kwarg row ''units'') ''allocation units'' 1 (Some PPM)) (\<lambda>u.
     Inr \<lparr>cca_claim_digest = d, cca_hotkey = h, cca_units = u\<rparr>)))"

definition CompositionClassAllocation_fields :: "CompositionClassAllocation \<Rightarrow> (string \<times> json) list" where
  "CompositionClassAllocation_fields r =
     [(''claim_digest'', JStr (cca_claim_digest r)), (''hotkey'', JStr (cca_hotkey r)),
      (''units'', JInt (cca_units r))]"

definition CompositionClassAllocation_new ::
    "string \<Rightarrow> string \<Rightarrow> int \<Rightarrow> py_error + CompositionClassAllocation" where
  "CompositionClassAllocation_new d h u = CompositionClassAllocation_init (kwargs_of
     (CompositionClassAllocation_fields \<lparr>cca_claim_digest = d, cca_hotkey = h, cca_units = u\<rparr>))"

definition CompositionClassAllocation_from_dict :: "pyval \<Rightarrow> py_error + CompositionClassAllocation" where
  "CompositionClassAllocation_from_dict v =
     bindE (ic_strict v [''claim_digest'', ''hotkey'', ''units''] ''class allocation'')
       CompositionClassAllocation_init"

definition pro_rata ::
    "(string \<times> string \<times> int) list \<Rightarrow> int \<Rightarrow> py_error + CompositionClassAllocation list" where
  "pro_rata rows capacity =
     (let vals = sort_key fst rows in
      if length (remdups (map fst vals)) \<noteq> length vals
      then Inl (IncentiveCompositionError ''class allocation contains duplicate claims'') else
      let tot = sum_list (map (\<lambda>(_, _, remaining). remaining) vals);
          payout = min capacity tot
      in if payout = 0 then Inr [] else
      let amounts = capped_amounts (map (\<lambda>(d, _, remaining). (d, remaining)) vals) payout tot capacity in
      mapE (\<lambda>(d, hotkey, _). CompositionClassAllocation_new d hotkey (dict_get d 0 amounts))
        (filter (\<lambda>(d, _, _). 0 < dict_get d 0 amounts) vals))"

section \<open>The composed projection\<close>

record ComposedEpochProjection =
  cep_composition_policy_digest :: string
  cep_innovation_policy_digest :: string
  cep_effective_block :: int
  cep_reference_epoch_units :: pyval
  cep_reserve_floor_units :: int
  cep_discovery_capacity_units :: int
  cep_discovery_total_remaining_units :: int
  cep_discovery_payout_units :: int
  cep_innovation_capacity_units :: int
  cep_innovation_total_remaining_units :: int
  cep_innovation_payout_units :: int
  cep_reserve_hotkey :: string
  cep_reserve_units :: int
  cep_discovery_input_state_digests :: "string list"
  cep_innovation_input_state_digests :: "string list"
  cep_discovery_allocations :: "CompositionClassAllocation list"
  cep_innovation_allocations :: "CompositionClassAllocation list"
  cep_weights :: "DebtHotkeyWeight list"

definition class_totals :: "CompositionClassAllocation list \<Rightarrow> (string \<times> int) list" where
  "class_totals allocations = dict_sum (map (\<lambda>a. (cca_hotkey a, cca_units a)) allocations) []"

definition canonical_inputs :: "string \<Rightarrow> string list \<Rightarrow> py_error + unit" where
  "canonical_inputs field vals =
     (if \<not> sorted_unique vals
      then Inl (IncentiveCompositionError (field @ '' is not uniquely digest-sorted''))
      else forE vals (\<lambda>d. bindE (ic_digest (PyStr d) field) (\<lambda>_. Inr ())))"

definition canonical_allocations ::
    "string \<Rightarrow> CompositionClassAllocation list \<Rightarrow> py_error + unit" where
  "canonical_allocations label allocations =
     (if \<not> sorted_unique (map cca_claim_digest allocations)
      then Inl (IncentiveCompositionError (label @ '' allocations are not canonical'')) else Inr ())"

definition ComposedEpochProjection_init ::
    "string list \<Rightarrow> string list \<Rightarrow> CompositionClassAllocation list \<Rightarrow> CompositionClassAllocation list \<Rightarrow>
     DebtHotkeyWeight list \<Rightarrow> (string \<times> pyval) list \<Rightarrow> py_error + ComposedEpochProjection" where
  "ComposedEpochProjection_init dinputs iinputs dallocs iallocs weights row =
     bindE (ic_digest (kwarg row ''composition_policy_digest'') ''composition_policy_digest'') (\<lambda>cpd.
     bindE (ic_digest (kwarg row ''innovation_policy_digest'') ''innovation_policy_digest'') (\<lambda>ipd.
     bindE (ic_integer (kwarg row ''effective_block'') ''effective_block'' 0 None) (\<lambda>block.
     if \<not> py_eq_int (kwarg row ''reference_epoch_units'') REFERENCE_EPOCH_UNITS
     then Inl (IncentiveCompositionError ''reference_epoch_units is unsupported'') else
     bindE (ic_integer (kwarg row ''reserve_floor_units'') ''reserve_floor_units'' 0
       (Some (PPM - 1))) (\<lambda>floor_units.
     bindE (ic_integer (kwarg row ''discovery_capacity_units'') ''discovery_capacity_units'' 1
       (Some (PPM - floor_units))) (\<lambda>dcap.
     bindE (ic_integer (kwarg row ''discovery_total_remaining_units'')
       ''discovery_total_remaining_units'' 0 None) (\<lambda>drem.
     bindE (ic_integer (kwarg row ''discovery_payout_units'') ''discovery_payout_units'' 0
       (Some dcap)) (\<lambda>dpay.
     bindE (ic_integer (kwarg row ''innovation_capacity_units'') ''innovation_capacity_units'' 0
       (Some (PPM - floor_units))) (\<lambda>icap.
     bindE (ic_integer (kwarg row ''innovation_total_remaining_units'')
       ''innovation_total_remaining_units'' 0 None) (\<lambda>irem.
     bindE (ic_integer (kwarg row ''innovation_payout_units'') ''innovation_payout_units'' 0
       (Some icap)) (\<lambda>ipay.
     bindE (ic_integer (kwarg row ''reserve_units'') ''reserve_units'' floor_units (Some PPM)) (\<lambda>reserve.
     bindE (ic_hotkey (kwarg row ''reserve_hotkey'') ''reserve_hotkey'') (\<lambda>reserve_hotkey.
     bindE (canonical_inputs ''discovery_input_state_digests'' dinputs) (\<lambda>_.
     bindE (canonical_inputs ''innovation_input_state_digests'' iinputs) (\<lambda>_.
     bindE (canonical_allocations ''discovery'' dallocs) (\<lambda>_.
     bindE (canonical_allocations ''innovation'' iallocs) (\<lambda>_.
     if \<not> sorted_unique (map dhw_hotkey weights)
     then Inl (IncentiveCompositionError ''composed weights are not canonical'') else
     if dpay \<noteq> min dcap drem
        \<or> icap \<noteq> PPM - floor_units - dpay
        \<or> ipay \<noteq> min icap irem
        \<or> sum_list (map cca_units dallocs) \<noteq> dpay
        \<or> sum_list (map cca_units iallocs) \<noteq> ipay
        \<or> reserve \<noteq> PPM - dpay - ipay
        \<or> sum_list (map dhw_units weights) \<noteq> PPM
     then Inl (IncentiveCompositionError ''composed projection does not conserve its ordered capacities'') else
     let by_hotkey = dict_add reserve_hotkey reserve (class_totals (dallocs @ iallocs)) in
     if \<not> same_dict (dict_of (map (\<lambda>w. (dhw_hotkey w, dhw_units w)) weights))
          (filter (\<lambda>(_, units). 0 < units) by_hotkey)
     then Inl (IncentiveCompositionError ''composed weights differ from class allocations and reserve'') else
     Inr \<lparr>cep_composition_policy_digest = cpd, cep_innovation_policy_digest = ipd,
          cep_effective_block = block, cep_reference_epoch_units = kwarg row ''reference_epoch_units'',
          cep_reserve_floor_units = floor_units, cep_discovery_capacity_units = dcap,
          cep_discovery_total_remaining_units = drem, cep_discovery_payout_units = dpay,
          cep_innovation_capacity_units = icap, cep_innovation_total_remaining_units = irem,
          cep_innovation_payout_units = ipay, cep_reserve_hotkey = reserve_hotkey,
          cep_reserve_units = reserve, cep_discovery_input_state_digests = dinputs,
          cep_innovation_input_state_digests = iinputs, cep_discovery_allocations = dallocs,
          cep_innovation_allocations = iallocs, cep_weights = weights\<rparr>))))))))))))))))"

definition ComposedEpochProjection_scalars :: "ComposedEpochProjection \<Rightarrow> (string \<times> pyval) list" where
  "ComposedEpochProjection_scalars r =
     [(''composition_policy_digest'', PyStr (cep_composition_policy_digest r)),
      (''innovation_policy_digest'', PyStr (cep_innovation_policy_digest r)),
      (''effective_block'', PyInt (cep_effective_block r)),
      (''reference_epoch_units'', cep_reference_epoch_units r),
      (''reserve_floor_units'', PyInt (cep_reserve_floor_units r)),
      (''discovery_capacity_units'', PyInt (cep_discovery_capacity_units r)),
      (''discovery_total_remaining_units'', PyInt (cep_discovery_total_remaining_units r)),
      (''discovery_payout_units'', PyInt (cep_discovery_payout_units r)),
      (''innovation_capacity_units'', PyInt (cep_innovation_capacity_units r)),
      (''innovation_total_remaining_units'', PyInt (cep_innovation_total_remaining_units r)),
      (''innovation_payout_units'', PyInt (cep_innovation_payout_units r)),
      (''reserve_hotkey'', PyStr (cep_reserve_hotkey r)),
      (''reserve_units'', PyInt (cep_reserve_units r))]"

definition ComposedEpochProjection_new :: "ComposedEpochProjection \<Rightarrow> py_error + ComposedEpochProjection" where
  "ComposedEpochProjection_new r =
     ComposedEpochProjection_init (cep_discovery_input_state_digests r)
       (cep_innovation_input_state_digests r) (cep_discovery_allocations r)
       (cep_innovation_allocations r) (cep_weights r) (ComposedEpochProjection_scalars r)"

definition cep_payout_units :: "ComposedEpochProjection \<Rightarrow> int" where
  "cep_payout_units r = cep_discovery_payout_units r + cep_innovation_payout_units r"

definition cep_weights_by_hotkey :: "ComposedEpochProjection \<Rightarrow> (string \<times> int) list" where
  "cep_weights_by_hotkey r = dict_of (map (\<lambda>w. (dhw_hotkey w, dhw_units w)) (cep_weights r))"

definition ComposedEpochProjection_to_dict :: "ComposedEpochProjection \<Rightarrow> pyval" where
  "ComposedEpochProjection_to_dict r =
     (let alls = (\<lambda>as. PyList (map (\<lambda>a. py_of_json (JObj (CompositionClassAllocation_fields a))) as)) in
      PyDict
       ((PyStr ''discovery_allocations'', alls (cep_discovery_allocations r)) #
        (PyStr ''discovery_input_state_digests'', PyList (map PyStr (cep_discovery_input_state_digests r))) #
        (PyStr ''innovation_allocations'', alls (cep_innovation_allocations r)) #
        (PyStr ''innovation_input_state_digests'', PyList (map PyStr (cep_innovation_input_state_digests r))) #
        (PyStr ''weights'', PyList (map (\<lambda>w. py_of_json (JObj (DebtHotkeyWeight_fields w))) (cep_weights r))) #
        map (\<lambda>(k, v). (PyStr k, v)) (ComposedEpochProjection_scalars r)))"

definition cep_list_fields :: "string list" where
  "cep_list_fields = [''discovery_allocations'', ''discovery_input_state_digests'',
     ''innovation_allocations'', ''innovation_input_state_digests'', ''weights'']"

definition cep_field_names :: "string list" where
  "cep_field_names = [''composition_policy_digest'', ''innovation_policy_digest'', ''effective_block'',
     ''reference_epoch_units'', ''reserve_floor_units'', ''discovery_capacity_units'',
     ''discovery_total_remaining_units'', ''discovery_payout_units'', ''innovation_capacity_units'',
     ''innovation_total_remaining_units'', ''innovation_payout_units'', ''reserve_hotkey'',
     ''reserve_units''] @ cep_list_fields"

definition py_items :: "pyval \<Rightarrow> pyval list" where
  "py_items v = (case v of PyList xs \<Rightarrow> xs | _ \<Rightarrow> [])"

definition ComposedEpochProjection_from_dict :: "pyval \<Rightarrow> py_error + ComposedEpochProjection" where
  "ComposedEpochProjection_from_dict v =
     bindE (ic_strict v cep_field_names ''composed projection'') (\<lambda>row.
     bindE (forE cep_list_fields (\<lambda>f. case kwarg row f of PyList _ \<Rightarrow> Inr ()
       | _ \<Rightarrow> Inl (IncentiveCompositionError (''projection '' @ f @ '' must be an array'')))) (\<lambda>_.
     bindE (mapE CompositionClassAllocation_from_dict (py_items (kwarg row ''discovery_allocations'')))
       (\<lambda>dallocs.
     bindE (mapE CompositionClassAllocation_from_dict (py_items (kwarg row ''innovation_allocations'')))
       (\<lambda>iallocs.
     bindE (mapE DebtHotkeyWeight_from_dict (py_items (kwarg row ''weights''))) (\<lambda>weights.
     bindE (str_items (py_items (kwarg row ''discovery_input_state_digests''))
       ''discovery_input_state_digests'') (\<lambda>dinputs.
     bindE (str_items (py_items (kwarg row ''innovation_input_state_digests''))
       ''innovation_input_state_digests'') (\<lambda>iinputs.
     ComposedEpochProjection_init dinputs iinputs dallocs iallocs weights row)))))))"

definition ComposedEpochProjection_digest ::
    "py_env \<Rightarrow> ComposedEpochProjection \<Rightarrow> py_error + string" where
  "ComposedEpochProjection_digest E r =
     canonical_digest E ''optima.incentive-composition.epoch-projection''
       (ComposedEpochProjection_to_dict r) 1"

section \<open>Projecting a composed epoch\<close>

text \<open>\<open>except FiniteDebtError as exc: raise IncentiveCompositionError(prefix + str(exc))\<close>.\<close>

definition wrap_debt_error :: "string \<Rightarrow> py_error + 'a \<Rightarrow> py_error + 'a" where
  "wrap_debt_error prefix r =
     (case r of Inl (FiniteDebtError m) \<Rightarrow> Inl (IncentiveCompositionError (prefix @ m)) | _ \<Rightarrow> r)"

definition check_innovation_row ::
    "py_env \<Rightarrow> FiniteDebtPolicyManifest \<Rightarrow> int \<Rightarrow> DebtClaimState \<Rightarrow> py_error + unit" where
  "check_innovation_row E p block row =
     bindE (wrap_debt_error ''innovation claim differs from policy: ''
       (InnovationDebtClaim_validate_policy E (dcs_claim row) p)) (\<lambda>_.
     if idc_hotkey (dcs_claim row) = fdp_reserve_hotkey p \<and> state_open row
     then Inl (IncentiveCompositionError ''reserve hotkey cannot own open innovation debt'') else
     if state_open row \<and> (block < idc_settlement_block (dcs_claim row)
          \<or> idc_expires_block (dcs_claim row) \<le> block)
     then Inl (IncentiveCompositionError ''open innovation claim is outside its payout window'') else
     Inr ())"

definition canonical_innovation_states ::
    "py_env \<Rightarrow> FiniteDebtPolicyManifest \<Rightarrow> DebtClaimState list \<Rightarrow> int \<Rightarrow> py_error + DebtClaimState list" where
  "canonical_innovation_states E p states block =
     (let rows = sort_key (state_claim_digest E) states in
      if length (remdups (map (state_claim_digest E) rows)) \<noteq> length rows
      then Inl (IncentiveCompositionError ''innovation states contain duplicate claims'') else
      bindE (forE rows (check_innovation_row E p block)) (\<lambda>_. Inr rows))"

abbreviation disc_digest :: "py_env \<Rightarrow> DiscoveryClaimState \<Rightarrow> string" where
  "disc_digest E st \<equiv> DiscoveryDebtClaim_digest E (dys_claim st)"

abbreviation disc_open :: "DiscoveryClaimState \<Rightarrow> bool" where
  "disc_open st \<equiv> dyb_status (dys_balance st) = ''open''"

abbreviation disc_remaining :: "DiscoveryClaimState \<Rightarrow> int" where
  "disc_remaining st \<equiv> dyb_remaining_units (dys_balance st)"

definition check_discovery_row ::
    "py_env \<Rightarrow> IncentiveCompositionPolicyManifest \<Rightarrow> int \<Rightarrow> string \<Rightarrow> DiscoveryClaimState \<Rightarrow> py_error + unit" where
  "check_discovery_row E cp block reserve_hotkey row =
     bindE (DiscoveryDebtClaim_validate_policy E (dys_claim row) cp None) (\<lambda>_.
     if ddc_hotkey (dys_claim row) = reserve_hotkey \<and> disc_open row
     then Inl (IncentiveCompositionError ''reserve hotkey cannot own open discovery debt'') else
     if disc_open row \<and> (block < ddc_awarded_block (dys_claim row)
          \<or> ddc_expires_block (dys_claim row) \<le> block)
     then Inl (IncentiveCompositionError ''open discovery claim is outside its payout window'') else
     Inr ())"

definition canonical_discovery_states ::
    "py_env \<Rightarrow> IncentiveCompositionPolicyManifest \<Rightarrow> DiscoveryClaimState list \<Rightarrow> int \<Rightarrow> string \<Rightarrow>
     py_error + DiscoveryClaimState list" where
  "canonical_discovery_states E cp states block reserve_hotkey =
     (let rows = sort_key (disc_digest E) states in
      if length (remdups (map (disc_digest E) rows)) \<noteq> length rows
      then Inl (IncentiveCompositionError ''discovery states contain duplicate claims'') else
      bindE (forE rows (check_discovery_row E cp block reserve_hotkey)) (\<lambda>_. Inr rows))"

definition project_composed_epoch ::
    "py_env \<Rightarrow> FiniteDebtPolicyManifest \<Rightarrow> IncentiveCompositionPolicyManifest \<Rightarrow> int \<Rightarrow>
     DebtClaimState list \<Rightarrow> DiscoveryClaimState list \<Rightarrow> py_error + ComposedEpochProjection" where
  "project_composed_epoch E p cp effective_block innovation_states discovery_states =
     bindE (validate_innovation_policy E cp p) (\<lambda>_.
     bindE (ic_integer (PyInt effective_block) ''effective_block'' 0 None) (\<lambda>block.
     bindE (canonical_innovation_states E p innovation_states block) (\<lambda>innovation_rows.
     bindE (canonical_discovery_states E cp discovery_states block (fdp_reserve_hotkey p)) (\<lambda>discovery_rows.
     let open_discovery = filter disc_open discovery_rows;
         open_innovation = filter state_open innovation_rows;
         discovery_rest = sum_list (map disc_remaining open_discovery);
         discovery_payout = min (icp_discovery_cap_units cp) discovery_rest
     in bindE (pro_rata (map (\<lambda>row. (disc_digest E row, ddc_hotkey (dys_claim row), disc_remaining row))
          open_discovery) (icp_discovery_cap_units cp)) (\<lambda>discovery_allocations.
     let innovation_capacity = PPM - reserve_floor_units cp - discovery_payout;
         innovation_rest = sum_list (map state_remaining open_innovation);
         innovation_payout = min innovation_capacity innovation_rest
     in bindE (pro_rata (map (\<lambda>row. (state_claim_digest E row, idc_hotkey (dcs_claim row), state_remaining row))
          open_innovation) innovation_capacity) (\<lambda>innovation_allocations.
     let reserve = PPM - discovery_payout - innovation_payout;
         by_hotkey = dict_add (fdp_reserve_hotkey p) reserve
           (class_totals (discovery_allocations @ innovation_allocations))
     in bindE (mapE (\<lambda>h. DebtHotkeyWeight_new h (dict_get h 0 by_hotkey)) (sort (map fst by_hotkey)))
       (\<lambda>weights.
     bindE (IncentiveCompositionPolicyManifest_digest E cp) (\<lambda>cpd.
     bindE (FiniteDebtPolicyManifest_digest E p) (\<lambda>ipd.
     ComposedEpochProjection_new
       \<lparr>cep_composition_policy_digest = cpd, cep_innovation_policy_digest = ipd,
        cep_effective_block = block, cep_reference_epoch_units = PyInt REFERENCE_EPOCH_UNITS,
        cep_reserve_floor_units = reserve_floor_units cp,
        cep_discovery_capacity_units = icp_discovery_cap_units cp,
        cep_discovery_total_remaining_units = discovery_rest,
        cep_discovery_payout_units = discovery_payout,
        cep_innovation_capacity_units = innovation_capacity,
        cep_innovation_total_remaining_units = innovation_rest,
        cep_innovation_payout_units = innovation_payout,
        cep_reserve_hotkey = fdp_reserve_hotkey p, cep_reserve_units = reserve,
        cep_discovery_input_state_digests = sort (map (DiscoveryClaimState_digest E) discovery_rows),
        cep_innovation_input_state_digests = sort (map (DebtClaimState_digest E) innovation_rows),
        cep_discovery_allocations = discovery_allocations,
        cep_innovation_allocations = innovation_allocations, cep_weights = weights\<rparr>)))))))))"

section \<open>Applying a composed epoch\<close>

text \<open>\<open>allocation.claim_digest not in by_digest or by_digest[...].claim.hotkey != allocation.hotkey\<close>.\<close>

definition owner_differs :: "(string \<times> string) list \<Rightarrow> CompositionClassAllocation list \<Rightarrow> bool" where
  "owner_differs owners allocations \<longleftrightarrow>
     (\<exists>a \<in> set allocations. map_of owners (cca_claim_digest a) \<noteq> Some (cca_hotkey a))"

definition apply_innovation_row ::
    "py_env \<Rightarrow> (string \<times> int) list \<Rightarrow> int \<Rightarrow> DebtClaimState \<Rightarrow> py_error + DebtClaimState" where
  "apply_innovation_row E amounts block row =
     (let amount = dict_get (state_claim_digest E row) 0 amounts in
      bindE (wrap_debt_error ''innovation projection cannot apply: ''
        (if amount = 0 then Inr (dcs_balance row)
         else pay_claim_balance E (dcs_claim row) (dcs_balance row) amount block)) (\<lambda>balance.
      DebtClaimState_new E (dcs_claim row) balance))"

definition apply_discovery_row ::
    "py_env \<Rightarrow> (string \<times> int) list \<Rightarrow> int \<Rightarrow> DiscoveryClaimState \<Rightarrow> py_error + DiscoveryClaimState" where
  "apply_discovery_row E amounts block row =
     (let amount = dict_get (disc_digest E row) 0 amounts in
      bindE (if amount = 0 then Inr (dys_balance row)
             else pay_discovery_balance E (dys_claim row) (dys_balance row) amount block) (\<lambda>balance.
      DiscoveryClaimState_new E (dys_claim row) balance))"

definition class_amounts :: "CompositionClassAllocation list \<Rightarrow> (string \<times> int) list" where
  "class_amounts allocations = dict_of (map (\<lambda>a. (cca_claim_digest a, cca_units a)) allocations)"

definition apply_composed_epoch ::
    "py_env \<Rightarrow> DebtClaimState list \<Rightarrow> DiscoveryClaimState list \<Rightarrow> ComposedEpochProjection \<Rightarrow>
     py_error + (DebtClaimState list \<times> DiscoveryClaimState list)" where
  "apply_composed_epoch E innovation_states discovery_states r =
     (let innovation_rows = sort_key (state_claim_digest E) innovation_states;
          discovery_rows = sort_key (disc_digest E) discovery_states
      in if sort (map (DebtClaimState_digest E) innovation_rows) \<noteq> cep_innovation_input_state_digests r
           \<or> sort (map (DiscoveryClaimState_digest E) discovery_rows) \<noteq> cep_discovery_input_state_digests r
      then Inl (IncentiveCompositionError ''composed projection input balances changed before application'') else
      if owner_differs (dict_of (map (\<lambda>row. (state_claim_digest E row, idc_hotkey (dcs_claim row)))
             innovation_rows)) (cep_innovation_allocations r)
         \<or> owner_differs (dict_of (map (\<lambda>row. (disc_digest E row, ddc_hotkey (dys_claim row)))
             discovery_rows)) (cep_discovery_allocations r)
      then Inl (IncentiveCompositionError ''composed projection allocation differs from its claim owner'') else
      bindE (mapE (apply_innovation_row E (class_amounts (cep_innovation_allocations r))
        (cep_effective_block r)) innovation_rows) (\<lambda>updated_innovation.
      bindE (mapE (apply_discovery_row E (class_amounts (cep_discovery_allocations r))
        (cep_effective_block r)) discovery_rows) (\<lambda>updated_discovery.
      let innovation_paid = sum_list (map (\<lambda>(before, after).
            dcb_paid_units (dcs_balance after) - dcb_paid_units (dcs_balance before))
            (zip innovation_rows updated_innovation));
          discovery_paid_units = sum_list (map (\<lambda>(before, after).
            dyb_paid_units (dys_balance after) - dyb_paid_units (dys_balance before))
            (zip discovery_rows updated_discovery))
      in if innovation_paid \<noteq> cep_innovation_payout_units r
           \<or> discovery_paid_units \<noteq> cep_discovery_payout_units r
         then Inl (IncentiveCompositionError ''composed projection application did not consume both payouts'')
         else Inr (updated_innovation, updated_discovery))))"

end
