(* ===== verification/Composed_Laws.thy ===== *)
theory Composed_Laws
  imports Composed_Epoch
begin

text \<open>
  What a composed epoch guarantees: each class is paid its largest-remainder shares from an
  ordered capacity, the reserve keeps at least its floor, and applying the projection pays
  both classes exactly. The one input class on which the projection cannot be built is an
  epoch that leaves the reserve nothing.
\<close>

section \<open>Allocations of one class\<close>

lemma CompositionClassAllocation_init_iff:
  "CompositionClassAllocation_init row = Inr r \<longleftrightarrow>
     (is_digest (cca_claim_digest r) \<and> is_hotkey (cca_hotkey r) \<and> 1 \<le> cca_units r \<and> cca_units r \<le> PPM)
     \<and> row_carries row (CompositionClassAllocation_fields r)"
  by (cases r) (auto simp: CompositionClassAllocation_init_def CompositionClassAllocation_fields_def err_simps)

interpretation class_allocation: dataclass CompositionClassAllocation_init CompositionClassAllocation_fields
  "[''claim_digest'', ''hotkey'', ''units'']"
  "\<lambda>r. is_digest (cca_claim_digest r) \<and> is_hotkey (cca_hotkey r) \<and> 1 \<le> cca_units r \<and> cca_units r \<le> PPM"
  by unfold_locales (simp_all add: CompositionClassAllocation_init_iff CompositionClassAllocation_fields_def)

lemma CompositionClassAllocation_new_eq_Inr [err_simps]:
  "CompositionClassAllocation_new d h u = Inr r \<longleftrightarrow> is_digest d \<and> is_hotkey h \<and> 1 \<le> u \<and> u \<le> PPM
     \<and> r = \<lparr>cca_claim_digest = d, cca_hotkey = h, cca_units = u\<rparr>"
  unfolding CompositionClassAllocation_new_def class_allocation.new_iff by auto

text \<open>The debts of one class: claim digest, owner, remaining principal.\<close>

definition class_rows_ok :: "(string \<times> string \<times> int) list \<Rightarrow> bool" where
  "class_rows_ok rows \<longleftrightarrow> distinct (map fst rows)
     \<and> (\<forall>(d, h, n) \<in> set rows. is_digest d \<and> is_hotkey h \<and> 0 < n)"

definition class_debt :: "(string \<times> string \<times> int) list \<Rightarrow> int" where
  "class_debt rows = sum_list (map (snd \<circ> snd) rows)"

definition class_amount :: "(string \<times> string \<times> int) list \<Rightarrow> int \<Rightarrow> string \<Rightarrow> int" where
  "class_amount rows cap d = dict_get d 0
     (capped_amounts (map (\<lambda>(d, _, n). (d, n)) (sort_key fst rows)) (min cap (class_debt rows))
       (class_debt rows) cap)"

definition class_alloc :: "(string \<times> string \<times> int) list \<Rightarrow> int \<Rightarrow> CompositionClassAllocation list" where
  "class_alloc rows cap =
     map (\<lambda>(d, h, _). \<lparr>cca_claim_digest = d, cca_hotkey = h, cca_units = class_amount rows cap d\<rparr>)
       (filter (\<lambda>(d, _, _). 0 < class_amount rows cap d) (sort_key fst rows))"

lemma class_debt_sorted: "sum_list (map (\<lambda>(_, _, n). n) (sort_key fst rows)) = class_debt rows"
proof -
  have "(\<lambda>(_ :: string, _ :: string, n :: int). n) = snd \<circ> snd" by auto
  then show ?thesis by (simp only: class_debt_def sum_list_sort_key)
qed

lemma class_lookup:
  assumes "class_rows_ok rows" and "0 \<le> cap"
  defines "pay \<equiv> min cap (class_debt rows)"
  shows "sum_list (map (\<lambda>(d, _, _). class_amount rows cap d) (sort_key fst rows)) = pay"
    and "\<And>d. d \<notin> fst ` set rows \<Longrightarrow> class_amount rows cap d = 0"
    and "\<And>d h n. (d, h, n) \<in> set rows \<Longrightarrow> fair_amount n pay (class_debt rows) (class_amount rows cap d)"
proof -
  define owed where "owed = map (\<lambda>(d, _ :: string, n :: int). (d, n)) (sort_key fst rows)"
  have keys: "map fst owed = map fst (sort_key fst rows)"
    by (simp add: owed_def comp_def case_prod_beta)
  have d: "distinct (map fst owed)"
    using assms(1) unfolding keys by (simp add: class_rows_ok_def distinct_map_sort_key)
  have pos: "\<forall>r \<in> set owed. 0 < snd r" using assms(1) by (auto simp: owed_def class_rows_ok_def)
  have debt: "class_debt rows = sum_list (map snd owed)"
    unfolding class_debt_sorted [symmetric] owed_def map_map
    by (rule arg_cong [where f = sum_list]) auto
  note look = capped_amounts_lookup [OF d pos debt pay_def [THEN meta_eq_to_obj_eq] assms(2)]
  have amt: "class_amount rows cap k = dict_get k 0 (capped_amounts owed pay (class_debt rows) cap)" for k
    by (simp add: class_amount_def owed_def pay_def)
  show "sum_list (map (\<lambda>(d, _, _). class_amount rows cap d) (sort_key fst rows)) = pay"
  proof -
    let ?f = "\<lambda>k. dict_get k 0 (capped_amounts owed pay (class_debt rows) cap)"
    have "map (\<lambda>r. f (fst r)) owed = map (\<lambda>(d, _, _). f d) (sort_key fst rows)" for f :: "string \<Rightarrow> int"
      by (auto simp: owed_def)
    from this [of ?f] look(1) show ?thesis unfolding amt by (simp only:)
  qed
  show "class_amount rows cap k = 0" if "k \<notin> fst ` set rows" for k
    unfolding amt by (rule look(2)) (use that in \<open>force simp: owed_def\<close>)
  show "fair_amount n pay (class_debt rows) (class_amount rows cap k)" if "(k, h, n) \<in> set rows" for k h n
  proof -
    have "(k, n) \<in> set owed" using that by (force simp: owed_def)
    then show ?thesis unfolding amt using look(3) by blast
  qed
qed

lemma class_debt_nonneg: "class_rows_ok rows \<Longrightarrow> 0 \<le> class_debt rows"
  unfolding class_debt_def by (intro sum_list_nonneg_ints) (auto simp: class_rows_ok_def less_imp_le)

lemma class_alloc_total:
  assumes "class_rows_ok rows" and "0 \<le> cap"
  shows "sum_list (map cca_units (class_alloc rows cap)) = min cap (class_debt rows)"
proof -
  let ?f = "\<lambda>(d, _ :: string, _ :: int). class_amount rows cap d"
  have "\<And>x. x \<in> set (sort_key fst rows) \<Longrightarrow> 0 \<le> ?f x"
    using class_lookup(3) [OF assms] by (auto simp: fair_amount_def)
  from sum_list_filter_pos [of "sort_key fst rows" ?f, OF this] class_lookup(1) [OF assms]
  have "sum_list (map ?f (filter (\<lambda>x. 0 < ?f x) (sort_key fst rows))) = min cap (class_debt rows)" by simp
  moreover have "map cca_units (class_alloc rows cap) = map ?f (filter (\<lambda>x. 0 < ?f x) (sort_key fst rows))"
    unfolding class_alloc_def map_map
    by (rule map_cong [OF arg_cong [where f = "\<lambda>P. filter P (sort_key fst rows)"]]) auto
  ultimately show ?thesis by simp
qed

lemma class_alloc_mem:
  assumes "a \<in> set (class_alloc rows cap)"
  obtains n where "(cca_claim_digest a, cca_hotkey a, n) \<in> set rows"
    "cca_units a = class_amount rows cap (cca_claim_digest a)" "0 < cca_units a"
  using assms by (auto simp: class_alloc_def)

lemma class_alloc_canonical:
  assumes "class_rows_ok rows"
  shows "sorted_unique (map cca_claim_digest (class_alloc rows cap))"
proof -
  have eq: "map cca_claim_digest (class_alloc rows cap) =
      map fst (filter (\<lambda>(d, _, _). 0 < class_amount rows cap d) (sort_key fst rows))"
    by (simp add: class_alloc_def comp_def case_prod_beta)
  show ?thesis unfolding eq sorted_unique_iff
    using assms sorted_map_filter_sort_key [of fst _ rows]
    by (simp add: class_rows_ok_def distinct_map_filter distinct_map_sort_key)
qed

lemma pro_rata_eq:
  assumes ok: "class_rows_ok rows" and cap: "0 \<le> cap" "cap \<le> PPM"
  shows "pro_rata rows cap = Inr (class_alloc rows cap)"
proof -
  have d: "distinct (map fst (sort_key fst rows))"
    using ok by (simp add: class_rows_ok_def distinct_map_sort_key)
  have mk: "mapE (\<lambda>(d, hotkey, _). CompositionClassAllocation_new d hotkey (class_amount rows cap d))
      (filter (\<lambda>(d, _, _). 0 < class_amount rows cap d) (sort_key fst rows)) = Inr (class_alloc rows cap)"
    unfolding class_alloc_def
  proof (rule mapE_Inr)
    fix x assume x: "x \<in> set (filter (\<lambda>(d, _, _). 0 < class_amount rows cap d) (sort_key fst rows))"
    obtain k h n where xk: "x = (k, h, n)" by (cases x)
    with x have mem: "(k, h, n) \<in> set rows" and pos: "0 < class_amount rows cap k" by auto
    have "class_amount rows cap k \<le> sum_list (map (\<lambda>(d, _, _). class_amount rows cap d) (sort_key fst rows))"
      using member_le_sum_list_ints [of "sort_key fst rows" "\<lambda>(d, _, _). class_amount rows cap d" "(k, h, n)"]
        class_lookup(3) [OF ok cap(1)] mem by (auto simp: fair_amount_def)
    then have "class_amount rows cap k \<le> PPM" using class_lookup(1) [OF ok cap(1)] cap by simp
    then show "(case x of (d, hotkey, _) \<Rightarrow> CompositionClassAllocation_new d hotkey (class_amount rows cap d)) =
        Inr (case x of (d, h, _) \<Rightarrow> \<lparr>cca_claim_digest = d, cca_hotkey = h, cca_units = class_amount rows cap d\<rparr>)"
      using ok mem pos by (auto simp: xk err_simps class_rows_ok_def)
  qed
  show ?thesis
  proof (cases "min cap (class_debt rows) = 0")
    case True
    have "class_amount rows cap k = 0" for k using True by (simp add: class_amount_def capped_amounts_def)
    then have "class_alloc rows cap = []" by (simp add: class_alloc_def)
    with True d show ?thesis
      unfolding pro_rata_def Let_def class_debt_sorted length_remdups_map by simp
  next
    case False
    with d mk show ?thesis
      unfolding pro_rata_def Let_def class_debt_sorted class_amount_def [symmetric] length_remdups_map
      by simp
  qed
qed

lemma class_amounts_lookup:
  assumes ok: "class_rows_ok rows" and cap: "0 \<le> cap"
  shows "dict_get d 0 (class_amounts (class_alloc rows cap)) = class_amount rows cap d"
proof -
  let ?as = "class_alloc rows cap"
  let ?pairs = "map (\<lambda>a. (cca_claim_digest a, cca_units a)) ?as"
  have dist: "distinct (map fst ?pairs)"
    using class_alloc_canonical [OF ok, of cap] by (simp add: sorted_unique_iff comp_def)
  show ?thesis
  proof (cases "d \<in> cca_claim_digest ` set ?as")
    case True
    then obtain a where a: "a \<in> set ?as" "d = cca_claim_digest a" by blast
    from a(1) have "cca_units a = class_amount rows cap d" by (rule class_alloc_mem) (simp add: a(2))
    with a have "(d, class_amount rows cap d) \<in> set ?pairs" by force
    then show ?thesis unfolding class_amounts_def dict_of_distinct [OF dist]
      by (rule dict_get_eq [OF dist])
  next
    case False
    have "class_amount rows cap d = 0"
    proof (cases "d \<in> fst ` set rows")
      case True
      then obtain h n where mem: "(d, h, n) \<in> set rows" by auto
      then have "\<not> 0 < class_amount rows cap d" using False by (force simp: class_alloc_def)
      with class_lookup(3) [OF ok cap mem] show ?thesis by (simp add: fair_amount_def)
    qed (rule class_lookup(2) [OF ok cap])
    moreover have "d \<notin> fst ` set ?pairs" using False by (simp add: image_image)
    ultimately show ?thesis
      unfolding class_amounts_def dict_of_distinct [OF dist] by (simp add: dict_get_absent)
  qed
qed

section \<open>A composed epoch that can be projected\<close>

definition composition_valid :: "IncentiveCompositionPolicyManifest \<Rightarrow> bool" where
  "composition_valid cp \<longleftrightarrow>
     is_digest (icp_innovation_policy_digest cp) \<and> is_digest (icp_selection_report_digest cp)
     \<and> 0 \<le> icp_reserve_ppm cp \<and> icp_reserve_ppm cp < PPM \<and> 1 \<le> icp_epoch_blocks cp
     \<and> 1 \<le> icp_discovery_cap_units cp \<and> icp_discovery_cap_units cp \<le> PPM - icp_reserve_ppm cp
     \<and> 1 \<le> icp_per_award_principal_cap_epochs cp \<and> 1 \<le> icp_discovery_lifetime_blocks cp
     \<and> py_eq_int (icp_schema_version cp) ICP_SCHEMA_VERSION
     \<and> icp_policy_version cp = ICP_POLICY_VERSION"

lemma IncentiveCompositionPolicyManifest_init_valid:
  "IncentiveCompositionPolicyManifest_init row = Inr cp \<Longrightarrow> composition_valid cp"
  unfolding IncentiveCompositionPolicyManifest_init_def
  apply (simp only: bindE_eq_Inr if_Inl_eq_Inr ic_eq_Inr int_within_simps not_not sum.inject)
  apply (elim exE conjE)
  apply hypsubst
  apply (simp only: composition_valid_def IncentiveCompositionPolicyManifest.simps)
  apply simp
  done

definition discovery_state_valid :: "py_env \<Rightarrow> DiscoveryClaimState \<Rightarrow> bool" where
  "discovery_state_valid E st \<longleftrightarrow> discovery_claim_valid (dys_claim st)
     \<and> discovery_balance_of E (dys_claim st) (dys_balance st)
     \<and> (\<forall>t. dyb_terminal_block (dys_balance st) = Some t \<longrightarrow> ddc_awarded_block (dys_claim st) \<le> t
          \<and> (dyb_status (dys_balance st) = ''expired'' \<longrightarrow> ddc_expires_block (dys_claim st) \<le> t))"

lemma DiscoveryClaimState_new_eq_Inr [err_simps]:
  "DiscoveryClaimState_new E c b = Inr st \<longleftrightarrow>
     dyb_claim_digest b = DiscoveryDebtClaim_digest E c \<and> dyb_principal_units b = ddc_principal_units c
     \<and> (\<forall>t. dyb_terminal_block b = Some t \<longrightarrow> ddc_awarded_block c \<le> t
          \<and> (dyb_status b = ''expired'' \<longrightarrow> ddc_expires_block c \<le> t))
     \<and> st = \<lparr>dys_claim = c, dys_balance = b\<rparr>"
  by (cases "dyb_terminal_block b")
    (auto simp: DiscoveryClaimState_new_def validate_claim_balance_def not_less)

lemma discovery_state_valid_new:
  "discovery_state_valid E \<lparr>dys_claim = c, dys_balance = b\<rparr> \<Longrightarrow>
     DiscoveryClaimState_new E c b = Inr \<lparr>dys_claim = c, dys_balance = b\<rparr>"
  by (auto simp: err_simps discovery_state_valid_def discovery_balance_of_def)

lemma discovery_op_preserves_state:
  assumes st: "discovery_state_valid E \<lparr>dys_claim = c, dys_balance = b\<rparr>"
    and op: "discovery_op_apply E c x b = Inr b'"
  shows "discovery_state_valid E \<lparr>dys_claim = c, dys_balance = b'\<rparr>"
proof -
  have b: "discovery_balance_of E c b" and c: "discovery_claim_valid c"
    using st by (simp_all add: discovery_state_valid_def)
  have "discovery_balance_of E c b'" using discovery_op_preserves [OF b op] by simp
  moreover have "ddc_awarded_block c < ddc_expires_block c" using c by (simp add: discovery_claim_valid_def)
  ultimately show ?thesis using st b op
    by (cases x) (auto simp: discovery_op_eqs discovery_state_valid_def split: if_splits)
qed

definition composed_ready ::
    "py_env \<Rightarrow> FiniteDebtPolicyManifest \<Rightarrow> IncentiveCompositionPolicyManifest \<Rightarrow> int \<Rightarrow>
     DebtClaimState list \<Rightarrow> DiscoveryClaimState list \<Rightarrow> bool" where
  "composed_ready E p cp block is ds \<longleftrightarrow>
     policy_valid p \<and> composition_valid cp \<and> validate_innovation_policy E cp p = Inr () \<and> 0 \<le> block
     \<and> distinct (map (state_claim_digest E) is) \<and> distinct (map (disc_digest E) ds)
     \<and> (\<forall>st \<in> set is. state_valid E st \<and> check_innovation_row E p block st = Inr ())
     \<and> (\<forall>st \<in> set ds. discovery_state_valid E st
          \<and> check_discovery_row E cp block (fdp_reserve_hotkey p) st = Inr ())"

definition innovation_debts :: "py_env \<Rightarrow> DebtClaimState list \<Rightarrow> (string \<times> string \<times> int) list" where
  "innovation_debts E is = map (\<lambda>row. (state_claim_digest E row, idc_hotkey (dcs_claim row), state_remaining row))
     (filter state_open (sort_key (state_claim_digest E) is))"

definition discovery_debts :: "py_env \<Rightarrow> DiscoveryClaimState list \<Rightarrow> (string \<times> string \<times> int) list" where
  "discovery_debts E ds = map (\<lambda>row. (disc_digest E row, ddc_hotkey (dys_claim row), disc_remaining row))
     (filter disc_open (sort_key (disc_digest E) ds))"

lemma wrap_debt_error_eq_Inr [err_simps]: "wrap_debt_error pre r = Inr x \<longleftrightarrow> r = Inr x"
  by (auto simp: wrap_debt_error_def split: sum.splits py_error.splits)

lemma innovation_debts_ok:
  assumes "composed_ready E p cp block is ds"
  shows "class_rows_ok (innovation_debts E is)"
    and "\<And>d h n. (d, h, n) \<in> set (innovation_debts E is) \<Longrightarrow> h \<noteq> fdp_reserve_hotkey p"
proof -
  have "distinct (map (state_claim_digest E) (filter state_open (sort_key (state_claim_digest E) is)))"
    using assms by (intro distinct_map_filter) (simp add: composed_ready_def distinct_map_sort_key)
  then show "class_rows_ok (innovation_debts E is)"
    using assms open_state_facts
    by (auto simp: class_rows_ok_def innovation_debts_def comp_def composed_ready_def)
  show "h \<noteq> fdp_reserve_hotkey p" if "(d, h, n) \<in> set (innovation_debts E is)" for d h n
    using that assms
    by (auto simp: innovation_debts_def composed_ready_def check_innovation_row_def err_simps)
qed

lemma open_discovery_facts:
  "discovery_state_valid E st \<Longrightarrow> disc_open st \<Longrightarrow>
     0 < disc_remaining st \<and> is_digest (disc_digest E st) \<and> is_hotkey (ddc_hotkey (dys_claim st))"
  by (auto simp: discovery_state_valid_def discovery_balance_of_def discovery_balance_valid_def
      discovery_claim_valid_def)

lemma discovery_debts_ok:
  assumes "composed_ready E p cp block is ds"
  shows "class_rows_ok (discovery_debts E ds)"
    and "\<And>d h n. (d, h, n) \<in> set (discovery_debts E ds) \<Longrightarrow> h \<noteq> fdp_reserve_hotkey p"
proof -
  have "distinct (map (disc_digest E) (filter disc_open (sort_key (disc_digest E) ds)))"
    using assms by (intro distinct_map_filter) (simp add: composed_ready_def distinct_map_sort_key)
  then show "class_rows_ok (discovery_debts E ds)"
    using assms open_discovery_facts
    by (auto simp: class_rows_ok_def discovery_debts_def comp_def composed_ready_def)
  show "h \<noteq> fdp_reserve_hotkey p" if "(d, h, n) \<in> set (discovery_debts E ds)" for d h n
    using that assms
    by (auto simp: discovery_debts_def composed_ready_def check_discovery_row_def err_simps)
qed

section \<open>The projection\<close>

definition composed_dpay :: "py_env \<Rightarrow> IncentiveCompositionPolicyManifest \<Rightarrow> DiscoveryClaimState list \<Rightarrow> int" where
  "composed_dpay E cp ds = min (icp_discovery_cap_units cp) (class_debt (discovery_debts E ds))"

definition composed_icap :: "py_env \<Rightarrow> IncentiveCompositionPolicyManifest \<Rightarrow> DiscoveryClaimState list \<Rightarrow> int" where
  "composed_icap E cp ds = PPM - reserve_floor_units cp - composed_dpay E cp ds"

definition composed_ipay ::
    "py_env \<Rightarrow> IncentiveCompositionPolicyManifest \<Rightarrow> DebtClaimState list \<Rightarrow> DiscoveryClaimState list \<Rightarrow> int" where
  "composed_ipay E cp is ds = min (composed_icap E cp ds) (class_debt (innovation_debts E is))"

definition composed_reserve ::
    "py_env \<Rightarrow> IncentiveCompositionPolicyManifest \<Rightarrow> DebtClaimState list \<Rightarrow> DiscoveryClaimState list \<Rightarrow> int" where
  "composed_reserve E cp is ds = PPM - composed_dpay E cp ds - composed_ipay E cp is ds"

definition composed_allocs ::
    "py_env \<Rightarrow> IncentiveCompositionPolicyManifest \<Rightarrow> DebtClaimState list \<Rightarrow> DiscoveryClaimState list \<Rightarrow>
     CompositionClassAllocation list" where
  "composed_allocs E cp is ds =
     class_alloc (discovery_debts E ds) (icp_discovery_cap_units cp)
     @ class_alloc (innovation_debts E is) (composed_icap E cp ds)"

lemma composed_bounds:
  assumes "composed_ready E p cp block is ds"
  shows "0 \<le> composed_dpay E cp ds" "0 \<le> composed_icap E cp ds" "composed_icap E cp ds \<le> PPM - icp_reserve_ppm cp"
    "0 \<le> composed_ipay E cp is ds" "composed_ipay E cp is ds \<le> composed_icap E cp ds"
    "icp_reserve_ppm cp \<le> composed_reserve E cp is ds" "composed_reserve E cp is ds \<le> PPM"
    "0 \<le> icp_discovery_cap_units cp" "icp_discovery_cap_units cp \<le> PPM"
    "composed_dpay E cp ds \<le> icp_discovery_cap_units cp"
proof -
  note d = class_debt_nonneg [OF discovery_debts_ok(1) [OF assms]]
  note i = class_debt_nonneg [OF innovation_debts_ok(1) [OF assms]]
  have c: "composition_valid cp" using assms by (simp add: composed_ready_def)
  show "0 \<le> composed_dpay E cp ds" "0 \<le> composed_icap E cp ds" "composed_icap E cp ds \<le> PPM - icp_reserve_ppm cp"
    "0 \<le> composed_ipay E cp is ds" "composed_ipay E cp is ds \<le> composed_icap E cp ds"
    "icp_reserve_ppm cp \<le> composed_reserve E cp is ds" "composed_reserve E cp is ds \<le> PPM"
    "0 \<le> icp_discovery_cap_units cp" "icp_discovery_cap_units cp \<le> PPM"
    "composed_dpay E cp ds \<le> icp_discovery_cap_units cp"
    using d i c
    by (auto simp: composed_dpay_def composed_icap_def composed_ipay_def composed_reserve_def
        composition_valid_def reserve_floor_units_def)
qed

lemma composed_totals:
  assumes ready: "composed_ready E p cp block is ds"
  defines "totals \<equiv> class_totals (composed_allocs E cp is ds)"
  shows "distinct (map fst totals)" and "fdp_reserve_hotkey p \<notin> fst ` set totals"
    and "sum_list (map snd totals) = composed_dpay E cp ds + composed_ipay E cp is ds"
    and "\<And>h u. (h, u) \<in> set totals \<Longrightarrow> 0 < u \<and> is_hotkey h"
proof -
  let ?as = "composed_allocs E cp is ds"
  note ok = discovery_debts_ok [OF ready] innovation_debts_ok [OF ready] and b = composed_bounds [OF ready]
  show "distinct (map fst totals)" by (simp add: totals_def class_totals_def distinct_dict_sum)
  have keys: "fst ` set totals = cca_hotkey ` set ?as"
    by (simp add: totals_def class_totals_def keys_dict_sum image_image)
  have alloc: "is_hotkey (cca_hotkey a) \<and> cca_hotkey a \<noteq> fdp_reserve_hotkey p \<and> 0 < cca_units a"
    if "a \<in> set ?as" for a
  proof -
    consider "a \<in> set (class_alloc (discovery_debts E ds) (icp_discovery_cap_units cp))"
      | "a \<in> set (class_alloc (innovation_debts E is) (composed_icap E cp ds))"
      using \<open>a \<in> set ?as\<close> by (auto simp: composed_allocs_def)
    then show ?thesis
    proof cases
      case 1
      then obtain n where "(cca_claim_digest a, cca_hotkey a, n) \<in> set (discovery_debts E ds)" "0 < cca_units a"
        by (rule class_alloc_mem)
      then show ?thesis using ok(1,2) by (auto simp: class_rows_ok_def)
    next
      case 2
      then obtain n where "(cca_claim_digest a, cca_hotkey a, n) \<in> set (innovation_debts E is)" "0 < cca_units a"
        by (rule class_alloc_mem)
      then show ?thesis using ok(3,4) by (auto simp: class_rows_ok_def)
    qed
  qed
  then have "cca_hotkey a \<noteq> fdp_reserve_hotkey p" if "a \<in> set ?as" for a using that by simp
  then show "fdp_reserve_hotkey p \<notin> fst ` set totals" unfolding keys by fastforce
  show "sum_list (map snd totals) = composed_dpay E cp ds + composed_ipay E cp is ds"
    using class_alloc_total [OF ok(1) b(8)] class_alloc_total [OF ok(3) b(2)]
    by (simp add: totals_def class_totals_def sum_dict_sum comp_def composed_allocs_def
        composed_dpay_def composed_ipay_def)
  show "0 < u \<and> is_hotkey h" if "(h, u) \<in> set totals" for h u
  proof
    show "0 < u"
      using that alloc unfolding totals_def class_totals_def by (intro dict_sum_pos) auto
    have "h \<in> cca_hotkey ` set ?as" using that keys by force
    then show "is_hotkey h" using alloc by blast
  qed
qed

definition composed_by_hotkey ::
    "py_env \<Rightarrow> FiniteDebtPolicyManifest \<Rightarrow> IncentiveCompositionPolicyManifest \<Rightarrow> DebtClaimState list \<Rightarrow>
     DiscoveryClaimState list \<Rightarrow> (string \<times> int) list" where
  "composed_by_hotkey E p cp is ds = dict_add (fdp_reserve_hotkey p) (composed_reserve E cp is ds)
     (class_totals (composed_allocs E cp is ds))"

definition composed_weights ::
    "py_env \<Rightarrow> FiniteDebtPolicyManifest \<Rightarrow> IncentiveCompositionPolicyManifest \<Rightarrow> DebtClaimState list \<Rightarrow>
     DiscoveryClaimState list \<Rightarrow> DebtHotkeyWeight list" where
  "composed_weights E p cp is ds =
     map (\<lambda>h. \<lparr>dhw_hotkey = h, dhw_units = dict_get h 0 (composed_by_hotkey E p cp is ds)\<rparr>)
       (sort (map fst (composed_by_hotkey E p cp is ds)))"

lemma composed_by_hotkey_facts:
  assumes ready: "composed_ready E p cp block is ds"
  defines "hk \<equiv> composed_by_hotkey E p cp is ds"
  shows "hk = class_totals (composed_allocs E cp is ds) @ [(fdp_reserve_hotkey p, composed_reserve E cp is ds)]"
    and "distinct (map fst hk)" and "sum_list (map snd hk) = PPM"
    and "\<And>h u. (h, u) \<in> set hk \<Longrightarrow> is_hotkey h \<and> 0 \<le> u \<and> u \<le> PPM
      \<and> (h \<noteq> fdp_reserve_hotkey p \<longrightarrow> 0 < u)"
proof -
  let ?t = "class_totals (composed_allocs E cp is ds)" and ?h = "fdp_reserve_hotkey p"
  note t = composed_totals [OF ready] and b = composed_bounds [OF ready]
  show eq: "hk = ?t @ [(?h, composed_reserve E cp is ds)]"
    using t(2) by (simp add: hk_def composed_by_hotkey_def dict_add_def dict_get_absent dict_set_new)
  show "distinct (map fst hk)" using t(1,2) by (auto simp: eq)
  show sum: "sum_list (map snd hk) = PPM" using t(3) by (simp add: eq composed_reserve_def)
  have "is_hotkey ?h" using ready by (simp add: composed_ready_def policy_valid_def)
  moreover have "0 \<le> icp_reserve_ppm cp" using ready by (simp add: composed_ready_def composition_valid_def)
  ultimately have hu: "is_hotkey h \<and> 0 \<le> u \<and> (h \<noteq> ?h \<longrightarrow> 0 < u)" if "(h, u) \<in> set hk" for h u
    using that t(4) b(6) by (fastforce simp: eq)
  show "is_hotkey h \<and> 0 \<le> u \<and> u \<le> PPM \<and> (h \<noteq> ?h \<longrightarrow> 0 < u)" if "(h, u) \<in> set hk" for h u
    using hu that member_le_sum_list_ints [of hk snd "(h, u)"] sum by fastforce
qed

lemma composed_weights_facts:
  assumes ready: "composed_ready E p cp block is ds" and reserve: "composed_reserve E cp is ds \<noteq> 0"
  shows "mapE (\<lambda>h. DebtHotkeyWeight_new h (dict_get h 0 (composed_by_hotkey E p cp is ds)))
      (sort (map fst (composed_by_hotkey E p cp is ds))) = Inr (composed_weights E p cp is ds)"
    and "sum_list (map dhw_units (composed_weights E p cp is ds)) = PPM"
    and "sorted_unique (map dhw_hotkey (composed_weights E p cp is ds))"
    and "same_dict (dict_of (map (\<lambda>w. (dhw_hotkey w, dhw_units w)) (composed_weights E p cp is ds)))
      (filter (\<lambda>(_, units). 0 < units) (composed_by_hotkey E p cp is ds))"
proof -
  let ?d = "composed_by_hotkey E p cp is ds" and ?ws = "composed_weights E p cp is ds"
  note d = composed_by_hotkey_facts [OF ready]
  have nonneg: "0 \<le> composed_reserve E cp is ds"
    using composed_bounds(6) [OF ready] ready by (auto simp: composed_ready_def composition_valid_def)
  have pos: "0 < u" if "(h, u) \<in> set ?d" for h u
  proof (cases "h = fdp_reserve_hotkey p")
    case True
    then have "u = composed_reserve E cp is ds"
      using that composed_totals(2) [OF ready] unfolding d(1) by force
    then show ?thesis using reserve nonneg by simp
  next
    case False
    then show ?thesis using d(4) [OF that] by blast
  qed
  show "mapE (\<lambda>h. DebtHotkeyWeight_new h (dict_get h 0 ?d)) (sort (map fst ?d)) = Inr ?ws"
    unfolding composed_weights_def
  proof (rule mapE_Inr)
    fix h assume "h \<in> set (sort (map fst ?d))"
    then obtain u where hu: "(h, u) \<in> set ?d" by auto
    then show "DebtHotkeyWeight_new h (dict_get h 0 ?d) = Inr \<lparr>dhw_hotkey = h, dhw_units = dict_get h 0 ?d\<rparr>"
      using dict_get_eq [OF d(2) hu] d(4) [OF hu] pos [OF hu] by (simp add: err_simps REFERENCE_EPOCH_UNITS_def)
  qed
  show "sum_list (map dhw_units ?ws) = PPM"
    using dict_rebuild_sum [OF d(2)] d(3) by (simp add: composed_weights_def comp_def)
  have keys: "map dhw_hotkey ?ws = sort (map fst ?d)" by (simp add: composed_weights_def comp_def)
  show "sorted_unique (map dhw_hotkey ?ws)" using d(2) by (simp add: keys sorted_unique_iff)
  have "distinct (map fst (map (\<lambda>w. (dhw_hotkey w, dhw_units w)) ?ws))"
    using d(2) keys by (simp add: comp_def)
  moreover have "set (map (\<lambda>w. (dhw_hotkey w, dhw_units w)) ?ws) = set ?d"
    using dict_rebuild_set [OF d(2), of 0] by (simp add: composed_weights_def comp_def image_image)
  moreover have "filter (\<lambda>(_, units). 0 < units) ?d = ?d" using pos by (auto intro: filter_True)
  ultimately show "same_dict (dict_of (map (\<lambda>w. (dhw_hotkey w, dhw_units w)) ?ws))
      (filter (\<lambda>(_, units). 0 < units) ?d)"
    by (simp only: same_dict_def dict_of_distinct)
qed

definition composed_projection ::
    "py_env \<Rightarrow> FiniteDebtPolicyManifest \<Rightarrow> IncentiveCompositionPolicyManifest \<Rightarrow> string \<Rightarrow> string \<Rightarrow> int \<Rightarrow>
     DebtClaimState list \<Rightarrow> DiscoveryClaimState list \<Rightarrow> ComposedEpochProjection" where
  "composed_projection E p cp cpd ipd block is ds =
     \<lparr>cep_composition_policy_digest = cpd, cep_innovation_policy_digest = ipd,
      cep_effective_block = block, cep_reference_epoch_units = PyInt REFERENCE_EPOCH_UNITS,
      cep_reserve_floor_units = reserve_floor_units cp,
      cep_discovery_capacity_units = icp_discovery_cap_units cp,
      cep_discovery_total_remaining_units = class_debt (discovery_debts E ds),
      cep_discovery_payout_units = composed_dpay E cp ds,
      cep_innovation_capacity_units = composed_icap E cp ds,
      cep_innovation_total_remaining_units = class_debt (innovation_debts E is),
      cep_innovation_payout_units = composed_ipay E cp is ds,
      cep_reserve_hotkey = fdp_reserve_hotkey p, cep_reserve_units = composed_reserve E cp is ds,
      cep_discovery_input_state_digests = sort (map (DiscoveryClaimState_digest E) ds),
      cep_innovation_input_state_digests = sort (map (DebtClaimState_digest E) is),
      cep_discovery_allocations = class_alloc (discovery_debts E ds) (icp_discovery_cap_units cp),
      cep_innovation_allocations = class_alloc (innovation_debts E is) (composed_icap E cp ds),
      cep_weights = composed_weights E p cp is ds\<rparr>"

lemma canonical_inputs_ok:
  "distinct xs \<Longrightarrow> \<forall>x \<in> set xs. is_digest x \<Longrightarrow> canonical_inputs field (sort xs) = Inr ()"
  by (simp add: canonical_inputs_def sorted_unique_iff forE_eq_Inr)

lemma composed_projection_new:
  assumes ready: "composed_ready E p cp block is ds" and reserve: "composed_reserve E cp is ds \<noteq> 0"
    and sha: "sha256_digests E" and pds: "is_digest cpd" "is_digest ipd"
    and dist: "distinct (map (DebtClaimState_digest E) is)" "distinct (map (DiscoveryClaimState_digest E) ds)"
  shows "ComposedEpochProjection_new (composed_projection E p cp cpd ipd block is ds) =
    Inr (composed_projection E p cp cpd ipd block is ds)"
proof -
  note ok = discovery_debts_ok(1) [OF ready] innovation_debts_ok(1) [OF ready] and b = composed_bounds [OF ready]
  note w = composed_weights_facts [OF ready reserve]
  have dig: "is_digest (DebtClaimState_digest E st)" "is_digest (DiscoveryClaimState_digest E st')" for st st'
    using sha by (simp_all add: sha256_digests_def DebtClaimState_digest_def DiscoveryClaimState_digest_def
        json_digest_def)
  have inputs: "canonical_inputs f (sort (map (DebtClaimState_digest E) is)) = Inr ()"
    "canonical_inputs f (sort (map (DiscoveryClaimState_digest E) ds)) = Inr ()" for f
    using dist dig by (auto intro!: canonical_inputs_ok)
  have sums: "sum_list (map cca_units (class_alloc (discovery_debts E ds) (icp_discovery_cap_units cp)))
      = composed_dpay E cp ds"
    "sum_list (map cca_units (class_alloc (innovation_debts E is) (composed_icap E cp ds)))
      = composed_ipay E cp is ds"
    using class_alloc_total [OF ok(1) b(8)] class_alloc_total [OF ok(2) b(2)]
    by (simp_all add: composed_dpay_def composed_ipay_def)
  have canon: "canonical_allocations l (class_alloc (discovery_debts E ds) c) = Inr ()"
    "canonical_allocations l (class_alloc (innovation_debts E is) c) = Inr ()" for l c
    using class_alloc_canonical ok by (simp_all add: canonical_allocations_def)
  have rest: "0 \<le> block" "is_hotkey (fdp_reserve_hotkey p)" "composition_valid cp"
    using ready by (simp_all add: composed_ready_def policy_valid_def)
  have hk: "dict_add (fdp_reserve_hotkey p) (composed_reserve E cp is ds)
      (class_totals (class_alloc (discovery_debts E ds) (icp_discovery_cap_units cp) @
        class_alloc (innovation_debts E is) (composed_icap E cp ds))) = composed_by_hotkey E p cp is ds"
    by (simp add: composed_by_hotkey_def composed_allocs_def)
  show ?thesis
    unfolding ComposedEpochProjection_new_def ComposedEpochProjection_init_def composed_projection_def
      ComposedEpochProjection_scalars_def ComposedEpochProjection.simps
    using class_debt_nonneg [OF ok(1)] class_debt_nonneg [OF ok(2)] b rest pds w inputs sums canon
    by (simp add: kwarg_def Let_def hk composition_valid_def reserve_floor_units_def
        composed_dpay_def [symmetric] composed_ipay_def [symmetric]
        composed_icap_def [unfolded reserve_floor_units_def, symmetric] composed_reserve_def [symmetric]
        REFERENCE_EPOCH_UNITS_def)
qed

lemma debts_sums:
  "sum_list (map disc_remaining (filter disc_open (sort_key (disc_digest E) ds))) = class_debt (discovery_debts E ds)"
  "sum_list (map state_remaining (filter state_open (sort_key (state_claim_digest E) is))) =
     class_debt (innovation_debts E is)"
  by (simp_all add: class_debt_def discovery_debts_def innovation_debts_def comp_def)

lemma canonical_states_ok:
  assumes "composed_ready E p cp block is ds"
  shows "canonical_innovation_states E p is block = Inr (sort_key (state_claim_digest E) is)"
    and "canonical_discovery_states E cp ds block (fdp_reserve_hotkey p) = Inr (sort_key (disc_digest E) ds)"
proof -
  have "forE (sort_key (state_claim_digest E) is) (check_innovation_row E p block) = Inr ()"
    "forE (sort_key (disc_digest E) ds) (check_discovery_row E cp block (fdp_reserve_hotkey p)) = Inr ()"
    "distinct (map (state_claim_digest E) (sort_key (state_claim_digest E) is))"
    "distinct (map (disc_digest E) (sort_key (disc_digest E) ds))"
    using assms by (simp_all add: composed_ready_def forE_eq_Inr distinct_map_sort_key)
  then show "canonical_innovation_states E p is block = Inr (sort_key (state_claim_digest E) is)"
    and "canonical_discovery_states E cp ds block (fdp_reserve_hotkey p) = Inr (sort_key (disc_digest E) ds)"
    unfolding canonical_innovation_states_def canonical_discovery_states_def Let_def length_remdups_map
    by simp_all
qed

text \<open>
  The body of the projection up to its weights: on ready states nothing before the weights
  can fail.
\<close>

lemma project_composed_epoch_weights:
  assumes ready: "composed_ready E p cp block is ds"
  shows "project_composed_epoch E p cp block is ds =
    bindE (mapE (\<lambda>h. DebtHotkeyWeight_new h (dict_get h 0 (composed_by_hotkey E p cp is ds)))
      (sort (map fst (composed_by_hotkey E p cp is ds)))) (\<lambda>weights.
    bindE (IncentiveCompositionPolicyManifest_digest E cp) (\<lambda>cpd.
    bindE (FiniteDebtPolicyManifest_digest E p) (\<lambda>ipd.
    ComposedEpochProjection_new
      ((composed_projection E p cp cpd ipd block is ds)\<lparr>cep_weights := weights\<rparr>))))"
proof -
  note ok = discovery_debts_ok(1) [OF ready] innovation_debts_ok(1) [OF ready] and b = composed_bounds [OF ready]
  have start: "validate_innovation_policy E cp p = Inr ()"
    "ic_integer (PyInt block) ''effective_block'' 0 None = Inr block"
    using ready by (simp_all add: composed_ready_def)
  have "composed_icap E cp ds \<le> PPM"
    using b(3) ready by (simp add: composed_ready_def composition_valid_def)
  note pr = pro_rata_eq [OF ok(1) b(8,9)] pro_rata_eq [OF ok(2) b(2) this]
  show ?thesis
    unfolding project_composed_epoch_def Let_def start canonical_states_ok [OF ready] bindE_Inr
      discovery_debts_def [symmetric] innovation_debts_def [symmetric] debts_sums
      composed_dpay_def [symmetric] pr composed_icap_def [symmetric] composed_ipay_def [symmetric]
      composed_reserve_def [symmetric] composed_allocs_def [symmetric] composed_by_hotkey_def [symmetric]
      sort_map_sort_key
    by (simp add: composed_projection_def)
qed

lemma project_composed_epoch_eq:
  assumes ready: "composed_ready E p cp block is ds" and reserve: "composed_reserve E cp is ds \<noteq> 0"
    and sha: "sha256_digests E"
    and pds: "IncentiveCompositionPolicyManifest_digest E cp = Inr cpd" "FiniteDebtPolicyManifest_digest E p = Inr ipd"
    and dist: "distinct (map (DebtClaimState_digest E) is)" "distinct (map (DiscoveryClaimState_digest E) ds)"
  shows "project_composed_epoch E p cp block is ds = Inr (composed_projection E p cp cpd ipd block is ds)"
proof -
  have digests: "is_digest cpd" "is_digest ipd"
    using pds sha by (auto simp: FiniteDebtPolicyManifest_digest_def
        IncentiveCompositionPolicyManifest_digest_def canonical_digest_def err_simps
        sha256_digests_def split: if_splits)
  have same: "(composed_projection E p cp cpd ipd block is ds)\<lparr>cep_weights := composed_weights E p cp is ds\<rparr>
      = composed_projection E p cp cpd ipd block is ds"
    by (simp add: composed_projection_def)
  show ?thesis
    unfolding project_composed_epoch_weights [OF ready] composed_weights_facts(1) [OF ready reserve]
      bindE_Inr pds same
    by (rule composed_projection_new [OF ready reserve sha digests dist])
qed

lemma mapE_Inl:
  "x \<in> set xs \<Longrightarrow> f x = Inl e \<Longrightarrow> (\<And>y. y \<in> set xs \<Longrightarrow> y \<noteq> x \<Longrightarrow> \<exists>z. f y = Inr z) \<Longrightarrow> mapE f xs = Inl e"
proof (induction xs)
  case (Cons y xs)
  show ?case
  proof (cases "y = x")
    case False
    then obtain z where "f y = Inr z" using Cons.prems(3) by auto
    moreover have "mapE f xs = Inl e" using Cons False by auto
    ultimately show ?thesis by simp
  qed (use Cons.prems in simp)
qed simp

text \<open>An epoch that leaves the reserve nothing cannot be projected.\<close>

lemma zero_weight_refused:
  "is_hotkey h \<Longrightarrow> DebtHotkeyWeight_new h 0 =
     Inl (FiniteDebtError ''hotkey weight units must be an integer in [1, 1000000]'')"
proof -
  assume "is_hotkey h"
  moreover have "fd_integer (PyInt 0) ''hotkey weight units'' 1 (Some REFERENCE_EPOCH_UNITS) =
      Inl (FiniteDebtError ''hotkey weight units must be an integer in [1, 1000000]'')"
    by (simp add: fd_integer_def require_int_def Let_def REFERENCE_EPOCH_UNITS_def PPM_def show_int_def
        show_nat.simps digit_char_def char_of_def bit_numeral_rec bit_0)
  ultimately show ?thesis
    by (simp add: DebtHotkeyWeight_new_def DebtHotkeyWeight_init_def DebtHotkeyWeight_fields_def)
qed

lemma project_composed_epoch_no_reserve:
  assumes ready: "composed_ready E p cp block is ds" and reserve: "composed_reserve E cp is ds = 0"
  shows "project_composed_epoch E p cp block is ds =
    Inl (FiniteDebtError ''hotkey weight units must be an integer in [1, 1000000]'')"
proof -
  let ?d = "composed_by_hotkey E p cp is ds" and ?h = "fdp_reserve_hotkey p"
  note d = composed_by_hotkey_facts [OF ready]
  have mem: "(?h, 0) \<in> set ?d" using reserve by (simp add: d(1))
  have zero: "DebtHotkeyWeight_new ?h (dict_get ?h 0 ?d) =
      Inl (FiniteDebtError ''hotkey weight units must be an integer in [1, 1000000]'')"
    unfolding dict_get_eq [OF d(2) mem] by (rule zero_weight_refused) (use d(4) [OF mem] in simp)
  have "mapE (\<lambda>h. DebtHotkeyWeight_new h (dict_get h 0 ?d)) (sort (map fst ?d)) =
      Inl (FiniteDebtError ''hotkey weight units must be an integer in [1, 1000000]'')"
  proof (rule mapE_Inl [of ?h])
    show "DebtHotkeyWeight_new ?h (dict_get ?h 0 ?d) =
        Inl (FiniteDebtError ''hotkey weight units must be an integer in [1, 1000000]'')" by (rule zero)
    show "?h \<in> set (sort (map fst ?d))" using mem by force
    fix h assume "h \<in> set (sort (map fst ?d))" "h \<noteq> ?h"
    then obtain u where hu: "(h, u) \<in> set ?d" by auto
    with \<open>h \<noteq> ?h\<close> dict_get_eq [OF d(2) hu] d(4) [OF hu]
    show "\<exists>z. DebtHotkeyWeight_new h (dict_get h 0 ?d) = Inr z" by (simp add: err_simps REFERENCE_EPOCH_UNITS_def)
  qed
  then show ?thesis unfolding project_composed_epoch_weights [OF ready] by simp
qed

section \<open>Applying the projection\<close>

definition innovation_amount where
  "innovation_amount E cp is ds st = class_amount (innovation_debts E is) (composed_icap E cp ds) (state_claim_digest E st)"

definition discovery_amount where
  "discovery_amount E cp ds st = class_amount (discovery_debts E ds) (icp_discovery_cap_units cp) (disc_digest E st)"

definition innovation_after where
  "innovation_after E cp block is ds st =
     (let n = innovation_amount E cp is ds st in
      if n = 0 then st else st\<lparr>dcs_balance := paid_balance (dcs_balance st) n block\<rparr>)"

definition discovery_after where
  "discovery_after E cp block ds st =
     (let n = discovery_amount E cp ds st in
      if n = 0 then st else st\<lparr>dys_balance := discovery_paid (dys_balance st) n block\<rparr>)"

lemma innovation_amount_facts:
  assumes ready: "composed_ready E p cp block is ds" and st: "st \<in> set is"
  shows "state_open st \<Longrightarrow> fair_amount (state_remaining st) (composed_ipay E cp is ds)
      (class_debt (innovation_debts E is)) (innovation_amount E cp is ds st)"
    and "\<not> state_open st \<Longrightarrow> innovation_amount E cp is ds st = 0"
proof -
  note ok = innovation_debts_ok(1) [OF ready] and b = composed_bounds(2) [OF ready]
  show "fair_amount (state_remaining st) (composed_ipay E cp is ds)
      (class_debt (innovation_debts E is)) (innovation_amount E cp is ds st)" if "state_open st"
    unfolding innovation_amount_def composed_ipay_def
    by (rule class_lookup(3) [OF ok b]) (use st that in \<open>auto simp: innovation_debts_def\<close>)
  have "inj_on (state_claim_digest E) (set is)" using ready by (simp add: composed_ready_def distinct_map)
  then show "innovation_amount E cp is ds st = 0" if "\<not> state_open st"
    unfolding innovation_amount_def
    by (intro class_lookup(2) [OF ok b]) (use st that in \<open>auto simp: innovation_debts_def dest: inj_onD\<close>)
qed

lemma discovery_amount_facts:
  assumes ready: "composed_ready E p cp block is ds" and st: "st \<in> set ds"
  shows "disc_open st \<Longrightarrow> fair_amount (disc_remaining st) (composed_dpay E cp ds)
      (class_debt (discovery_debts E ds)) (discovery_amount E cp ds st)"
    and "\<not> disc_open st \<Longrightarrow> discovery_amount E cp ds st = 0"
proof -
  note ok = discovery_debts_ok(1) [OF ready] and b = composed_bounds(8) [OF ready]
  show "fair_amount (disc_remaining st) (composed_dpay E cp ds)
      (class_debt (discovery_debts E ds)) (discovery_amount E cp ds st)" if "disc_open st"
    unfolding discovery_amount_def composed_dpay_def
    by (rule class_lookup(3) [OF ok b]) (use st that in \<open>auto simp: discovery_debts_def\<close>)
  have "inj_on (disc_digest E) (set ds)" using ready by (simp add: composed_ready_def distinct_map)
  then show "discovery_amount E cp ds st = 0" if "\<not> disc_open st"
    unfolding discovery_amount_def
    by (intro class_lookup(2) [OF ok b]) (use st that in \<open>auto simp: discovery_debts_def dest: inj_onD\<close>)
qed

lemma amounts_total:
  assumes ready: "composed_ready E p cp block is ds"
  shows "sum_list (map (innovation_amount E cp is ds) is) = composed_ipay E cp is ds"
    and "sum_list (map (discovery_amount E cp ds) ds) = composed_dpay E cp ds"
proof -
  let ?is = "sort_key (state_claim_digest E) is" and ?ds = "sort_key (disc_digest E) ds"
  note b = composed_bounds [OF ready]
  have "sum_list (map (innovation_amount E cp is ds) (filter state_open ?is)) = composed_ipay E cp is ds"
    using class_lookup(1) [OF innovation_debts_ok(1) [OF ready] b(2)]
    by (simp add: sum_list_sort_key innovation_debts_def comp_def)
      (simp add: innovation_amount_def [abs_def] innovation_debts_def composed_ipay_def)
  moreover have "sum_list (map (innovation_amount E cp is ds) (filter state_open ?is)) =
      sum_list (map (innovation_amount E cp is ds) ?is)"
    by (rule sum_list_map_filter) (use innovation_amount_facts(2) [OF ready] in auto)
  ultimately show "sum_list (map (innovation_amount E cp is ds) is) = composed_ipay E cp is ds"
    by (simp add: sum_list_sort_key)
  have "sum_list (map (discovery_amount E cp ds) (filter disc_open ?ds)) = composed_dpay E cp ds"
    using class_lookup(1) [OF discovery_debts_ok(1) [OF ready] b(8)]
    by (simp add: sum_list_sort_key discovery_debts_def comp_def)
      (simp add: discovery_amount_def [abs_def] discovery_debts_def composed_dpay_def)
  moreover have "sum_list (map (discovery_amount E cp ds) (filter disc_open ?ds)) =
      sum_list (map (discovery_amount E cp ds) ?ds)"
    by (rule sum_list_map_filter) (use discovery_amount_facts(2) [OF ready] in auto)
  ultimately show "sum_list (map (discovery_amount E cp ds) ds) = composed_dpay E cp ds"
    by (simp add: sum_list_sort_key)
qed

lemma innovation_after_step:
  assumes ready: "composed_ready E p cp block is ds" and st: "st \<in> set is"
  shows "apply_innovation_row E (class_amounts (class_alloc (innovation_debts E is) (composed_icap E cp ds)))
      block st = Inr (innovation_after E cp block is ds st)"
    and "state_valid E (innovation_after E cp block is ds st)"
    and "state_claim_digest E (innovation_after E cp block is ds st) = state_claim_digest E st"
    and "dcb_paid_units (dcs_balance (innovation_after E cp block is ds st)) =
      dcb_paid_units (dcs_balance st) + innovation_amount E cp is ds st"
proof -
  let ?n = "innovation_amount E cp is ds st" and ?st = "innovation_after E cp block is ds st"
  have v: "state_valid E st" and chk: "check_innovation_row E p block st = Inr ()" and blk: "0 \<le> block"
    using ready st by (simp_all add: composed_ready_def)
  have amt: "dict_get (state_claim_digest E st) 0
      (class_amounts (class_alloc (innovation_debts E is) (composed_icap E cp ds))) = ?n"
    unfolding innovation_amount_def
    by (rule class_amounts_lookup [OF innovation_debts_ok(1) [OF ready] composed_bounds(2) [OF ready]])
  have pay: "balance_op_apply E (dcs_claim st) (Pay ?n block) (dcs_balance st) =
      Inr (paid_balance (dcs_balance st) ?n block)" if "?n \<noteq> 0"
  proof -
    have o: "state_open st" using that innovation_amount_facts(2) [OF ready st] by blast
    then show ?thesis
      using innovation_amount_facts(1) [OF ready st] that chk blk v
      by (auto simp: pay_claim_balance_eq fair_amount_def check_innovation_row_def err_simps state_valid_def)
  qed
  show v': "state_valid E ?st"
    using v pay op_preserves_state [of E "dcs_claim st" "dcs_balance st" "Pay ?n block"]
    by (cases st) (auto simp: innovation_after_def Let_def)
  have new: "DebtClaimState_new E (dcs_claim st) (dcs_balance ?st) = Inr ?st"
    using v' state_valid_new [of E "dcs_claim st" "dcs_balance ?st"]
    by (cases st) (auto simp: innovation_after_def Let_def)
  show "apply_innovation_row E (class_amounts (class_alloc (innovation_debts E is) (composed_icap E cp ds)))
      block st = Inr ?st"
    unfolding apply_innovation_row_def Let_def amt
    using new pay by (auto simp: innovation_after_def Let_def wrap_debt_error_def split: if_splits)
  show "state_claim_digest E ?st = state_claim_digest E st"
    and "dcb_paid_units (dcs_balance ?st) = dcb_paid_units (dcs_balance st) + ?n"
    by (simp_all add: innovation_after_def Let_def)
qed

lemma discovery_after_step:
  assumes ready: "composed_ready E p cp block is ds" and st: "st \<in> set ds"
  shows "apply_discovery_row E (class_amounts (class_alloc (discovery_debts E ds) (icp_discovery_cap_units cp)))
      block st = Inr (discovery_after E cp block ds st)"
    and "discovery_state_valid E (discovery_after E cp block ds st)"
    and "disc_digest E (discovery_after E cp block ds st) = disc_digest E st"
    and "dyb_paid_units (dys_balance (discovery_after E cp block ds st)) =
      dyb_paid_units (dys_balance st) + discovery_amount E cp ds st"
proof -
  let ?n = "discovery_amount E cp ds st" and ?st = "discovery_after E cp block ds st"
  have v: "discovery_state_valid E st" and chk: "check_discovery_row E cp block (fdp_reserve_hotkey p) st = Inr ()"
    and blk: "0 \<le> block"
    using ready st by (simp_all add: composed_ready_def)
  have amt: "dict_get (disc_digest E st) 0
      (class_amounts (class_alloc (discovery_debts E ds) (icp_discovery_cap_units cp))) = ?n"
    unfolding discovery_amount_def
    by (rule class_amounts_lookup [OF discovery_debts_ok(1) [OF ready] composed_bounds(8) [OF ready]])
  have pay: "discovery_op_apply E (dys_claim st) (Pay ?n block) (dys_balance st) =
      Inr (discovery_paid (dys_balance st) ?n block)" if "?n \<noteq> 0"
  proof -
    have o: "disc_open st" using that discovery_amount_facts(2) [OF ready st] by blast
    then show ?thesis
      using discovery_amount_facts(1) [OF ready st] that chk blk v
      by (auto simp: pay_discovery_balance_eq fair_amount_def check_discovery_row_def err_simps
          discovery_state_valid_def)
  qed
  show v': "discovery_state_valid E ?st"
    using v pay discovery_op_preserves_state [of E "dys_claim st" "dys_balance st" "Pay ?n block"]
    by (cases st) (auto simp: discovery_after_def Let_def)
  have new: "DiscoveryClaimState_new E (dys_claim st) (dys_balance ?st) = Inr ?st"
    using v' discovery_state_valid_new [of E "dys_claim st" "dys_balance ?st"]
    by (cases st) (auto simp: discovery_after_def Let_def)
  show "apply_discovery_row E (class_amounts (class_alloc (discovery_debts E ds) (icp_discovery_cap_units cp)))
      block st = Inr ?st"
    unfolding apply_discovery_row_def Let_def amt
    using new pay by (auto simp: discovery_after_def Let_def split: if_splits)
  show "disc_digest E ?st = disc_digest E st"
    and "dyb_paid_units (dys_balance ?st) = dyb_paid_units (dys_balance st) + ?n"
    by (simp_all add: discovery_after_def Let_def)
qed

lemma owners_match:
  assumes d: "distinct (map key sts)"
    and rows: "rows = map (\<lambda>st. (key st, owner st, rest st)) (filter P (sort_key key sts))"
  shows "\<not> owner_differs (dict_of (map (\<lambda>st. (key st, owner st)) (sort_key key sts))) (class_alloc rows cap)"
proof -
  let ?ps = "map (\<lambda>st. (key st, owner st)) (sort_key key sts)"
  have dk: "distinct (map fst ?ps)" using d by (simp add: comp_def distinct_map_sort_key)
  have "map_of ?ps (cca_claim_digest a) = Some (cca_hotkey a)" if a: "a \<in> set (class_alloc rows cap)" for a
  proof -
    obtain n where "(cca_claim_digest a, cca_hotkey a, n) \<in> set rows" using a by (rule class_alloc_mem)
    then have "(cca_claim_digest a, cca_hotkey a) \<in> set ?ps" by (auto simp: rows)
    then show ?thesis by (rule map_of_is_SomeI [OF dk])
  qed
  then show ?thesis by (simp add: owner_differs_def dict_of_distinct [OF dk])
qed

lemma sum_zip_after:
  "sum_list (map (\<lambda>(before, after). g after - g before) (zip xs (map f xs))) =
     sum_list (map (\<lambda>x. g (f x) - (g x :: int)) xs)"
  by (induction xs) auto

lemma apply_composed_epoch_eq:
  assumes ready: "composed_ready E p cp block is ds"
  shows "apply_composed_epoch E is ds (composed_projection E p cp cpd ipd block is ds) =
    Inr (map (innovation_after E cp block is ds) (sort_key (state_claim_digest E) is),
         map (discovery_after E cp block ds) (sort_key (disc_digest E) ds))"
proof -
  let ?is = "sort_key (state_claim_digest E) is" and ?ds = "sort_key (disc_digest E) ds"
  have dist: "distinct (map (state_claim_digest E) is)" "distinct (map (disc_digest E) ds)"
    using ready by (simp_all add: composed_ready_def)
  have maps: "mapE (apply_innovation_row E (class_amounts (class_alloc (innovation_debts E is)
      (composed_icap E cp ds))) block) ?is = Inr (map (innovation_after E cp block is ds) ?is)"
    "mapE (apply_discovery_row E (class_amounts (class_alloc (discovery_debts E ds)
      (icp_discovery_cap_units cp))) block) ?ds = Inr (map (discovery_after E cp block ds) ?ds)"
    by (rule mapE_Inr; use innovation_after_step(1) [OF ready] in simp)
      (rule mapE_Inr; use discovery_after_step(1) [OF ready] in simp)
  have paid: "sum_list (map (\<lambda>x. dcb_paid_units (dcs_balance (innovation_after E cp block is ds x)) -
      dcb_paid_units (dcs_balance x)) ?is) = composed_ipay E cp is ds"
    "sum_list (map (\<lambda>x. dyb_paid_units (dys_balance (discovery_after E cp block ds x)) -
      dyb_paid_units (dys_balance x)) ?ds) = composed_dpay E cp ds"
    using innovation_after_step(4) [OF ready] discovery_after_step(4) [OF ready] amounts_total [OF ready]
    by (simp_all add: sum_list_sort_key cong: map_cong)
  note owners = owners_match [OF dist(1) innovation_debts_def] owners_match [OF dist(2) discovery_debts_def]
  show ?thesis
    unfolding apply_composed_epoch_def Let_def composed_projection_def ComposedEpochProjection.simps
      sort_map_sort_key maps bindE_Inr sum_zip_after
      sum_zip_after [where g = "\<lambda>st. dcb_paid_units (dcs_balance st)"]
      sum_zip_after [where g = "\<lambda>st. dyb_paid_units (dys_balance st)"] paid
    using owners by simp
qed

end
