(* ===== verification/Composition_Samples.thy ===== *)
theory Composition_Samples
  imports Samples Composed_Laws
begin

text \<open>
  Concrete inputs for the composition properties: a composition policy over the policy of
  \<open>Samples\<close>, a reviewed bounty and its claim, and a second policy with no reserve floor.
\<close>

definition sample_composition :: IncentiveCompositionPolicyManifest where
  "sample_composition =
     \<lparr>icp_innovation_policy_digest = sample_digest ''757'',
      icp_selection_report_digest = sample_id (CHR ''b''), icp_reserve_ppm = 100000,
      icp_epoch_blocks = 360, icp_discovery_cap_units = 200000,
      icp_per_award_principal_cap_epochs = 3, icp_discovery_lifetime_blocks = 4000,
      icp_schema_version = PyInt 1, icp_policy_version = ''optima.incentive-composition.v1''\<rparr>"

lemma sample_composition_from_dict:
  "IncentiveCompositionPolicyManifest_from_dict (IncentiveCompositionPolicyManifest_to_dict sample_composition) =
     Inr sample_composition"
  by code_simp

lemma sample_composition_valid: "composition_valid sample_composition"
  by code_simp

definition sample_disposition_row :: "string \<Rightarrow> pyval \<Rightarrow> string \<Rightarrow> (string \<times> pyval) list" where
  "sample_disposition_row decision requested promoted =
     [(''win_digest'', PyStr (sample_id (CHR ''1''))), (''proposal_digest'', PyStr (sample_id (CHR ''2''))),
      (''retained_evidence_digest'', PyStr (sample_id (CHR ''3''))),
      (''review_digest'', PyStr (sample_id (CHR ''4''))), (''hotkey'', PyStr ''dora''),
      (''win_block'', PyInt 9000), (''authority_block'', PyInt 9050), (''decision'', PyStr decision),
      (''requested_principal_epochs'', requested), (''promoted_target_digest'', PyStr promoted)]"


definition sample_disposition :: ReviewedDiscoveryDisposition where
  "sample_disposition =
     \<lparr>rdd_policy_digest = sample_digest ''473'', rdd_win_digest = sample_id (CHR ''1''),
      rdd_proposal_digest = sample_id (CHR ''2''), rdd_retained_evidence_digest = sample_id (CHR ''3''),
      rdd_review_digest = sample_id (CHR ''4''), rdd_hotkey = ''dora'', rdd_win_block = 9000,
      rdd_authority_block = 9050, rdd_decision = ''bounty_only'',
      rdd_requested_principal_epochs = PyInt 5, rdd_promoted_target_digest = []\<rparr>"

definition sample_bounty :: DiscoveryDebtClaim where
  "sample_bounty =
     \<lparr>ddc_policy_digest = sample_digest ''473'', ddc_disposition_digest = sample_digest ''659'',
      ddc_proposal_digest = sample_id (CHR ''2''), ddc_retained_evidence_digest = sample_id (CHR ''3''),
      ddc_review_digest = sample_id (CHR ''4''), ddc_hotkey = ''dora'', ddc_awarded_block = 9000,
      ddc_expires_block = 13000, ddc_requested_principal_epochs = 5, ddc_capped_principal_epochs = 3,
      ddc_principal_units = 600000\<rparr>"

lemma sample_composition_digest:
  "IncentiveCompositionPolicyManifest_digest sample_env sample_composition = Inr (sample_digest ''473'')"
  by code_simp

lemma sample_review:
  "review_discovery_disposition sample_env sample_composition
     (sample_disposition_row ''bounty_only'' (PyInt 5) []) = Inr sample_disposition"
  by code_simp

lemma sample_bounty_digest: "DiscoveryDebtClaim_digest sample_env sample_bounty = sample_digest ''664''"
  by code_simp

lemma sample_bounty_valid: "discovery_claim_valid sample_bounty"
  by code_simp

definition sample_dora :: DiscoveryClaimState where
  "sample_dora = \<lparr>dys_claim = sample_bounty, dys_balance = \<lparr>dyb_claim_digest = sample_digest ''664'',
     dyb_principal_units = 600000, dyb_paid_units = 0, dyb_forfeited_units = 0,
     dyb_remaining_units = 600000, dyb_status = ''open'', dyb_terminal_block = None,
     dyb_terminal_reason = []\<rparr>\<rparr>"

lemma sample_dora_open:
  "DiscoveryClaimBalance_open sample_env sample_bounty = Inr (dys_balance sample_dora)"
  unfolding DiscoveryClaimBalance_open_def sample_bounty_digest by code_simp

lemma sample_dora_valid: "discovery_state_valid sample_env sample_dora"
proof -
  have "discovery_balance_valid (dys_balance sample_dora)"
    using sample_dora_open by (simp add: DiscoveryClaimBalance_open_def err_simps)
  then show ?thesis using sample_bounty_valid sample_bounty_digest
    by (simp add: discovery_state_valid_def discovery_balance_of_def sample_dora_def)
      (simp add: sample_bounty_def)
qed

lemma sample_dora_check: "check_discovery_row sample_env sample_composition 9200 ''reserve'' sample_dora = Inr ()"
  by code_simp

lemma sample_innovation_check:
  "validate_innovation_policy sample_env sample_composition sample_policy = Inr ()"
  unfolding validate_innovation_policy_def sample_policy_digest by code_simp

lemma sample_composed_ready:
  "composed_ready sample_env sample_policy sample_composition 9200 sample_states [sample_dora]"
  "composed_ready sample_env sample_policy sample_composition 9200 sample_states []"
  using sample_states_ready sample_composition_valid sample_innovation_check sample_dora_valid sample_dora_check
  by (auto simp: composed_ready_def epoch_ready_def check_innovation_row_def project_check_row_def err_simps
      sample_policy_def [THEN arg_cong, of fdp_reserve_hotkey] split: if_splits)

section \<open>An epoch that leaves the reserve nothing\<close>

text \<open>Without a reserve floor, one claim whose principal is the whole pool.\<close>

definition free_policy :: FiniteDebtPolicyManifest where
  "free_policy = sample_policy\<lparr>fdp_reserve_ppm := 0\<rparr>"

definition free_composition :: IncentiveCompositionPolicyManifest where
  "free_composition = sample_composition
     \<lparr>icp_reserve_ppm := 0, icp_innovation_policy_digest := sample_digest ''752''\<rparr>"

definition free_claim :: InnovationDebtClaim where
  "free_claim = (sample_claim ''carl'' None 1000000 1000000)
     \<lparr>idc_policy_digest := sample_digest ''752'', idc_reference_campaign_pool_units := 1000000\<rparr>"

lemma free_digests:
  "FiniteDebtPolicyManifest_digest sample_env free_policy = Inr (sample_digest ''752'')"
  "InnovationDebtClaim_digest sample_env free_claim = sample_digest ''834''"
  "rational_time_multiplier_ppm free_policy 9000 None = Inr 1000000"
  "claim_principal_units free_policy (sample_id (CHR ''d'')) 5000000 1000000 =
     Inr (sample_id (CHR ''c''), 1000000, 1000000, 1000000)"
  "resets_family_clock free_policy 5000000 = Inr True"
  "claim_valid free_claim"
  "composition_valid free_composition"
  by code_simp+

lemma free_policy_valid: "policy_valid free_policy"
proof -
  have "FiniteDebtPolicyManifest_init (fdp_campaign_budget_shares free_policy)
     (fdp_reward_family_campaigns free_policy)
     ((''reserve_ppm'', PyInt 0) # sample_policy_row) = Inr free_policy" by code_simp
  from FiniteDebtPolicyManifest_init_policy_valid [OF this] show ?thesis by simp
qed

lemma free_issue:
  "issue_innovation_claim sample_env free_policy (sample_id (CHR ''d'')) (sample_id (CHR ''e''))
     (sample_id (CHR ''f'')) ''carl'' ''1.05'' ''1'' 9000 None 9100 = Inr free_claim"
  using free_digests(6) unfolding issue_innovation_claim_eq_Inr
  by (simp add: free_policy_def [THEN arg_cong, of fdp_improvement_basis]
      free_policy_def [THEN arg_cong, of fdp_lifetime_blocks]
      sample_policy_def [THEN arg_cong, of fdp_improvement_basis]
      sample_policy_def [THEN arg_cong, of fdp_lifetime_blocks]
      sample_units free_digests free_claim_def sample_claim_def) blast

definition free_state :: DebtClaimState where
  "free_state = sample_open free_claim ''834''"

lemma free_open: "DebtClaimBalance_open sample_env free_claim = Inr (dcs_balance free_state)"
  unfolding DebtClaimBalance_open_def free_digests by code_simp

lemma free_composed_ready:
  "composed_ready sample_env free_policy free_composition 9200 [free_state] []"
proof -
  have "state_valid sample_env free_state"
    using DebtClaimBalance_open_balance_of [OF free_open] free_digests(6)
    by (simp add: state_valid_def free_state_def sample_open_def)
  moreover have "validate_innovation_policy sample_env free_composition free_policy = Inr ()"
    unfolding validate_innovation_policy_def free_digests by code_simp
  ultimately show ?thesis
    using free_policy_valid free_digests(7) issue_validates(1) [OF free_issue]
    by (simp add: composed_ready_def check_innovation_row_def wrap_debt_error_def free_state_def
        sample_open_def)
      (simp add: free_claim_def sample_claim_def free_policy_def sample_policy_def)
qed

lemma free_reserve: "composed_reserve sample_env free_composition [free_state] [] = 0"
  by (simp add: composed_reserve_def composed_ipay_def composed_icap_def composed_dpay_def class_debt_def
      innovation_debts_def discovery_debts_def free_state_def sample_open_def free_claim_def
      sample_claim_def reserve_floor_units_def free_composition_def sample_composition_def PPM_def)

end
