(* ===== verification/Composition_Properties.thy ===== *)
theory Composition_Properties
  imports Composition_Samples Debt_Properties
begin

text \<open>
  The properties of \<open>optima/incentive_composition.py\<close>: issuing a discovery bounty, the life of
  its balance, and the composed epoch that pays discovery before innovation.
\<close>

section \<open>Issuing a discovery claim\<close>

lemma disposition_init_facts:
  assumes "ReviewedDiscoveryDisposition_init row = Inr d"
  shows "is_digest (rdd_proposal_digest d) \<and> is_digest (rdd_retained_evidence_digest d)
    \<and> is_digest (rdd_review_digest d) \<and> is_hotkey (rdd_hotkey d) \<and> 0 \<le> rdd_win_block d
    \<and> rdd_decision d \<in> {DISCOVERY_BOUNTY_ONLY, DISCOVERY_REGISTERED_PROMOTION}
    \<and> (rdd_decision d = DISCOVERY_BOUNTY_ONLY \<longrightarrow>
        (\<exists>n \<ge> 1. rdd_requested_principal_epochs d = PyInt n))"
  using assms unfolding ReviewedDiscoveryDisposition_init_def
  apply (simp only: bindE_eq_Inr if_Inl_eq_Inr ic_eq_Inr int_within_simps Let_def not_not sum.inject)
  apply (elim exE conjE)
  apply (simp only: py_in_strs_eq_Inr)
  apply (elim exE conjE)
  apply hypsubst
  apply (simp only: ReviewedDiscoveryDisposition.simps pyval.case disposition_path_def)
  apply (simp add: err_simps DISCOVERY_DECISIONS_def split: if_splits)
   apply blast
  apply auto
  done

lemma disposition_digest_exists:
  assumes "sha256_digests E" and "rdd_requested_principal_epochs d = PyInt n"
  shows "\<exists>dd. ReviewedDiscoveryDisposition_digest E d = Inr dd \<and> is_digest dd"
proof -
  define j where "j = JObj
     [(''policy_digest'', JStr (rdd_policy_digest d)), (''win_digest'', JStr (rdd_win_digest d)),
      (''proposal_digest'', JStr (rdd_proposal_digest d)),
      (''retained_evidence_digest'', JStr (rdd_retained_evidence_digest d)),
      (''review_digest'', JStr (rdd_review_digest d)), (''hotkey'', JStr (rdd_hotkey d)),
      (''win_block'', JInt (rdd_win_block d)), (''authority_block'', JInt (rdd_authority_block d)),
      (''decision'', JStr (rdd_decision d)), (''requested_principal_epochs'', JInt n),
      (''promoted_target_digest'', JStr (rdd_promoted_target_digest d))]"
  have "ReviewedDiscoveryDisposition_to_dict d = py_of_json j"
    by (simp add: ReviewedDiscoveryDisposition_to_dict_def rdd_rows_def assms(2) j_def)
  moreover have "is_domain ''optima.incentive-composition.discovery-disposition''" by code_simp
  ultimately show ?thesis using assms(1)
    by (simp add: ReviewedDiscoveryDisposition_digest_def canonical_digest_json json_digest_def
        sha256_digests_def)
qed

text \<open>C7. Issuing from a reviewed disposition takes exactly one of three ways: a registered promotion
  issues no claim, a bounty reviewed at or after the expiry of the retained win is refused, and any
  other bounty issues one claim, for the reviewed hotkey and win, whose epochs are capped per award,
  whose principal is that many discovery capacities and so at most the policy's principal cap, which
  is alive at the review, and which passes its own policy check.\<close>

theorem issue_discovery_claim_outcome:
  assumes "composition_valid p" and "sha256_digests E"
    and "review_discovery_disposition E p row = Inr d"
  shows "if rdd_decision d = DISCOVERY_REGISTERED_PROMOTION then issue_discovery_claim E p d = Inr None
    else if rdd_win_block d + icp_discovery_lifetime_blocks p \<le> rdd_authority_block d
    then issue_discovery_claim E p d = Inl (IncentiveCompositionError
      ''discovery bounty review is at or after the retained win expiry'')
    else \<exists>c n. issue_discovery_claim E p d = Inr (Some c)
      \<and> rdd_requested_principal_epochs d = PyInt n
      \<and> ddc_hotkey c = rdd_hotkey d \<and> ddc_awarded_block c = rdd_win_block d
      \<and> ddc_expires_block c = rdd_win_block d + icp_discovery_lifetime_blocks p
      \<and> ddc_capped_principal_epochs c = min n (icp_per_award_principal_cap_epochs p)
      \<and> ddc_principal_units c = icp_discovery_cap_units p * ddc_capped_principal_epochs c
      \<and> 0 < ddc_principal_units c \<and> ddc_principal_units c \<le> discovery_principal_cap_units p
      \<and> DiscoveryDebtClaim_validate_policy E c p (Some d) = Inr ()"
proof -
  obtain pd where pd: "IncentiveCompositionPolicyManifest_digest E p = Inr pd"
    and init: "ReviewedDiscoveryDisposition_init ((''policy_digest'', PyStr pd) # row) = Inr d"
    and dv: "disposition_validate_policy E d p = Inr ()"
    using assms(3) by (auto simp: review_discovery_disposition_def err_simps)
  note facts = disposition_init_facts [OF init]
  have pdd: "is_digest pd"
    using pd assms(2) by (auto simp: IncentiveCompositionPolicyManifest_digest_def canonical_digest_def
        err_simps sha256_digests_def split: if_splits)
  show ?thesis
  proof (cases "rdd_decision d = DISCOVERY_REGISTERED_PROMOTION
      \<or> rdd_win_block d + icp_discovery_lifetime_blocks p \<le> rdd_authority_block d")
    case True
    then show ?thesis by (auto simp: issue_discovery_claim_def dv)
  next
    case False
    then have bounty: "rdd_decision d = DISCOVERY_BOUNTY_ONLY" using facts by blast
    then obtain n where n: "1 \<le> n" "rdd_requested_principal_epochs d = PyInt n" using facts by blast
    obtain dd where dd: "ReviewedDiscoveryDisposition_digest E d = Inr dd" "is_digest dd"
      using disposition_digest_exists [OF assms(2) n(2)] by blast
    define c where "c = \<lparr>ddc_policy_digest = pd, ddc_disposition_digest = dd,
        ddc_proposal_digest = rdd_proposal_digest d,
        ddc_retained_evidence_digest = rdd_retained_evidence_digest d,
        ddc_review_digest = rdd_review_digest d, ddc_hotkey = rdd_hotkey d,
        ddc_awarded_block = rdd_win_block d,
        ddc_expires_block = rdd_win_block d + icp_discovery_lifetime_blocks p,
        ddc_requested_principal_epochs = n,
        ddc_capped_principal_epochs = min n (icp_per_award_principal_cap_epochs p),
        ddc_principal_units = icp_discovery_cap_units p * min n (icp_per_award_principal_cap_epochs p)\<rparr>"
    have caps: "1 \<le> icp_discovery_cap_units p" "1 \<le> icp_per_award_principal_cap_epochs p"
      "1 \<le> icp_discovery_lifetime_blocks p"
      using assms(1) by (simp_all add: composition_valid_def)
    have pos: "1 \<le> icp_discovery_cap_units p * min n (icp_per_award_principal_cap_epochs p)"
      using caps n(1) by (metis min.boundedI mult_mono' mult_1 zero_le_one)
    have valid: "discovery_claim_valid c"
      using facts caps n pos pdd dd by (simp add: discovery_claim_valid_def c_def)
    have check: "DiscoveryDebtClaim_validate_policy E c p (Some d) = Inr ()"
      using False n bounty by (simp add: DiscoveryDebtClaim_validate_policy_def discovery_validate_terms_def pd dd
          dv c_def mult.commute)
    have "issue_discovery_claim E p d = Inr (Some c)"
      unfolding issue_discovery_claim_def Let_def dv bindE_Inr pd dd n(2)
      using False check valid by (simp add: py_int_of_def c_def [symmetric])
        (simp add: DiscoveryDebtClaim_new_eq_Inr [THEN iffD2] check)
    then show ?thesis
      using False check n pos caps
      by (auto simp: c_def discovery_principal_cap_units_def intro!: mult_left_mono)
  qed
qed

theorem issue_discovery_claim_outcome_witness:
  "\<exists>c n. issue_discovery_claim sample_env sample_composition sample_disposition = Inr (Some c)
     \<and> rdd_requested_principal_epochs sample_disposition = PyInt n \<and> ddc_hotkey c = ''dora''
     \<and> 0 < ddc_principal_units c"
  using issue_discovery_claim_outcome [OF sample_composition_valid sample_digests sample_review]
  by (auto simp: sample_disposition_def DISCOVERY_REGISTERED_PROMOTION_def sample_composition_def)

section \<open>The life of a discovery balance\<close>

text \<open>Whatever sequence of payments, expirations and cancellations succeeds on a freshly opened
  discovery balance, it has paid exactly the successful payments, never more than the principal,
  and paid, forfeited and remaining units always add up to the principal; once nothing remains, no
  operation changes it again.\<close>

theorem discovery_history_conserves:
  assumes "DiscoveryClaimBalance_open E c = Inr b0"
    and "ledger_reaches (discovery_op_apply E c) b0 ops b"
  shows "dyb_paid_units b = sum_list (map op_paid ops)
    \<and> dyb_paid_units b \<le> ddc_principal_units c
    \<and> dyb_paid_units b + dyb_forfeited_units b + dyb_remaining_units b = ddc_principal_units c
    \<and> (dyb_remaining_units b = 0 \<longrightarrow>
        (\<forall>more b'. ledger_reaches (discovery_op_apply E c) b more b' \<longrightarrow> b' = b))"
proof -
  have b0: "discovery_balance_of E c b0" "dyb_paid_units b0 = 0" "dyb_principal_units b0 = ddc_principal_units c"
    using assms(1) by (auto simp: DiscoveryClaimBalance_open_def discovery_balance_of_def err_simps)
  note g = discovery.reaches_good [OF assms(2) b0(1)]
  then have b: "discovery_balance_of E c b" by simp
  show ?thesis
    using g b0 discovery.never_overpaid [OF assms(2) b0(1)] discovery.conserve [OF b]
      discovery.closed_forever [OF _ b] by auto
qed

theorem discovery_history_conserves_witness:
  "\<exists>b. ledger_reaches (discovery_op_apply sample_env sample_bounty) (dys_balance sample_dora)
       [Pay 200000 9200, Expire 13000] b
     \<and> dyb_paid_units b = 200000
     \<and> dyb_paid_units b + dyb_forfeited_units b + dyb_remaining_units b = 600000"
proof -
  let ?b0 = "dys_balance sample_dora"
  let ?b1 = "discovery_paid ?b0 200000 9200"
  let ?b2 = "discovery_forfeited ?b1 ''expired'' 13000 ''claim_lifetime_expired''"
  have of0: "discovery_balance_of sample_env sample_bounty ?b0"
    using sample_dora_valid by (simp add: discovery_state_valid_def sample_dora_def)
  have s1: "discovery_op_apply sample_env sample_bounty (Pay 200000 9200) ?b0 = Inr ?b1"
    using of0 by (simp add: pay_discovery_balance_eq) (simp add: sample_bounty_def sample_dora_def)
  have of1: "discovery_balance_of sample_env sample_bounty ?b1" using discovery_op_preserves [OF of0 s1] by simp
  have s2: "discovery_op_apply sample_env sample_bounty (Expire 13000) ?b1 = Inr ?b2"
    using of1 by (simp add: expire_discovery_balance_eq) (simp add: sample_bounty_def sample_dora_def)
  have r: "ledger_reaches (discovery_op_apply sample_env sample_bounty) ?b0 [Pay 200000 9200, Expire 13000] ?b2"
    unfolding ledger_reaches_foldE using s1 s2 by simp
  from discovery_history_conserves [OF sample_dora_open r] r
  show ?thesis by (intro exI [of _ ?b2]) (simp add: sample_bounty_def)
qed

section \<open>The composed epoch\<close>


lemma sample_composed_inputs:
  "composed_reserve sample_env sample_composition sample_states [sample_dora] \<noteq> 0"
  "composed_reserve sample_env sample_composition sample_states [] \<noteq> 0"
  "distinct (map (DiscoveryClaimState_digest sample_env) [sample_dora])"
  using composed_bounds(6) [OF sample_composed_ready(1)] composed_bounds(6) [OF sample_composed_ready(2)]
  by (auto simp: sample_composition_def)


text \<open>C9. When the two payouts use up the whole epoch, which a policy without a reserve floor allows,
  \<open>project_composed_epoch\<close> always fails: it gives the reserve hotkey a weight of zero units and
  the weight constructor refuses it, with the error of the finite-debt module.\<close>

theorem composed_epoch_without_reserve_fails:
  assumes "composed_ready E p cp block is ds" and "composed_reserve E cp is ds = 0"
  shows "project_composed_epoch E p cp block is ds =
    Inl (FiniteDebtError ''hotkey weight units must be an integer in [1, 1000000]'')"
  by (rule project_composed_epoch_no_reserve [OF assms])

theorem composed_epoch_without_reserve_fails_witness:
  "project_composed_epoch sample_env free_policy free_composition 9200 [free_state] [] =
     Inl (FiniteDebtError ''hotkey weight units must be an integer in [1, 1000000]'')"
  by (rule composed_epoch_without_reserve_fails [OF free_composed_ready free_reserve])

lemma project_composed_epoch_only:
  assumes ready: "composed_ready E p cp block is ds" and sha: "sha256_digests E"
    and dist: "distinct (map (DebtClaimState_digest E) is)" "distinct (map (DiscoveryClaimState_digest E) ds)"
    and r: "project_composed_epoch E p cp block is ds = Inr r"
  obtains cpd ipd where "r = composed_projection E p cp cpd ipd block is ds"
proof -
  have reserve: "composed_reserve E cp is ds \<noteq> 0"
    using project_composed_epoch_no_reserve [OF ready] r by auto
  obtain cpd ipd where pds: "IncentiveCompositionPolicyManifest_digest E cp = Inr cpd"
    "FiniteDebtPolicyManifest_digest E p = Inr ipd"
    using r unfolding project_composed_epoch_weights [OF ready] composed_weights_facts(1) [OF ready reserve]
    by (auto simp: err_simps)
  from project_composed_epoch_eq [OF ready reserve sha pds dist] r
  have "r = composed_projection E p cp cpd ipd block is ds" by simp
  then show ?thesis by (rule that)
qed

lemma keys_after:
  "(\<And>st. st \<in> set xs \<Longrightarrow> key (f st) = key st) \<Longrightarrow>
     map key (map f (sort_key key xs)) = sort (map key xs)"
proof -
  assume "\<And>st. st \<in> set xs \<Longrightarrow> key (f st) = key st"
  then have "map (\<lambda>st. key (f st)) (sort_key key xs) = map key (sort_key key xs)" by simp
  also have "\<dots> = sort (map key xs)" using sort_map_sort_key [of key key xs] by (simp add: sorted_sort_id)
  finally show ?thesis by (simp add: comp_def)
qed

lemma sum_after:
  "(\<And>st. st \<in> set xs \<Longrightarrow> g (f st) = g st + (n st :: int)) \<Longrightarrow>
     sum_list (map g (map f (sort_key key xs))) = sum_list (map g xs) + sum_list (map n xs)"
  by (simp add: comp_def sum_list_addf sum_list_sort_key cong: map_cong)

text \<open>C10. Applying a composed projection to the states it was made from succeeds: the balances of the
  innovation claims together grow by exactly the innovation payout and those of the discovery claims
  by exactly the discovery payout, no claim is added or lost, and every resulting state is well
  formed.\<close>

theorem apply_pays_both_classes:
  assumes "composed_ready E p cp block is ds" and "sha256_digests E"
    and "distinct (map (DebtClaimState_digest E) is)" "distinct (map (DiscoveryClaimState_digest E) ds)"
    and "project_composed_epoch E p cp block is ds = Inr r"
  shows "\<exists>is' ds'. apply_composed_epoch E is ds r = Inr (is', ds')
    \<and> map (state_claim_digest E) is' = sort (map (state_claim_digest E) is)
    \<and> map (disc_digest E) ds' = sort (map (disc_digest E) ds)
    \<and> (\<forall>st \<in> set is'. state_valid E st) \<and> (\<forall>st \<in> set ds'. discovery_state_valid E st)
    \<and> sum_list (map (\<lambda>st. dcb_paid_units (dcs_balance st)) is') =
        sum_list (map (\<lambda>st. dcb_paid_units (dcs_balance st)) is) + cep_innovation_payout_units r
    \<and> sum_list (map (\<lambda>st. dyb_paid_units (dys_balance st)) ds') =
        sum_list (map (\<lambda>st. dyb_paid_units (dys_balance st)) ds) + cep_discovery_payout_units r"
proof -
  obtain cpd ipd where r: "r = composed_projection E p cp cpd ipd block is ds"
    using assms by (rule project_composed_epoch_only)
  let ?f = "innovation_after E cp block is ds" and ?g = "discovery_after E cp block ds"
  let ?is = "map ?f (sort_key (state_claim_digest E) is)" and ?ds = "map ?g (sort_key (disc_digest E) ds)"
  note f = innovation_after_step [OF assms(1)] and g = discovery_after_step [OF assms(1)]
  have "apply_composed_epoch E is ds r = Inr (?is, ?ds)" unfolding r by (rule apply_composed_epoch_eq [OF assms(1)])
  moreover have "map (state_claim_digest E) ?is = sort (map (state_claim_digest E) is)"
    "map (disc_digest E) ?ds = sort (map (disc_digest E) ds)"
    by (rule keys_after, rule f(3), assumption) (rule keys_after, rule g(3), assumption)
  moreover have "\<forall>st \<in> set ?is. state_valid E st" "\<forall>st \<in> set ?ds. discovery_state_valid E st"
    using f(2) g(2) by auto
  moreover have "sum_list (map (\<lambda>st. dcb_paid_units (dcs_balance st)) ?is) =
      sum_list (map (\<lambda>st. dcb_paid_units (dcs_balance st)) is) + sum_list (map (innovation_amount E cp is ds) is)"
    by (rule sum_after) (rule f(4))
  moreover have "sum_list (map (\<lambda>st. dyb_paid_units (dys_balance st)) ?ds) =
      sum_list (map (\<lambda>st. dyb_paid_units (dys_balance st)) ds) + sum_list (map (discovery_amount E cp ds) ds)"
    by (rule sum_after) (rule g(4))
  ultimately show ?thesis
    unfolding amounts_total [OF assms(1)]
    by (intro exI [of _ ?is] exI [of _ ?ds]) (simp add: r composed_projection_def)
qed

theorem apply_pays_both_classes_witness:
  "\<exists>r is' ds'. project_composed_epoch sample_env sample_policy sample_composition 9200 sample_states [sample_dora] = Inr r
     \<and> apply_composed_epoch sample_env sample_states [sample_dora] r = Inr (is', ds')
     \<and> sum_list (map (\<lambda>st. dcb_paid_units (dcs_balance st)) is') = cep_innovation_payout_units r"
proof -
  obtain r where r: "project_composed_epoch sample_env sample_policy sample_composition 9200 sample_states [sample_dora] = Inr r"
    using project_composed_epoch_eq [OF sample_composed_ready(1) sample_composed_inputs(1) sample_digests
      sample_composition_digest sample_policy_digest sample_states_apart sample_composed_inputs(3)] by blast
  have "sum_list (map (\<lambda>st. dcb_paid_units (dcs_balance st)) sample_states) = 0"
    by (simp add: sample_states_def sample_open_def)
  with apply_pays_both_classes [OF sample_composed_ready(1) sample_digests sample_states_apart
      sample_composed_inputs(3) r] r
  show ?thesis by auto
qed

section \<open>Composition without discovery\<close>

lemma composed_ready_epoch_ready:
  "composed_ready E p cp block is ds \<Longrightarrow> epoch_ready E p block is"
  by (auto simp: composed_ready_def epoch_ready_def check_innovation_row_def project_check_row_def err_simps
      split: if_splits)

lemma sort_debts: "sort_key fst (innovation_debts E is) = innovation_debts E is"
  by (rule sort_key_id_if_sorted) (simp add: innovation_debts_def comp_def sorted_map_filter_sort_key)

lemma no_discovery_amounts:
  assumes ready: "composed_ready E p cp block is ds" and none: "filter disc_open ds = []"
  shows "composed_dpay E cp ds = 0" and "composed_ipay E cp is ds = epoch_payout E p is"
    and "discovery_debts E ds = []"
    and "class_amount (innovation_debts E is) (composed_icap E cp ds) (state_claim_digest E st) = epoch_amount E p is st"
proof -
  show d: "discovery_debts E ds = []" using none by (simp add: discovery_debts_def filter_sort)
  show zero: "composed_dpay E cp ds = 0"
    using composed_bounds(8) [OF ready] by (simp add: composed_dpay_def d class_debt_def)
  have "icp_reserve_ppm cp = fdp_reserve_ppm p"
    using ready by (auto simp: composed_ready_def validate_innovation_policy_def err_simps)
  then have cap: "composed_icap E cp ds = reference_claim_pool_units p"
    by (simp add: composed_icap_def zero reserve_floor_units_def reference_claim_pool_units_def
        REFERENCE_EPOCH_UNITS_def PPM_def)
  have debt: "class_debt (innovation_debts E is) = epoch_debt E is"
    by (simp add: class_debt_def innovation_debts_def epoch_debt_def open_states_def comp_def)
  show "composed_ipay E cp is ds = epoch_payout E p is"
    by (simp add: composed_ipay_def epoch_payout_def cap debt)
  show "class_amount (innovation_debts E is) (composed_icap E cp ds) (state_claim_digest E st) = epoch_amount E p is st"
    unfolding class_amount_def epoch_amount_lookup sort_debts cap debt epoch_payout_def
    by (simp add: innovation_debts_def epoch_owed_def open_states_def comp_def)
qed

text \<open>C11. With no open discovery debt, composing changes nothing: \<open>project_composed_epoch\<close> gives the
  innovation claims the same allocations, and the chain the same weights, as \<open>project_debt_epoch\<close>
  of the finite-debt module computes on its own.\<close>

theorem composition_without_discovery_is_debt_epoch:
  assumes "composed_ready E p cp block is ds" and "sha256_digests E"
    and "distinct (map (DebtClaimState_digest E) is)" "distinct (map (DiscoveryClaimState_digest E) ds)"
    and "filter disc_open ds = []" and "project_composed_epoch E p cp block is ds = Inr r"
  shows "\<exists>q. project_debt_epoch E p block is = Inr q
    \<and> map (\<lambda>a. (cca_claim_digest a, cca_hotkey a, cca_units a)) (cep_innovation_allocations r) =
      map (\<lambda>a. (dea_claim_digest a, dea_hotkey a, dea_units a)) (dep_allocations q)
    \<and> cep_weights r = dep_weights q \<and> cep_discovery_allocations r = []
    \<and> cep_innovation_payout_units r = dep_payout_units q \<and> cep_reserve_units r = dep_reserve_units q"
proof -
  obtain cpd ipd where r: "r = composed_projection E p cp cpd ipd block is ds"
    using assms(1-4,6) by (rule project_composed_epoch_only)
  note none = no_discovery_amounts [OF assms(1,5)] and ready = composed_ready_epoch_ready [OF assms(1)]
  obtain pd where pd: "FiniteDebtPolicyManifest_digest E p = Inr pd"
    using assms(1) by (auto simp: composed_ready_def validate_innovation_policy_def err_simps)
  let ?q = "epoch_projection E p pd block is"
  have q: "project_debt_epoch E p block is = Inr ?q"
    by (rule project_debt_epoch_eq [OF ready assms(2) pd assms(3)])
  have alloc: "class_alloc (innovation_debts E is) (composed_icap E cp ds) =
      map (\<lambda>a. \<lparr>cca_claim_digest = dea_claim_digest a, cca_hotkey = dea_hotkey a, cca_units = dea_units a\<rparr>)
        (epoch_allocations E p is)"
  proof -
    have rows: "innovation_debts E is = map (\<lambda>row. (state_claim_digest E row, idc_hotkey (dcs_claim row),
        state_remaining row)) (open_states E is)" by (simp add: innovation_debts_def open_states_def)
    have "map f (filter P (innovation_debts E is)) = map (f \<circ> (\<lambda>row. (state_claim_digest E row,
        idc_hotkey (dcs_claim row), state_remaining row))) (filter (P \<circ> (\<lambda>row. (state_claim_digest E row,
        idc_hotkey (dcs_claim row), state_remaining row))) (open_states E is))"
      for f :: "string \<times> string \<times> int \<Rightarrow> CompositionClassAllocation" and P
      unfolding rows filter_map map_map ..
    then show ?thesis
      unfolding class_alloc_def sort_debts epoch_allocations_def by (simp add: comp_def none(4))
  qed
  have dalloc: "class_alloc (discovery_debts E ds) c = []" for c by (simp add: none(3) class_alloc_def)
  have dnil: "class_alloc [] c = []" for c by (simp add: class_alloc_def)
  have reserve: "composed_reserve E cp is ds = REFERENCE_EPOCH_UNITS - epoch_payout E p is"
    by (simp add: composed_reserve_def none REFERENCE_EPOCH_UNITS_def)
  have "composed_reserve E cp is ds \<noteq> 0"
    using project_composed_epoch_no_reserve [OF assms(1)] assms(6) by auto
  moreover have "class_totals (composed_allocs E cp is ds) = hotkey_totals (epoch_allocations E p is)"
    by (simp add: composed_allocs_def dalloc alloc class_totals_def hotkey_totals_def comp_def)
  moreover have "fdp_reserve_hotkey p \<notin> fst ` set (class_totals (composed_allocs E cp is ds))"
    by (rule composed_totals(2) [OF assms(1)])
  ultimately have "composed_by_hotkey E p cp is ds = epoch_by_hotkey E p is"
    by (simp add: composed_by_hotkey_def epoch_by_hotkey_def Let_def dict_add_def dict_get_absent reserve)
  then have "composed_weights E p cp is ds = epoch_weights E p is"
    by (simp add: composed_weights_def epoch_weights_def)
  then show ?thesis
    using q by (intro exI [of _ ?q])
      (simp add: r composed_projection_def epoch_projection_def alloc dnil none reserve comp_def)
qed

theorem composition_without_discovery_is_debt_epoch_witness:
  "\<exists>r q. project_composed_epoch sample_env sample_policy sample_composition 9200 sample_states [] = Inr r
     \<and> project_debt_epoch sample_env sample_policy 9200 sample_states = Inr q \<and> cep_weights r = dep_weights q"
proof -
  obtain r where r: "project_composed_epoch sample_env sample_policy sample_composition 9200 sample_states [] = Inr r"
    using project_composed_epoch_eq [OF sample_composed_ready(2) sample_composed_inputs(2) sample_digests
      sample_composition_digest sample_policy_digest sample_states_apart] by force
  with composition_without_discovery_is_debt_epoch [OF sample_composed_ready(2) sample_digests
      sample_states_apart _ _ r] show ?thesis by auto
qed

end
