(* ===== verification/Effect.thy ===== *)
theory Effect
  imports Py_Value
begin

text \<open>
  Programs with state and exceptions. An exception keeps the state it was raised in: what was
  written before it stays written. \<open>holds m s Q\<close> says that \<open>Q\<close> is true of the outcome of
  \<open>m\<close> started in \<open>s\<close>, whether it returns or raises; its rules let the simplifier walk
  through a program.
\<close>

type_synonym ('s, 'a) eff = "'s \<Rightarrow> (py_error + 'a) \<times> 's"

definition retM :: "'a \<Rightarrow> ('s, 'a) eff" where
  "retM x s = (Inr x, s)"

definition raiseM :: "py_error \<Rightarrow> ('s, 'a) eff" where
  "raiseM e s = (Inl e, s)"

definition bindM :: "('s, 'a) eff \<Rightarrow> ('a \<Rightarrow> ('s, 'b) eff) \<Rightarrow> ('s, 'b) eff" where
  "bindM m f s = (case m s of (Inl e, t) \<Rightarrow> (Inl e, t) | (Inr x, t) \<Rightarrow> f x t)"

text \<open>A computation that does not touch the state.\<close>

definition liftM :: "py_error + 'a \<Rightarrow> ('s, 'a) eff" where
  "liftM r s = (r, s)"

text \<open>\<open>try: m except C: h\<close>, for the exceptions that \<open>sel\<close> selects.\<close>

definition catchM :: "('s, 'a) eff \<Rightarrow> (py_error \<Rightarrow> bool) \<Rightarrow> ('s, 'a) eff \<Rightarrow> ('s, 'a) eff" where
  "catchM m sel h s = (case m s of (Inl e, t) \<Rightarrow> if sel e then h t else (Inl e, t) | r \<Rightarrow> r)"

lemma bindM_value [simp]: "bindM (retM x) f = f x" "bindM (liftM (Inr x)) f = f x"
  by (simp_all add: bindM_def retM_def liftM_def fun_eq_iff)

definition holds :: "('s, 'a) eff \<Rightarrow> 's \<Rightarrow> (py_error + 'a \<Rightarrow> 's \<Rightarrow> bool) \<Rightarrow> bool" where
  "holds m s Q \<longleftrightarrow> (case m s of (r, t) \<Rightarrow> Q r t)"

lemma holds_retM [simp]: "holds (retM x) s Q \<longleftrightarrow> Q (Inr x) s"
  by (simp add: holds_def retM_def)

lemma holds_raiseM [simp]: "holds (raiseM e) s Q \<longleftrightarrow> Q (Inl e) s"
  by (simp add: holds_def raiseM_def)

lemma holds_liftM: "holds (liftM r) s Q \<longleftrightarrow> Q r s"
  by (simp add: holds_def liftM_def)

lemma holds_bindM:
  "holds (bindM m f) s Q \<longleftrightarrow>
     holds m s (\<lambda>r t. case r of Inl e \<Rightarrow> Q (Inl e) t | Inr x \<Rightarrow> holds (f x) t Q)"
  by (auto simp: holds_def bindM_def split: prod.splits sum.splits)

lemma holds_catchM:
  "holds (catchM m sel h) s Q \<longleftrightarrow>
     holds m s (\<lambda>r t. case r of Inl e \<Rightarrow> if sel e then holds h t Q else Q (Inl e) t | Inr x \<Rightarrow> Q (Inr x) t)"
  by (auto simp: holds_def catchM_def split: prod.splits sum.splits)

lemma holds_mono: "holds m s P \<Longrightarrow> (\<And>r t. P r t \<Longrightarrow> Q r t) \<Longrightarrow> holds m s Q"
  by (auto simp: holds_def split: prod.splits)

lemma holds_conj: "holds m s (\<lambda>r t. P r t \<and> Q r t) \<longleftrightarrow> holds m s P \<and> holds m s Q"
  by (auto simp: holds_def split: prod.splits)

lemma holds_apply: "holds m s Q \<Longrightarrow> m s = (r, t) \<Longrightarrow> Q r t"
  by (simp add: holds_def)

text \<open>Sequencing two programs that both keep to a reflexive, transitive relation on states.\<close>

lemma holds_seq:
  assumes "holds m s (\<lambda>r t. R s t \<and> (\<forall>x. r = Inr x \<longrightarrow> holds (f x) t (\<lambda>_ u. R s u)))"
  shows "holds (bindM m f) s (\<lambda>_ u. R s u)"
  using assms unfolding holds_bindM by (rule holds_mono) (auto split: sum.splits)

end
