(* ===== verification/Weight_Records.thy ===== *)
theory Weight_Records
  imports Dataclass Effect
begin

text \<open>
  The data of \<open>optima/chain/weights.py\<close>: the projection that settlement hands to the signer,
  the records of the publication journal, the result of a reconciliation, and the comparison of
  a projection with the chain. Of \<open>optima/chain/__init__.py\<close> it has the two views of the chain.
  Python's floats are exact rationals here.
\<close>

section \<open>Views of the chain\<close>

record MetagraphView =
  mv_netuid :: int
  mv_block :: int
  mv_block_hash :: string
  mv_uids :: "int list"
  mv_hotkeys :: "string list"
  mv_validator_permit :: "bool list"
  mv_last_update :: "int list"

text \<open>
  \<open>list.index\<close>: the first position, \<open>None\<close> where Python raises \<open>ValueError\<close>. A view that
  \<open>fetch_metagraph\<close> returned has as many UIDs as hotkeys.
\<close>

fun index_of :: "'a \<Rightarrow> 'a list \<Rightarrow> nat option" where
  "index_of x [] = None"
| "index_of x (y # ys) = (if x = y then Some 0 else map_option Suc (index_of x ys))"

definition uid_of :: "MetagraphView \<Rightarrow> string \<Rightarrow> int option" where
  "uid_of view hotkey =
     (case index_of hotkey (mv_hotkeys view) of None \<Rightarrow> None
      | Some i \<Rightarrow> if i < length (mv_uids view) then Some (mv_uids view ! i) else None)"

record ValidatorWeightSnapshot =
  vws_weights :: "(string \<times> rat) list"
  vws_last_update_block :: int

section \<open>The projection\<close>

definition WEIGHT_PARTS :: int where "WEIGHT_PARTS = 1000000"

definition PUBLICATION_STATUSES :: "string list" where
  "PUBLICATION_STATUSES = [''intent'', ''pending'', ''held'', ''confirmed'', ''released'']"

record WeightProjection =
  wp_chain_scope_digest :: string
  wp_netuid :: int
  wp_validator_hotkey :: string
  wp_policy_digest :: string
  wp_settlement_state_digest :: string
  wp_evaluation_state_digest :: string
  wp_metagraph_digest :: string
  wp_arena_state_digests :: "string list"
  wp_stack_generation :: int
  wp_effective_block :: int
  wp_crown_count :: int
  wp_evidence_digests :: "string list"
  wp_weights_ppm :: "(string \<times> int) list"

definition wp_exact_int :: "pyval \<Rightarrow> string \<Rightarrow> py_error + int" where
  "wp_exact_int v message =
     (case v of PyInt n \<Rightarrow> if n < 0 then Inl (WeightPublicationError message) else Inr n
      | _ \<Rightarrow> Inl (WeightPublicationError message))"

text \<open>The identity check \<open>not value or value.strip() != value or len(value) > 256\<close>.\<close>

definition signer_name :: "string \<Rightarrow> bool" where
  "signer_name s \<longleftrightarrow> s \<noteq> [] \<and> py_strip s = s \<and> length s \<le> 256"

definition wp_identity :: "pyval \<Rightarrow> pyval \<Rightarrow> py_error + (int \<times> string)" where
  "wp_identity netuid hotkey =
     (let fail = Inl (WeightPublicationError ''projection chain/signer identity is malformed'') in
      case netuid of
        PyInt n \<Rightarrow>
          (if n < 0 then fail else
           case hotkey of PyStr h \<Rightarrow> if signer_name h then Inr (n, h) else fail | _ \<Rightarrow> fail)
      | _ \<Rightarrow> fail)"

text \<open>
  \<open>any(require_sha256_hex(value) != value ...)\<close>: the check returns its argument or raises.
\<close>

definition wp_inventory :: "string list \<Rightarrow> string list \<Rightarrow> int \<Rightarrow> py_error + unit" where
  "wp_inventory evidence arenas crown_count =
     (let fail = Inl (WeightPublicationError ''projection evidence inventory is malformed'') in
      if \<not> sorted_unique evidence then fail else
      bindE (forE evidence (\<lambda>d. bindE (require_sha256_hex (PyStr d) ''evidence_digest'') (\<lambda>_. Inr ()))) (\<lambda>_.
      if int (length evidence) < crown_count \<or> arenas = [] \<or> \<not> sorted_unique arenas then fail else
      forE arenas (\<lambda>d. bindE (require_sha256_hex (PyStr d) ''arena_state_digest'') (\<lambda>_. Inr ()))))"

definition wp_rows :: "(string \<times> pyval) list \<Rightarrow> py_error + (string \<times> int) list" where
  "wp_rows rows =
     (let err = WeightPublicationError ''projection weights are not canonical ppm'' in
      if rows = [] \<or> \<not> sorted_unique (map fst rows) then Inl err else
      bindE (mapE (\<lambda>(h, v). case v of PyInt n \<Rightarrow> if signer_name h \<and> 0 < n then Inr (h, n) else Inl err
        | _ \<Rightarrow> Inl err) rows) (\<lambda>typed.
      if sum_list (map snd typed) \<noteq> WEIGHT_PARTS then Inl err else Inr typed))"

definition WeightProjection_init ::
    "string list \<Rightarrow> string list \<Rightarrow> (string \<times> pyval) list \<Rightarrow> (string \<times> pyval) list \<Rightarrow>
     py_error + WeightProjection" where
  "WeightProjection_init arenas evidence rows row =
     bindE (require_sha256_hex (kwarg row ''chain_scope_digest'') ''chain_scope_digest'') (\<lambda>scope.
     bindE (require_sha256_hex (kwarg row ''policy_digest'') ''policy_digest'') (\<lambda>policy.
     bindE (require_sha256_hex (kwarg row ''settlement_state_digest'') ''settlement_state_digest'') (\<lambda>settlement.
     bindE (require_sha256_hex (kwarg row ''evaluation_state_digest'') ''evaluation_state_digest'') (\<lambda>evaluation.
     bindE (require_sha256_hex (kwarg row ''metagraph_digest'') ''metagraph_digest'') (\<lambda>metagraph.
     bindE (wp_identity (kwarg row ''netuid'') (kwarg row ''validator_hotkey'')) (\<lambda>(netuid, hotkey).
     bindE (wp_exact_int (kwarg row ''stack_generation'') ''projection stack_generation is malformed'') (\<lambda>generation.
     bindE (wp_exact_int (kwarg row ''effective_block'') ''projection effective_block is malformed'') (\<lambda>effective.
     bindE (wp_exact_int (kwarg row ''crown_count'') ''projection crown_count is malformed'') (\<lambda>crowns.
     bindE (wp_inventory evidence arenas crowns) (\<lambda>_.
     bindE (wp_rows rows) (\<lambda>weights.
     Inr \<lparr>wp_chain_scope_digest = scope, wp_netuid = netuid, wp_validator_hotkey = hotkey,
          wp_policy_digest = policy, wp_settlement_state_digest = settlement,
          wp_evaluation_state_digest = evaluation, wp_metagraph_digest = metagraph,
          wp_arena_state_digests = arenas, wp_stack_generation = generation,
          wp_effective_block = effective, wp_crown_count = crowns,
          wp_evidence_digests = evidence, wp_weights_ppm = weights\<rparr>)))))))))))"

definition WeightProjection_weights :: "WeightProjection \<Rightarrow> (string \<times> rat) list" where
  "WeightProjection_weights p = dict_of (map (\<lambda>(h, ppm). (h, of_int ppm / of_int WEIGHT_PARTS)) (wp_weights_ppm p))"

definition WeightProjection_fields :: "WeightProjection \<Rightarrow> (string \<times> json) list" where
  "WeightProjection_fields p =
     [(''chain_scope_digest'', JStr (wp_chain_scope_digest p)),
      (''arena_state_digests'', JList (map JStr (wp_arena_state_digests p))),
      (''crown_count'', JInt (wp_crown_count p)),
      (''effective_block'', JInt (wp_effective_block p)),
      (''evaluation_state_digest'', JStr (wp_evaluation_state_digest p)),
      (''evidence_digests'', JList (map JStr (wp_evidence_digests p))),
      (''netuid'', JInt (wp_netuid p)),
      (''metagraph_digest'', JStr (wp_metagraph_digest p)),
      (''policy_digest'', JStr (wp_policy_digest p)),
      (''settlement_state_digest'', JStr (wp_settlement_state_digest p)),
      (''stack_generation'', JInt (wp_stack_generation p)),
      (''validator_hotkey'', JStr (wp_validator_hotkey p)),
      (''weights_ppm'', JList (map (\<lambda>(h, n). JList [JStr h, JInt n]) (wp_weights_ppm p)))]"

definition wp_field_names :: "string list" where
  "wp_field_names = [''chain_scope_digest'', ''netuid'', ''validator_hotkey'', ''policy_digest'',
     ''settlement_state_digest'', ''evaluation_state_digest'', ''metagraph_digest'',
     ''arena_state_digests'', ''stack_generation'', ''effective_block'', ''crown_count'',
     ''evidence_digests'', ''weights_ppm'']"

text \<open>\<open>type(value) is not dict or set(value) != fields\<close>.\<close>

definition exact_members :: "pyval \<Rightarrow> string list \<Rightarrow> string \<Rightarrow> py_error + (string \<times> pyval) list" where
  "exact_members v names message =
     (case v of
        PyDict d \<Rightarrow>
          (case str_keys d of
             Some row \<Rightarrow> if set (map fst row) = set names then Inr row
               else Inl (WeightPublicationError message)
           | None \<Rightarrow> Inl (WeightPublicationError message))
      | _ \<Rightarrow> Inl (WeightPublicationError message))"

definition py_list_of :: "pyval \<Rightarrow> string \<Rightarrow> py_error + pyval list" where
  "py_list_of v message = (case v of PyList xs \<Rightarrow> Inr xs | _ \<Rightarrow> Inl (WeightPublicationError message))"

text \<open>
  A digest or a hotkey that is no string is refused while the inventory or the rows are
  checked, with \<open>TypeError\<close> or the check's own error; the model has one error for both.
\<close>

definition wp_str_items :: "pyval list \<Rightarrow> py_error + string list" where
  "wp_str_items vs = mapE (\<lambda>v. case v of PyStr s \<Rightarrow> Inr s | _ \<Rightarrow> Inl (PyTypeError ''projection inventory'')) vs"

definition wp_pair :: "pyval \<Rightarrow> py_error + (pyval \<times> pyval)" where
  "wp_pair v = (case v of PyList [a, b] \<Rightarrow> Inr (a, b)
     | _ \<Rightarrow> Inl (WeightPublicationError ''weight projection rows are malformed''))"

definition wp_row :: "pyval \<times> pyval \<Rightarrow> py_error + (string \<times> pyval)" where
  "wp_row r = (case r of (PyStr h, v) \<Rightarrow> Inr (h, v) | _ \<Rightarrow> Inl (PyTypeError ''projection weights''))"

definition WeightProjection_from_dict :: "pyval \<Rightarrow> py_error + WeightProjection" where
  "WeightProjection_from_dict v =
     bindE (exact_members v wp_field_names ''weight projection fields do not match'') (\<lambda>row.
     bindE (py_list_of (kwarg row ''evidence_digests'') ''weight projection arrays are malformed'') (\<lambda>evidence.
     bindE (py_list_of (kwarg row ''arena_state_digests'') ''weight projection arrays are malformed'') (\<lambda>arenas.
     bindE (py_list_of (kwarg row ''weights_ppm'') ''weight projection arrays are malformed'') (\<lambda>rows.
     bindE (mapE wp_pair rows) (\<lambda>pairs.
     bindE (wp_str_items arenas) (\<lambda>arena_digests.
     bindE (wp_str_items evidence) (\<lambda>evidence_digests.
     bindE (mapE wp_row pairs) (\<lambda>weight_rows.
     WeightProjection_init arena_digests evidence_digests weight_rows row))))))))"

definition WeightProjection_digest :: "py_env \<Rightarrow> WeightProjection \<Rightarrow> string" where
  "WeightProjection_digest E p =
     json_digest E ''optima.chain.weight-projection'' (JObj (WeightProjection_fields p))"

section \<open>Journal records\<close>

record WeightPublicationRecord =
  wr_projection_digest :: string
  wr_status :: string
  wr_prior_record_digest :: "string option"
  wr_submit_block :: int
  wr_retry_after_block :: int
  wr_reveal_round :: int
  wr_confirmed_block :: int
  wr_confirmed_last_update :: int
  wr_reason :: string

definition optional_digest :: "pyval \<Rightarrow> string \<Rightarrow> py_error + string option" where
  "optional_digest v field =
     (if v = PyNone then Inr None else bindE (require_sha256_hex v field) (\<lambda>d. Inr (Some d)))"

definition wr_reason_text :: "pyval \<Rightarrow> py_error + string" where
  "wr_reason_text v =
     (case v of PyStr s \<Rightarrow> if 2048 < length s \<or> has_control s
        then Inl (WeightPublicationError ''publication reason is malformed'') else Inr s
      | _ \<Rightarrow> Inl (WeightPublicationError ''publication reason is malformed''))"

definition record_bounds :: "WeightPublicationRecord \<Rightarrow> py_error + unit" where
  "record_bounds r =
     (if (wr_status r = ''intent'' \<or> wr_status r = ''pending'')
         \<and> (wr_submit_block r \<le> 0 \<or> wr_retry_after_block r < wr_submit_block r)
      then Inl (WeightPublicationError ''in-flight publication bounds are malformed'') else
      if wr_status r = ''held''
         \<and> \<not> ((wr_submit_block r = 0 \<and> wr_retry_after_block r = 0)
              \<or> (0 < wr_submit_block r \<and> wr_submit_block r \<le> wr_retry_after_block r))
      then Inl (WeightPublicationError ''held publication bounds are malformed'') else
      if wr_status r = ''confirmed''
         \<and> (wr_confirmed_block r < wr_confirmed_last_update r
            \<or> (0 < wr_submit_block r \<and> wr_confirmed_last_update r < wr_submit_block r))
      then Inl (WeightPublicationError ''confirmation chronology is malformed'') else
      if wr_status r = ''released'' \<and> wr_reason r = []
      then Inl (WeightPublicationError ''publication release requires an audit reason'') else Inr ())"

definition WeightPublicationRecord_init :: "(string \<times> pyval) list \<Rightarrow> py_error + WeightPublicationRecord" where
  "WeightPublicationRecord_init row =
     bindE (require_sha256_hex (kwarg row ''projection_digest'') ''projection_digest'') (\<lambda>projection.
     bindE (optional_digest (kwarg row ''prior_record_digest'') ''prior_record_digest'') (\<lambda>prior.
     bindE (py_in_strs (kwarg row ''status'') PUBLICATION_STATUSES) (\<lambda>supported.
     if \<not> supported then Inl (WeightPublicationError ''publication status is unsupported'') else
     bindE (wp_exact_int (kwarg row ''submit_block'') ''publication submit_block is malformed'') (\<lambda>submit.
     bindE (wp_exact_int (kwarg row ''retry_after_block'') ''publication retry_after_block is malformed'') (\<lambda>retry.
     bindE (wp_exact_int (kwarg row ''reveal_round'') ''publication reveal_round is malformed'') (\<lambda>reveal.
     bindE (wp_exact_int (kwarg row ''confirmed_block'') ''publication confirmed_block is malformed'') (\<lambda>cblock.
     bindE (wp_exact_int (kwarg row ''confirmed_last_update'')
       ''publication confirmed_last_update is malformed'') (\<lambda>clast.
     bindE (wr_reason_text (kwarg row ''reason'')) (\<lambda>reason.
     let r = \<lparr>wr_projection_digest = projection,
           wr_status = (case kwarg row ''status'' of PyStr s \<Rightarrow> s | _ \<Rightarrow> []),
           wr_prior_record_digest = prior, wr_submit_block = submit, wr_retry_after_block = retry,
           wr_reveal_round = reveal, wr_confirmed_block = cblock, wr_confirmed_last_update = clast,
           wr_reason = reason\<rparr>
     in bindE (record_bounds r) (\<lambda>_. Inr r))))))))))"

definition WeightPublicationRecord_fields :: "WeightPublicationRecord \<Rightarrow> (string \<times> json) list" where
  "WeightPublicationRecord_fields r =
     [(''confirmed_block'', JInt (wr_confirmed_block r)),
      (''confirmed_last_update'', JInt (wr_confirmed_last_update r)),
      (''prior_record_digest'', json_of_option JStr (wr_prior_record_digest r)),
      (''projection_digest'', JStr (wr_projection_digest r)),
      (''reason'', JStr (wr_reason r)),
      (''retry_after_block'', JInt (wr_retry_after_block r)),
      (''reveal_round'', JInt (wr_reveal_round r)),
      (''status'', JStr (wr_status r)),
      (''submit_block'', JInt (wr_submit_block r))]"

definition WeightPublicationRecord_new :: "WeightPublicationRecord \<Rightarrow> py_error + WeightPublicationRecord" where
  "WeightPublicationRecord_new r = WeightPublicationRecord_init (kwargs_of (WeightPublicationRecord_fields r))"

definition wr_field_names :: "string list" where
  "wr_field_names = [''projection_digest'', ''status'', ''prior_record_digest'', ''submit_block'',
     ''retry_after_block'', ''reveal_round'', ''confirmed_block'', ''confirmed_last_update'', ''reason'']"

definition WeightPublicationRecord_from_dict :: "pyval \<Rightarrow> py_error + WeightPublicationRecord" where
  "WeightPublicationRecord_from_dict v =
     bindE (exact_members v wr_field_names ''publication record fields do not match'')
       WeightPublicationRecord_init"

definition WeightPublicationRecord_digest :: "py_env \<Rightarrow> WeightPublicationRecord \<Rightarrow> string" where
  "WeightPublicationRecord_digest E r =
     json_digest E ''optima.chain.weight-publication'' (JObj (WeightPublicationRecord_fields r))"

section \<open>Results\<close>

record WeightPublicationResult =
  res_projection_digest :: string
  res_status :: string
  res_record :: "WeightPublicationRecord option"
  res_chain_matches :: bool
  res_submitted :: bool
  res_dry_run :: bool
  res_observed_block :: int
  res_refresh_due :: bool

definition WeightPublicationResult_new :: "WeightPublicationResult \<Rightarrow> py_error + WeightPublicationResult" where
  "WeightPublicationResult_new r =
     bindE (require_sha256_hex (PyStr (res_projection_digest r)) ''projection_digest'') (\<lambda>_.
     if res_status r \<notin> set (''dry_run'' # PUBLICATION_STATUSES)
        \<or> res_observed_block r < 0
        \<or> res_dry_run r \<noteq> (res_status r = ''dry_run'')
        \<or> (res_status r = ''dry_run'') \<noteq> (res_record r = None)
        \<or> (case res_record r of None \<Rightarrow> False | Some rec \<Rightarrow> res_status r \<noteq> wr_status rec)
        \<or> (res_refresh_due r \<and> (res_status r \<noteq> ''confirmed'' \<or> \<not> res_chain_matches r))
     then Inl (WeightPublicationError ''publication result status is unsupported'') else Inr r)"

section \<open>Comparing a projection with the chain\<close>

text \<open>\<open>math.isclose\<close> on finite numbers.\<close>

definition is_close :: "rat \<Rightarrow> rat \<Rightarrow> rat \<Rightarrow> rat \<Rightarrow> bool" where
  "is_close a b rel_tol abs_tol \<longleftrightarrow> \<bar>a - b\<bar> \<le> max (rel_tol * max \<bar>a\<bar> \<bar>b\<bar>) abs_tol"

definition weights_match :: "ValidatorWeightSnapshot \<Rightarrow> WeightProjection \<Rightarrow> bool" where
  "weights_match snapshot p =
     (let expected = WeightProjection_weights p in
      set (map fst (vws_weights snapshot)) = set (map fst expected)
      \<and> (\<forall>h \<in> set (map fst expected).
           is_close (dict_get h 0 (vws_weights snapshot)) (dict_get h 0 expected) (2 / 100000) (2 / 100000)))"

definition metagraph_digest_of :: "py_env \<Rightarrow> WeightProjection \<Rightarrow> MetagraphView \<Rightarrow> py_error + string" where
  "metagraph_digest_of E p view =
     (if length (mv_uids view) \<noteq> length (mv_hotkeys view)
      then Inl (PyValueError ''zip() arguments differ in length'')
      else Inr (json_digest E ''optima.economics.metagraph-membership'' (JObj
        [(''block'', JInt (mv_block view)),
         (''block_hash'', JStr (map lower_char (mv_block_hash view))),
         (''chain_scope_digest'', JStr (wp_chain_scope_digest p)),
         (''members'', JList (map (\<lambda>(uid, hotkey). JObj [(''hotkey'', JStr hotkey), (''uid'', JInt uid)])
            (sort (zip (mv_uids view) (mv_hotkeys view)))))])))"

definition authority_uids_unchanged :: "WeightProjection \<Rightarrow> MetagraphView \<Rightarrow> MetagraphView \<Rightarrow> bool" where
  "authority_uids_unchanged p bound observed \<longleftrightarrow>
     (\<forall>hotkey \<in> set (wp_validator_hotkey p # map fst (wp_weights_ppm p)).
        uid_of bound hotkey \<noteq> None \<and> uid_of bound hotkey = uid_of observed hotkey)"

text \<open>
  \<open>getattr(response, ''data'', None)\<close> reads an attribute of an object of the SDK; \<open>attr_data\<close>
  stands for it.
\<close>

definition dict_lookup :: "string \<Rightarrow> (pyval \<times> pyval) list \<Rightarrow> pyval" where
  "dict_lookup k d = (case map_of d (PyStr k) of None \<Rightarrow> PyNone | Some v \<Rightarrow> v)"

definition reveal_round_of :: "(pyval \<Rightarrow> pyval) \<Rightarrow> pyval \<Rightarrow> int" where
  "reveal_round_of attr_data result =
     (case result of
        PyDict d \<Rightarrow>
          (let response = dict_lookup ''result'' d;
               rows = (case response of PyDict e \<Rightarrow> dict_lookup ''data'' e | v \<Rightarrow> attr_data v)
           in case rows of
                PyDict f \<Rightarrow> (case dict_lookup ''reveal_round'' f of PyInt n \<Rightarrow> if 0 \<le> n then n else 0 | _ \<Rightarrow> 0)
              | _ \<Rightarrow> 0)
      | _ \<Rightarrow> 0)"

end
