(* ===== verification/Weight_Publication.thy ===== *)
theory Weight_Publication
  imports Weight_Records
begin

text \<open>
  The operations of \<open>optima/chain/weights.py\<close>: advancing the publication journal, releasing a
  hold, resuming a projection in flight, and \<open>reconcile_weight_publication\<close>, one definition
  per stage of it. The journal is a parameter, its three operations in \<open>journal_ops\<close>. What the
  chain answers is a parameter too: \<open>chain_io\<close> has the outcome of every call of
  \<open>optima.chain\<close>, one field per call site. The world keeps the journal and the sequence of its
  writes and of the signed submissions, oldest first.
\<close>

section \<open>World\<close>

datatype pub_event =
    Journaled WeightPublicationRecord
  | Signed string MetagraphView

record 'j pub_world =
  pw_journal :: 'j
  pw_events :: "pub_event list"

record 'j journal_ops =
  jo_load :: "'j \<Rightarrow> py_error + WeightPublicationRecord option"
  jo_compare_and_swap :: "string option \<Rightarrow> WeightPublicationRecord \<Rightarrow> 'j \<Rightarrow> py_error + 'j"
  jo_retained_projection :: "string \<Rightarrow> 'j \<Rightarrow> py_error + WeightProjection"

text \<open>An exception of the SDK is kept as the name of its class.\<close>

record chain_io =
  io_live :: "py_error + MetagraphView"
  io_bound :: "int \<Rightarrow> py_error + MetagraphView"
  io_row :: "MetagraphView \<Rightarrow> py_error + ValidatorWeightSnapshot"
  io_dry :: "py_error + unit"
  io_signing :: "py_error + MetagraphView"
  io_signing_row :: "MetagraphView \<Rightarrow> py_error + ValidatorWeightSnapshot"
  io_submit :: "string + pyval"
  io_attr_data :: "pyval \<Rightarrow> pyval"
  io_post :: "py_error + MetagraphView"
  io_post_row :: "MetagraphView \<Rightarrow> py_error + ValidatorWeightSnapshot"

text \<open>\<open>signer_wallet\<close>: absent, an object without a hotkey address, or a wallet.\<close>

datatype signer = NoSigner | SignerWithoutHotkey | Signer string

record pub_options =
  po_refresh_blocks :: int
  po_dry_run :: bool
  po_reconcile_only :: bool
  po_allow_stale_initial :: bool
  po_require_current_crown :: bool

definition journal_load :: "'j journal_ops \<Rightarrow> ('j pub_world, WeightPublicationRecord option) eff" where
  "journal_load J w = (jo_load J (pw_journal w), w)"

definition journal_write ::
    "'j journal_ops \<Rightarrow> string option \<Rightarrow> WeightPublicationRecord \<Rightarrow> ('j pub_world, unit) eff" where
  "journal_write J expected r w =
     (case jo_compare_and_swap J expected r (pw_journal w) of
        Inl e \<Rightarrow> (Inl e, w)
      | Inr j \<Rightarrow> (Inr (), w\<lparr>pw_journal := j, pw_events := pw_events w @ [Journaled r]\<rparr>))"

definition sign_event :: "string \<Rightarrow> MetagraphView \<Rightarrow> ('j pub_world, unit) eff" where
  "sign_event d view w = (Inr (), w\<lparr>pw_events := pw_events w @ [Signed d view]\<rparr>)"

section \<open>Advancing the journal\<close>

definition advance ::
    "py_env \<Rightarrow> 'j journal_ops \<Rightarrow> WeightPublicationRecord option \<Rightarrow> WeightPublicationRecord \<Rightarrow>
     ('j pub_world, WeightPublicationRecord) eff" where
  "advance E J current replacement =
     bindM (liftM (WeightPublicationRecord_new replacement)) (\<lambda>replacement.
     let expected = map_option (WeightPublicationRecord_digest E) current in
     bindM (if wr_prior_record_digest replacement \<noteq> expected
            then liftM (WeightPublicationRecord_new (replacement\<lparr>wr_prior_record_digest := expected\<rparr>))
            else retM replacement) (\<lambda>replacement.
     bindM (journal_write J expected replacement) (\<lambda>_. retM replacement)))"

text \<open>A record with the defaults of the dataclass.\<close>

definition blank_record :: "string \<Rightarrow> string \<Rightarrow> WeightPublicationRecord" where
  "blank_record projection_digest status =
     \<lparr>wr_projection_digest = projection_digest, wr_status = status, wr_prior_record_digest = None,
      wr_submit_block = 0, wr_retry_after_block = 0, wr_reveal_round = 0, wr_confirmed_block = 0,
      wr_confirmed_last_update = 0, wr_reason = []\<rparr>"

definition held ::
    "py_env \<Rightarrow> 'j journal_ops \<Rightarrow> WeightPublicationRecord \<Rightarrow> string \<Rightarrow>
     ('j pub_world, WeightPublicationRecord) eff" where
  "held E J current reason =
     advance E J (Some current)
       ((blank_record (wr_projection_digest current) ''held'')
          \<lparr>wr_submit_block := wr_submit_block current, wr_retry_after_block := wr_retry_after_block current,
           wr_reveal_round := wr_reveal_round current, wr_confirmed_block := wr_confirmed_block current,
           wr_confirmed_last_update := wr_confirmed_last_update current, wr_reason := reason\<rparr>)"

definition release_weight_publication_hold ::
    "py_env \<Rightarrow> 'j journal_ops \<Rightarrow> string \<Rightarrow> ('j pub_world, WeightPublicationRecord) eff" where
  "release_weight_publication_hold E J reason =
     (if \<not> reason_ok reason
      then raiseM (WeightPublicationError ''publication release reason is malformed'') else
      bindM (journal_load J) (\<lambda>loaded.
      let refuse = raiseM (WeightPublicationError ''only a retained publication hold may be released'') in
      case loaded of
        None \<Rightarrow> refuse
      | Some current \<Rightarrow>
          if wr_status current \<noteq> ''held'' then refuse else
          advance E J (Some current)
            ((blank_record (wr_projection_digest current) ''released'')
               \<lparr>wr_submit_block := wr_submit_block current,
                wr_retry_after_block := wr_retry_after_block current,
                wr_reveal_round := wr_reveal_round current, wr_confirmed_block := wr_confirmed_block current,
                wr_confirmed_last_update := wr_confirmed_last_update current, wr_reason := reason\<rparr>)))"

definition resume_weight_projection ::
    "py_env \<Rightarrow> 'j journal_ops \<Rightarrow> WeightProjection \<Rightarrow> ('j pub_world, WeightProjection) eff" where
  "resume_weight_projection E J proposed =
     bindM (journal_load J) (\<lambda>loaded.
     case loaded of
       None \<Rightarrow> retM proposed
     | Some current \<Rightarrow>
         if wr_status current \<notin> {''intent'', ''pending''} then retM proposed else
         bindM (\<lambda>w. (jo_retained_projection J (wr_projection_digest current) (pw_journal w), w)) (\<lambda>retained.
         if WeightProjection_digest E retained \<noteq> wr_projection_digest current
         then raiseM (WeightPublicationError ''journal returned an invalid retained projection'') else
         if wp_chain_scope_digest retained \<noteq> wp_chain_scope_digest proposed
            \<or> wp_netuid retained \<noteq> wp_netuid proposed
            \<or> wp_validator_hotkey retained \<noteq> wp_validator_hotkey proposed
         then raiseM (WeightPublicationError
           ''in-flight publication differs from the current chain authority'')
         else retM retained))"

section \<open>Reading the authority\<close>

definition check_mode :: "pub_options \<Rightarrow> signer \<Rightarrow> ('s, unit) eff" where
  "check_mode opts wallet =
     (if po_refresh_blocks opts \<le> 0
      then raiseM (WeightPublicationError ''weight refresh cadence is malformed'') else
      if po_reconcile_only opts \<and> po_dry_run opts
      then raiseM (WeightPublicationError ''reconcile-only cannot be combined with dry-run'') else
      if po_reconcile_only opts \<and> wallet \<noteq> NoSigner
      then raiseM (WeightPublicationError ''reconcile-only forbids a signer wallet'') else retM ())"

text \<open>What a reconciliation has read before it decides.\<close>

record pub_point =
  pt_current :: "WeightPublicationRecord option"
  pt_retained :: bool
  pt_live :: MetagraphView
  pt_bound :: MetagraphView
  pt_pre :: ValidatorWeightSnapshot
  pt_matches :: bool

abbreviation pt_observed :: "pub_point \<Rightarrow> int" where
  "pt_observed pt \<equiv> mv_block (pt_live pt)"

definition status_in :: "WeightPublicationRecord option \<Rightarrow> string set \<Rightarrow> bool" where
  "status_in current statuses = (case current of None \<Rightarrow> False | Some r \<Rightarrow> wr_status r \<in> statuses)"

definition record_of :: "py_env \<Rightarrow> WeightProjection \<Rightarrow> WeightPublicationRecord option \<Rightarrow> bool" where
  "record_of E p current =
     (case current of None \<Rightarrow> False | Some r \<Rightarrow> wr_projection_digest r = WeightProjection_digest E p)"

definition in_flight :: "py_env \<Rightarrow> WeightProjection \<Rightarrow> WeightPublicationRecord option \<Rightarrow> bool" where
  "in_flight E p current \<longleftrightarrow> status_in current {''intent'', ''pending''} \<and> record_of E p current"

definition retained_reconcile_head ::
    "py_env \<Rightarrow> WeightProjection \<Rightarrow> pub_options \<Rightarrow> WeightPublicationRecord option \<Rightarrow> bool" where
  "retained_reconcile_head E p opts current \<longleftrightarrow> po_reconcile_only opts
     \<and> status_in current {''pending'', ''released'', ''confirmed''} \<and> record_of E p current"

definition check_stale ::
    "WeightProjection \<Rightarrow> pub_options \<Rightarrow> bool \<Rightarrow> MetagraphView \<Rightarrow> MetagraphView \<Rightarrow> py_error + unit" where
  "check_stale p opts retained live bound =
     (if \<not> retained \<and> mv_block live \<noteq> wp_effective_block p then
        if \<not> po_allow_stale_initial opts
        then Inl (WeightPublicationError ''weight projection is stale for the immediately refreshed metagraph'')
        else if \<not> authority_uids_unchanged p bound live
        then Inl (WeightPublicationError ''stale weight projection recipient UID mapping changed'')
        else Inr ()
      else Inr ())"

definition check_in_flight ::
    "py_env \<Rightarrow> WeightProjection \<Rightarrow> WeightPublicationRecord option \<Rightarrow> MetagraphView \<Rightarrow> py_error + unit" where
  "check_in_flight E p current live =
     (if in_flight E p current
         \<and> (case current of None \<Rightarrow> False | Some r \<Rightarrow>
              wr_submit_block r < wp_effective_block p \<or> mv_block live < wr_submit_block r)
      then Inl (WeightPublicationError ''in-flight publication chronology differs from retained authority'')
      else Inr ())"

definition read_authority ::
    "py_env \<Rightarrow> chain_io \<Rightarrow> WeightProjection \<Rightarrow> pub_options \<Rightarrow> WeightPublicationRecord option \<Rightarrow>
     py_error + pub_point" where
  "read_authority E io p opts current =
     (let retained = in_flight E p current \<or> retained_reconcile_head E p opts current in
      bindE (io_live io) (\<lambda>live.
      bindE (if mv_block live = wp_effective_block p then Inr live
             else io_bound io (wp_effective_block p)) (\<lambda>bound.
      bindE (metagraph_digest_of E p bound) (\<lambda>md.
      if md \<noteq> wp_metagraph_digest p
      then Inl (WeightPublicationError ''weight projection metagraph binding cannot be reopened'') else
      bindE (check_stale p opts retained live bound) (\<lambda>_.
      bindE (check_in_flight E p current live) (\<lambda>_.
      bindE (io_row io live) (\<lambda>pre.
      if mv_block live < vws_last_update_block pre \<or> mv_block live < wp_effective_block p
      then Inl (ChainWeightStateError ''weight authority chronology is inconsistent'') else
      Inr \<lparr>pt_current = current, pt_retained = retained, pt_live = live, pt_bound = bound, pt_pre = pre,
           pt_matches = weights_match pre p\<rparr>)))))))"

definition publish_result ::
    "py_env \<Rightarrow> WeightProjection \<Rightarrow> string \<Rightarrow> WeightPublicationRecord option \<Rightarrow> bool \<Rightarrow> bool \<Rightarrow> int \<Rightarrow> bool \<Rightarrow>
     ('s, WeightPublicationResult) eff" where
  "publish_result E p status rec matches submitted observed refresh_due =
     liftM (WeightPublicationResult_new
       \<lparr>res_projection_digest = WeightProjection_digest E p, res_status = status, res_record = rec,
        res_chain_matches = matches, res_submitted = submitted, res_dry_run = (status = ''dry_run''),
        res_observed_block = observed, res_refresh_due = refresh_due\<rparr>)"

text \<open>
  A confirmation that keeps the submission fields of the record it resolves, and one of a row
  that was on the chain before any submission.
\<close>

definition confirmed_from ::
    "py_env \<Rightarrow> WeightProjection \<Rightarrow> WeightPublicationRecord \<Rightarrow> int \<Rightarrow> int \<Rightarrow> string \<Rightarrow> WeightPublicationRecord" where
  "confirmed_from E p current observed last_update reason =
     (blank_record (WeightProjection_digest E p) ''confirmed'')
       \<lparr>wr_submit_block := wr_submit_block current, wr_retry_after_block := wr_retry_after_block current,
        wr_reveal_round := wr_reveal_round current, wr_confirmed_block := observed,
        wr_confirmed_last_update := last_update, wr_reason := reason\<rparr>"

definition confirmed_preexisting ::
    "py_env \<Rightarrow> WeightProjection \<Rightarrow> int \<Rightarrow> int \<Rightarrow> WeightPublicationRecord" where
  "confirmed_preexisting E p observed last_update =
     (blank_record (WeightProjection_digest E p) ''confirmed'')
       \<lparr>wr_confirmed_block := observed, wr_confirmed_last_update := last_update,
        wr_reason := ''preexisting_authoritative_readback''\<rparr>"

section \<open>Reconciling without signing\<close>

definition reconcile_pending ::
    "py_env \<Rightarrow> 'j journal_ops \<Rightarrow> WeightProjection \<Rightarrow> int \<Rightarrow> pub_point \<Rightarrow> WeightPublicationRecord \<Rightarrow>
     ('j pub_world, WeightPublicationResult) eff" where
  "reconcile_pending E J p refresh pt current =
     (let last_update = vws_last_update_block (pt_pre pt) in
      if wr_projection_digest current \<noteq> WeightProjection_digest E p
      then raiseM (WeightPublicationError
        ''reconcile-only pending projection differs from retained authority'') else
      if \<not> pt_matches pt \<or> last_update < wr_submit_block current
      then raiseM (WeightPublicationError
        ''reconcile-only pending publication lacks exact authoritative readback'') else
      bindM (advance E J (Some current)
        (confirmed_from E p current (pt_observed pt) last_update ''authoritative_readback'')) (\<lambda>new.
      publish_result E p ''confirmed'' (Some new) True False (pt_observed pt)
        (refresh \<le> pt_observed pt - last_update)))"

definition reconcile_settled ::
    "py_env \<Rightarrow> 'j journal_ops \<Rightarrow> WeightProjection \<Rightarrow> int \<Rightarrow> pub_point \<Rightarrow> WeightPublicationRecord \<Rightarrow>
     ('j pub_world, WeightPublicationResult) eff" where
  "reconcile_settled E J p refresh pt current =
     (let last_update = vws_last_update_block (pt_pre pt) in
      if \<not> pt_matches pt
      then raiseM (WeightPublicationError
        ''reconcile-only authoritative row differs; a submission is required'') else
      if wr_status current = ''released'' \<and> last_update < wr_submit_block current
      then raiseM (WeightPublicationError
        ''reconcile-only released publication lacks post-submit authoritative readback'') else
      if refresh \<le> pt_observed pt - last_update
      then raiseM (WeightPublicationError
        ''reconcile-only confirmed row is refresh-due; a submission is required'') else
      if wr_status current = ''confirmed'' \<and> wr_projection_digest current = WeightProjection_digest E p
      then publish_result E p ''confirmed'' (Some current) True False (pt_observed pt) False else
      bindM (advance E J (Some current) (confirmed_from E p current (pt_observed pt) last_update
        ''preexisting_authoritative_readback'')) (\<lambda>new.
      publish_result E p ''confirmed'' (Some new) True False (pt_observed pt) False))"

definition reconcile_without_signer ::
    "py_env \<Rightarrow> 'j journal_ops \<Rightarrow> WeightProjection \<Rightarrow> int \<Rightarrow> pub_point \<Rightarrow>
     ('j pub_world, WeightPublicationResult) eff" where
  "reconcile_without_signer E J p refresh pt =
     (let refuse = raiseM (WeightPublicationError
        ''reconcile-only requires a pending, released, or confirmed journal head'') in
      case pt_current pt of
        None \<Rightarrow> refuse
      | Some current \<Rightarrow>
          if wr_status current \<notin> {''pending'', ''released'', ''confirmed''} then refuse else
          if pt_retained pt \<and> \<not> authority_uids_unchanged p (pt_bound pt) (pt_live pt)
          then raiseM (WeightPublicationError ''reconcile-only recipient UID mapping changed'') else
          if wr_status current = ''pending'' then reconcile_pending E J p refresh pt current
          else reconcile_settled E J p refresh pt current)"

definition resolve_in_flight ::
    "py_env \<Rightarrow> 'j journal_ops \<Rightarrow> WeightProjection \<Rightarrow> int \<Rightarrow> pub_point \<Rightarrow> WeightPublicationRecord \<Rightarrow>
     ('j pub_world, WeightPublicationResult) eff" where
  "resolve_in_flight E J p refresh pt current =
     (let observed = pt_observed pt; last_update = vws_last_update_block (pt_pre pt) in
      if wr_projection_digest current \<noteq> WeightProjection_digest E p then
        bindM (held E J current ''projection_changed_while_unresolved'') (\<lambda>new.
        publish_result E p ''held'' (Some new) (pt_matches pt) False observed False)
      else if wr_status current = ''held'' then
        publish_result E p ''held'' (Some current) (pt_matches pt) False observed False
      else if \<not> authority_uids_unchanged p (pt_bound pt) (pt_live pt) then
        bindM (held E J current ''metagraph_uid_mapping_changed'') (\<lambda>new.
        publish_result E p ''held'' (Some new) False False observed False)
      else if pt_matches pt \<and> wr_submit_block current \<le> last_update then
        bindM (advance E J (Some current)
          (confirmed_from E p current observed last_update ''authoritative_readback'')) (\<lambda>new.
        publish_result E p ''confirmed'' (Some new) True False observed (refresh \<le> observed - last_update))
      else if observed < wr_retry_after_block current then
        publish_result E p (wr_status current) (Some current) False False observed False
      else
        bindM (held E J current ''publication_readback_deadline_expired'') (\<lambda>new.
        publish_result E p ''held'' (Some new) False False observed False))"

text \<open>
  A confirmed, absent or released head: a result when the row on the chain already is the
  projection's, \<open>None\<close> when the publication has to be signed.
\<close>

definition resolve_settled ::
    "py_env \<Rightarrow> 'j journal_ops \<Rightarrow> WeightProjection \<Rightarrow> int \<Rightarrow> pub_point \<Rightarrow>
     ('j pub_world, WeightPublicationResult option) eff" where
  "resolve_settled E J p refresh pt =
     (let observed = pt_observed pt; last_update = vws_last_update_block (pt_pre pt);
          fresh = (observed - last_update < refresh);
          done = (\<lambda>r. bindM (publish_result E p ''confirmed'' (Some r) True False observed False) (\<lambda>x. retM (Some x)))
      in case pt_current pt of
           None \<Rightarrow>
             if pt_matches pt \<and> fresh then
               bindM (advance E J None (confirmed_preexisting E p observed last_update)) done
             else retM None
         | Some current \<Rightarrow>
             if wr_status current = ''confirmed'' then
               if record_of E p (Some current) \<and> \<not> pt_matches pt then
                 bindM (held E J current ''confirmed_vector_changed_on_chain'') (\<lambda>new.
                 bindM (publish_result E p ''held'' (Some new) False False observed False) (\<lambda>x. retM (Some x)))
               else if pt_matches pt \<and> fresh then
                 if \<not> record_of E p (Some current) then
                   bindM (advance E J (Some current) (confirmed_preexisting E p observed last_update)) done
                 else done current
               else retM None
             else if wr_status current = ''released'' \<and> pt_matches pt
               \<and> wr_submit_block current \<le> last_update \<and> fresh then
               bindM (advance E J (Some current) (confirmed_from E p current observed last_update
                 ''preexisting_authoritative_readback'')) done
             else retM None)"

section \<open>Signing\<close>

definition check_signer :: "WeightProjection \<Rightarrow> pub_options \<Rightarrow> signer \<Rightarrow> int \<Rightarrow> py_error + unit" where
  "check_signer p opts wallet observed =
     (if po_require_current_crown opts \<and> wp_crown_count p \<le> 0
      then Inl (WeightPublicationError ''real weight submission requires a current crown'') else
      case wallet of
        Signer hotkey \<Rightarrow>
          if hotkey \<noteq> wp_validator_hotkey p
          then Inl (WeightPublicationError ''signer wallet differs from projection authority'') else
          if observed \<le> 0
          then Inl (ChainWeightStateError ''real publication requires a positive chain block'')
          else Inr ()
      | _ \<Rightarrow> Inl (WeightPublicationError ''real weight submission requires a signer wallet''))"

definition open_signing_view ::
    "py_env \<Rightarrow> chain_io \<Rightarrow> WeightProjection \<Rightarrow> pub_point \<Rightarrow> py_error + MetagraphView" where
  "open_signing_view E io p pt =
     bindE (io_signing io) (\<lambda>signing.
     if mv_block signing < pt_observed pt
     then Inl (ChainWeightStateError ''finalized weight authority regressed before signing'') else
     bindE (if mv_block signing = wp_effective_block p
            then bindE (metagraph_digest_of E p signing) (\<lambda>md. Inr (md \<noteq> wp_metagraph_digest p))
            else Inr False) (\<lambda>changed.
     if changed
     then Inl (ChainWeightStateError ''finalized weight authority changed at the projection block'') else
     if \<not> authority_uids_unchanged p (pt_bound pt) signing
     then Inl (WeightPublicationError ''weight recipient UID mapping changed before signing'')
     else Inr signing))"

text \<open>
  The row is read again at the block that will be signed. It yields the journal head to sign
  over, with a result when the row turns out to be published already.
\<close>

definition presign_head ::
    "py_env \<Rightarrow> 'j journal_ops \<Rightarrow> WeightProjection \<Rightarrow> WeightPublicationRecord option \<Rightarrow> int \<Rightarrow> int \<Rightarrow>
     ('j pub_world, WeightPublicationRecord option) eff" where
  "presign_head E J p current block last_update =
     (case current of
        None \<Rightarrow> bindM (advance E J None (confirmed_preexisting E p block last_update)) (\<lambda>r. retM (Some r))
      | Some c \<Rightarrow>
          if wr_status c = ''confirmed'' then
            if \<not> record_of E p current then
              bindM (advance E J current (confirmed_preexisting E p block last_update)) (\<lambda>r. retM (Some r))
            else retM current
          else if wr_status c = ''released'' \<and> wr_submit_block c \<le> last_update then
            bindM (advance E J current (confirmed_from E p c block last_update
              ''preexisting_authoritative_readback'')) (\<lambda>r. retM (Some r))
          else retM current)"

definition presign_readback ::
    "py_env \<Rightarrow> 'j journal_ops \<Rightarrow> chain_io \<Rightarrow> WeightProjection \<Rightarrow> int \<Rightarrow> pub_point \<Rightarrow> MetagraphView \<Rightarrow>
     ('j pub_world, WeightPublicationRecord option \<times> WeightPublicationResult option) eff" where
  "presign_readback E J io p refresh pt signing =
     (if mv_block signing \<le> pt_observed pt then retM (pt_current pt, None) else
      bindM (liftM (io_signing_row io signing)) (\<lambda>row.
      let last_update = vws_last_update_block row; block = mv_block signing in
      if block < last_update
      then raiseM (ChainWeightStateError ''pre-sign weight authority chronology is inconsistent'') else
      if \<not> (weights_match row p \<and> block - last_update < refresh) then retM (pt_current pt, None) else
      bindM (presign_head E J p (pt_current pt) block last_update) (\<lambda>current.
      if status_in current {''confirmed''} \<and> record_of E p current then
        bindM (publish_result E p ''confirmed'' current True False block False) (\<lambda>x. retM (current, Some x))
      else retM (current, None))))"

definition in_flight_record ::
    "py_env \<Rightarrow> WeightProjection \<Rightarrow> string \<Rightarrow> int \<Rightarrow> int \<Rightarrow> int \<Rightarrow> string \<Rightarrow> WeightPublicationRecord" where
  "in_flight_record E p status block refresh reveal reason =
     (blank_record (WeightProjection_digest E p) status)
       \<lparr>wr_submit_block := block, wr_retry_after_block := block + refresh, wr_reveal_round := reveal,
        wr_reason := reason\<rparr>"

text \<open>\<open>bool(response.get(''submitted'')) if isinstance(response, dict) else False\<close>.\<close>

definition was_submitted :: "pyval \<Rightarrow> bool" where
  "was_submitted response = (case response of PyDict d \<Rightarrow> py_truthy (dict_lookup ''submitted'' d) | _ \<Rightarrow> False)"

definition submit_weights ::
    "py_env \<Rightarrow> 'j journal_ops \<Rightarrow> chain_io \<Rightarrow> WeightProjection \<Rightarrow> int \<Rightarrow> WeightPublicationRecord option \<Rightarrow>
     MetagraphView \<Rightarrow> ('j pub_world, WeightPublicationRecord \<times> bool) eff" where
  "submit_weights E J io p refresh current signing =
     (let block = mv_block signing in
      bindM (advance E J current (in_flight_record E p ''intent'' block refresh 0 ''before_sdk_submission'')) (\<lambda>intent.
      bindM (sign_event (WeightProjection_digest E p) signing) (\<lambda>_.
      let (submitted, reveal, reason) =
            (case io_submit io of
               Inl name \<Rightarrow> (False, 0, ''sdk_exception:'' @ name)
             | Inr response \<Rightarrow>
                 (was_submitted response, reveal_round_of (io_attr_data io) response, ''sdk_result_unconfirmed''))
      in bindM (advance E J (Some intent) (in_flight_record E p ''pending'' block refresh reveal reason)) (\<lambda>pending.
         retM (pending, submitted)))))"

text \<open>
  The readback after a submission: a view and its row, or the result of the hold that a changed
  UID mapping causes.
\<close>

definition post_submit_read ::
    "py_env \<Rightarrow> 'j journal_ops \<Rightarrow> chain_io \<Rightarrow> WeightProjection \<Rightarrow> MetagraphView \<Rightarrow> WeightPublicationRecord \<Rightarrow> bool \<Rightarrow>
     ('j pub_world, WeightPublicationResult + MetagraphView \<times> ValidatorWeightSnapshot) eff" where
  "post_submit_read E J io p signing pending submitted =
     bindM (liftM (io_post io)) (\<lambda>post.
     bindM (liftM (if mv_block post = mv_block signing then
         bindE (metagraph_digest_of E p post) (\<lambda>a.
         bindE (metagraph_digest_of E p signing) (\<lambda>b. Inr (a \<noteq> b)))
       else Inr False)) (\<lambda>changed.
     if changed
     then raiseM (ChainWeightStateError ''post-submit authority changed at the signing block'') else
     if \<not> authority_uids_unchanged p signing post then
       bindM (held E J pending ''post_submit_uid_mapping_changed'') (\<lambda>new.
       bindM (publish_result E p ''held'' (Some new) False submitted (mv_block post) False) (\<lambda>x. retM (Inl x)))
     else
       bindM (liftM (io_post_row io post)) (\<lambda>row.
       if mv_block post < vws_last_update_block row \<or> mv_block post < mv_block signing
       then raiseM (ChainWeightStateError ''post-submit chronology is inconsistent'')
       else retM (Inr (post, row)))))"

definition is_chain_error :: "py_error \<Rightarrow> bool" where
  "is_chain_error e = (case e of ChainWeightStateError _ \<Rightarrow> True | _ \<Rightarrow> False)"

definition confirm_submission ::
    "py_env \<Rightarrow> 'j journal_ops \<Rightarrow> chain_io \<Rightarrow> WeightProjection \<Rightarrow> int \<Rightarrow> MetagraphView \<Rightarrow> WeightPublicationRecord \<Rightarrow>
     bool \<Rightarrow> ('j pub_world, WeightPublicationResult) eff" where
  "confirm_submission E J io p refresh signing pending submitted =
     (let block = mv_block signing in
      bindM (catchM (post_submit_read E J io p signing pending submitted) is_chain_error
        (bindM (held E J pending ''post_submit_authority_unavailable'') (\<lambda>new.
         bindM (publish_result E p ''held'' (Some new) False submitted block False) (\<lambda>x. retM (Inl x))))) (\<lambda>read.
      case read of
        Inl x \<Rightarrow> retM x
      | Inr (post, row) \<Rightarrow>
          if weights_match row p \<and> block \<le> vws_last_update_block row then
            bindM (advance E J (Some pending)
              ((in_flight_record E p ''confirmed'' block refresh (wr_reveal_round pending)
                 ''post_submit_authoritative_readback'')
                 \<lparr>wr_confirmed_block := mv_block post,
                  wr_confirmed_last_update := vws_last_update_block row\<rparr>)) (\<lambda>new.
            publish_result E p ''confirmed'' (Some new) True submitted (mv_block post) False)
          else publish_result E p ''pending'' (Some pending) False submitted (mv_block post) False))"

definition sign_and_confirm ::
    "py_env \<Rightarrow> 'j journal_ops \<Rightarrow> chain_io \<Rightarrow> signer \<Rightarrow> WeightProjection \<Rightarrow> pub_options \<Rightarrow> pub_point \<Rightarrow>
     ('j pub_world, WeightPublicationResult) eff" where
  "sign_and_confirm E J io wallet p opts pt =
     bindM (liftM (check_signer p opts wallet (pt_observed pt))) (\<lambda>_.
     bindM (liftM (open_signing_view E io p pt)) (\<lambda>signing.
     bindM (presign_readback E J io p (po_refresh_blocks opts) pt signing) (\<lambda>(current, early).
     case early of
       Some x \<Rightarrow> retM x
     | None \<Rightarrow>
         bindM (submit_weights E J io p (po_refresh_blocks opts) current signing) (\<lambda>(pending, submitted).
         confirm_submission E J io p (po_refresh_blocks opts) signing pending submitted))))"

section \<open>Reconciling\<close>

definition reconcile_weight_publication ::
    "py_env \<Rightarrow> 'j journal_ops \<Rightarrow> chain_io \<Rightarrow> signer \<Rightarrow> WeightProjection \<Rightarrow> pub_options \<Rightarrow>
     ('j pub_world, WeightPublicationResult) eff" where
  "reconcile_weight_publication E J io wallet p opts =
     bindM (check_mode opts wallet) (\<lambda>_.
     bindM (if po_dry_run opts then retM None else journal_load J) (\<lambda>current.
     bindM (liftM (read_authority E io p opts current)) (\<lambda>pt.
     let refresh = po_refresh_blocks opts in
     if po_dry_run opts then
       bindM (liftM (io_dry io)) (\<lambda>_.
       publish_result E p ''dry_run'' None (pt_matches pt) False (pt_observed pt) False)
     else if po_reconcile_only opts then reconcile_without_signer E J p refresh pt
     else case current of
       Some c \<Rightarrow>
         if wr_status c \<in> {''intent'', ''pending'', ''held''} then resolve_in_flight E J p refresh pt c else
         bindM (resolve_settled E J p refresh pt) (\<lambda>early.
         case early of Some x \<Rightarrow> retM x | None \<Rightarrow> sign_and_confirm E J io wallet p opts pt)
     | None \<Rightarrow>
         bindM (resolve_settled E J p refresh pt) (\<lambda>early.
         case early of Some x \<Rightarrow> retM x | None \<Rightarrow> sign_and_confirm E J io wallet p opts pt))))"

end
