(* ===== verification/Weight_Laws.thy ===== *)
theory Weight_Laws
  imports Weight_Publication
begin

text \<open>
  The contract of a publication journal as a locale, and what every operation of
  \<open>Weight_Publication\<close> guarantees over any journal that keeps it: however the chain answers
  and wherever an exception strikes, the journal only grows, by hash-linked records that follow
  the publication state machine, and a submission is signed only right after its intent was
  written.
\<close>

section \<open>Records\<close>

definition record_valid :: "WeightPublicationRecord \<Rightarrow> bool" where
  "record_valid r \<longleftrightarrow>
     is_sha256_hex (wr_projection_digest r)
     \<and> (\<forall>d. wr_prior_record_digest r = Some d \<longrightarrow> is_sha256_hex d)
     \<and> wr_status r \<in> set PUBLICATION_STATUSES
     \<and> 0 \<le> wr_submit_block r \<and> 0 \<le> wr_retry_after_block r \<and> 0 \<le> wr_reveal_round r
     \<and> 0 \<le> wr_confirmed_block r \<and> 0 \<le> wr_confirmed_last_update r
     \<and> length (wr_reason r) \<le> 2048 \<and> \<not> has_control (wr_reason r)
     \<and> record_bounds r = Inr ()"

lemma record_bounds_prior [simp]: "record_bounds (r\<lparr>wr_prior_record_digest := x\<rparr>) = record_bounds r"
  by (simp add: record_bounds_def)

lemma require_sha256_hex_eq_Inr [err_simps]:
  "require_sha256_hex v field = Inr d \<longleftrightarrow> v = PyStr d \<and> is_sha256_hex d"
  by (cases v) (auto simp: require_sha256_hex_def)

lemma wp_exact_int_eq_Inr [err_simps]: "wp_exact_int v m = Inr n \<longleftrightarrow> v = PyInt n \<and> 0 \<le> n"
  by (cases v) (auto simp: wp_exact_int_def)

lemma wr_reason_text_eq_Inr [err_simps]:
  "wr_reason_text v = Inr s \<longleftrightarrow> v = PyStr s \<and> length s \<le> 2048 \<and> \<not> has_control s"
  by (cases v) (auto simp: wr_reason_text_def)

lemma optional_digest_eq_Inr [err_simps]:
  "optional_digest v field = Inr x \<longleftrightarrow>
     v = (case x of None \<Rightarrow> PyNone | Some d \<Rightarrow> PyStr d) \<and> (\<forall>d. x = Some d \<longrightarrow> is_sha256_hex d)"
  by (cases x) (auto simp: optional_digest_def err_simps)

lemma py_of_json_option_str:
  "py_of_json (json_of_option JStr x) = (case x of None \<Rightarrow> PyNone | Some s \<Rightarrow> PyStr s)"
  by (cases x) auto

lemma WeightPublicationRecord_init_iff:
  "WeightPublicationRecord_init row = Inr r \<longleftrightarrow>
     record_valid r \<and> row_carries row (WeightPublicationRecord_fields r)"
proof
  assume "WeightPublicationRecord_init row = Inr r"
  then show "record_valid r \<and> row_carries row (WeightPublicationRecord_fields r)"
    unfolding WeightPublicationRecord_init_def
    apply (simp only: bindE_eq_Inr if_Inl_eq_Inr require_sha256_hex_eq_Inr wp_exact_int_eq_Inr Let_def
        wr_reason_text_eq_Inr optional_digest_eq_Inr py_in_strs_eq_Inr not_not sum.inject)
    apply (elim exE conjE)
    apply (clarsimp simp: record_valid_def WeightPublicationRecord_fields_def py_of_json_option_str)
    done
next
  assume r: "record_valid r \<and> row_carries row (WeightPublicationRecord_fields r)"
  then have k: "kwarg row ''status'' = PyStr (wr_status r)" "wr_status r \<in> set PUBLICATION_STATUSES"
    by (simp_all add: record_valid_def WeightPublicationRecord_fields_def)
  with r show "WeightPublicationRecord_init row = Inr r"
    unfolding WeightPublicationRecord_init_def
    by (cases r) (auto simp: err_simps Let_def record_valid_def WeightPublicationRecord_fields_def
        py_of_json_option_str split: option.splits)
qed

interpretation publication_record: dataclass WeightPublicationRecord_init WeightPublicationRecord_fields
  wr_field_names record_valid
proof
  fix r r' :: WeightPublicationRecord
  assume "WeightPublicationRecord_fields r = WeightPublicationRecord_fields r'"
  then show "r = r'"
    by (cases r; cases r') (auto simp: WeightPublicationRecord_fields_def json_of_option_def split: option.splits)
qed (simp_all add: WeightPublicationRecord_init_iff, auto simp: WeightPublicationRecord_fields_def wr_field_names_def)

lemma WeightPublicationRecord_new_eq_Inr [err_simps]:
  "WeightPublicationRecord_new r = Inr r' \<longleftrightarrow> record_valid r \<and> r' = r"
  unfolding WeightPublicationRecord_new_def by (rule publication_record.new_iff)

section \<open>The publication state machine\<close>

text \<open>
  Which record may follow which: \<open>carries_submission\<close> says that a record resolves the same
  submission as the one before it.
\<close>

definition carries_submission :: "WeightPublicationRecord \<Rightarrow> WeightPublicationRecord \<Rightarrow> bool" where
  "carries_submission c r \<longleftrightarrow> wr_projection_digest r = wr_projection_digest c
     \<and> wr_submit_block r = wr_submit_block c \<and> wr_retry_after_block r = wr_retry_after_block c"

definition journal_step :: "WeightPublicationRecord option \<Rightarrow> WeightPublicationRecord \<Rightarrow> bool" where
  "journal_step head r \<longleftrightarrow>
     (case head of
        None \<Rightarrow> wr_status r \<in> {''intent'', ''confirmed''}
      | Some c \<Rightarrow>
          if wr_status r = ''intent'' then wr_status c \<in> {''confirmed'', ''released''}
          else if wr_status r = ''pending'' then wr_status c = ''intent'' \<and> carries_submission c r
          else if wr_status r = ''held''
          then wr_status c \<in> {''intent'', ''pending'', ''held'', ''confirmed''} \<and> carries_submission c r
          else if wr_status r = ''released'' then wr_status c = ''held'' \<and> carries_submission c r
          else wr_status r = ''confirmed'' \<and>
            (wr_status c \<in> {''confirmed'', ''released''}
             \<or> wr_status c \<in> {''intent'', ''pending''} \<and> carries_submission c r
               \<and> wr_submit_block c \<le> wr_confirmed_last_update r))"

fun head_of :: "'a list \<Rightarrow> 'a option" where
  "head_of [] = None"
| "head_of (x # _) = Some x"

fun journaled :: "pub_event list \<Rightarrow> WeightPublicationRecord list" where
  "journaled [] = []"
| "journaled (Journaled r # es) = r # journaled es"
| "journaled (Signed _ _ # es) = journaled es"

text \<open>The events of a call, in order, starting from a journal head.\<close>

fun legal_events :: "py_env \<Rightarrow> WeightPublicationRecord option \<Rightarrow> pub_event list \<Rightarrow> bool" where
  "legal_events E head [] = True"
| "legal_events E head (Journaled r # es) \<longleftrightarrow>
     wr_prior_record_digest r = map_option (WeightPublicationRecord_digest E) head
     \<and> journal_step head r \<and> legal_events E (Some r) es"
| "legal_events E head (Signed d view # es) \<longleftrightarrow>
     (case head of None \<Rightarrow> False | Some r \<Rightarrow> wr_status r = ''intent'' \<and> wr_projection_digest r = d
        \<and> wr_submit_block r = mv_block view) \<and> legal_events E head es"

definition is_signed :: "pub_event \<Rightarrow> bool" where
  "is_signed e = (case e of Signed _ _ \<Rightarrow> True | Journaled _ \<Rightarrow> False)"

lemma is_signed_simps [simp]: "is_signed (Signed d view)" "\<not> is_signed (Journaled r)"
  by (simp_all add: is_signed_def)

text \<open>
  At most one submission, and it directly follows its own intent record of the same call.
\<close>

fun signed_on_intent :: "pub_event list \<Rightarrow> bool" where
  "signed_on_intent [] = True"
| "signed_on_intent (Signed d view # es) = False"
| "signed_on_intent (Journaled r # Signed d view # es) \<longleftrightarrow>
     wr_status r = ''intent'' \<and> wr_projection_digest r = d \<and> wr_submit_block r = mv_block view
     \<and> filter is_signed es = []"
| "signed_on_intent (Journaled r # es) = signed_on_intent es"

definition pub_evolves ::
    "py_env \<Rightarrow> ('j \<Rightarrow> WeightPublicationRecord list) \<Rightarrow> ('j \<Rightarrow> bool) \<Rightarrow>
     'j pub_world \<Rightarrow> pub_event list \<Rightarrow> 'j pub_world \<Rightarrow> bool" where
  "pub_evolves E recs good w es w' \<longleftrightarrow>
     good (pw_journal w') \<and> pw_events w' = pw_events w @ es
     \<and> recs (pw_journal w') = rev (journaled es) @ recs (pw_journal w)
     \<and> legal_events E (head_of (recs (pw_journal w))) es"

lemma journaled_append [simp]: "journaled (es @ fs) = journaled es @ journaled fs"
  by (induction es rule: journaled.induct) auto

lemma head_of_append: "head_of (xs @ ys) = (if xs = [] then head_of ys else head_of xs)"
  by (cases xs) auto

lemma legal_events_append:
  "legal_events E (head_of hs) (es @ fs) \<longleftrightarrow>
     legal_events E (head_of hs) es \<and> legal_events E (head_of (rev (journaled es) @ hs)) fs"
proof (induction es arbitrary: hs rule: journaled.induct)
  case (2 r es)
  show ?case using "2.IH" [of "r # hs"] by simp
qed auto

lemma evolves_trans:
  "pub_evolves E recs good w es w' \<Longrightarrow> pub_evolves E recs good w' fs w'' \<Longrightarrow> pub_evolves E recs good w (es @ fs) w''"
  by (auto simp: pub_evolves_def legal_events_append)

lemma journal_step_prior [simp]: "journal_step h (r\<lparr>wr_prior_record_digest := x\<rparr>) = journal_step h r"
  by (simp add: journal_step_def carries_submission_def split: option.splits)

lemma signed_on_intent_quiet: "filter is_signed es = [] \<Longrightarrow> signed_on_intent es"
  by (induction es rule: signed_on_intent.induct) (auto split: if_splits)

lemma signed_on_intent_Journaled: "signed_on_intent es \<Longrightarrow> signed_on_intent (Journaled r # es)"
  by (cases es rule: signed_on_intent.cases) simp_all

lemma signed_on_intent_prefix:
  "filter is_signed es = [] \<Longrightarrow> signed_on_intent fs \<Longrightarrow> signed_on_intent (es @ fs)"
proof (induction es)
  case (Cons e es)
  then show ?case by (cases e) (simp_all add: signed_on_intent_Journaled)
qed simp

lemma holds_journal_write:
  "holds (journal_write J x r) w Q \<longleftrightarrow>
     (case jo_compare_and_swap J x r (pw_journal w) of
        Inl e \<Rightarrow> Q (Inl e) w
      | Inr j \<Rightarrow> Q (Inr ()) (w\<lparr>pw_journal := j, pw_events := pw_events w @ [Journaled r]\<rparr>))"
  by (simp add: holds_def journal_write_def split: sum.splits)

definition pub_quiet ::
    "py_env \<Rightarrow> ('j \<Rightarrow> WeightPublicationRecord list) \<Rightarrow> ('j \<Rightarrow> bool) \<Rightarrow> 'j pub_world \<Rightarrow> 'j pub_world \<Rightarrow> bool" where
  "pub_quiet E recs good w w' \<longleftrightarrow> (\<exists>es. pub_evolves E recs good w es w' \<and> filter is_signed es = [])"

lemma quiet_trans:
  "pub_quiet E recs good w w' \<Longrightarrow> pub_quiet E recs good w' w'' \<Longrightarrow> pub_quiet E recs good w w''"
  unfolding pub_quiet_def by (metis evolves_trans filter_append append_Nil)

lemma publish_result_error: "WeightPublicationResult_new x = Inl e \<Longrightarrow> \<not> is_chain_error e"
  by (auto simp: WeightPublicationResult_new_def bindE_eq_Inl require_sha256_hex_def is_chain_error_def
      split: if_splits)

lemma holds_publish_err:
  "(\<And>r. (\<forall>e. r = Inl e \<longrightarrow> \<not> is_chain_error e) \<Longrightarrow> Q r w) \<Longrightarrow> holds (publish_result E p status rec m s b d) w Q"
  using publish_result_error by (simp add: publish_result_def holds_liftM)

lemma holds_publish: "(\<And>r. Q r w) \<Longrightarrow> holds (publish_result E p status rec m s b d) w Q"
  by (simp add: publish_result_def holds_liftM)

lemma signed_on_intent_suffix:
  "signed_on_intent es \<Longrightarrow> filter is_signed fs = [] \<Longrightarrow> signed_on_intent (es @ fs)"
  by (induction es rule: signed_on_intent.induct) (auto intro: signed_on_intent_quiet)

lemma signed_on_intent_counts:
  "signed_on_intent es \<Longrightarrow> length (filter is_signed es) \<le>
     length (filter (\<lambda>r. wr_status r = ''intent'') (journaled es))"
  by (induction es rule: signed_on_intent.induct) auto

text \<open>The worlds reached by any calls, in any order, with any arguments and any answers of the chain.\<close>

inductive pub_reaches :: "py_env \<Rightarrow> 'j journal_ops \<Rightarrow> 'j pub_world \<Rightarrow> 'j pub_world \<Rightarrow> bool"
  for E J w where
  pub_start: "pub_reaches E J w w"
| pub_reconcile: "pub_reaches E J w w' \<Longrightarrow> reconcile_weight_publication E J io wallet p opts w' = (r, w'') \<Longrightarrow>
     pub_reaches E J w w''"
| pub_release: "pub_reaches E J w w' \<Longrightarrow> release_weight_publication_hold E J reason w' = (s, w'') \<Longrightarrow>
     pub_reaches E J w w''"

section \<open>The contract of a journal\<close>

locale publication_journal =
  fixes E :: py_env and J :: "'j journal_ops"
    and recs :: "'j \<Rightarrow> WeightPublicationRecord list" and good :: "'j \<Rightarrow> bool"
    and collision :: "py_error \<Rightarrow> bool"
  assumes load_head: "good j \<Longrightarrow> jo_load J j = Inr (head_of (recs j))"
    and cas_appends: "good j \<Longrightarrow> record_valid r \<Longrightarrow> jo_compare_and_swap J x r j = Inr j' \<Longrightarrow>
      good j' \<and> recs j' = r # recs j \<and> x = map_option (WeightPublicationRecord_digest E) (head_of (recs j))
      \<and> wr_prior_record_digest r = x"
    and records_valid: "good j \<Longrightarrow> r \<in> set (recs j) \<Longrightarrow> record_valid r"
    and digests_hex: "good j \<Longrightarrow> is_sha256_hex (sha256_hexdigest E b)"
    and cas_accepts: "good j \<Longrightarrow> record_valid r \<Longrightarrow>
      wr_prior_record_digest r = map_option (WeightPublicationRecord_digest E) (head_of (recs j)) \<Longrightarrow>
      wr_projection_digest r \<in> wr_projection_digest ` set (recs j) \<Longrightarrow>
      case jo_compare_and_swap J (wr_prior_record_digest r) r j of Inl e \<Rightarrow> collision e | Inr _ \<Rightarrow> True"
begin

lemma evolves_refl: "good (pw_journal w) \<Longrightarrow> pub_evolves E recs good w [] w"
  by (simp add: pub_evolves_def)

lemma load_holds:
  "good (pw_journal w) \<Longrightarrow> Q (Inr (head_of (recs (pw_journal w)))) w \<Longrightarrow> holds (journal_load J) w Q"
  by (simp add: holds_def journal_load_def load_head)

lemma advance_holds:
  assumes good: "good (pw_journal w)" and head: "head_of (recs (pw_journal w)) = current"
    and step: "journal_step current r" and err: "\<And>e. Q (Inl e) w"
    and ok: "\<And>r' w'. r' = r\<lparr>wr_prior_record_digest := map_option (WeightPublicationRecord_digest E) current\<rparr> \<Longrightarrow>
      record_valid r' \<Longrightarrow> pub_evolves E recs good w [Journaled r'] w' \<Longrightarrow> Q (Inr r') w'"
  shows "holds (advance E J current r) w Q"
proof -
  let ?x = "map_option (WeightPublicationRecord_digest E) current"
  let ?r = "r\<lparr>wr_prior_record_digest := ?x\<rparr>"
  have wrote: "holds (bindM (journal_write J ?x r') (\<lambda>_. retM r')) w Q" if v: "record_valid r'" and r': "r' = ?r" for r'
  proof (cases "jo_compare_and_swap J ?x r' (pw_journal w)")
    case (Inl e)
    then show ?thesis using err by (simp add: holds_bindM holds_journal_write)
  next
    case (Inr j)
    let ?w = "w\<lparr>pw_journal := j, pw_events := pw_events w @ [Journaled r']\<rparr>"
    have "good j \<and> recs j = r' # recs (pw_journal w)" using cas_appends [OF good v Inr] by blast
    then have "pub_evolves E recs good w [Journaled r'] ?w"
      using head step by (simp add: pub_evolves_def r')
    then have "Q (Inr r') ?w" using ok [of r' ?w] v r' by simp
    then show ?thesis using Inr by (simp add: holds_bindM holds_journal_write)
  qed
  have same: "r = ?r" if "wr_prior_record_digest r = ?x" using that by (cases r) simp
  have rest: "holds (bindM (if wr_prior_record_digest r \<noteq> ?x then liftM (WeightPublicationRecord_new ?r) else retM r)
      (\<lambda>r'. bindM (journal_write J ?x r') (\<lambda>_. retM r'))) w Q" if v: "record_valid r"
  proof (cases "wr_prior_record_digest r = ?x")
    case True
    have "holds (bindM (journal_write J ?x r) (\<lambda>_. retM r)) w Q" by (rule wrote [OF v same [OF True]])
    then show ?thesis using True by (simp add: holds_bindM)
  next
    case False
    show ?thesis
    proof (cases "WeightPublicationRecord_new ?r")
      case (Inr r')
      then have "record_valid ?r" "r' = ?r" by (simp_all add: err_simps)
      then have "holds (bindM (journal_write J ?x r') (\<lambda>_. retM r')) w Q" using wrote by blast
      then show ?thesis using False Inr by (simp add: holds_bindM holds_liftM)
    qed (use False err in \<open>simp add: holds_bindM holds_liftM\<close>)
  qed
  show ?thesis
  proof (cases "WeightPublicationRecord_new r")
    case (Inr r')
    then have "record_valid r" "r' = r" by (simp_all add: err_simps)
    then show ?thesis using rest Inr unfolding advance_def Let_def
      by (subst holds_bindM) (simp add: holds_liftM)
  qed (use err in \<open>simp add: advance_def holds_bindM holds_liftM\<close>)
qed


lemma quiet_refl: "good (pw_journal w) \<Longrightarrow> pub_quiet E recs good w w"
  unfolding pub_quiet_def using evolves_refl by (intro exI [of _ "[]"]) simp

lemma evolves_quiet: "pub_evolves E recs good w [Journaled r] w' \<Longrightarrow> pub_quiet E recs good w w'"
  unfolding pub_quiet_def by (rule exI [of _ "[Journaled r]"]) (simp)

lemma held_holds:
  assumes "good (pw_journal w)" and "head_of (recs (pw_journal w)) = Some c"
    and "wr_status c \<in> {''intent'', ''pending'', ''held'', ''confirmed''}" and "\<And>e. Q (Inl e) w"
    and "\<And>r' w'. wr_status r' = ''held'' \<Longrightarrow> pub_evolves E recs good w [Journaled r'] w' \<Longrightarrow> Q (Inr r') w'"
  shows "holds (held E J c reason) w Q"
  unfolding held_def
  by (rule advance_holds [OF assms(1,2)])
    (use assms(3-5) in \<open>auto simp: journal_step_def carries_submission_def blank_record_def\<close>)

lemma reconcile_pending_quiet:
  assumes "good (pw_journal w)" and "head_of (recs (pw_journal w)) = Some c" and "wr_status c = ''pending''"
  shows "holds (reconcile_pending E J p refresh pt c) w (\<lambda>_. pub_quiet E recs good w)"
  using assms quiet_refl [OF assms(1)] unfolding reconcile_pending_def Let_def
  by (auto intro!: holds_bindM [THEN iffD2] advance_holds holds_publish evolves_quiet
      simp: journal_step_def carries_submission_def confirmed_from_def blank_record_def)

lemma reconcile_settled_quiet:
  assumes "good (pw_journal w)" and "head_of (recs (pw_journal w)) = Some c"
    and "wr_status c \<in> {''released'', ''confirmed''}"
  shows "holds (reconcile_settled E J p refresh pt c) w (\<lambda>_. pub_quiet E recs good w)"
  using assms quiet_refl [OF assms(1)] unfolding reconcile_settled_def Let_def
  by (auto intro!: holds_bindM [THEN iffD2] advance_holds holds_publish evolves_quiet
      simp: journal_step_def carries_submission_def confirmed_from_def blank_record_def)

lemma reconcile_without_signer_quiet:
  assumes "good (pw_journal w)" and "head_of (recs (pw_journal w)) = pt_current pt"
  shows "holds (reconcile_without_signer E J p refresh pt) w (\<lambda>_. pub_quiet E recs good w)"
  using assms quiet_refl [OF assms(1)] reconcile_pending_quiet [OF assms(1)] reconcile_settled_quiet [OF assms(1)]
  unfolding reconcile_without_signer_def Let_def by (auto split: option.splits)

lemma resolve_in_flight_quiet:
  assumes "good (pw_journal w)" and "head_of (recs (pw_journal w)) = Some c"
    and "wr_status c \<in> {''intent'', ''pending'', ''held''}"
  shows "holds (resolve_in_flight E J p refresh pt c) w (\<lambda>_. pub_quiet E recs good w)"
  using assms quiet_refl [OF assms(1)] unfolding resolve_in_flight_def Let_def
  by (auto intro!: holds_bindM [THEN iffD2] advance_holds held_holds holds_publish evolves_quiet
      simp: journal_step_def carries_submission_def confirmed_from_def blank_record_def)

lemma resolve_settled_quiet:
  assumes "good (pw_journal w)" and "head_of (recs (pw_journal w)) = pt_current pt"
    and "\<not> status_in (pt_current pt) {''intent'', ''pending'', ''held''}"
  shows "holds (resolve_settled E J p refresh pt) w
    (\<lambda>r w'. pub_quiet E recs good w w' \<and> (r = Inr None \<longrightarrow> w' = w))"
  using assms quiet_refl [OF assms(1)] unfolding resolve_settled_def Let_def
  by (auto intro!: holds_bindM [THEN iffD2] advance_holds held_holds holds_publish evolves_quiet
      simp: journal_step_def carries_submission_def confirmed_from_def confirmed_preexisting_def blank_record_def
        status_in_def split: option.splits sum.splits)


lemma evolves_head:
  "pub_evolves E recs good w (es @ [Journaled r]) w' \<Longrightarrow>
     good (pw_journal w') \<and> head_of (recs (pw_journal w')) = Some r"
  by (simp add: pub_evolves_def)

text \<open>The head over which a submission would be signed.\<close>

definition settled_head :: "'j pub_world \<Rightarrow> WeightPublicationRecord option \<Rightarrow> bool" where
  "settled_head w current \<longleftrightarrow> good (pw_journal w) \<and> head_of (recs (pw_journal w)) = current
     \<and> \<not> status_in current {''intent'', ''pending'', ''held''}"

lemma settled_intent:
  assumes "settled_head w current"
  shows "journal_step current (in_flight_record E p ''intent'' b f v why)"
proof -
  have "record_valid c" if "current = Some c" for c
  proof (rule records_valid)
    show "good (pw_journal w)" using assms by (simp add: settled_head_def)
    show "c \<in> set (recs (pw_journal w))"
      using assms that by (cases "recs (pw_journal w)") (auto simp: settled_head_def)
  qed
  then show ?thesis using assms
    by (auto simp: settled_head_def journal_step_def in_flight_record_def blank_record_def status_in_def
        record_valid_def PUBLICATION_STATUSES_def split: option.splits)
qed

lemma presign_head_quiet:
  assumes "settled_head w current"
  shows "holds (presign_head E J p current b l) w
    (\<lambda>r w'. pub_quiet E recs good w w' \<and> (\<forall>c. r = Inr c \<longrightarrow> settled_head w' c))"
  using assms quiet_refl [of w] unfolding presign_head_def settled_head_def
  by (auto intro!: holds_bindM [THEN iffD2] advance_holds evolves_quiet
      dest: evolves_head [of _ "[]", simplified]
      simp: journal_step_def carries_submission_def confirmed_from_def confirmed_preexisting_def blank_record_def
        status_in_def split: option.splits sum.splits)

lemma presign_readback_quiet:
  assumes "settled_head w (pt_current pt)"
  shows "holds (presign_readback E J io p refresh pt signing) w
    (\<lambda>r w'. pub_quiet E recs good w w' \<and> (\<forall>c early. r = Inr (c, early) \<longrightarrow> settled_head w' c))"
proof -
  have "pub_quiet E recs good w w" using assms quiet_refl by (simp add: settled_head_def)
  then show ?thesis
    using assms unfolding presign_readback_def Let_def
    by (auto intro!: holds_bindM [THEN iffD2] holds_mono [OF presign_head_quiet] holds_publish
        simp: holds_liftM split: sum.splits)
qed

lemma sign_event_holds:
  assumes "good (pw_journal w)" and "head_of (recs (pw_journal w)) = Some r"
    and "wr_status r = ''intent''" "wr_projection_digest r = d" "wr_submit_block r = mv_block view"
    and "\<And>w'. pub_evolves E recs good w [Signed d view] w' \<Longrightarrow> Q (Inr ()) w'"
  shows "holds (sign_event d view) w Q"
proof -
  have "pub_evolves E recs good w [Signed d view] (w\<lparr>pw_events := pw_events w @ [Signed d view]\<rparr>)"
    using assms(1-5) by (simp add: pub_evolves_def)
  then show ?thesis using assms(6) by (simp add: holds_def sign_event_def)
qed

text \<open>What \<open>submit_weights\<close> returns: the pending record, now the head of the journal.\<close>

definition pending_outcome ::
    "WeightProjection \<Rightarrow> int \<Rightarrow> MetagraphView \<Rightarrow> py_error + WeightPublicationRecord \<times> bool \<Rightarrow> 'j pub_world \<Rightarrow> bool" where
  "pending_outcome p refresh signing r w \<longleftrightarrow> (\<forall>pending submitted. r = Inr (pending, submitted) \<longrightarrow>
     wr_status pending = ''pending'' \<and> wr_projection_digest pending = WeightProjection_digest E p
     \<and> wr_submit_block pending = mv_block signing \<and> wr_retry_after_block pending = mv_block signing + refresh
     \<and> head_of (recs (pw_journal w)) = Some pending)"

lemma sign_then_pending:
  assumes good: "good (pw_journal w)" "head_of (recs (pw_journal w)) = Some intent"
    and i: "wr_status intent = ''intent''" "wr_projection_digest intent = WeightProjection_digest E p"
      "wr_submit_block intent = mv_block signing" "wr_retry_after_block intent = mv_block signing + refresh"
  defines "sign \<equiv> Signed (WeightProjection_digest E p) signing"
  shows "holds (bindM (sign_event (WeightProjection_digest E p) signing) (\<lambda>_.
      bindM (advance E J (Some intent) (in_flight_record E p ''pending'' (mv_block signing) refresh reveal reason))
        (\<lambda>pending. retM (pending, submitted)))) w
    (\<lambda>r w'. \<exists>es. pub_evolves E recs good w (sign # es) w' \<and> filter is_signed es = []
      \<and> pending_outcome p refresh signing r w')"
    (is "holds _ w ?goal")
proof (rule holds_bindM [THEN iffD2], rule sign_event_holds [OF good i(1,2,3)])
  fix w2 assume e2: "pub_evolves E recs good w [Signed (WeightProjection_digest E p) signing] w2"
  have h2: "good (pw_journal w2)" "head_of (recs (pw_journal w2)) = Some intent"
    using e2 good by (simp_all add: pub_evolves_def)
  let ?pending = "in_flight_record E p ''pending'' (mv_block signing) refresh reveal reason"
  have step: "journal_step (Some intent) ?pending"
    using i by (simp add: journal_step_def carries_submission_def in_flight_record_def blank_record_def)
  have "holds (advance E J (Some intent) ?pending) w2
      (\<lambda>r w'. case r of Inl e \<Rightarrow> ?goal (Inl e) w' | Inr x \<Rightarrow> ?goal (Inr (x, submitted)) w')"
  proof (rule advance_holds [OF h2 step])
    show "case Inl e of Inl e \<Rightarrow> ?goal (Inl e) w2 | Inr x \<Rightarrow> ?goal (Inr (x, submitted)) w2" for e
      using e2 by (auto simp: sign_def pending_outcome_def intro!: exI [of _ "[]"])
  next
    fix r' w3
    assume r': "r' = ?pending\<lparr>wr_prior_record_digest := map_option (WeightPublicationRecord_digest E) (Some intent)\<rparr>"
      and e3: "pub_evolves E recs good w2 [Journaled r'] w3"
    have "pub_evolves E recs good w [sign, Journaled r'] w3" using evolves_trans [OF e2 e3] by (simp add: sign_def)
    moreover have "head_of (recs (pw_journal w3)) = Some r'" using evolves_head [of w2 "[]" r' w3] e3 by simp
    ultimately show "case Inr r' of Inl e \<Rightarrow> ?goal (Inl e) w3 | Inr x \<Rightarrow> ?goal (Inr (x, submitted)) w3"
      by (auto simp: pending_outcome_def r' in_flight_record_def blank_record_def
          intro!: exI [of _ "[Journaled r']"])
  qed
  then show "case Inr () of Inl e \<Rightarrow> ?goal (Inl e) w2 | Inr x \<Rightarrow> holds (bindM (advance E J (Some intent) ?pending)
      (\<lambda>pending. retM (pending, submitted))) w2 ?goal"
    unfolding holds_bindM holds_retM sum.case .
qed

lemma submit_weights_signs:
  assumes head: "settled_head w current"
  shows "holds (submit_weights E J io p refresh current signing) w
    (\<lambda>r w'. \<exists>es. pub_evolves E recs good w es w' \<and> signed_on_intent es \<and> pending_outcome p refresh signing r w')"
    (is "holds _ w ?goal")
proof -
  have good: "good (pw_journal w)" "head_of (recs (pw_journal w)) = current" using head by (simp_all add: settled_head_def)
  let ?new = "in_flight_record E p ''intent'' (mv_block signing) refresh 0 ''before_sdk_submission''"
  define outcome where "outcome = (case io_submit io of Inl name \<Rightarrow> (False, 0, ''sdk_exception:'' @ name)
    | Inr response \<Rightarrow> (was_submitted response, reveal_round_of (io_attr_data io) response, ''sdk_result_unconfirmed''))"
  obtain submitted reveal reason where out: "outcome = (submitted, reveal, reason)" by (cases outcome)
  let ?rest = "\<lambda>intent. bindM (sign_event (WeightProjection_digest E p) signing) (\<lambda>_.
      bindM (advance E J (Some intent) (in_flight_record E p ''pending'' (mv_block signing) refresh reveal reason))
        (\<lambda>pending. retM (pending, submitted)))"
  have "holds (advance E J current ?new) w
      (\<lambda>r w'. case r of Inl e \<Rightarrow> ?goal (Inl e) w' | Inr intent \<Rightarrow> holds (?rest intent) w' ?goal)"
  proof (rule advance_holds [OF good settled_intent [OF head]])
    show "case Inl e of Inl e \<Rightarrow> ?goal (Inl e) w | Inr intent \<Rightarrow> holds (?rest intent) w ?goal" for e
      using evolves_refl [OF good(1)] by (auto simp: pending_outcome_def intro!: exI [of _ "[]"])
  next
    fix intent w1
    assume intent: "intent = ?new\<lparr>wr_prior_record_digest := map_option (WeightPublicationRecord_digest E) current\<rparr>"
      and e1: "pub_evolves E recs good w [Journaled intent] w1"
    have h1: "good (pw_journal w1)" "head_of (recs (pw_journal w1)) = Some intent"
      using evolves_head [of w "[]" intent w1] e1 by simp_all
    have i: "wr_status intent = ''intent''" "wr_projection_digest intent = WeightProjection_digest E p"
      "wr_submit_block intent = mv_block signing" "wr_retry_after_block intent = mv_block signing + refresh"
      by (simp_all add: intent in_flight_record_def blank_record_def)
    have "holds (?rest intent) w1 ?goal"
    proof (rule holds_mono [OF sign_then_pending [OF h1 i]])
      fix r w' assume "\<exists>es. pub_evolves E recs good w1 (Signed (WeightProjection_digest E p) signing # es) w'
          \<and> filter is_signed es = [] \<and> pending_outcome p refresh signing r w'"
      then obtain es where es: "pub_evolves E recs good w1 (Signed (WeightProjection_digest E p) signing # es) w'"
        "filter is_signed es = []" "pending_outcome p refresh signing r w'" by blast
      let ?es = "[Journaled intent] @ Signed (WeightProjection_digest E p) signing # es"
      have "signed_on_intent ?es" using es(2) i by simp
      then show "?goal r w'" using evolves_trans [OF e1 es(1)] es(3) by blast
    qed
    then show "case Inr intent of Inl e \<Rightarrow> ?goal (Inl e) w1 | Inr intent \<Rightarrow> holds (?rest intent) w1 ?goal" by simp
  qed
  then show ?thesis
    unfolding submit_weights_def Let_def outcome_def [symmetric] out prod.case by (simp add: holds_bindM)
qed


lemma post_submit_read_quiet:
  assumes "good (pw_journal w)" and "head_of (recs (pw_journal w)) = Some pending" and "wr_status pending = ''pending''"
  shows "holds (post_submit_read E J io p signing pending submitted) w
    (\<lambda>r w'. pub_quiet E recs good w w' \<and> (\<forall>x. r = Inr (Inr x) \<longrightarrow> w' = w)
       \<and> (\<forall>e. r = Inl e \<longrightarrow> is_chain_error e \<longrightarrow> w' = w))"
  using assms quiet_refl [OF assms(1)] unfolding post_submit_read_def
  by (auto intro!: holds_bindM [THEN iffD2] held_holds holds_publish_err evolves_quiet
      simp: holds_liftM split: sum.splits)

lemma confirm_submission_quiet:
  assumes "good (pw_journal w)" and "head_of (recs (pw_journal w)) = Some pending" and "wr_status pending = ''pending''"
    and "wr_projection_digest pending = WeightProjection_digest E p" "wr_submit_block pending = mv_block signing"
    and "wr_retry_after_block pending = mv_block signing + refresh"
  shows "holds (confirm_submission E J io p refresh signing pending submitted) w (\<lambda>_. pub_quiet E recs good w)"
proof -
  let ?read = "catchM (post_submit_read E J io p signing pending submitted) is_chain_error
        (bindM (held E J pending ''post_submit_authority_unavailable'') (\<lambda>new.
         bindM (publish_result E p ''held'' (Some new) False submitted (mv_block signing) False) (\<lambda>x. retM (Inl x))))"
  have "holds ?read w (\<lambda>r w'. pub_quiet E recs good w w' \<and> (\<forall>x. r = Inr (Inr x) \<longrightarrow> w' = w))"
    unfolding holds_catchM
    using assms quiet_refl [OF assms(1)]
    by (auto intro!: holds_mono [OF post_submit_read_quiet] holds_bindM [THEN iffD2] held_holds holds_publish
        evolves_quiet split: sum.splits)
  then show ?thesis
    unfolding confirm_submission_def Let_def holds_bindM
    by (rule holds_mono)
      (use assms in \<open>auto intro!: holds_bindM [THEN iffD2] advance_holds holds_publish evolves_quiet
        simp: journal_step_def carries_submission_def in_flight_record_def blank_record_def split: sum.splits\<close>)
qed

definition disciplined :: "'j pub_world \<Rightarrow> 'j pub_world \<Rightarrow> bool" where
  "disciplined w w' \<longleftrightarrow> (\<exists>es. pub_evolves E recs good w es w' \<and> signed_on_intent es)"

lemma quiet_disciplined: "pub_quiet E recs good w w' \<Longrightarrow> disciplined w w'"
  unfolding pub_quiet_def disciplined_def using signed_on_intent_quiet by blast

lemma disciplined_before: "pub_quiet E recs good w w' \<Longrightarrow> disciplined w' w'' \<Longrightarrow> disciplined w w''"
  unfolding pub_quiet_def disciplined_def using evolves_trans signed_on_intent_prefix by blast

lemma disciplined_after: "disciplined w w' \<Longrightarrow> pub_quiet E recs good w' w'' \<Longrightarrow> disciplined w w''"
  unfolding pub_quiet_def disciplined_def using evolves_trans signed_on_intent_suffix by blast

lemma submit_disciplined:
  assumes "settled_head w current"
  shows "holds (bindM (submit_weights E J io p refresh current signing) (\<lambda>(pending, submitted).
      confirm_submission E J io p refresh signing pending submitted)) w (\<lambda>_. disciplined w)"
  unfolding holds_bindM
proof (rule holds_mono [OF submit_weights_signs [OF assms]])
  fix r w'
  assume "\<exists>es. pub_evolves E recs good w es w' \<and> signed_on_intent es \<and> pending_outcome p refresh signing r w'"
  then have w': "disciplined w w'" "good (pw_journal w')" and out: "pending_outcome p refresh signing r w'"
    by (auto simp: disciplined_def pub_evolves_def)
  show "case r of Inl e \<Rightarrow> disciplined w w' | Inr x \<Rightarrow> holds (case x of (pending, submitted) \<Rightarrow>
      confirm_submission E J io p refresh signing pending submitted) w' (\<lambda>_. disciplined w)"
    using w' out
    by (auto simp: pending_outcome_def intro!: holds_mono [OF confirm_submission_quiet] disciplined_after [OF w'(1)]
        split: sum.splits prod.splits)
qed

lemma sign_and_confirm_disciplined:
  assumes "settled_head w (pt_current pt)"
  shows "holds (sign_and_confirm E J io wallet p opts pt) w (\<lambda>_. disciplined w)"
proof -
  have refl: "disciplined w w" using assms quiet_refl quiet_disciplined by (simp add: settled_head_def)
  have "holds (presign_readback E J io p (po_refresh_blocks opts) pt signing) w
      (\<lambda>r w'. case r of Inl e \<Rightarrow> disciplined w w' | Inr x \<Rightarrow> holds (case x of (current, early) \<Rightarrow>
        case early of Some x \<Rightarrow> retM x | None \<Rightarrow>
         bindM (submit_weights E J io p (po_refresh_blocks opts) current signing) (\<lambda>(pending, submitted).
         confirm_submission E J io p (po_refresh_blocks opts) signing pending submitted)) w' (\<lambda>_. disciplined w))" for signing
    by (rule holds_mono [OF presign_readback_quiet [OF assms]])
      (auto intro: quiet_disciplined disciplined_before intro!: holds_mono [OF submit_disciplined]
        split: sum.splits option.splits prod.splits)
  then show ?thesis
    using refl unfolding sign_and_confirm_def
    by (auto intro!: holds_bindM [THEN iffD2] simp: holds_liftM split: sum.splits)
qed

lemma read_authority_current: "read_authority E io p opts current = Inr pt \<Longrightarrow> pt_current pt = current"
  by (auto simp: read_authority_def err_simps Let_def)

lemma settle_or_sign:
  assumes "settled_head w (pt_current pt)"
  shows "holds (bindM (resolve_settled E J p refresh pt) (\<lambda>early.
      case early of Some x \<Rightarrow> retM x | None \<Rightarrow> sign_and_confirm E J io wallet p opts pt)) w (\<lambda>_. disciplined w)"
  unfolding holds_bindM
  using assms
  by (intro holds_mono [OF resolve_settled_quiet])
    (auto simp: settled_head_def [abs_def] intro: quiet_disciplined
      intro!: sign_and_confirm_disciplined split: sum.splits option.splits)

lemma reconcile_disciplined:
  assumes good: "good (pw_journal w)"
  shows "holds (reconcile_weight_publication E J io wallet p opts) w (\<lambda>_. disciplined w)"
proof -
  let ?head = "head_of (recs (pw_journal w))"
  have refl: "disciplined w w" using good quiet_refl quiet_disciplined by blast
  have dry: "holds (bindM (liftM (io_dry io)) (\<lambda>_. publish_result E p ''dry_run'' None m False b False)) w
      (\<lambda>_. disciplined w)" for m b
    using refl by (auto intro!: holds_bindM [THEN iffD2] holds_publish simp: holds_liftM split: sum.splits)
  have signer: "holds (reconcile_without_signer E J p refresh pt) w (\<lambda>_. disciplined w)"
    if "pt_current pt = ?head" for pt refresh
    by (rule holds_mono [OF reconcile_without_signer_quiet [OF good]]) (use that quiet_disciplined in auto)
  have flight: "holds (resolve_in_flight E J p refresh pt c) w (\<lambda>_. disciplined w)"
    if "?head = Some c" "wr_status c \<in> {''intent'', ''pending'', ''held''}" for pt refresh c
    by (rule holds_mono [OF resolve_in_flight_quiet [OF good that]]) (use quiet_disciplined in auto)
  show ?thesis
    unfolding reconcile_weight_publication_def Let_def
    using refl good
    by (auto intro!: holds_bindM [THEN iffD2] load_holds dry signer flight settle_or_sign
        simp: check_mode_def holds_liftM status_in_def settled_head_def read_authority_current
        split: sum.splits option.splits)
qed

lemma release_quiet:
  assumes "good (pw_journal w)"
  shows "holds (release_weight_publication_hold E J reason) w (\<lambda>_. pub_quiet E recs good w)"
  using assms quiet_refl [OF assms] unfolding release_weight_publication_hold_def Let_def
  by (auto intro!: holds_bindM [THEN iffD2] load_holds advance_holds evolves_quiet
      simp: journal_step_def carries_submission_def blank_record_def split: option.splits)


section \<open>Histories\<close>

lemma reaches_evolves:
  assumes "pub_reaches E J w w'" and "good (pw_journal w)"
  shows "\<exists>es. pub_evolves E recs good w es w' \<and> length (filter is_signed es) \<le>
    length (filter (\<lambda>r. wr_status r = ''intent'') (journaled es))"
  using assms
proof (induction rule: pub_reaches.induct)
  case pub_start
  then show ?case using evolves_refl by (intro exI [of _ "[]"]) simp
next
  case (pub_reconcile w' io wallet p opts r w'')
  then obtain es where es: "pub_evolves E recs good w es w'"
    "length (filter is_signed es) \<le> length (filter (\<lambda>r. wr_status r = ''intent'') (journaled es))" by blast
  then have "good (pw_journal w')" by (simp add: pub_evolves_def)
  from holds_apply [OF reconcile_disciplined [OF this] pub_reconcile.hyps(2)]
  obtain fs where fs: "pub_evolves E recs good w' fs w''" "signed_on_intent fs" by (auto simp: disciplined_def)
  with es evolves_trans [OF es(1) fs(1)] signed_on_intent_counts [OF fs(2)] show ?case
    by (intro exI [of _ "es @ fs"]) simp
next
  case (pub_release w' reason r w'')
  then obtain es where es: "pub_evolves E recs good w es w'"
    "length (filter is_signed es) \<le> length (filter (\<lambda>r. wr_status r = ''intent'') (journaled es))" by blast
  then have "good (pw_journal w')" by (simp add: pub_evolves_def)
  from holds_apply [OF release_quiet [OF this] pub_release.hyps(2)]
  obtain fs where fs: "pub_evolves E recs good w' fs w''" "filter is_signed fs = []" by (auto simp: pub_quiet_def)
  with es evolves_trans [OF es(1) fs(1)] show ?case by (intro exI [of _ "es @ fs"]) simp
qed

section \<open>A submission in flight is resolved by its deadline\<close>

lemma advance_succeeds:
  assumes good: "good (pw_journal w)" and head: "head_of (recs (pw_journal w)) = Some c"
    and valid: "record_valid r" and step: "journal_step (Some c) r"
    and proj: "wr_projection_digest r = wr_projection_digest c"
    and coll: "\<And>e. collision e \<Longrightarrow> Q (Inl e) w"
    and ok: "\<And>r' w'. r' = r\<lparr>wr_prior_record_digest := Some (WeightPublicationRecord_digest E c)\<rparr> \<Longrightarrow>
      pub_evolves E recs good w [Journaled r'] w' \<Longrightarrow> Q (Inr r') w'"
  shows "holds (advance E J (Some c) r) w Q"
proof -
  let ?d = "WeightPublicationRecord_digest E c"
  let ?r = "r\<lparr>wr_prior_record_digest := Some ?d\<rparr>"
  have "is_sha256_hex ?d" using digests_hex [OF good] by (simp add: WeightPublicationRecord_digest_def json_digest_def)
  then have v: "record_valid ?r" using valid by (simp add: record_valid_def)
  have mem: "c \<in> set (recs (pw_journal w))" using head by (cases "recs (pw_journal w)") auto
  have wrote: "holds (bindM (journal_write J (Some ?d) ?r) (\<lambda>_. retM ?r)) w Q"
  proof (cases "jo_compare_and_swap J (Some ?d) ?r (pw_journal w)")
    case (Inl e)
    have "collision e" using cas_accepts [OF good v] Inl head proj mem by auto
    then show ?thesis using Inl coll by (simp add: holds_bindM holds_journal_write)
  next
    case (Inr j)
    let ?w = "w\<lparr>pw_journal := j, pw_events := pw_events w @ [Journaled ?r]\<rparr>"
    have "good j \<and> recs j = ?r # recs (pw_journal w)" using cas_appends [OF good v Inr] by blast
    then have "pub_evolves E recs good w [Journaled ?r] ?w" using head step by (simp add: pub_evolves_def)
    then show ?thesis using Inr ok [of ?r ?w] by (simp add: holds_bindM holds_journal_write)
  qed
  have same: "r = ?r" if "wr_prior_record_digest r = Some ?d" using that by (cases r) simp
  have new: "WeightPublicationRecord_new r = Inr r" "WeightPublicationRecord_new ?r = Inr ?r"
    using valid v by (simp_all add: err_simps)
  show ?thesis
    using wrote same unfolding advance_def Let_def new
    by (cases "wr_prior_record_digest r = Some ?d") (simp_all add: new)
qed


lemma resolves_to:
  assumes good: "good (pw_journal w)" and head: "head_of (recs (pw_journal w)) = Some c"
    and r: "record_valid r" "journal_step (Some c) r" "wr_projection_digest r = wr_projection_digest c"
    and status: "wr_status r = status" "status \<in> {''held'', ''confirmed''}" "0 \<le> b" "due \<longrightarrow> status = ''confirmed'' \<and> m"
  shows "holds (bindM (advance E J (Some c) r) (\<lambda>new. publish_result E p status (Some new) m s b due)) w
    (\<lambda>r w'. case r of Inl e \<Rightarrow> collision e | Inr x \<Rightarrow> res_status x \<in> {''held'', ''confirmed''}
       \<and> res_record x = head_of (recs (pw_journal w')))"
  unfolding holds_bindM
proof (rule advance_succeeds [OF good head r])
  fix r' w' assume r': "r' = r\<lparr>wr_prior_record_digest := Some (WeightPublicationRecord_digest E c)\<rparr>"
    and e: "pub_evolves E recs good w [Journaled r'] w'"
  have "head_of (recs (pw_journal w')) = Some r'" using evolves_head [of w "[]" r' w'] e by simp
  moreover have "is_sha256_hex (WeightProjection_digest E p)"
    using digests_hex [OF good] by (simp add: WeightProjection_digest_def json_digest_def)
  moreover have "wr_status r' = status" using status r' by simp
  ultimately show "case Inr r' of Inl e \<Rightarrow> case Inl e of Inl e \<Rightarrow> collision e | Inr x \<Rightarrow> res_status x \<in> {''held'', ''confirmed''}
       \<and> res_record x = head_of (recs (pw_journal w')) | Inr new \<Rightarrow> holds (publish_result E p status (Some new) m s b due) w'
      (\<lambda>r w'. case r of Inl e \<Rightarrow> collision e | Inr x \<Rightarrow> res_status x \<in> {''held'', ''confirmed''}
       \<and> res_record x = head_of (recs (pw_journal w')))"
    using status by (auto simp: publish_result_def holds_liftM WeightPublicationResult_new_def require_sha256_hex_def
        PUBLICATION_STATUSES_def)
qed auto

lemma deadline_resolves:
  assumes good: "good (pw_journal w)" and head: "head_of (recs (pw_journal w)) = Some c"
    and c: "wr_status c \<in> {''intent'', ''pending''}" "wr_projection_digest c = WeightProjection_digest E p"
    and mode: "\<not> po_dry_run opts" "\<not> po_reconcile_only opts" "0 < po_refresh_blocks opts"
    and pt: "read_authority E io p opts (Some c) = Inr pt"
    and late: "wr_retry_after_block c \<le> mv_block (pt_live pt)"
  shows "holds (reconcile_weight_publication E J io wallet p opts) w
    (\<lambda>r w'. case r of Inl e \<Rightarrow> collision e | Inr x \<Rightarrow> res_status x \<in> {''held'', ''confirmed''}
       \<and> res_record x = head_of (recs (pw_journal w')))" (is "holds _ w ?Q")
proof -
  have "c \<in> set (recs (pw_journal w))" using head by (cases "recs (pw_journal w)") auto
  then have valid: "record_valid c" using good records_valid by blast
  have blocks: "0 < wr_submit_block c" "wr_submit_block c \<le> wr_retry_after_block c"
    using valid c(1) by (auto simp: record_valid_def record_bounds_def split: if_splits)
  have last: "vws_last_update_block (pt_pre pt) \<le> mv_block (pt_live pt)"
    using pt by (auto simp: read_authority_def err_simps Let_def)
  have hold: "holds (bindM (held E J c reason) (\<lambda>new. publish_result E p ''held'' (Some new) m False (mv_block (pt_live pt)) False)) w ?Q"
    if "reason_ok reason" for reason m
    unfolding held_def
    by (rule resolves_to [OF good head])
      (use that c valid blocks late in \<open>auto simp: record_valid_def record_bounds_def journal_step_def
        carries_submission_def blank_record_def PUBLICATION_STATUSES_def reason_ok_def\<close>)
  have confirm: "holds (bindM (advance E J (Some c) (confirmed_from E p c (mv_block (pt_live pt))
      (vws_last_update_block (pt_pre pt)) ''authoritative_readback''))
      (\<lambda>new. publish_result E p ''confirmed'' (Some new) True False (mv_block (pt_live pt)) due)) w ?Q"
    if "wr_submit_block c \<le> vws_last_update_block (pt_pre pt)" for due
    by (rule resolves_to [OF good head])
      (use that c valid blocks late last in \<open>auto simp: record_valid_def record_bounds_def journal_step_def
        carries_submission_def confirmed_from_def blank_record_def PUBLICATION_STATUSES_def\<close>)
  have "holds (resolve_in_flight E J p (po_refresh_blocks opts) pt c) w ?Q"
    unfolding resolve_in_flight_def Let_def
    using c late confirm hold [of "''metagraph_uid_mapping_changed''"]
      hold [of "''publication_readback_deadline_expired''"]
    by (auto simp: reason_ok_def)
  then show ?thesis
    unfolding reconcile_weight_publication_def Let_def
    using mode c pt load_holds [OF good] by (auto simp: check_mode_def holds_bindM holds_liftM head pt intro!: load_holds [OF good])
qed

end

end
