(* ===== verification/Weight_Journal.thy ===== *)
theory Weight_Journal
  imports Weight_Laws
begin

text \<open>
  The journal of \<open>optima/chain/intake.py\<close>, \<open>SQLiteWeightPublicationJournal\<close>, with its table
  as a list of rows in sequence order and the head pointer of the metadata table. A JSON column
  holds the value that \<open>json.loads\<close> gives back. It keeps the contract \<open>publication_journal\<close>,
  so every guarantee of \<open>Weight_Laws\<close> holds over it.
\<close>

section \<open>The table\<close>

record publication_row =
  pr_record_digest :: string
  pr_sequence :: int
  pr_projection_digest :: string
  pr_projection_json :: pyval
  pr_record_json :: pyval
  pr_status :: string
  pr_updated_block :: int

record sqlite_journal =
  sj_composition_activated :: bool
  sj_head :: "pyval option"
  sj_rows :: "publication_row list"
  sj_projection :: WeightProjection

definition require_legacy_v1_allowed :: "sqlite_journal \<Rightarrow> py_error + unit" where
  "require_legacy_v1_allowed j =
     (if sj_composition_activated j
      then Inl (IntakeError ''legacy V1 weight publication is disabled after incentive composition activation'')
      else Inr ())"

definition read_head :: "sqlite_journal \<Rightarrow> py_error + (string \<times> string) option" where
  "read_head j =
     bindE (require_legacy_v1_allowed j) (\<lambda>_.
     case sj_head j of
       None \<Rightarrow> Inr None
     | Some value \<Rightarrow>
         (let malformed = Inl (IntakeError ''weight publication head is malformed'') in
          case value of
            PyDict d \<Rightarrow>
              (if set (map fst d) \<noteq> {PyStr ''projection_digest'', PyStr ''record_digest''} then malformed else
               bindE (require_sha256_hex (dict_lookup ''projection_digest'' d) ''projection_digest'') (\<lambda>pd.
               bindE (require_sha256_hex (dict_lookup ''record_digest'' d) ''record_digest'') (\<lambda>rd.
               Inr (Some (pd, rd)))))
          | _ \<Rightarrow> malformed))"

definition find_row :: "sqlite_journal \<Rightarrow> string \<Rightarrow> publication_row option" where
  "find_row j d = find (\<lambda>row. pr_record_digest row = d) (sj_rows j)"

text \<open>\<open>except (TypeError, ValueError, json.JSONDecodeError)\<close>.\<close>

definition is_value_error :: "py_error \<Rightarrow> bool" where
  "is_value_error e = (case e of StackIdentityError _ \<Rightarrow> True | PyTypeError _ \<Rightarrow> True | PyValueError _ \<Rightarrow> True
     | _ \<Rightarrow> False)"

definition decode_column :: "string \<Rightarrow> (pyval \<Rightarrow> py_error + 'a) \<Rightarrow> pyval \<Rightarrow> py_error + 'a" where
  "decode_column prefix from_dict v =
     (case from_dict v of
        Inl e \<Rightarrow> if is_value_error e then Inl (IntakeError (prefix @ err_text e)) else Inl e
      | Inr r \<Rightarrow> Inr r)"

section \<open>Loading the head\<close>

text \<open>
  The walk from the head to the first record. It ends on every table: each step visits a
  record digest it has not seen, and there are finitely many rows.
\<close>

function journal_walk ::
    "py_env \<Rightarrow> sqlite_journal \<Rightarrow> string set \<Rightarrow> WeightPublicationRecord \<Rightarrow> py_error + unit" where
  "journal_walk E j seen current =
     (if WeightPublicationRecord_digest E current \<in> seen
      then Inl (IntakeError ''weight publication journal contains a cycle'') else
      case wr_prior_record_digest current of
        None \<Rightarrow> Inr ()
      | Some prior \<Rightarrow>
          (case find_row j prior of
             None \<Rightarrow> Inl (IntakeError ''weight publication predecessor is missing'')
           | Some row \<Rightarrow>
               bindE (decode_column ''weight publication predecessor is corrupt: ''
                 WeightPublicationRecord_from_dict (pr_record_json row)) (\<lambda>next.
               if WeightPublicationRecord_digest E next \<noteq> prior
               then Inl (IntakeError ''weight publication predecessor digest differs'')
               else journal_walk E j (insert (WeightPublicationRecord_digest E current) seen) next)))"
  by pat_completeness auto

definition unseen_digests :: "py_env \<Rightarrow> sqlite_journal \<Rightarrow> string set \<Rightarrow> WeightPublicationRecord \<Rightarrow> string set" where
  "unseen_digests E j seen current =
     insert (WeightPublicationRecord_digest E current) (set (map pr_record_digest (sj_rows j))) - seen"

lemma find_row_Some: "find_row j d = Some row \<Longrightarrow> row \<in> set (sj_rows j) \<and> pr_record_digest row = d"
  by (auto simp: find_row_def find_Some_iff)

lemma walk_decreases:
  assumes "WeightPublicationRecord_digest E current \<notin> seen" and "find_row j prior = Some row"
    and "WeightPublicationRecord_digest E next = prior"
  shows "card (unseen_digests E j (insert (WeightPublicationRecord_digest E current) seen) next)
    < card (unseen_digests E j seen current)"
proof (rule psubset_card_mono)
  show "finite (unseen_digests E j seen current)" by (simp add: unseen_digests_def)
  have "WeightPublicationRecord_digest E next \<in> set (map pr_record_digest (sj_rows j))"
    using find_row_Some [OF assms(2)] assms(3) by force
  moreover have "WeightPublicationRecord_digest E current \<in> unseen_digests E j seen current"
    using assms(1) by (simp add: unseen_digests_def)
  ultimately show "unseen_digests E j (insert (WeightPublicationRecord_digest E current) seen) next
      \<subset> unseen_digests E j seen current"
    unfolding unseen_digests_def by (auto simp: insert_absorb)
qed

termination journal_walk
  by (relation "measure (\<lambda>(E, j, seen, current). card (unseen_digests E j seen current))")
    (simp_all add: walk_decreases)

declare journal_walk.simps [simp del]

definition sqlite_load :: "py_env \<Rightarrow> sqlite_journal \<Rightarrow> py_error + WeightPublicationRecord option" where
  "sqlite_load E j =
     bindE (read_head j) (\<lambda>head.
     case head of
       None \<Rightarrow> Inr None
     | Some (pd, rd) \<Rightarrow>
         (case find_row j rd of
            None \<Rightarrow> Inl (IntakeError ''weight publication head has no retained record'')
          | Some row \<Rightarrow>
              bindE (decode_column ''weight publication record is corrupt: ''
                WeightPublicationRecord_from_dict (pr_record_json row)) (\<lambda>record.
              if WeightPublicationRecord_digest E record \<noteq> rd \<or> wr_projection_digest record \<noteq> pd
              then Inl (IntakeError ''weight publication head differs from retained record'') else
              bindE (journal_walk E j {} record) (\<lambda>_. Inr (Some record)))))"

section \<open>Compare and swap\<close>

text \<open>
  The transaction: the rows are a snapshot, and a row whose digest is already the primary key of
  another makes the \<open>INSERT\<close> fail and the transaction roll back.
\<close>

definition last_projection :: "sqlite_journal \<Rightarrow> string \<Rightarrow> pyval option" where
  "last_projection j d = map_option pr_projection_json
     (find (\<lambda>row. pr_projection_digest row = d) (rev (sj_rows j)))"

definition head_value :: "string \<Rightarrow> string \<Rightarrow> pyval" where
  "head_value pd rd = PyDict [(PyStr ''projection_digest'', PyStr pd), (PyStr ''record_digest'', PyStr rd)]"

definition sqlite_compare_and_swap ::
    "py_env \<Rightarrow> string option \<Rightarrow> WeightPublicationRecord \<Rightarrow> sqlite_journal \<Rightarrow> py_error + sqlite_journal" where
  "sqlite_compare_and_swap E expected replacement j =
     bindE (case expected of None \<Rightarrow> Inr [] | Some d \<Rightarrow> require_sha256_hex (PyStr d) ''expected_record_digest'') (\<lambda>_.
     if wr_prior_record_digest replacement \<noteq> expected
     then Inl (IntakeError ''weight publication replacement does not bind the CAS head'') else
     bindE (read_head j) (\<lambda>head.
     if map_option snd head \<noteq> expected
     then Inl (IntakeError ''weight publication journal compare-and-swap failed'') else
     bindE (if wr_projection_digest replacement = WeightProjection_digest E (sj_projection j)
            then Inr (py_of_json (JObj (WeightProjection_fields (sj_projection j))))
            else case last_projection j (wr_projection_digest replacement) of
              Some v \<Rightarrow> Inr v
            | None \<Rightarrow> Inl (IntakeError ''publication record has no retained projection'')) (\<lambda>projection_json.
     let d = WeightPublicationRecord_digest E replacement;
         row = \<lparr>pr_record_digest = d,
           pr_sequence = (if sj_rows j = [] then 0 else Max (set (map pr_sequence (sj_rows j)))) + 1,
           pr_projection_digest = wr_projection_digest replacement, pr_projection_json = projection_json,
           pr_record_json = py_of_json (JObj (WeightPublicationRecord_fields replacement)),
           pr_status = wr_status replacement,
           pr_updated_block = max (wr_submit_block replacement)
             (max (wr_confirmed_block replacement) (wr_confirmed_last_update replacement))\<rparr>
     in if d \<in> set (map pr_record_digest (sj_rows j))
        then Inl (SQLiteIntegrityError ''UNIQUE constraint failed: weight_publications.record_digest'')
        else Inr (j\<lparr>sj_rows := sj_rows j @ [row], sj_head := Some (head_value (wr_projection_digest replacement) d)\<rparr>))))"

definition sqlite_retained_projection :: "py_env \<Rightarrow> string \<Rightarrow> sqlite_journal \<Rightarrow> py_error + WeightProjection" where
  "sqlite_retained_projection E d j =
     bindE (require_legacy_v1_allowed j) (\<lambda>_.
     bindE (require_sha256_hex (PyStr d) ''projection_digest'') (\<lambda>_.
     case last_projection j d of
       None \<Rightarrow> Inl (IntakeError ''weight projection is not retained'')
     | Some v \<Rightarrow>
         bindE (decode_column ''weight projection is corrupt: '' WeightProjection_from_dict v) (\<lambda>p.
         if WeightProjection_digest E p \<noteq> d
         then Inl (IntakeError ''retained weight projection digest differs'') else Inr p)))"

definition sqlite_ops :: "py_env \<Rightarrow> sqlite_journal journal_ops" where
  "sqlite_ops E = \<lparr>jo_load = sqlite_load E, jo_compare_and_swap = sqlite_compare_and_swap E,
     jo_retained_projection = sqlite_retained_projection E\<rparr>"

text \<open>
  Reopening the journal from its head, after a restart: the projection comes from the row of the
  head. Errors of the projection's own class are wrapped too here, and so are those of \<open>load\<close>.
\<close>

definition is_publication_error :: "py_error \<Rightarrow> bool" where
  "is_publication_error e = (case e of WeightPublicationError _ \<Rightarrow> True | _ \<Rightarrow> False)"

definition wrap_intake :: "string \<Rightarrow> (py_error \<Rightarrow> bool) \<Rightarrow> py_error + 'a \<Rightarrow> py_error + 'a" where
  "wrap_intake prefix sel r =
     (case r of Inl e \<Rightarrow> if sel e then Inl (IntakeError (prefix @ err_text e)) else Inl e | Inr x \<Rightarrow> Inr x)"

definition reopen_from_head :: "py_env \<Rightarrow> sqlite_journal \<Rightarrow> py_error + sqlite_journal" where
  "reopen_from_head E store =
     bindE (read_head store) (\<lambda>head.
     case head of
       None \<Rightarrow> Inl (IntakeError ''weight publication journal has no retained head'')
     | Some (pd, rd) \<Rightarrow>
         (let missing = Inl (IntakeError ''weight publication head has no retained projection'') in
          case find_row store rd of
            None \<Rightarrow> missing
          | Some row \<Rightarrow>
              if pr_projection_digest row \<noteq> pd then missing else
              bindE (wrap_intake ''weight projection is corrupt: '' (\<lambda>e. is_value_error e \<or> is_publication_error e)
                (WeightProjection_from_dict (pr_projection_json row))) (\<lambda>p.
              if WeightProjection_digest E p \<noteq> pd
              then Inl (IntakeError ''retained weight projection differs from journal head'') else
              let journal = store\<lparr>sj_projection := p\<rparr> in
              bindE (require_legacy_v1_allowed journal) (\<lambda>_.
              bindE (wrap_intake ''weight publication record is corrupt: '' is_publication_error
                (sqlite_load E journal)) (\<lambda>rec.
              if map_option (WeightPublicationRecord_digest E) rec \<noteq> Some rd
              then Inl (IntakeError ''weight publication head cannot be reopened'')
              else Inr journal)))))"

section \<open>The journal keeps its contract\<close>

lemma exact_members_eq_Inr [err_simps]:
  "exact_members v names m = Inr row \<longleftrightarrow>
     v = PyDict (map (\<lambda>(k, w). (PyStr k, w)) row) \<and> fst ` set row = set names"
proof -
  have "exact_members v names m = Inr row \<longleftrightarrow> require_exact_fields v names [] WeightPublicationError = Inr row"
    by (cases v) (auto simp: exact_members_def require_exact_fields_def split: option.splits)
  then show ?thesis by (simp add: require_exact_fields_eq_Inr)
qed

lemma record_from_dict:
  assumes "record_valid r"
  shows "WeightPublicationRecord_from_dict (py_of_json (JObj (WeightPublicationRecord_fields r))) = Inr r"
proof -
  have "WeightPublicationRecord_init (kwargs_of (WeightPublicationRecord_fields r)) = Inr r"
    using assms by (simp add: publication_record.new_iff)
  moreover have "py_of_json (JObj (WeightPublicationRecord_fields r)) =
      PyDict (map (\<lambda>(k, w). (PyStr k, w)) (kwargs_of (WeightPublicationRecord_fields r)))"
    by (simp add: kwargs_of_def comp_def case_prod_beta)
  moreover have "fst ` set (kwargs_of (WeightPublicationRecord_fields r)) = set wr_field_names"
    by (auto simp: kwargs_of_def WeightPublicationRecord_fields_def wr_field_names_def)
  ultimately show ?thesis
    unfolding WeightPublicationRecord_from_dict_def by (auto simp: err_simps)
qed

definition row_record :: "publication_row \<Rightarrow> WeightPublicationRecord" where
  "row_record row = (case WeightPublicationRecord_from_dict (pr_record_json row) of
     Inr r \<Rightarrow> r | Inl _ \<Rightarrow> blank_record [] [])"

definition sqlite_records :: "sqlite_journal \<Rightarrow> WeightPublicationRecord list" where
  "sqlite_records j = rev (map row_record (sj_rows j))"

text \<open>Newest first, every record names the digest of the one before it.\<close>

fun linked :: "py_env \<Rightarrow> WeightPublicationRecord list \<Rightarrow> bool" where
  "linked E [] = True"
| "linked E (r # rs) \<longleftrightarrow>
     wr_prior_record_digest r = map_option (WeightPublicationRecord_digest E) (head_of rs) \<and> linked E rs"

definition row_ok :: "py_env \<Rightarrow> publication_row \<Rightarrow> bool" where
  "row_ok E row \<longleftrightarrow> record_valid (row_record row)
     \<and> pr_record_json row = py_of_json (JObj (WeightPublicationRecord_fields (row_record row)))
     \<and> pr_record_digest row = WeightPublicationRecord_digest E (row_record row)
     \<and> pr_projection_digest row = wr_projection_digest (row_record row)"

definition sqlite_good :: "py_env \<Rightarrow> sqlite_journal \<Rightarrow> bool" where
  "sqlite_good E j \<longleftrightarrow> (\<forall>b. is_sha256_hex (sha256_hexdigest E b)) \<and> \<not> sj_composition_activated j
     \<and> (\<forall>row \<in> set (sj_rows j). row_ok E row) \<and> distinct (map pr_record_digest (sj_rows j))
     \<and> linked E (sqlite_records j)
     \<and> sj_head j = map_option (\<lambda>r. head_value (wr_projection_digest r) (WeightPublicationRecord_digest E r))
         (head_of (sqlite_records j))"

lemma decode_ok: "row_ok E row \<Longrightarrow>
    decode_column m WeightPublicationRecord_from_dict (pr_record_json row) = Inr (row_record row)"
  by (simp add: row_ok_def decode_column_def record_from_dict del: py_of_json.simps)

lemma find_record:
  assumes good: "sqlite_good E j" and r: "r \<in> set (sqlite_records j)"
  shows "\<exists>row. find_row j (WeightPublicationRecord_digest E r) = Some row \<and> row_ok E row \<and> row_record row = r"
proof -
  obtain row where row: "row \<in> set (sj_rows j)" "row_record row = r"
    using r by (auto simp: sqlite_records_def)
  have ok: "row_ok E row" "pr_record_digest row = WeightPublicationRecord_digest E r"
    using good row by (auto simp: sqlite_good_def row_ok_def)
  obtain row' where row': "find_row j (WeightPublicationRecord_digest E r) = Some row'"
    using row(1) ok(2) unfolding find_row_def by (metis (mono_tags, lifting) find_None_iff option.exhaust)
  have "row' = row"
    using find_row_Some [OF row'] row ok good
    by (metis (no_types) distinct_map inj_onD sqlite_good_def)
  with row' ok row show ?thesis by blast
qed

lemma sqlite_records_valid: "sqlite_good E j \<Longrightarrow> r \<in> set (sqlite_records j) \<Longrightarrow> record_valid r"
  by (auto simp: sqlite_good_def row_ok_def sqlite_records_def)

lemma walk_ok:
  assumes good: "sqlite_good E j"
  shows "linked E (r # rs) \<Longrightarrow> set (r # rs) \<subseteq> set (sqlite_records j) \<Longrightarrow>
    distinct (map (WeightPublicationRecord_digest E) (r # rs)) \<Longrightarrow>
    seen \<inter> WeightPublicationRecord_digest E ` set (r # rs) = {} \<Longrightarrow> journal_walk E j seen r = Inr ()"
proof (induction rs arbitrary: r seen)
  case Nil
  then show ?case by (subst journal_walk.simps) simp
next
  case (Cons q rs)
  obtain row where row: "find_row j (WeightPublicationRecord_digest E q) = Some row" "row_ok E row" "row_record row = q"
    using find_record [OF good, of q] Cons.prems(2) by auto
  have "journal_walk E j (insert (WeightPublicationRecord_digest E r) seen) q = Inr ()"
    by (rule Cons.IH) (use Cons.prems in auto)
  with Cons.prems row decode_ok [OF row(2)] show ?case by (subst journal_walk.simps) simp
qed

lemma read_head_ok:
  assumes good: "sqlite_good E j"
  shows "read_head j = Inr (map_option (\<lambda>r. (wr_projection_digest r, WeightPublicationRecord_digest E r))
    (head_of (sqlite_records j)))"
proof (cases "sqlite_records j")
  case Nil
  then show ?thesis using good by (simp add: read_head_def require_legacy_v1_allowed_def sqlite_good_def)
next
  case (Cons r rs)
  have "record_valid r" by (rule sqlite_records_valid [OF good]) (simp add: Cons)
  then have "is_sha256_hex (wr_projection_digest r)" by (simp add: record_valid_def)
  moreover have "is_sha256_hex (WeightPublicationRecord_digest E r)"
    using good by (simp add: sqlite_good_def WeightPublicationRecord_digest_def json_digest_def)
  ultimately show ?thesis
    using good Cons by (simp add: read_head_def require_legacy_v1_allowed_def sqlite_good_def head_value_def
        dict_lookup_def require_sha256_hex_def)
qed

lemma records_digests:
  assumes "sqlite_good E j"
  shows "map (WeightPublicationRecord_digest E) (sqlite_records j) = rev (map pr_record_digest (sj_rows j))"
  using assms by (auto simp: sqlite_good_def row_ok_def sqlite_records_def rev_map)

lemma sqlite_load_ok:
  assumes good: "sqlite_good E j"
  shows "sqlite_load E j = Inr (head_of (sqlite_records j))"
proof (cases "sqlite_records j")
  case Nil
  then show ?thesis using read_head_ok [OF good] by (simp add: sqlite_load_def)
next
  case (Cons r rs)
  obtain row where row: "find_row j (WeightPublicationRecord_digest E r) = Some row" "row_ok E row" "row_record row = r"
    using find_record [OF good, of r] Cons by auto
  have "distinct (map (WeightPublicationRecord_digest E) (r # rs))"
    using records_digests [OF good] good Cons by (simp add: sqlite_good_def)
  moreover have "linked E (r # rs)" using good Cons by (simp add: sqlite_good_def)
  ultimately have "journal_walk E j {} r = Inr ()" using walk_ok [OF good, of r rs "{}"] Cons by simp
  then show ?thesis using read_head_ok [OF good] decode_ok [OF row(2)] row Cons by (simp add: sqlite_load_def)
qed

lemma sqlite_cas_ok:
  assumes good: "sqlite_good E j" and valid: "record_valid r"
    and cas: "sqlite_compare_and_swap E x r j = Inr j'"
  shows "sqlite_good E j' \<and> sqlite_records j' = r # sqlite_records j
    \<and> x = map_option (WeightPublicationRecord_digest E) (head_of (sqlite_records j))
    \<and> wr_prior_record_digest r = x"
proof -
  let ?d = "WeightPublicationRecord_digest E r"
  have x: "x = map_option (WeightPublicationRecord_digest E) (head_of (sqlite_records j))"
    and prior: "wr_prior_record_digest r = x" and fresh: "?d \<notin> set (map pr_record_digest (sj_rows j))"
    using cas unfolding sqlite_compare_and_swap_def Let_def read_head_ok [OF good]
    by (auto simp: err_simps option.map_comp comp_def)
  obtain row where j': "j' = j\<lparr>sj_rows := sj_rows j @ [row], sj_head := Some (head_value (wr_projection_digest r) ?d)\<rparr>"
    and row: "pr_record_digest row = ?d" "pr_record_json row = py_of_json (JObj (WeightPublicationRecord_fields r))"
      "pr_projection_digest row = wr_projection_digest r"
    using cas unfolding sqlite_compare_and_swap_def Let_def by (auto simp: err_simps simp del: py_of_json.simps)
  have rec: "row_record row = r" using record_from_dict [OF valid] row(2) by (simp add: row_record_def del: py_of_json.simps)
  have recs: "sqlite_records j' = r # sqlite_records j" by (simp add: sqlite_records_def j' rec)
  have "row_ok E row" using valid row by (simp add: row_ok_def rec del: py_of_json.simps)
  then have "sqlite_good E j'"
    using good fresh x prior row(1) unfolding sqlite_good_def recs by (auto simp: j')
  then show ?thesis using recs x prior by blast
qed

text \<open>
  The journal refuses a record that follows its head, for a projection it has retained, only when
  the record's digest is already that of another row.
\<close>

definition is_integrity_error :: "py_error \<Rightarrow> bool" where
  "is_integrity_error e = (case e of SQLiteIntegrityError _ \<Rightarrow> True | _ \<Rightarrow> False)"

lemma last_projection_retained:
  assumes "sqlite_good E j" and "d \<in> wr_projection_digest ` set (sqlite_records j)"
  shows "last_projection j d \<noteq> None"
proof -
  have "\<exists>row \<in> set (sj_rows j). pr_projection_digest row = d"
    using assms by (auto simp: sqlite_good_def row_ok_def sqlite_records_def)
  then show ?thesis by (auto simp: last_projection_def find_None_iff)
qed

lemma sqlite_cas_accepts:
  assumes good: "sqlite_good E j" and valid: "record_valid r"
    and prior: "wr_prior_record_digest r = map_option (WeightPublicationRecord_digest E) (head_of (sqlite_records j))"
    and proj: "wr_projection_digest r \<in> wr_projection_digest ` set (sqlite_records j)"
  shows "case sqlite_compare_and_swap E (wr_prior_record_digest r) r j of Inl e \<Rightarrow> is_integrity_error e | Inr _ \<Rightarrow> True"
proof -
  obtain v where v: "last_projection j (wr_projection_digest r) = Some v"
    using last_projection_retained [OF good proj] by blast
  have "\<exists>x. (case wr_prior_record_digest r of None \<Rightarrow> Inr [] | Some d \<Rightarrow> require_sha256_hex (PyStr d) f) = Inr x" for f
    using valid by (cases "wr_prior_record_digest r") (auto simp: record_valid_def require_sha256_hex_def)
  then obtain x where x: "(case wr_prior_record_digest r of None \<Rightarrow> Inr [] | Some d \<Rightarrow>
      require_sha256_hex (PyStr d) ''expected_record_digest'') = Inr x" by blast
  have head: "map_option snd (map_option (\<lambda>r. (wr_projection_digest r, WeightPublicationRecord_digest E r))
      (head_of (sqlite_records j))) = wr_prior_record_digest r"
    by (simp add: prior option.map_comp comp_def)
  show ?thesis
    unfolding sqlite_compare_and_swap_def x read_head_ok [OF good] bindE_Inr head Let_def
    using v by (auto simp: is_integrity_error_def split: option.splits)
qed

interpretation sqlite: publication_journal E "sqlite_ops E" sqlite_records "sqlite_good E" is_integrity_error
proof
  fix j r x j'
  assume good: "sqlite_good E j"
  then show "jo_load (sqlite_ops E) j = Inr (head_of (sqlite_records j))"
    by (simp add: sqlite_ops_def sqlite_load_ok)
  show "sqlite_good E j' \<and> sqlite_records j' = r # sqlite_records j
      \<and> x = map_option (WeightPublicationRecord_digest E) (head_of (sqlite_records j))
      \<and> wr_prior_record_digest r = x"
    if "record_valid r" "jo_compare_and_swap (sqlite_ops E) x r j = Inr j'"
    using sqlite_cas_ok [OF good that(1)] that(2) by (simp add: sqlite_ops_def)
  show "record_valid r" if "r \<in> set (sqlite_records j)"
    using good that by (rule sqlite_records_valid)
  show "is_sha256_hex (sha256_hexdigest E b)" for b using good by (simp add: sqlite_good_def)
  show "case jo_compare_and_swap (sqlite_ops E) (wr_prior_record_digest r) r j of
      Inl e \<Rightarrow> is_integrity_error e | Inr _ \<Rightarrow> True"
    if "record_valid r" "wr_prior_record_digest r = map_option (WeightPublicationRecord_digest E) (head_of (sqlite_records j))"
      "wr_projection_digest r \<in> wr_projection_digest ` set (sqlite_records j)"
    using sqlite_cas_accepts [OF good that] by (simp add: sqlite_ops_def)
qed

end
