(* ===== verification/Weight_Readback.thy ===== *)
theory Weight_Readback
  imports Weight_Laws
begin

text \<open>
  A publication counts as confirmed only when a row read from the chain is the projection's: no
  answer of the SDK and no content of the journal stands in for the readback. This needs nothing
  of the journal.
\<close>

section \<open>What was read\<close>

definition observed_row :: "chain_io \<Rightarrow> MetagraphView \<Rightarrow> ValidatorWeightSnapshot \<Rightarrow> bool" where
  "observed_row io view row \<longleftrightarrow>
     io_live io = Inr view \<and> io_row io view = Inr row
     \<or> io_signing io = Inr view \<and> io_signing_row io view = Inr row
     \<or> io_post io = Inr view \<and> io_post_row io view = Inr row"

text \<open>The chain shows the projection, at a block and with a last update that the record names.\<close>

definition read_back :: "py_env \<Rightarrow> chain_io \<Rightarrow> WeightProjection \<Rightarrow> WeightPublicationRecord \<Rightarrow> bool" where
  "read_back E io p r \<longleftrightarrow> wr_projection_digest r = WeightProjection_digest E p
     \<and> (\<exists>view row. observed_row io view row \<and> weights_match row p
          \<and> wr_confirmed_block r = mv_block view \<and> wr_confirmed_last_update r = vws_last_update_block row)"

definition chain_shows :: "chain_io \<Rightarrow> WeightProjection \<Rightarrow> bool" where
  "chain_shows io p \<longleftrightarrow> (\<exists>view row. observed_row io view row \<and> weights_match row p)"

text \<open>Every confirmed record that was written between two worlds has been read back.\<close>

definition confirms_read :: "py_env \<Rightarrow> chain_io \<Rightarrow> WeightProjection \<Rightarrow> 'j pub_world \<Rightarrow> 'j pub_world \<Rightarrow> bool" where
  "confirms_read E io p w w' \<longleftrightarrow> (\<exists>es. pw_events w' = pw_events w @ es
     \<and> (\<forall>r \<in> set (journaled es). wr_status r = ''confirmed'' \<longrightarrow> read_back E io p r))"

definition justified ::
    "py_env \<Rightarrow> chain_io \<Rightarrow> WeightProjection \<Rightarrow> 'j pub_world \<Rightarrow> py_error + WeightPublicationResult \<Rightarrow> 'j pub_world \<Rightarrow> bool" where
  "justified E io p w r w' \<longleftrightarrow> confirms_read E io p w w'
     \<and> (\<forall>x. r = Inr x \<longrightarrow> res_status x = ''confirmed'' \<longrightarrow> chain_shows io p)"

lemma read_back_prior [simp]: "read_back E io p (r\<lparr>wr_prior_record_digest := x\<rparr>) = read_back E io p r"
  by (simp add: read_back_def)

lemma confirms_refl [simp]: "confirms_read E io p w w"
  by (simp add: confirms_read_def)

lemma confirms_trans: "confirms_read E io p w w' \<Longrightarrow> confirms_read E io p w' w'' \<Longrightarrow> confirms_read E io p w w''"
proof -
  assume "confirms_read E io p w w'" "confirms_read E io p w' w''"
  then obtain es fs where "pw_events w' = pw_events w @ es" "pw_events w'' = pw_events w' @ fs"
    "\<forall>r \<in> set (journaled es) \<union> set (journaled fs). wr_status r = ''confirmed'' \<longrightarrow> read_back E io p r"
    unfolding confirms_read_def by blast
  then show ?thesis unfolding confirms_read_def by (intro exI [of _ "es @ fs"]) auto
qed

lemma advance_confirms:
  assumes "wr_status r = ''confirmed'' \<longrightarrow> read_back E io p r" and "\<And>e. Q (Inl e) w"
    and "\<And>r' w'. wr_status r' = wr_status r \<Longrightarrow> confirms_read E io p w w' \<Longrightarrow> Q (Inr r') w'"
  shows "holds (advance E J current r) w Q"
proof -
  let ?x = "map_option (WeightPublicationRecord_digest E) current"
  have wrote: "holds (bindM (journal_write J ?x r') (\<lambda>_. retM r')) w Q" if "r' = r \<or> r' = r\<lparr>wr_prior_record_digest := ?x\<rparr>" for r'
  proof -
    have "confirms_read E io p w (w\<lparr>pw_journal := j, pw_events := pw_events w @ [Journaled r']\<rparr>)" for j
      unfolding confirms_read_def using that assms(1) by (intro exI [of _ "[Journaled r']"]) auto
    then show ?thesis using assms(2) assms(3) [of r'] that
      by (auto simp: holds_bindM holds_journal_write split: sum.splits)
  qed
  then show ?thesis
    using assms(2) wrote [of r] wrote [of "r\<lparr>wr_prior_record_digest := ?x\<rparr>"] unfolding advance_def Let_def
    by (auto simp: holds_bindM holds_liftM err_simps split: sum.splits)
qed

lemma held_confirms:
  assumes "\<And>e. Q (Inl e) w" and "\<And>r' w'. confirms_read E io p w w' \<Longrightarrow> Q (Inr r') w'"
  shows "holds (held E J c reason) w Q"
  unfolding held_def by (rule advance_confirms) (use assms in \<open>auto simp: blank_record_def\<close>)

lemma publish_status:
  "(\<And>e. Q (Inl e) w) \<Longrightarrow> (\<And>x. res_status x = status \<Longrightarrow> Q (Inr x) w) \<Longrightarrow>
     holds (publish_result E p status rec m s b d) w Q"
  by (auto simp: publish_result_def holds_liftM WeightPublicationResult_new_def bindE_def split: sum.splits)

lemma holds_sign_event:
  "holds (sign_event d view) w Q \<longleftrightarrow> Q (Inr ()) (w\<lparr>pw_events := pw_events w @ [Signed d view]\<rparr>)"
  by (simp add: holds_def sign_event_def)

lemma read_authority_facts:
  "read_authority E io p opts current = Inr pt \<Longrightarrow>
     pt_current pt = current \<and> observed_row io (pt_live pt) (pt_pre pt) \<and> pt_matches pt = weights_match (pt_pre pt) p"
  by (auto simp: read_authority_def err_simps Let_def observed_row_def)

section \<open>Stage by stage\<close>

definition point_ok :: "chain_io \<Rightarrow> WeightProjection \<Rightarrow> pub_point \<Rightarrow> bool" where
  "point_ok io p pt \<longleftrightarrow> observed_row io (pt_live pt) (pt_pre pt) \<and> pt_matches pt = weights_match (pt_pre pt) p"

lemma point_shows: "point_ok io p pt \<Longrightarrow> pt_matches pt \<Longrightarrow> chain_shows io p"
  unfolding point_ok_def chain_shows_def by blast

lemma point_read_back:
  "point_ok io p pt \<Longrightarrow> pt_matches pt \<Longrightarrow>
     read_back E io p (confirmed_from E p c (pt_observed pt) (vws_last_update_block (pt_pre pt)) why)"
  "point_ok io p pt \<Longrightarrow> pt_matches pt \<Longrightarrow>
     read_back E io p (confirmed_preexisting E p (pt_observed pt) (vws_last_update_block (pt_pre pt)))"
  unfolding point_ok_def read_back_def by (auto simp: confirmed_from_def confirmed_preexisting_def blank_record_def)

lemmas confirms_rules = holds_bindM [THEN iffD2] held_confirms publish_status

lemma reconcile_without_signer_justified:
  assumes "point_ok io p pt"
  shows "holds (reconcile_without_signer E J p refresh pt) w (justified E io p w)"
  unfolding reconcile_without_signer_def reconcile_pending_def reconcile_settled_def Let_def
  by (auto intro!: confirms_rules advance_confirms [where io = io and p = p] point_read_back [OF assms]
      simp: justified_def point_shows [OF assms] split: option.splits)

lemma resolve_in_flight_justified:
  assumes "point_ok io p pt" and "wr_status c \<in> {''intent'', ''pending'', ''held''}"
  shows "holds (resolve_in_flight E J p refresh pt c) w (justified E io p w)"
  using assms(2) unfolding resolve_in_flight_def Let_def
  by (auto intro!: holds_bindM [THEN iffD2] publish_status held_confirms [where io = io and p = p and E = E]
      advance_confirms [where io = io and p = p] point_read_back [OF assms(1)]
      simp: justified_def point_shows [OF assms(1)])

lemma resolve_settled_justified:
  assumes "point_ok io p pt"
  shows "holds (resolve_settled E J p refresh pt) w
    (\<lambda>r w'. confirms_read E io p w w' \<and> (\<forall>x. r = Inr (Some x) \<longrightarrow> res_status x = ''confirmed'' \<longrightarrow> chain_shows io p))"
  unfolding resolve_settled_def Let_def
  by (auto intro!: holds_bindM [THEN iffD2] publish_status held_confirms [where io = io and p = p and E = E]
      advance_confirms [where io = io and p = p] point_read_back [OF assms]
      simp: point_shows [OF assms] split: option.splits sum.splits)

lemma presign_readback_justified:
  assumes "io_signing io = Inr signing"
  shows "holds (presign_readback E J io p refresh pt signing) w
    (\<lambda>r w'. confirms_read E io p w w' \<and> (\<forall>c x. r = Inr (c, Some x) \<longrightarrow> chain_shows io p))"
proof -
  have rb: "read_back E io p (confirmed_from E p c (mv_block signing) (vws_last_update_block row) why)"
    "read_back E io p (confirmed_preexisting E p (mv_block signing) (vws_last_update_block row))"
    "chain_shows io p"
    if "io_signing_row io signing = Inr row" "weights_match row p" for row c why
    using that assms unfolding read_back_def chain_shows_def observed_row_def
    by (auto simp: confirmed_from_def confirmed_preexisting_def blank_record_def)
  have head: "holds (presign_head E J p c (mv_block signing) (vws_last_update_block row)) w
      (\<lambda>_. confirms_read E io p w)"
    if "io_signing_row io signing = Inr row" "weights_match row p" for row c w
    using rb(1,2) [OF that] unfolding presign_head_def
    by (auto intro!: holds_bindM [THEN iffD2] advance_confirms [where io = io and p = p]
        simp: confirmed_from_def confirmed_preexisting_def blank_record_def split: option.splits)
  show ?thesis
    using rb(3) unfolding presign_readback_def Let_def
    by (auto intro!: holds_bindM [THEN iffD2] holds_mono [OF head] publish_status
        simp: holds_liftM split: sum.splits)
qed

lemma submit_weights_confirms:
  "holds (submit_weights E J io p refresh current signing) w (\<lambda>_. confirms_read E io p w)"
proof -
  have sign: "confirms_read E io p w w' \<Longrightarrow>
      confirms_read E io p w (w'\<lparr>pw_events := pw_events w' @ [Signed d view]\<rparr>)" for w' d view
    by (rule confirms_trans) (auto simp: confirms_read_def intro!: exI [of _ "[Signed d view]"])
  have pending: "holds (advance E J c (in_flight_record E p ''pending'' b refresh v why)) w'
      (\<lambda>_. confirms_read E io p w)" if "confirms_read E io p w w'" for c b v why w'
    by (rule advance_confirms [where io = io and p = p])
      (use that confirms_trans in \<open>auto simp: in_flight_record_def blank_record_def\<close>)
  have rest: "holds (bindM (sign_event d view) (\<lambda>_. bindM (advance E J c (in_flight_record E p ''pending'' b refresh v why))
      (\<lambda>x. retM (x, s)))) w' (\<lambda>_. confirms_read E io p w)" if "confirms_read E io p w w'" for d view c b v why s w'
    unfolding holds_bindM holds_sign_event sum.case
    by (rule holds_mono [OF pending [OF sign [OF that]]]) (auto split: sum.splits)
  show ?thesis
    unfolding submit_weights_def Let_def
    by (auto intro!: holds_bindM [THEN iffD2] advance_confirms [where io = io and p = p] rest
        simp: in_flight_record_def [of _ _ "''intent''"] blank_record_def split: sum.splits)
qed

lemma confirm_submission_justified:
  "holds (confirm_submission E J io p refresh signing pending submitted) w (justified E io p w)"
proof -
  let ?read = "catchM (post_submit_read E J io p signing pending submitted) is_chain_error
        (bindM (held E J pending ''post_submit_authority_unavailable'') (\<lambda>new.
         bindM (publish_result E p ''held'' (Some new) False submitted (mv_block signing) False) (\<lambda>x. retM (Inl x))))"
  have held: "holds (bindM (held E J pending why) (\<lambda>new.
         bindM (publish_result E p ''held'' (Some new) False submitted b False) (\<lambda>x. retM (Inl x)))) w'
      (\<lambda>r w''. confirms_read E io p w w'' \<and> (\<forall>x. r = Inr (Inl x) \<longrightarrow> res_status x = ''held'')
         \<and> (\<forall>view row. r = Inr (Inr (view, row)) \<longrightarrow> observed_row io view row))"
    if "confirms_read E io p w w'" for why b w'
    using that confirms_trans
    by (auto intro!: holds_bindM [THEN iffD2] publish_status held_confirms [where io = io and p = p and E = E]
        split: sum.splits)
  have "holds (post_submit_read E J io p signing pending submitted) w
      (\<lambda>r w'. confirms_read E io p w w' \<and> (\<forall>x. r = Inr (Inl x) \<longrightarrow> res_status x = ''held'')
         \<and> (\<forall>view row. r = Inr (Inr (view, row)) \<longrightarrow> observed_row io view row))"
    unfolding post_submit_read_def
    by (auto intro!: holds_bindM [THEN iffD2] publish_status held_confirms [where io = io and p = p and E = E]
        simp: holds_liftM observed_row_def split: sum.splits)
  then have "holds ?read w (\<lambda>r w'. confirms_read E io p w w' \<and> (\<forall>x. r = Inr (Inl x) \<longrightarrow> res_status x = ''held'')
         \<and> (\<forall>view row. r = Inr (Inr (view, row)) \<longrightarrow> observed_row io view row))"
    unfolding holds_catchM by (rule holds_mono) (use held in \<open>auto split: sum.splits\<close>)
  then show ?thesis
    unfolding confirm_submission_def Let_def holds_bindM
  proof (rule holds_mono, goal_cases)
    case (1 r w')
    have shown: "chain_shows io p" "read_back E io p ((in_flight_record E p ''confirmed'' (mv_block signing) refresh v why)
        \<lparr>wr_confirmed_block := mv_block view, wr_confirmed_last_update := vws_last_update_block row\<rparr>)"
      if "observed_row io view row" "weights_match row p" for view row v why
      using that unfolding chain_shows_def read_back_def by (auto simp: in_flight_record_def blank_record_def)
    show ?case
      using 1 shown confirms_trans
      by (auto intro!: holds_bindM [THEN iffD2] publish_status advance_confirms [where io = io and p = p]
          simp: justified_def in_flight_record_def [of _ _ "''confirmed''"] blank_record_def split: sum.splits)
  qed
qed

lemma sign_and_confirm_justified:
  "holds (sign_and_confirm E J io wallet p opts pt) w (justified E io p w)"
proof -
  have submit: "holds (bindM (submit_weights E J io p (po_refresh_blocks opts) current signing) (\<lambda>(pending, submitted).
         confirm_submission E J io p (po_refresh_blocks opts) signing pending submitted)) w' (justified E io p w)"
    if w': "confirms_read E io p w w'" for current signing w'
    unfolding holds_bindM
  proof (rule holds_mono [OF submit_weights_confirms], goal_cases)
    case (1 r w'')
    with w' have "confirms_read E io p w w''" by (rule confirms_trans)
    then show ?case
      by (auto simp: justified_def split: sum.splits
          intro!: holds_mono [OF confirm_submission_justified] intro: confirms_trans)
  qed
  have signing: "holds (bindM (presign_readback E J io p (po_refresh_blocks opts) pt signing) (\<lambda>(current, early).
     case early of Some x \<Rightarrow> retM x | None \<Rightarrow>
         bindM (submit_weights E J io p (po_refresh_blocks opts) current signing) (\<lambda>(pending, submitted).
         confirm_submission E J io p (po_refresh_blocks opts) signing pending submitted))) w (justified E io p w)"
    if "io_signing io = Inr signing" for signing
    unfolding holds_bindM
    by (rule holds_mono [OF presign_readback_justified [OF that]])
      (auto simp: justified_def intro!: submit split: sum.splits option.splits)
  have "open_signing_view E io p pt = Inr signing \<Longrightarrow> io_signing io = Inr signing" for signing
    by (auto simp: open_signing_view_def err_simps)
  then show ?thesis
    unfolding sign_and_confirm_def using signing
    by (auto intro!: holds_bindM [THEN iffD2] simp: holds_liftM justified_def split: sum.splits)
qed

lemma reconcile_justified:
  "holds (reconcile_weight_publication E J io wallet p opts) w (justified E io p w)"
proof -
  have pt: "point_ok io p pt \<and> pt_current pt = c" if "read_authority E io p opts c = Inr pt" for c pt
    using read_authority_facts [OF that] by (simp add: point_ok_def)
  have settle: "holds (bindM (resolve_settled E J p refresh pt) (\<lambda>early.
      case early of Some x \<Rightarrow> retM x | None \<Rightarrow> sign_and_confirm E J io wallet p opts pt)) w (justified E io p w)"
    if "point_ok io p pt" for pt refresh w wallet
    unfolding holds_bindM
    by (rule holds_mono [OF resolve_settled_justified [OF that]])
      (auto simp: justified_def split: sum.splits option.splits
        intro!: holds_mono [OF sign_and_confirm_justified] intro: confirms_trans)
  show ?thesis
    unfolding reconcile_weight_publication_def Let_def
    using pt
    by (auto intro!: holds_bindM [THEN iffD2] publish_status reconcile_without_signer_justified
        resolve_in_flight_justified settle
        simp: check_mode_def holds_liftM justified_def journal_load_def [abs_def] holds_def [of "\<lambda>w. (_ w, w)"]
        split: sum.splits option.splits)
qed

end
