(* ===== verification/Weight_Samples.thy ===== *)
theory Weight_Samples
  imports Weight_Journal Weight_Readback Samples
begin

text \<open>
  A publication on concrete data: a projection over three metagraph members, an empty journal,
  and a chain that shows the weights one block after they were signed.
\<close>

definition sample_view :: "int \<Rightarrow> MetagraphView" where
  "sample_view block = \<lparr>mv_netuid = 7, mv_block = block, mv_block_hash = ''0xAB'',
     mv_uids = [0, 1, 2], mv_hotkeys = [''val'', ''alice'', ''bob''],
     mv_validator_permit = [True, False, False], mv_last_update = [90, 0, 0]\<rparr>"

definition sample_wp :: WeightProjection where
  "sample_wp = \<lparr>wp_chain_scope_digest = sample_id (CHR ''1''), wp_netuid = 7, wp_validator_hotkey = ''val'',
     wp_policy_digest = sample_id (CHR ''2''), wp_settlement_state_digest = sample_id (CHR ''3''),
     wp_evaluation_state_digest = sample_id (CHR ''4''), wp_metagraph_digest = sample_digest ''290'',
     wp_arena_state_digests = [sample_id (CHR ''5'')], wp_stack_generation = 1, wp_effective_block = 100,
     wp_crown_count = 1, wp_evidence_digests = [sample_id (CHR ''6'')],
     wp_weights_ppm = [(''alice'', 600000), (''bob'', 400000)]\<rparr>"

definition sample_row :: "int \<Rightarrow> ValidatorWeightSnapshot" where
  "sample_row updated = \<lparr>vws_weights = [(''bob'', 2 / 5), (''alice'', 3 / 5)], vws_last_update_block = updated\<rparr>"

definition sample_io :: chain_io where
  "sample_io = \<lparr>io_live = Inr (sample_view 100), io_bound = (\<lambda>b. Inr (sample_view b)),
     io_row = (\<lambda>_. Inr \<lparr>vws_weights = [], vws_last_update_block = 90\<rparr>), io_dry = Inr (),
     io_signing = Inr (sample_view 100), io_signing_row = (\<lambda>_. Inr (sample_row 90)),
     io_submit = Inr (PyDict [(PyStr ''submitted'', PyBool True)]), io_attr_data = (\<lambda>_. PyNone),
     io_post = Inr (sample_view 101), io_post_row = (\<lambda>_. Inr (sample_row 101))\<rparr>"

definition sample_opts :: pub_options where
  "sample_opts = \<lparr>po_refresh_blocks = 50, po_dry_run = False, po_reconcile_only = False,
     po_allow_stale_initial = False, po_require_current_crown = True\<rparr>"

definition sample_world :: "sqlite_journal pub_world" where
  "sample_world = \<lparr>pw_journal = \<lparr>sj_composition_activated = False, sj_head = None, sj_rows = [],
     sj_projection = sample_wp\<rparr>, pw_events = []\<rparr>"

lemma sample_world_good: "sqlite_good sample_env (pw_journal sample_world)"
  using sample_hash_digest
  by (simp add: sqlite_good_def sample_world_def sqlite_records_def sample_env_def is_digest_def)

text \<open>A journal whose head is a submission in flight, and a chain past its deadline.\<close>

definition sample_intent :: WeightPublicationRecord where
  "sample_intent = in_flight_record sample_env sample_wp ''intent'' 100 50 0 ''before_sdk_submission''"

definition sample_flight :: "sqlite_journal pub_world" where
  "sample_flight = sample_world\<lparr>pw_journal := (case sqlite_compare_and_swap sample_env None sample_intent
     (pw_journal sample_world) of Inr j \<Rightarrow> j | Inl _ \<Rightarrow> pw_journal sample_world)\<rparr>"

definition sample_late :: chain_io where
  "sample_late = sample_io\<lparr>io_live := Inr (sample_view 160)\<rparr>"

lemma sample_wp_digest: "WeightProjection_digest sample_env sample_wp = sample_digest ''839''"
  by code_simp

lemma sample_digest_hex: "is_sha256_hex (sample_digest ''839'')"
  by code_simp

lemma sample_intent_valid: "record_valid sample_intent"
  using sample_digest_hex
  by (simp add: record_valid_def sample_intent_def in_flight_record_def blank_record_def sample_wp_digest
      PUBLICATION_STATUSES_def record_bounds_def)

lemma sample_intent_cas:
  "\<exists>j. sqlite_compare_and_swap sample_env None sample_intent (pw_journal sample_world) = Inr j"
  by (simp add: sqlite_compare_and_swap_def sample_world_def sample_intent_def in_flight_record_def
      blank_record_def read_head_def require_legacy_v1_allowed_def Let_def)

text \<open>The projection is what its constructor gives.\<close>

lemma sample_wp_init:
  "WeightProjection_init (wp_arena_state_digests sample_wp) (wp_evidence_digests sample_wp)
     (map (\<lambda>(h, n). (h, PyInt n)) (wp_weights_ppm sample_wp))
     (kwargs_of (WeightProjection_fields sample_wp)) = Inr sample_wp"
  by code_simp

lemma sample_flight_good:
  "sqlite_good sample_env (pw_journal sample_flight)"
  "sqlite_records (pw_journal sample_flight) = [sample_intent]"
proof -
  obtain j where j: "sqlite_compare_and_swap sample_env None sample_intent (pw_journal sample_world) = Inr j"
    using sample_intent_cas by blast
  from sqlite_cas_ok [OF sample_world_good sample_intent_valid j]
  show "sqlite_good sample_env (pw_journal sample_flight)"
    "sqlite_records (pw_journal sample_flight) = [sample_intent]"
    by (simp_all add: sample_flight_def j) (simp add: sample_world_def sqlite_records_def)
qed

lemma sample_members:
  "metagraph_digest_of sample_env sample_wp (sample_view 100) = Inr (sample_digest ''290'')"
  by code_simp

lemma sample_late_authority:
  "\<exists>pt. read_authority sample_env sample_late sample_wp sample_opts (Some sample_intent) = Inr pt
     \<and> mv_block (pt_live pt) = 160"
proof -
  have "wp_effective_block sample_wp = 100" "wp_metagraph_digest sample_wp = sample_digest ''290''"
    by (simp_all add: sample_wp_def)
  then show ?thesis
    using sample_members
    by (simp add: read_authority_def sample_late_def sample_io_def check_stale_def check_in_flight_def in_flight_def
        status_in_def record_of_def sample_intent_def in_flight_record_def blank_record_def)
      (simp add: sample_view_def)
qed

end
