(* ===== verification/Weight_Restart.thy ===== *)
theory Weight_Restart
  imports Weight_Journal
begin

text \<open>
  Restarting from the journal: what \<open>compare_and_swap\<close> wrote is what a later process loads. The
  projection is read back from its JSON column, so its \<open>from_dict\<close> has to invert \<open>to_dict\<close>.
\<close>

section \<open>The projection through its dict\<close>

definition projection_valid :: "WeightProjection \<Rightarrow> bool" where
  "projection_valid p \<longleftrightarrow>
     is_sha256_hex (wp_chain_scope_digest p) \<and> is_sha256_hex (wp_policy_digest p)
     \<and> is_sha256_hex (wp_settlement_state_digest p) \<and> is_sha256_hex (wp_evaluation_state_digest p)
     \<and> is_sha256_hex (wp_metagraph_digest p) \<and> 0 \<le> wp_netuid p \<and> signer_name (wp_validator_hotkey p)
     \<and> 0 \<le> wp_stack_generation p \<and> 0 \<le> wp_effective_block p \<and> 0 \<le> wp_crown_count p
     \<and> wp_inventory (wp_evidence_digests p) (wp_arena_state_digests p) (wp_crown_count p) = Inr ()
     \<and> wp_rows (map (\<lambda>(h, n). (h, PyInt n)) (wp_weights_ppm p)) = Inr (wp_weights_ppm p)"

lemma wp_identity_eq_Inr [err_simps]:
  "wp_identity netuid hotkey = Inr (n, h) \<longleftrightarrow> netuid = PyInt n \<and> hotkey = PyStr h \<and> 0 \<le> n \<and> signer_name h"
  by (auto simp: wp_identity_def Let_def split: pyval.splits)

lemma wp_rows_typed:
  assumes "wp_rows rows = Inr weights"
  shows "rows = map (\<lambda>(h, n). (h, PyInt n)) weights"
proof -
  have "list_all2 (\<lambda>r w. r = (fst w, PyInt (snd w))) rows weights"
    using assms unfolding wp_rows_def Let_def
    by (auto simp: err_simps elim!: list_all2_mono split: pyval.splits if_splits)
  then show ?thesis by (induction rule: list_all2_induct) auto
qed

lemma wp_rows_again: "wp_rows rows = Inr ws \<Longrightarrow> wp_rows (map (\<lambda>(h, n). (h, PyInt n)) ws) = Inr ws"
  by (metis wp_rows_typed)

lemma init_projection_valid:
  assumes "WeightProjection_init arenas evidence rows row = Inr p"
  shows "projection_valid p"
  using assms unfolding WeightProjection_init_def
  apply (simp only: bindE_eq_Inr require_sha256_hex_eq_Inr wp_exact_int_eq_Inr sum.inject split_paired_Ex
      prod.case wp_identity_eq_Inr)
  apply (elim exE conjE)
  apply (clarsimp simp: projection_valid_def)
  apply (erule wp_rows_again)
  done

lemma mapE_map_json:
  "mapE wp_pair (map py_of_json (map (\<lambda>(h, n). JList [JStr h, JInt n]) ws)) = Inr (map (\<lambda>(h, n). (PyStr h, PyInt n)) ws)"
  "mapE wp_row (map (\<lambda>(h, n). (PyStr h, PyInt n)) ws) = Inr (map (\<lambda>(h, n). (h, PyInt n)) ws)"
  "wp_str_items (map py_of_json (map JStr ds)) = Inr ds"
  unfolding wp_str_items_def
  by (induction ws, auto simp: wp_pair_def wp_row_def) (induction ds, auto)

lemma projection_from_dict:
  assumes "projection_valid p"
  shows "WeightProjection_from_dict (py_of_json (JObj (WeightProjection_fields p))) = Inr p"
proof -
  let ?row = "kwargs_of (WeightProjection_fields p)"
  have carries: "row_carries ?row (WeightProjection_fields p)"
    by (rule row_carries_kwargs_of) (simp add: WeightProjection_fields_def)
  have members: "exact_members (py_of_json (JObj (WeightProjection_fields p))) wp_field_names m = Inr ?row" for m
    unfolding exact_members_eq_Inr
    by (auto simp: kwargs_of_def WeightProjection_fields_def wp_field_names_def)
  have init: "WeightProjection_init (wp_arena_state_digests p) (wp_evidence_digests p)
      (map (\<lambda>(h, n). (h, PyInt n)) (wp_weights_ppm p)) ?row = Inr p"
    using carries assms unfolding WeightProjection_init_def
    by (cases p) (simp add: WeightProjection_fields_def projection_valid_def require_sha256_hex_def
        wp_exact_int_def wp_identity_def)
  from carries have
      "kwarg ?row ''evidence_digests'' = PyList (map py_of_json (map JStr (wp_evidence_digests p)))"
      "kwarg ?row ''arena_state_digests'' = PyList (map py_of_json (map JStr (wp_arena_state_digests p)))"
      "kwarg ?row ''weights_ppm'' = PyList (map py_of_json (map (\<lambda>(h, n). JList [JStr h, JInt n]) (wp_weights_ppm p)))"
    by (simp_all add: WeightProjection_fields_def)
  then show ?thesis
    unfolding WeightProjection_from_dict_def members
    by (simp add: py_list_of_def mapE_map_json init del: map_map list.map_comp)
qed

section \<open>Reopening\<close>

lemma cas_row:
  assumes cas: "sqlite_compare_and_swap E x r j = Inr j'"
    and own: "wr_projection_digest r = WeightProjection_digest E (sj_projection j)"
  shows "\<exists>row. sj_rows j' = sj_rows j @ [row] \<and> pr_record_digest row = WeightPublicationRecord_digest E r
    \<and> pr_projection_digest row = wr_projection_digest r
    \<and> pr_projection_json row = py_of_json (JObj (WeightProjection_fields (sj_projection j)))
    \<and> sj_projection j' = sj_projection j"
  using cas own unfolding sqlite_compare_and_swap_def Let_def
  by (auto simp: err_simps simp del: py_of_json.simps)

lemma reopen_after_cas:
  assumes good: "sqlite_good E j" and valid: "record_valid r" and p: "projection_valid (sj_projection j)"
    and own: "wr_projection_digest r = WeightProjection_digest E (sj_projection j)"
    and cas: "sqlite_compare_and_swap E x r j = Inr j'"
  shows "sqlite_load E j' = Inr (Some r)"
    and "sqlite_retained_projection E (wr_projection_digest r) j' = Inr (sj_projection j)"
    and "reopen_from_head E j' = Inr j'"
proof -
  obtain row where row: "sj_rows j' = sj_rows j @ [row]" "pr_record_digest row = WeightPublicationRecord_digest E r"
      "pr_projection_digest row = wr_projection_digest r"
      "pr_projection_json row = py_of_json (JObj (WeightProjection_fields (sj_projection j)))"
      "sj_projection j' = sj_projection j"
    using cas_row [OF cas own] by blast
  have good': "sqlite_good E j'" and recs: "sqlite_records j' = r # sqlite_records j"
    using sqlite_cas_ok [OF good valid cas] by auto
  show load: "sqlite_load E j' = Inr (Some r)" using sqlite_load_ok [OF good'] recs by simp
  have allowed: "require_legacy_v1_allowed j' = Inr ()"
    using good' by (simp add: sqlite_good_def require_legacy_v1_allowed_def)
  have hex: "is_sha256_hex (wr_projection_digest r)" using valid by (simp add: record_valid_def)
  have last: "last_projection j' (wr_projection_digest r) = Some (pr_projection_json row)"
    by (simp add: last_projection_def row)
  show "sqlite_retained_projection E (wr_projection_digest r) j' = Inr (sj_projection j)"
    using allowed hex last own projection_from_dict [OF p]
    by (simp add: sqlite_retained_projection_def decode_column_def row(4) require_sha256_hex_def
        del: py_of_json.simps)
  obtain row' where row': "find_row j' (WeightPublicationRecord_digest E r) = Some row'"
    using find_record [OF good', of r] recs by auto
  have "inj_on pr_record_digest (set (sj_rows j'))"
    using good' unfolding sqlite_good_def distinct_map by blast
  moreover have "row' \<in> set (sj_rows j')" "pr_record_digest row' = pr_record_digest row"
    using find_row_Some [OF row'] row(2) by simp_all
  moreover have "row \<in> set (sj_rows j')" by (simp add: row(1))
  ultimately have "row' = row" by (meson inj_onD)
  then have at: "find_row j' (WeightPublicationRecord_digest E r) = Some row" using row' by simp
  have head: "read_head j' = Inr (Some (wr_projection_digest r, WeightPublicationRecord_digest E r))"
    using read_head_ok [OF good'] recs by simp
  have dec: "WeightProjection_from_dict (pr_projection_json row) = Inr (sj_projection j)"
    unfolding row(4) by (rule projection_from_dict [OF p])
  have same: "j'\<lparr>sj_projection := sj_projection j\<rparr> = j'" using row(5) by (cases j') simp
  show "reopen_from_head E j' = Inr j'"
    unfolding reopen_from_head_def head using at row(3) dec own
    by (simp add: wrap_intake_def same allowed load)
qed

end
