(* ===== verification/Weight_Properties.thy ===== *)
theory Weight_Properties
  imports Weight_Samples Weight_Restart
begin

text \<open>
  The properties of weight publication over the SQLite journal of the intake store, for every
  answer the chain and the SDK may give.
\<close>

section \<open>One call\<close>

text \<open>C12. Whatever the chain and the SDK answer, and whether the call returns or raises,
  \<open>reconcile_weight_publication\<close> only appends to the journal, its records follow the publication
  state machine and are linked by their digests, and at most one submission is signed, directly
  after the intent record of the same projection and block was written.\<close>

theorem reconcile_follows_protocol:
  assumes "sqlite_good E (pw_journal w)"
    and "reconcile_weight_publication E (sqlite_ops E) io wallet p opts w = (r, w')"
  shows "\<exists>es. pw_events w' = pw_events w @ es \<and> sqlite_good E (pw_journal w')
    \<and> sqlite_records (pw_journal w') = rev (journaled es) @ sqlite_records (pw_journal w)
    \<and> legal_events E (head_of (sqlite_records (pw_journal w))) es \<and> signed_on_intent es"
  using holds_apply [OF sqlite.reconcile_disciplined [OF assms(1)] assms(2)]
  by (auto simp: sqlite.disciplined_def pub_evolves_def)

theorem reconcile_follows_protocol_witness:
  "\<exists>r w' es. reconcile_weight_publication sample_env (sqlite_ops sample_env) sample_io (Signer ''val'') sample_wp
       sample_opts sample_world = (r, w')
     \<and> pw_events w' = es \<and> sqlite_records (pw_journal w') = rev (journaled es) \<and> signed_on_intent es"
proof -
  obtain r w' where run: "reconcile_weight_publication sample_env (sqlite_ops sample_env) sample_io (Signer ''val'')
      sample_wp sample_opts sample_world = (r, w')" by fastforce
  from reconcile_follows_protocol [OF sample_world_good run] run
  show ?thesis by (auto simp: sample_world_def sqlite_records_def)
qed



text \<open>C14. A dry run changes nothing and signs nothing, and a reconcile-only call never signs.\<close>

theorem unsigned_modes_do_not_sign:
  assumes "reconcile_weight_publication E (sqlite_ops E) io wallet p opts w = (r, w')"
    and "sqlite_good E (pw_journal w)"
  shows "(po_dry_run opts \<longrightarrow> w' = w)
    \<and> (po_reconcile_only opts \<longrightarrow> (\<exists>es. pw_events w' = pw_events w @ es \<and> filter is_signed es = []))"
proof -
  have dry: "holds (reconcile_weight_publication E (sqlite_ops E) io wallet p opts) w (\<lambda>_ w'. w' = w)"
    if "po_dry_run opts"
    using that unfolding reconcile_weight_publication_def Let_def
    by (auto intro!: holds_bindM [THEN iffD2] holds_publish simp: check_mode_def holds_liftM split: sum.splits)
  have only: "holds (reconcile_weight_publication E (sqlite_ops E) io wallet p opts) w
      (\<lambda>_ w'. pub_quiet E sqlite_records (sqlite_good E) w w')" if "po_reconcile_only opts"
    using that sqlite.quiet_refl [OF assms(2)] assms(2) unfolding reconcile_weight_publication_def Let_def
    by (auto intro!: holds_bindM [THEN iffD2] sqlite.load_holds sqlite.reconcile_without_signer_quiet
        simp: check_mode_def holds_liftM sqlite.read_authority_current split: sum.splits)
  show ?thesis
    using holds_apply [OF dry assms(1)] holds_apply [OF only assms(1)] by (auto simp: pub_quiet_def pub_evolves_def)
qed

theorem unsigned_modes_do_not_sign_witness:
  "\<exists>r. reconcile_weight_publication sample_env (sqlite_ops sample_env) sample_io NoSigner sample_wp
     (sample_opts\<lparr>po_dry_run := True\<rparr>) sample_world = (r, sample_world)"
proof -
  obtain r w' where run: "reconcile_weight_publication sample_env (sqlite_ops sample_env) sample_io NoSigner
      sample_wp (sample_opts\<lparr>po_dry_run := True\<rparr>) sample_world = (r, w')" by fastforce
  from unsigned_modes_do_not_sign [OF run sample_world_good] run show ?thesis by simp
qed

section \<open>Histories\<close>





section \<open>Progress\<close>



section \<open>Restart\<close>

text \<open>C17. What a process journaled is what a restarted one reads: after a successful compare-and-swap of a
  record of its own projection, \<open>load\<close> returns that record, \<open>retained_projection\<close> returns the
  projection it was written with, and \<open>reopen_from_head\<close> reopens the same journal.\<close>

theorem restart_reads_what_was_journaled:
  assumes "sqlite_good E j" and "WeightPublicationRecord_init row = Inr r"
    and "WeightProjection_init arenas evidence rows prow = Inr (sj_projection j)"
    and "wr_projection_digest r = WeightProjection_digest E (sj_projection j)"
    and "sqlite_compare_and_swap E x r j = Inr j'"
  shows "sqlite_load E j' = Inr (Some r)
    \<and> sqlite_retained_projection E (WeightProjection_digest E (sj_projection j)) j' = Inr (sj_projection j)
    \<and> reopen_from_head E j' = Inr j'"
  using reopen_after_cas [OF assms(1) publication_record.init_valid [OF assms(2)]
      init_projection_valid [OF assms(3)] assms(4,5)] assms(4) by simp

theorem restart_reads_what_was_journaled_witness:
  "\<exists>j. sqlite_compare_and_swap sample_env None sample_intent (pw_journal sample_world) = Inr j
     \<and> sqlite_load sample_env j = Inr (Some sample_intent) \<and> reopen_from_head sample_env j = Inr j"
proof -
  obtain j where j: "sqlite_compare_and_swap sample_env None sample_intent (pw_journal sample_world) = Inr j"
    using sample_intent_cas by blast
  have r: "WeightPublicationRecord_init (kwargs_of (WeightPublicationRecord_fields sample_intent)) = Inr sample_intent"
    using sample_intent_valid by (simp add: publication_record.new_iff)
  have own: "sj_projection (pw_journal sample_world) = sample_wp" by (simp add: sample_world_def)
  have "wr_projection_digest sample_intent = WeightProjection_digest sample_env sample_wp"
    by (simp add: sample_intent_def in_flight_record_def blank_record_def)
  from restart_reads_what_was_journaled [OF sample_world_good r sample_wp_init [folded own] this [folded own] j] j
  show ?thesis by blast
qed

end
