(* ===== verification/Graph_Walk.thy ===== *)
theory Graph_Walk
  imports Strict
begin

text \<open>
  The graph algorithms of \<open>optima/target_catalog.py\<close>: the depth-first cycle check of
  \<open>_validate_relation_dag\<close>, the worklist of \<open>relation_closure\<close> and the topological sort that
  the constructor and \<open>ordered_active_targets\<close> share. A relation is a dict from target IDs to
  the related IDs; a Python set is a list in its iteration order, on which no result depends.
  A lookup of an unknown ID is the \<open>KeyError\<close> it is in Python.
\<close>

type_synonym graph = "(string \<times> string list) list"

definition graph_rel :: "graph \<Rightarrow> (string \<times> string) set" where
  "graph_rel g = {(a, b). \<exists>cs. map_of g a = Some cs \<and> b \<in> set cs}"

section \<open>The algorithms\<close>

subsection \<open>Cycle check\<close>

text \<open>\<open>visit\<close>: \<open>visiting\<close> is the path that leads to \<open>target\<close>; \<open>visited\<close> is threaded through.\<close>

function dag_visit :: "string \<Rightarrow> graph \<Rightarrow> string list \<Rightarrow> string \<Rightarrow> string list \<Rightarrow> py_error + string list" where
  "dag_visit relation g visiting target visited =
     (if target \<in> set visiting
      then Inl (TargetCatalogError (''target '' @ relation @ '' graph contains a cycle at '' @ show_name target)) else
      if target \<in> set visited then Inr visited else
      case map_of g target of
        None \<Rightarrow> Inl (PyKeyError target)
      | Some children \<Rightarrow>
          bindE (foldE (\<lambda>child vs. dag_visit relation g (target # visiting) child vs) children visited) (\<lambda>vs.
          Inr (target # vs)))"
  by pat_completeness auto

lemma card_unvisited:
  assumes "map_of g t = Some cs" and "t \<notin> set visiting"
  shows "card (fst ` set g - set (t # visiting)) < card (fst ` set g - set visiting)"
proof (rule psubset_card_mono)
  have "t \<in> fst ` set g" using assms(1) by (metis domI dom_map_of_conv_image_fst)
  with assms(2) show "fst ` set g - set (t # visiting) \<subset> fst ` set g - set visiting" by auto
qed simp

termination dag_visit
  by (relation "measure (\<lambda>(_, g, visiting, _, _). card (fst ` set g - set visiting))", simp)
    (simp only: in_measure prod.case, rule card_unvisited)

declare dag_visit.simps [simp del]

definition validate_relation_dag :: "string \<Rightarrow> graph \<Rightarrow> py_error + unit" where
  "validate_relation_dag relation g =
     bindE (foldE (\<lambda>target vs. dag_visit relation g [] target vs) (map fst g) []) (\<lambda>_. Inr ())"

subsection \<open>Closure\<close>

function closure_loop :: "graph \<Rightarrow> string list \<Rightarrow> string list \<Rightarrow> py_error + string list" where
  "closure_loop g pending found =
     (if pending = [] then Inr found else
      let current = last pending; rest = butlast pending in
      if current \<in> set found then closure_loop g rest found else
      case map_of g current of
        None \<Rightarrow> Inl (PyKeyError current)
      | Some related \<Rightarrow> closure_loop g (rest @ related) (found @ [current]))"
  by pat_completeness auto

termination closure_loop
proof (relation "measures [\<lambda>(g, _, found). card (fst ` set g - set found), \<lambda>(_, pending, _). length pending]")
  fix g :: graph and pending found current rest cs
  assume "current = last pending" "rest = butlast pending" "current \<notin> set found" "map_of g current = Some cs"
  then have "card (fst ` set g - set (found @ [current])) < card (fst ` set g - set found)"
    using card_unvisited [of g current cs found] by (simp add: insert_commute)
  then show "((g, rest @ cs, found @ [current]), g, pending, found)
      \<in> measures [\<lambda>(g, _, found). card (fst ` set g - set found), \<lambda>(_, pending, _). length pending]"
    by simp
qed auto

declare closure_loop.simps [simp del]

definition relation_closure :: "graph \<Rightarrow> string \<Rightarrow> py_error + string list" where
  "relation_closure g target =
     (case map_of g target of None \<Rightarrow> Inl (PyKeyError target) | Some related \<Rightarrow> closure_loop g related [])"

subsection \<open>Topological sort\<close>

text \<open>
  The two uses differ in how \<open>ready\<close> is kept: the constructor pops the row it appended last,
  \<open>ordered_active_targets\<close> pops the smallest. The next row to pop is the head of the list here.
\<close>

datatype ready_order = Stack | Sorted

fun push_ready :: "ready_order \<Rightarrow> string \<Rightarrow> string list \<Rightarrow> string list" where
  "push_ready Stack x xs = x # xs"
| "push_ready Sorted x xs = sort (xs @ [x])"

definition release_child ::
    "ready_order \<Rightarrow> string \<Rightarrow> (string \<times> int) list \<times> string list \<Rightarrow> py_error + (string \<times> int) list \<times> string list" where
  "release_child ord child st =
     (case st of (incoming, ready) \<Rightarrow>
        case map_of incoming child of
          None \<Rightarrow> Inl (PyKeyError child)
        | Some n \<Rightarrow>
            Inr (dict_set child (n - 1) incoming, if n - 1 = 0 then push_ready ord child ready else ready))"

definition children_in_order :: "ready_order \<Rightarrow> string list \<Rightarrow> string list" where
  "children_in_order ord cs = (case ord of Stack \<Rightarrow> cs | Sorted \<Rightarrow> sort cs)"

text \<open>How much work is left: the rows that are ready and the arrivals that are awaited.\<close>

definition awaited :: "(string \<times> int) list \<times> string list \<Rightarrow> nat" where
  "awaited st = length (snd st) + sum_list (map (\<lambda>(_, n). nat n) (fst st))"

lemma mset_push_ready [simp]: "mset (push_ready ord x xs) = add_mset x (mset xs)"
  by (cases ord) simp_all

lemma length_push_ready [simp]: "length (push_ready ord x xs) = Suc (length xs)"
  by (metis mset_push_ready size_add_mset size_mset)

lemma release_child_awaited:
  assumes "release_child ord c st = Inr st'"
  shows "awaited st' \<le> awaited st"
proof -
  obtain incoming ready where st: "st = (incoming, ready)" by (cases st)
  obtain n where n: "map_of incoming c = Some n"
    and st': "st' = (dict_set c (n - 1) incoming, if n - 1 = 0 then push_ready ord c ready else ready)"
    using assms by (auto simp: release_child_def st split: option.splits)
  have "sum_list (map (\<lambda>(_, n). nat n) (dict_set c (n - 1) incoming)) + nat n
      = sum_list (map (\<lambda>(_, n). nat n) incoming) + nat (n - 1)"
    using n by (induction incoming) (auto split: if_splits)
  then show ?thesis by (cases "n = 1") (auto simp: awaited_def st st')
qed

lemma release_all_awaited: "foldE (release_child ord) cs st = Inr st' \<Longrightarrow> awaited st' \<le> awaited st"
  by (erule foldE_invariant [where P = "\<lambda>s. awaited s \<le> awaited st"])
    (auto dest: release_child_awaited)

function kahn_loop ::
    "ready_order \<Rightarrow> graph \<Rightarrow> (string \<times> int) list \<Rightarrow> string list \<Rightarrow> string list \<Rightarrow> py_error + string list" where
  "kahn_loop ord outgoing incoming ready ordered =
     (case ready of
        [] \<Rightarrow> Inr ordered
      | current # rest \<Rightarrow>
          (case map_of outgoing current of
             None \<Rightarrow> Inl (PyKeyError current)
           | Some children \<Rightarrow>
               bindE (foldE (release_child ord) (children_in_order ord children) (incoming, rest)) (\<lambda>st.
               kahn_loop ord outgoing (fst st) (snd st) (ordered @ [current]))))"
  by pat_completeness auto

termination kahn_loop
proof (relation "measure (\<lambda>(_, _, incoming, ready, _). awaited (incoming, ready))")
  fix ord outgoing incoming ready ordered current rest children st
  assume "ready = current # rest"
    and "foldE (release_child ord) (children_in_order ord children) (incoming, rest) = Inr st"
  then show "((ord, outgoing, fst st, snd st, ordered @ [current]), ord, outgoing, incoming, ready, ordered)
      \<in> measure (\<lambda>(_, _, incoming, ready, _). awaited (incoming, ready))"
    using release_all_awaited [of ord "children_in_order ord children" "(incoming, rest)" st]
    by (simp add: awaited_def)
qed simp

declare kahn_loop.simps [simp del]

end
