(* ===== verification/Target_Catalog.thy ===== *)
theory Target_Catalog
  imports Graph_Walk
begin

text \<open>
  \<open>optima/target_catalog.py\<close>: the validator's catalog of contribution targets. A target owns
  semantic slots, displaces or requires other targets and may compose with compatible ones under
  a rule that orders them. The constructor checks the whole policy, one definition per stage
  here; the operations answer which sets of targets may be active together and in which order
  they apply. Python's frozensets are lists in iteration order. \<open>registry\<close> is the snapshot of
  the artifact provider registry, which the catalog only embeds.
\<close>

section \<open>Data\<close>

datatype TargetKind = SLOT | ATOMIC

definition kind_value :: "TargetKind \<Rightarrow> string" where
  "kind_value k = (case k of SLOT \<Rightarrow> ''slot'' | ATOMIC \<Rightarrow> ''atomic'')"

definition KNOWN_CONTRIBUTION_FEATURES :: "string list" where
  "KNOWN_CONTRIBUTION_FEATURES =
     [''entry'', ''variants'', ''prepare'', ''setup'', ''override'', ''cuda_sources'',
      ''rebuild:build_cuda_ext'', ''rebuild:apply_dep_patch'', ''dep_patch:flashinfer'',
      ''aot:cutlass.cute.cubin.v1'', ''rebuild:build_cute_cubin'']"

record CorrectnessContractRef =
  ccr_mode :: string
  ccr_top_k :: int
  ccr_min_ratio :: string
  ccr_min_cosine :: string
  ccr_max_rel_norm_err :: string
  ccr_min_overlap :: string

definition CorrectnessContractRef_snapshot :: "CorrectnessContractRef \<Rightarrow> json" where
  "CorrectnessContractRef_snapshot c = JObj
     [(''mode'', JStr (ccr_mode c)), (''top_k'', JInt (ccr_top_k c)),
      (''min_ratio'', JStr (ccr_min_ratio c)), (''min_cosine'', JStr (ccr_min_cosine c)),
      (''max_rel_norm_err'', JStr (ccr_max_rel_norm_err c)), (''min_overlap'', JStr (ccr_min_overlap c))]"

record ToleranceContractRef =
  tol_dtype :: string
  tol_atol :: string
  tol_rtol :: string

definition ToleranceContractRef_snapshot :: "ToleranceContractRef \<Rightarrow> json" where
  "ToleranceContractRef_snapshot t =
     JObj [(''dtype'', JStr (tol_dtype t)), (''atol'', JStr (tol_atol t)), (''rtol'', JStr (tol_rtol t))]"

record TargetContractRef =
  tcr_schema_version :: int
  tcr_slot_id :: string
  tcr_kind :: string
  tcr_entry :: string
  tcr_prepare :: "string option"
  tcr_graph_dynamic_inputs :: "string list"
  tcr_input_abi_id :: string
  tcr_output_abi_id :: string
  tcr_reference_id :: string
  tcr_verification_profile_id :: string
  tcr_binding_family_id :: string
  tcr_correctness :: CorrectnessContractRef
  tcr_tolerances :: "ToleranceContractRef list"
  tcr_kl_threshold :: "string option"

definition TargetContractRef_snapshot :: "TargetContractRef \<Rightarrow> json" where
  "TargetContractRef_snapshot c = JObj
     [(''schema_version'', JInt (tcr_schema_version c)), (''slot_id'', JStr (tcr_slot_id c)),
      (''kind'', JStr (tcr_kind c)), (''entry'', JStr (tcr_entry c)),
      (''prepare'', json_of_option JStr (tcr_prepare c)),
      (''graph_dynamic_inputs'', JList (map JStr (tcr_graph_dynamic_inputs c))),
      (''input_abi_id'', JStr (tcr_input_abi_id c)), (''output_abi_id'', JStr (tcr_output_abi_id c)),
      (''reference_id'', JStr (tcr_reference_id c)),
      (''verification_profile_id'', JStr (tcr_verification_profile_id c)),
      (''binding_family_id'', JStr (tcr_binding_family_id c)),
      (''correctness'', CorrectnessContractRef_snapshot (tcr_correctness c)),
      (''tolerances'', JList (map ToleranceContractRef_snapshot (tcr_tolerances c))),
      (''kl_threshold'', json_of_option JStr (tcr_kl_threshold c))]"

definition TargetContractRef_digest :: "py_env \<Rightarrow> TargetContractRef \<Rightarrow> string" where
  "TargetContractRef_digest E c = json_digest E ''optima.target-contract'' (TargetContractRef_snapshot c)"

record TargetSpec =
  ts_target_id :: string
  ts_kind :: TargetKind
  ts_members :: "string list"
  ts_displaces :: "string list"
  ts_compatible_with :: "string list"
  ts_requires :: "string list"
  ts_allowed_features :: "string list"
  ts_contract_ref :: "TargetContractRef option"
  ts_atomic_semantics_id :: "string option"

text \<open>The pattern \<open>^[0-9A-Za-z._\-]+$\<close> under \<open>fullmatch\<close>.\<close>

definition id_char :: "char \<Rightarrow> bool" where
  "id_char c = (let n = of_char c :: nat in
     (48 \<le> n \<and> n \<le> 57) \<or> (65 \<le> n \<and> n \<le> 90) \<or> (97 \<le> n \<and> n \<le> 122) \<or> n \<in> {45, 46, 95})"

definition catalog_fail :: "string \<Rightarrow> py_error + 'a" where
  "catalog_fail message = Inl (TargetCatalogError message)"

definition simple_id :: "pyval \<Rightarrow> string \<Rightarrow> py_error + string" where
  "simple_id v field =
     (let fail = catalog_fail (field @ '' must be a non-empty canonical string'') in
      case v of
        PyStr s \<Rightarrow>
          if s = [] \<or> py_strip s \<noteq> s then fail else
          if \<not> list_all id_char s then catalog_fail (field @ '' has illegal characters: '' @ show_name s)
          else Inr s
      | _ \<Rightarrow> fail)"

text \<open>\<open>repr\<close> of a tuple of names.\<close>

definition show_tuple :: "string list \<Rightarrow> string" where
  "show_tuple xs = (case xs of [s] \<Rightarrow> ''('' @ show_name s @ '',)'' | ss \<Rightarrow> ''('' @ show_names ss @ '')'')"

record CompositionRule =
  cr_schema_version :: int
  cr_rule_id :: string
  cr_target_ids :: "string list"
  cr_precedence :: "string list"
  cr_mode :: string
  cr_binding_family_id :: string
  cr_binding_contract_digest :: string

definition CompositionRule_new :: "CompositionRule \<Rightarrow> py_error + CompositionRule" where
  "CompositionRule_new r =
     (if cr_schema_version r \<noteq> 1 then catalog_fail ''composition rule schema_version must be 1'' else
      bindE (simple_id (PyStr (cr_rule_id r)) ''composition rule_id'') (\<lambda>_.
      if length (cr_target_ids r) \<noteq> 2 \<or> cr_target_ids r \<noteq> sort (cr_target_ids r)
      then catalog_fail ''composition rule target_ids must contain exactly two sorted IDs'' else
      if \<not> distinct (cr_target_ids r) then catalog_fail ''composition rule target_ids contain duplicates'' else
      bindE (forE (cr_target_ids r) (\<lambda>t. bindE (simple_id (PyStr t) ''composition target_id'') (\<lambda>_. Inr ()))) (\<lambda>_.
      if length (cr_precedence r) \<noteq> length (cr_target_ids r) \<or> set (cr_precedence r) \<noteq> set (cr_target_ids r)
      then catalog_fail ''composition rule precedence must order the exact target_ids'' else
      if cr_mode r \<noteq> ''first_applicable'' then catalog_fail ''first_applicable is the only composition mode'' else
      bindE (simple_id (PyStr (cr_binding_family_id r)) ''composition binding_family_id'') (\<lambda>_.
      if \<not> is_sha256_hex (cr_binding_contract_digest r)
      then catalog_fail ''composition binding_contract_digest must be lowercase SHA-256'' else Inr r))))"

definition CompositionRule_snapshot :: "CompositionRule \<Rightarrow> json" where
  "CompositionRule_snapshot r = JObj
     [(''schema_version'', JInt (cr_schema_version r)), (''rule_id'', JStr (cr_rule_id r)),
      (''target_ids'', JList (map JStr (cr_target_ids r))), (''precedence'', JList (map JStr (cr_precedence r))),
      (''mode'', JStr (cr_mode r)), (''binding_family_id'', JStr (cr_binding_family_id r)),
      (''binding_contract_digest'', JStr (cr_binding_contract_digest r))]"

section \<open>Construction\<close>

type_synonym specs = "(string \<times> TargetSpec) list"

fun pairs_of :: "'a list \<Rightarrow> ('a \<times> 'a) list" where
  "pairs_of [] = []"
| "pairs_of (x # xs) = map (Pair x) xs @ pairs_of xs"

subsection \<open>One spec\<close>

definition check_slot :: "TargetSpec \<Rightarrow> py_error + unit" where
  "check_slot spec =
     (let tid = ts_target_id spec; slot = ''slot target '' @ show_name tid in
      if ts_members spec \<noteq> [tid] then catalog_fail (slot @ '' must have itself as its sole member'') else
      case ts_contract_ref spec of
        None \<Rightarrow> catalog_fail (slot @ '' requires a TargetContractRef'')
      | Some c \<Rightarrow>
          if tcr_slot_id c \<noteq> tid then catalog_fail (slot @ '' contract_ref names '' @ show_name (tcr_slot_id c)) else
          if ts_atomic_semantics_id spec \<noteq> None
          then catalog_fail (slot @ '' may not declare atomic_semantics_id'') else Inr ())"

definition check_atomic :: "TargetSpec \<Rightarrow> py_error + unit" where
  "check_atomic spec =
     (let atomic = ''atomic target '' @ show_name (ts_target_id spec) in
      if length (ts_members spec) < 2 then catalog_fail (atomic @ '' requires at least two members'') else
      if ts_contract_ref spec \<noteq> None then catalog_fail (atomic @ '' may not declare contract_ref'') else
      bindE (simple_id (case ts_atomic_semantics_id spec of None \<Rightarrow> PyNone | Some s \<Rightarrow> PyStr s)
        (atomic @ '' atomic_semantics_id'')) (\<lambda>_. Inr ()))"

definition check_features :: "TargetSpec \<Rightarrow> py_error + unit" where
  "check_features spec =
     (let tgt = ''target '' @ show_name (ts_target_id spec);
          unknown = filter (\<lambda>f. f \<notin> set KNOWN_CONTRIBUTION_FEATURES) (ts_allowed_features spec)
      in if unknown \<noteq> [] then catalog_fail (tgt @ '' allows unknown features '' @ show_strs unknown) else
         if ''entry'' \<notin> set (ts_allowed_features spec)
         then catalog_fail (tgt @ '' must allow the entry feature'') else
         if ''setup'' \<in> set (ts_allowed_features spec)
         then catalog_fail (tgt @ '' may not allow engine-wide setup'') else Inr ())"

text \<open>The first loop: \<open>by_id\<close> and \<open>member_sets\<close> grow by one spec.\<close>

definition admit_spec ::
    "TargetSpec \<Rightarrow> specs \<times> (string set \<times> string) list \<Rightarrow> py_error + specs \<times> (string set \<times> string) list" where
  "admit_spec spec st =
     (case st of (by_id, member_sets) \<Rightarrow>
      let tid = ts_target_id spec; tgt = ''target '' @ show_name tid; members = ts_members spec in
      bindE (simple_id (PyStr tid) ''target_id'') (\<lambda>_.
      if tid \<in> fst ` set by_id then catalog_fail (''duplicate target ID '' @ show_name tid) else
      if members = [] then catalog_fail (tgt @ '' members must be a non-empty sequence'') else
      bindE (forE members (\<lambda>m. bindE (simple_id (PyStr m) (tgt @ '' member'')) (\<lambda>_. Inr ()))) (\<lambda>_.
      if \<not> distinct members then catalog_fail (tgt @ '' has duplicate members '' @ show_tuple members) else
      bindE (case ts_kind spec of SLOT \<Rightarrow> check_slot spec | ATOMIC \<Rightarrow> check_atomic spec) (\<lambda>_.
      case map_of member_sets (set members) of
        Some previous \<Rightarrow> catalog_fail (''multiple targets register the same exact member set: '' @
          show_name previous @ '', '' @ show_name tid)
      | None \<Rightarrow>
          bindE (check_features spec) (\<lambda>_.
          Inr (dict_set tid spec by_id, dict_set (set members) tid member_sets))))))"

subsection \<open>Relations between specs\<close>

definition check_relation :: "specs \<Rightarrow> TargetSpec \<Rightarrow> string \<times> string list \<Rightarrow> py_error + unit" where
  "check_relation by_id spec row =
     (case row of (relation_name, related) \<Rightarrow>
      let tgt = ''target '' @ show_name (ts_target_id spec);
          unknown = filter (\<lambda>t. t \<notin> fst ` set by_id) related
      in if ts_target_id spec \<in> set related
         then catalog_fail (tgt @ '' may not '' @ relation_name @ '' itself'') else
         if unknown \<noteq> []
         then catalog_fail (tgt @ '' '' @ relation_name @ '' unknown targets '' @ show_strs unknown) else Inr ())"

definition missing_singletons :: "specs \<Rightarrow> TargetSpec \<Rightarrow> string list" where
  "missing_singletons by_id spec = filter (\<lambda>m.
     case map_of by_id m of None \<Rightarrow> True | Some s \<Rightarrow> ts_kind s \<noteq> SLOT \<or> ts_members s \<noteq> [m]) (ts_members spec)"

definition check_relations :: "specs \<Rightarrow> TargetSpec \<Rightarrow> py_error + unit" where
  "check_relations by_id spec =
     (let tgt = ''target '' @ show_name (ts_target_id spec);
          atomic = ''atomic target '' @ show_name (ts_target_id spec);
          overlap = filter (\<lambda>t. t \<in> set (ts_compatible_with spec)) (ts_displaces spec);
          required_displaced = filter (\<lambda>t. t \<in> set (ts_displaces spec)) (ts_requires spec);
          missing_displacement = filter (\<lambda>t. t \<notin> set (ts_displaces spec)) (ts_members spec)
      in bindE (forE [(''displaces'', ts_displaces spec), (''compatible_with'', ts_compatible_with spec),
           (''requires'', ts_requires spec)] (check_relation by_id spec)) (\<lambda>_.
         if overlap \<noteq> []
         then catalog_fail (tgt @ '' both displaces and is compatible with '' @ show_strs overlap) else
         if required_displaced \<noteq> []
         then catalog_fail (tgt @ '' requires targets it displaces '' @ show_strs required_displaced) else
         if ts_kind spec = ATOMIC \<and> missing_singletons by_id spec \<noteq> []
         then catalog_fail (atomic @ '' has members without registered singletons '' @
           show_tuple (missing_singletons by_id spec)) else
         if ts_kind spec = ATOMIC \<and> missing_displacement \<noteq> []
         then catalog_fail (atomic @ '' must explicitly displace member targets '' @ show_strs missing_displacement)
         else Inr ()))"

definition check_compatible :: "specs \<Rightarrow> TargetSpec \<Rightarrow> py_error + unit" where
  "check_compatible by_id spec =
     forE (ts_compatible_with spec) (\<lambda>other_id.
       case map_of by_id other_id of
         None \<Rightarrow> Inl (PyKeyError other_id)
       | Some other \<Rightarrow>
           let tid = ts_target_id spec in
           if tid \<notin> set (ts_compatible_with other)
           then catalog_fail (''compatible overlap must be symmetric: '' @ show_name tid @ '' -> '' @ show_name other_id) else
           if other_id \<in> set (ts_displaces spec) \<or> tid \<in> set (ts_displaces other)
           then catalog_fail (''targets '' @ show_name tid @ '' and '' @ show_name other_id @
             '' cannot be both compatible and displaced'')
           else Inr ())"

definition check_shared :: "TargetSpec \<times> TargetSpec \<Rightarrow> py_error + unit" where
  "check_shared pair =
     (case pair of (left, right) \<Rightarrow>
      let shared = filter (\<lambda>m. m \<in> set (ts_members right)) (ts_members left);
          both = ''targets '' @ show_name (ts_target_id left) @ '' and '' @ show_name (ts_target_id right)
      in if shared = [] then Inr () else
         if ts_target_id right \<in> set (ts_compatible_with left)
         then catalog_fail (both @ '' share members but first_applicable rules do not define member ownership'') else
         if ts_target_id right \<notin> set (ts_displaces left) \<and> ts_target_id left \<notin> set (ts_displaces right)
         then catalog_fail (both @ '' share members '' @ show_strs shared @
           '' without explicit displacement or compatible overlap'')
         else Inr ())"

subsection \<open>Closures\<close>

definition rel_graph :: "(TargetSpec \<Rightarrow> string list) \<Rightarrow> specs \<Rightarrow> graph" where
  "rel_graph relation by_id = map (\<lambda>(t, s). (t, relation s)) by_id"

definition closures :: "graph \<Rightarrow> py_error + graph" where
  "closures g = mapE (\<lambda>t. bindE (relation_closure g t) (\<lambda>c. Inr (t, c))) (map fst g)"

definition check_contradiction :: "graph \<Rightarrow> graph \<Rightarrow> string \<Rightarrow> py_error + unit" where
  "check_contradiction displacement requirement tid =
     (let displaced = dict_get tid [] displacement; required = dict_get tid [] requirement;
          contradiction = filter (\<lambda>t. t \<in> set required) displaced;
          reverse = filter (\<lambda>d. tid \<in> set (dict_get d [] displacement)) required
      in if contradiction \<noteq> []
         then catalog_fail (''target '' @ show_name tid @ '' requires its displacement closure '' @ show_strs contradiction) else
         if reverse \<noteq> []
         then catalog_fail (''target '' @ show_name tid @ '' requires targets that displace it '' @ show_strs reverse)
         else Inr ())"

subsection \<open>Composition rules\<close>

record rule_index =
  ri_by_id :: "(string \<times> CompositionRule) list"
  ri_by_targets :: "(string list \<times> CompositionRule) list"
  ri_by_pair :: "((string \<times> string) \<times> CompositionRule) list"

definition is_compatible :: "specs \<Rightarrow> string \<Rightarrow> string \<Rightarrow> bool" where
  "is_compatible by_id left right =
     (case map_of by_id left of None \<Rightarrow> False | Some s \<Rightarrow> right \<in> set (ts_compatible_with s))"

definition admit_pair ::
    "specs \<Rightarrow> CompositionRule \<Rightarrow> string \<times> string \<Rightarrow> ((string \<times> string) \<times> CompositionRule) list \<Rightarrow>
     py_error + ((string \<times> string) \<times> CompositionRule) list" where
  "admit_pair by_id rule pair by_pair =
     (case pair of (left, right) \<Rightarrow>
      if \<not> is_compatible by_id left right \<or> \<not> is_compatible by_id right left
      then catalog_fail (''composition rule '' @ show_name (cr_rule_id rule) @ '' targets must be explicitly compatible'') else
      case map_of by_pair (left, right) of
        Some previous \<Rightarrow> catalog_fail (''compatible target pair '' @ show_tuple [left, right] @
          '' is covered by multiple composition rules '' @ show_name (cr_rule_id previous) @ '', '' @
          show_name (cr_rule_id rule))
      | None \<Rightarrow> Inr (dict_set (left, right) rule by_pair))"

definition check_binding :: "specs \<Rightarrow> CompositionRule \<Rightarrow> string \<Rightarrow> py_error + unit" where
  "check_binding by_id rule tid =
     (case map_of by_id tid of
        None \<Rightarrow> Inl (PyKeyError tid)
      | Some spec \<Rightarrow>
          (case ts_contract_ref spec of
             None \<Rightarrow> Inr ()
           | Some c \<Rightarrow>
               if tcr_binding_family_id c \<noteq> cr_binding_family_id rule
               then catalog_fail (''composition rule '' @ show_name (cr_rule_id rule) @
                 '' binding family does not match target '' @ show_name tid)
               else Inr ()))"

definition admit_rule :: "specs \<Rightarrow> CompositionRule \<Rightarrow> rule_index \<Rightarrow> py_error + rule_index" where
  "admit_rule by_id rule ri =
     (let unknown = filter (\<lambda>t. t \<notin> fst ` set by_id) (cr_target_ids rule) in
      if cr_rule_id rule \<in> fst ` set (ri_by_id ri)
      then catalog_fail (''duplicate composition rule ID '' @ show_name (cr_rule_id rule)) else
      if cr_target_ids rule \<in> fst ` set (ri_by_targets ri)
      then catalog_fail (''duplicate composition rule targets '' @ show_tuple (cr_target_ids rule)) else
      if unknown \<noteq> []
      then catalog_fail (''composition rule '' @ show_name (cr_rule_id rule) @ '' names unknown targets '' @ show_strs unknown) else
      bindE (foldE (admit_pair by_id rule) (pairs_of (cr_target_ids rule)) (ri_by_pair ri)) (\<lambda>by_pair.
      bindE (forE (cr_target_ids rule) (check_binding by_id rule)) (\<lambda>_.
      Inr \<lparr>ri_by_id = dict_set (cr_rule_id rule) rule (ri_by_id ri),
           ri_by_targets = dict_set (cr_target_ids rule) rule (ri_by_targets ri), ri_by_pair = by_pair\<rparr>)))"

definition check_coverage :: "specs \<Rightarrow> rule_index \<Rightarrow> string \<times> string \<Rightarrow> py_error + unit" where
  "check_coverage by_id ri pair =
     (case pair of (left, right) \<Rightarrow>
      case map_of (ri_by_pair ri) (left, right) of
        None \<Rightarrow>
          if is_compatible by_id left right
          then catalog_fail (''compatible targets '' @ show_tuple [left, right] @ '' require a CompositionRule'')
          else Inr ()
      | Some rule \<Rightarrow>
          if \<not> is_compatible by_id left right
          then catalog_fail (''composition rule '' @ show_name (cr_rule_id rule) @ '' has no compatible target pair'')
          else Inr ())"

subsection \<open>Precedence\<close>

definition add_precedence ::
    "string \<times> string \<Rightarrow> graph \<times> (string \<times> int) list \<Rightarrow> py_error + graph \<times> (string \<times> int) list" where
  "add_precedence edge st =
     (case (edge, st) of ((earlier, later), (outgoing, incoming)) \<Rightarrow>
      case map_of outgoing earlier of
        None \<Rightarrow> Inl (PyKeyError earlier)
      | Some laters \<Rightarrow>
          if later \<in> set laters then Inr (outgoing, incoming) else
          (case map_of incoming later of
             None \<Rightarrow> Inl (PyKeyError later)
           | Some n \<Rightarrow> Inr (dict_set earlier (laters @ [later]) outgoing, dict_set later (n + 1) incoming)))"

text \<open>\<open>zip(precedence, precedence[1:])\<close>.\<close>

definition steps_of :: "string list \<Rightarrow> (string \<times> string) list" where
  "steps_of precedence = zip precedence (tl precedence)"

definition precedence_graph :: "string list \<Rightarrow> string list list \<Rightarrow> py_error + graph \<times> (string \<times> int) list" where
  "precedence_graph nodes precedences =
     foldE add_precedence (concat (map steps_of precedences)) (map (\<lambda>t. (t, [])) nodes, map (\<lambda>t. (t, 0)) nodes)"

definition no_incoming :: "(string \<times> int) list \<Rightarrow> string list" where
  "no_incoming incoming = map fst (filter (\<lambda>(_, n). n = 0) incoming)"

definition check_precedence :: "string list \<Rightarrow> CompositionRule list \<Rightarrow> py_error + unit" where
  "check_precedence nodes rules =
     bindE (precedence_graph nodes (map cr_precedence rules)) (\<lambda>(outgoing, incoming).
     bindE (kahn_loop Stack outgoing incoming (rev (no_incoming incoming)) []) (\<lambda>visited.
     if length visited \<noteq> length nodes then catalog_fail ''composition precedence contains a cycle'' else Inr ()))"

subsection \<open>Snapshots\<close>

definition member_contract_digest :: "py_env \<Rightarrow> specs \<Rightarrow> string \<Rightarrow> py_error + string" where
  "member_contract_digest E by_id member =
     (case map_of by_id member of
        None \<Rightarrow> Inl (PyKeyError member)
      | Some s \<Rightarrow>
          (case ts_contract_ref s of
             None \<Rightarrow> Inl (PyTypeError ''contract_ref'')
           | Some c \<Rightarrow> Inr (TargetContractRef_digest E c)))"

definition build_target_snapshot :: "py_env \<Rightarrow> specs \<Rightarrow> TargetSpec \<Rightarrow> py_error + (string \<times> json) list" where
  "build_target_snapshot E by_id spec =
     (let names = (\<lambda>xs. JList (map JStr xs));
          common =
            [(''target_id'', JStr (ts_target_id spec)), (''kind'', JStr (kind_value (ts_kind spec))),
             (''members'', names (ts_members spec)), (''displaces'', names (sort (ts_displaces spec))),
             (''compatible_with'', names (sort (ts_compatible_with spec))),
             (''requires'', names (sort (ts_requires spec))),
             (''allowed_features'', names (sort (ts_allowed_features spec)))]
      in case ts_kind spec of
           SLOT \<Rightarrow>
             (case ts_contract_ref spec of
                None \<Rightarrow> Inl (PyAssertionError [])
              | Some c \<Rightarrow> Inr (common @
                  [(''contract_ref'', TargetContractRef_snapshot c),
                   (''contract_digest'', JStr (TargetContractRef_digest E c))]))
         | ATOMIC \<Rightarrow>
             (case ts_atomic_semantics_id spec of
                None \<Rightarrow> Inl (PyAssertionError [])
              | Some semantics \<Rightarrow>
                  bindE (mapE (member_contract_digest E by_id) (ts_members spec)) (\<lambda>digests.
                  Inr (common @
                    [(''atomic_semantics_id'', JStr semantics), (''member_contract_digests'', names digests),
                     (''contract_digest'', JStr (json_digest E ''optima.atomic-target-contract'' (JObj
                        [(''schema_version'', JInt 1), (''target_id'', JStr (ts_target_id spec)),
                         (''atomic_semantics_id'', JStr semantics),
                         (''member_contract_digests'', names digests)])))]))))"

record TargetCatalog =
  tc_by_id :: specs
  tc_by_members :: "(string set \<times> TargetSpec) list"
  tc_composition :: rule_index
  tc_displacement_closures :: graph
  tc_requirement_closures :: graph
  tc_target_snapshots :: "(string \<times> (string \<times> json) list) list"
  tc_snapshot :: json
  tc_digest :: string

definition catalog_snapshot ::
    "py_env \<Rightarrow> json \<Rightarrow> (string \<times> (string \<times> json) list) list \<Rightarrow> (string \<times> CompositionRule) list \<Rightarrow> json" where
  "catalog_snapshot E registry snapshots rules = JObj
     [(''schema_version'', JInt 1), (''policy_version'', JStr ''target-catalog.v1''),
      (''artifact_provider_registry'', registry),
      (''artifact_provider_registry_digest'', JStr (json_digest E ''optima.artifact-provider-registry'' registry)),
      (''targets'', JList (map (\<lambda>(_, row). JObj row) snapshots)),
      (''composition_rules'', JList (map (\<lambda>(_, r). CompositionRule_snapshot r) rules))]"

definition TargetCatalog_init ::
    "py_env \<Rightarrow> json \<Rightarrow> TargetSpec list \<Rightarrow> CompositionRule list \<Rightarrow> py_error + TargetCatalog" where
  "TargetCatalog_init E registry rows rules =
     (if rows = [] then catalog_fail ''target catalog must not be empty'' else
      bindE (foldE admit_spec rows ([], [])) (\<lambda>(by_id, member_sets).
      let specs = map snd by_id; displaces = rel_graph ts_displaces by_id; requires = rel_graph ts_requires by_id in
      bindE (forE specs (check_relations by_id)) (\<lambda>_.
      bindE (forE specs (check_compatible by_id)) (\<lambda>_.
      bindE (forE (pairs_of specs) check_shared) (\<lambda>_.
      bindE (validate_relation_dag ''displaces'' displaces) (\<lambda>_.
      bindE (validate_relation_dag ''requires'' requires) (\<lambda>_.
      bindE (closures displaces) (\<lambda>displacement.
      bindE (closures requires) (\<lambda>requirement.
      bindE (forE (map ts_target_id specs) (check_contradiction displacement requirement)) (\<lambda>_.
      bindE (foldE (admit_rule by_id) rules \<lparr>ri_by_id = [], ri_by_targets = [], ri_by_pair = []\<rparr>) (\<lambda>ri.
      bindE (forE (pairs_of (sort (map fst by_id))) (check_coverage by_id ri)) (\<lambda>_.
      bindE (check_precedence (map fst by_id) rules) (\<lambda>_.
      let ordered = sort_key fst by_id; by_rule = sort_key fst (ri_by_id ri) in
      bindE (mapE (\<lambda>(t, s). bindE (build_target_snapshot E ordered s) (\<lambda>row. Inr (t, row))) ordered) (\<lambda>snapshots.
      let snapshot = catalog_snapshot E registry snapshots by_rule in
      Inr \<lparr>tc_by_id = ordered,
           tc_by_members = map (\<lambda>(ms, t). (ms, the (map_of ordered t))) member_sets,
           tc_composition = ri\<lparr>ri_by_id := by_rule\<rparr>,
           tc_displacement_closures = displacement, tc_requirement_closures = requirement,
           tc_target_snapshots = snapshots, tc_snapshot = snapshot,
           tc_digest = json_digest E ''optima.target-catalog'' snapshot\<rparr>))))))))))))))"

section \<open>Operations\<close>

definition resolution_fail :: "string \<Rightarrow> py_error + 'a" where
  "resolution_fail message = Inl (TargetResolutionError message)"

definition catalog_require :: "TargetCatalog \<Rightarrow> string \<Rightarrow> py_error + TargetSpec" where
  "catalog_require c tid =
     (case map_of (tc_by_id c) tid of
        None \<Rightarrow> resolution_fail (''unknown contribution target '' @ show_name tid @ ''; target IDs are validator-owned'')
      | Some s \<Rightarrow> Inr s)"

definition target_spec_digest :: "py_env \<Rightarrow> TargetCatalog \<Rightarrow> string \<Rightarrow> py_error + string" where
  "target_spec_digest E c tid =
     bindE (catalog_require c tid) (\<lambda>_.
     Inr (json_digest E ''optima.target-spec'' (JObj (dict_get tid [] (tc_target_snapshots c)))))"

definition contract_digest :: "TargetCatalog \<Rightarrow> string \<Rightarrow> py_error + string" where
  "contract_digest c tid =
     bindE (catalog_require c tid) (\<lambda>_.
     case map_of (dict_get tid [] (tc_target_snapshots c)) ''contract_digest'' of
       Some (JStr d) \<Rightarrow> Inr d
     | Some _ \<Rightarrow> Inl (PyAssertionError [])
     | None \<Rightarrow> Inl (PyKeyError ''contract_digest''))"

definition displacement_closure :: "TargetCatalog \<Rightarrow> string \<Rightarrow> py_error + string list" where
  "displacement_closure c tid =
     bindE (catalog_require c tid) (\<lambda>_. Inr (dict_get tid [] (tc_displacement_closures c)))"

definition requires_closure :: "TargetCatalog \<Rightarrow> string \<Rightarrow> py_error + string list" where
  "requires_closure c tid =
     bindE (catalog_require c tid) (\<lambda>_. Inr (dict_get tid [] (tc_requirement_closures c)))"

definition composition_rule :: "TargetCatalog \<Rightarrow> string \<Rightarrow> string \<Rightarrow> py_error + CompositionRule" where
  "composition_rule c left right =
     (if left = right then resolution_fail ''composition requires two distinct target IDs'' else
      bindE (catalog_require c left) (\<lambda>_.
      bindE (catalog_require c right) (\<lambda>_.
      case map_of (ri_by_pair (tc_composition c)) (min left right, max left right) of
        None \<Rightarrow> resolution_fail (''targets '' @ show_tuple [min left right, max left right] @
          '' have no registered composition rule'')
      | Some rule \<Rightarrow> Inr rule)))"

definition check_active :: "TargetCatalog \<Rightarrow> string list \<Rightarrow> string \<Rightarrow> py_error + unit" where
  "check_active c active tid =
     bindE (displacement_closure c tid) (\<lambda>displaced.
     let conflicts = filter (\<lambda>t. t \<in> set active) displaced in
     if conflicts \<noteq> []
     then resolution_fail (''active target '' @ show_name tid @ '' displaces '' @ show_strs conflicts) else
     bindE (requires_closure c tid) (\<lambda>required.
     let missing = filter (\<lambda>t. t \<notin> set active) required in
     if missing \<noteq> []
     then resolution_fail (''active target '' @ show_name tid @ '' requires active contributions '' @
       show_strs missing @ ''; stock does not satisfy requires'')
     else Inr ()))"

definition validate_active_targets :: "TargetCatalog \<Rightarrow> string list \<Rightarrow> py_error + string list" where
  "validate_active_targets c active =
     (if \<not> distinct active then resolution_fail ''active target IDs contain duplicates'' else
      bindE (forE active (\<lambda>t. bindE (catalog_require c t) (\<lambda>_. Inr ()))) (\<lambda>_.
      bindE (forE active (check_active c active)) (\<lambda>_.
      Inr (sort active))))"

definition ordered_active_targets :: "TargetCatalog \<Rightarrow> string list \<Rightarrow> py_error + string list" where
  "ordered_active_targets c target_ids =
     bindE (validate_active_targets c target_ids) (\<lambda>active.
     bindE (precedence_graph active
       (map (\<lambda>(_, rule). filter (\<lambda>t. t \<in> set active) (cr_precedence rule)) (ri_by_id (tc_composition c)))) (\<lambda>(outgoing, incoming).
     bindE (kahn_loop Sorted outgoing incoming (sort (no_incoming incoming)) []) (\<lambda>ordered.
     if length ordered \<noteq> length active
     then resolution_fail ''active composition precedence contains a cycle'' else Inr ordered)))"

end
