(* ===== verification/Stack_Manifest.thy ===== *)
theory Stack_Manifest
  imports Target_Catalog
begin

text \<open>
  The evaluation side of \<open>optima/stack_manifest.py\<close>: references to contributions, the context a
  validator expects, and the manifest of an evaluation stack. A manifest keeps its catalog as
  canonical JSON bytes; here it keeps the JSON value with sorted keys that those bytes are read
  back to, which the bytes determine (\<open>Stack_Identity\<close>).
\<close>

section \<open>Validators\<close>

definition stack_fail :: "string \<Rightarrow> py_error + 'a" where
  "stack_fail message = Inl (StackManifestError message)"

definition stack_target_id :: "pyval \<Rightarrow> string \<Rightarrow> py_error + string" where
  "stack_target_id v field =
     (let fail = stack_fail (field @ '' must be a canonical target ID'') in
      case v of
        PyStr s \<Rightarrow> if s = [] \<or> py_strip s \<noteq> s \<or> \<not> list_all id_char s then fail else Inr s
      | _ \<Rightarrow> fail)"

definition stack_digest :: "pyval \<Rightarrow> string \<Rightarrow> py_error + string" where
  "stack_digest v field = require_digest v field StackManifestError False False"

text \<open>
  \<open>_current_version\<close>: the value has to be the expected one, of its exact type. The text of the
  value in the message is left out.
\<close>

definition current_version :: "pyval \<Rightarrow> string \<Rightarrow> pyval \<Rightarrow> py_error + unit" where
  "current_version v field expected =
     (if v \<noteq> expected then stack_fail (''unsupported '' @ field) else Inr ())"

definition selected_delta :: "py_env \<Rightarrow> string \<Rightarrow> string \<Rightarrow> string \<Rightarrow> string" where
  "selected_delta E target_id target_spec payload =
     json_digest E ''optima.contribution.selected_delta'' (JObj
       [(''selected_payload_digest'', JStr payload), (''target_id'', JStr target_id),
        (''target_spec_digest'', JStr target_spec)])"

section \<open>Contributions\<close>

record ProposalContributionRef =
  pcr_target_id :: string
  pcr_target_spec_digest :: string
  pcr_artifact_digest :: string
  pcr_selected_payload_digest :: string
  pcr_attribution_digest :: string

record IntegratedContributionRef =
  icr_target_id :: string
  icr_target_spec_digest :: string
  icr_integrated_source_tree_digest :: string
  icr_selected_payload_digest :: string
  icr_attribution_digest :: string
  icr_integration_record_digest :: string

datatype ContributionRef = Proposal ProposalContributionRef | Integrated IntegratedContributionRef

definition ProposalContributionRef_init :: "(string \<times> pyval) list \<Rightarrow> py_error + ProposalContributionRef" where
  "ProposalContributionRef_init row =
     bindE (stack_target_id (kwarg row ''target_id'') ''target_id'') (\<lambda>tid.
     bindE (stack_digest (kwarg row ''target_spec_digest'') ''target_spec_digest'') (\<lambda>spec.
     bindE (stack_digest (kwarg row ''artifact_digest'') ''artifact_digest'') (\<lambda>artifact.
     bindE (stack_digest (kwarg row ''selected_payload_digest'') ''selected_payload_digest'') (\<lambda>payload.
     bindE (stack_digest (kwarg row ''attribution_digest'') ''attribution_digest'') (\<lambda>attribution.
     bindE (current_version (kwarg row ''schema_version'') ''proposal contribution schema_version'' (PyInt 1)) (\<lambda>_.
     Inr \<lparr>pcr_target_id = tid, pcr_target_spec_digest = spec, pcr_artifact_digest = artifact,
          pcr_selected_payload_digest = payload, pcr_attribution_digest = attribution\<rparr>))))))"

definition IntegratedContributionRef_init :: "(string \<times> pyval) list \<Rightarrow> py_error + IntegratedContributionRef" where
  "IntegratedContributionRef_init row =
     bindE (stack_target_id (kwarg row ''target_id'') ''target_id'') (\<lambda>tid.
     bindE (stack_digest (kwarg row ''target_spec_digest'') ''target_spec_digest'') (\<lambda>spec.
     bindE (stack_digest (kwarg row ''integrated_source_tree_digest'') ''integrated_source_tree_digest'') (\<lambda>tree.
     bindE (stack_digest (kwarg row ''selected_payload_digest'') ''selected_payload_digest'') (\<lambda>payload.
     bindE (stack_digest (kwarg row ''attribution_digest'') ''attribution_digest'') (\<lambda>attribution.
     bindE (stack_digest (kwarg row ''integration_record_digest'') ''integration_record_digest'') (\<lambda>review.
     bindE (current_version (kwarg row ''schema_version'') ''integrated contribution schema_version'' (PyInt 1)) (\<lambda>_.
     Inr \<lparr>icr_target_id = tid, icr_target_spec_digest = spec, icr_integrated_source_tree_digest = tree,
          icr_selected_payload_digest = payload, icr_attribution_digest = attribution,
          icr_integration_record_digest = review\<rparr>)))))))"

definition proposal_fields :: "ProposalContributionRef \<Rightarrow> (string \<times> json) list" where
  "proposal_fields r =
     [(''artifact_digest'', JStr (pcr_artifact_digest r)), (''attribution_digest'', JStr (pcr_attribution_digest r)),
      (''schema_version'', JInt 1), (''selected_payload_digest'', JStr (pcr_selected_payload_digest r)),
      (''target_id'', JStr (pcr_target_id r)), (''target_spec_digest'', JStr (pcr_target_spec_digest r)),
      (''type'', JStr ''proposal'')]"

definition integrated_fields :: "IntegratedContributionRef \<Rightarrow> (string \<times> json) list" where
  "integrated_fields r =
     [(''attribution_digest'', JStr (icr_attribution_digest r)),
      (''integrated_source_tree_digest'', JStr (icr_integrated_source_tree_digest r)),
      (''integration_record_digest'', JStr (icr_integration_record_digest r)), (''schema_version'', JInt 1),
      (''selected_payload_digest'', JStr (icr_selected_payload_digest r)),
      (''target_id'', JStr (icr_target_id r)), (''target_spec_digest'', JStr (icr_target_spec_digest r)),
      (''type'', JStr ''integrated'')]"

fun ref_fields :: "ContributionRef \<Rightarrow> (string \<times> json) list" where
  "ref_fields (Proposal r) = proposal_fields r"
| "ref_fields (Integrated r) = integrated_fields r"

fun ref_target_id :: "ContributionRef \<Rightarrow> string" where
  "ref_target_id (Proposal r) = pcr_target_id r"
| "ref_target_id (Integrated r) = icr_target_id r"

fun ref_target_spec_digest :: "ContributionRef \<Rightarrow> string" where
  "ref_target_spec_digest (Proposal r) = pcr_target_spec_digest r"
| "ref_target_spec_digest (Integrated r) = icr_target_spec_digest r"

fun ref_payload_digest :: "ContributionRef \<Rightarrow> string" where
  "ref_payload_digest (Proposal r) = pcr_selected_payload_digest r"
| "ref_payload_digest (Integrated r) = icr_selected_payload_digest r"

definition ref_selected_delta :: "py_env \<Rightarrow> ContributionRef \<Rightarrow> string" where
  "ref_selected_delta E r = selected_delta E (ref_target_id r) (ref_target_spec_digest r) (ref_payload_digest r)"

fun ref_digest :: "py_env \<Rightarrow> ContributionRef \<Rightarrow> string" where
  "ref_digest E (Proposal r) = json_digest E ''optima.contribution.proposal'' (JObj (proposal_fields r))"
| "ref_digest E (Integrated r) = json_digest E ''optima.contribution.integrated'' (JObj (integrated_fields r))"

definition proposal_from_dict :: "pyval \<Rightarrow> py_error + ProposalContributionRef" where
  "proposal_from_dict v =
     bindE (require_exact_fields v [''artifact_digest'', ''attribution_digest'', ''schema_version'',
       ''selected_payload_digest'', ''target_id'', ''target_spec_digest'', ''type'']
       ''proposal contribution'' StackManifestError) (\<lambda>row.
     if \<not> py_eq_str (kwarg row ''type'') ''proposal''
     then stack_fail (''proposal contribution type must be '' @ show_name ''proposal'') else ProposalContributionRef_init row)"

definition integrated_from_dict :: "pyval \<Rightarrow> py_error + IntegratedContributionRef" where
  "integrated_from_dict v =
     bindE (require_exact_fields v [''attribution_digest'', ''integrated_source_tree_digest'',
       ''integration_record_digest'', ''schema_version'', ''selected_payload_digest'', ''target_id'',
       ''target_spec_digest'', ''type''] ''integrated contribution'' StackManifestError) (\<lambda>row.
     if \<not> py_eq_str (kwarg row ''type'') ''integrated''
     then stack_fail (''integrated contribution type must be '' @ show_name ''integrated'') else IntegratedContributionRef_init row)"

definition contribution_ref_from_dict :: "pyval \<Rightarrow> py_error + ContributionRef" where
  "contribution_ref_from_dict v =
     (case v of
        PyDict d \<Rightarrow>
          (let kind = (case map_of d (PyStr ''type'') of None \<Rightarrow> PyNone | Some k \<Rightarrow> k) in
           if py_eq_str kind ''proposal'' then bindE (proposal_from_dict v) (\<lambda>r. Inr (Proposal r)) else
           if py_eq_str kind ''integrated'' then bindE (integrated_from_dict v) (\<lambda>r. Inr (Integrated r)) else
           stack_fail (''contribution requires type '' @ show_name ''proposal'' @ '' or '' @ show_name ''integrated''))
      | _ \<Rightarrow> stack_fail ''contribution must be an object'')"

section \<open>The catalog inside a manifest\<close>

definition catalog_json :: "pyval \<Rightarrow> py_error + json" where
  "catalog_json snapshot =
     (case snapshot of
        PyDict d \<Rightarrow>
          if d = [] then stack_fail ''catalog_snapshot must be a non-empty object'' else
          (case canonical_value ''payload'' snapshot of
             Inl e \<Rightarrow> stack_fail (''invalid catalog_snapshot: '' @ err_text e)
           | Inr j \<Rightarrow> Inr (json_sort j))
      | _ \<Rightarrow> stack_fail ''catalog_snapshot must be a non-empty object'')"

definition catalog_binding :: "py_env \<Rightarrow> pyval \<Rightarrow> pyval \<Rightarrow> py_error + json \<times> string" where
  "catalog_binding E snapshot digest =
     bindE (catalog_json snapshot) (\<lambda>canonical.
     bindE (stack_digest digest ''catalog_digest'') (\<lambda>supplied.
     if supplied \<noteq> json_digest E ''optima.target-catalog'' canonical
     then stack_fail ''catalog_digest does not match the embedded catalog_snapshot''
     else Inr (canonical, supplied)))"

definition spec_rows :: "(pyval \<times> pyval) list \<Rightarrow> py_error + (string \<times> string) list" where
  "spec_rows items =
     bindE (mapE (\<lambda>(k, v).
       bindE (stack_target_id k ''target_spec_digests key'') (\<lambda>t.
       bindE (stack_digest v (''target spec '' @ show_name t @ '' digest'')) (\<lambda>d. Inr (t, d)))) items) (\<lambda>rows.
     if \<not> distinct (map fst rows) then stack_fail ''target_spec_digests contains duplicate targets''
     else Inr (sort rows))"

definition json_member :: "string \<Rightarrow> json \<Rightarrow> json" where
  "json_member k j = (case j of JObj kvs \<Rightarrow> (case map_of kvs k of None \<Rightarrow> JNull | Some v \<Rightarrow> v) | _ \<Rightarrow> JNull)"

definition catalog_spec_row :: "py_env \<Rightarrow> nat \<times> json \<Rightarrow> py_error + string \<times> string" where
  "catalog_spec_row E row =
     (case row of
        (i, JObj kvs) \<Rightarrow>
          bindE (stack_target_id (py_of_json (json_member ''target_id'' (JObj kvs)))
            (''catalog target '' @ show_nat i @ '' ID'')) (\<lambda>t.
          Inr (t, json_digest E ''optima.target-spec'' (JObj kvs)))
      | (i, _) \<Rightarrow> stack_fail (''catalog target '' @ show_nat i @ '' must be an object''))"

definition catalog_spec_rows :: "py_env \<Rightarrow> json \<Rightarrow> py_error + (string \<times> string) list" where
  "catalog_spec_rows E catalog =
     (case json_member ''targets'' catalog of
        JList targets \<Rightarrow>
          if targets = [] then stack_fail ''catalog_snapshot targets must be a non-empty list'' else
          bindE (mapE (catalog_spec_row E) (enumerate 0 targets)) (\<lambda>rows.
          if \<not> distinct (map fst rows) then stack_fail ''catalog_snapshot contains duplicate target IDs''
          else Inr (sort rows))
      | _ \<Rightarrow> stack_fail ''catalog_snapshot targets must be a non-empty list'')"

definition context_spec_rows :: "py_env \<Rightarrow> json \<Rightarrow> pyval \<Rightarrow> py_error + (string \<times> string) list" where
  "context_spec_rows E catalog supplied =
     bindE (case supplied of PyDict d \<Rightarrow> spec_rows d | _ \<Rightarrow> stack_fail ''target_spec_digests must be an object'') (\<lambda>rows.
     bindE (catalog_spec_rows E catalog) (\<lambda>expected.
     if rows \<noteq> expected
     then stack_fail ''target_spec_digests do not match the complete catalog_snapshot'' else Inr rows))"

section \<open>Context and manifest\<close>

record EvaluationStackContext =
  esc_runtime_digest :: string
  esc_base_engine_digest :: string
  esc_arena_digest :: string
  esc_catalog_digest :: string
  esc_catalog_json :: json
  esc_target_specs :: "(string \<times> string) list"

definition EvaluationStackContext_init :: "py_env \<Rightarrow> (string \<times> pyval) list \<Rightarrow> py_error + EvaluationStackContext" where
  "EvaluationStackContext_init E row =
     bindE (stack_digest (kwarg row ''runtime_digest'') ''runtime_digest'') (\<lambda>runtime.
     bindE (stack_digest (kwarg row ''base_engine_digest'') ''base_engine_digest'') (\<lambda>base.
     bindE (stack_digest (kwarg row ''arena_digest'') ''arena_digest'') (\<lambda>arena.
     bindE (catalog_binding E (kwarg row ''catalog_snapshot'') (kwarg row ''catalog_digest'')) (\<lambda>(catalog, digest).
     bindE (context_spec_rows E catalog (kwarg row ''target_spec_digests'')) (\<lambda>specs.
     Inr \<lparr>esc_runtime_digest = runtime, esc_base_engine_digest = base, esc_arena_digest = arena,
          esc_catalog_digest = digest, esc_catalog_json = catalog, esc_target_specs = specs\<rparr>)))))"

record EvaluationStackManifest =
  esm_runtime_digest :: string
  esm_base_engine_digest :: string
  esm_arena_digest :: string
  esm_catalog_digest :: string
  esm_catalog_json :: json
  esm_entries :: "(string \<times> ContributionRef) list"

definition entry_row :: "nat \<times> pyval \<times> ContributionRef \<Rightarrow> py_error + string \<times> ContributionRef" where
  "entry_row raw =
     (case raw of (i, key, ref) \<Rightarrow>
      bindE (stack_target_id key (''entry '' @ show_nat i @ '' target'')) (\<lambda>t.
      if ref_target_id ref \<noteq> t
      then stack_fail (''entry key '' @ show_name t @ '' does not match ref target '' @ show_name (ref_target_id ref))
      else Inr (t, ref)))"

definition entry_rows :: "(pyval \<times> ContributionRef) list \<Rightarrow> py_error + (string \<times> ContributionRef) list" where
  "entry_rows entries =
     bindE (mapE entry_row (enumerate 0 entries)) (\<lambda>rows.
     if \<not> distinct (map fst rows) then stack_fail ''entries contain duplicate targets''
     else Inr (sort_key fst rows))"

definition EvaluationStackManifest_init ::
    "py_env \<Rightarrow> (string \<times> pyval) list \<Rightarrow> (pyval \<times> ContributionRef) list \<Rightarrow> py_error + EvaluationStackManifest" where
  "EvaluationStackManifest_init E row entries =
     bindE (current_version (kwarg row ''schema_version'') ''stack schema_version'' (PyInt 1)) (\<lambda>_.
     bindE (current_version (kwarg row ''stack_policy_version'') ''stack_policy_version'' (PyStr ''evaluation-stack.v1'')) (\<lambda>_.
     bindE (stack_digest (kwarg row ''runtime_digest'') ''runtime_digest'') (\<lambda>runtime.
     bindE (stack_digest (kwarg row ''base_engine_digest'') ''base_engine_digest'') (\<lambda>base.
     bindE (stack_digest (kwarg row ''arena_digest'') ''arena_digest'') (\<lambda>arena.
     bindE (catalog_binding E (kwarg row ''catalog_snapshot'') (kwarg row ''catalog_digest'')) (\<lambda>(catalog, digest).
     bindE (entry_rows entries) (\<lambda>rows.
     Inr \<lparr>esm_runtime_digest = runtime, esm_base_engine_digest = base, esm_arena_digest = arena,
          esm_catalog_digest = digest, esm_catalog_json = catalog, esm_entries = rows\<rparr>)))))))"

definition manifest_fields :: "EvaluationStackManifest \<Rightarrow> (string \<times> json) list" where
  "manifest_fields m =
     [(''arena_digest'', JStr (esm_arena_digest m)), (''base_engine_digest'', JStr (esm_base_engine_digest m)),
      (''catalog_digest'', JStr (esm_catalog_digest m)), (''catalog_snapshot'', esm_catalog_json m),
      (''entries'', JObj (map (\<lambda>(t, ref). (t, JObj (ref_fields ref))) (esm_entries m))),
      (''runtime_digest'', JStr (esm_runtime_digest m)), (''schema_version'', JInt 1),
      (''stack_policy_version'', JStr ''evaluation-stack.v1''), (''type'', JStr ''evaluation_stack'')]"

definition manifest_digest :: "py_env \<Rightarrow> EvaluationStackManifest \<Rightarrow> string" where
  "manifest_digest E m = json_digest E ''optima.stack.evaluation'' (JObj (manifest_fields m))"

definition manifest_from_dict :: "py_env \<Rightarrow> pyval \<Rightarrow> py_error + EvaluationStackManifest" where
  "manifest_from_dict E v =
     bindE (require_exact_fields v [''arena_digest'', ''base_engine_digest'', ''catalog_digest'',
       ''catalog_snapshot'', ''entries'', ''runtime_digest'', ''schema_version'', ''stack_policy_version'', ''type'']
       ''evaluation stack manifest'' StackManifestError) (\<lambda>row.
     if \<not> py_eq_str (kwarg row ''type'') ''evaluation_stack''
     then stack_fail (''evaluation stack type must be '' @ show_name ''evaluation_stack'') else
     case kwarg row ''entries'' of
       PyDict d \<Rightarrow>
         bindE (mapE (\<lambda>(k, ref). bindE (contribution_ref_from_dict ref) (\<lambda>r. Inr (k, r))) d) (\<lambda>entries.
         EvaluationStackManifest_init E row entries)
     | _ \<Rightarrow> stack_fail ''evaluation stack entries must be an object'')"

definition check_entry_spec :: "(string \<times> string) list \<Rightarrow> string \<times> ContributionRef \<Rightarrow> py_error + unit" where
  "check_entry_spec expected row =
     (case row of (t, ref) \<Rightarrow>
      case map_of expected t of
        None \<Rightarrow> stack_fail (''active target '' @ show_name t @ '' is absent from expected catalog context'')
      | Some d \<Rightarrow>
          if ref_target_spec_digest ref \<noteq> d
          then stack_fail (''target spec digest for '' @ show_name t @ '' does not match expected context'')
          else Inr ())"

definition validate_against :: "EvaluationStackManifest \<Rightarrow> EvaluationStackContext \<Rightarrow> py_error + unit" where
  "validate_against m ctx =
     (if esm_runtime_digest m \<noteq> esc_runtime_digest ctx
      then stack_fail ''runtime digest does not match expected context'' else
      if esm_base_engine_digest m \<noteq> esc_base_engine_digest ctx
      then stack_fail ''base engine digest does not match expected context'' else
      if esm_arena_digest m \<noteq> esc_arena_digest ctx
      then stack_fail ''arena digest does not match expected context'' else
      if esm_catalog_digest m \<noteq> esc_catalog_digest ctx
      then stack_fail ''catalog digest does not match expected context'' else
      if esm_catalog_json m \<noteq> esc_catalog_json ctx
      then stack_fail ''catalog snapshot does not match expected context'' else
      forE (esm_entries m) (check_entry_spec (esc_target_specs ctx)))"

text \<open>The keyword arguments that a manifest passes to the constructor of the next one.\<close>

definition manifest_row :: "EvaluationStackManifest \<Rightarrow> (string \<times> pyval) list" where
  "manifest_row m =
     [(''runtime_digest'', PyStr (esm_runtime_digest m)), (''base_engine_digest'', PyStr (esm_base_engine_digest m)),
      (''arena_digest'', PyStr (esm_arena_digest m)), (''catalog_snapshot'', py_of_json (esm_catalog_json m)),
      (''catalog_digest'', PyStr (esm_catalog_digest m)), (''schema_version'', PyInt 1),
      (''stack_policy_version'', PyStr ''evaluation-stack.v1'')]"

definition remove_entry ::
    "string \<Rightarrow> (string \<times> ContributionRef) list \<Rightarrow> py_error + (string \<times> ContributionRef) list" where
  "remove_entry t updated =
     (if t \<notin> fst ` set updated then stack_fail (''cannot remove inactive target '' @ show_name t)
      else Inr (filter (\<lambda>(k, _). k \<noteq> t) updated))"

definition with_contribution ::
    "py_env \<Rightarrow> EvaluationStackManifest \<Rightarrow> ContributionRef \<Rightarrow> string list \<Rightarrow> py_error + EvaluationStackManifest" where
  "with_contribution E m contribution removed =
     bindE (mapE (\<lambda>t. stack_target_id (PyStr t) ''remove target'') removed) (\<lambda>remove_ids.
     if \<not> distinct remove_ids then stack_fail ''remove contains duplicate targets'' else
     bindE (foldE remove_entry remove_ids (esm_entries m)) (\<lambda>updated.
     EvaluationStackManifest_init E (manifest_row m)
       (map (\<lambda>(t, r). (PyStr t, r)) (dict_set (ref_target_id contribution) contribution updated))))"

end
