(* ===== verification/Economics.thy ===== *)
theory Economics
  imports Stack_Manifest Apportion Dataclass
begin

text \<open>
  \<open>optima/economics.py\<close>: the pure emissions projection. Standing crowns earn a credit that decays
  hyperbolically with the age of the crown, discovery bounties live for a fixed number of blocks,
  and both pools are apportioned over hotkeys by largest remainder into one vector of parts per
  million. A dataclass is a record, \<open><Class>_init\<close> its constructor on keyword arguments,
  \<open><Class>_fields\<close> the members of its \<open>to_dict\<close>.
\<close>

section \<open>Constants and validators\<close>

definition WEIGHT_PPM :: int where "WEIGHT_PPM = 1000000"

definition eco_fail :: "string \<Rightarrow> py_error + 'a" where
  "eco_fail message = Inl (EconomicsError message)"

definition eco_digest :: "pyval \<Rightarrow> string \<Rightarrow> py_error + string" where
  "eco_digest v field = require_digest v field EconomicsError False False"

definition eco_integer :: "pyval \<Rightarrow> string \<Rightarrow> int \<Rightarrow> py_error + int" where
  "eco_integer v field minimum = require_int v field EconomicsError (Some minimum) None"

definition eco_hotkey :: "pyval \<Rightarrow> string \<Rightarrow> py_error + string" where
  "eco_hotkey v field = require_hotkey v field EconomicsError"

definition eco_strict :: "pyval \<Rightarrow> string list \<Rightarrow> string \<Rightarrow> py_error + (string \<times> pyval) list" where
  "eco_strict v flds label = require_exact_fields v flds label EconomicsError"

text \<open>The pattern \<open>0x[0-9a-f]{64}\Z\<close>.\<close>

definition is_block_hash :: "string \<Rightarrow> bool" where
  "is_block_hash s = (take 2 s = ''0x'' \<and> is_sha256_hex (drop 2 s))"

lemma eco_eq_Inr [err_simps]:
  "eco_integer v field lo = Inr n \<longleftrightarrow> v = PyInt n \<and> lo \<le> n"
  "eco_digest v field = Inr d \<longleftrightarrow> v = PyStr d \<and> is_digest d"
  "eco_hotkey v field = Inr h \<longleftrightarrow> v = PyStr h \<and> is_hotkey h"
  by (auto simp: eco_integer_def eco_digest_def eco_hotkey_def err_simps)

lemma eco_ok [simp]:
  "lo \<le> n \<Longrightarrow> eco_integer (PyInt n) field lo = Inr n"
  "is_digest d \<Longrightarrow> eco_digest (PyStr d) field = Inr d"
  "is_hotkey h \<Longrightarrow> eco_hotkey (PyStr h) field = Inr h"
  by (simp_all add: err_simps)

section \<open>Policy\<close>

text \<open>\<open>schema_version\<close> is only compared by value, so it is kept as the Python value it was.\<close>

record EmissionsPolicyManifest =
  epm_half_life_blocks :: int
  epm_discovery_lifetime_blocks :: int
  epm_discovery_pool_ppm :: int
  epm_schema_version :: pyval
  epm_policy_version :: string

definition EmissionsPolicyManifest_init :: "(string \<times> pyval) list \<Rightarrow> py_error + EmissionsPolicyManifest" where
  "EmissionsPolicyManifest_init row =
     bindE (eco_integer (kwarg row ''half_life_blocks'') ''half_life_blocks'' 1) (\<lambda>half.
     bindE (eco_integer (kwarg row ''discovery_lifetime_blocks'') ''discovery_lifetime_blocks'' 1) (\<lambda>lifetime.
     bindE (eco_integer (kwarg row ''discovery_pool_ppm'') ''discovery_pool_ppm'' 0) (\<lambda>pool.
     if WEIGHT_PPM \<le> pool then eco_fail ''discovery_pool_ppm must leave standing reward capacity'' else
     if \<not> py_eq_int (kwarg row ''schema_version'') 1
     then eco_fail ''emissions policy schema_version is unsupported'' else
     if \<not> py_eq_str (kwarg row ''policy_version'') ''optima.emissions.v1''
     then eco_fail ''emissions policy_version is unsupported'' else
     Inr \<lparr>epm_half_life_blocks = half, epm_discovery_lifetime_blocks = lifetime, epm_discovery_pool_ppm = pool,
          epm_schema_version = kwarg row ''schema_version'', epm_policy_version = ''optima.emissions.v1''\<rparr>)))"

definition EmissionsPolicyManifest_to_dict :: "EmissionsPolicyManifest \<Rightarrow> pyval" where
  "EmissionsPolicyManifest_to_dict p = PyDict
     [(PyStr ''discovery_lifetime_blocks'', PyInt (epm_discovery_lifetime_blocks p)),
      (PyStr ''discovery_pool_ppm'', PyInt (epm_discovery_pool_ppm p)),
      (PyStr ''half_life_blocks'', PyInt (epm_half_life_blocks p)),
      (PyStr ''policy_version'', PyStr (epm_policy_version p)), (PyStr ''schema_version'', epm_schema_version p)]"

definition EmissionsPolicyManifest_from_dict :: "pyval \<Rightarrow> py_error + EmissionsPolicyManifest" where
  "EmissionsPolicyManifest_from_dict v =
     bindE (eco_strict v [''discovery_lifetime_blocks'', ''discovery_pool_ppm'', ''half_life_blocks'',
       ''policy_version'', ''schema_version''] ''emissions policy'') EmissionsPolicyManifest_init"

definition EmissionsPolicyManifest_digest :: "py_env \<Rightarrow> EmissionsPolicyManifest \<Rightarrow> py_error + string" where
  "EmissionsPolicyManifest_digest E p = canonical_digest E ''optima.economics.policy'' (EmissionsPolicyManifest_to_dict p) 1"

section \<open>Contexts\<close>

record MetagraphMember =
  mm_uid :: int
  mm_hotkey :: string

definition MetagraphMember_init :: "(string \<times> pyval) list \<Rightarrow> py_error + MetagraphMember" where
  "MetagraphMember_init row =
     bindE (eco_integer (kwarg row ''uid'') ''metagraph uid'' 0) (\<lambda>uid.
     bindE (eco_hotkey (kwarg row ''hotkey'') ''metagraph hotkey'') (\<lambda>hotkey.
     Inr \<lparr>mm_uid = uid, mm_hotkey = hotkey\<rparr>))"

definition MetagraphMember_fields :: "MetagraphMember \<Rightarrow> (string \<times> json) list" where
  "MetagraphMember_fields m = [(''hotkey'', JStr (mm_hotkey m)), (''uid'', JInt (mm_uid m))]"

record RewardProjectionContext =
  rpc_chain_scope_digest :: string
  rpc_validator_hotkey :: string
  rpc_stack_generation :: int
  rpc_current_block :: int
  rpc_current_block_hash :: string
  rpc_metagraph_members :: "MetagraphMember list"

definition RewardProjectionContext_init ::
    "(string \<times> pyval) list \<Rightarrow> MetagraphMember list \<Rightarrow> py_error + RewardProjectionContext" where
  "RewardProjectionContext_init row members =
     bindE (eco_digest (kwarg row ''chain_scope_digest'') ''chain_scope_digest'') (\<lambda>scope.
     bindE (eco_hotkey (kwarg row ''validator_hotkey'') ''hotkey'') (\<lambda>validator.
     bindE (eco_integer (kwarg row ''stack_generation'') ''stack_generation'' 0) (\<lambda>generation.
     bindE (eco_integer (kwarg row ''current_block'') ''current_block'' 0) (\<lambda>block.
     case kwarg row ''current_block_hash'' of
       PyStr block_hash \<Rightarrow>
         (if \<not> is_block_hash block_hash then eco_fail ''current_block_hash is malformed'' else
          let ordered = sort_key (\<lambda>m. (mm_uid m, mm_hotkey m)) members in
          if ordered = [] \<or> \<not> distinct (map mm_uid ordered) \<or> \<not> distinct (map mm_hotkey ordered)
          then eco_fail ''metagraph membership is empty or duplicated'' else
          if validator \<notin> mm_hotkey ` set ordered
          then eco_fail ''validator is absent from the current metagraph'' else
          Inr \<lparr>rpc_chain_scope_digest = scope, rpc_validator_hotkey = validator, rpc_stack_generation = generation,
               rpc_current_block = block, rpc_current_block_hash = block_hash, rpc_metagraph_members = ordered\<rparr>)
     | _ \<Rightarrow> eco_fail ''current_block_hash is malformed''))))"

text \<open>\<open>metagraph_digest\<close> is the same property in both contexts.\<close>

definition metagraph_digest :: "py_env \<Rightarrow> int \<Rightarrow> string \<Rightarrow> string \<Rightarrow> MetagraphMember list \<Rightarrow> string" where
  "metagraph_digest E block block_hash scope members =
     json_digest E ''optima.economics.metagraph-membership'' (JObj
       [(''block'', JInt block), (''block_hash'', JStr block_hash), (''chain_scope_digest'', JStr scope),
        (''members'', JList (map (\<lambda>m. JObj (MetagraphMember_fields m)) members))])"

definition RewardProjectionContext_fields :: "py_env \<Rightarrow> RewardProjectionContext \<Rightarrow> (string \<times> json) list" where
  "RewardProjectionContext_fields E c =
     [(''chain_scope_digest'', JStr (rpc_chain_scope_digest c)), (''current_block'', JInt (rpc_current_block c)),
      (''current_block_hash'', JStr (rpc_current_block_hash c)),
      (''metagraph_digest'', JStr (metagraph_digest E (rpc_current_block c) (rpc_current_block_hash c)
         (rpc_chain_scope_digest c) (rpc_metagraph_members c))),
      (''metagraph_members'', JList (map (\<lambda>m. JObj (MetagraphMember_fields m)) (rpc_metagraph_members c))),
      (''stack_generation'', JInt (rpc_stack_generation c)), (''validator_hotkey'', JStr (rpc_validator_hotkey c))]"

record GlobalRewardProjectionContext =
  grc_chain_scope_digest :: string
  grc_validator_hotkey :: string
  grc_current_block :: int
  grc_current_block_hash :: string
  grc_metagraph_members :: "MetagraphMember list"

definition GlobalRewardProjectionContext_init ::
    "(string \<times> pyval) list \<Rightarrow> MetagraphMember list \<Rightarrow> py_error + GlobalRewardProjectionContext" where
  "GlobalRewardProjectionContext_init row members =
     bindE (RewardProjectionContext_init ((''stack_generation'', PyInt 0) # row) members) (\<lambda>single.
     Inr \<lparr>grc_chain_scope_digest = rpc_chain_scope_digest single, grc_validator_hotkey = rpc_validator_hotkey single,
          grc_current_block = rpc_current_block single, grc_current_block_hash = rpc_current_block_hash single,
          grc_metagraph_members = rpc_metagraph_members single\<rparr>)"

definition eligible_hotkeys :: "GlobalRewardProjectionContext \<Rightarrow> string set" where
  "eligible_hotkeys c = mm_hotkey ` set (grc_metagraph_members c)"

definition GlobalRewardProjectionContext_fields ::
    "py_env \<Rightarrow> GlobalRewardProjectionContext \<Rightarrow> (string \<times> json) list" where
  "GlobalRewardProjectionContext_fields E c =
     [(''chain_scope_digest'', JStr (grc_chain_scope_digest c)), (''current_block'', JInt (grc_current_block c)),
      (''current_block_hash'', JStr (grc_current_block_hash c)),
      (''metagraph_digest'', JStr (metagraph_digest E (grc_current_block c) (grc_current_block_hash c)
         (grc_chain_scope_digest c) (grc_metagraph_members c))),
      (''metagraph_members'', JList (map (\<lambda>m. JObj (MetagraphMember_fields m)) (grc_metagraph_members c))),
      (''validator_hotkey'', JStr (grc_validator_hotkey c))]"

section \<open>Claims\<close>

record StandingRewardClaim =
  src_arena_digest :: string
  src_target_id :: string
  src_target_spec_digest :: string
  src_contribution_digest :: string
  src_hotkey :: string
  src_speedup_ppm :: int
  src_crowned_block :: int
  src_retained_evidence_digest :: string

definition StandingRewardClaim_init :: "(string \<times> pyval) list \<Rightarrow> py_error + StandingRewardClaim" where
  "StandingRewardClaim_init row =
     (case kwarg row ''target_id'' of
        PyStr target_id \<Rightarrow>
          if target_id = [] then eco_fail ''standing target_id is malformed'' else
          bindE (eco_digest (kwarg row ''arena_digest'') ''arena_digest'') (\<lambda>arena.
          bindE (eco_digest (kwarg row ''target_spec_digest'') ''target_spec_digest'') (\<lambda>spec.
          bindE (eco_digest (kwarg row ''contribution_digest'') ''contribution_digest'') (\<lambda>contribution.
          bindE (eco_digest (kwarg row ''retained_evidence_digest'') ''retained_evidence_digest'') (\<lambda>evidence.
          bindE (eco_hotkey (kwarg row ''hotkey'') ''hotkey'') (\<lambda>hotkey.
          bindE (eco_integer (kwarg row ''speedup_ppm'') ''speedup_ppm'' (WEIGHT_PPM + 1)) (\<lambda>speedup.
          bindE (eco_integer (kwarg row ''crowned_block'') ''crowned_block'' 0) (\<lambda>crowned.
          Inr \<lparr>src_arena_digest = arena, src_target_id = target_id, src_target_spec_digest = spec,
               src_contribution_digest = contribution, src_hotkey = hotkey, src_speedup_ppm = speedup,
               src_crowned_block = crowned, src_retained_evidence_digest = evidence\<rparr>)))))))
      | _ \<Rightarrow> eco_fail ''standing target_id is malformed'')"

definition StandingRewardClaim_fields :: "StandingRewardClaim \<Rightarrow> (string \<times> json) list" where
  "StandingRewardClaim_fields c =
     [(''arena_digest'', JStr (src_arena_digest c)), (''contribution_digest'', JStr (src_contribution_digest c)),
      (''crowned_block'', JInt (src_crowned_block c)), (''hotkey'', JStr (src_hotkey c)),
      (''retained_evidence_digest'', JStr (src_retained_evidence_digest c)), (''speedup_ppm'', JInt (src_speedup_ppm c)),
      (''target_id'', JStr (src_target_id c)), (''target_spec_digest'', JStr (src_target_spec_digest c))]"

definition src_names :: "string list" where
  "src_names = [''arena_digest'', ''target_id'', ''target_spec_digest'', ''contribution_digest'', ''hotkey'',
     ''speedup_ppm'', ''crowned_block'', ''retained_evidence_digest'']"

definition StandingRewardClaim_from_dict :: "pyval \<Rightarrow> py_error + StandingRewardClaim" where
  "StandingRewardClaim_from_dict v = bindE (eco_strict v src_names ''standing reward claim'') StandingRewardClaim_init"

definition StandingRewardClaim_digest :: "py_env \<Rightarrow> StandingRewardClaim \<Rightarrow> string" where
  "StandingRewardClaim_digest E c = json_digest E ''optima.economics.standing-claim'' (JObj (StandingRewardClaim_fields c))"

definition src_family_id :: "py_env \<Rightarrow> StandingRewardClaim \<Rightarrow> string" where
  "src_family_id E c = json_digest E ''optima.economics.standing-family'' (JObj
     [(''arena_digest'', JStr (src_arena_digest c)), (''target_id'', JStr (src_target_id c)),
      (''target_spec_digest'', JStr (src_target_spec_digest c))])"

definition credit_at :: "StandingRewardClaim \<Rightarrow> int \<Rightarrow> EmissionsPolicyManifest \<Rightarrow> py_error + int" where
  "credit_at c block policy =
     bindE (eco_integer (PyInt block) ''credit block'' 0) (\<lambda>_.
     if block < src_crowned_block c then eco_fail ''crown is newer than projection authority'' else
     let age = block - src_crowned_block c; improvement = src_speedup_ppm c - WEIGHT_PPM in
     Inr (improvement * epm_half_life_blocks policy div (epm_half_life_blocks policy + age)))"

record DiscoveryBountyClaim =
  dbc_proposal_digest :: string
  dbc_retained_evidence_digest :: string
  dbc_hotkey :: string
  dbc_bounty_units :: int
  dbc_awarded_block :: int

definition DiscoveryBountyClaim_init :: "(string \<times> pyval) list \<Rightarrow> py_error + DiscoveryBountyClaim" where
  "DiscoveryBountyClaim_init row =
     bindE (eco_digest (kwarg row ''proposal_digest'') ''proposal_digest'') (\<lambda>proposal.
     bindE (eco_digest (kwarg row ''retained_evidence_digest'') ''retained_evidence_digest'') (\<lambda>evidence.
     bindE (eco_hotkey (kwarg row ''hotkey'') ''hotkey'') (\<lambda>hotkey.
     bindE (eco_integer (kwarg row ''bounty_units'') ''bounty_units'' 1) (\<lambda>units.
     bindE (eco_integer (kwarg row ''awarded_block'') ''awarded_block'' 0) (\<lambda>awarded.
     Inr \<lparr>dbc_proposal_digest = proposal, dbc_retained_evidence_digest = evidence, dbc_hotkey = hotkey,
          dbc_bounty_units = units, dbc_awarded_block = awarded\<rparr>)))))"

definition DiscoveryBountyClaim_fields :: "DiscoveryBountyClaim \<Rightarrow> (string \<times> json) list" where
  "DiscoveryBountyClaim_fields c =
     [(''awarded_block'', JInt (dbc_awarded_block c)), (''bounty_units'', JInt (dbc_bounty_units c)),
      (''hotkey'', JStr (dbc_hotkey c)), (''proposal_digest'', JStr (dbc_proposal_digest c)),
      (''retained_evidence_digest'', JStr (dbc_retained_evidence_digest c))]"

definition DiscoveryBountyClaim_from_dict :: "pyval \<Rightarrow> py_error + DiscoveryBountyClaim" where
  "DiscoveryBountyClaim_from_dict v =
     bindE (eco_strict v [''proposal_digest'', ''retained_evidence_digest'', ''hotkey'', ''bounty_units'', ''awarded_block'']
       ''discovery bounty claim'') DiscoveryBountyClaim_init"

definition DiscoveryBountyClaim_digest :: "py_env \<Rightarrow> DiscoveryBountyClaim \<Rightarrow> string" where
  "DiscoveryBountyClaim_digest E c =
     json_digest E ''optima.economics.discovery-claim'' (JObj (DiscoveryBountyClaim_fields c))"

definition live_at :: "DiscoveryBountyClaim \<Rightarrow> int \<Rightarrow> EmissionsPolicyManifest \<Rightarrow> py_error + bool" where
  "live_at c block policy =
     bindE (eco_integer (PyInt block) ''bounty block'' 0) (\<lambda>_.
     if block < dbc_awarded_block c then eco_fail ''discovery claim is newer than projection authority''
     else Inr (block - dbc_awarded_block c < epm_discovery_lifetime_blocks policy))"

end
