(* ===== verification/Reward_Projection.thy ===== *)
theory Reward_Projection
  imports Economics
begin

text \<open>
  \<open>optima/economics.py\<close>, second half: the authority of an arena, the projected vector and the two
  projections. The loop over arenas and targets threads the list of family credits and the dict of
  credit per hotkey, as the source does.
\<close>

section \<open>Authority and rows\<close>

record ArenaRewardAuthority =
  ara_catalog :: TargetCatalog
  ara_stack :: EvaluationStackManifest
  ara_stack_generation :: int
  ara_standing_claims :: "StandingRewardClaim list"

definition ArenaRewardAuthority_init ::
    "TargetCatalog \<Rightarrow> EvaluationStackManifest \<Rightarrow> pyval \<Rightarrow> StandingRewardClaim list \<Rightarrow> py_error + ArenaRewardAuthority" where
  "ArenaRewardAuthority_init catalog stack generation claims =
     bindE (eco_integer generation ''arena stack_generation'' 0) (\<lambda>g.
     Inr \<lparr>ara_catalog = catalog, ara_stack = stack, ara_stack_generation = g, ara_standing_claims = claims\<rparr>)"

definition ara_arena_digest :: "ArenaRewardAuthority \<Rightarrow> string" where
  "ara_arena_digest a = esm_arena_digest (ara_stack a)"

definition ArenaRewardAuthority_fields :: "py_env \<Rightarrow> ArenaRewardAuthority \<Rightarrow> (string \<times> json) list" where
  "ArenaRewardAuthority_fields E a =
     [(''arena_digest'', JStr (ara_arena_digest a)), (''catalog_digest'', JStr (tc_digest (ara_catalog a))),
      (''stack_digest'', JStr (manifest_digest E (ara_stack a))), (''stack_generation'', JInt (ara_stack_generation a)),
      (''standing_claims'', JList (map (\<lambda>c. JStr (StandingRewardClaim_digest E c))
         (sort_key src_target_id (ara_standing_claims a))))]"

definition ArenaRewardAuthority_digest :: "py_env \<Rightarrow> ArenaRewardAuthority \<Rightarrow> string" where
  "ArenaRewardAuthority_digest E a =
     json_digest E ''optima.economics.arena-authority'' (JObj (ArenaRewardAuthority_fields E a))"

record StandingFamilyCredit =
  sfc_arena_digest :: string
  sfc_family_id :: string
  sfc_target_id :: string
  sfc_claim_digest :: string
  sfc_hotkey :: string
  sfc_credit :: int

definition StandingFamilyCredit_fields :: "StandingFamilyCredit \<Rightarrow> (string \<times> json) list" where
  "StandingFamilyCredit_fields r =
     [(''arena_digest'', JStr (sfc_arena_digest r)), (''claim_digest'', JStr (sfc_claim_digest r)),
      (''credit'', JInt (sfc_credit r)), (''family_id'', JStr (sfc_family_id r)), (''hotkey'', JStr (sfc_hotkey r)),
      (''target_id'', JStr (sfc_target_id r))]"

record DiscoveryBountyCredit =
  dbr_claim_digest :: string
  dbr_hotkey :: string
  dbr_credit :: int

definition DiscoveryBountyCredit_fields :: "DiscoveryBountyCredit \<Rightarrow> (string \<times> json) list" where
  "DiscoveryBountyCredit_fields r =
     [(''claim_digest'', JStr (dbr_claim_digest r)), (''credit'', JInt (dbr_credit r)), (''hotkey'', JStr (dbr_hotkey r))]"

record HotkeyWeight =
  hw_hotkey :: string
  hw_weight_ppm :: int

definition HotkeyWeight_fields :: "HotkeyWeight \<Rightarrow> (string \<times> json) list" where
  "HotkeyWeight_fields r = [(''hotkey'', JStr (hw_hotkey r)), (''weight_ppm'', JInt (hw_weight_ppm r))]"

section \<open>Projections\<close>

record RewardProjection =
  rp_policy_digest :: string
  rp_catalog_digest :: string
  rp_evaluation_stack_digest :: string
  rp_context :: RewardProjectionContext
  rp_standing :: "StandingFamilyCredit list"
  rp_discovery :: "DiscoveryBountyCredit list"
  rp_expired_discovery_claims :: "string list"
  rp_weights :: "HotkeyWeight list"

definition standing_keys :: "StandingFamilyCredit list \<Rightarrow> (string \<times> string) list" where
  "standing_keys rows = map (\<lambda>r. (sfc_arena_digest r, sfc_target_id r)) rows"

definition weights_normalized :: "HotkeyWeight list \<Rightarrow> bool" where
  "weights_normalized rows = (distinct (map hw_hotkey rows) \<and> sum_list (map hw_weight_ppm rows) = WEIGHT_PPM)"

definition RewardProjection_new :: "RewardProjection \<Rightarrow> py_error + RewardProjection" where
  "RewardProjection_new p =
     bindE (eco_digest (PyStr (rp_policy_digest p)) ''policy_digest'') (\<lambda>_.
     bindE (eco_digest (PyStr (rp_catalog_digest p)) ''catalog_digest'') (\<lambda>_.
     bindE (eco_digest (PyStr (rp_evaluation_stack_digest p)) ''evaluation_stack_digest'') (\<lambda>_.
     if standing_keys (rp_standing p) \<noteq> sort (standing_keys (rp_standing p))
        \<or> map hw_hotkey (rp_weights p) \<noteq> sort (map hw_hotkey (rp_weights p)) \<or> \<not> weights_normalized (rp_weights p)
     then eco_fail ''reward projection is not canonical or normalized'' else
     bindE (forE (rp_expired_discovery_claims p) (\<lambda>d.
       bindE (eco_digest (PyStr d) ''expired discovery claim'') (\<lambda>_. Inr ()))) (\<lambda>_. Inr p))))"

definition RewardProjection_fields :: "py_env \<Rightarrow> RewardProjection \<Rightarrow> (string \<times> json) list" where
  "RewardProjection_fields E p =
     [(''catalog_digest'', JStr (rp_catalog_digest p)),
      (''context'', JObj (RewardProjectionContext_fields E (rp_context p))),
      (''discovery'', JList (map (\<lambda>r. JObj (DiscoveryBountyCredit_fields r)) (rp_discovery p))),
      (''evaluation_stack_digest'', JStr (rp_evaluation_stack_digest p)),
      (''expired_discovery_claims'', JList (map JStr (rp_expired_discovery_claims p))),
      (''policy_digest'', JStr (rp_policy_digest p)),
      (''standing'', JList (map (\<lambda>r. JObj (StandingFamilyCredit_fields r)) (rp_standing p))),
      (''weights'', JList (map (\<lambda>r. JObj (HotkeyWeight_fields r)) (rp_weights p)))]"

definition RewardProjection_digest :: "py_env \<Rightarrow> RewardProjection \<Rightarrow> string" where
  "RewardProjection_digest E p = json_digest E ''optima.economics.reward-projection'' (JObj (RewardProjection_fields E p))"

record GlobalRewardProjection =
  grp_policy_digest :: string
  grp_context :: GlobalRewardProjectionContext
  grp_arena_authority_digests :: "string list"
  grp_standing :: "StandingFamilyCredit list"
  grp_discovery :: "DiscoveryBountyCredit list"
  grp_expired_discovery_claims :: "string list"
  grp_weights :: "HotkeyWeight list"

definition GlobalRewardProjection_new :: "GlobalRewardProjection \<Rightarrow> py_error + GlobalRewardProjection" where
  "GlobalRewardProjection_new p =
     bindE (eco_digest (PyStr (grp_policy_digest p)) ''policy_digest'') (\<lambda>_.
     bindE (forE (grp_arena_authority_digests p) (\<lambda>d.
       bindE (eco_digest (PyStr d) ''arena authority digest'') (\<lambda>_. Inr ()))) (\<lambda>_.
     if grp_arena_authority_digests p \<noteq> sort (grp_arena_authority_digests p)
     then eco_fail ''arena authorities are not canonical'' else
     if standing_keys (grp_standing p) \<noteq> sort (standing_keys (grp_standing p))
     then eco_fail ''global standing families are not canonical'' else
     if map hw_hotkey (grp_weights p) \<noteq> sort (map hw_hotkey (grp_weights p))
     then eco_fail ''global weights are not canonical'' else
     if \<not> weights_normalized (grp_weights p)
     then eco_fail ''global weights are not exactly normalized'' else Inr p))"

definition GlobalRewardProjection_fields :: "py_env \<Rightarrow> GlobalRewardProjection \<Rightarrow> (string \<times> json) list" where
  "GlobalRewardProjection_fields E p =
     [(''arena_authority_digests'', JList (map JStr (grp_arena_authority_digests p))),
      (''context'', JObj (GlobalRewardProjectionContext_fields E (grp_context p))),
      (''discovery'', JList (map (\<lambda>r. JObj (DiscoveryBountyCredit_fields r)) (grp_discovery p))),
      (''expired_discovery_claims'', JList (map JStr (grp_expired_discovery_claims p))),
      (''policy_digest'', JStr (grp_policy_digest p)),
      (''standing'', JList (map (\<lambda>r. JObj (StandingFamilyCredit_fields r)) (grp_standing p))),
      (''weights'', JList (map (\<lambda>r. JObj (HotkeyWeight_fields r)) (grp_weights p)))]"

definition GlobalRewardProjection_digest :: "py_env \<Rightarrow> GlobalRewardProjection \<Rightarrow> string" where
  "GlobalRewardProjection_digest E p =
     json_digest E ''optima.economics.global-reward-projection'' (JObj (GlobalRewardProjection_fields E p))"

section \<open>Pools\<close>

definition allocate_pool :: "(string \<times> int) list \<Rightarrow> int \<Rightarrow> py_error + (string \<times> int) list" where
  "allocate_pool credits pool =
     (let positive = filter (\<lambda>(_, credit). 0 < credit) credits; tot = sum_list (map snd positive) in
      if tot \<le> 0 then eco_fail ''a non-empty reward pool has no positive credit''
      else Inr (largest_remainder (sort_key fst positive) pool tot))"

definition standing_credit ::
    "py_env \<Rightarrow> EmissionsPolicyManifest \<Rightarrow> GlobalRewardProjectionContext \<Rightarrow> ArenaRewardAuthority \<Rightarrow>
     (string \<times> StandingRewardClaim) list \<Rightarrow> string \<Rightarrow> py_error + StandingFamilyCredit" where
  "standing_credit E policy context authority by_target target_id =
     (let catalog = ara_catalog authority; stack = ara_stack authority in
      case map_of by_target target_id of None \<Rightarrow> Inl (PyKeyError target_id) | Some claim \<Rightarrow>
      (case map_of (esm_entries stack) target_id of None \<Rightarrow> Inl (PyKeyError target_id) | Some contribution \<Rightarrow>
       if src_arena_digest claim \<noteq> esm_arena_digest stack
       then eco_fail (''standing claim for '' @ show_name target_id @ '' names another arena'') else
       bindE (target_spec_digest E catalog target_id) (\<lambda>spec.
       if src_target_spec_digest claim \<noteq> spec \<or> src_target_spec_digest claim \<noteq> ref_target_spec_digest contribution
          \<or> src_contribution_digest claim \<noteq> ref_digest E contribution
       then eco_fail (''standing claim for '' @ show_name target_id @ '' is stale or incompatible'') else
       if src_hotkey claim \<notin> eligible_hotkeys context
       then eco_fail (''standing hotkey for '' @ show_name target_id @ '' left the metagraph'') else
       bindE (credit_at claim (grc_current_block context) policy) (\<lambda>credit.
       Inr \<lparr>sfc_arena_digest = esm_arena_digest stack, sfc_family_id = src_family_id E claim,
            sfc_target_id = target_id, sfc_claim_digest = StandingRewardClaim_digest E claim,
            sfc_hotkey = src_hotkey claim, sfc_credit = credit\<rparr>))))"

type_synonym standing_state = "StandingFamilyCredit list \<times> (string \<times> int) list"

definition add_standing ::
    "py_env \<Rightarrow> EmissionsPolicyManifest \<Rightarrow> GlobalRewardProjectionContext \<Rightarrow> ArenaRewardAuthority \<Rightarrow>
     (string \<times> StandingRewardClaim) list \<Rightarrow> string \<Rightarrow> standing_state \<Rightarrow> py_error + standing_state" where
  "add_standing E policy context authority by_target target_id st =
     bindE (standing_credit E policy context authority by_target target_id) (\<lambda>row.
     Inr (fst st @ [row], dict_add (sfc_hotkey row) (sfc_credit row) (snd st)))"

definition active_families :: "TargetCatalog \<Rightarrow> string list \<Rightarrow> py_error + string list" where
  "active_families catalog entries =
     (case validate_active_targets catalog entries of
        Inl (TargetResolutionError m) \<Rightarrow> eco_fail (''active reward families overlap or are incomplete: '' @ m)
      | r \<Rightarrow> r)"

definition add_arena ::
    "py_env \<Rightarrow> EmissionsPolicyManifest \<Rightarrow> GlobalRewardProjectionContext \<Rightarrow> ArenaRewardAuthority \<Rightarrow> standing_state \<Rightarrow>
     py_error + standing_state" where
  "add_arena E policy context authority st =
     (let catalog = ara_catalog authority; stack = ara_stack authority; claims = ara_standing_claims authority in
      if esm_catalog_digest stack \<noteq> tc_digest catalog \<or> esm_catalog_json stack \<noteq> json_sort (tc_snapshot catalog)
      then eco_fail ''evaluation stack and reward catalog differ'' else
      bindE (active_families catalog (map fst (esm_entries stack))) (\<lambda>active_targets.
      if active_targets = [] then eco_fail ''every registered arena requires an active crown'' else
      let by_target = dict_of (map (\<lambda>c. (src_target_id c, c)) claims) in
      if length by_target \<noteq> length claims \<or> fst ` set by_target \<noteq> set active_targets
      then eco_fail ''every active target requires exactly one standing claim'' else
      foldE (add_standing E policy context authority by_target) active_targets st))"

type_synonym discovery_state = "DiscoveryBountyCredit list \<times> string list \<times> (string \<times> int) list"

definition add_discovery ::
    "py_env \<Rightarrow> EmissionsPolicyManifest \<Rightarrow> GlobalRewardProjectionContext \<Rightarrow> DiscoveryBountyClaim \<Rightarrow> discovery_state \<Rightarrow>
     py_error + discovery_state" where
  "add_discovery E policy context claim st =
     (case st of (live, expired, by_hotkey) \<Rightarrow>
      bindE (live_at claim (grc_current_block context) policy) (\<lambda>is_live.
      if is_live then
        if dbc_hotkey claim \<notin> eligible_hotkeys context then eco_fail ''a live discovery hotkey left the metagraph'' else
        Inr (live @ [\<lparr>dbr_claim_digest = DiscoveryBountyClaim_digest E claim, dbr_hotkey = dbc_hotkey claim,
                     dbr_credit = dbc_bounty_units claim\<rparr>],
             expired, dict_add (dbc_hotkey claim) (dbc_bounty_units claim) by_hotkey)
      else Inr (live, expired @ [DiscoveryBountyClaim_digest E claim], by_hotkey)))"

definition discovery_distinct :: "py_env \<Rightarrow> DiscoveryBountyClaim list \<Rightarrow> bool" where
  "discovery_distinct E claims = (distinct (map dbc_proposal_digest claims)
     \<and> distinct (map dbc_retained_evidence_digest claims) \<and> distinct (map (DiscoveryBountyClaim_digest E) claims))"

text \<open>The two pools, merged per hotkey.\<close>

definition combine_pools ::
    "EmissionsPolicyManifest \<Rightarrow> (string \<times> int) list \<Rightarrow> bool \<Rightarrow> (string \<times> int) list \<Rightarrow> py_error + (string \<times> int) list" where
  "combine_pools policy standing_by_hotkey live discovery_by_hotkey =
     (let discovery_pool = (if live then epm_discovery_pool_ppm policy else 0) in
      if live \<and> discovery_pool = 0 then eco_fail ''live discovery claims exist while bounties are disabled'' else
      bindE (allocate_pool standing_by_hotkey (WEIGHT_PPM - discovery_pool)) (\<lambda>combined.
      if live
      then bindE (allocate_pool discovery_by_hotkey discovery_pool) (\<lambda>rows.
           Inr (fold (\<lambda>(hotkey, v). dict_add hotkey v) rows combined))
      else Inr combined))"

definition project_global_rewards ::
    "py_env \<Rightarrow> EmissionsPolicyManifest \<Rightarrow> GlobalRewardProjectionContext \<Rightarrow> ArenaRewardAuthority list \<Rightarrow>
     DiscoveryBountyClaim list \<Rightarrow> py_error + GlobalRewardProjection" where
  "project_global_rewards E policy context arenas discoveries =
     (if arenas = [] then eco_fail ''global projection requires typed arena authorities'' else
      if \<not> distinct (map ara_arena_digest arenas) then eco_fail ''global projection contains duplicate arenas'' else
      let authorities = sort_key ara_arena_digest arenas in
      bindE (foldE (add_arena E policy context) authorities ([], [])) (\<lambda>(family_credits, standing_by_hotkey).
      if \<forall>(_, credit) \<in> set standing_by_hotkey. credit = 0
      then eco_fail ''all standing crown credit has decayed to zero'' else
      if \<not> discovery_distinct E discoveries then eco_fail ''discovery claims are renewed or duplicated'' else
      bindE (foldE (add_discovery E policy context) (sort_key (DiscoveryBountyClaim_digest E) discoveries) ([], [], []))
        (\<lambda>(live, expired, discovery_by_hotkey).
      bindE (combine_pools policy standing_by_hotkey (live \<noteq> []) discovery_by_hotkey) (\<lambda>combined.
      bindE (EmissionsPolicyManifest_digest E policy) (\<lambda>policy_digest.
      GlobalRewardProjection_new
        \<lparr>grp_policy_digest = policy_digest, grp_context = context,
         grp_arena_authority_digests = sort (map (ArenaRewardAuthority_digest E) authorities),
         grp_standing = family_credits, grp_discovery = live, grp_expired_discovery_claims = expired,
         grp_weights = map (\<lambda>h. \<lparr>hw_hotkey = h, hw_weight_ppm = dict_get h 0 combined\<rparr>) (sort (map fst combined))\<rparr>)))))"

definition context_row :: "RewardProjectionContext \<Rightarrow> (string \<times> pyval) list" where
  "context_row c = [(''chain_scope_digest'', PyStr (rpc_chain_scope_digest c)),
     (''validator_hotkey'', PyStr (rpc_validator_hotkey c)), (''current_block'', PyInt (rpc_current_block c)),
     (''current_block_hash'', PyStr (rpc_current_block_hash c))]"

definition project_rewards ::
    "py_env \<Rightarrow> EmissionsPolicyManifest \<Rightarrow> TargetCatalog \<Rightarrow> EvaluationStackManifest \<Rightarrow> RewardProjectionContext \<Rightarrow>
     StandingRewardClaim list \<Rightarrow> DiscoveryBountyClaim list \<Rightarrow> py_error + RewardProjection" where
  "project_rewards E policy catalog stack context claims discoveries =
     bindE (ArenaRewardAuthority_init catalog stack (PyInt (rpc_stack_generation context)) claims) (\<lambda>authority.
     bindE (GlobalRewardProjectionContext_init (context_row context) (rpc_metagraph_members context)) (\<lambda>global_context.
     bindE (project_global_rewards E policy global_context [authority] discoveries) (\<lambda>result.
     RewardProjection_new
       \<lparr>rp_policy_digest = grp_policy_digest result, rp_catalog_digest = tc_digest catalog,
        rp_evaluation_stack_digest = manifest_digest E stack, rp_context = context,
        rp_standing = grp_standing result, rp_discovery = grp_discovery result,
        rp_expired_discovery_claims = grp_expired_discovery_claims result, rp_weights = grp_weights result\<rparr>)))"

end
