(* ===== verification/Graph_Laws.thy ===== *)
theory Graph_Laws
  imports Graph_Walk
begin

text \<open>
  What the graph algorithms of the catalog compute: the cycle check succeeds exactly on acyclic
  relations, the worklist gives the transitive closure, and the topological sort gives every node
  after its predecessors, and all of them exactly when there is no cycle.
\<close>

section \<open>Order certificates\<close>

text \<open>Newest first, every node comes after all of its successors.\<close>

fun post_ordered :: "(string \<times> string) set \<Rightarrow> string list \<Rightarrow> bool" where
  "post_ordered R [] = True"
| "post_ordered R (v # vs) \<longleftrightarrow> R `` {v} \<subseteq> set vs \<and> v \<notin> set vs \<and> post_ordered R vs"

lemma post_ordered_closed: "post_ordered R vs \<Longrightarrow> R `` set vs \<subseteq> set vs"
  by (induction vs) auto

lemma closed_trancl:
  assumes "(a, b) \<in> R\<^sup>+" and "R `` V \<subseteq> V" and "a \<in> V"
  shows "b \<in> V"
  using assms by (induction rule: trancl_induct) auto

lemma post_ordered_acyclic:
  assumes "post_ordered R vs" and "a \<in> set vs"
  shows "(a, a) \<notin> R\<^sup>+"
  using assms
proof (induction vs)
  case (Cons v vs)
  then have closed: "R `` set vs \<subseteq> set vs" by (simp add: post_ordered_closed)
  show ?case
  proof (cases "a \<in> set vs")
    case False
    then have a: "a = v" using Cons.prems by simp
    show ?thesis
    proof
      assume "(a, a) \<in> R\<^sup>+"
      then obtain c where c: "(v, c) \<in> R" "(c, v) \<in> R\<^sup>*" unfolding a by (metis tranclD)
      then have "c \<in> set vs" using Cons.prems by auto
      then have "v \<in> set vs" using c(2) closed by (metis closed_trancl rtranclD)
      with Cons.prems show False by simp
    qed
  qed (use Cons in simp)
qed simp

lemma graph_rel_finite: "finite (graph_rel g)"
proof (rule finite_subset)
  show "graph_rel g \<subseteq> (\<Union>(a, cs) \<in> set g. {a} \<times> set cs)"
    by (auto simp: graph_rel_def dest!: map_of_SomeD)
qed auto

lemma graph_rel_keys: "(a, b) \<in> graph_rel g \<Longrightarrow> a \<in> fst ` set g"
  by (auto simp: graph_rel_def) (metis domI dom_map_of_conv_image_fst)

lemma known_node: "a \<in> fst ` set g \<Longrightarrow> \<exists>cs. map_of g a = Some cs"
  by (metis domD dom_map_of_conv_image_fst)

text \<open>Every related ID is an ID of the catalog.\<close>

definition graph_closed :: "graph \<Rightarrow> bool" where
  "graph_closed g \<longleftrightarrow> snd ` graph_rel g \<subseteq> fst ` set g"

section \<open>The cycle check\<close>

lemma foldE_visits:
  assumes "foldE f xs s = Inr t" and "I s"
    and "\<And>x s s'. x \<in> set xs \<Longrightarrow> I s \<Longrightarrow> f x s = Inr s' \<Longrightarrow> I s' \<and> set s \<subseteq> set s' \<and> x \<in> set s'"
  shows "I t \<and> set s \<subseteq> set t \<and> set xs \<subseteq> set t"
  using assms
proof (induction xs arbitrary: s)
  case (Cons x xs)
  obtain s' where s': "f x s = Inr s'" "foldE f xs s' = Inr t" using Cons.prems(1) by (auto simp: bindE_eq_Inr)
  have step: "I s' \<and> set s \<subseteq> set s' \<and> x \<in> set s'" using Cons.prems(3) [OF _ Cons.prems(2) s'(1)] by simp
  have "I t \<and> set s' \<subseteq> set t \<and> set xs \<subseteq> set t"
    by (rule Cons.IH [OF s'(2)]) (use step Cons.prems(3) in auto)
  with step show ?case by auto
qed simp

lemma dag_visit_sound:
  "dag_visit nm g V t vs = Inr ws \<Longrightarrow> post_ordered (graph_rel g) vs \<Longrightarrow> set V \<inter> set vs = {} \<Longrightarrow>
     post_ordered (graph_rel g) ws \<and> set V \<inter> set ws = {} \<and> set vs \<subseteq> set ws \<and> t \<in> set ws"
proof (induction nm g V t vs arbitrary: ws rule: dag_visit.induct)
  case (1 nm g V t vs)
  show ?case
  proof (cases "t \<in> set vs")
    case True
    then show ?thesis using "1.prems" by (auto simp: dag_visit.simps [of nm g V t vs] split: if_splits)
  next
    case False
    let ?I = "\<lambda>us. post_ordered (graph_rel g) us \<and> set (t # V) \<inter> set us = {}"
    obtain cs us where cs: "map_of g t = Some cs" and t: "t \<notin> set V"
      and us: "foldE (\<lambda>c us. dag_visit nm g (t # V) c us) cs vs = Inr us" and ws: "ws = t # us"
      using "1.prems"(1) False
      by (auto simp: dag_visit.simps [of nm g V t vs] bindE_eq_Inr split: if_splits option.splits)
    have "?I us \<and> set vs \<subseteq> set us \<and> set cs \<subseteq> set us"
      by (rule foldE_visits [OF us]) (use "1.prems" "1.IH" [OF t False cs] False in auto)
    then show ?thesis using cs t ws by (auto simp: graph_rel_def)
  qed
qed

lemma dag_visit_complete:
  "acyclic (graph_rel g) \<Longrightarrow> graph_closed g \<Longrightarrow> t \<in> fst ` set g \<Longrightarrow> \<forall>u \<in> set V. (u, t) \<in> (graph_rel g)\<^sup>+ \<Longrightarrow>
     \<exists>ws. dag_visit nm g V t vs = Inr ws"
proof (induction nm g V t vs rule: dag_visit.induct)
  case (1 nm g V t vs)
  have t: "t \<notin> set V" using "1.prems"(1,4) by (auto simp: acyclic_def)
  obtain cs where cs: "map_of g t = Some cs" using known_node [OF "1.prems"(3)] by blast
  show ?case
  proof (cases "t \<in> set vs")
    case False
    have "\<exists>ws. foldE (\<lambda>c us. dag_visit nm g (t # V) c us) cs vs = Inr ws \<and> True"
    proof (rule foldE_succeeds)
      fix c us assume c: "c \<in> set cs"
      then have e: "(t, c) \<in> graph_rel g" using cs by (auto simp: graph_rel_def)
      then have "\<forall>u \<in> set (t # V). (u, c) \<in> (graph_rel g)\<^sup>+"
        using "1.prems"(4) by (auto intro: trancl_into_trancl)
      moreover have "c \<in> fst ` set g" using e "1.prems"(2) by (force simp: graph_closed_def)
      ultimately show "\<exists>ws. dag_visit nm g (t # V) c us = Inr ws \<and> True"
        using "1.IH" [OF t False cs c] "1.prems"(1,2) by simp
    qed simp
    then show ?thesis using cs t False by (auto simp: dag_visit.simps [of nm g V t vs])
  qed (use t in \<open>simp add: dag_visit.simps [of nm g V t vs]\<close>)
qed

theorem validate_relation_dag_iff:
  assumes "graph_closed g"
  shows "validate_relation_dag nm g = Inr () \<longleftrightarrow> acyclic (graph_rel g)"
proof
  assume "validate_relation_dag nm g = Inr ()"
  then obtain vs where vs: "foldE (\<lambda>t vs. dag_visit nm g [] t vs) (map fst g) [] = Inr vs"
    by (auto simp: validate_relation_dag_def bindE_eq_Inr)
  have "post_ordered (graph_rel g) vs \<and> set [] \<subseteq> set vs \<and> set (map fst g) \<subseteq> set vs"
    by (rule foldE_visits [OF vs]) (use dag_visit_sound [of nm g "[]"] in auto)
  then show "acyclic (graph_rel g)"
    unfolding acyclic_def using post_ordered_acyclic graph_rel_keys by (metis image_set subsetD tranclD)
next
  assume "acyclic (graph_rel g)"
  then have "\<exists>vs. foldE (\<lambda>t vs. dag_visit nm g [] t vs) (map fst g) [] = Inr vs \<and> True"
    by (intro foldE_succeeds) (use dag_visit_complete assms in auto)
  then show "validate_relation_dag nm g = Inr ()" by (auto simp: validate_relation_dag_def)
qed

section \<open>The closure\<close>

lemma pending_last: "pending \<noteq> [] \<Longrightarrow> set pending = insert (last pending) (set (butlast pending))"
  by (metis append_butlast_last_id list.simps(15) rotate1.simps(2) set_rotate1)

lemma closure_loop_reaches:
  "graph_closed g \<Longrightarrow> set pending \<subseteq> fst ` set g \<Longrightarrow>
     graph_rel g `` set found \<subseteq> set found \<union> set pending \<Longrightarrow>
     \<exists>rs. closure_loop g pending found = Inr rs \<and> set rs = set found \<union> (graph_rel g)\<^sup>* `` set pending"
proof (induction g pending found rule: closure_loop.induct)
  case (1 g pending found)
  show ?case
  proof (cases "pending = []")
    case False
    let ?c = "last pending" let ?rest = "butlast pending"
    have set_p: "set pending = insert ?c (set ?rest)" using False by (rule pending_last)
    show ?thesis
    proof (cases "?c \<in> set found")
      case True
      have "(graph_rel g)\<^sup>* `` {?c} \<subseteq> set found \<union> (graph_rel g)\<^sup>* `` set ?rest"
      proof
        fix x assume "x \<in> (graph_rel g)\<^sup>* `` {?c}"
        then have "(?c, x) \<in> (graph_rel g)\<^sup>*" by simp
        then show "x \<in> set found \<union> (graph_rel g)\<^sup>* `` set ?rest"
        proof (induction rule: rtrancl_induct)
          case (step y z)
          show ?case
          proof (cases "y \<in> set found")
            case True
            then show ?thesis using step.hyps(2) "1.prems"(3) set_p \<open>?c \<in> set found\<close> by auto
          qed (use step in \<open>auto intro: rtrancl_into_rtrancl\<close>)
        qed (use True in simp)
      qed
      moreover have "graph_rel g `` set found \<subseteq> set found \<union> set ?rest"
        using "1.prems"(3) set_p True by auto
      then obtain rs where rs: "closure_loop g ?rest found = Inr rs"
          "set rs = set found \<union> (graph_rel g)\<^sup>* `` set ?rest"
        using "1.IH"(1) [OF False refl refl True] "1.prems"(1,2) set_p by auto
      ultimately have "set rs = set found \<union> (graph_rel g)\<^sup>* `` set pending" unfolding set_p by auto
      moreover have "closure_loop g pending found = Inr rs"
        using rs(1) True False by (simp add: closure_loop.simps [of g pending found] Let_def)
      ultimately show ?thesis by blast
    next
      case new: False
      have "?c \<in> fst ` set g" by (rule subsetD [OF "1.prems"(2) last_in_set [OF False]])
      from known_node [OF this] obtain cs where cs: "map_of g ?c = Some cs" by (rule exE)
      have img: "graph_rel g `` {?c} = set cs" using cs by (auto simp: graph_rel_def)
      have "set cs \<subseteq> fst ` set g" using "1.prems"(1) img by (force simp: graph_closed_def)
      then have known: "set (?rest @ cs) \<subseteq> fst ` set g"
        using "1.prems"(2) by (auto dest: in_set_butlastD)
      have front: "graph_rel g `` set (found @ [?c]) \<subseteq> set (found @ [?c]) \<union> set (?rest @ cs)"
        using "1.prems"(3) img unfolding set_p set_append Image_Un by auto
      obtain rs where rs: "closure_loop g (?rest @ cs) (found @ [?c]) = Inr rs"
          "set rs = set (found @ [?c]) \<union> (graph_rel g)\<^sup>* `` set (?rest @ cs)"
        using "1.IH"(2) [OF False refl refl new cs "1.prems"(1) known front] by blast
      have "(graph_rel g)\<^sup>* `` {?c} = insert ?c ((graph_rel g)\<^sup>* `` set cs)"
        using img by (auto elim: converse_rtranclE intro: converse_rtrancl_into_rtrancl)
      with rs(2) have "set rs = set found \<union> (graph_rel g)\<^sup>* `` set pending"
        unfolding set_p set_append Image_Un insert_is_Un [of ?c "set ?rest"] by simp blast
      moreover have "closure_loop g pending found = Inr rs"
        using rs(1) new False cs by (simp add: closure_loop.simps [of g pending found] Let_def)
      ultimately show ?thesis by blast
    qed
  qed (simp add: closure_loop.simps [of g "[]"])
qed

theorem relation_closure_is_trancl:
  assumes "graph_closed g" and "t \<in> fst ` set g"
  shows "\<exists>rs. relation_closure g t = Inr rs \<and> set rs = (graph_rel g)\<^sup>+ `` {t}"
proof -
  obtain cs where cs: "map_of g t = Some cs" using known_node [OF assms(2)] by blast
  have img: "graph_rel g `` {t} = set cs" using cs by (auto simp: graph_rel_def)
  have "set cs \<subseteq> fst ` set g" using assms(1) img by (force simp: graph_closed_def)
  then obtain rs where "closure_loop g cs [] = Inr rs" "set rs = (graph_rel g)\<^sup>* `` set cs"
    using closure_loop_reaches [OF assms(1), of cs "[]"] by auto
  moreover have "(graph_rel g)\<^sup>+ `` {t} = (graph_rel g)\<^sup>* `` set cs"
    unfolding img [symmetric] by (auto dest: tranclD intro: rtrancl_into_trancl2)
  ultimately show ?thesis using cs by (simp add: relation_closure_def)
qed

section \<open>The topological sort\<close>

lemma mset_children_in_order [simp]: "mset (children_in_order ord cs) = mset cs"
  by (cases ord) (simp_all add: children_in_order_def)

lemma release_all:
  assumes "distinct cs" and "set cs \<subseteq> fst ` set incoming"
  shows "\<exists>incoming' ready'. foldE (release_child ord) cs (incoming, ready) = Inr (incoming', ready')
    \<and> fst ` set incoming' = fst ` set incoming
    \<and> (\<forall>n. dict_get n 0 incoming' = dict_get n 0 incoming - (if n \<in> set cs then 1 else 0))
    \<and> mset ready' = mset ready + mset (filter (\<lambda>n. dict_get n 0 incoming = 1) cs)"
  using assms
proof (induction cs arbitrary: incoming ready)
  case (Cons c cs)
  obtain n where n: "map_of incoming c = Some n" using Cons.prems(2) by (auto dest: weak_map_of_SomeI)
  let ?inc = "dict_set c (n - 1) incoming"
  let ?rdy = "if n - 1 = 0 then push_ready ord c ready else ready"
  have "set cs \<subseteq> fst ` set ?inc" "distinct cs" using Cons.prems by auto
  from Cons.IH [OF this(2,1), of ?rdy] obtain inc' rdy' where
    r: "foldE (release_child ord) cs (?inc, ?rdy) = Inr (inc', rdy')" "fst ` set inc' = fst ` set ?inc"
      "\<And>m. dict_get m 0 inc' = dict_get m 0 ?inc - (if m \<in> set cs then 1 else 0)"
      "mset rdy' = mset ?rdy + mset (filter (\<lambda>m. dict_get m 0 ?inc = 1) cs)"
    by blast
  have same: "filter (\<lambda>m. dict_get m 0 ?inc = 1) cs = filter (\<lambda>m. dict_get m 0 incoming = 1) cs"
    using Cons.prems(1) by (auto simp: dict_get_dict_set intro!: filter_cong)
  have get: "dict_get c 0 incoming = n" using n by (simp add: dict_get_def)
  have "fst ` set inc' = fst ` set incoming" using r(2) Cons.prems(2) by auto
  moreover have "\<forall>m. dict_get m 0 inc' = dict_get m 0 incoming - (if m \<in> set (c # cs) then 1 else 0)"
    using r(3) Cons.prems(1) get by (auto simp: dict_get_dict_set)
  moreover have "mset rdy' = mset ready + mset (filter (\<lambda>m. dict_get m 0 incoming = 1) (c # cs))"
    using r(4) get by (auto simp: same)
  moreover have "foldE (release_child ord) (c # cs) (incoming, ready) = Inr (inc', rdy')"
    using r(1) n by (simp add: release_child_def [of ord c])
  ultimately show ?case by blast
qed simp

text \<open>The nodes, their distinct successors among them, and the invariant of the loop.\<close>

definition out_graph :: "graph \<Rightarrow> bool" where
  "out_graph g \<longleftrightarrow> distinct (map fst g) \<and> graph_closed g \<and> (\<forall>(a, cs) \<in> set g. distinct cs)"

definition kahn_inv :: "graph \<Rightarrow> (string \<times> int) list \<Rightarrow> string list \<Rightarrow> string list \<Rightarrow> bool" where
  "kahn_inv g incoming ready ordered \<longleftrightarrow>
     fst ` set incoming = fst ` set g \<and> distinct (ordered @ ready) \<and> set (ordered @ ready) \<subseteq> fst ` set g
     \<and> (\<forall>n \<in> fst ` set g. dict_get n 0 incoming = int (card {a. (a, n) \<in> graph_rel g \<and> a \<notin> set ordered}))
     \<and> (\<forall>n \<in> fst ` set g. n \<in> set (ordered @ ready) \<longleftrightarrow> dict_get n 0 incoming = 0)
     \<and> post_ordered ((graph_rel g)\<inverse>) (rev ordered)"

lemma finite_preds: "finite {a. (a, n) \<in> graph_rel g \<and> P a}"
  by (rule finite_subset [OF _ finite_imageI [OF graph_rel_finite [of g]], of _ fst]) force

lemma kahn_inv_node:
  assumes "kahn_inv g incoming ready ordered" and "n \<in> fst ` set g"
  shows "dict_get n 0 incoming = int (card {a. (a, n) \<in> graph_rel g \<and> a \<notin> set ordered})"
    and "n \<in> set (ordered @ ready) \<longleftrightarrow> dict_get n 0 incoming = 0"
  using assms(1) [unfolded kahn_inv_def] assms(2) by (meson bspec)+

lemma kahn_step:
  assumes g: "out_graph g" and inv: "kahn_inv g incoming (c # rest) ordered"
  shows "\<exists>cs incoming' ready'. map_of g c = Some cs
    \<and> foldE (release_child ord) (children_in_order ord cs) (incoming, rest) = Inr (incoming', ready')
    \<and> kahn_inv g incoming' ready' (ordered @ [c])"
proof -
  let ?N = "fst ` set g" and ?R = "graph_rel g"
  have cN: "c \<in> ?N" and dist: "distinct (ordered @ c # rest)" using inv by (auto simp: kahn_inv_def)
  obtain cs where cs: "map_of g c = Some cs" using known_node [OF cN] by blast
  have dcs: "distinct cs" using g map_of_SomeD [OF cs] by (auto simp: out_graph_def)
  have edge: "(c, n) \<in> ?R \<longleftrightarrow> n \<in> set cs" for n using cs by (auto simp: graph_rel_def)
  have csN: "set cs \<subseteq> ?N" using g edge by (force simp: out_graph_def graph_closed_def)
  let ?cs = "children_in_order ord cs"
  have set_cs: "set ?cs = set cs" "distinct ?cs"
    using dcs mset_children_in_order [of ord cs] by (metis mset_eq_setD, metis mset_eq_imp_distinct_iff)
  have keys: "fst ` set incoming = ?N" using inv by (simp add: kahn_inv_def)
  obtain inc rdy where r: "foldE (release_child ord) ?cs (incoming, rest) = Inr (inc, rdy)"
    "fst ` set inc = ?N" "\<And>n. dict_get n 0 inc = dict_get n 0 incoming - (if n \<in> set cs then 1 else 0)"
    "mset rdy = mset rest + mset (filter (\<lambda>n. dict_get n 0 incoming = 1) ?cs)"
    using release_all [of ?cs incoming ord rest] set_cs csN keys by auto
  have count: "dict_get n 0 incoming = int (card {a. (a, n) \<in> ?R \<and> a \<notin> set ordered})" if "n \<in> ?N" for n
    by (rule kahn_inv_node(1) [OF inv that])
  have zero: "n \<in> set (ordered @ c # rest) \<longleftrightarrow> dict_get n 0 incoming = 0" if "n \<in> ?N" for n
    by (rule kahn_inv_node(2) [OF inv that])
  have count': "dict_get n 0 inc = int (card {a. (a, n) \<in> ?R \<and> a \<notin> set (ordered @ [c])})" if n: "n \<in> ?N" for n
  proof -
    let ?A = "{a. (a, n) \<in> ?R \<and> a \<notin> set ordered}"
    have eq: "{a. (a, n) \<in> ?R \<and> a \<notin> set (ordered @ [c])} = ?A - {c}" by auto
    have fin: "finite ?A" by (rule finite_preds)
    have "c \<in> ?A \<longleftrightarrow> n \<in> set cs" using edge dist by auto
    moreover have "int (card (?A - {c})) = int (card ?A) - (if c \<in> ?A then 1 else 0)"
      using card_Suc_Diff1 [OF fin, of c] by auto
    ultimately show ?thesis unfolding eq r(3) count [OF n] by simp
  qed
  have pos: "0 < dict_get n 0 incoming" if n: "n \<in> set cs" for n
  proof -
    have "c \<in> {a. (a, n) \<in> ?R \<and> a \<notin> set ordered}" using edge n dist by simp
    then have "0 < card {a. (a, n) \<in> ?R \<and> a \<notin> set ordered}"
      using finite_preds [of n g "\<lambda>a. a \<notin> set ordered"] by (metis card_gt_0_iff empty_iff)
    then show ?thesis using count [OF subsetD [OF csN n]] by simp
  qed
  have ready: "set rdy = set rest \<union> {n \<in> set cs. dict_get n 0 incoming = 1}"
    using arg_cong [OF r(4), of set_mset] set_cs(1) by auto
  have fresh: "n \<notin> set (ordered @ c # rest)" if "n \<in> set cs" for n
    using zero [of n] pos [OF that] that csN by auto
  have "distinct (rest @ filter (\<lambda>n. dict_get n 0 incoming = 1) ?cs)"
    using dist set_cs fresh by auto
  then have "distinct rdy" using r(4) by (metis mset_append mset_eq_imp_distinct_iff)
  then have "distinct ((ordered @ [c]) @ rdy)" using dist ready fresh by auto
  moreover have "set ((ordered @ [c]) @ rdy) \<subseteq> ?N" using inv ready csN by (auto simp: kahn_inv_def)
  moreover have "n \<in> set ((ordered @ [c]) @ rdy) \<longleftrightarrow> dict_get n 0 inc = 0" if "n \<in> ?N" for n
    using zero [OF that] r(3) [of n] ready fresh [of n] by auto
  moreover have "?R\<inverse> `` {c} \<subseteq> set ordered"
    using count [OF cN] zero [OF cN] finite_preds [of c g "\<lambda>a. a \<notin> set ordered"] by auto
  then have "post_ordered (?R\<inverse>) (rev (ordered @ [c]))" using inv dist by (auto simp: kahn_inv_def)
  ultimately have "kahn_inv g inc rdy (ordered @ [c])" using count' r(2) unfolding kahn_inv_def by blast
  with cs r(1) show ?thesis by blast
qed

lemma kahn_loop_inv:
  "out_graph g \<Longrightarrow> kahn_inv g incoming ready ordered \<Longrightarrow>
     \<exists>os incoming'. kahn_loop ord g incoming ready ordered = Inr os \<and> kahn_inv g incoming' [] os"
proof (induction ord g incoming ready ordered rule: kahn_loop.induct)
  case (1 ord g incoming ready ordered)
  show ?case
  proof (cases ready)
    case Nil
    then show ?thesis using "1.prems"(2) by (auto simp: kahn_loop.simps [of ord g incoming "[]"])
  next
    case (Cons c rest)
    obtain cs inc rdy where s: "map_of g c = Some cs"
        "foldE (release_child ord) (children_in_order ord cs) (incoming, rest) = Inr (inc, rdy)"
        "kahn_inv g inc rdy (ordered @ [c])"
      using kahn_step [OF "1.prems"(1), of incoming c rest ordered ord] "1.prems"(2) Cons by blast
    from "1.IH" [OF Cons s(1,2)] "1.prems"(1) s(3) show ?thesis
      by (simp add: kahn_loop.simps [of ord g incoming "c # rest" ordered] Cons s(1,2))
  qed
qed

text \<open>What is left when nothing is ready has a cycle.\<close>

theorem kahn_loop_correct:
  assumes g: "out_graph g" and inv: "kahn_inv g incoming ready []"
  shows "\<exists>os. kahn_loop ord g incoming ready [] = Inr os \<and> distinct os \<and> set os \<subseteq> fst ` set g
    \<and> post_ordered ((graph_rel g)\<inverse>) (rev os)
    \<and> (length os = length g \<longleftrightarrow> acyclic (graph_rel g))"
proof -
  obtain os inc where os: "kahn_loop ord g incoming ready [] = Inr os" "kahn_inv g inc [] os"
    using kahn_loop_inv [OF g inv] by blast
  let ?R = "graph_rel g" and ?N = "fst ` set g"
  have post: "post_ordered (?R\<inverse>) (rev os)" and sub: "set os \<subseteq> ?N" and d: "distinct os"
    using os(2) by (auto simp: kahn_inv_def)
  have len: "card ?N = length g" using g by (metis distinct_card length_map out_graph_def set_map)
  have all: "length os = length g \<longleftrightarrow> set os = ?N"
    using sub d len by (metis List.finite_set card_subset_eq distinct_card finite_imageI)
  have blocked: "\<exists>a \<in> ?N - set os. (a, n) \<in> ?R" if n: "n \<in> ?N - set os" for n
  proof -
    have "card {a. (a, n) \<in> ?R \<and> a \<notin> set os} \<noteq> 0"
      using kahn_inv_node [OF os(2), of n] n by simp
    then have "{a. (a, n) \<in> ?R \<and> a \<notin> set os} \<noteq> {}" by (metis card.empty)
    then show ?thesis using graph_rel_keys by blast
  qed
  have "length os = length g \<longleftrightarrow> acyclic ?R"
  proof
    assume "acyclic ?R"
    then have wf: "wf ?R" using graph_rel_finite finite_acyclic_wf by blast
    have "?N - set os = {}"
    proof (rule ccontr)
      assume "?N - set os \<noteq> {}"
      then obtain z where "z \<in> ?N - set os" "\<And>y. (y, z) \<in> ?R \<Longrightarrow> y \<notin> ?N - set os"
        using wf by (metis all_not_in_conv wfE_min)
      with blocked show False by blast
    qed
    with sub all show "length os = length g" by blast
  next
    assume "length os = length g"
    then have "\<forall>a \<in> ?N. (a, a) \<notin> (?R\<inverse>)\<^sup>+" using post_ordered_acyclic [OF post] all by auto
    then show "acyclic ?R"
      unfolding acyclic_def using graph_rel_keys by (metis converseI trancl_converse tranclD)
  qed
  with os(1) d sub post show ?thesis by blast
qed

end
