(* ===== verification/Catalog_Laws.thy ===== *)
theory Catalog_Laws
  imports Target_Catalog Graph_Laws
begin

text \<open>
  What a constructed catalog guarantees: its relations are acyclic, its closures are the
  transitive closures, targets that share a slot displace one another, and the precedence of its
  rules has no cycle. From this the operations on active sets are characterised.
\<close>

section \<open>The index of specs\<close>

definition specs_ok :: "specs \<Rightarrow> bool" where
  "specs_ok by_id \<longleftrightarrow> distinct (map fst by_id) \<and> (\<forall>(t, s) \<in> set by_id. ts_target_id s = t)"

lemma admit_spec_ok:
  assumes "admit_spec spec st = Inr st'" and "specs_ok (fst st)"
  shows "specs_ok (fst st')"
proof -
  have "fst st' = dict_set (ts_target_id spec) spec (fst st)" "ts_target_id spec \<notin> fst ` set (fst st)"
    using assms(1) by (auto simp: admit_spec_def Let_def bindE_eq_Inr catalog_fail_def
        split: prod.splits if_splits option.splits TargetKind.splits)
  with assms(2) show ?thesis by (auto simp: specs_ok_def dict_set_new)
qed

lemma admitted_specs_ok:
  assumes "foldE admit_spec rows ([], []) = Inr (by_id, ms)"
  shows "specs_ok by_id"
  using foldE_invariant [OF assms, of "\<lambda>st. specs_ok (fst st)"] admit_spec_ok by (force simp: specs_ok_def)

lemma map_of_sort_key:
  assumes "distinct (map fst xs)"
  shows "map_of (sort_key fst xs) = map_of (xs :: ('k::linorder \<times> 'v) list)"
  using assms by (intro map_of_inject_set [THEN iffD2]) (simp_all add: distinct_map_sort_key)

lemma map_of_rel_graph: "map_of (rel_graph f by_id) t = map_option f (map_of by_id t)"
  by (induction by_id) (auto simp: rel_graph_def)

lemma keys_rel_graph [simp]: "map fst (rel_graph f by_id) = map fst by_id" "fst ` set (rel_graph f by_id) = fst ` set by_id"
  by (auto simp: rel_graph_def case_prod_beta image_image)

definition target_rel :: "(TargetSpec \<Rightarrow> string list) \<Rightarrow> TargetCatalog \<Rightarrow> (string \<times> string) set" where
  "target_rel f c = graph_rel (rel_graph f (tc_by_id c))"

lemma graph_rel_sorted:
  "distinct (map fst by_id) \<Longrightarrow> graph_rel (rel_graph f (sort_key fst by_id)) = graph_rel (rel_graph f by_id)"
  by (simp add: graph_rel_def map_of_rel_graph map_of_sort_key)

lemma rel_graph_closed:
  assumes "\<forall>s \<in> snd ` set by_id. set (f s) \<subseteq> fst ` set by_id"
  shows "graph_closed (rel_graph f by_id)"
proof -
  have "b \<in> fst ` set by_id" if "map_of by_id a = Some s" "b \<in> set (f s)" for a b s
    using assms map_of_SomeD [OF that(1)] that(2) by force
  then show ?thesis by (auto simp: graph_closed_def graph_rel_def map_of_rel_graph)
qed

lemma check_relations_known:
  assumes "check_relations by_id s = Inr ()"
  shows "set (ts_displaces s) \<subseteq> fst ` set by_id" and "set (ts_requires s) \<subseteq> fst ` set by_id"
    and "ts_kind s = ATOMIC \<Longrightarrow> set (ts_members s) \<subseteq> set (ts_displaces s)"
  using assms
  by (auto simp: check_relations_def Let_def bindE_eq_Inr check_relation_def catalog_fail_def filter_empty_conv
      split: if_splits)

section \<open>Closures\<close>

lemma closures_exact:
  assumes "closures g = Inr cl" and "graph_closed g" and "t \<in> fst ` set g"
  shows "set (dict_get t [] cl) = (graph_rel g)\<^sup>+ `` {t}"
proof -
  have "list_all2 (\<lambda>t p. \<exists>rs. relation_closure g t = Inr rs \<and> p = (t, rs)) (map fst g) cl"
    using assms(1) unfolding closures_def mapE_eq_Inr by (auto elim!: list_all2_mono simp: bindE_eq_Inr)
  then have cl: "cl = map (\<lambda>t. (t, projr (relation_closure g t))) (map fst g)"
    by (induction rule: list_all2_induct) auto
  have look: "map_of (map (\<lambda>t. (t, f t)) ts) t = Some (f t)" if "t \<in> set ts" for ts and f :: "string \<Rightarrow> string list"
    using that by (induction ts) auto
  have "t \<in> set (map fst g)" using assms(3) by simp
  then have "map_of cl t = Some (projr (relation_closure g t))" unfolding cl by (rule look)
  moreover obtain rs where "relation_closure g t = Inr rs" "set rs = (graph_rel g)\<^sup>+ `` {t}"
    using relation_closure_is_trancl [OF assms(2,3)] by blast
  ultimately show ?thesis by (simp add: dict_get_def)
qed

section \<open>Precedence\<close>

definition prec_inv :: "string list \<Rightarrow> (string \<times> string) set \<Rightarrow> graph \<times> (string \<times> int) list \<Rightarrow> bool" where
  "prec_inv nodes edges st \<longleftrightarrow> map fst (fst st) = nodes \<and> map fst (snd st) = nodes
     \<and> (\<forall>(a, cs) \<in> set (fst st). distinct cs) \<and> graph_rel (fst st) = edges
     \<and> (\<forall>n. dict_get n 0 (snd st) = int (card {a. (a, n) \<in> edges}))"

lemma add_precedence_inv:
  assumes inv: "prec_inv nodes edges st" and nodes: "distinct nodes" "a \<in> set nodes" "b \<in> set nodes"
  shows "\<exists>st'. add_precedence (a, b) st = Inr st' \<and> prec_inv nodes (insert (a, b) edges) st'"
proof -
  obtain out inc where st: "st = (out, inc)" by (cases st)
  have keys: "map fst out = nodes" "map fst inc = nodes" using inv by (auto simp: prec_inv_def st)
  obtain cs where cs: "map_of out a = Some cs" using known_node [of a out] keys nodes by (metis image_set)
  obtain n where n: "map_of inc b = Some n" using keys nodes
    by (metis image_set map_of_eq_None_iff not_None_eq)
  have rel: "graph_rel out = edges" using inv by (simp add: prec_inv_def st)
  have in_cs: "b \<in> set cs \<longleftrightarrow> (a, b) \<in> edges" using cs rel by (auto simp: graph_rel_def)
  show ?thesis
  proof (cases "b \<in> set cs")
    case True
    then show ?thesis using cs in_cs inv by (auto simp: add_precedence_def st insert_absorb)
  next
    case False
    let ?out = "dict_set a (cs @ [b]) out" and ?inc = "dict_set b (n + 1) inc"
    have "graph_rel ?out = insert (a, b) edges"
      using cs rel by (auto simp: graph_rel_def split: if_splits)
    moreover have "map fst ?out = nodes" "map fst ?inc = nodes" using keys nodes by (simp_all add: map_fst_dict_set)
    moreover have "\<forall>(x, xs) \<in> set ?out. distinct xs"
    proof -
      have "distinct cs" and "\<forall>(x, xs) \<in> set out. distinct xs"
        using inv map_of_SomeD [OF cs] by (auto simp: prec_inv_def st)
      moreover have "set (dict_set a v out) \<subseteq> insert (a, v) (set out)" for v by (induction out) (auto split: if_splits)
      ultimately show ?thesis using False by fastforce
    qed
    moreover have "dict_get m 0 ?inc = int (card {x. (x, m) \<in> insert (a, b) edges})" for m
    proof -
      have get: "dict_get x 0 inc = int (card {y. (y, x) \<in> edges})" for x
        using inv unfolding prec_inv_def st by simp
      have fin: "finite {y. (y, b) \<in> edges}" using finite_preds [of b out "\<lambda>_. True"] rel by simp
      have "{x. (x, b) \<in> insert (a, b) edges} = insert a {y. (y, b) \<in> edges}" by auto
      moreover have "n = int (card {y. (y, b) \<in> edges})" using get [of b] n by (simp add: dict_get_def)
      ultimately show ?thesis using get [of m] fin False in_cs by (simp add: dict_get_dict_set)
    qed
    ultimately show ?thesis using cs n False by (simp add: add_precedence_def st prec_inv_def)
  qed
qed

definition prec_edges :: "string list list \<Rightarrow> (string \<times> string) set" where
  "prec_edges precs = set (concat (map steps_of precs))"

lemma steps_of_members: "(a, b) \<in> set (steps_of prec) \<Longrightarrow> a \<in> set prec \<and> b \<in> set prec"
  unfolding steps_of_def by (cases prec) (auto dest: set_zip_leftD set_zip_rightD)

lemma prec_edges_members:
  "\<forall>prec \<in> set precs. set prec \<subseteq> set nodes \<Longrightarrow> (a, b) \<in> prec_edges precs \<Longrightarrow> a \<in> set nodes \<and> b \<in> set nodes"
  unfolding prec_edges_def by (auto dest!: steps_of_members)

lemma precedence_graph_ok:
  assumes "distinct nodes" and "\<forall>prec \<in> set precs. set prec \<subseteq> set nodes"
  shows "\<exists>out inc. precedence_graph nodes precs = Inr (out, inc) \<and> prec_inv nodes (prec_edges precs) (out, inc)"
proof -
  have ends: "a \<in> set nodes \<and> b \<in> set nodes" if "(a, b) \<in> set (concat (map steps_of precs))" for a b
    using prec_edges_members [OF assms(2)] that by (simp add: prec_edges_def)
  have "\<exists>st. foldE add_precedence es st0 = Inr st \<and> prec_inv nodes (edges \<union> set es) st"
    if "prec_inv nodes edges st0" "\<forall>(a, b) \<in> set es. a \<in> set nodes \<and> b \<in> set nodes" for es st0 edges
    using that
  proof (induction es arbitrary: st0 edges)
    case (Cons e es)
    obtain a b where e: "e = (a, b)" by (cases e)
    obtain st' where st': "add_precedence (a, b) st0 = Inr st'" "prec_inv nodes (insert (a, b) edges) st'"
      using add_precedence_inv [OF Cons.prems(1) assms(1), of a b] Cons.prems(2) e by auto
    from Cons.IH [OF st'(2)] Cons.prems(2) st'(1) e show ?case by auto
  qed simp
  moreover have "prec_inv nodes {} (map (\<lambda>t. (t, [])) nodes, map (\<lambda>t. (t, 0)) nodes)"
  proof -
    have "dict_get n 0 (map (\<lambda>t. (t, 0 :: int)) nodes) = 0" for n by (induction nodes) (auto simp: dict_get_Cons)
    moreover have "graph_rel (map (\<lambda>t. (t, [])) nodes) = {}"
      by (auto simp: graph_rel_def dest!: map_of_SomeD)
    ultimately show ?thesis by (auto simp: prec_inv_def comp_def)
  qed
  ultimately show ?thesis
    unfolding precedence_graph_def prec_edges_def using ends by (metis (mono_tags, lifting) case_prodI2 prod.exhaust sup_bot_left)
qed

lemma prec_inv_kahn:
  assumes inv: "prec_inv nodes edges (out, inc)" and "distinct nodes" and "snd ` edges \<subseteq> set nodes"
    and "mset ready = mset (no_incoming inc)"
  shows "out_graph out" and "kahn_inv out inc ready []"
proof -
  have keys: "map fst out = nodes" "map fst inc = nodes" and rel: "graph_rel out = edges"
    using inv by (auto simp: prec_inv_def)
  then have fk: "fst ` set out = set nodes" "fst ` set inc = set nodes" by (metis image_set)+
  show "out_graph out" using inv assms(2,3) fk by (auto simp: out_graph_def graph_closed_def prec_inv_def)
  have "set ready = {n. n \<in> set nodes \<and> dict_get n 0 inc = 0}"
  proof -
    have "set (no_incoming inc) = {n. n \<in> fst ` set inc \<and> dict_get n 0 inc = 0}"
      using keys(2) assms(2) by (force simp: no_incoming_def dict_get_eq)
    then show ?thesis using fk assms(4) by (metis mset_eq_setD)
  qed
  moreover have "distinct (no_incoming inc)"
    using keys(2) assms(2) by (auto simp: no_incoming_def distinct_map intro: inj_on_subset)
  then have "distinct ready" using assms(4) mset_eq_imp_distinct_iff by blast
  ultimately show "kahn_inv out inc ready []" using inv fk rel by (auto simp: kahn_inv_def prec_inv_def)
qed

lemma check_precedence_iff:
  assumes "distinct nodes" and "\<forall>r \<in> set rules. set (cr_precedence r) \<subseteq> set nodes"
  shows "check_precedence nodes rules = Inr () \<longleftrightarrow> acyclic (prec_edges (map cr_precedence rules))"
proof -
  let ?E = "prec_edges (map cr_precedence rules)"
  obtain out inc where pg: "precedence_graph nodes (map cr_precedence rules) = Inr (out, inc)"
    and inv: "prec_inv nodes ?E (out, inc)"
    using precedence_graph_ok [OF assms(1), of "map cr_precedence rules"] assms(2) by auto
  have sub: "snd ` ?E \<subseteq> set nodes"
    using prec_edges_members [of "map cr_precedence rules" nodes] assms(2) by auto
  have og: "out_graph out" and ki: "kahn_inv out inc (rev (no_incoming inc)) []"
    using prec_inv_kahn [OF inv assms(1) sub] by auto
  obtain os where os: "kahn_loop Stack out inc (rev (no_incoming inc)) [] = Inr os"
    "length os = length out \<longleftrightarrow> acyclic (graph_rel out)"
    using kahn_loop_correct [OF og ki] by blast
  have "length out = length nodes" "graph_rel out = ?E" using inv by (auto simp: prec_inv_def)
  with os pg show ?thesis by (simp add: check_precedence_def catalog_fail_def)
qed

section \<open>A constructed catalog\<close>

definition disjoint_or_displaced :: "TargetSpec \<Rightarrow> TargetSpec \<Rightarrow> bool" where
  "disjoint_or_displaced s s' \<longleftrightarrow> set (ts_members s) \<inter> set (ts_members s') = {}
     \<or> ts_target_id s' \<in> set (ts_displaces s) \<or> ts_target_id s \<in> set (ts_displaces s')"

definition catalog_wf :: "TargetCatalog \<Rightarrow> bool" where
  "catalog_wf c \<longleftrightarrow> specs_ok (tc_by_id c)
     \<and> acyclic (target_rel ts_displaces c) \<and> acyclic (target_rel ts_requires c)
     \<and> (\<forall>t \<in> fst ` set (tc_by_id c).
          set (dict_get t [] (tc_displacement_closures c)) = (target_rel ts_displaces c)\<^sup>+ `` {t}
          \<and> set (dict_get t [] (tc_requirement_closures c)) = (target_rel ts_requires c)\<^sup>+ `` {t})
     \<and> (\<forall>s \<in> snd ` set (tc_by_id c). \<forall>s' \<in> snd ` set (tc_by_id c). s \<noteq> s' \<longrightarrow> disjoint_or_displaced s s')"

lemma check_shared_disjoint: "check_shared (s, s') = Inr () \<Longrightarrow> disjoint_or_displaced s s'"
  by (auto simp: check_shared_def disjoint_or_displaced_def Let_def catalog_fail_def filter_empty_conv split: if_splits)

lemma disjoint_or_displaced_sym: "disjoint_or_displaced s s' = disjoint_or_displaced s' s"
  by (auto simp: disjoint_or_displaced_def)

lemma pairs_of_complete: "x \<in> set xs \<Longrightarrow> y \<in> set xs \<Longrightarrow> x \<noteq> y \<Longrightarrow> (x, y) \<in> set (pairs_of xs) \<or> (y, x) \<in> set (pairs_of xs)"
  by (induction xs) auto

lemma TargetCatalog_init_stages:
  assumes "TargetCatalog_init E registry rows rules = Inr c"
  shows "\<exists>by_id ms ri. foldE admit_spec rows ([], []) = Inr (by_id, ms)
    \<and> (\<forall>s \<in> snd ` set by_id. check_relations by_id s = Inr ())
    \<and> (\<forall>pair \<in> set (pairs_of (map snd by_id)). check_shared pair = Inr ())
    \<and> validate_relation_dag ''displaces'' (rel_graph ts_displaces by_id) = Inr ()
    \<and> validate_relation_dag ''requires'' (rel_graph ts_requires by_id) = Inr ()
    \<and> closures (rel_graph ts_displaces by_id) = Inr (tc_displacement_closures c)
    \<and> closures (rel_graph ts_requires by_id) = Inr (tc_requirement_closures c)
    \<and> foldE (admit_rule by_id) rules \<lparr>ri_by_id = [], ri_by_targets = [], ri_by_pair = []\<rparr> = Inr ri
    \<and> check_precedence (map fst by_id) rules = Inr ()
    \<and> tc_by_id c = sort_key fst by_id \<and> tc_composition c = ri\<lparr>ri_by_id := sort_key fst (ri_by_id ri)\<rparr>"
  using assms unfolding TargetCatalog_init_def Let_def catalog_fail_def
  apply (simp only: if_Inl_eq_Inr bindE_eq_Inr split_paired_Ex prod.case forE_eq_Inr sum.inject)
  apply (elim exE conjE)
  apply hypsubst
  apply (intro exI conjI; (assumption | simp))
  done

lemma constructed_wf:
  assumes "TargetCatalog_init E registry rows rules = Inr c"
  shows "catalog_wf c"
proof -
  obtain by_id ms ri where st: "foldE admit_spec rows ([], []) = Inr (by_id, ms)"
    "\<forall>s \<in> snd ` set by_id. check_relations by_id s = Inr ()"
    "\<forall>pair \<in> set (pairs_of (map snd by_id)). check_shared pair = Inr ()"
    "validate_relation_dag ''displaces'' (rel_graph ts_displaces by_id) = Inr ()"
    "validate_relation_dag ''requires'' (rel_graph ts_requires by_id) = Inr ()"
    "closures (rel_graph ts_displaces by_id) = Inr (tc_displacement_closures c)"
    "closures (rel_graph ts_requires by_id) = Inr (tc_requirement_closures c)"
    "tc_by_id c = sort_key fst by_id"
    using TargetCatalog_init_stages [OF assms] by blast
  have ok: "specs_ok by_id" by (rule admitted_specs_ok [OF st(1)])
  then have dist: "distinct (map fst by_id)" by (simp add: specs_ok_def)
  have rel: "target_rel f c = graph_rel (rel_graph f by_id)" for f
    by (simp add: target_rel_def st(8) graph_rel_sorted [OF dist])
  have closed: "graph_closed (rel_graph ts_displaces by_id)" "graph_closed (rel_graph ts_requires by_id)"
    using st(2) check_relations_known by (blast intro: rel_graph_closed)+
  have "specs_ok (tc_by_id c)" using ok by (simp add: specs_ok_def st(8) distinct_map_sort_key)
  moreover have "acyclic (target_rel ts_displaces c)" "acyclic (target_rel ts_requires c)"
    using validate_relation_dag_iff [OF closed(1)] validate_relation_dag_iff [OF closed(2)] st(4,5)
    by (simp_all add: rel)
  moreover have "\<forall>t \<in> fst ` set (tc_by_id c).
      set (dict_get t [] (tc_displacement_closures c)) = (target_rel ts_displaces c)\<^sup>+ `` {t}
      \<and> set (dict_get t [] (tc_requirement_closures c)) = (target_rel ts_requires c)\<^sup>+ `` {t}"
    using closures_exact [OF st(6) closed(1)] closures_exact [OF st(7) closed(2)] unfolding rel st(8) by simp
  moreover have "disjoint_or_displaced s s'"
    if "s \<in> snd ` set (tc_by_id c)" "s' \<in> snd ` set (tc_by_id c)" "s \<noteq> s'" for s s'
    using that st(3,8) pairs_of_complete [of s "map snd by_id" s'] check_shared_disjoint disjoint_or_displaced_sym
    by auto
  ultimately show ?thesis unfolding catalog_wf_def by blast
qed

section \<open>Active sets\<close>

definition admissible :: "TargetCatalog \<Rightarrow> string set \<Rightarrow> bool" where
  "admissible c active \<longleftrightarrow> active \<subseteq> fst ` set (tc_by_id c)
     \<and> (\<forall>t \<in> active. (target_rel ts_displaces c)\<^sup>+ `` {t} \<inter> active = {} \<and> (target_rel ts_requires c)\<^sup>+ `` {t} \<subseteq> active)"

lemma catalog_require_eq_Inr [err_simps]: "catalog_require c t = Inr s \<longleftrightarrow> map_of (tc_by_id c) t = Some s"
  by (simp add: catalog_require_def resolution_fail_def split: option.splits)

lemma catalog_require_known: "(\<exists>s. catalog_require c t = Inr s) \<longleftrightarrow> t \<in> fst ` set (tc_by_id c)"
  by (metis catalog_require_eq_Inr domIff dom_map_of_conv_image_fst not_None_eq)

lemma closure_of:
  assumes "catalog_wf c" and "t \<in> fst ` set (tc_by_id c)"
  shows "\<exists>ds. displacement_closure c t = Inr ds \<and> set ds = (target_rel ts_displaces c)\<^sup>+ `` {t}"
    and "\<exists>rs. requires_closure c t = Inr rs \<and> set rs = (target_rel ts_requires c)\<^sup>+ `` {t}"
proof -
  obtain s where s: "catalog_require c t = Inr s" using assms(2) catalog_require_known by blast
  have "set (dict_get t [] (tc_displacement_closures c)) = (target_rel ts_displaces c)\<^sup>+ `` {t}"
    "set (dict_get t [] (tc_requirement_closures c)) = (target_rel ts_requires c)\<^sup>+ `` {t}"
    using assms by (auto simp: catalog_wf_def)
  with s show "\<exists>ds. displacement_closure c t = Inr ds \<and> set ds = (target_rel ts_displaces c)\<^sup>+ `` {t}"
    "\<exists>rs. requires_closure c t = Inr rs \<and> set rs = (target_rel ts_requires c)\<^sup>+ `` {t}"
    by (simp_all add: displacement_closure_def requires_closure_def)
qed

lemma check_active_iff:
  assumes "catalog_wf c" and "t \<in> fst ` set (tc_by_id c)"
  shows "check_active c active t = Inr () \<longleftrightarrow>
    (target_rel ts_displaces c)\<^sup>+ `` {t} \<inter> set active = {} \<and> (target_rel ts_requires c)\<^sup>+ `` {t} \<subseteq> set active"
proof -
  obtain ds rs where c: "displacement_closure c t = Inr ds" "requires_closure c t = Inr rs"
    and s: "set ds = (target_rel ts_displaces c)\<^sup>+ `` {t}" "set rs = (target_rel ts_requires c)\<^sup>+ `` {t}"
    using closure_of [OF assms] by blast
  show ?thesis
    unfolding check_active_def c bindE_Inr Let_def s [symmetric]
    by (simp add: resolution_fail_def filter_empty_conv) blast
qed

lemma validate_active_iff:
  assumes "catalog_wf c"
  shows "validate_active_targets c ids = Inr os \<longleftrightarrow> distinct ids \<and> admissible c (set ids) \<and> os = sort ids"
proof -
  have known: "(\<forall>t \<in> set ids. bindE (catalog_require c t) (\<lambda>_. Inr ()) = Inr ()) \<longleftrightarrow> set ids \<subseteq> fst ` set (tc_by_id c)"
    using catalog_require_known [of c] by (simp only: bindE_eq_Inr subset_eq) blast
  have "set ids \<subseteq> fst ` set (tc_by_id c) \<and> (\<forall>t \<in> set ids. check_active c ids t = Inr ()) \<longleftrightarrow> admissible c (set ids)"
    unfolding admissible_def using check_active_iff [OF assms, of _ ids] by (meson subsetD)
  then show ?thesis
    unfolding validate_active_targets_def resolution_fail_def if_Inl_eq_Inr bindE_eq_Inr [of "forE _ _"] forE_eq_Inr known
    by auto
qed

lemma admissible_disjoint:
  assumes wf: "catalog_wf c" and adm: "admissible c active"
    and s: "map_of (tc_by_id c) t = Some s" "map_of (tc_by_id c) t' = Some s'"
    and t: "t \<in> active" "t' \<in> active" "t \<noteq> t'"
  shows "set (ts_members s) \<inter> set (ts_members s') = {}"
proof -
  have ids: "ts_target_id s = t" "ts_target_id s' = t'"
    using wf map_of_SomeD [OF s(1)] map_of_SomeD [OF s(2)] by (auto simp: catalog_wf_def specs_ok_def)
  have "s \<in> snd ` set (tc_by_id c)" "s' \<in> snd ` set (tc_by_id c)" using s by (force dest: map_of_SomeD)+
  moreover have "s \<noteq> s'" using ids t(3) by auto
  ultimately have dis: "disjoint_or_displaced s s'" using wf by (auto simp: catalog_wf_def)
  have "(a, b) \<notin> target_rel ts_displaces c" if "a \<in> active" "b \<in> active" for a b
    using adm that by (auto simp: admissible_def)
  with t have "t' \<notin> set (ts_displaces s)" "t \<notin> set (ts_displaces s')"
    using s by (auto simp: target_rel_def graph_rel_def map_of_rel_graph)
  with dis ids show ?thesis by (auto simp: disjoint_or_displaced_def)
qed

section \<open>Ordering an active set\<close>

lemma post_ordered_suffix: "post_ordered R (xs @ ys) \<Longrightarrow> post_ordered R ys"
  by (induction xs) auto

lemma post_ordered_before:
  assumes "post_ordered (R\<inverse>) (rev os)" and "(x, y) \<in> R" and "y \<in> set os"
  shows "\<exists>us vs. os = us @ y # vs \<and> x \<in> set us"
proof -
  obtain us vs where os: "os = us @ y # vs" using split_list [OF assms(3)] by blast
  then have "post_ordered (R\<inverse>) (y # rev us)" using assms(1) post_ordered_suffix [of "R\<inverse>" "rev vs" "y # rev us"] by simp
  then have "x \<in> set us" using assms(2) by auto
  with os show ?thesis by blast
qed

text \<open>The rules of a catalog are \<open>CompositionRule\<close> objects: each orders its two targets.\<close>

lemma CompositionRule_new_eq_Inr:
  assumes "CompositionRule_new r = Inr r'"
  shows "r' = r \<and> set (cr_precedence r) = set (cr_target_ids r)
    \<and> (\<exists>x y. cr_precedence r = [x, y] \<and> x \<noteq> y)"
proof -
  have r: "r' = r" "length (cr_target_ids r) = 2" "distinct (cr_target_ids r)"
    "length (cr_precedence r) = length (cr_target_ids r)" "set (cr_precedence r) = set (cr_target_ids r)"
    using assms by (auto simp: CompositionRule_new_def bindE_eq_Inr catalog_fail_def split: if_splits)
  then have "distinct (cr_precedence r)" by (metis card_distinct distinct_card)
  then show ?thesis using r by (auto simp: length_Suc_conv numeral_2_eq_2)
qed

lemma admitted_rules:
  "foldE (admit_rule by_id) rules ri0 = Inr ri \<Longrightarrow>
     snd ` set (ri_by_id ri) = snd ` set (ri_by_id ri0) \<union> set rules
     \<and> (\<forall>r \<in> set rules. set (cr_target_ids r) \<subseteq> fst ` set by_id)"
proof (induction rules arbitrary: ri0)
  case (Cons r rules)
  obtain ri1 where r1: "admit_rule by_id r ri0 = Inr ri1" "foldE (admit_rule by_id) rules ri1 = Inr ri"
    using Cons.prems by (auto simp: bindE_eq_Inr)
  then have "ri_by_id ri1 = ri_by_id ri0 @ [(cr_rule_id r, r)]" "set (cr_target_ids r) \<subseteq> fst ` set by_id"
    by (auto simp: admit_rule_def Let_def bindE_eq_Inr catalog_fail_def filter_empty_conv dict_set_new split: if_splits)
  with Cons.IH [OF r1(2)] show ?case by auto
qed simp

definition catalog_rules :: "TargetCatalog \<Rightarrow> CompositionRule set" where
  "catalog_rules c = snd ` set (ri_by_id (tc_composition c))"

lemma constructed_rules:
  assumes init: "TargetCatalog_init E registry rows rules = Inr c"
    and rules: "\<forall>r \<in> set rules. CompositionRule_new r = Inr r"
  shows "catalog_rules c = set rules"
    and "\<forall>r \<in> set rules. set (cr_precedence r) \<subseteq> fst ` set (tc_by_id c)"
    and "acyclic (prec_edges (map cr_precedence rules))"
proof -
  obtain by_id ms ri where st: "foldE admit_spec rows ([], []) = Inr (by_id, ms)"
    "foldE (admit_rule by_id) rules \<lparr>ri_by_id = [], ri_by_targets = [], ri_by_pair = []\<rparr> = Inr ri"
    "check_precedence (map fst by_id) rules = Inr ()" "tc_by_id c = sort_key fst by_id"
    "tc_composition c = ri\<lparr>ri_by_id := sort_key fst (ri_by_id ri)\<rparr>"
    using TargetCatalog_init_stages [OF init] by blast
  note adm = admitted_rules [OF st(2)]
  show "catalog_rules c = set rules" using adm by (simp add: catalog_rules_def st(5))
  show sub: "\<forall>r \<in> set rules. set (cr_precedence r) \<subseteq> fst ` set (tc_by_id c)"
    using adm rules CompositionRule_new_eq_Inr st(4) by fastforce
  have "distinct (map fst by_id)" using admitted_specs_ok [OF st(1)] by (simp add: specs_ok_def)
  then show "acyclic (prec_edges (map cr_precedence rules))"
    using check_precedence_iff [of "map fst by_id" rules] sub st(3,4) by simp
qed

lemma active_edges:
  assumes "\<forall>r \<in> R. \<exists>x y. cr_precedence r = [x, y] \<and> x \<noteq> y" and "snd ` set rows = R" and "set rules = R"
  shows "prec_edges (map (\<lambda>(_, r). filter (\<lambda>t. t \<in> A) (cr_precedence r)) rows)
    = prec_edges (map cr_precedence rules) \<inter> A \<times> A"
proof -
  have one: "set (steps_of (filter (\<lambda>t. t \<in> A) (cr_precedence r))) = set (steps_of (cr_precedence r)) \<inter> A \<times> A"
    if r: "r \<in> R" for r
  proof -
    obtain x y where "cr_precedence r = [x, y]" using assms(1) r by blast
    then show ?thesis by (auto simp: steps_of_def)
  qed
  have "prec_edges (map (\<lambda>(_, r). filter (\<lambda>t. t \<in> A) (cr_precedence r)) rows)
      = (\<Union>r \<in> R. set (steps_of (filter (\<lambda>t. t \<in> A) (cr_precedence r))))"
    unfolding prec_edges_def assms(2) [symmetric] by (simp add: case_prod_beta)
  also have "\<dots> = (\<Union>r \<in> R. set (steps_of (cr_precedence r))) \<inter> A \<times> A" using one by auto
  finally show ?thesis unfolding prec_edges_def assms(3) [symmetric] by simp
qed

lemma ordered_active_ok:
  assumes init: "TargetCatalog_init E registry rows rules = Inr c"
    and rules: "\<forall>r \<in> set rules. CompositionRule_new r = Inr r"
    and val: "validate_active_targets c ids = Inr active"
  shows "\<exists>os. ordered_active_targets c ids = Inr os \<and> mset os = mset ids
    \<and> (\<forall>r \<in> set rules. \<forall>x y. cr_precedence r = [x, y] \<and> x \<in> set ids \<and> y \<in> set ids \<longrightarrow>
         (\<exists>us vs. os = us @ y # vs \<and> x \<in> set us))"
proof -
  let ?precs = "map (\<lambda>(_, r). filter (\<lambda>t. t \<in> set active) (cr_precedence r)) (ri_by_id (tc_composition c))"
  have act: "distinct active" "set active = set ids" "mset active = mset ids"
    using val validate_active_iff [OF constructed_wf [OF init], of ids active] by auto
  have edges: "prec_edges ?precs = prec_edges (map cr_precedence rules) \<inter> set active \<times> set active"
    using constructed_rules(1) [OF init rules] rules CompositionRule_new_eq_Inr
    by (intro active_edges [where R = "set rules"]) (auto simp: catalog_rules_def)
  obtain out inc where pg: "precedence_graph active ?precs = Inr (out, inc)"
    and inv: "prec_inv active (prec_edges ?precs) (out, inc)"
    using precedence_graph_ok [OF act(1), of ?precs] by auto
  have sub: "snd ` prec_edges ?precs \<subseteq> set active" unfolding edges by auto
  have og: "out_graph out" and ki: "kahn_inv out inc (sort (no_incoming inc)) []"
    using prec_inv_kahn [OF inv act(1) sub] by auto
  have rel: "graph_rel out = prec_edges ?precs" "map fst out = active" using inv by (auto simp: prec_inv_def)
  then have "acyclic (graph_rel out)"
    using constructed_rules(3) [OF init rules] unfolding edges by (metis acyclic_subset inf_le1)
  then obtain os where os: "kahn_loop Sorted out inc (sort (no_incoming inc)) [] = Inr os" "distinct os"
    "set os \<subseteq> fst ` set out" "post_ordered ((graph_rel out)\<inverse>) (rev os)" "length os = length out"
    using kahn_loop_correct [OF og ki] by blast
  have len: "length out = length active" using rel(2) by (metis length_map)
  have "set os \<subseteq> set active" using os(3) rel(2) by (metis image_set)
  then have all: "set os = set active"
    using os(2,5) len act(1) by (metis List.finite_set card_subset_eq distinct_card)
  then have "mset os = mset ids" using os(2) act by (metis set_eq_iff_mset_eq_distinct)
  moreover have "ordered_active_targets c ids = Inr os"
    unfolding ordered_active_targets_def val bindE_Inr pg prod.case os(1) using os(5) len by simp
  moreover have "\<exists>us vs. os = us @ y # vs \<and> x \<in> set us"
    if "r \<in> set rules" "cr_precedence r = [x, y]" "x \<in> set ids" "y \<in> set ids" for r x y
  proof (rule post_ordered_before [OF os(4)])
    show "(x, y) \<in> graph_rel out"
      unfolding rel(1) edges using that act(2) by (force simp: prec_edges_def steps_of_def)
  qed (use that all act in simp)
  ultimately show ?thesis by blast
qed

end
