(* ===== verification/Reward_Laws.thy ===== *)
theory Reward_Laws
  imports Reward_Projection Catalog_Laws
begin

text \<open>
  The emissions projection: once the authority checks pass the complete vector exists, sums to one
  million, and gives every hotkey its largest-remainder share of both pools.
\<close>

section \<open>Pools\<close>

text \<open>\<open>a\<close> is the exact share \<open>w * p / t\<close> rounded down or up.\<close>

definition rounded_share :: "int \<Rightarrow> int \<Rightarrow> int \<Rightarrow> int \<Rightarrow> bool" where
  "rounded_share a w p t \<longleftrightarrow> w * p div t \<le> a \<and> a * t < w * p + t"

definition positive_rows :: "(string \<times> int) list \<Rightarrow> (string \<times> int) list" where
  "positive_rows credits = filter (\<lambda>(_, credit). 0 < credit) credits"

lemma positive_rows_sum:
  "\<forall>(k, w) \<in> set credits. 0 \<le> w \<Longrightarrow> sum_list (map snd (positive_rows credits)) = sum_list (map snd credits)"
  by (induction credits) (auto simp: positive_rows_def)

lemma allocate_pool_ok:
  assumes d: "distinct (map fst credits)" and nn: "\<forall>(k, w) \<in> set credits. 0 \<le> w"
    and pos: "0 < sum_list (map snd credits)" and pool: "0 \<le> pool"
  shows "\<exists>rows. allocate_pool credits pool = Inr rows \<and> distinct (map fst rows) \<and> sum_list (map snd rows) = pool
    \<and> fst ` set rows = {h. 0 < dict_get h 0 credits}
    \<and> (\<forall>h. 0 < dict_get h 0 credits \<longrightarrow>
         rounded_share (dict_get h 0 rows) (dict_get h 0 credits) pool (sum_list (map snd credits)))"
proof -
  let ?p = "sort_key fst (positive_rows credits)" and ?t = "sum_list (map snd credits)"
  have tot: "sum_list (map snd (positive_rows credits)) = ?t" by (rule positive_rows_sum [OF nn])
  have dp: "distinct (map fst (positive_rows credits))" using d by (simp add: positive_rows_def distinct_map_filter)
  have inp: "lr_input ?p pool ?t"
    using dp pos pool tot by (auto simp: lr_input_def distinct_map_sort_key sum_list_sort_key positive_rows_def)
  have keys: "fst ` set (positive_rows credits) = {h. 0 < dict_get h 0 credits}"
  proof (intro set_eqI iffI)
    fix h assume "h \<in> fst ` set (positive_rows credits)"
    then obtain w where "(h, w) \<in> set credits" "0 < w" by (auto simp: positive_rows_def)
    then show "h \<in> {h. 0 < dict_get h 0 credits}" using d by (simp add: dict_get_eq)
  next
    fix h assume "h \<in> {h. 0 < dict_get h 0 credits}"
    then obtain w where "map_of credits h = Some w" "0 < w" by (auto simp: dict_get_def split: option.splits)
    then have "(h, w) \<in> set (positive_rows credits)" by (auto simp: positive_rows_def dest: map_of_SomeD)
    then show "h \<in> fst ` set (positive_rows credits)" by force
  qed
  have share: "rounded_share (dict_get h 0 (largest_remainder ?p pool ?t)) (dict_get h 0 credits) pool ?t"
    if "0 < dict_get h 0 credits" for h
  proof -
    have "h \<in> fst ` set (positive_rows credits)" using that keys by simp
    then obtain w where w: "(h, w) \<in> set (positive_rows credits)" by auto
    then have "dict_get h 0 credits = w" using d by (simp add: positive_rows_def dict_get_eq)
    with lr.alloc_quota [OF inp, of h w] w show ?thesis by (simp add: rounded_share_def)
  qed
  have run: "allocate_pool credits pool = Inr (largest_remainder ?p pool ?t)"
    using pos tot by (simp add: allocate_pool_def Let_def positive_rows_def)
  have "fst ` set (largest_remainder ?p pool ?t) = fst ` set ?p" using lr.alloc_keys [OF inp] by (metis list.set_map)
  then show ?thesis using run share keys lr.alloc_distinct [OF inp] lr.alloc_total [OF inp] by auto
qed

section \<open>Accepted values\<close>

definition policy_ok :: "EmissionsPolicyManifest \<Rightarrow> bool" where
  "policy_ok p \<longleftrightarrow> 1 \<le> epm_half_life_blocks p \<and> 1 \<le> epm_discovery_lifetime_blocks p
     \<and> 0 \<le> epm_discovery_pool_ppm p \<and> epm_discovery_pool_ppm p < WEIGHT_PPM \<and> py_eq_int (epm_schema_version p) 1"

lemma EmissionsPolicyManifest_init_ok: "EmissionsPolicyManifest_init row = Inr p \<Longrightarrow> policy_ok p"
  by (auto simp: EmissionsPolicyManifest_init_def bindE_eq_Inr eco_eq_Inr eco_fail_def policy_ok_def split: if_splits)

definition standing_ok :: "StandingRewardClaim \<Rightarrow> bool" where
  "standing_ok c \<longleftrightarrow> src_target_id c \<noteq> [] \<and> is_digest (src_arena_digest c) \<and> is_digest (src_target_spec_digest c)
     \<and> is_digest (src_contribution_digest c) \<and> is_digest (src_retained_evidence_digest c) \<and> is_hotkey (src_hotkey c)
     \<and> WEIGHT_PPM < src_speedup_ppm c \<and> 0 \<le> src_crowned_block c"

definition bounty_ok :: "DiscoveryBountyClaim \<Rightarrow> bool" where
  "bounty_ok c \<longleftrightarrow> is_digest (dbc_proposal_digest c) \<and> is_digest (dbc_retained_evidence_digest c) \<and> is_hotkey (dbc_hotkey c)
     \<and> 1 \<le> dbc_bounty_units c \<and> 0 \<le> dbc_awarded_block c"

lemma StandingRewardClaim_init_iff:
  "StandingRewardClaim_init row = Inr c \<longleftrightarrow> standing_ok c \<and> row_carries row (StandingRewardClaim_fields c)"
  unfolding StandingRewardClaim_init_def eco_fail_def
  by (cases c) (auto simp: err_simps standing_ok_def StandingRewardClaim_fields_def)

lemma DiscoveryBountyClaim_init_iff:
  "DiscoveryBountyClaim_init row = Inr c \<longleftrightarrow> bounty_ok c \<and> row_carries row (DiscoveryBountyClaim_fields c)"
  unfolding DiscoveryBountyClaim_init_def
  by (cases c) (auto simp: err_simps bounty_ok_def DiscoveryBountyClaim_fields_def)

interpretation standing: dataclass StandingRewardClaim_init StandingRewardClaim_fields src_names standing_ok
  by unfold_locales (auto simp: StandingRewardClaim_init_iff StandingRewardClaim_fields_def src_names_def)

interpretation bounty: dataclass DiscoveryBountyClaim_init DiscoveryBountyClaim_fields
  "[''proposal_digest'', ''retained_evidence_digest'', ''hotkey'', ''bounty_units'', ''awarded_block'']" bounty_ok
  by unfold_locales (auto simp: DiscoveryBountyClaim_init_iff DiscoveryBountyClaim_fields_def)

section \<open>Credit\<close>

lemma credit_at_eq_Inr:
  "credit_at c block p = Inr n \<longleftrightarrow> 0 \<le> block \<and> src_crowned_block c \<le> block
     \<and> n = (src_speedup_ppm c - WEIGHT_PPM) * epm_half_life_blocks p
         div (epm_half_life_blocks p + (block - src_crowned_block c))"
  by (auto simp: credit_at_def bindE_eq_Inr eco_eq_Inr eco_fail_def Let_def)

lemma credit_nonneg: "policy_ok p \<Longrightarrow> standing_ok c \<Longrightarrow> credit_at c block p = Inr n \<Longrightarrow> 0 \<le> n"
  by (auto simp: credit_at_eq_Inr policy_ok_def standing_ok_def intro!: pos_imp_zdiv_nonneg_iff [THEN iffD2])

lemma decay_mono: "0 \<le> i \<Longrightarrow> 1 \<le> h \<Longrightarrow> 0 \<le> a \<Longrightarrow> a \<le> b \<Longrightarrow> i * h div (h + b) \<le> i * h div (h + a)" for i h a b :: int
  by (rule zdiv_mono2) auto

lemma credit_bounds:
  assumes "policy_ok policy" and "standing_ok claim" and "src_crowned_block claim \<le> block" and "block \<le> later"
  shows "\<exists>n n'. credit_at claim block policy = Inr n \<and> credit_at claim later policy = Inr n'
    \<and> 0 \<le> n' \<and> n' \<le> n \<and> n \<le> src_speedup_ppm claim - WEIGHT_PPM
    \<and> credit_at claim (src_crowned_block claim + epm_half_life_blocks policy) policy = Inr ((src_speedup_ppm claim - WEIGHT_PPM) div 2)"
proof -
  let ?i = "src_speedup_ppm claim - WEIGHT_PPM" and ?h = "epm_half_life_blocks policy" and ?c = "src_crowned_block claim"
  have h: "1 \<le> ?h" "0 \<le> ?i" "0 \<le> ?c" using assms(1,2) by (auto simp: policy_ok_def standing_ok_def)
  have "?i * ?h div (?h + (later - ?c)) \<le> ?i * ?h div (?h + (block - ?c))" using h assms(3,4) by (intro decay_mono) auto
  moreover have "?i * ?h div (?h + (block - ?c)) \<le> ?i * ?h div (?h + 0)" using h assms(3) by (intro decay_mono) auto
  moreover have "0 \<le> ?i * ?h div (?h + (later - ?c))"
    using h assms(3,4) by (intro pos_imp_zdiv_nonneg_iff [THEN iffD2]) auto
  moreover have "?i * ?h div (?h + ?h) = ?i div 2"
    using h by (metis div_mult_mult2 mult_2 not_one_le_zero)
  ultimately show ?thesis using h assms(3,4) by (auto simp: credit_at_eq_Inr)
qed

section \<open>The loops\<close>

lemma add_standing_fold:
  "foldE (add_standing E policy ctx a by_target) ts st = Inr st' \<longleftrightarrow>
     (\<exists>rows. mapE (standing_credit E policy ctx a by_target) ts = Inr rows
        \<and> st' = (fst st @ rows, dict_sum (map (\<lambda>r. (sfc_hotkey r, sfc_credit r)) rows) (snd st)))"
  by (induction ts arbitrary: st) (auto simp: add_standing_def bindE_eq_Inr dict_sum_def)

definition arena_targets :: "ArenaRewardAuthority \<Rightarrow> string list" where
  "arena_targets a = sort (map fst (esm_entries (ara_stack a)))"

definition arena_rows ::
    "py_env \<Rightarrow> EmissionsPolicyManifest \<Rightarrow> GlobalRewardProjectionContext \<Rightarrow> ArenaRewardAuthority \<Rightarrow> StandingFamilyCredit list \<Rightarrow> bool" where
  "arena_rows E policy ctx a rows \<longleftrightarrow>
     list_all2 (\<lambda>t r. standing_credit E policy ctx a (map (\<lambda>c. (src_target_id c, c)) (ara_standing_claims a)) t = Inr r)
       (arena_targets a) rows"

lemma length_dict_of_eq: "length (dict_of rows) = length rows \<Longrightarrow> distinct (map fst rows)"
proof -
  have "length (fold (\<lambda>(k, v). dict_set k v) xs d) \<le> length d + length xs" for xs :: "('a \<times> 'b) list" and d
  proof (induction xs arbitrary: d)
    case (Cons x xs)
    have "length (dict_set (fst x) (snd x) d) \<le> Suc (length d)" by (induction d) auto
    with Cons [of "dict_set (fst x) (snd x) d"] show ?case by (auto simp: case_prod_beta)
  qed simp
  note bound = this
  have grow: "length (fold (\<lambda>(k, v). dict_set k v) xs d) = length d + length xs \<Longrightarrow> distinct (map fst d) \<Longrightarrow> distinct (map fst (d @ xs))"
    for xs :: "('a \<times> 'b) list" and d
  proof (induction xs arbitrary: d)
    case (Cons x xs)
    have new: "fst x \<notin> fst ` set d"
    proof
      assume "fst x \<in> fst ` set d"
      then have "length (dict_set (fst x) (snd x) d) = length d" using map_fst_dict_set [of "fst x" d "snd x"]
        by (metis length_map list.set_map)
      with bound [of xs "dict_set (fst x) (snd x) d"] Cons.prems(1) show False by (simp add: case_prod_unfold)
    qed
    then have "dict_set (fst x) (snd x) d = d @ [x]" by (simp add: dict_set_new)
    with Cons.IH [of "d @ [x]"] Cons.prems new show ?case by (simp add: case_prod_beta)
  qed simp
  show "length (dict_of rows) = length rows \<Longrightarrow> ?thesis" using grow [of rows "[]"] by (simp add: dict_of_def)
qed

lemma active_families_eq_Inr [err_simps]: "active_families c ids = Inr x \<longleftrightarrow> validate_active_targets c ids = Inr x"
proof (cases "validate_active_targets c ids")
  case (Inl e)
  then show ?thesis by (cases e) (simp_all add: active_families_def eco_fail_def)
qed (simp add: active_families_def)

lemma add_arena_stages:
  assumes "add_arena E policy ctx a st = Inr st'"
  defines "by_target \<equiv> dict_of (map (\<lambda>c. (src_target_id c, c)) (ara_standing_claims a))"
  shows "\<exists>active. validate_active_targets (ara_catalog a) (map fst (esm_entries (ara_stack a))) = Inr active \<and> active \<noteq> []
    \<and> length by_target = length (ara_standing_claims a) \<and> foldE (add_standing E policy ctx a by_target) active st = Inr st'"
  using assms(1) unfolding add_arena_def Let_def eco_fail_def by_target_def
  apply (simp only: if_Inl_eq_Inr bindE_eq_Inr active_families_eq_Inr de_Morgan_disj not_not)
  apply (elim exE conjE)
  apply (intro exI conjI; assumption)
  done

lemma add_arena_rows:
  assumes "add_arena E policy ctx a st = Inr st'" and wf: "catalog_wf (ara_catalog a)"
  shows "\<exists>rows. arena_rows E policy ctx a rows \<and> rows \<noteq> []
    \<and> st' = (fst st @ rows, dict_sum (map (\<lambda>r. (sfc_hotkey r, sfc_credit r)) rows) (snd st))"
proof -
  let ?by = "map (\<lambda>c. (src_target_id c, c)) (ara_standing_claims a)"
  obtain active where active: "validate_active_targets (ara_catalog a) (map fst (esm_entries (ara_stack a))) = Inr active" "active \<noteq> []"
    and len: "length (dict_of ?by) = length (ara_standing_claims a)"
    and run: "foldE (add_standing E policy ctx a (dict_of ?by)) active st = Inr st'"
    using add_arena_stages [OF assms(1)] by (elim exE conjE)
  have by_eq: "dict_of ?by = ?by" using length_dict_of_eq [of ?by] len by (intro dict_of_distinct) simp
  have targets: "active = arena_targets a" using active(1) by (simp add: validate_active_iff [OF wf] arena_targets_def)
  obtain rows where "mapE (standing_credit E policy ctx a ?by) (arena_targets a) = Inr rows"
      "st' = (fst st @ rows, dict_sum (map (\<lambda>r. (sfc_hotkey r, sfc_credit r)) rows) (snd st))"
    using run [unfolded by_eq targets add_standing_fold] by (elim exE conjE)
  then show ?thesis using active(2) targets by (auto simp: arena_rows_def mapE_eq_Inr)
qed

lemma add_arenas_rows:
  assumes "foldE (add_arena E policy ctx) as st = Inr st'" and "\<forall>a \<in> set as. catalog_wf (ara_catalog a)"
  shows "\<exists>rowss. list_all2 (arena_rows E policy ctx) as rowss
    \<and> st' = (fst st @ concat rowss, dict_sum (map (\<lambda>r. (sfc_hotkey r, sfc_credit r)) (concat rowss)) (snd st))"
  using assms
proof (induction as arbitrary: st)
  case (Cons a as)
  then obtain st1 where a: "add_arena E policy ctx a st = Inr st1" and as: "foldE (add_arena E policy ctx) as st1 = Inr st'"
    by (auto simp: bindE_eq_Inr)
  obtain rows where rows: "arena_rows E policy ctx a rows"
      "st1 = (fst st @ rows, dict_sum (map (\<lambda>r. (sfc_hotkey r, sfc_credit r)) rows) (snd st))"
    using add_arena_rows [OF a] Cons.prems(2) by auto
  from Cons.IH [OF as] Cons.prems(2) obtain rowss where "list_all2 (arena_rows E policy ctx) as rowss"
      "st' = (fst st1 @ concat rowss, dict_sum (map (\<lambda>r. (sfc_hotkey r, sfc_credit r)) (concat rowss)) (snd st1))"
    by auto
  with rows show ?case by (intro exI [of _ "rows # rowss"]) (simp add: dict_sum_def)
qed (simp add: dict_sum_def)

section \<open>Rows\<close>

lemma standing_credit_row:
  assumes "standing_credit E policy ctx a by_target t = Inr r"
  shows "sfc_arena_digest r = ara_arena_digest a" and "sfc_target_id r = t" and "sfc_hotkey r \<in> eligible_hotkeys ctx"
    and "\<exists>c. map_of by_target t = Some c \<and> sfc_hotkey r = src_hotkey c \<and> credit_at c (grc_current_block ctx) policy = Inr (sfc_credit r)"
  using assms by (auto simp: standing_credit_def Let_def bindE_eq_Inr eco_fail_def ara_arena_digest_def
      split: option.splits if_splits)

lemma arena_rows_row:
  assumes rows: "arena_rows E policy ctx a rows" "r \<in> set rows" and ok: "policy_ok policy" "\<forall>c \<in> set (ara_standing_claims a). standing_ok c"
  shows "sfc_hotkey r \<in> eligible_hotkeys ctx" and "0 \<le> sfc_credit r"
proof -
  obtain t where t: "standing_credit E policy ctx a (map (\<lambda>c. (src_target_id c, c)) (ara_standing_claims a)) t = Inr r"
    using rows by (auto simp: arena_rows_def list_all2_conv_all_nth in_set_conv_nth)
  then show "sfc_hotkey r \<in> eligible_hotkeys ctx" by (rule standing_credit_row)
  obtain c where "map_of (map (\<lambda>c. (src_target_id c, c)) (ara_standing_claims a)) t = Some c"
    and cr: "credit_at c (grc_current_block ctx) policy = Inr (sfc_credit r)"
    using standing_credit_row(4) [OF t] by blast
  then have "c \<in> set (ara_standing_claims a)" by (auto dest: map_of_SomeD)
  then show "0 \<le> sfc_credit r" using credit_nonneg [OF ok(1) _ cr] ok(2) by blast
qed

lemma arena_rows_keys:
  "arena_rows E policy ctx a rows \<Longrightarrow> standing_keys rows = map (Pair (ara_arena_digest a)) (arena_targets a)"
  unfolding arena_rows_def standing_keys_def
  by (induction rule: list_all2_induct) (auto dest: standing_credit_row)

lemma standing_keys_append: "standing_keys (xs @ ys) = standing_keys xs @ standing_keys ys"
  by (simp add: standing_keys_def)

lemma standing_keys_sorted:
  assumes "list_all2 (arena_rows E policy ctx) as rowss" and "sorted (map ara_arena_digest as)" and "distinct (map ara_arena_digest as)"
  shows "sorted (standing_keys (concat rowss)) \<and> fst ` set (standing_keys (concat rowss)) \<subseteq> ara_arena_digest ` set as"
  using assms
proof (induction rule: list_all2_induct)
  case (Cons a as rows rowss)
  then have IH: "sorted (standing_keys (concat rowss))" "fst ` set (standing_keys (concat rowss)) \<subseteq> ara_arena_digest ` set as"
    by simp_all
  have k: "standing_keys rows = map (Pair (ara_arena_digest a)) (arena_targets a)" by (rule arena_rows_keys [OF Cons.hyps(1)])
  have "sorted (arena_targets a)" by (simp add: arena_targets_def)
  then have "sorted (map (Pair (ara_arena_digest a)) (arena_targets a))"
    by (simp add: sorted_map sorted_wrt_iff_nth_less less_eq_prod_simp)
  moreover have "x \<le> y" if "x \<in> set (standing_keys rows)" "y \<in> set (standing_keys (concat rowss))" for x y
  proof -
    have "fst x = ara_arena_digest a" using that(1) by (auto simp: k)
    moreover have "fst y \<in> ara_arena_digest ` set as" using that(2) IH(2) by blast
    ultimately have "fst x < fst y" using Cons.prems by (force simp: order.order_iff_strict)
    then show ?thesis by (cases x; cases y) (simp add: less_eq_prod_simp)
  qed
  ultimately show ?case using IH by (auto simp: standing_keys_append sorted_append k)
qed (simp add: standing_keys_def)

lemma add_discovery_rows:
  assumes "foldE (add_discovery E policy ctx) cs (live, expired, owed) = Inr (live', expired', owed')" and "\<forall>c \<in> set cs. bounty_ok c"
  shows "\<exists>rows ds. live' = live @ rows \<and> expired' = expired @ ds
    \<and> owed' = dict_sum (map (\<lambda>r. (dbr_hotkey r, dbr_credit r)) rows) owed
    \<and> (\<forall>r \<in> set rows. dbr_hotkey r \<in> eligible_hotkeys ctx \<and> 1 \<le> dbr_credit r)
    \<and> set ds \<subseteq> DiscoveryBountyClaim_digest E ` set cs"
  using assms
proof (induction cs arbitrary: live expired owed)
  case (Cons c cs)
  then obtain st1 where step: "add_discovery E policy ctx c (live, expired, owed) = Inr st1"
    and next_run: "foldE (add_discovery E policy ctx) cs st1 = Inr (live', expired', owed')"
    by (auto simp: bindE_eq_Inr)
  obtain is_live where l: "live_at c (grc_current_block ctx) policy = Inr is_live"
    using step by (auto simp: add_discovery_def bindE_eq_Inr)
  show ?case
  proof (cases is_live)
    case True
    let ?r = "\<lparr>dbr_claim_digest = DiscoveryBountyClaim_digest E c, dbr_hotkey = dbc_hotkey c, dbr_credit = dbc_bounty_units c\<rparr>"
    have el: "dbc_hotkey c \<in> eligible_hotkeys ctx"
      and rest: "foldE (add_discovery E policy ctx) cs (live @ [?r], expired, dict_add (dbc_hotkey c) (dbc_bounty_units c) owed) =
        Inr (live', expired', owed')"
      using step next_run l True by (auto simp: add_discovery_def eco_fail_def split: if_splits)
    from Cons.IH [OF rest] Cons.prems(2) obtain rows ds where "live' = (live @ [?r]) @ rows" "expired' = expired @ ds"
        "owed' = dict_sum (map (\<lambda>r. (dbr_hotkey r, dbr_credit r)) rows) (dict_add (dbc_hotkey c) (dbc_bounty_units c) owed)"
        "\<forall>r \<in> set rows. dbr_hotkey r \<in> eligible_hotkeys ctx \<and> 1 \<le> dbr_credit r"
        "set ds \<subseteq> DiscoveryBountyClaim_digest E ` set cs" by auto
    with el Cons.prems(2) show ?thesis
      by (intro exI [of _ "?r # rows"] exI [of _ ds]) (auto simp: dict_sum_def bounty_ok_def)
  next
    case False
    then have rest: "foldE (add_discovery E policy ctx) cs (live, expired @ [DiscoveryBountyClaim_digest E c], owed) =
        Inr (live', expired', owed')"
      using step next_run l by (simp add: add_discovery_def)
    from Cons.IH [OF rest] Cons.prems(2) obtain rows ds where "live' = live @ rows"
        "expired' = (expired @ [DiscoveryBountyClaim_digest E c]) @ ds"
        "owed' = dict_sum (map (\<lambda>r. (dbr_hotkey r, dbr_credit r)) rows) owed"
        "\<forall>r \<in> set rows. dbr_hotkey r \<in> eligible_hotkeys ctx \<and> 1 \<le> dbr_credit r"
        "set ds \<subseteq> DiscoveryBountyClaim_digest E ` set cs" by auto
    then show ?thesis by (intro exI [of _ rows] exI [of _ "DiscoveryBountyClaim_digest E c # ds"]) auto
  qed
qed (auto simp: dict_sum_def)

section \<open>The vector\<close>

definition credit_of :: "(string \<times> int) list \<Rightarrow> string \<Rightarrow> int" where
  "credit_of rows h = sum_list (map snd (filter (\<lambda>p. fst p = h) rows))"

lemma dict_sum_credit: "dict_get h 0 (dict_sum rows []) = credit_of rows h"
  by (simp add: dict_get_dict_sum credit_of_def)

lemma dict_sum_distinct_get: "distinct (map fst rows) \<Longrightarrow> credit_of rows h = dict_get h 0 rows"
proof (induction rows)
  case (Cons r rows)
  show ?case
  proof (cases "fst r = h")
    case True
    then have "h \<notin> fst ` set rows" using Cons.prems by auto
    then have "filter (\<lambda>p. fst p = h) rows = []" unfolding filter_empty_conv by (metis image_eqI)
    with True show ?thesis by (simp add: credit_of_def dict_get_def)
  next
    case False
    with Cons show ?thesis by (simp add: credit_of_def dict_get_def)
  qed
qed (simp add: credit_of_def)

lemma dict_sum_nonneg:
  fixes rows :: "(string \<times> int) list"
  assumes "\<forall>(k, w) \<in> set rows. 0 \<le> w"
  shows "\<forall>(k, w) \<in> set (dict_sum rows []). 0 \<le> w"
proof safe
  fix k w assume "(k, w) \<in> set (dict_sum rows [])"
  then have "w = credit_of rows k"
    using dict_get_eq [OF distinct_dict_sum, of "[]" k w rows 0] by (simp add: dict_sum_credit)
  also have "\<dots> \<ge> 0" unfolding credit_of_def using assms by (intro sum_list_nonneg_ints) auto
  finally show "0 \<le> w" by simp
qed

text \<open>A share of one pool: a rounded share for a hotkey with credit in it, nothing otherwise.\<close>

definition pool_share :: "int \<Rightarrow> (string \<times> int) list \<Rightarrow> int \<Rightarrow> string \<Rightarrow> bool" where
  "pool_share a rows pool h \<longleftrightarrow>
     (if 0 < credit_of rows h then rounded_share a (credit_of rows h) pool (sum_list (map snd rows)) else a = 0)"

lemma allocate_summed:
  assumes nn: "\<forall>(k, w) \<in> set rows. 0 \<le> w" and pos: "0 < sum_list (map snd rows)" and pool: "0 \<le> pool"
  shows "\<exists>al. allocate_pool (dict_sum rows []) pool = Inr al \<and> distinct (map fst al) \<and> sum_list (map snd al) = pool
    \<and> fst ` set al = {h. 0 < credit_of rows h} \<and> (\<forall>h. pool_share (dict_get h 0 al) rows pool h)"
proof -
  have tot: "sum_list (map snd (dict_sum rows [])) = sum_list (map snd rows)" by (simp add: sum_dict_sum)
  obtain al where al: "allocate_pool (dict_sum rows []) pool = Inr al" "distinct (map fst al)" "sum_list (map snd al) = pool"
      "fst ` set al = {h. 0 < credit_of rows h}"
      "\<forall>h. 0 < credit_of rows h \<longrightarrow> rounded_share (dict_get h 0 al) (credit_of rows h) pool (sum_list (map snd rows))"
    using allocate_pool_ok [OF distinct_dict_sum dict_sum_nonneg [OF nn], of pool] pos pool
    unfolding dict_sum_credit tot by auto
  have "pool_share (dict_get h 0 al) rows pool h" for h
    using al(4,5) by (auto simp: pool_share_def intro: dict_get_absent)
  with al show ?thesis by blast
qed

lemma combine_pools_ok:
  assumes pol: "policy_ok policy" and S: "\<forall>(k, w) \<in> set S. 0 \<le> w" "0 < sum_list (map snd S)"
    and D: "\<forall>(k, w) \<in> set D. 1 \<le> w" and live: "D \<noteq> [] \<Longrightarrow> 0 < epm_discovery_pool_ppm policy"
  defines "pool \<equiv> if D = [] then 0 else epm_discovery_pool_ppm policy"
  shows "\<exists>al. combine_pools policy (dict_sum S []) (D \<noteq> []) (dict_sum D []) = Inr al \<and> distinct (map fst al)
    \<and> sum_list (map snd al) = WEIGHT_PPM \<and> fst ` set al = {h. 0 < credit_of S h \<or> 0 < credit_of D h}
    \<and> (\<forall>h. \<exists>a b. dict_get h 0 al = a + b \<and> pool_share a S (WEIGHT_PPM - pool) h \<and> pool_share b D pool h)"
proof -
  have pool: "0 \<le> pool" "pool \<le> WEIGHT_PPM" using pol by (auto simp: pool_def policy_ok_def WEIGHT_PPM_def)
  obtain al where al: "allocate_pool (dict_sum S []) (WEIGHT_PPM - pool) = Inr al" "distinct (map fst al)"
      "sum_list (map snd al) = WEIGHT_PPM - pool" "fst ` set al = {h. 0 < credit_of S h}"
      "\<forall>h. pool_share (dict_get h 0 al) S (WEIGHT_PPM - pool) h"
    using allocate_summed [OF S, of "WEIGHT_PPM - pool"] pool(2) by auto
  show ?thesis
  proof (cases "D = []")
    case True
    then have "combine_pools policy (dict_sum S []) (D \<noteq> []) (dict_sum D []) = Inr al" "pool = 0"
      using al(1) by (simp_all add: combine_pools_def pool_def)
    moreover have "pool_share 0 D pool h" "credit_of D h = 0" for h using True by (simp_all add: pool_share_def credit_of_def)
    moreover have "\<exists>a b. dict_get h 0 al = a + b \<and> pool_share a S (WEIGHT_PPM - pool) h \<and> pool_share b D pool h" for h
      using al(5) \<open>\<And>h. pool_share 0 D pool h\<close> by (intro exI [of _ "dict_get h 0 al"] exI [of _ 0]) simp
    ultimately show ?thesis using al(2-4) by (intro exI [of _ al]) auto
  next
    case False
    have tot: "0 < sum_list (map snd D)"
    proof (cases D)
      case (Cons d ds)
      then have "0 \<le> sum_list (map snd ds)" using D by (intro sum_list_nonneg_ints) auto
      with Cons D show ?thesis by auto
    qed (use False in simp)
    have "\<forall>(k, w) \<in> set D. 0 \<le> w" using D by auto
    from allocate_summed [OF this tot pool(1)] obtain bl where bl: "allocate_pool (dict_sum D []) pool = Inr bl"
        "distinct (map fst bl)" "sum_list (map snd bl) = pool" "fst ` set bl = {h. 0 < credit_of D h}"
        "\<forall>h. pool_share (dict_get h 0 bl) D pool h" by blast
    have run: "combine_pools policy (dict_sum S []) (D \<noteq> []) (dict_sum D []) = Inr (dict_sum bl al)"
      using al(1) bl(1) live [OF False] False by (simp add: combine_pools_def pool_def dict_sum_def)
    have "credit_of bl h = dict_get h 0 bl" for h using bl(2) by (rule dict_sum_distinct_get)
    then have "dict_get h 0 (dict_sum bl al) = dict_get h 0 al + dict_get h 0 bl" for h
      by (simp add: dict_get_dict_sum credit_of_def)
    then have "\<exists>a b. dict_get h 0 (dict_sum bl al) = a + b \<and> pool_share a S (WEIGHT_PPM - pool) h \<and> pool_share b D pool h" for h
      using al(5) bl(5) by blast
    with al(2-4) bl(2-4) run show ?thesis
      by (intro exI [of _ "dict_sum bl al"]) (auto simp: distinct_dict_sum sum_dict_sum keys_dict_sum)
  qed
qed

end
