(* ===== verification/Reward_Outcome.thy ===== *)
theory Reward_Outcome
  imports Reward_Laws
begin

text \<open>
  The outcome of the projection: when it succeeds, what its vector is, and that it depends neither on
  the order of arenas nor on the order of discovery claims.
\<close>

section \<open>The policy digest\<close>

lemma policy_digest_ok:
  assumes "epm_schema_version p = PyInt 1" and "\<forall>b. is_digest (sha256_hexdigest E b)"
  shows "\<exists>d. EmissionsPolicyManifest_digest E p = Inr d \<and> is_digest d"
proof -
  let ?j = "JObj [(''discovery_lifetime_blocks'', JInt (epm_discovery_lifetime_blocks p)),
      (''discovery_pool_ppm'', JInt (epm_discovery_pool_ppm p)), (''half_life_blocks'', JInt (epm_half_life_blocks p)),
      (''policy_version'', JStr (epm_policy_version p)), (''schema_version'', JInt 1)]"
  have "EmissionsPolicyManifest_to_dict p = py_of_json ?j" using assms(1) by (simp add: EmissionsPolicyManifest_to_dict_def)
  moreover have "is_domain ''optima.economics.policy''" by code_simp
  ultimately have "EmissionsPolicyManifest_digest E p = Inr (json_digest E ''optima.economics.policy'' ?j)"
    by (simp only: EmissionsPolicyManifest_digest_def canonical_digest_json)
  with assms(2) show ?thesis by (simp add: json_digest_def)
qed

section \<open>Success\<close>

abbreviation standing_pairs :: "StandingFamilyCredit list \<Rightarrow> (string \<times> int) list" where
  "standing_pairs rows \<equiv> map (\<lambda>r. (sfc_hotkey r, sfc_credit r)) rows"

abbreviation discovery_pairs :: "DiscoveryBountyCredit list \<Rightarrow> (string \<times> int) list" where
  "discovery_pairs rows \<equiv> map (\<lambda>r. (dbr_hotkey r, dbr_credit r)) rows"

definition authorities_ok :: "ArenaRewardAuthority list \<Rightarrow> bool" where
  "authorities_ok as \<longleftrightarrow> (\<forall>a \<in> set as. catalog_wf (ara_catalog a) \<and> (\<forall>c \<in> set (ara_standing_claims a). standing_ok c))"

definition discovery_pool :: "EmissionsPolicyManifest \<Rightarrow> DiscoveryBountyCredit list \<Rightarrow> int" where
  "discovery_pool policy live = (if live = [] then 0 else epm_discovery_pool_ppm policy)"

text \<open>What the vector of a projection has to be.\<close>

definition fair_weights ::
    "EmissionsPolicyManifest \<Rightarrow> StandingFamilyCredit list \<Rightarrow> DiscoveryBountyCredit list \<Rightarrow> HotkeyWeight list \<Rightarrow> bool" where
  "fair_weights policy rows live ws \<longleftrightarrow>
     sorted (map hw_hotkey ws) \<and> distinct (map hw_hotkey ws) \<and> sum_list (map hw_weight_ppm ws) = WEIGHT_PPM
     \<and> hw_hotkey ` set ws = {h. 0 < credit_of (standing_pairs rows) h \<or> 0 < credit_of (discovery_pairs live) h}
     \<and> (\<forall>w \<in> set ws. \<exists>a b. hw_weight_ppm w = a + b
          \<and> pool_share a (standing_pairs rows) (WEIGHT_PPM - discovery_pool policy live) (hw_hotkey w)
          \<and> pool_share b (discovery_pairs live) (discovery_pool policy live) (hw_hotkey w))"

lemma standing_rows_facts:
  assumes run: "foldE (add_arena E policy ctx) (sort_key ara_arena_digest arenas) ([], []) = Inr (rows, owed)"
    and ok: "policy_ok policy" "authorities_ok arenas" and dist: "distinct (map ara_arena_digest arenas)"
  shows "owed = dict_sum (standing_pairs rows) []" and "sorted (standing_keys rows)"
    and "\<And>r. r \<in> set rows \<Longrightarrow> sfc_hotkey r \<in> eligible_hotkeys ctx \<and> 0 \<le> sfc_credit r"
proof -
  let ?as = "sort_key ara_arena_digest arenas"
  obtain rowss where rowss: "list_all2 (arena_rows E policy ctx) ?as rowss"
    and st: "rows = concat rowss" "owed = dict_sum (standing_pairs (concat rowss)) []"
    using add_arenas_rows [OF run] ok(2) by (auto simp: authorities_ok_def)
  from st show "owed = dict_sum (standing_pairs rows) []" by simp
  have "sorted (map ara_arena_digest ?as)" "distinct (map ara_arena_digest ?as)" using dist by (simp_all add: distinct_map_sort_key)
  from standing_keys_sorted [OF rowss this] st(1) show "sorted (standing_keys rows)" by simp
  fix r assume "r \<in> set rows"
  then obtain rs where rs: "rs \<in> set rowss" "r \<in> set rs" using st(1) by auto
  then obtain i where i: "i < length rowss" "rs = rowss ! i" by (auto simp: in_set_conv_nth)
  then have "arena_rows E policy ctx (?as ! i) rs" using list_all2_nthD2 [OF rowss] by simp
  moreover have "?as ! i \<in> set arenas" using i(1) list_all2_lengthD [OF rowss] by (metis nth_mem set_sort)
  ultimately show "sfc_hotkey r \<in> eligible_hotkeys ctx \<and> 0 \<le> sfc_credit r"
    using arena_rows_row [OF _ rs(2) ok(1)] ok(2) by (auto simp: authorities_ok_def)
qed

lemma positive_credit:
  assumes "\<And>r. r \<in> set rows \<Longrightarrow> 0 \<le> sfc_credit r"
  shows "\<not> (\<forall>(_, credit) \<in> set (dict_sum (standing_pairs rows) []). credit = 0) \<longleftrightarrow> 0 < sum_list (map snd (standing_pairs rows))"
proof -
  let ?d = "dict_sum (standing_pairs rows) []"
  have nn: "\<forall>(k, w) \<in> set ?d. 0 \<le> w" using assms by (intro dict_sum_nonneg) auto
  have zero: "sum_list (map snd xs) = 0 \<longleftrightarrow> (\<forall>(_, w) \<in> set xs. w = 0)" if "\<forall>(k, w) \<in> set xs. (0 :: int) \<le> w" for xs :: "(string \<times> int) list"
    using that
  proof (induction xs)
    case (Cons x xs)
    then have "0 \<le> sum_list (map snd xs)" by (intro sum_list_nonneg_ints) auto
    with Cons show ?case by (cases x) auto
  qed simp
  have "0 \<le> sum_list (map snd ?d)" using nn by (intro sum_list_nonneg_ints) auto
  moreover have "sum_list (map snd ?d) = sum_list (map snd (standing_pairs rows))" using sum_dict_sum [of "[]" "standing_pairs rows"] by simp
  ultimately show ?thesis unfolding zero [OF nn, symmetric] by (simp add: less_le)
qed

definition weights_of :: "(string \<times> int) list \<Rightarrow> HotkeyWeight list" where
  "weights_of al = map (\<lambda>h. \<lparr>hw_hotkey = h, hw_weight_ppm = dict_get h 0 al\<rparr>) (sort (map fst al))"

lemma weights_fair:
  assumes pol: "policy_ok policy" and st: "\<And>r. r \<in> set rows \<Longrightarrow> 0 \<le> sfc_credit r" "0 < sum_list (map snd (standing_pairs rows))"
    and d: "\<forall>r \<in> set live. 1 \<le> dbr_credit r" and pool: "live \<noteq> [] \<Longrightarrow> 0 < epm_discovery_pool_ppm policy"
  shows "\<exists>al. combine_pools policy (dict_sum (standing_pairs rows) []) (live \<noteq> []) (dict_sum (discovery_pairs live) []) = Inr al
    \<and> fair_weights policy rows live (weights_of al)"
proof -
  have S: "\<forall>(k, w) \<in> set (standing_pairs rows). 0 \<le> w" using st(1) by auto
  have D: "\<forall>(k, w) \<in> set (discovery_pairs live). 1 \<le> w" using d by auto
  obtain al where al: "combine_pools policy (dict_sum (standing_pairs rows) []) (live \<noteq> []) (dict_sum (discovery_pairs live) []) = Inr al"
      "distinct (map fst al)" "sum_list (map snd al) = WEIGHT_PPM"
      "fst ` set al = {h. 0 < credit_of (standing_pairs rows) h \<or> 0 < credit_of (discovery_pairs live) h}"
      "\<forall>h. \<exists>a b. dict_get h 0 al = a + b \<and> pool_share a (standing_pairs rows) (WEIGHT_PPM - discovery_pool policy live) h
        \<and> pool_share b (discovery_pairs live) (discovery_pool policy live) h"
    using combine_pools_ok [OF pol S st(2) D] pool unfolding discovery_pool_def by auto
  have keys: "map hw_hotkey (weights_of al) = sort (map fst al)" by (simp add: weights_of_def comp_def)
  have sum: "sum_list (map hw_weight_ppm (weights_of al)) = WEIGHT_PPM"
    using dict_rebuild_sum [OF al(2)] al(3) by (simp add: weights_of_def comp_def)
  have "fair_weights policy rows live (weights_of al)"
    unfolding fair_weights_def
  proof (intro conjI ballI)
    show "hw_hotkey ` set (weights_of al) = {h. 0 < credit_of (standing_pairs rows) h \<or> 0 < credit_of (discovery_pairs live) h}"
      using arg_cong [OF keys, of set] al(4) by simp
    fix w assume "w \<in> set (weights_of al)"
    then have "hw_weight_ppm w = dict_get (hw_hotkey w) 0 al" by (auto simp: weights_of_def)
    then show "\<exists>a b. hw_weight_ppm w = a + b
        \<and> pool_share a (standing_pairs rows) (WEIGHT_PPM - discovery_pool policy live) (hw_hotkey w)
        \<and> pool_share b (discovery_pairs live) (discovery_pool policy live) (hw_hotkey w)" using al(5) by metis
  qed (use al(2) sum in \<open>simp_all add: keys\<close>)
  with al(1) show ?thesis by blast
qed

lemma fair_normalized: "fair_weights policy rows live ws \<Longrightarrow> weights_normalized ws \<and> sorted (map hw_hotkey ws)"
  by (simp add: fair_weights_def weights_normalized_def)

lemma projection_exists:
  assumes pol: "policy_ok policy" "epm_schema_version policy = PyInt 1" and hash: "\<forall>b. is_digest (sha256_hexdigest E b)"
    and arenas: "arenas \<noteq> []" "distinct (map ara_arena_digest arenas)" "authorities_ok arenas"
    and run: "foldE (add_arena E policy ctx) (sort_key ara_arena_digest arenas) ([], []) = Inr (rows, owed)"
    and pos: "0 < sum_list (map snd (standing_pairs rows))"
    and disc: "discovery_distinct E ds" "\<forall>c \<in> set ds. bounty_ok c"
    and drun: "foldE (add_discovery E policy ctx) (sort_key (DiscoveryBountyClaim_digest E) ds) ([], [], []) = Inr (live, expired, bounty)"
    and pool: "live \<noteq> [] \<Longrightarrow> 0 < epm_discovery_pool_ppm policy"
  shows "\<exists>p. project_global_rewards E policy ctx arenas ds = Inr p"
proof -
  note st = standing_rows_facts [OF run pol(1) arenas(3,2)]
  obtain b: "bounty = dict_sum (discovery_pairs live) []" and d: "\<forall>r \<in> set live. 1 \<le> dbr_credit r"
    using add_discovery_rows [OF drun] disc(2) by auto
  obtain al where al: "combine_pools policy owed (live \<noteq> []) bounty = Inr al" and fair: "fair_weights policy rows live (weights_of al)"
    using weights_fair [OF pol(1) _ pos d pool] st(3) unfolding st(1) b by blast
  obtain pd where pd: "EmissionsPolicyManifest_digest E policy = Inr pd" "is_digest pd" using policy_digest_ok [OF pol(2) hash] by blast
  let ?p = "\<lparr>grp_policy_digest = pd, grp_context = ctx,
      grp_arena_authority_digests = sort (map (ArenaRewardAuthority_digest E) (sort_key ara_arena_digest arenas)),
      grp_standing = rows, grp_discovery = live, grp_expired_discovery_claims = expired, grp_weights = weights_of al\<rparr>"
  have "GlobalRewardProjection_new ?p = Inr ?p"
    using pd(2) hash fair_normalized [OF fair] st(2)
    by (simp add: GlobalRewardProjection_new_def bindE_eq_Inr eco_eq_Inr forE_eq_Inr ArenaRewardAuthority_digest_def
        json_digest_def sorted_sort_id)
  moreover have nz: "(\<forall>(_, credit) \<in> set owed. credit = 0) = False" using positive_credit [of rows] st(3) pos unfolding st(1) by blast
  ultimately show ?thesis
    using arenas(1,2) run disc(1) drun al pd(1) by (simp add: project_global_rewards_def Let_def weights_of_def nz)
qed

lemma credit_of_absent: "h \<notin> fst ` set rows \<Longrightarrow> credit_of rows h = 0"
proof -
  assume "h \<notin> fst ` set rows"
  then have "filter (\<lambda>p. fst p = h) rows = []" unfolding filter_empty_conv by (metis image_eqI)
  then show "credit_of rows h = 0" by (simp add: credit_of_def)
qed

lemma projection_stages:
  assumes "project_global_rewards E policy ctx arenas ds = Inr p"
  shows "arenas \<noteq> [] \<and> distinct (map ara_arena_digest arenas) \<and> discovery_distinct E ds
    \<and> (\<exists>owed bounty al. foldE (add_arena E policy ctx) (sort_key ara_arena_digest arenas) ([], []) = Inr (grp_standing p, owed)
        \<and> \<not> (\<forall>(_, credit) \<in> set owed. credit = 0)
        \<and> foldE (add_discovery E policy ctx) (sort_key (DiscoveryBountyClaim_digest E) ds) ([], [], []) =
            Inr (grp_discovery p, grp_expired_discovery_claims p, bounty)
        \<and> combine_pools policy owed (grp_discovery p \<noteq> []) bounty = Inr al \<and> grp_weights p = weights_of al)"
proof -
  have new: "GlobalRewardProjection_new q = Inr q' \<Longrightarrow> q' = q" for q q'
    by (simp add: GlobalRewardProjection_new_def bindE_eq_Inr eco_fail_def split: if_splits)
  show ?thesis
    using assms unfolding project_global_rewards_def Let_def eco_fail_def weights_of_def
    apply (simp only: if_Inl_eq_Inr bindE_eq_Inr split_paired_Ex prod.case not_not)
    apply (elim exE conjE)
    apply (drule new)
    apply hypsubst
    apply (intro conjI exI; (assumption | simp))
    done
qed

lemma combine_needs_pool: "combine_pools policy owed True bounty = Inr al \<Longrightarrow> policy_ok policy \<Longrightarrow> 0 < epm_discovery_pool_ppm policy"
  by (cases "epm_discovery_pool_ppm policy = 0") (auto simp: combine_pools_def policy_ok_def eco_fail_def Let_def)

lemma projection_needs:
  assumes pol: "policy_ok policy" and arenas: "authorities_ok arenas" and run: "project_global_rewards E policy ctx arenas ds = Inr p"
  shows "arenas \<noteq> []" and "distinct (map ara_arena_digest arenas)" and "discovery_distinct E ds"
    and "\<exists>owed bounty. foldE (add_arena E policy ctx) (sort_key ara_arena_digest arenas) ([], []) = Inr (grp_standing p, owed)
      \<and> 0 < sum_list (map snd (standing_pairs (grp_standing p)))
      \<and> foldE (add_discovery E policy ctx) (sort_key (DiscoveryBountyClaim_digest E) ds) ([], [], []) =
          Inr (grp_discovery p, grp_expired_discovery_claims p, bounty)
      \<and> (grp_discovery p \<noteq> [] \<longrightarrow> 0 < epm_discovery_pool_ppm policy)"
proof -
  show "arenas \<noteq> []" by (rule projection_stages [OF run, THEN conjunct1])
  show "distinct (map ara_arena_digest arenas)" by (rule projection_stages [OF run, THEN conjunct2, THEN conjunct1])
  show "discovery_distinct E ds" by (rule projection_stages [OF run, THEN conjunct2, THEN conjunct2, THEN conjunct1])
  obtain owed bounty al where st: "distinct (map ara_arena_digest arenas)"
      "foldE (add_arena E policy ctx) (sort_key ara_arena_digest arenas) ([], []) = Inr (grp_standing p, owed)"
      "\<not> (\<forall>(_, credit) \<in> set owed. credit = 0)"
      "foldE (add_discovery E policy ctx) (sort_key (DiscoveryBountyClaim_digest E) ds) ([], [], []) =
         Inr (grp_discovery p, grp_expired_discovery_claims p, bounty)"
    and al: "combine_pools policy owed (grp_discovery p \<noteq> []) bounty = Inr al"
    using projection_stages [OF run] by (elim exE conjE)
  note rows = standing_rows_facts [OF st(2) pol arenas st(1)]
  have "0 < sum_list (map snd (standing_pairs (grp_standing p)))"
    using positive_credit [of "grp_standing p"] rows(3) st(3) unfolding rows(1) by blast
  moreover have "grp_discovery p \<noteq> [] \<Longrightarrow> 0 < epm_discovery_pool_ppm policy" using combine_needs_pool [OF _ pol] al by simp
  ultimately show "\<exists>owed bounty. foldE (add_arena E policy ctx) (sort_key ara_arena_digest arenas) ([], []) = Inr (grp_standing p, owed)
      \<and> 0 < sum_list (map snd (standing_pairs (grp_standing p)))
      \<and> foldE (add_discovery E policy ctx) (sort_key (DiscoveryBountyClaim_digest E) ds) ([], [], []) =
          Inr (grp_discovery p, grp_expired_discovery_claims p, bounty)
      \<and> (grp_discovery p \<noteq> [] \<longrightarrow> 0 < epm_discovery_pool_ppm policy)"
    using st(2,4) by blast
qed

lemma projection_iff:
  assumes pol: "policy_ok policy" "epm_schema_version policy = PyInt 1" and hash: "\<forall>b. is_digest (sha256_hexdigest E b)"
    and arenas: "authorities_ok arenas" and ds: "\<forall>c \<in> set ds. bounty_ok c"
  shows "(\<exists>p. project_global_rewards E policy ctx arenas ds = Inr p) \<longleftrightarrow>
    arenas \<noteq> [] \<and> distinct (map ara_arena_digest arenas) \<and> discovery_distinct E ds
    \<and> (\<exists>rows owed live expired bounty.
         foldE (add_arena E policy ctx) (sort_key ara_arena_digest arenas) ([], []) = Inr (rows, owed)
         \<and> 0 < sum_list (map sfc_credit rows)
         \<and> foldE (add_discovery E policy ctx) (sort_key (DiscoveryBountyClaim_digest E) ds) ([], [], []) = Inr (live, expired, bounty)
         \<and> (live \<noteq> [] \<longrightarrow> 0 < epm_discovery_pool_ppm policy))" (is "?lhs \<longleftrightarrow> ?rhs")
proof
  have eq: "map snd (standing_pairs rows) = map sfc_credit rows" for rows by simp
  {
    assume ?lhs
    then obtain p where run: "project_global_rewards E policy ctx arenas ds = Inr p" by blast
    note st = projection_needs [OF pol(1) arenas run, unfolded eq]
    show ?rhs by (intro conjI st(1-3)) (use st(4) in blast)
  next
    assume r: ?rhs
    then obtain rows owed live expired bounty where
      "foldE (add_arena E policy ctx) (sort_key ara_arena_digest arenas) ([], []) = Inr (rows, owed)"
      "0 < sum_list (map snd (standing_pairs rows))"
      "foldE (add_discovery E policy ctx) (sort_key (DiscoveryBountyClaim_digest E) ds) ([], [], []) = Inr (live, expired, bounty)"
      "live \<noteq> [] \<longrightarrow> 0 < epm_discovery_pool_ppm policy" unfolding eq by blast
    then show ?lhs using r by (intro projection_exists [OF pol hash _ _ arenas _ _ _ ds]) blast+
  }
qed

lemma projection_fair:
  assumes pol: "policy_ok policy" and arenas: "authorities_ok arenas" and ds: "\<forall>c \<in> set ds. bounty_ok c"
    and run: "project_global_rewards E policy ctx arenas ds = Inr p"
  shows "fair_weights policy (grp_standing p) (grp_discovery p) (grp_weights p)
    \<and> hw_hotkey ` set (grp_weights p) \<subseteq> eligible_hotkeys ctx"
proof -
  obtain owed bounty al where st: "distinct (map ara_arena_digest arenas)"
      "foldE (add_arena E policy ctx) (sort_key ara_arena_digest arenas) ([], []) = Inr (grp_standing p, owed)"
      "\<not> (\<forall>(_, credit) \<in> set owed. credit = 0)"
      "foldE (add_discovery E policy ctx) (sort_key (DiscoveryBountyClaim_digest E) ds) ([], [], []) =
         Inr (grp_discovery p, grp_expired_discovery_claims p, bounty)"
    and al: "combine_pools policy owed (grp_discovery p \<noteq> []) bounty = Inr al" and ws: "grp_weights p = weights_of al"
    using projection_stages [OF run] by (elim exE conjE)
  note rows = standing_rows_facts [OF st(2) pol arenas st(1)]
  obtain b: "bounty = dict_sum (discovery_pairs (grp_discovery p)) []"
    and d: "\<forall>r \<in> set (grp_discovery p). dbr_hotkey r \<in> eligible_hotkeys ctx \<and> 1 \<le> dbr_credit r"
    using add_discovery_rows [OF st(4)] ds by auto
  have pos: "0 < sum_list (map snd (standing_pairs (grp_standing p)))"
    using positive_credit [of "grp_standing p"] rows(3) st(3) unfolding rows(1) by blast
  have "grp_discovery p \<noteq> [] \<Longrightarrow> 0 < epm_discovery_pool_ppm policy" using combine_needs_pool [OF _ pol] al by simp
  then have fair: "fair_weights policy (grp_standing p) (grp_discovery p) (grp_weights p)"
    using weights_fair [OF pol _ pos, of "grp_discovery p"] rows(3) d al unfolding ws rows(1) b by fastforce
  have "h \<in> eligible_hotkeys ctx" if "0 < credit_of (standing_pairs (grp_standing p)) h \<or> 0 < credit_of (discovery_pairs (grp_discovery p)) h" for h
  proof -
    have "h \<in> fst ` set (standing_pairs (grp_standing p)) \<union> fst ` set (discovery_pairs (grp_discovery p))"
      using that credit_of_absent [of h] by fastforce
    then show ?thesis using rows(3) d by auto
  qed
  with fair show ?thesis unfolding fair_weights_def by blast
qed

lemma projection_order:
  assumes "mset arenas = mset arenas'" and "mset ds = mset ds'"
  shows "project_global_rewards E policy ctx arenas ds = project_global_rewards E policy ctx arenas' ds'"
proof (cases "distinct (map ara_arena_digest arenas)")
  case True
  have "inj_on ara_arena_digest (set arenas)" using True by (simp add: distinct_map)
  then have as: "sort_key ara_arena_digest arenas = sort_key ara_arena_digest arenas'"
    using assms(1) by (intro sort_key_inj_key_eq) (simp_all add: sorted_sort_key)
  have d: "discovery_distinct E ds \<longleftrightarrow> discovery_distinct E ds'"
    unfolding discovery_distinct_def using assms(2) by (metis mset_eq_imp_distinct_iff mset_map)
  have dsort: "sort_key (DiscoveryBountyClaim_digest E) ds = sort_key (DiscoveryBountyClaim_digest E) ds'" if "discovery_distinct E ds"
    using that assms(2) by (intro sort_key_inj_key_eq) (simp_all add: sorted_sort_key discovery_distinct_def distinct_map)
  have "arenas = [] \<longleftrightarrow> arenas' = []" using assms(1) by auto
  moreover have "distinct (map ara_arena_digest arenas')" using True assms(1) by (metis mset_eq_imp_distinct_iff mset_map)
  ultimately show ?thesis using True dsort unfolding project_global_rewards_def Let_def as
    by (cases "discovery_distinct E ds") (simp_all add: d [symmetric] cong: if_cong)
next
  case False
  moreover have "\<not> distinct (map ara_arena_digest arenas')" using False assms(1) by (metis mset_eq_imp_distinct_iff mset_map)
  moreover have "arenas = [] \<longleftrightarrow> arenas' = []" using assms(1) by auto
  ultimately show ?thesis by (simp add: project_global_rewards_def)
qed

section \<open>The single-arena wrapper\<close>

definition global_of :: "RewardProjectionContext \<Rightarrow> GlobalRewardProjectionContext" where
  "global_of c = \<lparr>grc_chain_scope_digest = rpc_chain_scope_digest c, grc_validator_hotkey = rpc_validator_hotkey c,
     grc_current_block = rpc_current_block c, grc_current_block_hash = rpc_current_block_hash c,
     grc_metagraph_members = rpc_metagraph_members c\<rparr>"

lemma RewardProjectionContext_init_facts:
  assumes "RewardProjectionContext_init row members = Inr c"
  shows "is_digest (rpc_chain_scope_digest c)" "is_hotkey (rpc_validator_hotkey c)" "0 \<le> rpc_stack_generation c"
    "0 \<le> rpc_current_block c" "is_block_hash (rpc_current_block_hash c)"
    "sort_key (\<lambda>m. (mm_uid m, mm_hotkey m)) (rpc_metagraph_members c) = rpc_metagraph_members c"
    "rpc_metagraph_members c \<noteq> []" "distinct (map mm_uid (rpc_metagraph_members c))"
    "distinct (map mm_hotkey (rpc_metagraph_members c))" "rpc_validator_hotkey c \<in> mm_hotkey ` set (rpc_metagraph_members c)"
  using assms unfolding RewardProjectionContext_init_def eco_fail_def Let_def bindE_eq_Inr eco_eq_Inr case_pyval_eq_Inr if_Inl_eq_Inr
  by (auto simp: sort_key_id_if_sorted)

lemma global_context_init:
  assumes "RewardProjectionContext_init row members = Inr c"
  shows "GlobalRewardProjectionContext_init (context_row c) (rpc_metagraph_members c) = Inr (global_of c)"
  using RewardProjectionContext_init_facts [OF assms]
  by (simp add: GlobalRewardProjectionContext_init_def RewardProjectionContext_init_def context_row_def kwarg_def Let_def global_of_def)

definition single_of ::
    "py_env \<Rightarrow> TargetCatalog \<Rightarrow> EvaluationStackManifest \<Rightarrow> RewardProjectionContext \<Rightarrow> GlobalRewardProjection \<Rightarrow> RewardProjection" where
  "single_of E catalog stack ctx g =
     \<lparr>rp_policy_digest = grp_policy_digest g, rp_catalog_digest = tc_digest catalog,
      rp_evaluation_stack_digest = manifest_digest E stack, rp_context = ctx,
      rp_standing = grp_standing g, rp_discovery = grp_discovery g,
      rp_expired_discovery_claims = grp_expired_discovery_claims g, rp_weights = grp_weights g\<rparr>"

lemma projection_canonical:
  assumes "project_global_rewards E policy ctx arenas ds = Inr p"
  shows "is_digest (grp_policy_digest p)" "standing_keys (grp_standing p) = sort (standing_keys (grp_standing p))"
    "map hw_hotkey (grp_weights p) = sort (map hw_hotkey (grp_weights p))" "weights_normalized (grp_weights p)"
proof -
  obtain q where "GlobalRewardProjection_new q = Inr p"
    using assms by (auto simp: project_global_rewards_def Let_def bindE_eq_Inr eco_fail_def split: if_splits)
  then show "is_digest (grp_policy_digest p)" "standing_keys (grp_standing p) = sort (standing_keys (grp_standing p))"
    "map hw_hotkey (grp_weights p) = sort (map hw_hotkey (grp_weights p))" "weights_normalized (grp_weights p)"
    by (auto simp: GlobalRewardProjection_new_def bindE_eq_Inr eco_eq_Inr eco_fail_def split: if_splits)
qed

lemma single_is_global:
  fixes stack :: EvaluationStackManifest and claims :: "StandingRewardClaim list"
  assumes ctx: "RewardProjectionContext_init row members = Inr ctx" and hash: "\<forall>b. is_digest (sha256_hexdigest E b)"
    and cat: "is_digest (tc_digest catalog)" and ds: "\<forall>c \<in> set ds. bounty_ok c"
  defines "authority \<equiv> \<lparr>ara_catalog = catalog, ara_stack = stack, ara_stack_generation = rpc_stack_generation ctx,
    ara_standing_claims = claims\<rparr>"
  shows "project_rewards E policy catalog stack ctx claims ds =
    bindE (project_global_rewards E policy (global_of ctx) [authority] ds) (\<lambda>g. Inr (single_of E catalog stack ctx g))"
proof (cases "project_global_rewards E policy (global_of ctx) [authority] ds")
  case (Inl e)
  then show ?thesis using RewardProjectionContext_init_facts(3) [OF ctx] global_context_init [OF ctx]
    by (simp add: project_rewards_def ArenaRewardAuthority_init_def authority_def)
next
  case (Inr g)
  obtain owed where "foldE (add_discovery E policy (global_of ctx)) (sort_key (DiscoveryBountyClaim_digest E) ds) ([], [], []) =
      Inr (grp_discovery g, grp_expired_discovery_claims g, owed)"
    using projection_stages [OF Inr] by blast
  then have "set (grp_expired_discovery_claims g) \<subseteq> DiscoveryBountyClaim_digest E ` set ds"
    using add_discovery_rows ds by fastforce
  then have "\<forall>d \<in> set (grp_expired_discovery_claims g). is_digest d"
    using hash by (auto simp: DiscoveryBountyClaim_digest_def json_digest_def)
  then have "RewardProjection_new (single_of E catalog stack ctx g) = Inr (single_of E catalog stack ctx g)"
    using projection_canonical [OF Inr] cat hash
    by (simp add: RewardProjection_new_def single_of_def bindE_eq_Inr eco_eq_Inr forE_eq_Inr manifest_digest_def json_digest_def)
  then show ?thesis using Inr RewardProjectionContext_init_facts(3) [OF ctx] global_context_init [OF ctx]
    by (simp add: project_rewards_def ArenaRewardAuthority_init_def authority_def single_of_def)
qed

end
