(* ===== verification/Stack_Plan.thy ===== *)
theory Stack_Plan
  imports Stack_Manifest
begin

text \<open>
  \<open>optima/stack_plan.py\<close>: planning one-target transitions of an evaluation stack. A plan binds the
  incumbent stack, the candidate stack that one contribution makes of it, and the engine trees of
  both; a rollback plan restores the incumbent exactly; a cohort seals several plans over one
  incumbent, in an execution order drawn from sealed entropy.
\<close>

definition plan_fail :: "string \<Rightarrow> py_error + 'a" where
  "plan_fail message = Inl (StackPlanError message)"

definition plan_digest :: "pyval \<Rightarrow> string \<Rightarrow> py_error + string" where
  "plan_digest v field = require_digest v field StackPlanError False False"

section \<open>Arms and transitions\<close>

record StackArmIdentity =
  sai_stack_digest :: string
  sai_tree_digest :: string

definition StackArmIdentity_new :: "string \<Rightarrow> string \<Rightarrow> py_error + StackArmIdentity" where
  "StackArmIdentity_new stack tree =
     bindE (plan_digest (PyStr stack) ''arm stack_digest'') (\<lambda>s.
     bindE (plan_digest (PyStr tree) ''arm tree_digest'') (\<lambda>t.
     Inr \<lparr>sai_stack_digest = s, sai_tree_digest = t\<rparr>))"

definition arm_json :: "StackArmIdentity \<Rightarrow> json" where
  "arm_json a = JObj [(''stack_digest'', JStr (sai_stack_digest a)), (''tree_digest'', JStr (sai_tree_digest a))]"

record TargetTransition =
  tt_target_id :: string
  tt_target_spec_digest :: string
  tt_replacement :: ContributionRef
  tt_prior :: "ContributionRef option"
  tt_displaced :: "ContributionRef list"

definition check_prior :: "py_env \<Rightarrow> TargetTransition \<Rightarrow> py_error + unit" where
  "check_prior E t =
     (case tt_prior t of
        None \<Rightarrow> Inr ()
      | Some prior \<Rightarrow>
          if ref_target_id prior \<noteq> tt_target_id t
          then plan_fail ''prior contribution does not match transition target'' else
          if tt_displaced t \<noteq> []
          then plan_fail ''same-target replacement cannot also displace active targets'' else
          if ref_selected_delta E prior = ref_selected_delta E (tt_replacement t)
          then plan_fail ''same-target replacement has no executable delta'' else Inr ())"

definition TargetTransition_new :: "py_env \<Rightarrow> TargetTransition \<Rightarrow> py_error + TargetTransition" where
  "TargetTransition_new E t =
     (let displaced_ids = map ref_target_id (tt_displaced t) in
      if tt_target_id t = [] then plan_fail ''transition target_id must be a non-empty string'' else
      bindE (plan_digest (PyStr (tt_target_spec_digest t)) ''transition target_spec_digest'') (\<lambda>_.
      if ref_target_id (tt_replacement t) \<noteq> tt_target_id t
      then plan_fail ''replacement target does not match transition target'' else
      if ref_target_spec_digest (tt_replacement t) \<noteq> tt_target_spec_digest t
      then plan_fail ''replacement target-spec digest does not match transition'' else
      bindE (check_prior E t) (\<lambda>_.
      if displaced_ids \<noteq> sort displaced_ids then plan_fail ''displaced contributions must be target-sorted'' else
      if \<not> distinct displaced_ids then plan_fail ''displaced contributions contain duplicate targets'' else
      if tt_target_id t \<in> set displaced_ids then plan_fail ''transition cannot displace its replacement target''
      else Inr t)))"

definition transition_json :: "TargetTransition \<Rightarrow> json" where
  "transition_json t = JObj
     [(''target_id'', JStr (tt_target_id t)), (''target_spec_digest'', JStr (tt_target_spec_digest t)),
      (''replacement'', JObj (ref_fields (tt_replacement t))),
      (''prior'', json_of_option (\<lambda>r. JObj (ref_fields r)) (tt_prior t)),
      (''displaced'', JList (map (\<lambda>r. JObj (ref_fields r)) (tt_displaced t)))]"

record MarginalArmPlan =
  map_incumbent :: EvaluationStackManifest
  map_candidate :: EvaluationStackManifest
  map_transition :: TargetTransition
  map_baseline_before :: StackArmIdentity
  map_challenger :: StackArmIdentity
  map_baseline_after :: StackArmIdentity

definition unrelated_changed ::
    "(string \<times> ContributionRef) list \<Rightarrow> (string \<times> ContributionRef) list \<Rightarrow> string list \<Rightarrow> string \<Rightarrow>
     py_error + unit" where
  "unrelated_changed incumbent candidate removed target_id =
     forE incumbent (\<lambda>(active_id, ref).
       if active_id \<notin> set removed \<and> active_id \<noteq> target_id \<and> map_of candidate active_id \<noteq> Some ref
       then plan_fail (''candidate changed unrelated target '' @ show_name active_id) else Inr ())"

definition MarginalArmPlan_new :: "py_env \<Rightarrow> MarginalArmPlan \<Rightarrow> py_error + MarginalArmPlan" where
  "MarginalArmPlan_new E a =
     (let baseline = map_baseline_before a; challenger = map_challenger a; t = map_transition a;
          incumbent = esm_entries (map_incumbent a); candidate = esm_entries (map_candidate a);
          displaced = map (\<lambda>r. (ref_target_id r, r)) (tt_displaced t)
      in if baseline \<noteq> map_baseline_after a
         then plan_fail ''B and B-prime must bind the same exact incumbent'' else
         if sai_stack_digest baseline \<noteq> manifest_digest E (map_incumbent a)
         then plan_fail ''baseline arm does not bind incumbent stack'' else
         if sai_stack_digest challenger \<noteq> manifest_digest E (map_candidate a)
         then plan_fail ''challenger arm does not bind candidate stack'' else
         if sai_tree_digest challenger = sai_tree_digest baseline
         then plan_fail ''challenger and incumbent tree digests must differ'' else
         if map_of incumbent (tt_target_id t) \<noteq> tt_prior t
         then plan_fail ''transition prior does not match incumbent entry'' else
         if map_of candidate (tt_target_id t) \<noteq> Some (tt_replacement t)
         then plan_fail ''transition replacement does not match candidate entry'' else
         if \<exists>(d, r) \<in> set displaced. map_of incumbent d \<noteq> Some r
         then plan_fail ''transition displaced entries do not match incumbent'' else
         if fst ` set candidate \<noteq> insert (tt_target_id t) (fst ` set incumbent - fst ` set displaced)
         then plan_fail ''candidate entries do not match transition target set'' else
         bindE (unrelated_changed incumbent candidate (map fst displaced) (tt_target_id t)) (\<lambda>_. Inr a))"

definition arm_plan_json :: "py_env \<Rightarrow> MarginalArmPlan \<Rightarrow> json" where
  "arm_plan_json E a = JObj
     [(''schema_version'', JInt 1), (''policy_version'', JStr ''stack-plan.v1''),
      (''incumbent_stack_digest'', JStr (manifest_digest E (map_incumbent a))),
      (''candidate_stack_digest'', JStr (manifest_digest E (map_candidate a))),
      (''transition'', transition_json (map_transition a)),
      (''baseline_before'', arm_json (map_baseline_before a)), (''challenger'', arm_json (map_challenger a)),
      (''baseline_after'', arm_json (map_baseline_after a))]"

definition arm_plan_digest :: "py_env \<Rightarrow> MarginalArmPlan \<Rightarrow> string" where
  "arm_plan_digest E a = json_digest E ''optima.stack.marginal-arm-plan'' (arm_plan_json E a)"

definition arm_delta :: "py_env \<Rightarrow> MarginalArmPlan \<Rightarrow> string" where
  "arm_delta E a = ref_selected_delta E (tt_replacement (map_transition a))"

definition arm_contribution :: "py_env \<Rightarrow> MarginalArmPlan \<Rightarrow> string" where
  "arm_contribution E a = ref_digest E (tt_replacement (map_transition a))"

section \<open>Planning\<close>

text \<open>\<open>except TargetResolutionError\<close> and \<open>except (ValueError, TargetResolutionError)\<close>.\<close>

definition is_resolution_error :: "py_error \<Rightarrow> bool" where
  "is_resolution_error e = (case e of TargetResolutionError _ \<Rightarrow> True | _ \<Rightarrow> False)"

definition is_any_value_error :: "py_error \<Rightarrow> bool" where
  "is_any_value_error e = (case e of TargetResolutionError _ \<Rightarrow> True | StackManifestError _ \<Rightarrow> True
     | StackPlanError _ \<Rightarrow> True | StackIdentityError _ \<Rightarrow> True | TargetCatalogError _ \<Rightarrow> True
     | PyValueError _ \<Rightarrow> True | _ \<Rightarrow> False)"

definition wrap_plan :: "string \<Rightarrow> (py_error \<Rightarrow> bool) \<Rightarrow> py_error + 'a \<Rightarrow> py_error + 'a" where
  "wrap_plan prefix sel r =
     (case r of Inl e \<Rightarrow> if sel e then plan_fail (prefix @ err_text e) else Inl e | Inr x \<Rightarrow> Inr x)"

definition check_catalog ::
    "TargetCatalog \<Rightarrow> EvaluationStackManifest \<Rightarrow> EvaluationStackContext \<Rightarrow> py_error + unit" where
  "check_catalog c incumbent ctx =
     (if tc_digest c \<noteq> esm_catalog_digest incumbent \<or> tc_digest c \<noteq> esc_catalog_digest ctx
         \<or> json_sort (tc_snapshot c) \<noteq> esm_catalog_json incumbent
         \<or> json_sort (tc_snapshot c) \<noteq> esc_catalog_json ctx
      then plan_fail ''planning catalog does not match the frozen stack context'' else Inr ())"

definition check_registered ::
    "py_env \<Rightarrow> TargetCatalog \<Rightarrow> EvaluationStackManifest \<Rightarrow> string \<Rightarrow> py_error + string" where
  "check_registered E c incumbent target_id =
     wrap_plan ''invalid registered transition: '' is_resolution_error
       (bindE (catalog_require c target_id) (\<lambda>_.
        bindE (target_spec_digest E c target_id) (\<lambda>spec.
        bindE (validate_active_targets c (map fst (esm_entries incumbent))) (\<lambda>_. Inr spec))))"

text \<open>What a new target removes; a target that is active already removes nothing.\<close>

definition displaced_by ::
    "TargetCatalog \<Rightarrow> (string \<times> ContributionRef) list \<Rightarrow> string \<Rightarrow> py_error + string list" where
  "displaced_by c active target_id =
     (case map_of active target_id of
        Some _ \<Rightarrow> Inr []
      | None \<Rightarrow>
          bindE (mapE (\<lambda>(active_id, _).
            bindE (displacement_closure c active_id) (\<lambda>ds. Inr (active_id, ds))) active) (\<lambda>rows.
          let blockers = sort (map fst (filter (\<lambda>(_, ds). target_id \<in> set ds) rows)) in
          if blockers \<noteq> []
          then plan_fail (''target '' @ show_name target_id @ '' cannot implicitly decompose active targets '' @
            show_tuple blockers) else
          bindE (displacement_closure c target_id) (\<lambda>ds.
          Inr (sort (filter (\<lambda>t. t \<in> set ds) (map fst active))))))"

definition candidate_transition ::
    "py_env \<Rightarrow> TargetCatalog \<Rightarrow> EvaluationStackContext \<Rightarrow> EvaluationStackManifest \<Rightarrow> ContributionRef \<Rightarrow>
     py_error + EvaluationStackManifest \<times> TargetTransition" where
  "candidate_transition E c ctx incumbent replacement =
     bindE (validate_against incumbent ctx) (\<lambda>_.
     bindE (check_catalog c incumbent ctx) (\<lambda>_.
     let target_id = ref_target_id replacement; active = esm_entries incumbent in
     bindE (check_registered E c incumbent target_id) (\<lambda>spec.
     if ref_target_spec_digest replacement \<noteq> spec
     then plan_fail (''replacement target-spec digest is stale for '' @ show_name target_id) else
     bindE (displaced_by c active target_id) (\<lambda>removed.
     bindE (TargetTransition_new E
       \<lparr>tt_target_id = target_id, tt_target_spec_digest = spec, tt_replacement = replacement,
        tt_prior = map_of active target_id, tt_displaced = map (\<lambda>t. the (map_of active t)) removed\<rparr>) (\<lambda>transition.
     bindE (wrap_plan ''invalid marginal transition: '' is_any_value_error
       (bindE (with_contribution E incumbent replacement removed) (\<lambda>candidate.
        bindE (validate_active_targets c (map fst (esm_entries candidate))) (\<lambda>_.
        bindE (validate_against candidate ctx) (\<lambda>_. Inr candidate))))) (\<lambda>candidate.
     if fst ` set (esm_entries candidate) \<noteq> insert target_id (fst ` set active - set removed)
     then plan_fail ''candidate changed entries outside the target transition'' else
     bindE (unrelated_changed active (esm_entries candidate) removed target_id) (\<lambda>_.
     if manifest_digest E candidate = manifest_digest E incumbent
     then plan_fail ''marginal transition does not change the stack''
     else Inr (candidate, transition))))))))"

definition plan_candidate_stack ::
    "py_env \<Rightarrow> TargetCatalog \<Rightarrow> EvaluationStackContext \<Rightarrow> EvaluationStackManifest \<Rightarrow> ContributionRef \<Rightarrow>
     py_error + EvaluationStackManifest" where
  "plan_candidate_stack E c ctx incumbent replacement =
     bindE (candidate_transition E c ctx incumbent replacement) (\<lambda>(candidate, _). Inr candidate)"

definition plan_marginal_arm ::
    "py_env \<Rightarrow> TargetCatalog \<Rightarrow> EvaluationStackContext \<Rightarrow> EvaluationStackManifest \<Rightarrow> ContributionRef \<Rightarrow>
     string \<Rightarrow> string \<Rightarrow> py_error + MarginalArmPlan" where
  "plan_marginal_arm E c ctx incumbent replacement incumbent_tree candidate_tree =
     bindE (candidate_transition E c ctx incumbent replacement) (\<lambda>(candidate, transition).
     bindE (plan_digest (PyStr incumbent_tree) ''incumbent tree_digest'') (\<lambda>itree.
     bindE (plan_digest (PyStr candidate_tree) ''candidate tree_digest'') (\<lambda>ctree.
     bindE (StackArmIdentity_new (manifest_digest E incumbent) itree) (\<lambda>baseline.
     bindE (StackArmIdentity_new (manifest_digest E candidate) ctree) (\<lambda>challenger.
     bindE (StackArmIdentity_new (manifest_digest E incumbent) itree) (\<lambda>after.
     MarginalArmPlan_new E
       \<lparr>map_incumbent = incumbent, map_candidate = candidate, map_transition = transition,
        map_baseline_before = baseline, map_challenger = challenger, map_baseline_after = after\<rparr>))))))"

definition check_current ::
    "py_env \<Rightarrow> EvaluationStackContext \<Rightarrow> StackArmIdentity \<Rightarrow> string \<Rightarrow> EvaluationStackManifest \<Rightarrow> string \<Rightarrow>
     py_error + unit" where
  "check_current E ctx arm what current tree =
     bindE (validate_against current ctx) (\<lambda>_.
     bindE (plan_digest (PyStr tree) ''current tree_digest'') (\<lambda>current_tree.
     if manifest_digest E current \<noteq> sai_stack_digest arm
     then Inl (StaleStackPlanError (what @ '' stack is stale'')) else
     if current_tree \<noteq> sai_tree_digest arm
     then Inl (StaleStackPlanError (what @ '' tree is stale'')) else Inr ()))"

text \<open>Before its tree is compared, the incumbent of an arm is compared by its own digest.\<close>

definition arm_require_current ::
    "py_env \<Rightarrow> EvaluationStackContext \<Rightarrow> MarginalArmPlan \<Rightarrow> EvaluationStackManifest \<Rightarrow> string \<Rightarrow> py_error + MarginalArmPlan" where
  "arm_require_current E ctx a current tree =
     bindE (check_current E ctx (\<lparr>sai_stack_digest = manifest_digest E (map_incumbent a),
       sai_tree_digest = sai_tree_digest (map_baseline_before a)\<rparr>) ''marginal arm incumbent'' current tree) (\<lambda>_. Inr a)"

definition arm_reopen ::
    "py_env \<Rightarrow> TargetCatalog \<Rightarrow> EvaluationStackContext \<Rightarrow> MarginalArmPlan \<Rightarrow> py_error + MarginalArmPlan" where
  "arm_reopen E c ctx a =
     bindE (plan_marginal_arm E c ctx (map_incumbent a) (tt_replacement (map_transition a))
       (sai_tree_digest (map_baseline_before a)) (sai_tree_digest (map_challenger a))) (\<lambda>expected.
     if arm_plan_json E expected \<noteq> arm_plan_json E a
     then plan_fail ''marginal arm does not reopen to its declared transition'' else Inr a)"

section \<open>Rollback\<close>

record RollbackPlan =
  rbp_expected_current :: StackArmIdentity
  rbp_restored :: StackArmIdentity
  rbp_restored_manifest :: EvaluationStackManifest
  rbp_source_arm_digest :: string

definition RollbackPlan_new :: "py_env \<Rightarrow> RollbackPlan \<Rightarrow> py_error + RollbackPlan" where
  "RollbackPlan_new E p =
     bindE (plan_digest (PyStr (rbp_source_arm_digest p)) ''rollback source_arm_digest'') (\<lambda>_.
     if sai_stack_digest (rbp_restored p) \<noteq> manifest_digest E (rbp_restored_manifest p)
     then plan_fail ''rollback manifest does not match restored stack'' else
     if rbp_expected_current p = rbp_restored p
     then plan_fail ''rollback must restore a different whole stack'' else Inr p)"

definition rollback_from_arm ::
    "py_env \<Rightarrow> TargetCatalog \<Rightarrow> EvaluationStackContext \<Rightarrow> MarginalArmPlan \<Rightarrow> py_error + RollbackPlan" where
  "rollback_from_arm E c ctx arm =
     bindE (arm_reopen E c ctx arm) (\<lambda>_.
     bindE (StackArmIdentity_new (sai_stack_digest (map_baseline_before arm))
       (sai_tree_digest (map_baseline_before arm))) (\<lambda>restored.
     RollbackPlan_new E
       \<lparr>rbp_expected_current = map_challenger arm, rbp_restored = restored,
        rbp_restored_manifest = map_incumbent arm, rbp_source_arm_digest = arm_plan_digest E arm\<rparr>))"

definition rollback_json :: "py_env \<Rightarrow> RollbackPlan \<Rightarrow> json" where
  "rollback_json E p = JObj
     [(''schema_version'', JInt 1), (''expected_current'', arm_json (rbp_expected_current p)),
      (''restored'', arm_json (rbp_restored p)),
      (''restored_manifest_digest'', JStr (manifest_digest E (rbp_restored_manifest p))),
      (''source_arm_digest'', JStr (rbp_source_arm_digest p))]"

definition rollback_reopen ::
    "py_env \<Rightarrow> TargetCatalog \<Rightarrow> EvaluationStackContext \<Rightarrow> RollbackPlan \<Rightarrow> MarginalArmPlan \<Rightarrow> py_error + RollbackPlan" where
  "rollback_reopen E c ctx p source_arm =
     bindE (rollback_from_arm E c ctx source_arm) (\<lambda>expected.
     if rollback_json E expected \<noteq> rollback_json E p
     then plan_fail ''rollback does not reopen to its source arm'' else Inr p)"

definition rollback_reconstruct ::
    "py_env \<Rightarrow> TargetCatalog \<Rightarrow> EvaluationStackContext \<Rightarrow> RollbackPlan \<Rightarrow> MarginalArmPlan \<Rightarrow>
     EvaluationStackManifest \<Rightarrow> string \<Rightarrow> py_error + EvaluationStackManifest \<times> string" where
  "rollback_reconstruct E c ctx p source_arm current tree =
     bindE (rollback_reopen E c ctx p source_arm) (\<lambda>_.
     bindE (check_current E ctx (rbp_expected_current p) ''rollback current'' current tree) (\<lambda>_.
     bindE (validate_against (rbp_restored_manifest p) ctx) (\<lambda>_.
     Inr (rbp_restored_manifest p, sai_tree_digest (rbp_restored p)))))"

section \<open>Cohorts\<close>

record CohortPlan =
  cp_incumbent :: StackArmIdentity
  cp_arms :: "MarginalArmPlan list"
  cp_entropy_digest :: string
  cp_authority_order :: "ContributionRef list"
  cp_execution_order :: "string list"

definition execution_key :: "py_env \<Rightarrow> string \<Rightarrow> MarginalArmPlan \<Rightarrow> string \<times> string" where
  "execution_key E entropy arm =
     (json_digest E ''optima.stack.cohort-execution-key'' (JObj
        [(''entropy_digest'', JStr entropy), (''selected_delta_digest'', JStr (arm_delta E arm))]), arm_delta E arm)"

definition execution_order :: "py_env \<Rightarrow> MarginalArmPlan list \<Rightarrow> string \<Rightarrow> string list" where
  "execution_order E arms entropy = map (arm_delta E) (sort_key (execution_key E entropy) arms)"

definition CohortPlan_new :: "py_env \<Rightarrow> CohortPlan \<Rightarrow> py_error + CohortPlan" where
  "CohortPlan_new E p =
     (let arms = cp_arms p; deltas = map (arm_delta E) arms;
          stacks = map (\<lambda>a. sai_stack_digest (map_challenger a)) arms;
          trees = map (\<lambda>a. sai_tree_digest (map_challenger a)) arms;
          arm_refs = map (arm_contribution E) arms;
          authority = map (ref_digest E) (cp_authority_order p)
      in bindE (plan_digest (PyStr (cp_entropy_digest p)) ''cohort entropy_digest'') (\<lambda>_.
         if arms = [] then plan_fail ''cohort must contain at least one candidate arm'' else
         if deltas \<noteq> sort deltas then plan_fail ''cohort arms must be selected-delta sorted'' else
         if \<not> distinct deltas then plan_fail ''cohort contains duplicate selected deltas'' else
         if \<exists>a \<in> set arms. map_baseline_before a \<noteq> cp_incumbent p
         then plan_fail ''cohort arms do not share the frozen incumbent'' else
         if \<not> distinct stacks then plan_fail ''cohort contains duplicate candidate stacks'' else
         if \<not> distinct trees then plan_fail ''cohort contains duplicate candidate trees'' else
         if \<not> distinct authority then plan_fail ''authority order contains duplicate contributions'' else
         if set authority \<noteq> set arm_refs \<or> length authority \<noteq> length arm_refs
         then plan_fail ''authority order must contain every cohort contribution exactly once'' else
         if set (cp_execution_order p) \<noteq> set deltas \<or> length (cp_execution_order p) \<noteq> length deltas
         then plan_fail ''execution order must contain every selected delta exactly once'' else
         if cp_execution_order p \<noteq> execution_order E arms (cp_entropy_digest p)
         then plan_fail ''execution order does not match sealed entropy'' else Inr p))"

definition cohort_seal ::
    "py_env \<Rightarrow> TargetCatalog \<Rightarrow> EvaluationStackContext \<Rightarrow> MarginalArmPlan list \<Rightarrow> string \<Rightarrow> ContributionRef list \<Rightarrow>
     py_error + CohortPlan" where
  "cohort_seal E c ctx raw_arms entropy_digest authority_order =
     (if raw_arms = [] then plan_fail ''cohort must contain at least one candidate arm'' else
      bindE (forE raw_arms (\<lambda>a. bindE (arm_reopen E c ctx a) (\<lambda>_. Inr ()))) (\<lambda>_.
      let canonical_arms = sort_key (arm_delta E) raw_arms in
      bindE (plan_digest (PyStr entropy_digest) ''cohort entropy_digest'') (\<lambda>entropy.
      let first = map_baseline_before (hd canonical_arms) in
      bindE (StackArmIdentity_new (sai_stack_digest first) (sai_tree_digest first)) (\<lambda>incumbent.
      CohortPlan_new E
        \<lparr>cp_incumbent = incumbent, cp_arms = canonical_arms, cp_entropy_digest = entropy,
         cp_authority_order = authority_order,
         cp_execution_order = execution_order E canonical_arms entropy\<rparr>))))"

definition cohort_json :: "py_env \<Rightarrow> CohortPlan \<Rightarrow> json" where
  "cohort_json E p = JObj
     [(''schema_version'', JInt 1), (''incumbent'', arm_json (cp_incumbent p)),
      (''arms'', JList (map (\<lambda>a. JStr (arm_plan_digest E a)) (cp_arms p))),
      (''entropy_digest'', JStr (cp_entropy_digest p)),
      (''authority_order'', JList (map (\<lambda>r. JStr (ref_digest E r)) (cp_authority_order p))),
      (''execution_order'', JList (map JStr (cp_execution_order p)))]"

definition arms_by :: "(MarginalArmPlan \<Rightarrow> string) \<Rightarrow> MarginalArmPlan list \<Rightarrow> string list \<Rightarrow> py_error + MarginalArmPlan list" where
  "arms_by key arms digests =
     (let by_key = dict_of (map (\<lambda>a. (key a, a)) arms) in
      mapE (\<lambda>d. case map_of by_key d of None \<Rightarrow> Inl (PyKeyError d) | Some a \<Rightarrow> Inr a) digests)"

definition execution_arms :: "py_env \<Rightarrow> CohortPlan \<Rightarrow> py_error + MarginalArmPlan list" where
  "execution_arms E p = arms_by (arm_delta E) (cp_arms p) (cp_execution_order p)"

definition authority_arms :: "py_env \<Rightarrow> CohortPlan \<Rightarrow> py_error + MarginalArmPlan list" where
  "authority_arms E p = arms_by (arm_contribution E) (cp_arms p) (map (ref_digest E) (cp_authority_order p))"

definition cohort_require_current ::
    "py_env \<Rightarrow> EvaluationStackContext \<Rightarrow> CohortPlan \<Rightarrow> EvaluationStackManifest \<Rightarrow> string \<Rightarrow> py_error + CohortPlan" where
  "cohort_require_current E ctx p current tree =
     bindE (check_current E ctx (cp_incumbent p) ''cohort incumbent'' current tree) (\<lambda>_. Inr p)"

definition cohort_reopen ::
    "py_env \<Rightarrow> TargetCatalog \<Rightarrow> EvaluationStackContext \<Rightarrow> CohortPlan \<Rightarrow> py_error + CohortPlan" where
  "cohort_reopen E c ctx p =
     bindE (cohort_seal E c ctx (cp_arms p) (cp_entropy_digest p) (cp_authority_order p)) (\<lambda>expected.
     if cohort_json E expected \<noteq> cohort_json E p
     then plan_fail ''cohort does not reopen to its declared arms and order'' else Inr p)"

end
