(* ===== verification/Plan_Laws.thy ===== *)
theory Plan_Laws
  imports Stack_Plan Catalog_Laws
begin

text \<open>
  What a plan guarantees: the candidate differs from the incumbent in one target and in the targets
  it displaces, and is admissible; an arm rolls back to its exact incumbent; a sealed cohort runs
  every arm once, in an order that does not depend on the order of submission.
\<close>

section \<open>Manifests\<close>

lemma entry_rows_typed:
  assumes "entry_rows (map (\<lambda>(t, r). (PyStr t, r)) es) = Inr rows"
  shows "rows = sort_key fst es" and "distinct (map fst es)"
proof -
  obtain rs where rs: "mapE entry_row (enumerate 0 (map (\<lambda>(t, r). (PyStr t, r)) es)) = Inr rs"
    and rows: "rows = sort_key fst rs" "distinct (map fst rs)"
    using assms by (auto simp: entry_rows_def bindE_eq_Inr stack_fail_def split: if_splits)
  have row: "entry_row (i, PyStr t, r) = Inr y \<Longrightarrow> y = (t, r)" for i t r y
    by (auto simp: entry_row_def stack_target_id_def bindE_eq_Inr stack_fail_def split: if_splits)
  have "mapE entry_row (enumerate n (map (\<lambda>(t, r). (PyStr t, r)) es)) = Inr rs \<Longrightarrow> rs = es" for n
    using row by (induction es arbitrary: n rs) (auto simp: bindE_eq_Inr)
  with rs have "rs = es" by blast
  with rows show "rows = sort_key fst es" "distinct (map fst es)" by simp_all
qed

lemma manifest_init_fields:
  assumes "EvaluationStackManifest_init E (manifest_row m) (map (\<lambda>(t, r). (PyStr t, r)) es) = Inr m'"
  shows "esm_entries m' = sort_key fst es" and "distinct (map fst es)"
    and "esm_runtime_digest m' = esm_runtime_digest m" and "esm_base_engine_digest m' = esm_base_engine_digest m"
    and "esm_arena_digest m' = esm_arena_digest m" and "esm_catalog_digest m' = esm_catalog_digest m"
proof -
  have kw: "kwarg (manifest_row m) ''runtime_digest'' = PyStr (esm_runtime_digest m)"
    "kwarg (manifest_row m) ''base_engine_digest'' = PyStr (esm_base_engine_digest m)"
    "kwarg (manifest_row m) ''arena_digest'' = PyStr (esm_arena_digest m)"
    "kwarg (manifest_row m) ''catalog_digest'' = PyStr (esm_catalog_digest m)"
    by (simp_all add: manifest_row_def kwarg_def)
  obtain rows where "entry_rows (map (\<lambda>(t, r). (PyStr t, r)) es) = Inr rows" "esm_entries m' = rows"
    and f: "esm_runtime_digest m' = esm_runtime_digest m" "esm_base_engine_digest m' = esm_base_engine_digest m"
      "esm_arena_digest m' = esm_arena_digest m" "esm_catalog_digest m' = esm_catalog_digest m"
    using assms unfolding EvaluationStackManifest_init_def kw
    by (auto simp: bindE_eq_Inr stack_digest_def require_digest_eq_Inr catalog_binding_def stack_fail_def
        split: if_splits)
  then show "esm_entries m' = sort_key fst es" "distinct (map fst es)" using entry_rows_typed by auto
  from f show "esm_runtime_digest m' = esm_runtime_digest m" "esm_base_engine_digest m' = esm_base_engine_digest m"
      "esm_arena_digest m' = esm_arena_digest m" "esm_catalog_digest m' = esm_catalog_digest m" .
qed

lemma with_contribution_entry:
  assumes "with_contribution E m r removed = Inr m'"
  shows "map_of (esm_entries m') (ref_target_id r) = Some r"
    and "esm_runtime_digest m' = esm_runtime_digest m" and "esm_base_engine_digest m' = esm_base_engine_digest m"
    and "esm_arena_digest m' = esm_arena_digest m" and "esm_catalog_digest m' = esm_catalog_digest m"
proof -
  obtain es where init: "EvaluationStackManifest_init E (manifest_row m)
      (map (\<lambda>(t, r). (PyStr t, r)) (dict_set (ref_target_id r) r es)) = Inr m'"
    using assms by (auto simp: with_contribution_def bindE_eq_Inr stack_fail_def split: if_splits)
  note f = manifest_init_fields [OF init]
  from f(1,2) show "map_of (esm_entries m') (ref_target_id r) = Some r" by (simp add: map_of_sort_key)
  from f(3-6) show "esm_runtime_digest m' = esm_runtime_digest m" "esm_base_engine_digest m' = esm_base_engine_digest m"
      "esm_arena_digest m' = esm_arena_digest m" "esm_catalog_digest m' = esm_catalog_digest m" .
qed

section \<open>Transitions\<close>

lemma wrap_plan_eq_Inr [err_simps]: "wrap_plan pre sel r = Inr x \<longleftrightarrow> r = Inr x"
  by (auto simp: wrap_plan_def plan_fail_def split: sum.splits)

lemma sort_eq_Nil: "sort xs = [] \<longleftrightarrow> xs = []"
  by (metis length_0_conv length_sort)

lemma displaced_by_eq:
  assumes wf: "catalog_wf c" and known: "t \<in> fst ` set (tc_by_id c)" "fst ` set active \<subseteq> fst ` set (tc_by_id c)"
    and d: "displaced_by c active t = Inr removed"
  shows "set removed = (if t \<in> fst ` set active then {} else (target_rel ts_displaces c)\<^sup>+ `` {t} \<inter> fst ` set active)"
    and "t \<notin> fst ` set active \<Longrightarrow> a \<in> fst ` set active \<Longrightarrow> (a, t) \<notin> (target_rel ts_displaces c)\<^sup>+"
proof -
  note closure = closure_of(1) [OF wf]
  show "set removed = (if t \<in> fst ` set active then {} else (target_rel ts_displaces c)\<^sup>+ `` {t} \<inter> fst ` set active)"
  proof (cases "map_of active t")
    case None
    then have "t \<notin> fst ` set active" by (simp add: map_of_eq_None_iff)
    moreover obtain ds where "displacement_closure c t = Inr ds" "set ds = (target_rel ts_displaces c)\<^sup>+ `` {t}"
      and "removed = sort (filter (\<lambda>t. t \<in> set ds) (map fst active))"
      using d None closure [OF known(1)]
      by (auto simp: displaced_by_def bindE_eq_Inr plan_fail_def Let_def split: if_splits)
    ultimately show ?thesis by (simp add: set_filter Int_def Image_def) blast
  next
    case (Some r)
    then have "t \<in> fst ` set active" by (metis domI dom_map_of_conv_image_fst)
    then show ?thesis using d Some by (simp add: displaced_by_def)
  qed
  show "(a, t) \<notin> (target_rel ts_displaces c)\<^sup>+" if t: "t \<notin> fst ` set active" and a: "a \<in> fst ` set active"
  proof
    assume edge: "(a, t) \<in> (target_rel ts_displaces c)\<^sup>+"
    obtain r where r: "(a, r) \<in> set active" using a by auto
    obtain ds where ds: "displacement_closure c a = Inr ds" "t \<in> set ds" using closure [of a] known(2) a edge by auto
    obtain rows where rows: "mapE (\<lambda>(active_id, _). bindE (displacement_closure c active_id)
        (\<lambda>ds. Inr (active_id, ds))) active = Inr rows" "filter (\<lambda>(_, ds). t \<in> set ds) rows = []"
      using d t by (auto simp: displaced_by_def bindE_eq_Inr plan_fail_def Let_def sort_eq_Nil map_of_eq_None_iff [THEN iffD2]
          split: option.splits if_splits)
    obtain row where "row \<in> set rows" "bindE (displacement_closure c a) (\<lambda>ds. Inr (a, ds)) = Inr row"
      using rows(1) r unfolding mapE_eq_Inr by (metis (mono_tags, lifting) case_prod_conv in_set_conv_nth list_all2_conv_all_nth)
    with ds rows(2) show False by (auto simp: filter_empty_conv)
  qed
qed

lemma candidate_transition_stages:
  assumes "candidate_transition E c ctx incumbent repl = Inr (candidate, transition)"
  shows "\<exists>spec removed. validate_against incumbent ctx = Inr () \<and> check_registered E c incumbent (ref_target_id repl) = Inr spec
    \<and> displaced_by c (esm_entries incumbent) (ref_target_id repl) = Inr removed
    \<and> with_contribution E incumbent repl removed = Inr candidate
    \<and> (\<exists>os. validate_active_targets c (map fst (esm_entries candidate)) = Inr os)
    \<and> validate_against candidate ctx = Inr ()
    \<and> fst ` set (esm_entries candidate) = insert (ref_target_id repl) (fst ` set (esm_entries incumbent) - set removed)
    \<and> unrelated_changed (esm_entries incumbent) (esm_entries candidate) removed (ref_target_id repl) = Inr ()
    \<and> manifest_digest E candidate \<noteq> manifest_digest E incumbent
    \<and> tt_replacement transition = repl"
proof -
  have tr: "TargetTransition_new E t = Inr t' \<Longrightarrow> t' = t" for t t'
    by (auto simp: TargetTransition_new_def Let_def bindE_eq_Inr plan_fail_def split: if_splits)
  show ?thesis
    using assms unfolding candidate_transition_def Let_def plan_fail_def
    apply (simp only: if_Inl_eq_Inr bindE_eq_Inr wrap_plan_eq_Inr sum.inject prod.inject old.unit.exhaust not_not)
    apply (elim exE conjE)
    apply (drule tr)
    apply hypsubst
    apply (intro exI conjI; (assumption | simp))
    done
qed

lemma transition_stages:
  assumes wf: "catalog_wf c" and run: "plan_candidate_stack E c ctx incumbent repl = Inr candidate"
  defines "act \<equiv> fst ` set (esm_entries incumbent)" and "t \<equiv> ref_target_id repl"
  defines "gone \<equiv> if t \<in> act then {} else (target_rel ts_displaces c)\<^sup>+ `` {t} \<inter> act"
  shows "fst ` set (esm_entries candidate) = insert t (act - gone)"
    and "map_of (esm_entries candidate) t = Some repl"
    and "\<forall>(k, r) \<in> set (esm_entries incumbent). k \<notin> gone \<and> k \<noteq> t \<longrightarrow> map_of (esm_entries candidate) k = Some r"
    and "admissible c (insert t (act - gone))"
    and "t \<notin> act \<longrightarrow> (\<forall>a \<in> act. (a, t) \<notin> (target_rel ts_displaces c)\<^sup>+)"
    and "esm_runtime_digest candidate = esm_runtime_digest incumbent"
    and "esm_base_engine_digest candidate = esm_base_engine_digest incumbent"
    and "esm_arena_digest candidate = esm_arena_digest incumbent"
    and "esm_catalog_digest candidate = esm_catalog_digest incumbent"
proof -
  obtain transition where "candidate_transition E c ctx incumbent repl = Inr (candidate, transition)"
    using run by (auto simp: plan_candidate_stack_def bindE_eq_Inr)
  from candidate_transition_stages [OF this] obtain spec removed os where
    reg: "check_registered E c incumbent t = Inr spec"
    and gone: "displaced_by c (esm_entries incumbent) t = Inr removed"
    and cand: "with_contribution E incumbent repl removed = Inr candidate"
    and val: "validate_active_targets c (map fst (esm_entries candidate)) = Inr os"
    and keys: "fst ` set (esm_entries candidate) = insert t (act - set removed)"
    and kept: "unrelated_changed (esm_entries incumbent) (esm_entries candidate) removed t = Inr ()"
    unfolding act_def t_def by blast
  obtain s os' where "catalog_require c t = Inr s" "validate_active_targets c (map fst (esm_entries incumbent)) = Inr os'"
    using reg by (auto simp: check_registered_def wrap_plan_eq_Inr bindE_eq_Inr)
  then have known: "t \<in> fst ` set (tc_by_id c)" "act \<subseteq> fst ` set (tc_by_id c)"
    using validate_active_iff [OF wf] unfolding act_def
    by (auto simp: catalog_require_eq_Inr admissible_def rev_image_eqI dest: map_of_SomeD)
  have out: "set removed = gone"
    using displaced_by_eq(1) [OF wf known [unfolded act_def] gone] unfolding gone_def act_def .
  show "t \<notin> act \<longrightarrow> (\<forall>a \<in> act. (a, t) \<notin> (target_rel ts_displaces c)\<^sup>+)"
    using displaced_by_eq(2) [OF wf known [unfolded act_def] gone] unfolding act_def by blast
  show k: "fst ` set (esm_entries candidate) = insert t (act - gone)" using keys out by simp
  show "admissible c (insert t (act - gone))"
    using val validate_active_iff [OF wf] k [symmetric] by simp
  show "\<forall>(k, r) \<in> set (esm_entries incumbent). k \<notin> gone \<and> k \<noteq> t \<longrightarrow> map_of (esm_entries candidate) k = Some r"
    using kept out by (fastforce simp: unrelated_changed_def forE_eq_Inr plan_fail_def split: if_splits)
  note f = with_contribution_entry [OF cand]
  from f(1) show "map_of (esm_entries candidate) t = Some repl" unfolding t_def .
  from f(2-5) show "esm_runtime_digest candidate = esm_runtime_digest incumbent"
    "esm_base_engine_digest candidate = esm_base_engine_digest incumbent"
    "esm_arena_digest candidate = esm_arena_digest incumbent"
    "esm_catalog_digest candidate = esm_catalog_digest incumbent" .
qed

section \<open>Rollback\<close>

lemma plan_digest_eq_Inr [err_simps]: "plan_digest (PyStr s) field = Inr d \<longleftrightarrow> d = s \<and> is_digest s"
  by (auto simp: plan_digest_def require_digest_eq_Inr)

lemma StackArmIdentity_new_eq_Inr [err_simps]:
  "StackArmIdentity_new stack tree = Inr a \<longleftrightarrow>
     a = \<lparr>sai_stack_digest = stack, sai_tree_digest = tree\<rparr> \<and> is_digest stack \<and> is_digest tree"
  by (auto simp: StackArmIdentity_new_def bindE_eq_Inr plan_digest_eq_Inr)

lemma MarginalArmPlan_new_eq:
  "MarginalArmPlan_new E a = Inr a' \<Longrightarrow>
     a' = a \<and> sai_tree_digest (map_challenger a) \<noteq> sai_tree_digest (map_baseline_before a)"
  by (auto simp: MarginalArmPlan_new_def Let_def bindE_eq_Inr plan_fail_def split: if_splits)

lemma plan_marginal_arm_stages:
  assumes "plan_marginal_arm E c ctx incumbent repl itree ctree = Inr arm"
  shows "\<exists>candidate transition. candidate_transition E c ctx incumbent repl = Inr (candidate, transition)
    \<and> arm = \<lparr>map_incumbent = incumbent, map_candidate = candidate, map_transition = transition,
        map_baseline_before = \<lparr>sai_stack_digest = manifest_digest E incumbent, sai_tree_digest = itree\<rparr>,
        map_challenger = \<lparr>sai_stack_digest = manifest_digest E candidate, sai_tree_digest = ctree\<rparr>,
        map_baseline_after = \<lparr>sai_stack_digest = manifest_digest E incumbent, sai_tree_digest = itree\<rparr>\<rparr>
    \<and> is_digest itree \<and> is_digest ctree \<and> is_digest (manifest_digest E incumbent) \<and> ctree \<noteq> itree"
proof -
  obtain candidate transition where t: "candidate_transition E c ctx incumbent repl = Inr (candidate, transition)"
    using assms by (auto simp: plan_marginal_arm_def bindE_eq_Inr)
  show ?thesis using assms t
    by (auto simp: plan_marginal_arm_def bindE_eq_Inr plan_digest_eq_Inr StackArmIdentity_new_eq_Inr
        dest!: MarginalArmPlan_new_eq)
qed

lemma planned_arm_reopens:
  assumes "plan_marginal_arm E c ctx incumbent repl itree ctree = Inr arm"
  shows "arm_reopen E c ctx arm = Inr arm"
proof -
  obtain candidate transition where t: "candidate_transition E c ctx incumbent repl = Inr (candidate, transition)"
    and arm: "map_incumbent arm = incumbent" "map_transition arm = transition"
      "sai_tree_digest (map_baseline_before arm) = itree" "sai_tree_digest (map_challenger arm) = ctree"
    using plan_marginal_arm_stages [OF assms] by auto
  from t have "tt_replacement transition = repl" using candidate_transition_stages by blast
  with arm assms show ?thesis by (simp add: arm_reopen_def)
qed

lemma rollback_restores:
  assumes hash: "\<forall>b. is_digest (sha256_hexdigest E b)"
    and plan: "plan_marginal_arm E c ctx incumbent repl itree ctree = Inr arm"
  shows "\<exists>p. rollback_from_arm E c ctx arm = Inr p
    \<and> rollback_reconstruct E c ctx p arm (map_candidate arm) ctree = Inr (incumbent, itree)"
proof -
  obtain candidate transition where t: "candidate_transition E c ctx incumbent repl = Inr (candidate, transition)"
    and arm: "map_incumbent arm = incumbent" "map_candidate arm = candidate"
      "map_baseline_before arm = \<lparr>sai_stack_digest = manifest_digest E incumbent, sai_tree_digest = itree\<rparr>"
      "map_challenger arm = \<lparr>sai_stack_digest = manifest_digest E candidate, sai_tree_digest = ctree\<rparr>"
    and d: "is_digest itree" "is_digest ctree" "is_digest (manifest_digest E incumbent)" "ctree \<noteq> itree"
    using plan_marginal_arm_stages [OF plan] by auto
  have ok: "validate_against incumbent ctx = Inr ()" "validate_against candidate ctx = Inr ()"
    using candidate_transition_stages [OF t] by blast+
  let ?p = "\<lparr>rbp_expected_current = map_challenger arm, rbp_restored = map_baseline_before arm,
    rbp_restored_manifest = incumbent, rbp_source_arm_digest = arm_plan_digest E arm\<rparr>"
  have "is_digest (arm_plan_digest E arm)" using hash by (simp add: arm_plan_digest_def json_digest_def)
  then have p: "rollback_from_arm E c ctx arm = Inr ?p"
    using d arm by (simp add: rollback_from_arm_def planned_arm_reopens [OF plan] RollbackPlan_new_def bindE_eq_Inr
        plan_digest_eq_Inr StackArmIdentity_new_eq_Inr)
  have "check_current E ctx (map_challenger arm) ''rollback current'' candidate ctree = Inr ()"
    using ok d arm by (simp add: check_current_def bindE_eq_Inr plan_digest_eq_Inr)
  then have "rollback_reconstruct E c ctx ?p arm candidate ctree = Inr (incumbent, itree)"
    using p ok arm by (simp add: rollback_reconstruct_def rollback_reopen_def)
  with p arm(2) show ?thesis by blast
qed

section \<open>Cohorts\<close>

lemma CohortPlan_new_eq:
  "CohortPlan_new E p = Inr p' \<Longrightarrow> p' = p \<and> distinct (map (arm_delta E) (cp_arms p))
     \<and> cp_execution_order p = execution_order E (cp_arms p) (cp_entropy_digest p)"
  by (auto simp: CohortPlan_new_def Let_def bindE_eq_Inr plan_fail_def split: if_splits)

lemma cohort_seal_stages:
  assumes "cohort_seal E c ctx raws entropy authority = Inr p"
  shows "cp_arms p = sort_key (arm_delta E) raws" and "distinct (map (arm_delta E) raws)"
    and "cp_execution_order p = execution_order E (sort_key (arm_delta E) raws) entropy"
proof -
  obtain i where p: "p = \<lparr>cp_incumbent = i, cp_arms = sort_key (arm_delta E) raws, cp_entropy_digest = entropy,
      cp_authority_order = authority, cp_execution_order = execution_order E (sort_key (arm_delta E) raws) entropy\<rparr>"
    and d: "distinct (map (arm_delta E) (sort_key (arm_delta E) raws))"
    using assms by (auto simp: cohort_seal_def Let_def bindE_eq_Inr plan_fail_def plan_digest_eq_Inr
        dest!: CohortPlan_new_eq split: if_splits)
  from p show "cp_arms p = sort_key (arm_delta E) raws"
    "cp_execution_order p = execution_order E (sort_key (arm_delta E) raws) entropy" by simp_all
  from d show "distinct (map (arm_delta E) raws)"
    by (metis distinct_map distinct_sort set_sort mset_eq_imp_distinct_iff mset_sort)
qed

lemma cohort_seal_mset:
  assumes run: "cohort_seal E c ctx raws entropy authority = Inr p" and same: "mset raws' = mset raws"
  shows "cohort_seal E c ctx raws' entropy authority = Inr p"
proof -
  have "inj_on (arm_delta E) (set raws')"
    using cohort_seal_stages(2) [OF run] mset_eq_setD [OF same] by (simp add: distinct_map)
  then have sorted: "sort_key (arm_delta E) raws' = sort_key (arm_delta E) raws"
    using same by (intro sort_key_inj_key_eq) (simp_all add: sorted_sort_key)
  have reopen: "forE raws' (\<lambda>a. bindE (arm_reopen E c ctx a) (\<lambda>_. Inr ())) = Inr ()"
    using run mset_eq_setD [OF same] by (auto simp: cohort_seal_def bindE_eq_Inr plan_fail_def forE_eq_Inr split: if_splits)
  have "raws' \<noteq> []" using run same by (auto simp: cohort_seal_def plan_fail_def)
  with run reopen sorted show ?thesis by (auto simp: cohort_seal_def bindE_eq_Inr plan_fail_def split: if_splits)
qed

lemma execution_arms_sorted:
  assumes "cohort_seal E c ctx raws entropy authority = Inr p"
  shows "execution_arms E p = Inr (sort_key (execution_key E entropy) (sort_key (arm_delta E) raws))"
proof -
  note st = cohort_seal_stages [OF assms]
  let ?arms = "sort_key (arm_delta E) raws" and ?rows = "map (\<lambda>a. (arm_delta E a, a)) (sort_key (arm_delta E) raws)"
  have d: "distinct (map fst ?rows)"
    using st(2) by (simp add: comp_def) (metis distinct_map distinct_sort set_sort mset_eq_imp_distinct_iff mset_sort)
  have "map_of ?rows (arm_delta E a) = Some a" if "a \<in> set raws" for a
    using that by (intro map_of_is_SomeI [OF d]) auto
  then have "mapE (\<lambda>d. case map_of ?rows d of None \<Rightarrow> Inl (PyKeyError d) | Some a \<Rightarrow> Inr a)
      (map (arm_delta E) (sort_key (execution_key E entropy) ?arms)) = Inr (sort_key (execution_key E entropy) ?arms)"
    by (auto simp: mapE_eq_Inr list_all2_map1 intro!: list.rel_refl_strong)
  then show ?thesis by (simp add: execution_arms_def arms_by_def st(1,3) dict_of_distinct [OF d] execution_order_def)
qed

end
