(* ===== verification/Plan_Success.thy ===== *)
theory Plan_Success
  imports Plan_Laws
begin

text \<open>
  When planning succeeds: a contribution that fits the catalog, the context and the incumbent is
  always planned, and the candidate is known in advance.
\<close>

section \<open>Constructed manifests\<close>

definition entry_ok :: "string \<times> ContributionRef \<Rightarrow> bool" where
  "entry_ok row = (case row of (t, r) \<Rightarrow> stack_target_id (PyStr t) [] = Inr t \<and> ref_target_id r = t)"

lemma stack_target_id_field: "stack_target_id v field = Inr t \<longleftrightarrow> stack_target_id v [] = Inr t"
  by (auto simp: stack_target_id_def stack_fail_def Let_def split: pyval.splits)

lemma entry_row_typed: "entry_row (i, PyStr t, r) = Inr y \<longleftrightarrow> y = (t, r) \<and> entry_ok (t, r)"
  by (auto simp: entry_row_def entry_ok_def stack_target_id_def bindE_eq_Inr stack_fail_def Let_def split: if_splits)

lemma entry_rows_eq_Inr:
  "entry_rows (map (\<lambda>(t, r). (PyStr t, r)) es) = Inr rows \<longleftrightarrow>
     rows = sort_key fst es \<and> distinct (map fst es) \<and> (\<forall>row \<in> set es. entry_ok row)"
proof -
  have "mapE entry_row (enumerate n (map (\<lambda>(t, r). (PyStr t, r)) es)) = Inr rs \<longleftrightarrow> rs = es \<and> (\<forall>row \<in> set es. entry_ok row)"
    for n rs by (induction es arbitrary: n rs) (auto simp: bindE_eq_Inr entry_row_typed)
  then show ?thesis by (auto simp: entry_rows_def bindE_eq_Inr stack_fail_def)
qed

definition manifest_ok :: "py_env \<Rightarrow> EvaluationStackManifest \<Rightarrow> bool" where
  "manifest_ok E m = (is_digest (esm_runtime_digest m) \<and> is_digest (esm_base_engine_digest m) \<and> is_digest (esm_arena_digest m)
     \<and> catalog_binding E (py_of_json (esm_catalog_json m)) (PyStr (esm_catalog_digest m)) = Inr (esm_catalog_json m, esm_catalog_digest m)
     \<and> distinct (map fst (esm_entries m)) \<and> (\<forall>row \<in> set (esm_entries m). entry_ok row))"

lemma manifest_init_ok:
  assumes "manifest_ok E m" and "distinct (map fst es)" and "\<forall>row \<in> set es. entry_ok row"
  shows "EvaluationStackManifest_init E (manifest_row m) (map (\<lambda>(t, r). (PyStr t, r)) es) =
    Inr (m\<lparr>esm_entries := sort_key fst es\<rparr>)"
  using assms by (simp add: EvaluationStackManifest_init_def manifest_row_def kwarg_def current_version_def stack_digest_def
      manifest_ok_def entry_rows_eq_Inr [THEN iffD2] bindE_eq_Inr)

lemma remove_entries:
  "distinct removed \<Longrightarrow> set removed \<subseteq> fst ` set es \<Longrightarrow>
     foldE remove_entry removed es = Inr (filter (\<lambda>(k, _). k \<notin> set removed) es)"
proof (induction removed arbitrary: es)
  case (Cons t removed)
  let ?es = "filter (\<lambda>(k, _). k \<noteq> t) es"
  have "fst ` set ?es = fst ` set es - {t}" by force
  then have "foldE remove_entry removed ?es = Inr (filter (\<lambda>(k, _). k \<notin> set removed) ?es)"
    using Cons.prems by (intro Cons.IH) auto
  moreover have "remove_entry t es = Inr ?es" using Cons.prems by (simp add: remove_entry_def)
  moreover have "filter (\<lambda>(k, _). k \<notin> set removed) ?es = filter (\<lambda>(k, _). k \<notin> set (t # removed)) es"
    unfolding filter_filter by (rule filter_cong) auto
  ultimately show ?case by simp
qed simp

section \<open>The stages of a transition\<close>

definition removed_by :: "TargetCatalog \<Rightarrow> (string \<times> ContributionRef) list \<Rightarrow> string \<Rightarrow> string set" where
  "removed_by c active t =
     (if t \<in> fst ` set active then {} else (target_rel ts_displaces c)\<^sup>+ `` {t} \<inter> fst ` set active)"

definition next_stack :: "TargetCatalog \<Rightarrow> EvaluationStackManifest \<Rightarrow> ContributionRef \<Rightarrow> EvaluationStackManifest" where
  "next_stack c m r =
     (let t = ref_target_id r in
      m\<lparr>esm_entries := sort_key fst (dict_set t r (filter (\<lambda>(k, _). k \<notin> removed_by c (esm_entries m) t) (esm_entries m)))\<rparr>)"

lemma displaced_by_succeeds:
  assumes wf: "catalog_wf c" and known: "t \<in> fst ` set (tc_by_id c)" "fst ` set active \<subseteq> fst ` set (tc_by_id c)"
    and free: "t \<notin> fst ` set active \<Longrightarrow> \<forall>a \<in> fst ` set active. (a, t) \<notin> (target_rel ts_displaces c)\<^sup>+"
    and dist: "distinct (map fst active)"
  shows "\<exists>removed. displaced_by c active t = Inr removed \<and> set removed = removed_by c active t
    \<and> sorted removed \<and> distinct removed"
proof (cases "map_of active t")
  case None
  then have new: "t \<notin> fst ` set active" by (simp add: map_of_eq_None_iff)
  define f where "f = (\<lambda>(active_id, _ :: ContributionRef). bindE (displacement_closure c active_id) (\<lambda>ds. Inr (active_id, ds)))"
  obtain ds where ds: "displacement_closure c t = Inr ds" using closure_of(1) [OF wf known(1)] by blast
  have row: "\<exists>y. f x = Inr y \<and> t \<notin> set (snd y)" if "x \<in> set active" for x
  proof -
    have x: "fst x \<in> fst ` set active" using that by simp
    then obtain ds where "displacement_closure c (fst x) = Inr ds" "set ds = (target_rel ts_displaces c)\<^sup>+ `` {fst x}"
      using closure_of(1) [OF wf, of "fst x"] known(2) by blast
    then show ?thesis using free [OF new] x by (auto simp: f_def split: prod.splits)
  qed
  then obtain g where g: "\<forall>x \<in> set active. f x = Inr (g x) \<and> t \<notin> set (snd (g x))" by metis
  then have rows: "mapE f active = Inr (map g active)" by (intro mapE_Inr) blast
  have none: "filter (\<lambda>(_, ds). t \<in> set ds) (map g active) = []" using g by (auto simp: filter_empty_conv split: prod.splits)
  let ?r = "sort (filter (\<lambda>t. t \<in> set ds) (map fst active))"
  have run: "displaced_by c active t = Inr ?r"
    using None rows none ds by (simp add: displaced_by_def Let_def f_def)
  show ?thesis using run displaced_by_eq(1) [OF wf known run] dist by (auto simp: removed_by_def)
next
  case (Some r)
  then have "t \<in> fst ` set active" by (metis domI dom_map_of_conv_image_fst)
  with Some show ?thesis by (simp add: displaced_by_def removed_by_def)
qed

lemma with_contribution_succeeds:
  assumes ok: "manifest_ok E m" and r: "entry_ok (ref_target_id r, r)"
    and removed: "distinct removed" "set removed = removed_by c (esm_entries m) (ref_target_id r)"
  shows "with_contribution E m r removed = Inr (next_stack c m r)"
proof -
  let ?es = "filter (\<lambda>(k, _). k \<notin> set removed) (esm_entries m)"
  have sub: "set removed \<subseteq> fst ` set (esm_entries m)" using removed(2) by (auto simp: removed_by_def split: if_splits)
  have rows: "\<forall>row \<in> set (esm_entries m). entry_ok row" "distinct (map fst (esm_entries m))"
    using ok by (simp_all add: manifest_ok_def)
  have "stack_target_id (PyStr t) ''remove target'' = Inr t" if "t \<in> set removed" for t
  proof -
    have "t \<in> fst ` set (esm_entries m)" using that sub by blast
    then obtain r' where "(t, r') \<in> set (esm_entries m)" by auto
    then have "entry_ok (t, r')" using rows(1) by blast
    then show ?thesis unfolding stack_target_id_field [of _ "''remove target''"] by (simp add: entry_ok_def)
  qed
  then have ids: "mapE (\<lambda>t. stack_target_id (PyStr t) ''remove target'') removed = Inr removed"
    using mapE_Inr [of removed "\<lambda>t. stack_target_id (PyStr t) ''remove target''" "\<lambda>t. t"] by simp
  have d: "distinct (map fst ?es)" using rows(2) by (simp add: distinct_map_filter)
  have "\<forall>row \<in> set (dict_set (ref_target_id r) r ?es). entry_ok row"
    using rows(1) r set_dict_set_subset [of "ref_target_id r" r ?es] by auto
  then have "EvaluationStackManifest_init E (manifest_row m)
      (map (\<lambda>(t, r). (PyStr t, r)) (dict_set (ref_target_id r) r ?es)) =
    Inr (m\<lparr>esm_entries := sort_key fst (dict_set (ref_target_id r) r ?es)\<rparr>)"
    by (intro manifest_init_ok [OF ok distinct_dict_set [OF d]])
  then show ?thesis
    using ids remove_entries [OF removed(1) sub] removed(1) unfolding removed(2) [symmetric]
    by (simp add: with_contribution_def next_stack_def Let_def removed(2))
qed

lemma TargetTransition_succeeds:
  assumes ok: "manifest_ok E m" and r: "entry_ok (ref_target_id r, r)" "ref_target_spec_digest r = spec" "is_digest spec"
    and removed: "sorted removed" "distinct removed" "set removed = removed_by c (esm_entries m) (ref_target_id r)"
    and delta: "\<And>p. map_of (esm_entries m) (ref_target_id r) = Some p \<Longrightarrow> ref_selected_delta E p \<noteq> ref_selected_delta E r"
  defines "tr \<equiv> \<lparr>tt_target_id = ref_target_id r, tt_target_spec_digest = spec, tt_replacement = r,
      tt_prior = map_of (esm_entries m) (ref_target_id r),
      tt_displaced = map (\<lambda>t. the (map_of (esm_entries m) t)) removed\<rparr>"
  shows "TargetTransition_new E tr = Inr tr" and "map (\<lambda>d. (ref_target_id d, d)) (tt_displaced tr) =
    map (\<lambda>t. (t, the (map_of (esm_entries m) t))) removed"
proof -
  have own: "ref_target_id p = t" if "map_of (esm_entries m) t = Some p" for t p
    using map_of_SomeD [OF that] ok by (auto simp: manifest_ok_def entry_ok_def)
  have names: "ref_target_id (the (map_of (esm_entries m) t)) = t" if "t \<in> set removed" for t
  proof -
    have "t \<in> fst ` set (esm_entries m)" using that removed(3) by (auto simp: removed_by_def split: if_splits)
    then obtain p where "map_of (esm_entries m) t = Some p" by (metis map_of_eq_None_iff not_None_eq)
    with own show ?thesis by simp
  qed
  then show "map (\<lambda>d. (ref_target_id d, d)) (tt_displaced tr) = map (\<lambda>t. (t, the (map_of (esm_entries m) t))) removed"
    by (simp add: tr_def)
  have ids: "map ref_target_id (map (\<lambda>t. the (map_of (esm_entries m) t)) removed) = removed"
    using names by (simp add: map_idI)
  have mem: "map_of (esm_entries m) (ref_target_id r) = Some p \<Longrightarrow> removed = []" for p
    using removed(3) by (simp add: removed_by_def rev_image_eqI [OF map_of_SomeD])
  have fresh: "ref_target_id r \<notin> set removed" using removed(3) by (auto simp: removed_by_def split: if_splits)
  have "ref_target_id r \<noteq> []" using r(1) by (auto simp: entry_ok_def stack_target_id_def stack_fail_def)
  then show "TargetTransition_new E tr = Inr tr" using ids removed(1,2) fresh r own mem delta
    by (auto simp: tr_def TargetTransition_new_def Let_def check_prior_def plan_digest_eq_Inr bindE_eq_Inr sorted_sort_id split: option.splits)
qed

section \<open>Success\<close>

lemma catalog_context:
  assumes "check_catalog c m ctx = Inr ()" and "validate_against m ctx = Inr ()"
    and "\<forall>(k, r) \<in> set es. map_of (esc_target_specs ctx) k = Some (ref_target_spec_digest r)"
  shows "validate_against (m\<lparr>esm_entries := es\<rparr>) ctx = Inr ()"
  using assms by (auto simp: validate_against_def stack_fail_def forE_eq_Inr check_entry_spec_def split: if_splits)

lemma entry_specs:
  assumes "validate_against m ctx = Inr ()" and "(k, r) \<in> set (esm_entries m)"
  shows "map_of (esc_target_specs ctx) k = Some (ref_target_spec_digest r)"
  using assms by (fastforce simp: validate_against_def stack_fail_def forE_eq_Inr check_entry_spec_def
      split: if_splits option.splits)

lemma planning_succeeds:
  assumes wf: "catalog_wf c" and bound: "check_catalog c m ctx = Inr ()" and valid: "validate_against m ctx = Inr ()"
    and ok: "manifest_ok E m" and adm: "admissible c (fst ` set (esm_entries m))"
    and t: "t = ref_target_id r" "entry_ok (t, r)" "target_spec_digest E c t = Inr (ref_target_spec_digest r)"
      "is_digest (ref_target_spec_digest r)" "map_of (esc_target_specs ctx) t = Some (ref_target_spec_digest r)"
    and free: "t \<notin> fst ` set (esm_entries m) \<Longrightarrow> \<forall>a \<in> fst ` set (esm_entries m). (a, t) \<notin> (target_rel ts_displaces c)\<^sup>+"
    and adm': "admissible c (insert t (fst ` set (esm_entries m) - removed_by c (esm_entries m) t))"
    and delta: "\<And>p. map_of (esm_entries m) t = Some p \<Longrightarrow> ref_selected_delta E p \<noteq> ref_selected_delta E r"
    and changed: "manifest_digest E (next_stack c m r) \<noteq> manifest_digest E m"
  shows "\<exists>removed. candidate_transition E c ctx m r = Inr (next_stack c m r,
      \<lparr>tt_target_id = t, tt_target_spec_digest = ref_target_spec_digest r, tt_replacement = r,
       tt_prior = map_of (esm_entries m) t, tt_displaced = map (\<lambda>t. the (map_of (esm_entries m) t)) removed\<rparr>)
    \<and> set removed = removed_by c (esm_entries m) t \<and> sorted removed \<and> distinct removed
    \<and> fst ` set (esm_entries (next_stack c m r)) = insert t (fst ` set (esm_entries m) - set removed)
    \<and> unrelated_changed (esm_entries m) (esm_entries (next_stack c m r)) removed t = Inr ()
    \<and> map_of (esm_entries (next_stack c m r)) t = Some r"
proof -
  let ?es = "esm_entries m" and ?cand = "esm_entries (next_stack c m r)"
  have dist: "distinct (map fst ?es)" using ok by (simp add: manifest_ok_def)
  obtain s where s: "catalog_require c t = Inr s" using t(3) by (auto simp: target_spec_digest_def bindE_eq_Inr)
  have known: "t \<in> fst ` set (tc_by_id c)" using s catalog_require_known by blast
  have act: "validate_active_targets c (map fst ?es) = Inr (sort (map fst ?es))"
    using adm dist by (simp add: validate_active_iff [OF wf])
  have reg: "check_registered E c m t = Inr (ref_target_spec_digest r)"
    using s t(3) act by (simp add: check_registered_def wrap_plan_def)
  obtain removed where removed: "displaced_by c ?es t = Inr removed" "set removed = removed_by c ?es t" "sorted removed" "distinct removed"
    using displaced_by_succeeds [OF wf known _ free dist] adm unfolding admissible_def by blast
  define tr where "tr = \<lparr>tt_target_id = t, tt_target_spec_digest = ref_target_spec_digest r, tt_replacement = r,
    tt_prior = map_of ?es t, tt_displaced = map (\<lambda>t. the (map_of ?es t)) removed\<rparr>"
  have tr: "TargetTransition_new E tr = Inr tr" unfolding tr_def t(1)
    using removed(2) t(2) delta unfolding t(1) by (intro TargetTransition_succeeds(1) [OF ok _ refl t(4) removed(3,4)]) simp_all
  have cand: "with_contribution E m r removed = Inr (next_stack c m r)"
    using with_contribution_succeeds [OF ok _ removed(4)] removed(2) t(2) unfolding t(1) by blast
  define kept where "kept = filter (\<lambda>(k, _). k \<notin> set removed) ?es"
  have entries: "?cand = sort_key fst (dict_set t r kept)"
    unfolding next_stack_def kept_def removed(2) t(1) Let_def by simp
  have kd: "distinct (map fst kept)" using dist by (simp add: kept_def distinct_map_filter)
  have kk: "fst ` set kept = fst ` set ?es - set removed" by (force simp: kept_def)
  have keys: "fst ` set ?cand = insert t (fst ` set ?es - set removed)" by (simp add: entries kk)
  have lookup: "map_of ?cand = (map_of kept)(t \<mapsto> r)"
    by (simp add: entries map_of_sort_key distinct_dict_set [OF kd])
  have "distinct (map fst ?cand)" by (simp add: entries distinct_map_sort_key distinct_dict_set [OF kd])
  then have act': "validate_active_targets c (map fst ?cand) = Inr (sort (map fst ?cand))"
    using adm' keys removed(2) by (simp add: validate_active_iff [OF wf])
  have "\<forall>(k, r) \<in> set ?cand. map_of (esc_target_specs ctx) k = Some (ref_target_spec_digest r)"
    using set_dict_set_subset [of t r kept] t(5) entry_specs [OF valid] by (auto simp: entries kept_def)
  then have valid': "validate_against (next_stack c m r) ctx = Inr ()"
    using catalog_context [OF bound valid, of ?cand] by (simp add: next_stack_def Let_def)
  have same: "unrelated_changed ?es ?cand removed t = Inr ()"
    using kd by (auto simp: unrelated_changed_def forE_eq_Inr lookup kept_def)
  have "candidate_transition E c ctx m r = Inr (next_stack c m r, tr)"
    using valid bound reg removed(1) tr cand act' valid' keys same changed
    by (simp add: candidate_transition_def Let_def wrap_plan_def t(1) [symmetric] tr_def)
  with removed(2-4) keys same lookup show ?thesis unfolding tr_def by auto
qed

lemma MarginalArmPlan_new_intro:
  assumes "map_baseline_before a = map_baseline_after a"
    and "sai_stack_digest (map_baseline_before a) = manifest_digest E (map_incumbent a)"
    and "sai_stack_digest (map_challenger a) = manifest_digest E (map_candidate a)"
    and "sai_tree_digest (map_challenger a) \<noteq> sai_tree_digest (map_baseline_before a)"
    and "map_of (esm_entries (map_incumbent a)) (tt_target_id (map_transition a)) = tt_prior (map_transition a)"
    and "map_of (esm_entries (map_candidate a)) (tt_target_id (map_transition a)) = Some (tt_replacement (map_transition a))"
    and "map (\<lambda>d. (ref_target_id d, d)) (tt_displaced (map_transition a)) = displaced"
    and "\<And>d r. (d, r) \<in> set displaced \<Longrightarrow> map_of (esm_entries (map_incumbent a)) d = Some r"
    and "fst ` set (esm_entries (map_candidate a)) =
      insert (tt_target_id (map_transition a)) (fst ` set (esm_entries (map_incumbent a)) - set (map fst displaced))"
    and "unrelated_changed (esm_entries (map_incumbent a)) (esm_entries (map_candidate a)) (map fst displaced)
      (tt_target_id (map_transition a)) = Inr ()"
  shows "MarginalArmPlan_new E a = Inr a"
proof -
  have "\<not> (\<exists>(d, r) \<in> set displaced. map_of (esm_entries (map_incumbent a)) d \<noteq> Some r)" using assms(8) by auto
  then show ?thesis unfolding MarginalArmPlan_new_def Let_def assms(7) using assms(1-6,9,10) by simp
qed

lemma arm_succeeds:
  assumes ok: "manifest_ok E m" and t: "t = ref_target_id r" "entry_ok (t, r)" "is_digest (ref_target_spec_digest r)"
    and delta: "\<And>p. map_of (esm_entries m) t = Some p \<Longrightarrow> ref_selected_delta E p \<noteq> ref_selected_delta E r"
    and run: "candidate_transition E c ctx m r = Inr (m',
      \<lparr>tt_target_id = t, tt_target_spec_digest = ref_target_spec_digest r, tt_replacement = r,
       tt_prior = map_of (esm_entries m) t, tt_displaced = map (\<lambda>t. the (map_of (esm_entries m) t)) removed\<rparr>)"
    and removed: "set removed = removed_by c (esm_entries m) t" "sorted removed" "distinct removed"
    and keys: "fst ` set (esm_entries m') = insert t (fst ` set (esm_entries m) - set removed)"
    and same: "unrelated_changed (esm_entries m) (esm_entries m') removed t = Inr ()" "map_of (esm_entries m') t = Some r"
    and hash: "\<forall>b. is_digest (sha256_hexdigest E b)"
    and trees: "is_digest itree" "is_digest ctree" "itree \<noteq> ctree"
  shows "\<exists>arm. plan_marginal_arm E c ctx m r itree ctree = Inr arm \<and> map_candidate arm = m'"
proof -
  let ?d = "map (\<lambda>t. (t, the (map_of (esm_entries m) t))) removed"
  have disp: "map (\<lambda>d. (ref_target_id d, d)) (map (\<lambda>t. the (map_of (esm_entries m) t)) removed) = ?d"
    using TargetTransition_succeeds(2) [OF ok _ refl t(3) removed(2,3)] removed(1) t(2) delta unfolding t(1) by simp
  have names: "map fst ?d = removed" by (simp add: comp_def)
  have found: "map_of (esm_entries m) k = Some p" if "(k, p) \<in> set ?d" for k p
  proof -
    have "k \<in> fst ` set (esm_entries m)" using that removed(1) by (auto simp: removed_by_def split: if_splits)
    then obtain q where "map_of (esm_entries m) k = Some q" by (metis map_of_eq_None_iff not_None_eq)
    with that show ?thesis by auto
  qed
  have digests: "is_digest (manifest_digest E x)" for x using hash by (simp add: manifest_digest_def json_digest_def)
  define arm where "arm = \<lparr>map_incumbent = m, map_candidate = m', map_transition =
      \<lparr>tt_target_id = t, tt_target_spec_digest = ref_target_spec_digest r, tt_replacement = r,
       tt_prior = map_of (esm_entries m) t, tt_displaced = map (\<lambda>t. the (map_of (esm_entries m) t)) removed\<rparr>,
      map_baseline_before = \<lparr>sai_stack_digest = manifest_digest E m, sai_tree_digest = itree\<rparr>,
      map_challenger = \<lparr>sai_stack_digest = manifest_digest E m', sai_tree_digest = ctree\<rparr>,
      map_baseline_after = \<lparr>sai_stack_digest = manifest_digest E m, sai_tree_digest = itree\<rparr>\<rparr>"
  have "MarginalArmPlan_new E arm = Inr arm"
  proof (rule MarginalArmPlan_new_intro)
    show "map (\<lambda>d. (ref_target_id d, d)) (tt_displaced (map_transition arm)) = ?d" using disp by (simp add: arm_def)
    show "map_of (esm_entries (map_incumbent arm)) k = Some p" if "(k, p) \<in> set ?d" for k p
      using found [OF that] by (simp only: arm_def MarginalArmPlan.simps)
    show "fst ` set (esm_entries (map_candidate arm)) =
        insert (tt_target_id (map_transition arm)) (fst ` set (esm_entries (map_incumbent arm)) - set (map fst ?d))"
      using keys names by (simp only: arm_def MarginalArmPlan.simps TargetTransition.simps)
    show "unrelated_changed (esm_entries (map_incumbent arm)) (esm_entries (map_candidate arm)) (map fst ?d)
        (tt_target_id (map_transition arm)) = Inr ()"
      using same(1) names by (simp only: arm_def MarginalArmPlan.simps TargetTransition.simps)
  qed (use trees(3) same(2) in \<open>simp_all add: arm_def\<close>)
  then show ?thesis using run trees digests
    by (auto simp add: plan_marginal_arm_def bindE_eq_Inr plan_digest_eq_Inr StackArmIdentity_new_eq_Inr arm_def)
qed

definition fits :: "py_env \<Rightarrow> TargetCatalog \<Rightarrow> EvaluationStackContext \<Rightarrow> EvaluationStackManifest \<Rightarrow> ContributionRef \<Rightarrow> bool" where
  "fits E c ctx m r =
     (let t = ref_target_id r; active = fst ` set (esm_entries m) in
      entry_ok (t, r) \<and> target_spec_digest E c t = Inr (ref_target_spec_digest r)
      \<and> map_of (esc_target_specs ctx) t = Some (ref_target_spec_digest r)
      \<and> (t \<notin> active \<longrightarrow> (\<forall>a \<in> active. (a, t) \<notin> (target_rel ts_displaces c)\<^sup>+))
      \<and> admissible c (insert t (active - removed_by c (esm_entries m) t))
      \<and> (\<forall>p. map_of (esm_entries m) t = Some p \<longrightarrow> ref_selected_delta E p \<noteq> ref_selected_delta E r)
      \<and> manifest_digest E (next_stack c m r) \<noteq> manifest_digest E m)"

lemma target_spec_is_digest: "\<forall>b. is_digest (sha256_hexdigest E b) \<Longrightarrow> target_spec_digest E c t = Inr d \<Longrightarrow> is_digest d"
  by (auto simp: target_spec_digest_def bindE_eq_Inr json_digest_def)

lemma planning_makes_arm:
  assumes wf: "catalog_wf c" and m: "check_catalog c m ctx = Inr ()" "validate_against m ctx = Inr ()" "manifest_ok E m"
      "admissible c (fst ` set (esm_entries m))"
    and fit: "fits E c ctx m r" and hash: "\<forall>b. is_digest (sha256_hexdigest E b)"
    and trees: "is_digest itree" "is_digest ctree" "itree \<noteq> ctree"
  shows "\<exists>arm. plan_marginal_arm E c ctx m r itree ctree = Inr arm \<and> map_candidate arm = next_stack c m r"
proof -
  define t where "t = ref_target_id r"
  have f: "entry_ok (t, r)" "target_spec_digest E c t = Inr (ref_target_spec_digest r)"
      "map_of (esc_target_specs ctx) t = Some (ref_target_spec_digest r)"
      "admissible c (insert t (fst ` set (esm_entries m) - removed_by c (esm_entries m) t))"
      "manifest_digest E (next_stack c m r) \<noteq> manifest_digest E m"
    and free: "t \<notin> fst ` set (esm_entries m) \<Longrightarrow> \<forall>a \<in> fst ` set (esm_entries m). (a, t) \<notin> (target_rel ts_displaces c)\<^sup>+"
    and delta: "map_of (esm_entries m) t = Some p \<Longrightarrow> ref_selected_delta E p \<noteq> ref_selected_delta E r" for p
    using fit unfolding fits_def Let_def t_def by blast+
  have d: "is_digest (ref_target_spec_digest r)" using target_spec_is_digest [OF hash f(2)] .
  obtain removed where run: "candidate_transition E c ctx m r = Inr (next_stack c m r,
      \<lparr>tt_target_id = t, tt_target_spec_digest = ref_target_spec_digest r, tt_replacement = r,
       tt_prior = map_of (esm_entries m) t, tt_displaced = map (\<lambda>t. the (map_of (esm_entries m) t)) removed\<rparr>)"
    and removed: "set removed = removed_by c (esm_entries m) t" "sorted removed" "distinct removed"
      "fst ` set (esm_entries (next_stack c m r)) = insert t (fst ` set (esm_entries m) - set removed)"
      "unrelated_changed (esm_entries m) (esm_entries (next_stack c m r)) removed t = Inr ()"
      "map_of (esm_entries (next_stack c m r)) t = Some r"
    using planning_succeeds [OF wf m t_def f(1,2) d f(3) free f(4) delta f(5)] by blast
  show ?thesis by (rule arm_succeeds [OF m(3) t_def f(1) d delta run removed hash trees])
qed

end
