(* ===== verification/Catalog_Properties.thy ===== *)
theory Catalog_Properties
  imports Catalog_Laws "HOL-Library.Code_Target_Nat"
begin

text \<open>
  The properties of the target catalog, each with a catalog on which it is instantiated: three
  slots, two of them composing under a rule, and an atomic target that displaces the third and one
  of them.
\<close>

section \<open>A catalog\<close>

definition sample_contract :: "string \<Rightarrow> TargetContractRef" where
  "sample_contract slot = \<lparr>tcr_schema_version = 1, tcr_slot_id = slot, tcr_kind = ''op'', tcr_entry = ''run'',
     tcr_prepare = None, tcr_graph_dynamic_inputs = [], tcr_input_abi_id = ''in'', tcr_output_abi_id = ''out'',
     tcr_reference_id = ''ref'', tcr_verification_profile_id = ''prof'', tcr_binding_family_id = ''moe'',
     tcr_correctness = \<lparr>ccr_mode = ''allclose'', ccr_top_k = 0, ccr_min_ratio = ''1'', ccr_min_cosine = ''0'',
       ccr_max_rel_norm_err = ''0'', ccr_min_overlap = ''0''\<rparr>,
     tcr_tolerances = [], tcr_kl_threshold = None\<rparr>"

definition sample_slot :: "string \<Rightarrow> string list \<Rightarrow> string list \<Rightarrow> TargetSpec" where
  "sample_slot slot compatible requires = \<lparr>ts_target_id = slot, ts_kind = SLOT, ts_members = [slot], ts_displaces = [],
     ts_compatible_with = compatible, ts_requires = requires, ts_allowed_features = [''entry''],
     ts_contract_ref = Some (sample_contract slot), ts_atomic_semantics_id = None\<rparr>"

definition sample_specs :: "TargetSpec list" where
  "sample_specs =
     [sample_slot ''plain'' [''reduce''] [], sample_slot ''reduce'' [''plain''] [''norm''], sample_slot ''norm'' [] [],
      \<lparr>ts_target_id = ''fused'', ts_kind = ATOMIC, ts_members = [''plain'', ''norm''], ts_displaces = [''plain'', ''norm''],
       ts_compatible_with = [], ts_requires = [], ts_allowed_features = [''entry'', ''prepare''], ts_contract_ref = None,
       ts_atomic_semantics_id = Some ''fused.v1''\<rparr>]"

definition sample_rule :: CompositionRule where
  "sample_rule = \<lparr>cr_schema_version = 1, cr_rule_id = ''moe.first'', cr_target_ids = [''plain'', ''reduce''],
     cr_precedence = [''reduce'', ''plain''], cr_mode = ''first_applicable'', cr_binding_family_id = ''moe'',
     cr_binding_contract_digest = replicate 64 (CHR ''a'')\<rparr>"

lemma sample_rule_new: "\<forall>r \<in> set [sample_rule]. CompositionRule_new r = Inr r"
  by code_simp

definition flat_env :: py_env where
  "flat_env = \<lparr>sha256_hexdigest = (\<lambda>b. replicate 64 (CHR ''a'')), decimal_ln = (\<lambda>x. x)\<rparr>"

lemma sample_catalog_run:
  "bindE (TargetCatalog_init flat_env JNull sample_specs [sample_rule])
     (\<lambda>c. validate_active_targets c [''plain'', ''norm'', ''reduce'']) = Inr [''norm'', ''plain'', ''reduce'']"
  by code_simp

lemma sample_catalog_obtain:
  obtains c where "TargetCatalog_init flat_env JNull sample_specs [sample_rule] = Inr c"
    and "validate_active_targets c [''plain'', ''norm'', ''reduce''] = Inr [''norm'', ''plain'', ''reduce'']"
  using sample_catalog_run by (auto simp: bindE_eq_Inr)

section \<open>Cycle checks\<close>

text \<open>The depth-first check of the constructor is exact: over a relation whose targets are all registered it
  ends without an error exactly when the relation has no cycle.\<close>

theorem dag_check_exact:
  assumes "snd ` graph_rel (rel_graph relation by_id) \<subseteq> fst ` set by_id"
  shows "validate_relation_dag name (rel_graph relation by_id) = Inr () \<longleftrightarrow> acyclic (graph_rel (rel_graph relation by_id))"
  by (rule validate_relation_dag_iff) (use assms in \<open>simp add: graph_closed_def\<close>)

theorem dag_check_exact_witness:
  "validate_relation_dag ''requires'' (rel_graph ts_requires [(''norm'', sample_slot ''norm'' [] [])]) = Inr () \<longleftrightarrow>
     acyclic (graph_rel (rel_graph ts_requires [(''norm'', sample_slot ''norm'' [] [])]))"
  by (rule dag_check_exact) (auto simp: graph_rel_def rel_graph_def sample_slot_def split: if_splits)

section \<open>Closures\<close>

text \<open>C18. In a constructed catalog neither displacement nor requirement has a cycle, and for every registered
  target the worklist of the constructor has found exactly the targets reachable by one or more steps:
  \<open>displacement_closure\<close> and \<open>requires_closure\<close> are the transitive closures of the two relations.\<close>

theorem catalog_closures_are_transitive:
  assumes "TargetCatalog_init E registry rows rules = Inr c"
  shows "acyclic (target_rel ts_displaces c) \<and> acyclic (target_rel ts_requires c)
    \<and> (\<forall>t \<in> fst ` set (tc_by_id c). \<exists>ds rs.
         displacement_closure c t = Inr ds \<and> set ds = (target_rel ts_displaces c)\<^sup>+ `` {t}
         \<and> requires_closure c t = Inr rs \<and> set rs = (target_rel ts_requires c)\<^sup>+ `` {t})"
proof -
  have wf: "catalog_wf c" by (rule constructed_wf [OF assms])
  with closure_of [OF wf] show ?thesis by (simp add: catalog_wf_def)
qed

theorem catalog_closures_are_transitive_witness:
  "\<exists>c. TargetCatalog_init flat_env JNull sample_specs [sample_rule] = Inr c
     \<and> acyclic (target_rel ts_displaces c) \<and> acyclic (target_rel ts_requires c)"
  by (rule sample_catalog_obtain) (blast dest: catalog_closures_are_transitive)

section \<open>Active sets\<close>

text \<open>C19. A constructed catalog accepts a set of targets as active exactly when they are distinct and
  registered, none of them displaces another, directly or through others, and everything that one of
  them requires is among them; it then returns them sorted.\<close>

theorem active_set_characterised:
  assumes "TargetCatalog_init E registry rows rules = Inr c"
  shows "validate_active_targets c ids = Inr os \<longleftrightarrow>
    distinct ids \<and> set ids \<subseteq> fst ` set (tc_by_id c) \<and> os = sort ids
    \<and> (\<forall>t \<in> set ids. (target_rel ts_displaces c)\<^sup>+ `` {t} \<inter> set ids = {}
          \<and> (target_rel ts_requires c)\<^sup>+ `` {t} \<subseteq> set ids)"
  using validate_active_iff [OF constructed_wf [OF assms]] by (auto simp: admissible_def)

theorem active_set_characterised_witness:
  "\<exists>c. TargetCatalog_init flat_env JNull sample_specs [sample_rule] = Inr c
     \<and> {''plain'', ''norm'', ''reduce''} \<subseteq> fst ` set (tc_by_id c)"
proof (rule sample_catalog_obtain)
  fix c assume c: "TargetCatalog_init flat_env JNull sample_specs [sample_rule] = Inr c"
    and val: "validate_active_targets c [''plain'', ''norm'', ''reduce''] = Inr [''norm'', ''plain'', ''reduce'']"
  show ?thesis using active_set_characterised [OF c, THEN iffD1, OF val] c by auto
qed

text \<open>C20. No slot has two owners: two targets that a constructed catalog accepts as active together have
  no semantic member in common.\<close>

theorem active_targets_own_disjoint_slots:
  assumes "TargetCatalog_init E registry rows rules = Inr c"
    and "validate_active_targets c ids = Inr os"
    and "t \<in> set os" and "t' \<in> set os" and "t \<noteq> t'"
    and "catalog_require c t = Inr s" and "catalog_require c t' = Inr s'"
  shows "set (ts_members s) \<inter> set (ts_members s') = {}"
proof -
  have wf: "catalog_wf c" by (rule constructed_wf [OF assms(1)])
  then have "admissible c (set ids)" "set os = set ids" using assms(2) validate_active_iff by auto
  with assms(3-7) show ?thesis
    by (intro admissible_disjoint [OF wf, of "set ids" t s t' s']) (auto simp: catalog_require_eq_Inr)
qed

theorem active_targets_own_disjoint_slots_witness:
  "\<exists>c s s'. TargetCatalog_init flat_env JNull sample_specs [sample_rule] = Inr c
     \<and> catalog_require c ''plain'' = Inr s \<and> catalog_require c ''reduce'' = Inr s'
     \<and> set (ts_members s) \<inter> set (ts_members s') = {}"
proof (rule sample_catalog_obtain)
  fix c assume c: "TargetCatalog_init flat_env JNull sample_specs [sample_rule] = Inr c"
    and val: "validate_active_targets c [''plain'', ''norm'', ''reduce''] = Inr [''norm'', ''plain'', ''reduce'']"
  have "''plain'' \<in> fst ` set (tc_by_id c)" "''reduce'' \<in> fst ` set (tc_by_id c)"
    using val validate_active_iff [OF constructed_wf [OF c]] by (auto simp: admissible_def)
  then obtain s s' where s: "catalog_require c ''plain'' = Inr s" "catalog_require c ''reduce'' = Inr s'"
    using catalog_require_known by blast
  from active_targets_own_disjoint_slots [OF c val _ _ _ s] c s show ?thesis by auto
qed

text \<open>C21. Ordering an accepted active set always ends with an order: the error for a cycle is never raised,
  the result has every active target exactly once, and of two targets that a composition rule orders,
  the earlier one comes first.\<close>

theorem active_order_total:
  assumes "TargetCatalog_init E registry rows rules = Inr c"
    and "\<forall>r \<in> set rules. CompositionRule_new r = Inr r"
    and "validate_active_targets c ids = Inr active"
  shows "\<exists>os. ordered_active_targets c ids = Inr os \<and> mset os = mset ids
    \<and> (\<forall>r \<in> set rules. \<forall>x y. cr_precedence r = [x, y] \<and> x \<in> set ids \<and> y \<in> set ids \<longrightarrow>
         (\<exists>us vs. os = us @ y # vs \<and> x \<in> set us))"
  by (rule ordered_active_ok [OF assms])

theorem active_order_total_witness:
  "\<exists>c os us vs. TargetCatalog_init flat_env JNull sample_specs [sample_rule] = Inr c
     \<and> ordered_active_targets c [''plain'', ''norm'', ''reduce''] = Inr os
     \<and> os = us @ ''plain'' # vs \<and> ''reduce'' \<in> set us"
proof (rule sample_catalog_obtain)
  fix c assume c: "TargetCatalog_init flat_env JNull sample_specs [sample_rule] = Inr c"
    and val: "validate_active_targets c [''plain'', ''norm'', ''reduce''] = Inr [''norm'', ''plain'', ''reduce'']"
  from active_order_total [OF c sample_rule_new val] c show ?thesis by (auto simp: sample_rule_def)
qed

end
