(* ===== verification/Sample_Hash.thy ===== *)
theory Sample_Hash
  imports Strict Dataclass "HOL-Library.Code_Target_Nat"
begin

text \<open>
  Digests for sample environments. A hash that tells one canonical text from all others is enough to
  evaluate a witness, and no text has to be computed: canonical encoding is injective.
\<close>

definition hash_a :: string where "hash_a = replicate 64 (CHR ''a'')"

definition hash_b :: string where "hash_b = replicate 64 (CHR ''b'')"

lemma hash_digests [simp]: "is_digest hash_a" "is_digest hash_b" "hash_a \<noteq> hash_b" "hash_b \<noteq> hash_a"
  by code_simp+

lemma json_sort_JObj_set:
  "json_sort (JObj kvs) = json_sort (JObj kvs') \<Longrightarrow> (\<lambda>(k, v). (k, json_sort v)) ` set kvs = (\<lambda>(k, v). (k, json_sort v)) ` set kvs'"
  by (metis (no_types, lifting) json.inject(5) json_sort.simps(2) json_sort_members_map list.set_map set_sort)

lemma envelope_inj:
  assumes "utf8 (json_dumps (digest_envelope d j 1)) = utf8 (json_dumps (digest_envelope d' j' 1))"
  shows "d = d'" and "json_sort j = json_sort j'"
proof -
  have "json_sort (digest_envelope d j 1) = json_sort (digest_envelope d' j' 1)"
    using assms by (rule canonical_bytes_inj)
  note rows = json_sort_JObj_set [OF this [unfolded digest_envelope_def], unfolded list.set image_insert image_empty prod.case]
  have "(''domain'', JStr d) \<in> {(''domain'', JStr d'), (''payload'', json_sort j'), (''schema_version'', JInt 1)}"
    "(''payload'', json_sort j) \<in> {(''domain'', JStr d'), (''payload'', json_sort j'), (''schema_version'', JInt 1)}"
    using equalityD1 [OF rows] by (simp_all only: insert_subset json_sort.simps)
  then show "d = d'" "json_sort j = json_sort j'" by simp_all
qed

end
