(* ===== verification/Plan_Properties.thy ===== *)
theory Plan_Properties
  imports Plan_Success Catalog_Properties Dataclass Sample_Hash
begin

text \<open>
  The properties of stack planning, on a plan that puts the atomic target of the sample catalog in
  the place of the two slots it displaces. The hash of the sample environment tells one manifest
  from everything else; that is enough here, and no text has to be evaluated.
\<close>

section \<open>A plan\<close>

definition split_env :: "json \<Rightarrow> py_env" where
  "split_env j = \<lparr>sha256_hexdigest = (\<lambda>b. if b = utf8 (json_dumps (digest_envelope ''optima.stack.evaluation'' j 1))
     then hash_b else hash_a), decimal_ln = (\<lambda>x. x)\<rparr>"

lemma split_env_digests: "\<forall>b. is_digest (sha256_hexdigest (split_env j) b)"
  by (simp add: split_env_def)

lemma split_digest:
  "json_digest (split_env j0) d j = hash_a" if "d \<noteq> ''optima.stack.evaluation'' \<or> json_sort j \<noteq> json_sort j0"
  using that envelope_inj [of d j "''optima.stack.evaluation''" j0] by (auto simp: json_digest_def split_env_def)

lemma split_digest_own: "json_digest (split_env j0) ''optima.stack.evaluation'' j0 = hash_b"
  by (simp add: json_digest_def split_env_def)

lemma flat_digest: "json_digest flat_env d j = hash_a"
  by (simp add: json_digest_def flat_env_def hash_a_def)

lemma catalog_under_split_env:
  "TargetCatalog_init (split_env j0) registry rows rules = TargetCatalog_init flat_env registry rows rules"
proof -
  have d: "json_digest (split_env j0) d j = json_digest flat_env d j" if "d \<noteq> ''optima.stack.evaluation''" for d j
    using that by (simp add: split_digest flat_digest)
  have c: "TargetContractRef_digest (split_env j0) = TargetContractRef_digest flat_env"
    by (intro ext) (simp add: TargetContractRef_digest_def d)
  have m: "member_contract_digest (split_env j0) = member_contract_digest flat_env"
    unfolding member_contract_digest_def by (simp only: c)
  have "json_digest (split_env j0) ''optima.atomic-target-contract'' = json_digest flat_env ''optima.atomic-target-contract''"
    by (intro ext d) simp
  then have "build_target_snapshot (split_env j0) = build_target_snapshot flat_env"
    unfolding build_target_snapshot_def by (simp only: c m)
  moreover have "catalog_snapshot (split_env j0) = catalog_snapshot flat_env"
    by (intro ext) (simp add: catalog_snapshot_def d)
  ultimately show ?thesis by (simp add: TargetCatalog_init_def d)
qed

definition sample_ref :: "string \<Rightarrow> ContributionRef" where
  "sample_ref t = Proposal \<lparr>pcr_target_id = t, pcr_target_spec_digest = hash_a, pcr_artifact_digest = hash_a,
     pcr_selected_payload_digest = hash_a, pcr_attribution_digest = hash_a\<rparr>"

definition sample_context :: "TargetCatalog \<Rightarrow> EvaluationStackContext" where
  "sample_context c = \<lparr>esc_runtime_digest = hash_a, esc_base_engine_digest = hash_a, esc_arena_digest = hash_a,
     esc_catalog_digest = tc_digest c, esc_catalog_json = json_sort (tc_snapshot c),
     esc_target_specs = [(''fused'', hash_a), (''norm'', hash_a), (''plain'', hash_a), (''reduce'', hash_a)]\<rparr>"

definition sample_stack :: "TargetCatalog \<Rightarrow> EvaluationStackManifest" where
  "sample_stack c = \<lparr>esm_runtime_digest = hash_a, esm_base_engine_digest = hash_a, esm_arena_digest = hash_a,
     esm_catalog_digest = tc_digest c, esm_catalog_json = json_sort (tc_snapshot c),
     esm_entries = [(''norm'', sample_ref ''norm''), (''plain'', sample_ref ''plain'')]\<rparr>"

definition plan_env :: "TargetCatalog \<Rightarrow> py_env" where
  "plan_env c = split_env (JObj (manifest_fields (sample_stack c)))"

lemma sample_transition_run:
  "bindE (TargetCatalog_init flat_env JNull sample_specs [sample_rule]) (\<lambda>c.
     bindE (validate_active_targets c [''norm'', ''plain'']) (\<lambda>a. bindE (validate_active_targets c [''fused'']) (\<lambda>b.
     bindE (displacement_closure c ''fused'') (\<lambda>x. bindE (displacement_closure c ''norm'') (\<lambda>y.
     bindE (displacement_closure c ''plain'') (\<lambda>z. Inr (sort x, y, z, tc_snapshot c = JNull))))))) =
   Inr ([''norm'', ''plain''], [], [], False)"
  by code_simp

lemma constructed_snapshot:
  assumes "TargetCatalog_init E registry rows rules = Inr c"
  shows "\<exists>row rows. tc_snapshot c = JObj (row # rows)" and "tc_digest c = json_digest E ''optima.target-catalog'' (tc_snapshot c)"
  using assms by (auto simp: TargetCatalog_init_def Let_def bindE_eq_Inr catalog_fail_def catalog_snapshot_def split: if_splits)

lemma json_sort_idem: "json_sort (json_sort j) = json_sort j"
proof (induction j)
  case (JObj kvs)
  let ?f = "\<lambda>(k, v). (k, json_sort v)"
  have "map ?f (map ?f kvs) = map ?f kvs" using JObj by fastforce
  moreover have "map ?f (insort_key fst x xs) = insort_key fst (?f x) (map ?f xs)" for x :: "string \<times> json" and xs
    by (induction xs) (auto split: prod.splits)
  then have "map ?f (sort_key fst xs) = sort_key fst (map ?f xs)" for xs :: "(string \<times> json) list"
    by (induction xs) simp_all
  ultimately show ?case by (simp add: json_sort_members_map sort_key_id_if_sorted del: map_map)
qed simp_all

lemma plan_env_digests: "\<forall>b. is_digest (sha256_hexdigest (plan_env c) b)"
  unfolding plan_env_def by (rule split_env_digests)

lemma sample_entry_ok: "\<forall>t \<in> {''fused'', ''norm'', ''plain''}. entry_ok (t, sample_ref t)"
  by code_simp

lemma sample_stack_ok:
  assumes c: "TargetCatalog_init flat_env JNull sample_specs [sample_rule] = Inr c"
  shows "manifest_ok (plan_env c) (sample_stack c)"
proof -
  obtain row rows where snap: "tc_snapshot c = JObj (row # rows)" using constructed_snapshot(1) [OF c] by blast
  have "tc_digest c = hash_a" using constructed_snapshot(2) [OF c] by (simp add: flat_digest)
  moreover obtain kv kvs where "json_sort (tc_snapshot c) = JObj (kv # kvs)"
    unfolding snap json_sort.simps by (cases "sort_key fst (json_sort_members (row # rows))")
      (auto simp: json_sort_members_map simp flip: length_0_conv split: prod.splits)
  ultimately have "catalog_binding (plan_env c) (py_of_json (json_sort (tc_snapshot c))) (PyStr (tc_digest c)) =
      Inr (json_sort (tc_snapshot c), tc_digest c)"
    using canonical_value_json [of "''payload''" "json_sort (tc_snapshot c)"] json_sort_idem [of "tc_snapshot c"]
    by (auto simp: catalog_binding_def catalog_json_def stack_digest_def plan_env_def split_digest split: prod.splits)
  then show ?thesis using sample_entry_ok by (simp add: manifest_ok_def sample_stack_def)
qed

lemma sample_plan:
  assumes c: "TargetCatalog_init flat_env JNull sample_specs [sample_rule] = Inr c"
    and act: "validate_active_targets c [''norm'', ''plain''] = Inr os" "validate_active_targets c [''fused''] = Inr os'"
    and cl: "displacement_closure c ''fused'' = Inr x" "set x = {''norm'', ''plain''}"
      "displacement_closure c ''norm'' = Inr []" "displacement_closure c ''plain'' = Inr []"
  defines "E \<equiv> plan_env c" and "m \<equiv> sample_stack c" and "ctx \<equiv> sample_context c" and "r \<equiv> sample_ref ''fused''"
  shows "check_catalog c m ctx = Inr ()" "validate_against m ctx = Inr ()" "manifest_ok E m"
    "admissible c (fst ` set (esm_entries m))" "fits E c ctx m r"
proof -
  have wf: "catalog_wf c" by (rule constructed_wf [OF c])
  show "check_catalog c m ctx = Inr ()" by (simp add: check_catalog_def m_def ctx_def sample_stack_def sample_context_def)
  show "validate_against m ctx = Inr ()"
    by (simp add: validate_against_def check_entry_spec_def m_def ctx_def sample_stack_def sample_context_def sample_ref_def)
  show "manifest_ok E m" unfolding E_def m_def by (rule sample_stack_ok [OF c])
  show "admissible c (fst ` set (esm_entries m))"
    using act(1) by (simp add: validate_active_iff [OF wf] m_def sample_stack_def)
  have known: "t \<in> fst ` set (tc_by_id c)" if "t \<in> {''fused'', ''norm'', ''plain''}" for t
    using that act by (auto simp: validate_active_iff [OF wf] admissible_def)
  have closure: "(target_rel ts_displaces c)\<^sup>+ `` {t} = set ds"
    if "displacement_closure c t = Inr ds" "t \<in> {''fused'', ''norm'', ''plain''}" for t ds
    using closure_of(1) [OF wf known [OF that(2)]] that(1) by auto
  have rel: "(target_rel ts_displaces c)\<^sup>+ `` {''fused''} = {''norm'', ''plain''}"
      "(target_rel ts_displaces c)\<^sup>+ `` {''norm''} = {}" "(target_rel ts_displaces c)\<^sup>+ `` {''plain''} = {}"
    using closure [OF cl(1)] closure [OF cl(3)] closure [OF cl(4)] unfolding cl(2) by simp_all
  have gone: "removed_by c (esm_entries m) ''fused'' = {''norm'', ''plain''}"
    by (simp add: removed_by_def rel m_def sample_stack_def)
  have next_m: "next_stack c m r = m\<lparr>esm_entries := [(''fused'', r)]\<rparr>"
    by (simp add: next_stack_def Let_def r_def sample_ref_def gone) (simp add: m_def sample_stack_def)
  have "json_sort (JObj (manifest_fields (next_stack c m r))) \<noteq> json_sort (JObj (manifest_fields m))"
  proof
    assume eq: "json_sort (JObj (manifest_fields (next_stack c m r))) = json_sort (JObj (manifest_fields m))"
    let ?old = "JObj (map (\<lambda>(t, ref). (t, JObj (ref_fields ref))) (esm_entries m))"
    have "(''entries'', json_sort (JObj [(''fused'', JObj (ref_fields r))])) \<in>
        (\<lambda>(k, v). (k, json_sort v)) ` set (manifest_fields m)"
      unfolding json_sort_JObj_set [OF eq, symmetric] next_m
      by (rule rev_image_eqI [of "(''entries'', JObj [(''fused'', JObj (ref_fields r))])"]) (simp_all add: manifest_fields_def)
    then have "json_sort (JObj [(''fused'', JObj (ref_fields r))]) = json_sort ?old"
      unfolding manifest_fields_def by (auto simp del: json_sort.simps)
    from json_sort_JObj_set [OF this] show False by (auto simp: m_def sample_stack_def)
  qed
  then have changed: "manifest_digest E (next_stack c m r) \<noteq> manifest_digest E m"
    by (simp add: manifest_digest_def E_def plan_env_def split_digest split_digest_own flip: m_def)
  obtain s where "catalog_require c ''fused'' = Inr s" using known catalog_require_known by blast
  then have spec: "target_spec_digest E c ''fused'' = Inr hash_a"
    by (simp add: target_spec_digest_def E_def plan_env_def split_digest)
  have "admissible c {''fused''}" using act(2) by (simp add: validate_active_iff [OF wf])
  moreover have "(''norm'', ''fused'') \<notin> (target_rel ts_displaces c)\<^sup>+" "(''plain'', ''fused'') \<notin> (target_rel ts_displaces c)\<^sup>+"
    using rel(2,3) by blast+
  ultimately show "fits E c ctx m r" using changed spec gone rel sample_entry_ok
    by (simp add: fits_def Let_def r_def sample_ref_def ctx_def sample_context_def m_def sample_stack_def)
qed

lemma sample_plan_obtain:
  obtains c arm where "TargetCatalog_init (plan_env c) JNull sample_specs [sample_rule] = Inr c"
    and "check_catalog c (sample_stack c) (sample_context c) = Inr ()"
    and "validate_against (sample_stack c) (sample_context c) = Inr ()" and "manifest_ok (plan_env c) (sample_stack c)"
    and "admissible c (fst ` set (esm_entries (sample_stack c)))"
    and "fits (plan_env c) c (sample_context c) (sample_stack c) (sample_ref ''fused'')"
    and "plan_marginal_arm (plan_env c) c (sample_context c) (sample_stack c) (sample_ref ''fused'') hash_a hash_b = Inr arm"
proof -
  obtain c x os os' where c: "TargetCatalog_init flat_env JNull sample_specs [sample_rule] = Inr c"
    and act: "validate_active_targets c [''norm'', ''plain''] = Inr os" "validate_active_targets c [''fused''] = Inr os'"
    and cl: "displacement_closure c ''fused'' = Inr x" "sort x = [''norm'', ''plain'']"
      "displacement_closure c ''norm'' = Inr []" "displacement_closure c ''plain'' = Inr []"
    using sample_transition_run by (auto simp: bindE_eq_Inr)
  have x: "set x = {''norm'', ''plain''}" using arg_cong [OF cl(2), of set] by simp
  note m = sample_plan [OF c act cl(1) x cl(3,4)]
  have c': "TargetCatalog_init (plan_env c) JNull sample_specs [sample_rule] = Inr c"
    using c by (simp add: plan_env_def catalog_under_split_env)
  have "\<exists>arm. plan_marginal_arm (plan_env c) c (sample_context c) (sample_stack c) (sample_ref ''fused'') hash_a hash_b = Inr arm"
    using planning_makes_arm [OF constructed_wf [OF c] m plan_env_digests, of hash_a hash_b] by auto
  then show thesis using that [OF c' m] by blast
qed

section \<open>Marginal transitions\<close>

text \<open>C22. What one contribution does to a stack, whatever was active before. A candidate that is planned on
  the incumbent has the replacement at its target, and its active targets are those of the incumbent
  with the target added and, when the target was not active yet, everything the target displaces,
  directly or through others, taken out. Every other entry is kept as it was, the candidate is an
  admissible active set of the catalog, nothing active displaces the target, and runtime, engine,
  arena and catalog are those of the incumbent.\<close>

theorem marginal_transition_exact:
  assumes "TargetCatalog_init E registry rows rules = Inr c"
    and "plan_candidate_stack E c ctx incumbent repl = Inr candidate"
    and "act = fst ` set (esm_entries incumbent)" and "t = ref_target_id repl"
    and "gone = (if t \<in> act then {} else (target_rel ts_displaces c)\<^sup>+ `` {t} \<inter> act)"
  shows "fst ` set (esm_entries candidate) = insert t (act - gone) \<and> map_of (esm_entries candidate) t = Some repl
    \<and> (\<forall>(k, r) \<in> set (esm_entries incumbent). k \<notin> gone \<and> k \<noteq> t \<longrightarrow> map_of (esm_entries candidate) k = Some r)
    \<and> admissible c (insert t (act - gone)) \<and> (t \<notin> act \<longrightarrow> (\<forall>a \<in> act. (a, t) \<notin> (target_rel ts_displaces c)\<^sup>+))
    \<and> esm_runtime_digest candidate = esm_runtime_digest incumbent
    \<and> esm_base_engine_digest candidate = esm_base_engine_digest incumbent
    \<and> esm_arena_digest candidate = esm_arena_digest incumbent
    \<and> esm_catalog_digest candidate = esm_catalog_digest incumbent"
  unfolding assms(3-5) by (intro conjI transition_stages [OF constructed_wf [OF assms(1)] assms(2)])

theorem marginal_transition_exact_witness:
  "\<exists>c candidate. plan_candidate_stack (plan_env c) c (sample_context c) (sample_stack c) (sample_ref ''fused'') = Inr candidate
     \<and> map_of (esm_entries candidate) ''fused'' = Some (sample_ref ''fused'')"
proof (rule sample_plan_obtain)
  fix c arm assume c: "TargetCatalog_init (plan_env c) JNull sample_specs [sample_rule] = Inr c"
    and "plan_marginal_arm (plan_env c) c (sample_context c) (sample_stack c) (sample_ref ''fused'') hash_a hash_b = Inr arm"
  then obtain cand where "plan_candidate_stack (plan_env c) c (sample_context c) (sample_stack c) (sample_ref ''fused'') = Inr cand"
    by (auto simp: plan_marginal_arm_def plan_candidate_stack_def bindE_eq_Inr)
  moreover from marginal_transition_exact [OF c this refl refl refl]
  have "map_of (esm_entries cand) (ref_target_id (sample_ref ''fused'')) = Some (sample_ref ''fused'')" by (elim conjE)
  moreover have "ref_target_id (sample_ref ''fused'') = ''fused''" by (simp add: sample_ref_def)
  ultimately show ?thesis by auto
qed

text \<open>C23. Planning is complete: over a constructed catalog, a context of that catalog and a constructed incumbent
  with an admissible active set, a contribution that fits is planned into a marginal arm, whose candidate
  is the incumbent with the replacement entered and what it displaces removed. A contribution fits when
  it names a registered target and its current spec digest, nothing active displaces that target, the
  resulting set is admissible, it changes the delta of a target that is active already, and the two
  manifests do not collide under the hash.\<close>

theorem planning_is_complete:
  assumes "TargetCatalog_init E registry rows rules = Inr c"
    and "check_catalog c incumbent ctx = Inr ()" and "validate_against incumbent ctx = Inr ()"
    and "manifest_ok E incumbent" and "admissible c (fst ` set (esm_entries incumbent))"
    and "fits E c ctx incumbent repl" and "\<forall>b. is_digest (sha256_hexdigest E b)"
    and "is_digest itree" and "is_digest ctree" and "itree \<noteq> ctree"
  shows "\<exists>arm. plan_marginal_arm E c ctx incumbent repl itree ctree = Inr arm
    \<and> map_candidate arm = next_stack c incumbent repl \<and> arm_reopen E c ctx arm = Inr arm"
  using planning_makes_arm [OF constructed_wf [OF assms(1)] assms(2-10)] planned_arm_reopens by blast

theorem planning_is_complete_witness:
  "\<exists>c arm. plan_marginal_arm (plan_env c) c (sample_context c) (sample_stack c) (sample_ref ''fused'') hash_a hash_b = Inr arm
     \<and> map_candidate arm = next_stack c (sample_stack c) (sample_ref ''fused'')"
proof (rule sample_plan_obtain)
  fix c arm assume c: "TargetCatalog_init (plan_env c) JNull sample_specs [sample_rule] = Inr c"
    "check_catalog c (sample_stack c) (sample_context c) = Inr ()" "validate_against (sample_stack c) (sample_context c) = Inr ()"
    "manifest_ok (plan_env c) (sample_stack c)" "admissible c (fst ` set (esm_entries (sample_stack c)))"
    "fits (plan_env c) c (sample_context c) (sample_stack c) (sample_ref ''fused'')"
  from planning_is_complete [OF c plan_env_digests, of hash_a hash_b]
  show ?thesis by auto
qed

section \<open>Rollback\<close>

text \<open>C24. Rollback restores the incumbent exactly. From every arm that planning gave, the rollback plan can
  be built, and reconstructing from it, with the candidate and its tree current, gives back the
  incumbent manifest and the incumbent tree.\<close>

theorem rollback_restores_incumbent:
  assumes "\<forall>b. is_digest (sha256_hexdigest E b)"
    and "plan_marginal_arm E c ctx incumbent repl itree ctree = Inr arm"
  shows "\<exists>p. rollback_from_arm E c ctx arm = Inr p
    \<and> rollback_reconstruct E c ctx p arm (map_candidate arm) ctree = Inr (incumbent, itree)"
  using assms by (rule rollback_restores)

theorem rollback_restores_incumbent_witness:
  "\<exists>c arm p. rollback_from_arm (plan_env c) c (sample_context c) arm = Inr p
     \<and> rollback_reconstruct (plan_env c) c (sample_context c) p arm (map_candidate arm) hash_b = Inr (sample_stack c, hash_a)"
proof (rule sample_plan_obtain)
  fix c arm
  assume "plan_marginal_arm (plan_env c) c (sample_context c) (sample_stack c) (sample_ref ''fused'') hash_a hash_b = Inr arm"
  from rollback_restores_incumbent [OF plan_env_digests this] show ?thesis by blast
qed

section \<open>Cohorts\<close>

text \<open>C25. A cohort is fair to the order of submission: sealing the same arms in any other order gives the same
  cohort, and the arms it executes are exactly the submitted ones, each once, in the order of their
  keys under the sealed entropy.\<close>

theorem cohort_order_is_fair:
  assumes "cohort_seal E c ctx raws entropy authority = Inr p" and "mset raws' = mset raws"
  shows "cohort_seal E c ctx raws' entropy authority = Inr p \<and> (\<exists>arms. execution_arms E p = Inr arms \<and> mset arms = mset raws
    \<and> sorted (map (execution_key E entropy) arms))"
  using cohort_seal_mset [OF assms] execution_arms_sorted [OF assms(1)] by simp

theorem cohort_order_is_fair_witness:
  "\<exists>c arm p. cohort_seal (plan_env c) c (sample_context c) [arm] hash_a [sample_ref ''fused''] = Inr p
     \<and> execution_arms (plan_env c) p = Inr [arm]"
proof (rule sample_plan_obtain)
  fix c arm
  assume arm: "plan_marginal_arm (plan_env c) c (sample_context c) (sample_stack c) (sample_ref ''fused'') hash_a hash_b = Inr arm"
  obtain cand tr where "candidate_transition (plan_env c) c (sample_context c) (sample_stack c) (sample_ref ''fused'') = Inr (cand, tr)"
    and base: "map_transition arm = tr" "map_baseline_before arm =
      \<lparr>sai_stack_digest = manifest_digest (plan_env c) (sample_stack c), sai_tree_digest = hash_a\<rparr>"
      "is_digest (manifest_digest (plan_env c) (sample_stack c))"
    using plan_marginal_arm_stages [OF arm] by auto
  then have "tt_replacement (map_transition arm) = sample_ref ''fused''" using candidate_transition_stages by blast
  then obtain p where p: "cohort_seal (plan_env c) c (sample_context c) [arm] hash_a [sample_ref ''fused''] = Inr p"
    using planned_arm_reopens [OF arm] base(2,3)
    by (simp add: cohort_seal_def CohortPlan_new_def Let_def bindE_eq_Inr plan_digest_eq_Inr StackArmIdentity_new_eq_Inr
        arm_contribution_def execution_order_def)
  with cohort_order_is_fair [OF p refl] show ?thesis by (metis mset_single_iff_right mset.simps)
qed

end
