(* ===== verification/Reward_Properties.thy ===== *)
theory Reward_Properties
  imports Reward_Outcome Plan_Properties Weight_Records
begin

text \<open>
  The properties of the emissions projection, on an arena whose stack holds the two slots of the
  sample plan: one crown of credit one, one of credit three million, and one discovery bounty.
\<close>

section \<open>An arena\<close>

definition sample_emissions :: EmissionsPolicyManifest where
  "sample_emissions = \<lparr>epm_half_life_blocks = 100, epm_discovery_lifetime_blocks = 50, epm_discovery_pool_ppm = 200000,
     epm_schema_version = PyInt 1, epm_policy_version = ''optima.emissions.v1''\<rparr>"

definition sample_reward_context :: RewardProjectionContext where
  "sample_reward_context = \<lparr>rpc_chain_scope_digest = hash_a, rpc_validator_hotkey = ''carol'', rpc_stack_generation = 3,
     rpc_current_block = 700, rpc_current_block_hash = ''0x'' @ hash_a,
     rpc_metagraph_members = [\<lparr>mm_uid = 0, mm_hotkey = ''carol''\<rparr>, \<lparr>mm_uid = 1, mm_hotkey = ''alice''\<rparr>, \<lparr>mm_uid = 2, mm_hotkey = ''bob''\<rparr>]\<rparr>"

definition sample_crown :: "string \<Rightarrow> string \<Rightarrow> int \<Rightarrow> StandingRewardClaim" where
  "sample_crown t hotkey credit = \<lparr>src_arena_digest = hash_a, src_target_id = t, src_target_spec_digest = hash_a,
     src_contribution_digest = hash_a, src_hotkey = hotkey, src_speedup_ppm = WEIGHT_PPM + credit, src_crowned_block = 700,
     src_retained_evidence_digest = hash_b\<rparr>"

definition sample_bounty :: DiscoveryBountyClaim where
  "sample_bounty = \<lparr>dbc_proposal_digest = hash_a, dbc_retained_evidence_digest = hash_b, dbc_hotkey = ''carol'',
     dbc_bounty_units = 7, dbc_awarded_block = 690\<rparr>"

definition sample_crowns :: "StandingRewardClaim list" where
  "sample_crowns = [sample_crown ''plain'' ''bob'' 3000000, sample_crown ''norm'' ''alice'' 1]"

definition sample_authority :: "TargetCatalog \<Rightarrow> ArenaRewardAuthority" where
  "sample_authority c = \<lparr>ara_catalog = c, ara_stack = sample_stack c, ara_stack_generation = 3, ara_standing_claims = sample_crowns\<rparr>"

definition sample_row :: "string \<Rightarrow> string \<Rightarrow> int \<Rightarrow> StandingFamilyCredit" where
  "sample_row t hotkey credit = \<lparr>sfc_arena_digest = hash_a, sfc_family_id = hash_a, sfc_target_id = t,
     sfc_claim_digest = hash_a, sfc_hotkey = hotkey, sfc_credit = credit\<rparr>"

lemma sample_emissions_ok: "policy_ok sample_emissions" "epm_schema_version sample_emissions = PyInt 1"
  by (simp_all add: policy_ok_def sample_emissions_def WEIGHT_PPM_def)

lemma sample_claims_ok: "\<forall>c \<in> set sample_crowns. standing_ok c" "bounty_ok sample_bounty"
  by (simp_all add: sample_crowns_def sample_crown_def standing_ok_def bounty_ok_def sample_bounty_def is_hotkey_def
      py_space_def WEIGHT_PPM_def)

lemma flat_env_digests: "\<forall>b. is_digest (sha256_hexdigest flat_env b)"
  using hash_digests(1) by (simp add: flat_env_def hash_a_def)

lemma sample_arena_run:
  assumes c: "TargetCatalog_init flat_env JNull sample_specs [sample_rule] = Inr c"
    and act: "validate_active_targets c [''norm'', ''plain''] = Inr os"
  shows "foldE (add_arena flat_env sample_emissions (global_of sample_reward_context)) [sample_authority c] ([], []) =
    Inr ([sample_row ''norm'' ''alice'' 1, sample_row ''plain'' ''bob'' 3000000], [(''alice'', 1), (''bob'', 3000000)])"
proof -
  have wf: "catalog_wf c" by (rule constructed_wf [OF c])
  have os: "os = [''norm'', ''plain'']" and known: "t \<in> {''norm'', ''plain''} \<Longrightarrow> t \<in> fst ` set (tc_by_id c)" for t
    using act by (auto simp: validate_active_iff [OF wf] admissible_def)
  have spec: "target_spec_digest flat_env c t = Inr hash_a" if t: "t \<in> {''norm'', ''plain''}" for t
  proof -
    obtain s where "catalog_require c t = Inr s" using known [OF t] catalog_require_known by blast
    then show ?thesis by (simp add: target_spec_digest_def flat_digest)
  qed
  have by_target: "dict_of (map (\<lambda>c. (src_target_id c, c)) sample_crowns) =
      [(''plain'', sample_crown ''plain'' ''bob'' 3000000), (''norm'', sample_crown ''norm'' ''alice'' 1)]"
    by (simp add: dict_of_def sample_crowns_def sample_crown_def)
  have row: "standing_credit flat_env sample_emissions (global_of sample_reward_context) (sample_authority c)
      [(''plain'', sample_crown ''plain'' ''bob'' 3000000), (''norm'', sample_crown ''norm'' ''alice'' 1)] t = Inr (sample_row t h n)"
    if "(t, h, n) \<in> {(''norm'', ''alice'', 1), (''plain'', ''bob'', 3000000)}" for t h n
    using that spec [of t]
    by (auto simp: standing_credit_def Let_def sample_authority_def sample_stack_def sample_crown_def sample_ref_def
        flat_digest eligible_hotkeys_def global_of_def sample_reward_context_def credit_at_def sample_emissions_def
        sample_row_def src_family_id_def StandingRewardClaim_digest_def)
  have arena: "add_arena flat_env sample_emissions (global_of sample_reward_context) (sample_authority c) ([], []) =
      foldE (add_standing flat_env sample_emissions (global_of sample_reward_context) (sample_authority c)
        [(''plain'', sample_crown ''plain'' ''bob'' 3000000), (''norm'', sample_crown ''norm'' ''alice'' 1)]) [''norm'', ''plain''] ([], [])"
    using act os by_target by (simp add: add_arena_def sample_authority_def sample_stack_def active_families_def Let_def
        sample_crowns_def insert_commute)
  show ?thesis unfolding foldE.simps arena
    using row [of "''norm''" "''alice''" 1] row [of "''plain''" "''bob''" 3000000]
    by (simp add: add_standing_def sample_row_def dict_add_def dict_get_Cons)
qed

lemma sample_rewards_obtain:
  obtains c where "authorities_ok [sample_authority c]" and "is_digest (tc_digest c)"
    and "foldE (add_arena flat_env sample_emissions (global_of sample_reward_context)) [sample_authority c] ([], []) =
      Inr ([sample_row ''norm'' ''alice'' 1, sample_row ''plain'' ''bob'' 3000000], [(''alice'', 1), (''bob'', 3000000)])"
proof -
  obtain c os where c: "TargetCatalog_init flat_env JNull sample_specs [sample_rule] = Inr c"
    and act: "validate_active_targets c [''norm'', ''plain''] = Inr os"
    using sample_transition_run by (auto simp: bindE_eq_Inr)
  have "authorities_ok [sample_authority c]"
    using constructed_wf [OF c] sample_claims_ok(1) by (simp add: authorities_ok_def sample_authority_def)
  moreover have "is_digest (tc_digest c)" using constructed_snapshot(2) [OF c] by (simp add: flat_digest)
  ultimately show thesis using that sample_arena_run [OF c act] by blast
qed

lemma sample_bounty_run:
  "foldE (add_discovery flat_env sample_emissions (global_of sample_reward_context))
     (sort_key (DiscoveryBountyClaim_digest flat_env) [sample_bounty]) ([], [], []) =
   Inr ([\<lparr>dbr_claim_digest = hash_a, dbr_hotkey = ''carol'', dbr_credit = 7\<rparr>], [], [(''carol'', 7)])"
  by (simp add: add_discovery_def live_at_def sample_bounty_def global_of_def sample_reward_context_def sample_emissions_def
      eligible_hotkeys_def DiscoveryBountyClaim_digest_def flat_digest dict_add_def)

lemma sample_projection:
  assumes "authorities_ok [sample_authority c]" and "foldE (add_arena flat_env sample_emissions (global_of sample_reward_context))
      [sample_authority c] ([], []) = Inr ([sample_row ''norm'' ''alice'' 1, sample_row ''plain'' ''bob'' 3000000], owed)"
    and "ds = [] \<or> ds = [sample_bounty]"
  shows "\<exists>p. project_global_rewards flat_env sample_emissions (global_of sample_reward_context) [sample_authority c] ds = Inr p"
  using assms(3)
proof (elim disjE; hypsubst)
  have pos: "0 < sum_list (map snd (standing_pairs [sample_row ''norm'' ''alice'' 1, sample_row ''plain'' ''bob'' 3000000]))"
    by (simp add: sample_row_def)
  have r: "foldE (add_arena flat_env sample_emissions (global_of sample_reward_context))
      (sort_key ara_arena_digest [sample_authority c]) ([], []) =
      Inr ([sample_row ''norm'' ''alice'' 1, sample_row ''plain'' ''bob'' 3000000], owed)"
    using assms(2) by simp
  note run = projection_exists [OF sample_emissions_ok flat_env_digests _ _ assms(1) r pos]
  show "\<exists>p. project_global_rewards flat_env sample_emissions (global_of sample_reward_context) [sample_authority c] [] = Inr p"
    by (rule run [of "[]" "[]" "[]" "[]"]) (simp_all add: discovery_distinct_def)
  show "\<exists>p. project_global_rewards flat_env sample_emissions (global_of sample_reward_context) [sample_authority c] [sample_bounty] = Inr p"
    by (rule run [OF _ _ _ _ sample_bounty_run])
      (use sample_claims_ok in \<open>simp_all add: discovery_distinct_def sample_emissions_def\<close>)
qed


section \<open>The vector\<close>

text \<open>C26. When the projection exists. Over a policy with schema version 1, well-formed catalogs and claims, the
  projection succeeds exactly when there are arenas, all different, the authority checks of every arena
  pass and leave some positive credit, no discovery claim is renewed, every live one belongs to a current
  hotkey, and bounties are enabled if one is live. The checks on the finished vector (canonical order,
  exact normalization) never fail.\<close>

theorem rewards_projected_iff:
  assumes "policy_ok policy" and "epm_schema_version policy = PyInt 1" and "\<forall>b. is_digest (sha256_hexdigest E b)"
    and "authorities_ok arenas" and "\<forall>c \<in> set ds. bounty_ok c"
  shows "(\<exists>p. project_global_rewards E policy ctx arenas ds = Inr p) \<longleftrightarrow>
    arenas \<noteq> [] \<and> distinct (map ara_arena_digest arenas) \<and> discovery_distinct E ds
    \<and> (\<exists>rows owed live expired bounty.
         foldE (add_arena E policy ctx) (sort_key ara_arena_digest arenas) ([], []) = Inr (rows, owed)
         \<and> 0 < sum_list (map sfc_credit rows)
         \<and> foldE (add_discovery E policy ctx) (sort_key (DiscoveryBountyClaim_digest E) ds) ([], [], []) = Inr (live, expired, bounty)
         \<and> (live \<noteq> [] \<longrightarrow> 0 < epm_discovery_pool_ppm policy))"
  using projection_iff [OF assms] .

theorem rewards_projected_iff_witness:
  "\<exists>c p. project_global_rewards flat_env sample_emissions (global_of sample_reward_context) [sample_authority c] [sample_bounty] = Inr p
     \<and> discovery_distinct flat_env [sample_bounty]"
proof (rule sample_rewards_obtain)
  fix c assume ok: "authorities_ok [sample_authority c]"
    and run: "foldE (add_arena flat_env sample_emissions (global_of sample_reward_context)) [sample_authority c] ([], []) =
      Inr ([sample_row ''norm'' ''alice'' 1, sample_row ''plain'' ''bob'' 3000000], [(''alice'', 1), (''bob'', 3000000)])"
  have p: "\<exists>p. project_global_rewards flat_env sample_emissions (global_of sample_reward_context) [sample_authority c] [sample_bounty] = Inr p"
    using sample_projection [OF ok run] by blast
  have "\<forall>c \<in> set [sample_bounty]. bounty_ok c" using sample_claims_ok(2) by simp
  from rewards_projected_iff [OF sample_emissions_ok flat_env_digests ok this, THEN iffD1, OF p]
  have "discovery_distinct flat_env [sample_bounty]" by (elim conjE)
  with p show ?thesis by blast
qed

text \<open>C27. What the vector is. Its hotkeys are sorted and different, all of them in the current metagraph, exactly
  those with credit in one of the pools; its weights sum to one million, and each weight is the rounded
  largest-remainder share of the standing pool plus that of the discovery pool. The same arenas and claims in
  another order give the same projection.\<close>

theorem reward_weights_are_fair:
  assumes "policy_ok policy" and "authorities_ok arenas" and "\<forall>c \<in> set ds. bounty_ok c"
    and "project_global_rewards E policy ctx arenas ds = Inr p"
    and "mset arenas' = mset arenas" and "mset ds' = mset ds"
  shows "fair_weights policy (grp_standing p) (grp_discovery p) (grp_weights p)
    \<and> hw_hotkey ` set (grp_weights p) \<subseteq> eligible_hotkeys ctx
    \<and> project_global_rewards E policy ctx arenas' ds' = Inr p"
  using projection_fair [OF assms(1-4)] projection_order [OF assms(5,6)] assms(4) by simp

theorem reward_weights_are_fair_witness:
  "\<exists>c p. project_global_rewards flat_env sample_emissions (global_of sample_reward_context) [sample_authority c] [sample_bounty] = Inr p
     \<and> fair_weights sample_emissions (grp_standing p) (grp_discovery p) (grp_weights p)"
proof (rule sample_rewards_obtain)
  fix c assume ok: "authorities_ok [sample_authority c]"
    and run: "foldE (add_arena flat_env sample_emissions (global_of sample_reward_context)) [sample_authority c] ([], []) =
      Inr ([sample_row ''norm'' ''alice'' 1, sample_row ''plain'' ''bob'' 3000000], [(''alice'', 1), (''bob'', 3000000)])"
  obtain p where p: "project_global_rewards flat_env sample_emissions (global_of sample_reward_context) [sample_authority c] [sample_bounty] = Inr p"
    using sample_projection [OF ok run] by blast
  from reward_weights_are_fair [OF sample_emissions_ok(1) ok _ p refl refl] sample_claims_ok(2) p show ?thesis by auto
qed

text \<open>The single-arena wrapper is the global projection: for a constructed context it gives, and raises, exactly
  what the projection of the one-arena world gives and raises.\<close>

theorem project_rewards_is_global:
  assumes "RewardProjectionContext_init row members = Inr ctx" and "\<forall>b. is_digest (sha256_hexdigest E b)"
    and "is_digest (tc_digest catalog)" and "\<forall>c \<in> set ds. bounty_ok c"
    and "authority = \<lparr>ara_catalog = catalog, ara_stack = stack, ara_stack_generation = rpc_stack_generation ctx,
      ara_standing_claims = claims\<rparr>"
  shows "project_rewards E policy catalog stack ctx claims ds =
    bindE (project_global_rewards E policy (global_of ctx) [authority] ds) (\<lambda>g. Inr (single_of E catalog stack ctx g))"
  unfolding assms(5) by (rule single_is_global [OF assms(1-4)])

definition sample_context_row :: "(string \<times> pyval) list" where
  "sample_context_row = [(''chain_scope_digest'', PyStr hash_a), (''validator_hotkey'', PyStr ''carol''),
     (''stack_generation'', PyInt 3), (''current_block'', PyInt 700), (''current_block_hash'', PyStr (''0x'' @ hash_a))]"

lemma sample_context_init:
  "RewardProjectionContext_init sample_context_row (rpc_metagraph_members sample_reward_context) = Inr sample_reward_context"
  by code_simp

theorem project_rewards_is_global_witness:
  "\<exists>c r. project_rewards flat_env sample_emissions c (sample_stack c) sample_reward_context sample_crowns [sample_bounty] = Inr r"
proof (rule sample_rewards_obtain)
  fix c assume ok: "authorities_ok [sample_authority c]" "is_digest (tc_digest c)"
    and run: "foldE (add_arena flat_env sample_emissions (global_of sample_reward_context)) [sample_authority c] ([], []) =
      Inr ([sample_row ''norm'' ''alice'' 1, sample_row ''plain'' ''bob'' 3000000], [(''alice'', 1), (''bob'', 3000000)])"
  have a: "sample_authority c = \<lparr>ara_catalog = c, ara_stack = sample_stack c,
      ara_stack_generation = rpc_stack_generation sample_reward_context, ara_standing_claims = sample_crowns\<rparr>"
    by (simp add: sample_authority_def sample_reward_context_def)
  obtain p where "project_global_rewards flat_env sample_emissions (global_of sample_reward_context) [sample_authority c] [sample_bounty] = Inr p"
    using sample_projection [OF ok(1) run] by blast
  with project_rewards_is_global [OF sample_context_init flat_env_digests ok(2) _ a, of "[sample_bounty]" sample_emissions] sample_claims_ok(2)
  show ?thesis by auto
qed

section \<open>Decay\<close>

text \<open>C28. The credit of a crown is defined at every block from its crowning on, lies between zero and the improvement,
  never grows, and is half the improvement (rounded down) after the half life.\<close>

theorem crown_credit_decays:
  assumes "policy_ok policy" and "standing_ok claim" and "src_crowned_block claim \<le> block" and "block \<le> later"
  shows "\<exists>n n'. credit_at claim block policy = Inr n \<and> credit_at claim later policy = Inr n'
    \<and> 0 \<le> n' \<and> n' \<le> n \<and> n \<le> src_speedup_ppm claim - WEIGHT_PPM
    \<and> credit_at claim (src_crowned_block claim + epm_half_life_blocks policy) policy = Inr ((src_speedup_ppm claim - WEIGHT_PPM) div 2)"
  using credit_bounds [OF assms] .

theorem crown_credit_decays_witness:
  "\<exists>n. credit_at (sample_crown ''plain'' ''bob'' 3000000) 800 sample_emissions = Inr n \<and> n \<le> 3000000"
proof -
  have "standing_ok (sample_crown ''plain'' ''bob'' 3000000)" using sample_claims_ok(1) by (simp add: sample_crowns_def)
  from crown_credit_decays [OF sample_emissions_ok(1) this, of 800 900] show ?thesis by (auto simp: sample_crown_def)
qed

section \<open>Starved hotkeys\<close>



end
