(* ===== verification/Settlement.thy ===== *)
theory Settlement
  imports Stack_Plan Py_Decimal
begin

text \<open>
  The records of \<open>optima/settlement.py\<close>: a qualification is one passing run of a contribution, a
  candidate pairs a primary run with an independent reproduction of it, evidence names the retained
  artifacts of both. The slot audit policy (\<open>eval/oci_session_protocol.py\<close>) and the reference to a
  retained artifact (\<open>eval/evidence_store.py\<close>) are the two foreign values a candidate carries.
  Exact-type checks of the constructors are types of the model.
\<close>

section \<open>Validators\<close>

definition settle_fail :: "string \<Rightarrow> py_error + 'a" where
  "settle_fail message = Inl (SettlementError message)"

definition settle_digest :: "pyval \<Rightarrow> string \<Rightarrow> bool \<Rightarrow> py_error + string" where
  "settle_digest v field optional = require_digest v field SettlementError False optional"

definition ascii_alnum :: "char \<Rightarrow> bool" where
  "ascii_alnum c = (let n = of_char c :: nat in (48 \<le> n \<and> n \<le> 57) \<or> (65 \<le> n \<and> n \<le> 90) \<or> (97 \<le> n \<and> n \<le> 122))"

text \<open>\<open>[A-Za-z0-9][A-Za-z0-9._:-]{0,255}\Z\<close>.\<close>

definition settle_id :: "string \<Rightarrow> bool" where
  "settle_id s = (case s of [] \<Rightarrow> False
     | c # r \<Rightarrow> ascii_alnum c \<and> length r \<le> 255 \<and> list_all (\<lambda>d. ascii_alnum d \<or> d \<in> set ''._:-'') r)"

definition settle_identifier :: "pyval \<Rightarrow> string \<Rightarrow> py_error + string" where
  "settle_identifier v field = require_identifier v field SettlementError settle_id"

definition settle_integer :: "pyval \<Rightarrow> string \<Rightarrow> py_error + int" where
  "settle_integer v field = require_int v field SettlementError (Some 0) None"

definition settle_speedup :: "pyval \<Rightarrow> py_error + string" where
  "settle_speedup v =
     (case v of
        PyStr s \<Rightarrow>
          (let low = settle_fail ''a settlement candidate must have speedup greater than one'' in
           case dec_parse s of
             None \<Rightarrow> settle_fail ''speedup is not decimal''
           | Some DSpecial \<Rightarrow> low
           | Some (DFin neg c e) \<Rightarrow>
               if dec_value (DFin neg c e) \<le> 1 then low else
               bindE (dec_normalize c e) (\<lambda>(c', e').
               let canonical = dec_canonical_text c' e' in
               if s \<noteq> canonical
               then settle_fail (''speedup must use canonical decimal spelling '' @ show_name canonical)
               else Inr canonical))
      | _ \<Rightarrow> settle_fail ''speedup must be an exact decimal string'')"

text \<open>
  The loops of the constructors over field names. Each validator returns the value it was given, so
  the fields are read from the arguments afterwards.
\<close>

definition check_digests :: "(string \<times> pyval) list \<Rightarrow> string list \<Rightarrow> py_error + unit" where
  "check_digests row names = forE names (\<lambda>f. bindE (settle_digest (kwarg row f) f False) (\<lambda>_. Inr ()))"

definition check_identifiers :: "(string \<times> pyval) list \<Rightarrow> string list \<Rightarrow> py_error + unit" where
  "check_identifiers row names = forE names (\<lambda>f. bindE (settle_identifier (kwarg row f) f) (\<lambda>_. Inr ()))"

definition check_integers :: "(string \<times> pyval) list \<Rightarrow> string list \<Rightarrow> py_error + unit" where
  "check_integers row names = forE names (\<lambda>f. bindE (settle_integer (kwarg row f) f) (\<lambda>_. Inr ()))"

definition row_str :: "(string \<times> pyval) list \<Rightarrow> string \<Rightarrow> string" where
  "row_str row f = (case kwarg row f of PyStr s \<Rightarrow> s | _ \<Rightarrow> [])"

definition row_int :: "(string \<times> pyval) list \<Rightarrow> string \<Rightarrow> int" where
  "row_int row f = (case kwarg row f of PyInt n \<Rightarrow> n | _ \<Rightarrow> 0)"

text \<open>\<open>type(value) is not dict or set(value) != fields\<close>, for one or several sets of fields.\<close>

definition closed_row :: "pyval \<Rightarrow> string list list \<Rightarrow> py_error \<Rightarrow> py_error + (string \<times> pyval) list" where
  "closed_row v schemas e =
     (case v of
        PyDict d \<Rightarrow>
          (case str_keys d of
             None \<Rightarrow> Inl e
           | Some row \<Rightarrow> if list_ex (\<lambda>names. set (map fst row) = set names) schemas then Inr row else Inl e)
      | _ \<Rightarrow> Inl e)"

section \<open>The slot audit policy\<close>

definition protocol_fail :: "string \<Rightarrow> py_error + 'a" where
  "protocol_fail message = Inl (SessionProtocolError message)"

definition bounded_int :: "pyval \<Rightarrow> string \<Rightarrow> int \<Rightarrow> int \<Rightarrow> py_error + int" where
  "bounded_int v field minimum maximum = require_int v field SessionProtocolError (Some minimum) (Some maximum)"

text \<open>\<open>[A-Za-z0-9_.:+/@-]{1,256}\Z\<close> and a nonzero \<open>[0-9a-f]{32}\Z\<close>.\<close>

definition is_token :: "string \<Rightarrow> bool" where
  "is_token s = (1 \<le> length s \<and> length s \<le> 256 \<and> list_all (\<lambda>c. ascii_alnum c \<or> c \<in> set ''_.:+/@-'') s)"

definition is_binding_id :: "string \<Rightarrow> bool" where
  "is_binding_id s = (length s = 32 \<and> list_all lower_hex s \<and> s \<noteq> replicate 32 (CHR ''0''))"

definition binding_id :: "pyval \<Rightarrow> string \<Rightarrow> py_error + string" where
  "binding_id v field =
     (let fail = protocol_fail (field @ '' must be nonzero 128-bit lowercase hex'') in
      case v of PyStr s \<Rightarrow> if is_binding_id s then Inr s else fail | _ \<Rightarrow> fail)"

definition MAX_AUDIT_RECEIPTS :: int where "MAX_AUDIT_RECEIPTS = 4096"

record SlotAuditControl =
  sac_sample_rate_ppm :: int
  sac_minimum_calls :: int
  sac_expected_slots :: "string list"
  sac_expected_member_count :: int

definition audit_slots :: "pyval list \<Rightarrow> py_error + string list" where
  "audit_slots slots =
     (let fail = protocol_fail ''audit expected_slots must be a nonempty sorted unique token array'' in
      if slots = [] \<or> MAX_AUDIT_RECEIPTS < int (length slots) then fail else
      bindE (str_items slots ''audit expected_slots'') (\<lambda>names.
      if \<not> sorted_unique names \<or> \<not> list_all is_token names then fail else Inr names))"

definition SlotAuditControl_init :: "pyval \<Rightarrow> pyval \<Rightarrow> pyval list \<Rightarrow> pyval \<Rightarrow> py_error + SlotAuditControl" where
  "SlotAuditControl_init sample_rate_ppm minimum_calls expected_slots expected_member_count =
     bindE (bounded_int sample_rate_ppm ''audit sample_rate_ppm'' 1 1000000) (\<lambda>rate.
     bindE (bounded_int minimum_calls ''audit minimum_calls'' 1 1000000000) (\<lambda>calls.
     bindE (audit_slots expected_slots) (\<lambda>slots.
     bindE (bounded_int expected_member_count ''audit expected_member_count'' 1 64) (\<lambda>count.
     if MAX_AUDIT_RECEIPTS < int (length slots) * count
     then protocol_fail ''audit slot/member receipt bound is exceeded'' else
     Inr \<lparr>sac_sample_rate_ppm = rate, sac_minimum_calls = calls, sac_expected_slots = slots,
          sac_expected_member_count = count\<rparr>))))"

definition SlotAuditControl_fields :: "SlotAuditControl \<Rightarrow> (string \<times> json) list" where
  "SlotAuditControl_fields c =
     [(''expected_member_count'', JInt (sac_expected_member_count c)),
      (''expected_slots'', JList (map JStr (sac_expected_slots c))), (''minimum_calls'', JInt (sac_minimum_calls c)),
      (''sample_rate_ppm'', JInt (sac_sample_rate_ppm c))]"

definition SlotAuditControl_digest :: "py_env \<Rightarrow> SlotAuditControl \<Rightarrow> string" where
  "SlotAuditControl_digest E c = json_digest E ''optima.eval.slot-audit-control.v1'' (JObj (SlotAuditControl_fields c))"

text \<open>A policy is a control and a seed; the control is rebuilt from fields that were validated already.\<close>

record SlotAuditPolicy =
  sap_validator_seed :: string
  sap_control :: SlotAuditControl

definition SlotAuditPolicy_init :: "pyval \<Rightarrow> pyval \<Rightarrow> pyval \<Rightarrow> pyval list \<Rightarrow> pyval \<Rightarrow> py_error + SlotAuditPolicy" where
  "SlotAuditPolicy_init validator_seed sample_rate_ppm minimum_calls expected_slots expected_member_count =
     bindE (binding_id validator_seed ''audit validator_seed'') (\<lambda>seed.
     bindE (SlotAuditControl_init sample_rate_ppm minimum_calls expected_slots expected_member_count) (\<lambda>control.
     Inr \<lparr>sap_validator_seed = seed, sap_control = control\<rparr>))"

definition SlotAuditPolicy_fields :: "SlotAuditPolicy \<Rightarrow> (string \<times> json) list" where
  "SlotAuditPolicy_fields p = SlotAuditControl_fields (sap_control p) @ [(''validator_seed'', JStr (sap_validator_seed p))]"

definition SlotAuditPolicy_from_dict :: "pyval \<Rightarrow> py_error + SlotAuditPolicy" where
  "SlotAuditPolicy_from_dict v =
     bindE (closed_row v [[''expected_member_count'', ''expected_slots'', ''minimum_calls'', ''sample_rate_ppm'', ''validator_seed'']]
       (SessionProtocolError ''slot audit policy fields do not match the schema'')) (\<lambda>row.
     case kwarg row ''expected_slots'' of
       PyList slots \<Rightarrow> SlotAuditPolicy_init (kwarg row ''validator_seed'') (kwarg row ''sample_rate_ppm'')
         (kwarg row ''minimum_calls'') slots (kwarg row ''expected_member_count'')
     | _ \<Rightarrow> protocol_fail ''audit expected_slots must be an array'')"

section \<open>References to retained artifacts\<close>

definition HARD_MAX_EVIDENCE_BYTES :: int where "HARD_MAX_EVIDENCE_BYTES = 1073741824"

definition lower_alnum :: "char \<Rightarrow> bool" where
  "lower_alnum c = (let n = of_char c :: nat in (48 \<le> n \<and> n \<le> 57) \<or> (97 \<le> n \<and> n \<le> 122))"

definition lower_name :: "string \<Rightarrow> nat \<Rightarrow> string \<Rightarrow> bool" where
  "lower_name extra bound s = (case s of [] \<Rightarrow> False
     | c # r \<Rightarrow> lower_alnum c \<and> length r \<le> bound \<and> list_all (\<lambda>d. lower_alnum d \<or> d \<in> set extra) r)"

definition is_media_type :: "string \<Rightarrow> bool" where
  "is_media_type s =
     (let major = takeWhile (\<lambda>c. c \<noteq> CHR ''/'') s; rest = dropWhile (\<lambda>c. c \<noteq> CHR ''/'') s in
      lower_name ''!#$&^_.+-'' 63 major \<and> rest \<noteq> [] \<and> lower_name ''!#$&^_.+-'' 63 (tl rest))"

record EvidenceArtifactRef =
  ear_domain :: string
  ear_sha256 :: string
  ear_size :: int
  ear_media_type :: string
  ear_schema :: string

definition evidence_fail :: "string \<Rightarrow> py_error + 'a" where
  "evidence_fail message = Inl (EvidenceStoreError message)"

definition EvidenceArtifactRef_init :: "(string \<times> pyval) list \<Rightarrow> py_error + EvidenceArtifactRef" where
  "EvidenceArtifactRef_init row =
     (let text = (\<lambda>f ok. case kwarg row f of PyStr s \<Rightarrow> ok s | _ \<Rightarrow> False) in
      if \<not> text ''domain'' (lower_name ''._-'' 95) then evidence_fail ''evidence domain is invalid'' else
      case require_sha256_hex (kwarg row ''sha256'') ''evidence sha256'' of
        Inl e \<Rightarrow> evidence_fail (err_text e)
      | Inr digest \<Rightarrow>
          (case kwarg row ''size'' of
             PyInt n \<Rightarrow>
               if \<not> (0 \<le> n \<and> n \<le> HARD_MAX_EVIDENCE_BYTES) then evidence_fail ''evidence size is invalid'' else
               if \<not> text ''media_type'' is_media_type then evidence_fail ''evidence media_type is invalid'' else
               if \<not> text ''schema'' (lower_name ''._-'' 127) then evidence_fail ''evidence schema is invalid'' else
               Inr \<lparr>ear_domain = row_str row ''domain'', ear_sha256 = digest, ear_size = n,
                    ear_media_type = row_str row ''media_type'', ear_schema = row_str row ''schema''\<rparr>
           | _ \<Rightarrow> evidence_fail ''evidence size is invalid''))"

definition EvidenceArtifactRef_fields :: "EvidenceArtifactRef \<Rightarrow> (string \<times> json) list" where
  "EvidenceArtifactRef_fields r =
     [(''domain'', JStr (ear_domain r)), (''media_type'', JStr (ear_media_type r)), (''schema'', JStr (ear_schema r)),
      (''sha256'', JStr (ear_sha256 r)), (''size'', JInt (ear_size r))]"

definition EvidenceArtifactRef_from_dict :: "pyval \<Rightarrow> py_error + EvidenceArtifactRef" where
  "EvidenceArtifactRef_from_dict v =
     bindE (closed_row v [[''domain'', ''media_type'', ''schema'', ''sha256'', ''size'']]
       (EvidenceStoreError ''evidence reference schema is not closed'')) EvidenceArtifactRef_init"

section \<open>Identities\<close>

record SettlementReproductionIdentity =
  sri_arena_digest :: string
  sri_target_id :: string
  sri_selected_delta_digest :: string
  sri_hotkey :: string
  sri_incumbent_stack_digest :: string
  sri_incumbent_tree_digest :: string
  sri_candidate_stack_digest :: string
  sri_candidate_tree_digest :: string

definition SettlementReproductionIdentity_fields :: "SettlementReproductionIdentity \<Rightarrow> (string \<times> json) list" where
  "SettlementReproductionIdentity_fields r =
     [(''arena_digest'', JStr (sri_arena_digest r)), (''target_id'', JStr (sri_target_id r)),
      (''selected_delta_digest'', JStr (sri_selected_delta_digest r)), (''hotkey'', JStr (sri_hotkey r)),
      (''incumbent_stack_digest'', JStr (sri_incumbent_stack_digest r)),
      (''incumbent_tree_digest'', JStr (sri_incumbent_tree_digest r)),
      (''candidate_stack_digest'', JStr (sri_candidate_stack_digest r)),
      (''candidate_tree_digest'', JStr (sri_candidate_tree_digest r))]"

definition SettlementReproductionIdentity_new ::
    "SettlementReproductionIdentity \<Rightarrow> py_error + SettlementReproductionIdentity" where
  "SettlementReproductionIdentity_new r =
     (let row = kwargs_of (SettlementReproductionIdentity_fields r) in
      bindE (check_digests row [''arena_digest'', ''selected_delta_digest'', ''incumbent_stack_digest'',
        ''incumbent_tree_digest'', ''candidate_stack_digest'', ''candidate_tree_digest'']) (\<lambda>_.
      bindE (check_identifiers row [''target_id'', ''hotkey'']) (\<lambda>_. Inr r)))"

record ResidentLaneOrientation =
  rlo_speed_evidence_policy_digest :: string
  rlo_control_digest :: string
  rlo_baseline_physical_lane_digest :: string
  rlo_candidate_physical_lane_digest :: string

definition rlo_names :: "string list" where
  "rlo_names = [''speed_evidence_policy_digest'', ''control_digest'', ''baseline_physical_lane_digest'',
     ''candidate_physical_lane_digest'']"

definition ResidentLaneOrientation_init :: "(string \<times> pyval) list \<Rightarrow> py_error + ResidentLaneOrientation" where
  "ResidentLaneOrientation_init row =
     bindE (forE rlo_names (\<lambda>f.
       bindE (settle_digest (kwarg row f) f False) (\<lambda>value.
       if value = zero_digest then settle_fail (f @ '' must not be all-zero'') else Inr ()))) (\<lambda>_.
     if row_str row ''baseline_physical_lane_digest'' = row_str row ''candidate_physical_lane_digest''
     then settle_fail ''resident crossover reused one physical TP lane'' else
     Inr \<lparr>rlo_speed_evidence_policy_digest = row_str row ''speed_evidence_policy_digest'',
          rlo_control_digest = row_str row ''control_digest'',
          rlo_baseline_physical_lane_digest = row_str row ''baseline_physical_lane_digest'',
          rlo_candidate_physical_lane_digest = row_str row ''candidate_physical_lane_digest''\<rparr>)"

definition ResidentLaneOrientation_fields :: "ResidentLaneOrientation \<Rightarrow> (string \<times> json) list" where
  "ResidentLaneOrientation_fields r =
     [(''speed_evidence_policy_digest'', JStr (rlo_speed_evidence_policy_digest r)),
      (''control_digest'', JStr (rlo_control_digest r)),
      (''baseline_physical_lane_digest'', JStr (rlo_baseline_physical_lane_digest r)),
      (''candidate_physical_lane_digest'', JStr (rlo_candidate_physical_lane_digest r))]"

definition ResidentLaneOrientation_from_dict :: "pyval \<Rightarrow> py_error + ResidentLaneOrientation" where
  "ResidentLaneOrientation_from_dict v =
     bindE (closed_row v [rlo_names] (SettlementError ''resident lane orientation fields do not match''))
       ResidentLaneOrientation_init"

definition is_exact_swap_of :: "ResidentLaneOrientation \<Rightarrow> ResidentLaneOrientation \<Rightarrow> bool" where
  "is_exact_swap_of self primary \<longleftrightarrow>
     rlo_speed_evidence_policy_digest self = rlo_speed_evidence_policy_digest primary
     \<and> rlo_control_digest self = rlo_control_digest primary
     \<and> rlo_baseline_physical_lane_digest self = rlo_candidate_physical_lane_digest primary
     \<and> rlo_candidate_physical_lane_digest self = rlo_baseline_physical_lane_digest primary"

section \<open>Qualifications\<close>

definition LEGACY_SPEED_POLICY_DIGEST :: "py_env \<Rightarrow> string" where
  "LEGACY_SPEED_POLICY_DIGEST E = json_digest E ''optima.qualification.speed-evidence-policy'' (JObj
     [(''candidate_reads'', JInt 1), (''estimator'', JStr ''bcbp-baseline-range.v1''), (''version'', JInt 1)])"

definition RESIDENT_SPEED_POLICY_DIGEST :: "py_env \<Rightarrow> string" where
  "RESIDENT_SPEED_POLICY_DIGEST E = json_digest E ''optima.qualification.speed-evidence-policy'' (JObj
     [(''candidate_reads'', JInt 0), (''estimator'', JStr ''resident-adaptive-bcbp-v1''), (''version'', JInt 3)])"

definition LEGACY_AUDIT_CONTROL_DIGEST :: "py_env \<Rightarrow> string" where
  "LEGACY_AUDIT_CONTROL_DIGEST E = json_digest E ''optima.settlement.legacy-audit-control'' (JObj [(''status'', JStr ''absent'')])"

definition LEGACY_AUDIT_EVIDENCE_DIGEST :: "py_env \<Rightarrow> string" where
  "LEGACY_AUDIT_EVIDENCE_DIGEST E = json_digest E ''optima.settlement.legacy-audit-evidence'' (JObj [(''status'', JStr ''absent'')])"

record SettlementQualification =
  sq_lane :: string
  sq_arena_digest :: string
  sq_reservation_digest :: string
  sq_finalized_block :: int
  sq_event_index :: int
  sq_event_subindex :: int
  sq_hotkey :: string
  sq_target_id :: string
  sq_members :: "string list"
  sq_selected_delta_digest :: string
  sq_qualification_authority_digest :: string
  sq_qualification_plan_digest :: string
  sq_qualification_attempt_digest :: string
  sq_qualification_report_digest :: string
  sq_selection_commitment_digest :: string
  sq_selection_secret_commitment_digest :: string
  sq_selection_evidence_digest :: string
  sq_arm_digest :: string
  sq_incumbent_stack_digest :: string
  sq_incumbent_tree_digest :: string
  sq_candidate_stack_digest :: string
  sq_candidate_tree_digest :: string
  sq_speedup :: string
  sq_incumbent_manifest :: EvaluationStackManifest
  sq_proposal_digest :: string
  sq_candidate_manifest :: "EvaluationStackManifest option"
  sq_speed_evidence_policy_digest :: string
  sq_audit_control_digest :: string
  sq_audit_policy :: "SlotAuditPolicy option"
  sq_audit_evidence_digest :: string
  sq_resident_lane_orientation :: "ResidentLaneOrientation option"

definition sq_digest_names :: "string list" where
  "sq_digest_names = [''arena_digest'', ''reservation_digest'', ''selected_delta_digest'',
     ''qualification_authority_digest'', ''qualification_plan_digest'', ''qualification_attempt_digest'',
     ''qualification_report_digest'', ''selection_commitment_digest'', ''selection_secret_commitment_digest'',
     ''selection_evidence_digest'', ''arm_digest'', ''incumbent_stack_digest'', ''incumbent_tree_digest'',
     ''candidate_stack_digest'', ''candidate_tree_digest'', ''speed_evidence_policy_digest'',
     ''audit_control_digest'', ''audit_evidence_digest'']"

definition check_members :: "pyval list \<Rightarrow> py_error + string list" where
  "check_members members =
     (if members = [] then settle_fail ''settlement members are not canonical'' else
      bindE (str_items members ''settlement members'') (\<lambda>names.
      if \<not> sorted_unique names then settle_fail ''settlement members are not canonical'' else
      bindE (forE names (\<lambda>m. bindE (settle_identifier (PyStr m) ''member'') (\<lambda>_. Inr ()))) (\<lambda>_. Inr names)))"

definition check_audit :: "py_env \<Rightarrow> SettlementQualification \<Rightarrow> py_error + unit" where
  "check_audit E q =
     (case sq_audit_policy q of
        None \<Rightarrow>
          if sq_audit_control_digest q \<noteq> LEGACY_AUDIT_CONTROL_DIGEST E
             \<or> sq_audit_evidence_digest q \<noteq> LEGACY_AUDIT_EVIDENCE_DIGEST E
          then settle_fail ''legacy auditless qualification has nonlegacy audit authority'' else Inr ()
      | Some policy \<Rightarrow>
          if SlotAuditControl_digest E (sap_control policy) \<noteq> sq_audit_control_digest q
          then settle_fail ''settlement audit policy differs from its seed-independent control'' else Inr ())"

definition check_orientation :: "py_env \<Rightarrow> SettlementQualification \<Rightarrow> py_error + unit" where
  "check_orientation E q =
     (let orientation = sq_resident_lane_orientation q in
      if orientation \<noteq> None \<and> (sq_lane q \<noteq> ''registered'' \<or> sq_audit_policy q = None)
      then settle_fail ''resident lane orientation requires one audited registered qualification'' else
      if (case orientation of None \<Rightarrow> False
          | Some r \<Rightarrow> rlo_speed_evidence_policy_digest r \<noteq> sq_speed_evidence_policy_digest q)
      then settle_fail ''resident lane orientation differs from the speed evidence policy'' else
      if (sq_speed_evidence_policy_digest q = RESIDENT_SPEED_POLICY_DIGEST E) \<noteq> (orientation \<noteq> None)
      then settle_fail ''resident speed evidence requires its physical lane orientation'' else Inr ())"

definition check_incumbent :: "py_env \<Rightarrow> SettlementQualification \<Rightarrow> py_error + unit" where
  "check_incumbent E q =
     (if manifest_digest E (sq_incumbent_manifest q) \<noteq> sq_incumbent_stack_digest q
         \<or> esm_arena_digest (sq_incumbent_manifest q) \<noteq> sq_arena_digest q
      then settle_fail ''incumbent manifest differs from candidate authority'' else
      if sq_incumbent_stack_digest q = sq_candidate_stack_digest q
      then settle_fail ''candidate does not change the incumbent stack identity'' else
      if sq_incumbent_tree_digest q = sq_candidate_tree_digest q
      then settle_fail ''candidate does not change the incumbent tree identity'' else Inr ())"

definition check_lane :: "py_env \<Rightarrow> SettlementQualification \<Rightarrow> pyval \<Rightarrow> py_error + unit" where
  "check_lane E q proposal =
     (if sq_lane q = ''registered'' then
        (case sq_candidate_manifest q of
           None \<Rightarrow> settle_fail ''registered candidate lacks its exact stack manifest''
         | Some manifest \<Rightarrow>
             if manifest_digest E manifest \<noteq> sq_candidate_stack_digest q
             then settle_fail ''candidate manifest differs from candidate stack'' else
             if (case map_of (esm_entries manifest) (sq_target_id q) of None \<Rightarrow> True
                 | Some replacement \<Rightarrow> ref_selected_delta E replacement \<noteq> sq_selected_delta_digest q)
             then settle_fail ''candidate manifest differs from its target/delta projection'' else
             if py_truthy proposal then settle_fail ''registered candidates cannot name a discovery proposal''
             else Inr ())
      else if sq_candidate_manifest q \<noteq> None then settle_fail ''discovery candidates cannot install a stack manifest''
      else if \<not> py_truthy proposal then settle_fail ''discovery candidate lacks its proposal identity''
      else Inr ())"

definition check_candidate_arena :: "SettlementQualification \<Rightarrow> py_error + unit" where
  "check_candidate_arena q =
     (case sq_candidate_manifest q of
        None \<Rightarrow> Inr ()
      | Some manifest \<Rightarrow>
          if esm_arena_digest manifest \<noteq> sq_arena_digest q
          then settle_fail ''candidate manifest belongs to another arena'' else Inr ())"

text \<open>The fields as they are read once the arguments are validated.\<close>

definition qualification_of ::
    "(string \<times> pyval) list \<Rightarrow> string list \<Rightarrow> EvaluationStackManifest \<Rightarrow> EvaluationStackManifest option \<Rightarrow>
     SlotAuditPolicy option \<Rightarrow> ResidentLaneOrientation option \<Rightarrow> SettlementQualification" where
  "qualification_of row members incumbent candidate audit orientation =
     \<lparr>sq_lane = row_str row ''lane'', sq_arena_digest = row_str row ''arena_digest'',
      sq_reservation_digest = row_str row ''reservation_digest'', sq_finalized_block = row_int row ''finalized_block'',
      sq_event_index = row_int row ''event_index'', sq_event_subindex = row_int row ''event_subindex'',
      sq_hotkey = row_str row ''hotkey'', sq_target_id = row_str row ''target_id'', sq_members = members,
      sq_selected_delta_digest = row_str row ''selected_delta_digest'',
      sq_qualification_authority_digest = row_str row ''qualification_authority_digest'',
      sq_qualification_plan_digest = row_str row ''qualification_plan_digest'',
      sq_qualification_attempt_digest = row_str row ''qualification_attempt_digest'',
      sq_qualification_report_digest = row_str row ''qualification_report_digest'',
      sq_selection_commitment_digest = row_str row ''selection_commitment_digest'',
      sq_selection_secret_commitment_digest = row_str row ''selection_secret_commitment_digest'',
      sq_selection_evidence_digest = row_str row ''selection_evidence_digest'',
      sq_arm_digest = row_str row ''arm_digest'', sq_incumbent_stack_digest = row_str row ''incumbent_stack_digest'',
      sq_incumbent_tree_digest = row_str row ''incumbent_tree_digest'',
      sq_candidate_stack_digest = row_str row ''candidate_stack_digest'',
      sq_candidate_tree_digest = row_str row ''candidate_tree_digest'', sq_speedup = row_str row ''speedup'',
      sq_incumbent_manifest = incumbent, sq_proposal_digest = row_str row ''proposal_digest'',
      sq_candidate_manifest = candidate,
      sq_speed_evidence_policy_digest = row_str row ''speed_evidence_policy_digest'',
      sq_audit_control_digest = row_str row ''audit_control_digest'', sq_audit_policy = audit,
      sq_audit_evidence_digest = row_str row ''audit_evidence_digest'', sq_resident_lane_orientation = orientation\<rparr>"

definition SettlementQualification_init ::
    "py_env \<Rightarrow> (string \<times> pyval) list \<Rightarrow> pyval list \<Rightarrow> EvaluationStackManifest \<Rightarrow> EvaluationStackManifest option \<Rightarrow>
     SlotAuditPolicy option \<Rightarrow> ResidentLaneOrientation option \<Rightarrow> py_error + SettlementQualification" where
  "SettlementQualification_init E row members incumbent candidate audit orientation =
     bindE (py_in_strs (kwarg row ''lane'') [''registered'', ''discovery'']) (\<lambda>supported.
     if \<not> supported then settle_fail ''settlement lane is unsupported'' else
     bindE (check_digests row sq_digest_names) (\<lambda>_.
     bindE (check_integers row [''finalized_block'', ''event_index'', ''event_subindex'']) (\<lambda>_.
     bindE (check_identifiers row [''hotkey'', ''target_id'']) (\<lambda>_.
     bindE (check_members members) (\<lambda>names.
     bindE (settle_speedup (kwarg row ''speedup'')) (\<lambda>_.
     let q = qualification_of row names incumbent candidate audit orientation in
     bindE (check_audit E q) (\<lambda>_.
     bindE (check_orientation E q) (\<lambda>_.
     bindE (check_incumbent E q) (\<lambda>_.
     bindE (check_lane E q (kwarg row ''proposal_digest'')) (\<lambda>_.
     bindE (settle_digest (kwarg row ''proposal_digest'') ''proposal_digest'' (sq_lane q = ''registered'')) (\<lambda>_.
     bindE (check_candidate_arena q) (\<lambda>_. Inr q))))))))))))"

text \<open>The optional members of \<open>to_dict\<close> keep the bytes of historical records.\<close>

definition SettlementQualification_fields :: "py_env \<Rightarrow> SettlementQualification \<Rightarrow> (string \<times> json) list" where
  "SettlementQualification_fields E q =
     [(''arena_digest'', JStr (sq_arena_digest q)), (''arm_digest'', JStr (sq_arm_digest q)),
      (''candidate_manifest'', json_of_option (\<lambda>m. JObj (manifest_fields m)) (sq_candidate_manifest q)),
      (''candidate_stack_digest'', JStr (sq_candidate_stack_digest q)),
      (''candidate_tree_digest'', JStr (sq_candidate_tree_digest q)), (''event_index'', JInt (sq_event_index q)),
      (''event_subindex'', JInt (sq_event_subindex q)), (''finalized_block'', JInt (sq_finalized_block q)),
      (''hotkey'', JStr (sq_hotkey q)), (''incumbent_stack_digest'', JStr (sq_incumbent_stack_digest q)),
      (''incumbent_tree_digest'', JStr (sq_incumbent_tree_digest q)),
      (''incumbent_manifest'', JObj (manifest_fields (sq_incumbent_manifest q))), (''lane'', JStr (sq_lane q)),
      (''members'', JList (map JStr (sq_members q))),
      (''qualification_attempt_digest'', JStr (sq_qualification_attempt_digest q)),
      (''qualification_authority_digest'', JStr (sq_qualification_authority_digest q)),
      (''qualification_plan_digest'', JStr (sq_qualification_plan_digest q)),
      (''qualification_report_digest'', JStr (sq_qualification_report_digest q)),
      (''selection_commitment_digest'', JStr (sq_selection_commitment_digest q)),
      (''selection_secret_commitment_digest'', JStr (sq_selection_secret_commitment_digest q)),
      (''selection_evidence_digest'', JStr (sq_selection_evidence_digest q)),
      (''proposal_digest'', JStr (sq_proposal_digest q)), (''reservation_digest'', JStr (sq_reservation_digest q)),
      (''selected_delta_digest'', JStr (sq_selected_delta_digest q)), (''speedup'', JStr (sq_speedup q)),
      (''target_id'', JStr (sq_target_id q))] @
     (if sq_speed_evidence_policy_digest q \<noteq> LEGACY_SPEED_POLICY_DIGEST E \<or> sq_audit_policy q \<noteq> None
      then [(''speed_evidence_policy_digest'', JStr (sq_speed_evidence_policy_digest q))] else []) @
     (case sq_audit_policy q of
        None \<Rightarrow> []
      | Some policy \<Rightarrow>
          [(''audit_control_digest'', JStr (sq_audit_control_digest q)),
           (''audit_evidence_digest'', JStr (sq_audit_evidence_digest q)),
           (''audit_policy'', JObj (SlotAuditPolicy_fields policy))]) @
     (case sq_resident_lane_orientation q of
        None \<Rightarrow> []
      | Some r \<Rightarrow> [(''resident_lane_orientation'', JObj (ResidentLaneOrientation_fields r))])"

definition SettlementQualification_digest :: "py_env \<Rightarrow> SettlementQualification \<Rightarrow> string" where
  "SettlementQualification_digest E q =
     json_digest E (if sq_resident_lane_orientation q \<noteq> None then ''optima.settlement.qualification.resident-lane-v1''
       else if sq_audit_policy q = None then ''optima.settlement.qualification''
       else ''optima.settlement.qualification.audit-v1'')
       (JObj (SettlementQualification_fields E q))"

definition sq_fields_v1 :: "string list" where
  "sq_fields_v1 = [''lane'', ''arena_digest'', ''reservation_digest'', ''finalized_block'', ''event_index'', ''event_subindex'',
     ''hotkey'', ''target_id'', ''members'', ''selected_delta_digest'', ''qualification_authority_digest'',
     ''qualification_plan_digest'', ''qualification_attempt_digest'', ''qualification_report_digest'',
     ''selection_commitment_digest'', ''selection_secret_commitment_digest'', ''selection_evidence_digest'', ''arm_digest'',
     ''incumbent_stack_digest'', ''incumbent_tree_digest'', ''candidate_stack_digest'', ''candidate_tree_digest'',
     ''speedup'', ''incumbent_manifest'', ''proposal_digest'', ''candidate_manifest'']"

definition sq_schemas :: "string list list" where
  "sq_schemas =
     (let v2 = sq_fields_v1 @ [''speed_evidence_policy_digest''];
          v3 = v2 @ [''audit_control_digest'', ''audit_evidence_digest'', ''audit_policy''];
          v4 = v3 @ [''resident_lane_orientation'']
      in [sq_fields_v1, v2, v3, v4])"

definition has_key :: "(string \<times> pyval) list \<Rightarrow> string \<Rightarrow> bool" where
  "has_key row f = (f \<in> set (map fst row))"

text \<open>The missing members of an older record are filled in: later keyword arguments only add.\<close>

definition fill_legacy :: "py_env \<Rightarrow> (string \<times> pyval) list \<Rightarrow> (string \<times> pyval) list" where
  "fill_legacy E row =
     row @
     (if has_key row ''speed_evidence_policy_digest'' then []
      else [(''speed_evidence_policy_digest'', PyStr (LEGACY_SPEED_POLICY_DIGEST E))]) @
     (if has_key row ''audit_policy'' then []
      else [(''audit_control_digest'', PyStr (LEGACY_AUDIT_CONTROL_DIGEST E)),
            (''audit_evidence_digest'', PyStr (LEGACY_AUDIT_EVIDENCE_DIGEST E))])"

definition SettlementQualification_from_dict :: "py_env \<Rightarrow> pyval \<Rightarrow> py_error + SettlementQualification" where
  "SettlementQualification_from_dict E v =
     bindE (closed_row v sq_schemas (SettlementError ''settlement qualification fields do not match'')) (\<lambda>given.
     let row = fill_legacy E given in
     bindE (if has_key given ''audit_policy''
            then bindE (SlotAuditPolicy_from_dict (kwarg row ''audit_policy'')) (\<lambda>p. Inr (Some p))
            else Inr None) (\<lambda>audit.
     bindE (if has_key given ''resident_lane_orientation''
            then bindE (ResidentLaneOrientation_from_dict (kwarg row ''resident_lane_orientation'')) (\<lambda>r. Inr (Some r))
            else Inr None) (\<lambda>orientation.
     case kwarg row ''members'' of
       PyList members \<Rightarrow>
         bindE (if kwarg row ''candidate_manifest'' = PyNone then Inr None
                else bindE (manifest_from_dict E (kwarg row ''candidate_manifest'')) (\<lambda>m. Inr (Some m))) (\<lambda>candidate.
         bindE (manifest_from_dict E (kwarg row ''incumbent_manifest'')) (\<lambda>incumbent.
         SettlementQualification_init E row members incumbent candidate audit orientation))
     | _ \<Rightarrow> settle_fail ''settlement qualification members are malformed'')))"

definition finalized_order :: "SettlementQualification \<Rightarrow> int \<times> int \<times> int \<times> string" where
  "finalized_order q = (sq_finalized_block q, sq_event_index q, sq_event_subindex q, sq_reservation_digest q)"

definition incumbent_arm :: "SettlementQualification \<Rightarrow> py_error + StackArmIdentity" where
  "incumbent_arm q = StackArmIdentity_new (sq_incumbent_stack_digest q) (sq_incumbent_tree_digest q)"

definition challenger_arm :: "SettlementQualification \<Rightarrow> py_error + StackArmIdentity" where
  "challenger_arm q = StackArmIdentity_new (sq_candidate_stack_digest q) (sq_candidate_tree_digest q)"

definition reproduction_identity :: "SettlementQualification \<Rightarrow> py_error + SettlementReproductionIdentity" where
  "reproduction_identity q = SettlementReproductionIdentity_new
     \<lparr>sri_arena_digest = sq_arena_digest q, sri_target_id = sq_target_id q,
      sri_selected_delta_digest = sq_selected_delta_digest q, sri_hotkey = sq_hotkey q,
      sri_incumbent_stack_digest = sq_incumbent_stack_digest q, sri_incumbent_tree_digest = sq_incumbent_tree_digest q,
      sri_candidate_stack_digest = sq_candidate_stack_digest q, sri_candidate_tree_digest = sq_candidate_tree_digest q\<rparr>"

section \<open>Candidates\<close>

record SettlementCandidate =
  sc_primary :: SettlementQualification
  sc_reproduction :: SettlementQualification

definition same_contribution :: "SettlementQualification \<Rightarrow> SettlementQualification \<Rightarrow> bool" where
  "same_contribution p r \<longleftrightarrow>
     sq_lane p = sq_lane r \<and> sq_arena_digest p = sq_arena_digest r \<and> sq_reservation_digest p = sq_reservation_digest r
     \<and> sq_finalized_block p = sq_finalized_block r \<and> sq_event_index p = sq_event_index r
     \<and> sq_event_subindex p = sq_event_subindex r \<and> sq_hotkey p = sq_hotkey r \<and> sq_target_id p = sq_target_id r
     \<and> sq_members p = sq_members r \<and> sq_selected_delta_digest p = sq_selected_delta_digest r
     \<and> sq_arm_digest p = sq_arm_digest r \<and> sq_incumbent_stack_digest p = sq_incumbent_stack_digest r
     \<and> sq_incumbent_tree_digest p = sq_incumbent_tree_digest r
     \<and> sq_candidate_stack_digest p = sq_candidate_stack_digest r
     \<and> sq_candidate_tree_digest p = sq_candidate_tree_digest r
     \<and> sq_incumbent_manifest p = sq_incumbent_manifest r \<and> sq_proposal_digest p = sq_proposal_digest r
     \<and> sq_candidate_manifest p = sq_candidate_manifest r
     \<and> sq_speed_evidence_policy_digest p = sq_speed_evidence_policy_digest r
     \<and> sq_audit_control_digest p = sq_audit_control_digest r"

definition reuses_authority :: "SettlementQualification \<Rightarrow> SettlementQualification \<Rightarrow> bool" where
  "reuses_authority p r \<longleftrightarrow>
     sq_qualification_authority_digest p = sq_qualification_authority_digest r
     \<or> sq_qualification_plan_digest p = sq_qualification_plan_digest r
     \<or> sq_qualification_attempt_digest p = sq_qualification_attempt_digest r
     \<or> sq_qualification_report_digest p = sq_qualification_report_digest r
     \<or> sq_selection_commitment_digest p = sq_selection_commitment_digest r
     \<or> sq_selection_secret_commitment_digest p = sq_selection_secret_commitment_digest r
     \<or> sq_selection_evidence_digest p = sq_selection_evidence_digest r"

definition check_audits :: "SettlementQualification \<Rightarrow> SettlementQualification \<Rightarrow> py_error + unit" where
  "check_audits p r =
     (case (sq_audit_policy p, sq_audit_policy r) of
        (None, None) \<Rightarrow> Inr ()
      | (Some a, Some b) \<Rightarrow>
          if sap_control a \<noteq> sap_control b \<or> sap_validator_seed a = sap_validator_seed b
             \<or> sq_audit_evidence_digest p = sq_audit_evidence_digest r
          then settle_fail ''independent reproduction reuses or changes slot-audit authority'' else Inr ()
      | _ \<Rightarrow> settle_fail ''independent reproduction mixes audited and auditless qualifications'')"

definition check_orientations :: "SettlementQualification \<Rightarrow> SettlementQualification \<Rightarrow> py_error + unit" where
  "check_orientations p r =
     (case (sq_resident_lane_orientation p, sq_resident_lane_orientation r) of
        (None, None) \<Rightarrow> Inr ()
      | (Some a, Some b) \<Rightarrow>
          if \<not> is_exact_swap_of b a
          then settle_fail ''independent reproduction did not swap physical TP lane orientation'' else Inr ()
      | _ \<Rightarrow> settle_fail ''independent reproduction has incomplete resident lane orientation'')"

definition SettlementCandidate_new ::
    "SettlementQualification \<Rightarrow> SettlementQualification \<Rightarrow> py_error + SettlementCandidate" where
  "SettlementCandidate_new p r =
     bindE (reproduction_identity p) (\<lambda>first.
     bindE (reproduction_identity r) (\<lambda>second.
     if first \<noteq> second
     then settle_fail ''independent reproduction differs from the primary reproduction identity'' else
     if \<not> same_contribution p r
     then settle_fail ''independent reproduction differs from the primary contribution identity'' else
     if reuses_authority p r
     then settle_fail ''independent reproduction reuses primary authority or evidence'' else
     bindE (check_audits p r) (\<lambda>_.
     bindE (check_orientations p r) (\<lambda>_.
     Inr \<lparr>sc_primary = p, sc_reproduction = r\<rparr>))))"

definition from_reproductions ::
    "SettlementQualification \<Rightarrow> SettlementQualification \<Rightarrow> py_error + SettlementCandidate" where
  "from_reproductions p r =
     bindE (SettlementCandidate_new p r) (\<lambda>c.
     if sq_audit_policy (sc_primary c) = None \<or> sq_audit_policy (sc_reproduction c) = None
     then settle_fail ''new settlement candidate requires two audited qualifications'' else Inr c)"

text \<open>
  \<open>Decimal(text)\<close> of a speedup that a constructor has validated. Comparison of decimals is exact;
  negation rounds to the 28 digits of the default context.
\<close>

definition speed_value :: "string \<Rightarrow> rat" where
  "speed_value s = (case dec_parse s of None \<Rightarrow> 0 | Some d \<Rightarrow> dec_value d)"

definition speed_neg :: "string \<Rightarrow> rat" where
  "speed_neg s =
     (case dec_parse s of
        Some (DFin neg c e) \<Rightarrow> (let (c', e') = dec_round28 c e in dec_value (DFin (\<not> neg) c' e'))
      | _ \<Rightarrow> 0)"

definition candidate_speedup :: "SettlementCandidate \<Rightarrow> string" where
  "candidate_speedup c =
     (if speed_value (sq_speedup (sc_reproduction c)) < speed_value (sq_speedup (sc_primary c))
      then sq_speedup (sc_reproduction c) else sq_speedup (sc_primary c))"

definition SettlementCandidate_fields :: "py_env \<Rightarrow> SettlementCandidate \<Rightarrow> (string \<times> json) list" where
  "SettlementCandidate_fields E c =
     [(''primary'', JObj (SettlementQualification_fields E (sc_primary c))),
      (''reproduction'', JObj (SettlementQualification_fields E (sc_reproduction c)))]"

definition SettlementCandidate_from_dict :: "py_env \<Rightarrow> pyval \<Rightarrow> py_error + SettlementCandidate" where
  "SettlementCandidate_from_dict E v =
     bindE (closed_row v [[''primary'', ''reproduction'']] (SettlementError ''settlement candidate fields do not match'')) (\<lambda>row.
     bindE (SettlementQualification_from_dict E (kwarg row ''primary'')) (\<lambda>p.
     bindE (SettlementQualification_from_dict E (kwarg row ''reproduction'')) (\<lambda>r.
     SettlementCandidate_new p r)))"

definition SettlementCandidate_digest :: "py_env \<Rightarrow> SettlementCandidate \<Rightarrow> string" where
  "SettlementCandidate_digest E c =
     json_digest E (if sq_resident_lane_orientation (sc_primary c) \<noteq> None then ''optima.settlement.candidate.v4''
       else if sq_audit_policy (sc_primary c) = None then ''optima.settlement.candidate.v2''
       else ''optima.settlement.candidate.v3'')
       (JObj (SettlementCandidate_fields E c))"

section \<open>Evidence\<close>

record SettlementEvidence =
  se_candidate_digest :: string
  se_reservation_digest :: string
  se_primary_authority_digest :: string
  se_primary_attempt_ref :: EvidenceArtifactRef
  se_primary_report_digest :: string
  se_primary_selection_evidence_digest :: string
  se_reproduction_authority_digest :: string
  se_reproduction_attempt_ref :: EvidenceArtifactRef
  se_reproduction_report_digest :: string
  se_reproduction_selection_evidence_digest :: string

definition se_digest_names :: "string list" where
  "se_digest_names = [''candidate_digest'', ''reservation_digest'', ''primary_authority_digest'', ''primary_report_digest'',
     ''primary_selection_evidence_digest'', ''reproduction_authority_digest'', ''reproduction_report_digest'',
     ''reproduction_selection_evidence_digest'']"

definition SettlementEvidence_init ::
    "(string \<times> pyval) list \<Rightarrow> EvidenceArtifactRef \<Rightarrow> EvidenceArtifactRef \<Rightarrow> py_error + SettlementEvidence" where
  "SettlementEvidence_init row primary reproduction =
     bindE (check_digests row se_digest_names) (\<lambda>_.
     if row_str row ''primary_authority_digest'' = row_str row ''reproduction_authority_digest''
        \<or> ear_sha256 primary = ear_sha256 reproduction
        \<or> row_str row ''primary_report_digest'' = row_str row ''reproduction_report_digest''
        \<or> row_str row ''primary_selection_evidence_digest'' = row_str row ''reproduction_selection_evidence_digest''
     then settle_fail ''settlement evidence does not contain a reproduction'' else
     Inr \<lparr>se_candidate_digest = row_str row ''candidate_digest'', se_reservation_digest = row_str row ''reservation_digest'',
          se_primary_authority_digest = row_str row ''primary_authority_digest'', se_primary_attempt_ref = primary,
          se_primary_report_digest = row_str row ''primary_report_digest'',
          se_primary_selection_evidence_digest = row_str row ''primary_selection_evidence_digest'',
          se_reproduction_authority_digest = row_str row ''reproduction_authority_digest'',
          se_reproduction_attempt_ref = reproduction,
          se_reproduction_report_digest = row_str row ''reproduction_report_digest'',
          se_reproduction_selection_evidence_digest = row_str row ''reproduction_selection_evidence_digest''\<rparr>)"

definition SettlementEvidence_bind ::
    "py_env \<Rightarrow> SettlementCandidate \<Rightarrow> EvidenceArtifactRef \<Rightarrow> EvidenceArtifactRef \<Rightarrow> py_error + SettlementEvidence" where
  "SettlementEvidence_bind E c primary reproduction =
     (let p = sc_primary c; r = sc_reproduction c in
      if ear_sha256 primary \<noteq> sq_qualification_attempt_digest p
         \<or> ear_sha256 reproduction \<noteq> sq_qualification_attempt_digest r
      then settle_fail ''settlement attempt references differ from the candidate'' else
      SettlementEvidence_init
        [(''candidate_digest'', PyStr (SettlementCandidate_digest E c)),
         (''reservation_digest'', PyStr (sq_reservation_digest p)),
         (''primary_authority_digest'', PyStr (sq_qualification_authority_digest p)),
         (''primary_report_digest'', PyStr (sq_qualification_report_digest p)),
         (''primary_selection_evidence_digest'', PyStr (sq_selection_evidence_digest p)),
         (''reproduction_authority_digest'', PyStr (sq_qualification_authority_digest r)),
         (''reproduction_report_digest'', PyStr (sq_qualification_report_digest r)),
         (''reproduction_selection_evidence_digest'', PyStr (sq_selection_evidence_digest r))]
        primary reproduction)"

definition SettlementEvidence_fields :: "SettlementEvidence \<Rightarrow> (string \<times> json) list" where
  "SettlementEvidence_fields e =
     [(''candidate_digest'', JStr (se_candidate_digest e)),
      (''primary_attempt_ref'', JObj (EvidenceArtifactRef_fields (se_primary_attempt_ref e))),
      (''primary_authority_digest'', JStr (se_primary_authority_digest e)),
      (''primary_report_digest'', JStr (se_primary_report_digest e)),
      (''primary_selection_evidence_digest'', JStr (se_primary_selection_evidence_digest e)),
      (''reproduction_attempt_ref'', JObj (EvidenceArtifactRef_fields (se_reproduction_attempt_ref e))),
      (''reproduction_authority_digest'', JStr (se_reproduction_authority_digest e)),
      (''reproduction_report_digest'', JStr (se_reproduction_report_digest e)),
      (''reproduction_selection_evidence_digest'', JStr (se_reproduction_selection_evidence_digest e)),
      (''reservation_digest'', JStr (se_reservation_digest e))]"

definition SettlementEvidence_from_dict :: "pyval \<Rightarrow> py_error + SettlementEvidence" where
  "SettlementEvidence_from_dict v =
     bindE (closed_row v [se_digest_names @ [''primary_attempt_ref'', ''reproduction_attempt_ref'']]
       (SettlementError ''settlement evidence fields do not match'')) (\<lambda>row.
     bindE (EvidenceArtifactRef_from_dict (kwarg row ''primary_attempt_ref'')) (\<lambda>primary.
     bindE (EvidenceArtifactRef_from_dict (kwarg row ''reproduction_attempt_ref'')) (\<lambda>reproduction.
     SettlementEvidence_init row primary reproduction)))"

definition SettlementEvidence_digest :: "py_env \<Rightarrow> SettlementEvidence \<Rightarrow> string" where
  "SettlementEvidence_digest E e = json_digest E ''optima.settlement.evidence'' (JObj (SettlementEvidence_fields e))"

end
