(* ===== verification/Settlement_Plan.thy ===== *)
theory Settlement_Plan
  imports Settlement
begin

text \<open>
  The planner of \<open>optima/settlement.py\<close>: the events of a settlement, the journal that chains them by
  their digests, and \<open>plan_settlement\<close>, which decides over all candidates of one incumbent. The loops
  of the planner are one definition each; the journal is threaded through them.
\<close>

section \<open>Events\<close>

datatype SettlementEventType = HOLD | CROWN | ADOPTION | RETIREMENT | NEUTRALIZATION | STACK_TRANSITION | DISCOVERY_BOUNTY

fun event_type_value :: "SettlementEventType \<Rightarrow> string" where
  "event_type_value HOLD = ''HOLD''"
| "event_type_value CROWN = ''CROWN''"
| "event_type_value ADOPTION = ''ADOPTION''"
| "event_type_value RETIREMENT = ''RETIREMENT''"
| "event_type_value NEUTRALIZATION = ''NEUTRALIZATION''"
| "event_type_value STACK_TRANSITION = ''STACK_TRANSITION''"
| "event_type_value DISCOVERY_BOUNTY = ''DISCOVERY_BOUNTY''"

definition event_type_of :: "pyval \<Rightarrow> py_error + SettlementEventType" where
  "event_type_of v =
     (case find (\<lambda>t. py_eq_str v (event_type_value t))
        [HOLD, CROWN, ADOPTION, RETIREMENT, NEUTRALIZATION, STACK_TRANSITION, DISCOVERY_BOUNTY] of
        None \<Rightarrow> settle_fail ''settlement event type is unsupported''
      | Some t \<Rightarrow> Inr t)"

record SettlementEvent =
  ev_event_type :: SettlementEventType
  ev_sequence :: int
  ev_previous_event_digest :: string
  ev_candidate_digest :: string
  ev_subject_digest :: string
  ev_target_id :: string
  ev_from_stack_digest :: string
  ev_from_tree_digest :: string
  ev_to_stack_digest :: string
  ev_to_tree_digest :: string
  ev_reason :: string

definition SettlementEvent_init :: "SettlementEventType \<Rightarrow> (string \<times> pyval) list \<Rightarrow> py_error + SettlementEvent" where
  "SettlementEvent_init event_type row =
     bindE (settle_integer (kwarg row ''sequence'') ''event sequence'') (\<lambda>number.
     bindE (check_digests row [''candidate_digest'', ''subject_digest'', ''from_stack_digest'', ''from_tree_digest'',
       ''to_stack_digest'', ''to_tree_digest'']) (\<lambda>_.
     bindE (settle_digest (kwarg row ''previous_event_digest'') ''previous_event_digest'' True) (\<lambda>previous.
     bindE (check_identifiers row [''target_id'', ''reason'']) (\<lambda>_.
     Inr \<lparr>ev_event_type = event_type, ev_sequence = number, ev_previous_event_digest = previous,
          ev_candidate_digest = row_str row ''candidate_digest'', ev_subject_digest = row_str row ''subject_digest'',
          ev_target_id = row_str row ''target_id'', ev_from_stack_digest = row_str row ''from_stack_digest'',
          ev_from_tree_digest = row_str row ''from_tree_digest'', ev_to_stack_digest = row_str row ''to_stack_digest'',
          ev_to_tree_digest = row_str row ''to_tree_digest'', ev_reason = row_str row ''reason''\<rparr>))))"

definition SettlementEvent_fields :: "SettlementEvent \<Rightarrow> (string \<times> json) list" where
  "SettlementEvent_fields e =
     [(''candidate_digest'', JStr (ev_candidate_digest e)), (''event_type'', JStr (event_type_value (ev_event_type e))),
      (''from_stack_digest'', JStr (ev_from_stack_digest e)), (''from_tree_digest'', JStr (ev_from_tree_digest e)),
      (''previous_event_digest'', JStr (ev_previous_event_digest e)), (''reason'', JStr (ev_reason e)),
      (''sequence'', JInt (ev_sequence e)), (''subject_digest'', JStr (ev_subject_digest e)),
      (''target_id'', JStr (ev_target_id e)), (''to_stack_digest'', JStr (ev_to_stack_digest e)),
      (''to_tree_digest'', JStr (ev_to_tree_digest e))]"

definition SettlementEvent_new :: "SettlementEvent \<Rightarrow> py_error + SettlementEvent" where
  "SettlementEvent_new e = SettlementEvent_init (ev_event_type e) (kwargs_of (SettlementEvent_fields e))"

definition SettlementEvent_from_dict :: "pyval \<Rightarrow> py_error + SettlementEvent" where
  "SettlementEvent_from_dict v =
     bindE (closed_row v [[''event_type'', ''sequence'', ''previous_event_digest'', ''candidate_digest'', ''subject_digest'',
       ''target_id'', ''from_stack_digest'', ''from_tree_digest'', ''to_stack_digest'', ''to_tree_digest'', ''reason'']]
       (SettlementError ''settlement event fields do not match'')) (\<lambda>row.
     bindE (event_type_of (kwarg row ''event_type'')) (\<lambda>event_type. SettlementEvent_init event_type row))"

definition SettlementEvent_digest :: "py_env \<Rightarrow> SettlementEvent \<Rightarrow> string" where
  "SettlementEvent_digest E e = json_digest E ''optima.settlement.event'' (JObj (SettlementEvent_fields e))"

section \<open>Plans\<close>

record StackTransitionOutput =
  sto_candidate_digest :: string
  sto_before :: StackArmIdentity
  sto_after :: StackArmIdentity
  sto_manifest :: EvaluationStackManifest

definition StackTransitionOutput_new :: "py_env \<Rightarrow> StackTransitionOutput \<Rightarrow> py_error + StackTransitionOutput" where
  "StackTransitionOutput_new E t =
     bindE (settle_digest (PyStr (sto_candidate_digest t)) ''candidate'' False) (\<lambda>_.
     if manifest_digest E (sto_manifest t) \<noteq> sai_stack_digest (sto_after t) \<or> sto_before t = sto_after t
     then settle_fail ''stack transition output is inconsistent'' else Inr t)"

definition StackTransitionOutput_json :: "StackTransitionOutput \<Rightarrow> json" where
  "StackTransitionOutput_json t = JObj
     [(''after'', arm_json (sto_after t)), (''before'', arm_json (sto_before t)),
      (''candidate_digest'', JStr (sto_candidate_digest t)), (''manifest'', JObj (manifest_fields (sto_manifest t)))]"

record SettlementPlan =
  sp_before :: StackArmIdentity
  sp_after :: StackArmIdentity
  sp_winner_candidate_digest :: string
  sp_events :: "SettlementEvent list"
  sp_transition :: "StackTransitionOutput option"

definition contiguous :: "py_env \<Rightarrow> SettlementEvent list \<Rightarrow> bool" where
  "contiguous E events = list_all (\<lambda>(prior, current).
     ev_sequence current = ev_sequence prior + 1
     \<and> ev_previous_event_digest current = SettlementEvent_digest E prior) (zip events (tl events))"

definition SettlementPlan_new :: "py_env \<Rightarrow> SettlementPlan \<Rightarrow> py_error + SettlementPlan" where
  "SettlementPlan_new E p =
     bindE (settle_digest (PyStr (sp_winner_candidate_digest p)) ''winner'' True) (\<lambda>_.
     if \<not> contiguous E (sp_events p) then settle_fail ''settlement event journal is not contiguous'' else
     case sp_transition p of
       None \<Rightarrow>
         if sp_winner_candidate_digest p \<noteq> [] \<or> sp_before p \<noteq> sp_after p
         then settle_fail ''non-transition settlement plan names a winner'' else Inr p
     | Some t \<Rightarrow>
         if sto_candidate_digest t \<noteq> sp_winner_candidate_digest p \<or> sto_before t \<noteq> sp_before p
            \<or> sto_after t \<noteq> sp_after p
         then settle_fail ''settlement transition differs from its plan'' else Inr p)"

definition SettlementPlan_json :: "SettlementPlan \<Rightarrow> json" where
  "SettlementPlan_json p = JObj
     [(''after'', arm_json (sp_after p)), (''before'', arm_json (sp_before p)),
      (''events'', JList (map (\<lambda>e. JObj (SettlementEvent_fields e)) (sp_events p))),
      (''transition'', json_of_option StackTransitionOutput_json (sp_transition p)),
      (''winner_candidate_digest'', JStr (sp_winner_candidate_digest p))]"

definition SettlementPlan_digest :: "py_env \<Rightarrow> SettlementPlan \<Rightarrow> string" where
  "SettlementPlan_digest E p = json_digest E ''optima.settlement.plan'' (SettlementPlan_json p)"

section \<open>The journal\<close>

record Journal =
  jn_sequence :: int
  jn_previous :: string
  jn_events :: "SettlementEvent list"

definition Journal_init :: "int \<Rightarrow> string \<Rightarrow> py_error + Journal" where
  "Journal_init number previous =
     bindE (settle_integer (PyInt number) ''initial event sequence'') (\<lambda>n.
     bindE (settle_digest (PyStr previous) ''previous event'' True) (\<lambda>p.
     Inr \<lparr>jn_sequence = n, jn_previous = p, jn_events = []\<rparr>))"

definition Journal_add ::
    "py_env \<Rightarrow> SettlementEventType \<Rightarrow> SettlementCandidate \<Rightarrow> string \<Rightarrow> string \<Rightarrow> StackArmIdentity \<Rightarrow> StackArmIdentity \<Rightarrow>
     string \<Rightarrow> Journal \<Rightarrow> py_error + Journal" where
  "Journal_add E event_type c subject target origin goal reason j =
     bindE (SettlementEvent_new
       \<lparr>ev_event_type = event_type, ev_sequence = jn_sequence j, ev_previous_event_digest = jn_previous j,
        ev_candidate_digest = SettlementCandidate_digest E c, ev_subject_digest = subject, ev_target_id = target,
        ev_from_stack_digest = sai_stack_digest origin, ev_from_tree_digest = sai_tree_digest origin,
        ev_to_stack_digest = sai_stack_digest goal, ev_to_tree_digest = sai_tree_digest goal, ev_reason = reason\<rparr>)
       (\<lambda>event.
     Inr \<lparr>jn_sequence = jn_sequence j + 1, jn_previous = SettlementEvent_digest E event,
          jn_events = jn_events j @ [event]\<rparr>)"

section \<open>Planning\<close>

text \<open>The common fields of a candidate are those of its primary qualification.\<close>

definition sc_order :: "SettlementCandidate \<Rightarrow> int \<times> int \<times> int \<times> string" where
  "sc_order c = finalized_order (sc_primary c)"

text \<open>\<open>min(rows, key=...)\<close>: the first of the smallest.\<close>

fun min_by :: "('a \<Rightarrow> 'k::linorder) \<Rightarrow> 'a \<Rightarrow> 'a list \<Rightarrow> 'a" where
  "min_by key best [] = best"
| "min_by key best (x # xs) = min_by key (if key x < key best then x else best) xs"

definition winner_key :: "SettlementCandidate \<Rightarrow> rat \<times> int \<times> int \<times> int \<times> string" where
  "winner_key c = (speed_neg (candidate_speedup c), sc_order c)"

definition hold_stale :: "py_env \<Rightarrow> StackArmIdentity \<Rightarrow> SettlementCandidate \<Rightarrow> Journal \<Rightarrow> py_error + Journal" where
  "hold_stale E baseline c = Journal_add E HOLD c (sq_selected_delta_digest (sc_primary c)) (sq_target_id (sc_primary c))
     baseline baseline ''stale_incumbent''"

definition pay_discovery :: "py_env \<Rightarrow> StackArmIdentity \<Rightarrow> SettlementCandidate \<Rightarrow> Journal \<Rightarrow> py_error + Journal" where
  "pay_discovery E baseline c = Journal_add E DISCOVERY_BOUNTY c (sq_selected_delta_digest (sc_primary c))
     (sq_target_id (sc_primary c)) baseline baseline ''qualified_discovery''"

definition hold_reason :: "SettlementCandidate \<Rightarrow> SettlementCandidate \<Rightarrow> string" where
  "hold_reason winner c =
     (if set (sq_members (sc_primary c)) \<inter> set (sq_members (sc_primary winner)) \<noteq> {}
      then ''conflict_lost'' else ''incumbent_advanced'')"

definition hold_loser ::
    "py_env \<Rightarrow> StackArmIdentity \<Rightarrow> SettlementCandidate \<Rightarrow> SettlementCandidate \<Rightarrow> Journal \<Rightarrow> py_error + Journal" where
  "hold_loser E baseline winner c = Journal_add E HOLD c (sq_selected_delta_digest (sc_primary c))
     (sq_target_id (sc_primary c)) baseline baseline (hold_reason winner c)"

definition retire_prior ::
    "py_env \<Rightarrow> StackArmIdentity \<Rightarrow> SettlementCandidate \<Rightarrow> EvaluationStackManifest \<Rightarrow> Journal \<Rightarrow> py_error + Journal" where
  "retire_prior E baseline winner manifest j =
     (case map_of (esm_entries manifest) (sq_target_id (sc_primary winner)) of
        None \<Rightarrow> Inr j
      | Some prior \<Rightarrow> Journal_add E RETIREMENT winner (ref_digest E prior) (ref_target_id prior) baseline baseline
          ''superseded'' j)"

definition neutralize_entry ::
    "py_env \<Rightarrow> StackArmIdentity \<Rightarrow> SettlementCandidate \<Rightarrow> EvaluationStackManifest \<Rightarrow> string \<times> ContributionRef \<Rightarrow> Journal \<Rightarrow>
     py_error + Journal" where
  "neutralize_entry E baseline winner installed entry j =
     (case entry of (target_id, ref) \<Rightarrow>
      if target_id \<noteq> sq_target_id (sc_primary winner) \<and> target_id \<notin> fst ` set (esm_entries installed)
      then Journal_add E NEUTRALIZATION winner (ref_digest E ref) target_id baseline baseline ''displaced'' j
      else Inr j)"

text \<open>Everything the planner does once a winner is chosen and its rivals are held.\<close>

definition adopt_winner ::
    "py_env \<Rightarrow> StackArmIdentity \<Rightarrow> StackArmIdentity \<Rightarrow> SettlementCandidate \<Rightarrow> EvaluationStackManifest \<Rightarrow>
     EvaluationStackManifest \<Rightarrow> Journal \<Rightarrow> py_error + SettlementPlan" where
  "adopt_winner E baseline goal winner manifest installed j =
     (let target_id = sq_target_id (sc_primary winner); digest = SettlementCandidate_digest E winner in
      case map_of (esm_entries installed) target_id of
        None \<Rightarrow> Inl (PyKeyError target_id)
      | Some replacement \<Rightarrow>
          bindE (Journal_add E CROWN winner (ref_digest E replacement) target_id baseline baseline ''qualified_win'' j) (\<lambda>j1.
          bindE (retire_prior E baseline winner manifest j1) (\<lambda>j2.
          bindE (foldE (neutralize_entry E baseline winner installed) (sort_key fst (esm_entries manifest)) j2) (\<lambda>j3.
          bindE (Journal_add E ADOPTION winner (ref_digest E replacement) target_id baseline goal ''adopted'' j3) (\<lambda>j4.
          bindE (Journal_add E STACK_TRANSITION winner (sq_candidate_stack_digest (sc_primary winner)) target_id
            baseline goal ''incumbent_updated'' j4) (\<lambda>j5.
          bindE (StackTransitionOutput_new E \<lparr>sto_candidate_digest = digest, sto_before = baseline, sto_after = goal,
            sto_manifest = installed\<rparr>) (\<lambda>transition.
          SettlementPlan_new E \<lparr>sp_before = baseline, sp_after = goal, sp_winner_candidate_digest = digest,
            sp_events = jn_events j5, sp_transition = Some transition\<rparr>)))))))"

definition settle_registered ::
    "py_env \<Rightarrow> StackArmIdentity \<Rightarrow> SettlementCandidate list \<Rightarrow> EvaluationStackManifest \<Rightarrow> Journal \<Rightarrow>
     py_error + SettlementPlan" where
  "settle_registered E baseline registered manifest j =
     (case registered of
        [] \<Rightarrow> SettlementPlan_new E \<lparr>sp_before = baseline, sp_after = baseline, sp_winner_candidate_digest = [],
                sp_events = jn_events j, sp_transition = None\<rparr>
      | c # cs \<Rightarrow>
          let winner = min_by winner_key c cs in
          bindE (challenger_arm (sc_primary winner)) (\<lambda>goal.
          bindE (foldE (hold_loser E baseline winner)
            (sort_key sc_order (filter (\<lambda>r. r \<noteq> winner) registered)) j) (\<lambda>j1.
          case sq_candidate_manifest (sc_primary winner) of
            None \<Rightarrow> Inl (PyAssertionError [])
          | Some installed \<Rightarrow> adopt_winner E baseline goal winner manifest installed j1)))"

definition plan_settlement ::
    "py_env \<Rightarrow> SettlementCandidate list \<Rightarrow> EvaluationStackManifest \<Rightarrow> string \<Rightarrow> int \<Rightarrow> string \<Rightarrow> py_error + SettlementPlan" where
  "plan_settlement E rows manifest tree number previous =
     bindE (StackArmIdentity_new (manifest_digest E manifest) tree) (\<lambda>baseline.
     if \<not> distinct (map (SettlementCandidate_digest E) rows) \<or> \<not> distinct (map (\<lambda>c. sq_reservation_digest (sc_primary c)) rows)
     then settle_fail ''settlement candidates contain duplicates'' else
     bindE (Journal_init number previous) (\<lambda>j0.
     bindE (mapE (\<lambda>c. bindE (incumbent_arm (sc_primary c)) (\<lambda>arm. Inr (arm, c))) rows) (\<lambda>arms.
     let current = map snd (filter (\<lambda>(arm, _). arm = baseline) arms);
         stale = map snd (filter (\<lambda>(arm, _). arm \<noteq> baseline) arms) in
     bindE (foldE (hold_stale E baseline) (sort_key sc_order stale) j0) (\<lambda>j1.
     bindE (foldE (pay_discovery E baseline)
       (sort_key sc_order (filter (\<lambda>c. sq_lane (sc_primary c) = ''discovery'') current)) j1) (\<lambda>j2.
     settle_registered E baseline (filter (\<lambda>c. sq_lane (sc_primary c) = ''registered'') current) manifest j2)))))"

end
