(* ===== verification/Decimal_Text.thy ===== *)
theory Decimal_Text
  imports Py_Decimal
begin

text \<open>
  Canonical decimal spellings are read back exactly: the coefficient of an accepted spelling has at
  most 28 digits before its trailing zeros, so rounding it to the 28 digits of the default context
  changes nothing.
\<close>

section \<open>Digits\<close>

lemma less_pow_ndigits: "n < 10 ^ ndigits n"
proof (induction n rule: ndigits.induct)
  case (1 n)
  show ?case
  proof (cases "n < 10")
    case True then show ?thesis by (simp add: ndigits.simps)
  next
    case False
    have "n div 10 < 10 ^ ndigits (n div 10)" using 1 [OF False] .
    then have "n < 10 * 10 ^ ndigits (n div 10)" by (simp add: div_less_iff_less_mult mult.commute)
    then show ?thesis using False by (subst ndigits.simps) simp
  qed
qed

lemma ndigits_le: "0 < k \<Longrightarrow> n < 10 ^ k \<Longrightarrow> ndigits n \<le> k"
proof (induction k arbitrary: n)
  case (Suc k)
  show ?case
  proof (cases "n < 10")
    case True then show ?thesis by (simp add: ndigits.simps)
  next
    case False
    then have k: "0 < k" using Suc.prems(2) by (cases k) auto
    have "n div 10 < 10 ^ k" using Suc.prems(2) by (simp add: div_less_iff_less_mult mult.commute)
    with k have "ndigits (n div 10) \<le> k" by (rule Suc.IH)
    then show ?thesis using False by (subst ndigits.simps) simp
  qed
qed simp

lemma ndigits_mult_pow: "0 < n \<Longrightarrow> ndigits (n * 10 ^ k) = ndigits n + k"
proof (induction k)
  case (Suc k)
  then have "\<not> n * 10 ^ Suc k < 10" by (simp add: not_less)
  moreover have "n * 10 ^ Suc k div 10 = n * 10 ^ k" by simp
  ultimately show ?case using Suc by (subst ndigits.simps) (simp del: power_Suc)
qed simp

lemma read_nat_append_zeros: "read_nat (s @ replicate k (CHR ''0'')) = read_nat s * 10 ^ k"
proof (induction k)
  case (Suc k)
  have "s @ replicate (Suc k) (CHR ''0'') = (s @ replicate k (CHR ''0'')) @ [CHR ''0'']"
    by (simp add: replicate_append_same)
  then show ?case by (simp only: read_nat_snoc Suc.IH) simp
qed simp

lemma read_nat_zeros: "read_nat (replicate k (CHR ''0'') @ s) = read_nat s"
proof -
  have "foldl (\<lambda>n c. 10 * n + (of_char c - 48)) (0::nat) (replicate k (CHR ''0'')) = 0" by (induction k) simp_all
  then show ?thesis by (simp add: read_nat_def)
qed

lemma read_nat_mono_append: "read_nat s \<le> read_nat (s @ t)"
proof (induction t rule: rev_induct)
  case (snoc c t)
  have "read_nat (s @ t) \<le> read_nat ((s @ t) @ [c])" unfolding read_nat_snoc by simp
  with snoc show ?case by simp
qed simp

section \<open>Reading a plain spelling\<close>

lemma digit_facts:
  assumes "is_digit c"
  shows "\<not> py_space c" and "c \<noteq> CHR ''_''" and "c \<noteq> CHR ''-''" and "c \<noteq> CHR ''+''" and "c \<noteq> CHR ''.''"
    and "lower_char c = c" and "c \<noteq> CHR ''i''" and "c \<noteq> CHR ''n''" and "c \<noteq> CHR ''s''"
  using assms by (auto simp: is_digit_def py_space_def lower_char_def Let_def)

lemma py_strip_id: "s \<noteq> [] \<Longrightarrow> \<not> py_space (hd s) \<Longrightarrow> \<not> py_space (last s) \<Longrightarrow> py_strip s = s"
proof -
  assume "s \<noteq> []" and "\<not> py_space (hd s)" and l: "\<not> py_space (last s)"
  then have "dropWhile py_space s = s" by (cases s) simp_all
  moreover have "dropWhile py_space (rev s) = rev s" using l \<open>s \<noteq> []\<close> by (cases s rule: rev_cases) simp_all
  ultimately show ?thesis by (simp add: py_strip_def)
qed

lemma not_special:
  assumes "is_digit c" shows "\<not> dec_special_text (c # r)"
  using digit_facts [OF assms] by (auto simp: dec_special_text_def Let_def lower_text_def)

lemma parse_plain:
  assumes w: "w \<noteq> []" "list_all is_digit w" and f: "list_all is_digit f"
    and s: "s = w \<and> f = [] \<or> s = w @ CHR ''.'' # f"
    and p: "dec_parse s = Some d"
  shows "d = DFin False (read_nat (w @ f)) (- int (length f))"
proof -
  obtain c r where cr: "w = c # r" and c: "is_digit c" using w by (cases w) auto
  obtain q where sq: "s = c # q" using s cr by auto
  have chars: "\<forall>x \<in> set s. is_digit x \<or> x = CHR ''.''" using w(2) f s by (auto simp: list_all_iff)
  have "\<forall>x \<in> set s. \<not> py_space x \<and> x \<noteq> CHR ''_''"
    using chars digit_facts by (fastforce simp: py_space_def)
  then have strip: "py_strip s = s" and under: "filter (\<lambda>c. c \<noteq> CHR ''_'') s = s"
    using sq py_strip_id [of s] by (auto simp: filter_id_conv)
  have "dec_unsigned False s = Some d"
    using p digit_facts(3,4) [OF c] unfolding dec_parse_def strip under by (simp add: sq)
  moreover have special: "\<not> dec_special_text s" using not_special [OF c] by (simp add: sq)
  moreover have "takeWhile is_digit s = w"
    using s w(2) by (auto simp: takeWhile_eq_all_conv takeWhile_append list_all_iff is_digit_def)
  moreover have "dropWhile is_digit s = drop (length w) s"
    using s w(2) by (auto simp: dropWhile_append list_all_iff dropWhile_eq_Nil_conv is_digit_def)
  moreover have "takeWhile is_digit f = f" "dropWhile is_digit f = []"
    using f by (auto simp: list_all_iff takeWhile_eq_all_conv dropWhile_eq_Nil_conv)
  moreover have "drop (length w) s = [] \<and> f = [] \<or> drop (length w) s = CHR ''.'' # f" using s by auto
  ultimately show ?thesis
    using w(1) by (elim disjE) (simp_all add: dec_unsigned_def dec_exponent_def Let_def split: if_splits)
qed

section \<open>Canonical spellings\<close>

lemma strip_zeros_le: "strip_zeros c e = (c', e') \<Longrightarrow> c' \<le> c \<and> (c \<noteq> 0 \<longrightarrow> 10 dvd c \<longrightarrow> c' \<le> c div 10)"
proof (induction c e arbitrary: c' e' rule: strip_zeros.induct)
  case (1 c e)
  show ?case
  proof (cases "c \<noteq> 0 \<and> 10 dvd c")
    case True
    with 1 have "c' \<le> c div 10" by (subst (asm) (2) strip_zeros.simps) simp
    then show ?thesis using div_le_dividend [of c 10] by linarith
  next
    case False
    with 1(2) show ?thesis by (subst (asm) strip_zeros.simps) auto
  qed
qed

lemma div_pow_ndigits: "28 < ndigits c \<Longrightarrow> c div 10 ^ (ndigits c - 28) < 10 ^ 28"
proof -
  assume "28 < ndigits c"
  then have "10 ^ ndigits c = (10::nat) ^ 28 * 10 ^ (ndigits c - 28)" unfolding power_add [symmetric] by simp
  then show ?thesis using less_pow_ndigits [of c] by (simp add: div_less_iff_less_mult)
qed

lemma dec_normalize_digits:
  assumes "dec_normalize c e = Inr (c', e')"
  shows "c' < 10 ^ 28"
proof -
  obtain c1 e1 where r: "dec_round28 c e = (c1, e1)" by (cases "dec_round28 c e")
  have "c1 \<le> 10 ^ 28"
  proof (cases "ndigits c \<le> 28")
    case True
    then have "c1 = c" using r by (simp add: dec_round28_def)
    moreover have "(10::nat) ^ ndigits c \<le> 10 ^ 28" using True by (intro power_increasing) simp_all
    ultimately show ?thesis using less_pow_ndigits [of c] by linarith
  next
    case False
    then have "c1 \<le> c div 10 ^ (ndigits c - 28) + 1" using r by (auto simp: dec_round28_def Let_def split: if_splits)
    then show ?thesis using div_pow_ndigits [of c] False by linarith
  qed
  moreover have "strip_zeros c1 e1 = (c', e')" using assms r by (auto simp: dec_normalize_def split: if_splits)
  note strip_zeros_le [OF this]
  ultimately show ?thesis by (cases "c1 = 10 ^ 28") auto
qed

lemma rstrip_split: "\<exists>z. rstrip_char c s @ replicate z c = s \<and> (rstrip_char c s \<noteq> [] \<longrightarrow> last (rstrip_char c s) \<noteq> c)"
proof -
  have "takeWhile (\<lambda>x. x = c) (rev s) = replicate (length (takeWhile (\<lambda>x. x = c) (rev s))) c"
    by (rule replicate_eqI [OF refl]) (auto dest: set_takeWhileD)
  then have "rev s = replicate (length (takeWhile (\<lambda>x. x = c) (rev s))) c @ dropWhile (\<lambda>x. x = c) (rev s)"
    by (metis takeWhile_dropWhile_id)
  then have "s = rev (dropWhile (\<lambda>x. x = c) (rev s)) @ replicate (length (takeWhile (\<lambda>x. x = c) (rev s))) c"
    by (metis rev_append rev_replicate rev_rev_ident)
  moreover have "rev (dropWhile (\<lambda>x. x = c) (rev s)) \<noteq> [] \<Longrightarrow> last (rev (dropWhile (\<lambda>x. x = c) (rev s))) \<noteq> c"
    using hd_dropWhile [of "\<lambda>x. x = c" "rev s"] by (simp add: last_rev)
  ultimately show ?thesis unfolding rstrip_char_def by metis
qed

lemma rstrip_id: "s \<noteq> [] \<Longrightarrow> last s \<noteq> c \<Longrightarrow> rstrip_char c s = s"
  unfolding rstrip_char_def by (cases s rule: rev_cases) simp_all

lemma stripped_point:
  assumes w: "w \<noteq> []" "list_all is_digit w" and f: "list_all is_digit f"
  shows "\<exists>f'. list_all is_digit f' \<and> read_nat (w @ f') \<le> read_nat (w @ f)
    \<and> (rstrip_char (CHR ''.'') (rstrip_char (CHR ''0'') (w @ CHR ''.'' # f)) = w \<and> f' = []
       \<or> rstrip_char (CHR ''.'') (rstrip_char (CHR ''0'') (w @ CHR ''.'' # f)) = w @ CHR ''.'' # f')"
proof -
  obtain z where z: "rstrip_char (CHR ''0'') f @ replicate z (CHR ''0'') = f"
    and last: "rstrip_char (CHR ''0'') f \<noteq> [] \<longrightarrow> last (rstrip_char (CHR ''0'') f) \<noteq> CHR ''0''"
    using rstrip_split by metis
  let ?g = "rstrip_char (CHR ''0'') f"
  have zero: "rstrip_char (CHR ''0'') (w @ CHR ''.'' # f) = w @ CHR ''.'' # ?g"
    unfolding rstrip_char_def by (simp add: dropWhile_append)
  have g: "list_all is_digit ?g" using f z by (metis list_all_append)
  have le: "read_nat (w @ ?g) \<le> read_nat (w @ f)" using z read_nat_mono_append [of "w @ ?g"] by (metis append_assoc)
  show ?thesis
  proof (cases "?g = []")
    case True
    have "rev w \<noteq> []" "hd (rev w) \<noteq> CHR ''.''" using w digit_facts(5) by (auto simp: hd_rev list_all_iff)
    then have "rstrip_char (CHR ''.'') (w @ [CHR ''.'']) = w" unfolding rstrip_char_def by (cases "rev w") auto
    then show ?thesis using True le zero by (intro exI [of _ "[]"]) (simp add: True)
  next
    case False
    then have "last ?g \<noteq> CHR ''.''" using g digit_facts(5) by (metis last_in_set list_all_iff)
    then have "rstrip_char (CHR ''.'') (w @ CHR ''.'' # ?g) = w @ CHR ''.'' # ?g" using False by (intro rstrip_id) auto
    then show ?thesis using g le zero by auto
  qed
qed

lemma canonical_text_coefficient:
  assumes spelled: "s = dec_canonical_text c' e'" and p: "dec_parse s = Some (DFin neg c e)"
  shows "(\<exists>k. c = c' * 10 ^ k) \<or> c \<le> c'"
proof -
  let ?ds = "show_nat c'"
  have ds: "list_all is_digit ?ds" "?ds \<noteq> []" using show_nat_digits [of c'] by simp_all
  have no: "CHR ''.'' \<notin> set ?ds" using ds(1) digit_facts(5) by (auto simp: list_all_iff)
  have split: ?thesis if t: "dec_format_f c' e' = w @ CHR ''.'' # f" and w: "w \<noteq> []" "list_all is_digit w"
    and f: "list_all is_digit f" and val: "read_nat (w @ f) = c'" for w f
  proof -
    obtain f' where f': "list_all is_digit f'" "read_nat (w @ f') \<le> read_nat (w @ f)"
      and shape: "rstrip_char (CHR ''.'') (rstrip_char (CHR ''0'') (w @ CHR ''.'' # f)) = w \<and> f' = []
       \<or> rstrip_char (CHR ''.'') (rstrip_char (CHR ''0'') (w @ CHR ''.'' # f)) = w @ CHR ''.'' # f'"
      using stripped_point [OF w f] by blast
    have "s = w \<and> f' = [] \<or> s = w @ CHR ''.'' # f'" using shape by (simp add: spelled dec_canonical_text_def t)
    from parse_plain [OF w f'(1) this p] show ?thesis using f'(2) val by simp
  qed
  show ?thesis
  proof (cases "0 \<le> e'")
    case True
    let ?w = "?ds @ replicate (nat e') (CHR ''0'')"
    have w: "list_all is_digit ?w" "?w \<noteq> []" using ds by (auto simp: list_all_iff is_digit_def)
    have "s = ?w" using True no by (auto simp: spelled dec_canonical_text_def dec_format_f_def Let_def)
    then have "s = ?w \<and> [] = [] \<or> s = ?w @ CHR ''.'' # []" by simp
    from parse_plain [OF w(2,1) _ this p] show ?thesis by (auto simp: read_nat_append_zeros read_show_nat)
  next
    case False
    let ?k = "nat (- e')"
    show ?thesis
    proof (cases "?k < length ?ds")
      case True
      let ?w = "take (length ?ds - ?k) ?ds" and ?f = "drop (length ?ds - ?k) ?ds"
      have "list_all is_digit ?w" "list_all is_digit ?f"
        using ds(1) by (auto simp: list_all_iff dest: in_set_takeD in_set_dropD)
      moreover have "?w \<noteq> []" using True ds(2) by simp
      ultimately show ?thesis using True False split [of ?w ?f] by (simp add: dec_format_f_def Let_def read_show_nat)
    next
      case long: False
      let ?f = "replicate (?k - length ?ds) (CHR ''0'') @ ?ds"
      have f: "list_all is_digit ?f" using ds(1) by (auto simp: list_all_iff is_digit_def)
      have "read_nat (''0'' @ ?f) = read_nat (replicate (Suc (?k - length ?ds)) (CHR ''0'') @ ?ds)" by simp
      then have "read_nat (''0'' @ ?f) = c'" by (simp only: read_nat_zeros read_show_nat)
      then show ?thesis using split [of "''0''" ?f] f long False
        by (simp add: dec_format_f_def Let_def is_digit_def)
    qed
  qed
qed

lemma ten_pow_shift: "of_nat (c * 10 ^ s) * ten_pow e = of_nat c * ten_pow (e + int s)"
proof -
  have "ten_pow (e + int s) = 10 ^ s * ten_pow e"
  proof (cases "0 \<le> e")
    case True then show ?thesis by (simp add: ten_pow_def nat_add_distrib power_add)
  next
    case neg: False
    show ?thesis
    proof (cases "0 \<le> e + int s")
      case True
      then have "s = nat (e + int s) + nat (- e)" using neg by linarith
      then have "(10::rat) ^ s = 10 ^ nat (e + int s) * 10 ^ nat (- e)" by (metis power_add)
      then show ?thesis using True neg by (simp add: ten_pow_def)
    next
      case False
      then have "nat (- e) = nat (- (e + int s)) + s" using neg by linarith
      then have "(10::rat) ^ nat (- e) = 10 ^ nat (- (e + int s)) * 10 ^ s" by (metis power_add)
      then show ?thesis using False neg by (simp add: ten_pow_def)
    qed
  qed
  then show ?thesis by simp
qed

lemma dec_round28_exact:
  assumes "(\<exists>k. c = c' * 10 ^ k) \<or> c \<le> c'" and "c' < 10 ^ 28"
  shows "dec_value (DFin neg (fst (dec_round28 c e)) (snd (dec_round28 c e))) = dec_value (DFin neg c e)"
proof (cases "ndigits c \<le> 28")
  case True then show ?thesis by (simp add: dec_round28_def)
next
  case False
  have small: "ndigits c' \<le> 28" using assms(2) by (intro ndigits_le) simp_all
  have "\<not> c \<le> c'" using False assms(2) ndigits_le [of 28 c] by linarith
  then obtain k where k: "c = c' * 10 ^ k" using assms(1) by blast
  let ?s = "ndigits c - 28"
  have "c' \<noteq> 0" using False k by (cases "c' = 0") (auto simp: ndigits.simps)
  then have "?s \<le> k" using small by (simp add: k ndigits_mult_pow)
  then have "10 ^ ?s dvd c" unfolding k by (simp add: le_imp_power_dvd)
  then obtain q where q: "c = q * 10 ^ ?s" by (metis dvd_div_mult_self)
  have mod: "c mod 10 ^ ?s = 0" and dv: "c div 10 ^ ?s = q" by (subst q, simp)+
  have "dec_round28 c e = (q, e + int ?s)" using False mod dv by (simp add: dec_round28_def Let_def)
  moreover have "of_nat c * ten_pow e = of_nat q * ten_pow (e + int ?s)" using q ten_pow_shift [of q ?s e] by metis
  ultimately show ?thesis by simp
qed

end
