(* ===== verification/Settlement_Laws.thy ===== *)
theory Settlement_Laws
  imports Settlement_Plan Decimal_Text Plan_Success Dataclass
begin

text \<open>
  What the constructors of a settlement accept, and how the planner's journal grows. A verdict is an
  event before it is numbered and chained; running verdicts through the journal is a pure function,
  and every loop of the planner is a run of the verdicts it decides.
\<close>

lemma settle_fail_simps [err_simps]:
  "(if b then settle_fail m else k) = Inr y \<longleftrightarrow> \<not> b \<and> k = Inr y" "settle_fail m \<noteq> Inr x" "bindE (settle_fail m) f = settle_fail m"
  by (simp_all add: settle_fail_def)

section \<open>Speeds\<close>

definition speed_ok :: "string \<Rightarrow> bool" where
  "speed_ok s \<longleftrightarrow> settle_speedup (PyStr s) = Inr s"

lemma settle_speedup_eq_Inr [err_simps]: "settle_speedup v = Inr s \<longleftrightarrow> v = PyStr s \<and> speed_ok s"
proof
  assume h: "settle_speedup v = Inr s"
  then obtain t where v: "v = PyStr t" by (cases v) (auto simp: settle_speedup_def settle_fail_def)
  have "t = s" using h unfolding v
    by (auto simp: settle_speedup_def settle_fail_def Let_def bindE_eq_Inr split: option.splits decimal.splits if_splits)
  with h v show "v = PyStr s \<and> speed_ok s" by (simp add: speed_ok_def)
qed (auto simp: speed_ok_def)

lemma speed_okE:
  assumes "speed_ok s"
  obtains neg c e c0 e0 where "dec_parse s = Some (DFin neg c e)" "1 < dec_value (DFin neg c e)"
    "dec_normalize c e = Inr (c0, e0)" "s = dec_canonical_text c0 e0"
  using assms
  by (auto simp: speed_ok_def settle_speedup_def settle_fail_def Let_def bindE_eq_Inr split: option.splits decimal.splits if_splits)

lemma speed_above_one: "speed_ok s \<Longrightarrow> 1 < speed_value s"
  by (erule speed_okE) (simp add: speed_value_def)

text \<open>Negation rounds, but never an accepted speedup.\<close>

lemma speed_neg_exact: "speed_ok s \<Longrightarrow> speed_neg s = - speed_value s"
proof (erule speed_okE)
  fix neg c e c0 e0
  assume p: "dec_parse s = Some (DFin neg c e)" and n: "dec_normalize c e = Inr (c0, e0)"
    and s: "s = dec_canonical_text c0 e0"
  have "(\<exists>k. c = c0 * 10 ^ k) \<or> c \<le> c0" by (rule canonical_text_coefficient [OF s p])
  from dec_round28_exact [OF this dec_normalize_digits [OF n], of "\<not> neg" e]
  show "speed_neg s = - speed_value s" by (cases neg) (simp_all add: p speed_neg_def speed_value_def case_prod_beta)
qed

section \<open>What a qualification is\<close>

lemma check_digests_eq_Inr [err_simps]:
  "check_digests row names = Inr () \<longleftrightarrow> (\<forall>f \<in> set names. kwarg row f = PyStr (row_str row f) \<and> is_digest (row_str row f))"
  by (auto simp: check_digests_def forE_eq_Inr bindE_eq_Inr settle_digest_def require_digest_eq_Inr row_str_def)

lemma check_identifiers_eq_Inr [err_simps]:
  "check_identifiers row names = Inr () \<longleftrightarrow> (\<forall>f \<in> set names. kwarg row f = PyStr (row_str row f) \<and> settle_id (row_str row f))"
  by (auto simp: check_identifiers_def forE_eq_Inr bindE_eq_Inr settle_identifier_def require_identifier_eq_Inr row_str_def)

lemma check_integers_eq_Inr [err_simps]:
  "check_integers row names = Inr () \<longleftrightarrow> (\<forall>f \<in> set names. kwarg row f = PyInt (row_int row f) \<and> 0 \<le> row_int row f)"
  by (auto simp: check_integers_def forE_eq_Inr bindE_eq_Inr settle_integer_def require_int_eq_Inr row_int_def)

lemma str_items_eq_Inr [err_simps]: "str_items vs field = Inr names \<longleftrightarrow> vs = map PyStr names"
proof (induction vs arbitrary: names)
  case (Cons v vs)
  then show ?case by (cases v; cases names) (auto simp: str_items_def bindE_eq_Inr)
qed (auto simp: str_items_def)

definition members_ok :: "string list \<Rightarrow> bool" where
  "members_ok names \<longleftrightarrow> names \<noteq> [] \<and> sorted_unique names \<and> list_all settle_id names"

lemma check_members_eq_Inr [err_simps]: "check_members vs = Inr names \<longleftrightarrow> vs = map PyStr names \<and> members_ok names"
  by (auto simp: check_members_def settle_fail_def err_simps members_ok_def settle_identifier_def list_all_iff)

definition sq_digests :: "SettlementQualification \<Rightarrow> string list" where
  "sq_digests q = [sq_arena_digest q, sq_reservation_digest q, sq_selected_delta_digest q,
     sq_qualification_authority_digest q, sq_qualification_plan_digest q, sq_qualification_attempt_digest q,
     sq_qualification_report_digest q, sq_selection_commitment_digest q, sq_selection_secret_commitment_digest q,
     sq_selection_evidence_digest q, sq_arm_digest q, sq_incumbent_stack_digest q, sq_incumbent_tree_digest q,
     sq_candidate_stack_digest q, sq_candidate_tree_digest q, sq_speed_evidence_policy_digest q,
     sq_audit_control_digest q, sq_audit_evidence_digest q]"

definition qualification_ok :: "py_env \<Rightarrow> SettlementQualification \<Rightarrow> bool" where
  "qualification_ok E q \<longleftrightarrow>
     sq_lane q \<in> {''registered'', ''discovery''} \<and> list_all is_digest (sq_digests q)
     \<and> 0 \<le> sq_finalized_block q \<and> 0 \<le> sq_event_index q \<and> 0 \<le> sq_event_subindex q
     \<and> settle_id (sq_hotkey q) \<and> settle_id (sq_target_id q) \<and> members_ok (sq_members q) \<and> speed_ok (sq_speedup q)
     \<and> check_audit E q = Inr () \<and> check_orientation E q = Inr () \<and> check_incumbent E q = Inr ()
     \<and> check_lane E q (PyStr (sq_proposal_digest q)) = Inr ()
     \<and> (if sq_lane q = ''registered'' then sq_proposal_digest q = [] \<or> is_digest (sq_proposal_digest q)
        else is_digest (sq_proposal_digest q))
     \<and> check_candidate_arena q = Inr ()"

lemma settle_digest_eq_Inr [err_simps]:
  "settle_digest v field opt = Inr d \<longleftrightarrow> v = PyStr d \<and> (opt \<and> d = [] \<or> is_digest d)"
  by (cases opt) (auto simp: settle_digest_def require_digest_eq_Inr require_digest_optional)

lemma qualification_init_ok:
  assumes "SettlementQualification_init E row members inc cand audit orient = Inr q"
  shows "qualification_ok E q"
proof -
  obtain names where lane: "py_in_strs (kwarg row ''lane'') [''registered'', ''discovery''] = Inr True"
    and d: "check_digests row sq_digest_names = Inr ()"
    and i: "check_integers row [''finalized_block'', ''event_index'', ''event_subindex''] = Inr ()"
    and n: "check_identifiers row [''hotkey'', ''target_id''] = Inr ()"
    and m: "check_members members = Inr names" and s: "\<exists>t. settle_speedup (kwarg row ''speedup'') = Inr t"
    and q: "q = qualification_of row names inc cand audit orient"
    and rest: "check_audit E q = Inr ()" "check_orientation E q = Inr ()" "check_incumbent E q = Inr ()"
      "check_lane E q (kwarg row ''proposal_digest'') = Inr ()" "check_candidate_arena q = Inr ()"
    and p: "\<exists>t. settle_digest (kwarg row ''proposal_digest'') ''proposal_digest'' (sq_lane q = ''registered'') = Inr t"
    using assms by (auto simp: SettlementQualification_init_def Let_def settle_fail_simps bindE_eq_Inr)
  have "sq_proposal_digest q = row_str row ''proposal_digest''" by (simp add: q qualification_of_def)
  then have pd: "kwarg row ''proposal_digest'' = PyStr (sq_proposal_digest q)"
    and pok: "sq_lane q = ''registered'' \<and> sq_proposal_digest q = [] \<or> is_digest (sq_proposal_digest q)"
    using p by (auto simp: settle_digest_eq_Inr row_str_def)
  have "list_all is_digest (sq_digests q)"
    using d by (simp add: check_digests_eq_Inr sq_digest_names_def sq_digests_def q qualification_of_def)
  moreover have "sq_lane q \<in> {''registered'', ''discovery''}"
    using lane by (auto simp: py_in_strs_def q qualification_of_def row_str_def split: if_splits pyval.splits elim!: py_eq_str.elims)
  moreover have "speed_ok (sq_speedup q)" using s by (auto simp: settle_speedup_eq_Inr q qualification_of_def row_str_def)
  moreover have "0 \<le> sq_finalized_block q" "0 \<le> sq_event_index q" "0 \<le> sq_event_subindex q"
    using i by (simp_all add: check_integers_eq_Inr q qualification_of_def)
  moreover have "settle_id (sq_hotkey q)" "settle_id (sq_target_id q)"
    using n by (simp_all add: check_identifiers_eq_Inr q qualification_of_def)
  moreover have "members_ok (sq_members q)" using m by (simp add: check_members_eq_Inr q qualification_of_def)
  ultimately show ?thesis unfolding qualification_ok_def using rest pd pok by auto
qed

definition sq_scalars :: "SettlementQualification \<Rightarrow> (string \<times> json) list" where
  "sq_scalars q = zip sq_digest_names (map JStr (sq_digests q)) @
     [(''lane'', JStr (sq_lane q)), (''finalized_block'', JInt (sq_finalized_block q)), (''event_index'', JInt (sq_event_index q)),
      (''event_subindex'', JInt (sq_event_subindex q)), (''hotkey'', JStr (sq_hotkey q)), (''target_id'', JStr (sq_target_id q)),
      (''speedup'', JStr (sq_speedup q)), (''proposal_digest'', JStr (sq_proposal_digest q))]"

lemma qualification_ok_init:
  assumes ok: "qualification_ok E q"
  shows "SettlementQualification_init E (kwargs_of (sq_scalars q)) (map PyStr (sq_members q)) (sq_incumbent_manifest q)
     (sq_candidate_manifest q) (sq_audit_policy q) (sq_resident_lane_orientation q) = Inr q"
proof -
  define row where "row = kwargs_of (sq_scalars q)"
  have row: "row_carries row (sq_scalars q)"
    unfolding row_def by (rule row_carries_kwargs_of) (simp add: sq_scalars_def sq_digest_names_def sq_digests_def)
  note at = row [unfolded sq_scalars_def sq_digest_names_def sq_digests_def, simplified]
  have q: "qualification_of row (sq_members q) (sq_incumbent_manifest q) (sq_candidate_manifest q) (sq_audit_policy q)
     (sq_resident_lane_orientation q) = q"
    by (simp add: qualification_of_def row_str_def row_int_def at)
  have "py_in_strs (kwarg row ''lane'') [''registered'', ''discovery''] = Inr True"
    using ok by (auto simp: qualification_ok_def at py_in_strs_eq_Inr)
  moreover have "check_digests row sq_digest_names = Inr ()"
    using ok by (simp add: check_digests_eq_Inr sq_digest_names_def row_str_def at qualification_ok_def sq_digests_def)
  moreover have "check_integers row [''finalized_block'', ''event_index'', ''event_subindex''] = Inr ()"
    "check_identifiers row [''hotkey'', ''target_id''] = Inr ()"
    using ok by (simp_all add: check_integers_eq_Inr check_identifiers_eq_Inr row_str_def row_int_def at qualification_ok_def)
  moreover have "check_members (map PyStr (sq_members q)) = Inr (sq_members q)"
    using ok by (simp add: check_members_eq_Inr qualification_ok_def)
  moreover have "settle_speedup (kwarg row ''speedup'') = Inr (sq_speedup q)"
    using ok by (simp add: at settle_speedup_eq_Inr qualification_ok_def)
  moreover have "settle_digest (kwarg row ''proposal_digest'') ''proposal_digest'' (sq_lane q = ''registered'') = Inr (sq_proposal_digest q)"
    using ok by (auto simp: at settle_digest_eq_Inr qualification_ok_def split: if_splits)
  ultimately show ?thesis using ok
    unfolding row_def [symmetric] SettlementQualification_init_def Let_def by (simp add: q at qualification_ok_def)
qed

text \<open>A qualification that some call of the constructor returned.\<close>

definition is_qualified :: "py_env \<Rightarrow> SettlementQualification \<Rightarrow> bool" where
  "is_qualified E q \<longleftrightarrow> (\<exists>row members inc cand audit orient.
     SettlementQualification_init E row members inc cand audit orient = Inr q)"

lemma qualified_iff: "is_qualified E q \<longleftrightarrow> qualification_ok E q"
  unfolding is_qualified_def using qualification_init_ok qualification_ok_init by blast

lemma registered_manifest:
  assumes "qualification_ok E q" and "sq_lane q = ''registered''"
  obtains m r where "sq_candidate_manifest q = Some m" "manifest_digest E m = sq_candidate_stack_digest q"
    "map_of (esm_entries m) (sq_target_id q) = Some r" "ref_selected_delta E r = sq_selected_delta_digest q"
    "esm_arena_digest m = sq_arena_digest q"
  using assms unfolding qualification_ok_def check_lane_def check_candidate_arena_def settle_fail_def
  by (auto split: option.splits if_splits)

section \<open>Candidates\<close>

definition settled :: "py_env \<Rightarrow> SettlementCandidate \<Rightarrow> bool" where
  "settled E c \<longleftrightarrow> is_qualified E (sc_primary c) \<and> is_qualified E (sc_reproduction c)
     \<and> SettlementCandidate_new (sc_primary c) (sc_reproduction c) = Inr c"

lemma reproduction_identity_ok:
  assumes "qualification_ok E q"
  shows "\<exists>r. reproduction_identity q = Inr r"
  using assms
  by (simp add: reproduction_identity_def SettlementReproductionIdentity_new_def Let_def check_digests_def check_identifiers_def
      kwargs_of_def SettlementReproductionIdentity_fields_def kwarg_def qualification_ok_def sq_digests_def settle_digest_def
      settle_identifier_def require_identifier_def)

lemma reproduction_identity_eq:
  "reproduction_identity q = Inr r \<Longrightarrow> r = \<lparr>sri_arena_digest = sq_arena_digest q, sri_target_id = sq_target_id q,
      sri_selected_delta_digest = sq_selected_delta_digest q, sri_hotkey = sq_hotkey q,
      sri_incumbent_stack_digest = sq_incumbent_stack_digest q, sri_incumbent_tree_digest = sq_incumbent_tree_digest q,
      sri_candidate_stack_digest = sq_candidate_stack_digest q, sri_candidate_tree_digest = sq_candidate_tree_digest q\<rparr>"
  by (auto simp: reproduction_identity_def SettlementReproductionIdentity_new_def Let_def bindE_eq_Inr)

text \<open>Two runs that share nothing but the contribution.\<close>

definition independent :: "SettlementQualification \<Rightarrow> SettlementQualification \<Rightarrow> bool" where
  "independent p r \<longleftrightarrow> \<not> reuses_authority p r
     \<and> (case (sq_audit_policy p, sq_audit_policy r) of
          (None, None) \<Rightarrow> True
        | (Some a, Some b) \<Rightarrow> sap_control a = sap_control b \<and> sap_validator_seed a \<noteq> sap_validator_seed b
            \<and> sq_audit_evidence_digest p \<noteq> sq_audit_evidence_digest r
        | _ \<Rightarrow> False)
     \<and> (case (sq_resident_lane_orientation p, sq_resident_lane_orientation r) of
          (None, None) \<Rightarrow> True | (Some a, Some b) \<Rightarrow> is_exact_swap_of b a | _ \<Rightarrow> False)"

lemma candidate_new_iff:
  assumes "qualification_ok E p" and "qualification_ok E r"
  shows "SettlementCandidate_new p r = Inr c \<longleftrightarrow> same_contribution p r \<and> independent p r \<and> c = \<lparr>sc_primary = p, sc_reproduction = r\<rparr>"
proof -
  obtain a b where ab: "reproduction_identity p = Inr a" "reproduction_identity r = Inr b"
    using assms [THEN reproduction_identity_ok] by blast
  have "same_contribution p r \<Longrightarrow> a = b"
    using ab [THEN reproduction_identity_eq] by (simp add: same_contribution_def)
  then show ?thesis
    by (auto simp: SettlementCandidate_new_def ab settle_fail_simps independent_def check_audits_def check_orientations_def
        bindE_eq_Inr split: option.splits)
qed

lemma settledD:
  assumes "settled E c"
  shows "qualification_ok E (sc_primary c)" and "qualification_ok E (sc_reproduction c)"
    and "same_contribution (sc_primary c) (sc_reproduction c)" and "independent (sc_primary c) (sc_reproduction c)"
proof -
  show p: "qualification_ok E (sc_primary c)" and r: "qualification_ok E (sc_reproduction c)"
    using assms by (simp_all add: settled_def qualified_iff)
  show "same_contribution (sc_primary c) (sc_reproduction c)" "independent (sc_primary c) (sc_reproduction c)"
    using assms candidate_new_iff [OF p r] by (simp_all add: settled_def)
qed

lemma candidate_speedup_ok: "settled E c \<Longrightarrow> speed_ok (candidate_speedup c)"
  using settledD(1,2) [of E c] by (simp add: candidate_speedup_def qualification_ok_def)

lemma candidate_speed:
  "speed_value (candidate_speedup c) = min (speed_value (sq_speedup (sc_primary c))) (speed_value (sq_speedup (sc_reproduction c)))"
  by (simp add: candidate_speedup_def min_def)

end
