(* ===== verification/Settlement_Run.thy ===== *)
theory Settlement_Run
  imports Settlement_Laws
begin

text \<open>
  \<open>plan_settlement\<close> as a list of verdicts run through the journal. The verdicts are decided without
  the journal; the journal numbers and chains them. On settled candidates and a well-formed incumbent
  the planner always succeeds, and its plan is exactly this run.
\<close>

section \<open>Verdicts and their run\<close>

record verdict =
  vd_type :: SettlementEventType
  vd_candidate :: SettlementCandidate
  vd_subject :: string
  vd_target :: string
  vd_goal :: StackArmIdentity
  vd_reason :: string

definition event_of :: "py_env \<Rightarrow> StackArmIdentity \<Rightarrow> verdict \<Rightarrow> int \<Rightarrow> string \<Rightarrow> SettlementEvent" where
  "event_of E base v n prev =
     \<lparr>ev_event_type = vd_type v, ev_sequence = n, ev_previous_event_digest = prev,
      ev_candidate_digest = SettlementCandidate_digest E (vd_candidate v), ev_subject_digest = vd_subject v,
      ev_target_id = vd_target v, ev_from_stack_digest = sai_stack_digest base, ev_from_tree_digest = sai_tree_digest base,
      ev_to_stack_digest = sai_stack_digest (vd_goal v), ev_to_tree_digest = sai_tree_digest (vd_goal v),
      ev_reason = vd_reason v\<rparr>"

fun chain :: "py_env \<Rightarrow> StackArmIdentity \<Rightarrow> int \<Rightarrow> string \<Rightarrow> verdict list \<Rightarrow> SettlementEvent list" where
  "chain E base n prev [] = []"
| "chain E base n prev (v # vs) =
     event_of E base v n prev # chain E base (n + 1) (SettlementEvent_digest E (event_of E base v n prev)) vs"

definition advance_journal :: "py_env \<Rightarrow> StackArmIdentity \<Rightarrow> verdict \<Rightarrow> Journal \<Rightarrow> Journal" where
  "advance_journal E base v j =
     \<lparr>jn_sequence = jn_sequence j + 1, jn_previous = SettlementEvent_digest E (event_of E base v (jn_sequence j) (jn_previous j)),
      jn_events = jn_events j @ [event_of E base v (jn_sequence j) (jn_previous j)]\<rparr>"

definition run_journal :: "py_env \<Rightarrow> StackArmIdentity \<Rightarrow> verdict list \<Rightarrow> Journal \<Rightarrow> Journal" where
  "run_journal E base vs = fold (advance_journal E base) vs"

lemma run_journal_simps [simp]:
  "run_journal E base [] j = j"
  "run_journal E base (v # vs) j = run_journal E base vs (advance_journal E base v j)"
  "run_journal E base (vs @ ws) j = run_journal E base ws (run_journal E base vs j)"
  by (simp_all add: run_journal_def)

lemma run_journal_events:
  "jn_events (run_journal E base vs j) = jn_events j @ chain E base (jn_sequence j) (jn_previous j) vs"
  by (induction vs arbitrary: j) (simp_all add: advance_journal_def)

lemma event_of_links [simp]: "ev_sequence (event_of E base v n prev) = n" "ev_previous_event_digest (event_of E base v n prev) = prev"
  by (simp_all add: event_of_def)

lemma contiguous_Cons:
  "contiguous E (e # es) \<longleftrightarrow> contiguous E es \<and> (case es of [] \<Rightarrow> True
     | f # _ \<Rightarrow> ev_sequence f = ev_sequence e + 1 \<and> ev_previous_event_digest f = SettlementEvent_digest E e)"
  by (cases es) (auto simp: contiguous_def)

lemma chain_contiguous: "contiguous E (chain E base n prev vs)"
proof (induction vs arbitrary: n prev)
  case (Cons v vs)
  let ?e = "event_of E base v n prev"
  have "case chain E base (n + 1) (SettlementEvent_digest E ?e) vs of [] \<Rightarrow> True
     | f # _ \<Rightarrow> ev_sequence f = ev_sequence ?e + 1 \<and> ev_previous_event_digest f = SettlementEvent_digest E ?e"
    by (cases vs) simp_all
  with Cons.IH [of "n + 1" "SettlementEvent_digest E ?e"] show ?case unfolding chain.simps contiguous_Cons by blast
qed (simp add: contiguous_def)

lemma chain_map: "map (\<lambda>e. (ev_event_type e, ev_candidate_digest e, ev_subject_digest e, ev_target_id e, ev_reason e)) (chain E base n prev vs) =
    map (\<lambda>v. (vd_type v, SettlementCandidate_digest E (vd_candidate v), vd_subject v, vd_target v, vd_reason v)) vs"
  by (induction vs arbitrary: n prev) (simp_all add: event_of_def)

section \<open>When a verdict is accepted\<close>

definition arm_ok :: "StackArmIdentity \<Rightarrow> bool" where
  "arm_ok a \<longleftrightarrow> is_digest (sai_stack_digest a) \<and> is_digest (sai_tree_digest a)"

lemma StackArmIdentity_new_iff:
  "StackArmIdentity_new s t = Inr a \<longleftrightarrow> a = \<lparr>sai_stack_digest = s, sai_tree_digest = t\<rparr> \<and> arm_ok a"
  by (auto simp: StackArmIdentity_new_def plan_digest_def bindE_eq_Inr require_digest_eq_Inr arm_ok_def)

definition verdict_ok :: "verdict \<Rightarrow> bool" where
  "verdict_ok v \<longleftrightarrow> is_digest (vd_subject v) \<and> settle_id (vd_target v) \<and> arm_ok (vd_goal v) \<and> settle_id (vd_reason v)"

definition journal_ok :: "Journal \<Rightarrow> bool" where
  "journal_ok j \<longleftrightarrow> 0 \<le> jn_sequence j \<and> (jn_previous j = [] \<or> is_digest (jn_previous j))"

lemma json_digest_ok: "\<forall>b. is_digest (sha256_hexdigest E b) \<Longrightarrow> is_digest (json_digest E d j)"
  by (simp add: json_digest_def)

lemma SettlementEvent_new_ok:
  assumes "0 \<le> ev_sequence e" and "list_all is_digest [ev_candidate_digest e, ev_subject_digest e, ev_from_stack_digest e,
      ev_from_tree_digest e, ev_to_stack_digest e, ev_to_tree_digest e]"
    and "ev_previous_event_digest e = [] \<or> is_digest (ev_previous_event_digest e)"
    and "settle_id (ev_target_id e)" and "settle_id (ev_reason e)"
  shows "SettlementEvent_new e = Inr e"
proof -
  define row where "row = kwargs_of (SettlementEvent_fields e)"
  have "row_carries row (SettlementEvent_fields e)"
    unfolding row_def by (rule row_carries_kwargs_of) (simp add: SettlementEvent_fields_def)
  note at = this [unfolded SettlementEvent_fields_def, simplified]
  have "settle_digest (kwarg row ''previous_event_digest'') ''previous_event_digest'' True = Inr (ev_previous_event_digest e)"
    using assms(3) by (simp add: at settle_digest_eq_Inr)
  moreover have "check_digests row [''candidate_digest'', ''subject_digest'', ''from_stack_digest'', ''from_tree_digest'',
       ''to_stack_digest'', ''to_tree_digest''] = Inr ()"
    using assms(2) by (simp add: check_digests_eq_Inr at row_str_def)
  moreover have "check_identifiers row [''target_id'', ''reason''] = Inr ()"
    using assms(4,5) by (simp add: check_identifiers_eq_Inr at row_str_def)
  ultimately show ?thesis using assms(1)
    unfolding SettlementEvent_new_def row_def [symmetric] SettlementEvent_init_def
    by (simp add: at row_str_def settle_integer_def)
qed

lemma Journal_add_ok:
  assumes hash: "\<forall>b. is_digest (sha256_hexdigest E b)" and base: "arm_ok base" and v: "verdict_ok v" and j: "journal_ok j"
  shows "Journal_add E (vd_type v) (vd_candidate v) (vd_subject v) (vd_target v) base (vd_goal v) (vd_reason v) j =
      Inr (advance_journal E base v j)"
proof -
  have "SettlementEvent_new (event_of E base v (jn_sequence j) (jn_previous j)) = Inr (event_of E base v (jn_sequence j) (jn_previous j))"
    using assms by (intro SettlementEvent_new_ok)
      (simp_all add: event_of_def journal_ok_def verdict_ok_def arm_ok_def SettlementCandidate_digest_def json_digest_def)
  then show ?thesis by (simp add: Journal_add_def advance_journal_def event_of_def)
qed

lemma journal_ok_advance: "\<forall>b. is_digest (sha256_hexdigest E b) \<Longrightarrow> journal_ok j \<Longrightarrow> journal_ok (advance_journal E base v j)"
  by (simp add: journal_ok_def advance_journal_def SettlementEvent_digest_def json_digest_def)

lemma journal_ok_run: "\<forall>b. is_digest (sha256_hexdigest E b) \<Longrightarrow> journal_ok j \<Longrightarrow> journal_ok (run_journal E base vs j)"
  by (induction vs arbitrary: j) (simp_all add: journal_ok_advance)

text \<open>A loop that adds the verdicts of its elements runs all of them.\<close>

lemma foldE_run:
  assumes hash: "\<forall>b. is_digest (sha256_hexdigest E b)"
    and step: "\<And>x j. x \<in> set xs \<Longrightarrow> journal_ok j \<Longrightarrow> f x j = Inr (run_journal E base (g x) j)" and j: "journal_ok j"
  shows "foldE f xs j = Inr (run_journal E base (concat (map g xs)) j)"
  using step j
proof (induction xs arbitrary: j)
  case (Cons x xs)
  then show ?case using journal_ok_run [OF hash] by simp
qed simp

section \<open>What the planner decides\<close>

definition verdict_on :: "SettlementEventType \<Rightarrow> StackArmIdentity \<Rightarrow> string \<Rightarrow> SettlementCandidate \<Rightarrow> verdict" where
  "verdict_on t goal reason c = \<lparr>vd_type = t, vd_candidate = c, vd_subject = sq_selected_delta_digest (sc_primary c),
     vd_target = sq_target_id (sc_primary c), vd_goal = goal, vd_reason = reason\<rparr>"

definition adoption_verdicts ::
    "py_env \<Rightarrow> StackArmIdentity \<Rightarrow> StackArmIdentity \<Rightarrow> SettlementCandidate \<Rightarrow> EvaluationStackManifest \<Rightarrow> EvaluationStackManifest \<Rightarrow>
     ContributionRef \<Rightarrow> verdict list" where
  "adoption_verdicts E base goal winner manifest installed replacement =
     (let t = sq_target_id (sc_primary winner);
          about = (\<lambda>kind subject target to_arm reason. \<lparr>vd_type = kind, vd_candidate = winner, vd_subject = subject,
            vd_target = target, vd_goal = to_arm, vd_reason = reason\<rparr>)
      in [about CROWN (ref_digest E replacement) t base ''qualified_win''] @
         (case map_of (esm_entries manifest) t of None \<Rightarrow> []
          | Some prior \<Rightarrow> [about RETIREMENT (ref_digest E prior) (ref_target_id prior) base ''superseded'']) @
         map (\<lambda>(d, ref). about NEUTRALIZATION (ref_digest E ref) d base ''displaced'')
           (filter (\<lambda>(d, _). d \<noteq> t \<and> d \<notin> fst ` set (esm_entries installed)) (sort_key fst (esm_entries manifest))) @
         [about ADOPTION (ref_digest E replacement) t goal ''adopted'',
          about STACK_TRANSITION (sq_candidate_stack_digest (sc_primary winner)) t goal ''incumbent_updated''])"

lemma reasons_ok:
  "settle_id ''stale_incumbent''" "settle_id ''qualified_discovery''" "settle_id (hold_reason w c)" "settle_id ''qualified_win''"
  "settle_id ''superseded''" "settle_id ''displaced''" "settle_id ''adopted''" "settle_id ''incumbent_updated''"
  by (simp_all add: hold_reason_def settle_id_def ascii_alnum_def)

lemma ref_digest_ok: "\<forall>b. is_digest (sha256_hexdigest E b) \<Longrightarrow> is_digest (ref_digest E r)"
  by (cases r) (simp_all add: json_digest_ok)

lemma verdict_on_ok: "qualification_ok E (sc_primary c) \<Longrightarrow> arm_ok goal \<Longrightarrow> settle_id reason \<Longrightarrow> verdict_ok (verdict_on t goal reason c)"
  by (simp add: verdict_on_def verdict_ok_def qualification_ok_def sq_digests_def)

lemma loop_verdicts:
  assumes hash: "\<forall>b. is_digest (sha256_hexdigest E b)" and base: "arm_ok base" and j: "journal_ok j"
    and ok: "\<forall>c \<in> set cs. qualification_ok E (sc_primary c)"
  shows "foldE (hold_stale E base) cs j = Inr (run_journal E base (map (verdict_on HOLD base ''stale_incumbent'') cs) j)"
    and "foldE (pay_discovery E base) cs j = Inr (run_journal E base (map (verdict_on DISCOVERY_BOUNTY base ''qualified_discovery'') cs) j)"
    and "foldE (hold_loser E base w) cs j = Inr (run_journal E base (map (\<lambda>c. verdict_on HOLD base (hold_reason w c) c) cs) j)"
proof -
  have one: "Journal_add E t c (sq_selected_delta_digest (sc_primary c)) (sq_target_id (sc_primary c)) base base reason j' =
      Inr (run_journal E base [verdict_on t base reason c] j')"
    if "c \<in> set cs" "settle_id reason" "journal_ok j'" for t c reason j'
    using Journal_add_ok [OF hash base verdict_on_ok [OF _ base that(2), of E c] that(3), of t] ok that(1) by (simp add: verdict_on_def)
  have "concat (map (\<lambda>c. [g c]) cs) = map g cs" for g :: "SettlementCandidate \<Rightarrow> verdict" by (induction cs) simp_all
  note run = foldE_run [OF hash _ j, where xs = cs and base = base and g = "\<lambda>c. [_ c]", unfolded this]
  show "foldE (hold_stale E base) cs j = Inr (run_journal E base (map (verdict_on HOLD base ''stale_incumbent'') cs) j)"
    by (rule run) (simp add: hold_stale_def one reasons_ok del: run_journal_simps)
  show "foldE (pay_discovery E base) cs j = Inr (run_journal E base (map (verdict_on DISCOVERY_BOUNTY base ''qualified_discovery'') cs) j)"
    by (rule run) (simp add: pay_discovery_def one reasons_ok del: run_journal_simps)
  show "foldE (hold_loser E base w) cs j = Inr (run_journal E base (map (\<lambda>c. verdict_on HOLD base (hold_reason w c) c) cs) j)"
    by (rule run) (simp add: hold_loser_def one reasons_ok del: run_journal_simps)
qed

section \<open>Adoption\<close>

definition entries_ok :: "EvaluationStackManifest \<Rightarrow> bool" where
  "entries_ok m \<longleftrightarrow> (\<forall>(t, r) \<in> set (esm_entries m). settle_id t \<and> ref_target_id r = t)"

lemma neutralize_run:
  assumes hash: "\<forall>b. is_digest (sha256_hexdigest E b)" and base: "arm_ok base" and j: "journal_ok j"
    and ids: "\<forall>(t, r) \<in> set es. settle_id t"
  shows "foldE (neutralize_entry E base winner installed) es j = Inr (run_journal E base
      (map (\<lambda>(d, ref). \<lparr>vd_type = NEUTRALIZATION, vd_candidate = winner, vd_subject = ref_digest E ref, vd_target = d,
         vd_goal = base, vd_reason = ''displaced''\<rparr>)
       (filter (\<lambda>(d, _). d \<noteq> sq_target_id (sc_primary winner) \<and> d \<notin> fst ` set (esm_entries installed)) es)) j)"
proof -
  let ?v = "\<lambda>(d, ref). \<lparr>vd_type = NEUTRALIZATION, vd_candidate = winner, vd_subject = ref_digest E ref, vd_target = d,
         vd_goal = base, vd_reason = ''displaced''\<rparr>"
  let ?P = "\<lambda>(d, _). d \<noteq> sq_target_id (sc_primary winner) \<and> d \<notin> fst ` set (esm_entries installed)"
  have flat: "concat (map (\<lambda>x. if ?P x then [?v x] else []) es) = map ?v (filter ?P es)" by (induction es) auto
  have step: "neutralize_entry E base winner installed x j' = Inr (run_journal E base (if ?P x then [?v x] else []) j')"
    if "x \<in> set es" "journal_ok j'" for x j'
  proof -
    obtain d ref where x: "x = (d, ref)" by (cases x)
    have "verdict_ok (?v x)" using that(1) ids base by (auto simp: x verdict_ok_def ref_digest_ok [OF hash] reasons_ok)
    from Journal_add_ok [OF hash base this that(2)] show ?thesis by (simp add: x neutralize_entry_def)
  qed
  show ?thesis unfolding flat [symmetric] by (rule foldE_run [OF hash _ j]) (rule step)
qed

lemma transition_ok:
  assumes "is_digest (sto_candidate_digest t)" "manifest_digest E (sto_manifest t) = sai_stack_digest (sto_after t)"
    "sto_before t \<noteq> sto_after t"
  shows "StackTransitionOutput_new E t = Inr t"
  using assms by (simp add: StackTransitionOutput_new_def settle_digest_def)

lemma transition_plan_ok:
  assumes "is_digest d" "contiguous E es" "sto_candidate_digest t = d" "sto_before t = base" "sto_after t = goal"
  shows "SettlementPlan_new E \<lparr>sp_before = base, sp_after = goal, sp_winner_candidate_digest = d, sp_events = es, sp_transition = Some t\<rparr> =
     Inr \<lparr>sp_before = base, sp_after = goal, sp_winner_candidate_digest = d, sp_events = es, sp_transition = Some t\<rparr>"
proof -
  have "settle_digest (PyStr d) ''winner'' True = Inr d" using assms(1) by (simp add: settle_digest_eq_Inr)
  then show ?thesis using assms by (simp add: SettlementPlan_new_def)
qed

lemma adopt_winner_run:
  assumes hash: "\<forall>b. is_digest (sha256_hexdigest E b)" and arms: "arm_ok base" "arm_ok goal" "base \<noteq> goal"
    and j: "journal_ok j"
    and more: "\<And>vs. jn_events j @ chain E base (jn_sequence j) (jn_previous j) vs = chain E base n prev (vs0 @ vs)"
    and w: "qualification_ok E (sc_primary winner)" and m: "entries_ok manifest"
    and r: "map_of (esm_entries installed) (sq_target_id (sc_primary winner)) = Some replacement"
    and d: "manifest_digest E installed = sai_stack_digest goal"
  shows "adopt_winner E base goal winner manifest installed j = Inr
    \<lparr>sp_before = base, sp_after = goal, sp_winner_candidate_digest = SettlementCandidate_digest E winner,
     sp_events = chain E base n prev (vs0 @ adoption_verdicts E base goal winner manifest installed replacement),
     sp_transition = Some \<lparr>sto_candidate_digest = SettlementCandidate_digest E winner, sto_before = base, sto_after = goal,
       sto_manifest = installed\<rparr>\<rparr>"
proof -
  let ?t = "sq_target_id (sc_primary winner)"
  let ?about = "\<lambda>kind subject target to_arm reason. \<lparr>vd_type = kind, vd_candidate = winner, vd_subject = subject,
            vd_target = target, vd_goal = to_arm, vd_reason = reason\<rparr>"
  have t: "settle_id ?t" and cd: "is_digest (sq_candidate_stack_digest (sc_primary winner))"
    using w by (simp_all add: qualification_ok_def sq_digests_def)
  have add: "Journal_add E kind winner subject target base to_arm reason j' = Inr (run_journal E base [?about kind subject target to_arm reason] j')"
    if "is_digest subject" "settle_id target" "arm_ok to_arm" "settle_id reason" "journal_ok j'" for kind subject target to_arm reason j'
    using Journal_add_ok [OF hash arms(1), of "?about kind subject target to_arm reason" j'] that by (simp add: verdict_ok_def)
  have retire: "retire_prior E base winner manifest j' = Inr (run_journal E base (case map_of (esm_entries manifest) ?t of None \<Rightarrow> []
      | Some prior \<Rightarrow> [?about RETIREMENT (ref_digest E prior) (ref_target_id prior) base ''superseded'']) j')"
    if "journal_ok j'" for j'
  proof (cases "map_of (esm_entries manifest) ?t")
    case (Some prior)
    then have "settle_id (ref_target_id prior)" using m map_of_SomeD [OF Some] by (auto simp: entries_ok_def)
    then show ?thesis using add [OF ref_digest_ok [OF hash] _ arms(1) reasons_ok(5) that] by (simp add: retire_prior_def Some)
  qed (simp add: retire_prior_def)
  have ids: "\<forall>(t, r) \<in> set (sort_key fst (esm_entries manifest)). settle_id t" using m by (auto simp: entries_ok_def)
  define j1 where "j1 = run_journal E base [?about CROWN (ref_digest E replacement) ?t base ''qualified_win''] j"
  define j2 where "j2 = run_journal E base (case map_of (esm_entries manifest) ?t of None \<Rightarrow> []
      | Some prior \<Rightarrow> [?about RETIREMENT (ref_digest E prior) (ref_target_id prior) base ''superseded'']) j1"
  define j3 where "j3 = run_journal E base (map (\<lambda>(d, ref). ?about NEUTRALIZATION (ref_digest E ref) d base ''displaced'')
      (filter (\<lambda>(d, _). d \<noteq> ?t \<and> d \<notin> fst ` set (esm_entries installed)) (sort_key fst (esm_entries manifest)))) j2"
  define j4 where "j4 = run_journal E base [?about ADOPTION (ref_digest E replacement) ?t goal ''adopted''] j3"
  define j5 where "j5 = run_journal E base [?about STACK_TRANSITION (sq_candidate_stack_digest (sc_primary winner)) ?t goal ''incumbent_updated''] j4"
  note ok = journal_ok_run [OF hash]
  have s1: "Journal_add E CROWN winner (ref_digest E replacement) ?t base base ''qualified_win'' j = Inr j1"
    unfolding j1_def using j by (intro add ref_digest_ok [OF hash] t arms reasons_ok)
  have k1: "journal_ok j1" unfolding j1_def using j by (rule ok)
  have s2: "retire_prior E base winner manifest j1 = Inr j2" unfolding j2_def using k1 by (rule retire)
  have k2: "journal_ok j2" unfolding j2_def using k1 by (rule ok)
  have s3: "foldE (neutralize_entry E base winner installed) (sort_key fst (esm_entries manifest)) j2 = Inr j3"
    unfolding j3_def by (rule neutralize_run [OF hash arms(1) k2 ids])
  have k3: "journal_ok j3" unfolding j3_def using k2 by (rule ok)
  have s4: "Journal_add E ADOPTION winner (ref_digest E replacement) ?t base goal ''adopted'' j3 = Inr j4"
    unfolding j4_def using k3 by (intro add ref_digest_ok [OF hash] t arms reasons_ok)
  have k4: "journal_ok j4" unfolding j4_def using k3 by (rule ok)
  have s5: "Journal_add E STACK_TRANSITION winner (sq_candidate_stack_digest (sc_primary winner)) ?t base goal ''incumbent_updated'' j4 = Inr j5"
    unfolding j5_def using k4 by (intro add cd t arms reasons_ok)
  have "j5 = run_journal E base (adoption_verdicts E base goal winner manifest installed replacement) j"
    unfolding j5_def j4_def j3_def j2_def j1_def adoption_verdicts_def Let_def run_journal_simps by simp
  then have ev: "jn_events j5 = chain E base n prev (vs0 @ adoption_verdicts E base goal winner manifest installed replacement)"
    by (simp only: run_journal_events more)
  have wd: "is_digest (SettlementCandidate_digest E winner)" by (simp add: SettlementCandidate_digest_def json_digest_ok [OF hash])
  let ?tr = "\<lparr>sto_candidate_digest = SettlementCandidate_digest E winner, sto_before = base, sto_after = goal, sto_manifest = installed\<rparr>"
  have tr: "StackTransitionOutput_new E ?tr = Inr ?tr" using wd d arms(3) by (intro transition_ok) simp_all
  show ?thesis
    unfolding adopt_winner_def Let_def r option.case s1 s2 s3 s4 s5 bindE_Inr tr ev
    by (rule transition_plan_ok) (simp_all add: wd chain_contiguous)
qed

section \<open>The whole plan\<close>

definition candidate_base :: "SettlementCandidate \<Rightarrow> StackArmIdentity" where
  "candidate_base c = \<lparr>sai_stack_digest = sq_incumbent_stack_digest (sc_primary c), sai_tree_digest = sq_incumbent_tree_digest (sc_primary c)\<rparr>"

definition candidate_goal :: "SettlementCandidate \<Rightarrow> StackArmIdentity" where
  "candidate_goal c = \<lparr>sai_stack_digest = sq_candidate_stack_digest (sc_primary c), sai_tree_digest = sq_candidate_tree_digest (sc_primary c)\<rparr>"

definition stale_rows :: "StackArmIdentity \<Rightarrow> SettlementCandidate list \<Rightarrow> SettlementCandidate list" where
  "stale_rows base rows = filter (\<lambda>c. candidate_base c \<noteq> base) rows"

definition lane_rows :: "string \<Rightarrow> StackArmIdentity \<Rightarrow> SettlementCandidate list \<Rightarrow> SettlementCandidate list" where
  "lane_rows lane base rows = filter (\<lambda>c. candidate_base c = base \<and> sq_lane (sc_primary c) = lane) rows"

definition chosen :: "StackArmIdentity \<Rightarrow> SettlementCandidate list \<Rightarrow> SettlementCandidate option" where
  "chosen base rows = (case lane_rows ''registered'' base rows of [] \<Rightarrow> None | c # cs \<Rightarrow> Some (min_by winner_key c cs))"

definition installed_by :: "SettlementCandidate \<Rightarrow> EvaluationStackManifest" where
  "installed_by c = the (sq_candidate_manifest (sc_primary c))"

definition replacement_of :: "SettlementCandidate \<Rightarrow> ContributionRef" where
  "replacement_of c = the (map_of (esm_entries (installed_by c)) (sq_target_id (sc_primary c)))"

definition standing_verdicts :: "StackArmIdentity \<Rightarrow> SettlementCandidate list \<Rightarrow> verdict list" where
  "standing_verdicts base rows =
     map (verdict_on HOLD base ''stale_incumbent'') (sort_key sc_order (stale_rows base rows)) @
     map (verdict_on DISCOVERY_BOUNTY base ''qualified_discovery'') (sort_key sc_order (lane_rows ''discovery'' base rows)) @
     (case chosen base rows of None \<Rightarrow> []
      | Some w \<Rightarrow> map (\<lambda>c. verdict_on HOLD base (hold_reason w c) c)
          (sort_key sc_order (filter (\<lambda>r. r \<noteq> w) (lane_rows ''registered'' base rows))))"

definition settlement_verdicts ::
    "py_env \<Rightarrow> StackArmIdentity \<Rightarrow> EvaluationStackManifest \<Rightarrow> SettlementCandidate list \<Rightarrow> verdict list" where
  "settlement_verdicts E base manifest rows = standing_verdicts base rows @
     (case chosen base rows of None \<Rightarrow> []
      | Some w \<Rightarrow> adoption_verdicts E base (candidate_goal w) w manifest (installed_by w) (replacement_of w))"

definition settlement_of ::
    "py_env \<Rightarrow> StackArmIdentity \<Rightarrow> EvaluationStackManifest \<Rightarrow> SettlementCandidate list \<Rightarrow> int \<Rightarrow> string \<Rightarrow> SettlementPlan" where
  "settlement_of E base manifest rows n prev =
     \<lparr>sp_before = base, sp_after = (case chosen base rows of None \<Rightarrow> base | Some w \<Rightarrow> candidate_goal w),
      sp_winner_candidate_digest = (case chosen base rows of None \<Rightarrow> [] | Some w \<Rightarrow> SettlementCandidate_digest E w),
      sp_events = chain E base n prev (settlement_verdicts E base manifest rows),
      sp_transition = map_option (\<lambda>w. \<lparr>sto_candidate_digest = SettlementCandidate_digest E w, sto_before = base,
        sto_after = candidate_goal w, sto_manifest = installed_by w\<rparr>) (chosen base rows)\<rparr>"

lemma min_by_member: "min_by key x xs \<in> set (x # xs)"
  by (induction xs arbitrary: x) auto

lemma min_by_least: "y \<in> set (x # xs) \<Longrightarrow> key (min_by key x xs) \<le> key y"
proof (induction xs arbitrary: x y)
  case (Cons z xs)
  show ?case
  proof (cases "y \<in> set xs")
    case True then show ?thesis using Cons.IH [of y "if key z < key x then z else x"] by simp
  next
    case False
    then have "y = x \<or> y = z" using Cons.prems by simp
    then have "key (if key z < key x then z else x) \<le> key y" by auto
    moreover have "key (min_by key (if key z < key x then z else x) xs) \<le> key (if key z < key x then z else x)"
      using Cons.IH by simp
    ultimately show ?thesis by simp
  qed
qed simp

lemma chosen_eq: "chosen base rows = Some w \<longleftrightarrow> (\<exists>c cs. lane_rows ''registered'' base rows = c # cs \<and> w = min_by winner_key c cs)"
  by (auto simp: chosen_def split: list.splits)

lemma chosen_member: "chosen base rows = Some w \<Longrightarrow> w \<in> set (lane_rows ''registered'' base rows)"
  unfolding chosen_eq by (elim exE conjE) (simp only: min_by_member)

lemma chosen_registered:
  assumes "chosen base rows = Some w"
  shows "w \<in> set rows" "candidate_base w = base" "sq_lane (sc_primary w) = ''registered''"
  using chosen_member [OF assms] by (simp_all add: lane_rows_def)

lemma chosen_least: "chosen base rows = Some w \<Longrightarrow> c \<in> set (lane_rows ''registered'' base rows) \<Longrightarrow> winner_key w \<le> winner_key c"
  unfolding chosen_eq by (elim exE conjE) (simp only: min_by_least)

lemma winner_facts:
  assumes "settled E w" and "sq_lane (sc_primary w) = ''registered''"
  shows "sq_candidate_manifest (sc_primary w) = Some (installed_by w)"
    and "map_of (esm_entries (installed_by w)) (sq_target_id (sc_primary w)) = Some (replacement_of w)"
    and "manifest_digest E (installed_by w) = sai_stack_digest (candidate_goal w)"
    and "arm_ok (candidate_goal w)" and "candidate_base w \<noteq> candidate_goal w"
    and "challenger_arm (sc_primary w) = Inr (candidate_goal w)"
proof -
  note q = settledD(1) [OF assms(1)]
  show "sq_candidate_manifest (sc_primary w) = Some (installed_by w)"
    and "map_of (esm_entries (installed_by w)) (sq_target_id (sc_primary w)) = Some (replacement_of w)"
    and "manifest_digest E (installed_by w) = sai_stack_digest (candidate_goal w)"
    by (rule registered_manifest [OF q assms(2)]; simp add: installed_by_def replacement_of_def candidate_goal_def)+
  show "arm_ok (candidate_goal w)" using q by (simp add: arm_ok_def candidate_goal_def qualification_ok_def sq_digests_def)
  then show "challenger_arm (sc_primary w) = Inr (candidate_goal w)"
    by (simp add: challenger_arm_def StackArmIdentity_new_iff candidate_goal_def)
  show "candidate_base w \<noteq> candidate_goal w"
    using q by (auto simp: candidate_base_def candidate_goal_def qualification_ok_def check_incumbent_def settle_fail_simps)
qed

lemma arms_of_rows:
  assumes "\<forall>c \<in> set rows. settled E c"
  shows "mapE (\<lambda>c. bindE (incumbent_arm (sc_primary c)) (\<lambda>arm. Inr (arm, c))) rows = Inr (map (\<lambda>c. (candidate_base c, c)) rows)"
proof (rule mapE_Inr)
  fix c assume "c \<in> set rows"
  with assms have "qualification_ok E (sc_primary c)" using settledD(1) by blast
  then have "incumbent_arm (sc_primary c) = Inr (candidate_base c)"
    by (simp add: incumbent_arm_def StackArmIdentity_new_iff candidate_base_def arm_ok_def qualification_ok_def sq_digests_def)
  then show "bindE (incumbent_arm (sc_primary c)) (\<lambda>arm. Inr (arm, c)) = Inr (candidate_base c, c)" by simp
qed

lemma rows_by_arm:
  "map snd (filter (\<lambda>(arm, _). arm \<noteq> base) (map (\<lambda>c. (candidate_base c, c)) rows)) = stale_rows base rows"
  "filter (\<lambda>c. sq_lane (sc_primary c) = lane) (map snd (filter (\<lambda>(arm, _). arm = base) (map (\<lambda>c. (candidate_base c, c)) rows))) =
     lane_rows lane base rows"
  by (simp_all add: stale_rows_def lane_rows_def filter_map comp_def filter_filter conj_commute)

lemma settle_registered_run:
  assumes hash: "\<forall>b. is_digest (sha256_hexdigest E b)" and base: "arm_ok base" and j0: "journal_ok j0" "jn_events j0 = []"
    and rows: "\<forall>c \<in> set rows. settled E c" and m: "entries_ok manifest"
  shows "settle_registered E base (lane_rows ''registered'' base rows) manifest (run_journal E base
      (map (verdict_on HOLD base ''stale_incumbent'') (sort_key sc_order (stale_rows base rows)) @
       map (verdict_on DISCOVERY_BOUNTY base ''qualified_discovery'') (sort_key sc_order (lane_rows ''discovery'' base rows))) j0) =
    Inr (settlement_of E base manifest rows (jn_sequence j0) (jn_previous j0))"
proof (cases "chosen base rows")
  case None
  then have none: "lane_rows ''registered'' base rows = []" by (auto simp: chosen_def split: list.splits)
  have "settle_digest (PyStr []) ''winner'' True = Inr []" by (simp add: settle_digest_eq_Inr)
  then show ?thesis
    by (simp add: none settle_registered_def SettlementPlan_new_def run_journal_events j0(2) chain_contiguous
        settlement_of_def None settlement_verdicts_def standing_verdicts_def del: run_journal_simps)
next
  case (Some w)
  then obtain c cs where cs: "lane_rows ''registered'' base rows = c # cs" and w: "w = min_by winner_key c cs"
    by (auto simp: chosen_def split: list.splits)
  note reg = chosen_registered [OF Some]
  have sw: "settled E w" using rows reg(1) by blast
  note f = winner_facts [OF sw reg(3)]
  let ?vs = "map (verdict_on HOLD base ''stale_incumbent'') (sort_key sc_order (stale_rows base rows)) @
       map (verdict_on DISCOVERY_BOUNTY base ''qualified_discovery'') (sort_key sc_order (lane_rows ''discovery'' base rows))"
  let ?ls = "sort_key sc_order (filter (\<lambda>r. r \<noteq> w) (c # cs))"
  let ?hs = "map (\<lambda>c. verdict_on HOLD base (hold_reason w c) c) ?ls"
  define j1 where "j1 = run_journal E base (?vs @ ?hs) j0"
  have "\<forall>c \<in> set ?ls. qualification_ok E (sc_primary c)"
    using rows settledD(1) unfolding cs [symmetric] by (auto simp: lane_rows_def)
  then have losers: "foldE (hold_loser E base w) ?ls (run_journal E base ?vs j0) = Inr j1"
    unfolding j1_def run_journal_simps(3) [of E base ?vs ?hs] by (rule loop_verdicts(3) [OF hash base journal_ok_run [OF hash j0(1)]])
  have ok: "journal_ok j1" unfolding j1_def by (rule journal_ok_run [OF hash j0(1)])
  have more: "jn_events j1 @ chain E base (jn_sequence j1) (jn_previous j1) vs =
      chain E base (jn_sequence j0) (jn_previous j0) ((?vs @ ?hs) @ vs)" for vs
    using run_journal_events [of E base "(?vs @ ?hs) @ vs" j0] unfolding run_journal_simps(3) [of E base "?vs @ ?hs"] j1_def [symmetric]
    by (simp only: run_journal_events j0(2) append_Nil)
  have plan: "adopt_winner E base (candidate_goal w) w manifest (installed_by w) j1 = Inr (settlement_of E base manifest rows (jn_sequence j0) (jn_previous j0))"
    using adopt_winner_run [OF hash base f(4) _ ok more settledD(1) [OF sw] m f(2,3)] f(5) reg(2)
    by (simp add: settlement_of_def Some settlement_verdicts_def standing_verdicts_def cs)
  show ?thesis
    unfolding settle_registered_def cs list.case Let_def w [symmetric] f(6) bindE_Inr losers f(1) option.case plan ..
qed

text \<open>The planner is total on settled candidates, and its plan is the run of its verdicts.\<close>

lemma plan_settlement_run:
  assumes hash: "\<forall>b. is_digest (sha256_hexdigest E b)" and rows: "\<forall>c \<in> set rows. settled E c"
    and m: "entries_ok manifest" and tree: "is_digest tree"
    and n: "0 \<le> n" and prev: "prev = [] \<or> is_digest prev"
    and d: "distinct (map (SettlementCandidate_digest E) rows)" "distinct (map (\<lambda>c. sq_reservation_digest (sc_primary c)) rows)"
  shows "plan_settlement E rows manifest tree n prev =
    Inr (settlement_of E \<lparr>sai_stack_digest = manifest_digest E manifest, sai_tree_digest = tree\<rparr> manifest rows n prev)"
proof -
  define base where "base = \<lparr>sai_stack_digest = manifest_digest E manifest, sai_tree_digest = tree\<rparr>"
  have ok: "arm_ok base" using tree by (simp add: base_def arm_ok_def manifest_digest_def json_digest_ok [OF hash])
  then have s1: "StackArmIdentity_new (manifest_digest E manifest) tree = Inr base" by (simp add: StackArmIdentity_new_iff base_def)
  let ?j0 = "\<lparr>jn_sequence = n, jn_previous = prev, jn_events = []\<rparr>"
  have k: "settle_integer (PyInt n) ''initial event sequence'' = Inr n" "settle_digest (PyStr prev) ''previous event'' True = Inr prev"
    using n prev by (simp_all add: settle_integer_def settle_digest_eq_Inr)
  have s2: "Journal_init n prev = Inr ?j0" by (simp add: Journal_init_def k)
  have j0: "journal_ok ?j0" using n prev by (simp add: journal_ok_def)
  have q: "\<forall>c \<in> set (sort_key sc_order (stale_rows base rows)). qualification_ok E (sc_primary c)"
    "\<forall>c \<in> set (sort_key sc_order (lane_rows ''discovery'' base rows)). qualification_ok E (sc_primary c)"
    using rows settledD(1) by (auto simp: stale_rows_def lane_rows_def)
  have nd: "\<not> (\<not> distinct (map (SettlementCandidate_digest E) rows) \<or> \<not> distinct (map (\<lambda>c. sq_reservation_digest (sc_primary c)) rows))"
    using d by simp
  have "plan_settlement E rows manifest tree n prev = Inr (settlement_of E base manifest rows n prev)"
    unfolding plan_settlement_def s1 bindE_Inr if_not_P [OF nd] s2 arms_of_rows [OF rows] Let_def rows_by_arm
      loop_verdicts(1) [OF hash ok j0 q(1)] loop_verdicts(2) [OF hash ok journal_ok_run [OF hash j0] q(2)]
      run_journal_simps(3) [symmetric]
    using settle_registered_run [OF hash ok j0 _ rows m] by simp
  then show ?thesis by (simp only: base_def)
qed

end
