(* ===== verification/Settlement_Outcome.thy ===== *)
theory Settlement_Outcome
  imports Settlement_Run
begin

text \<open>
  What the verdicts of a settlement say: each candidate is decided exactly once, the winner has the
  greatest reproduced speedup, the order of the candidates does not matter, and an adopted arm retires
  and neutralizes exactly what its plan replaces and displaces.
\<close>

section \<open>Inputs the planner accepts\<close>

definition planner_ready ::
    "py_env \<Rightarrow> SettlementCandidate list \<Rightarrow> EvaluationStackManifest \<Rightarrow> string \<Rightarrow> int \<Rightarrow> string \<Rightarrow> bool" where
  "planner_ready E rows manifest tree n prev \<longleftrightarrow>
     (\<forall>b. is_digest (sha256_hexdigest E b)) \<and> (\<forall>c \<in> set rows. settled E c)
     \<and> distinct (map (SettlementCandidate_digest E) rows) \<and> distinct (map (\<lambda>c. sq_reservation_digest (sc_primary c)) rows)
     \<and> entries_ok manifest \<and> is_digest tree \<and> 0 \<le> n \<and> (prev = [] \<or> is_digest prev)"

abbreviation current_arm :: "py_env \<Rightarrow> EvaluationStackManifest \<Rightarrow> string \<Rightarrow> StackArmIdentity" where
  "current_arm E manifest tree \<equiv> \<lparr>sai_stack_digest = manifest_digest E manifest, sai_tree_digest = tree\<rparr>"

lemma ready_plan:
  "planner_ready E rows manifest tree n prev \<Longrightarrow>
     plan_settlement E rows manifest tree n prev = Inr (settlement_of E (current_arm E manifest tree) manifest rows n prev)"
  unfolding planner_ready_def by (elim conjE) (rule plan_settlement_run)

section \<open>One decision per candidate\<close>

definition decisive :: "SettlementEventType \<Rightarrow> bool" where
  "decisive t \<longleftrightarrow> t \<in> {HOLD, CROWN, DISCOVERY_BOUNTY}"

definition decision ::
    "StackArmIdentity \<Rightarrow> SettlementCandidate option \<Rightarrow> SettlementCandidate \<Rightarrow> SettlementEventType \<times> string" where
  "decision base winner c =
     (if candidate_base c \<noteq> base then (HOLD, ''stale_incumbent'')
      else if sq_lane (sc_primary c) = ''discovery'' then (DISCOVERY_BOUNTY, ''qualified_discovery'')
      else case winner of
             None \<Rightarrow> (HOLD, [])
           | Some w \<Rightarrow> if c = w then (CROWN, ''qualified_win'') else (HOLD, hold_reason w c))"

lemma decisive_simps [simp]:
  "decisive HOLD" "decisive CROWN" "decisive DISCOVERY_BOUNTY" "\<not> decisive ADOPTION" "\<not> decisive RETIREMENT"
  "\<not> decisive NEUTRALIZATION" "\<not> decisive STACK_TRANSITION"
  by (simp_all add: decisive_def)

lemma mset_partition3:
  assumes "\<forall>x \<in> set xs. \<not> P x \<longrightarrow> Q x \<noteq> R x"
  shows "mset (filter P xs) + mset (filter (\<lambda>x. \<not> P x \<and> Q x) xs) + mset (filter (\<lambda>x. \<not> P x \<and> R x) xs) = mset xs"
  using assms by (induction xs) auto

lemma mset_remove_one: "distinct xs \<Longrightarrow> w \<in> set xs \<Longrightarrow> mset (filter (\<lambda>r. r \<noteq> w) xs) + {#w#} = mset xs"
proof (induction xs)
  case (Cons x xs)
  then show ?case
  proof (cases "x = w")
    case True
    with Cons.prems have "filter (\<lambda>r. r \<noteq> w) xs = xs" by (auto simp: filter_id_conv)
    with True show ?thesis by (simp del: mset_filter)
  qed simp
qed simp

lemma rows_partition:
  assumes "\<forall>c \<in> set rows. settled E c"
  shows "mset (stale_rows base rows) + mset (lane_rows ''discovery'' base rows) + mset (lane_rows ''registered'' base rows) = mset rows"
proof -
  have "(sq_lane (sc_primary c) = ''discovery'') \<noteq> (sq_lane (sc_primary c) = ''registered'')" if "c \<in> set rows" for c
    using assms that settledD(1) [of E c] by (auto simp: qualification_ok_def)
  then show ?thesis unfolding stale_rows_def lane_rows_def
    using mset_partition3 [of rows "\<lambda>c. candidate_base c \<noteq> base" "\<lambda>c. sq_lane (sc_primary c) = ''discovery''"
      "\<lambda>c. sq_lane (sc_primary c) = ''registered''"] by simp
qed

abbreviation verdict_sign :: "verdict \<Rightarrow> SettlementCandidate \<times> SettlementEventType \<times> string" where
  "verdict_sign v \<equiv> (vd_candidate v, vd_type v, vd_reason v)"

lemma adoption_decisive:
  "filter (decisive \<circ> vd_type) (adoption_verdicts E base goal w manifest installed r) =
     [\<lparr>vd_type = CROWN, vd_candidate = w, vd_subject = ref_digest E r, vd_target = sq_target_id (sc_primary w), vd_goal = base,
       vd_reason = ''qualified_win''\<rparr>]"
  by (auto simp: adoption_verdicts_def Let_def filter_empty_conv split: option.splits)

lemma standing_decisive: "filter (decisive \<circ> vd_type) (standing_verdicts base rows) = standing_verdicts base rows"
  by (auto simp: standing_verdicts_def filter_id_conv verdict_on_def split: option.splits)

lemma decided_once:
  assumes rows: "\<forall>c \<in> set rows. settled E c" and d: "distinct rows"
  shows "mset (map verdict_sign (filter (decisive \<circ> vd_type) (settlement_verdicts E base manifest rows))) =
      image_mset (\<lambda>c. (c, decision base (chosen base rows) c)) (mset rows)"
proof -
  let ?D = "\<lambda>c. (c, decision base (chosen base rows) c)"
  have stale: "image_mset verdict_sign (mset (map (verdict_on HOLD base ''stale_incumbent'') (stale_rows base rows))) =
      image_mset ?D (mset (stale_rows base rows))"
    by (auto simp: verdict_on_def decision_def stale_rows_def multiset.map_comp intro!: image_mset_cong)
  have disc: "image_mset verdict_sign (mset (map (verdict_on DISCOVERY_BOUNTY base ''qualified_discovery'') (lane_rows ''discovery'' base rows))) =
      image_mset ?D (mset (lane_rows ''discovery'' base rows))"
    by (auto simp: verdict_on_def decision_def lane_rows_def multiset.map_comp intro!: image_mset_cong)
  show ?thesis
  proof (cases "chosen base rows")
    case None
    then have "lane_rows ''registered'' base rows = []" by (auto simp: chosen_def split: list.splits)
    then have part: "mset rows = mset (stale_rows base rows) + mset (lane_rows ''discovery'' base rows)"
      using rows_partition [OF rows, of base] by simp
    show ?thesis using stale disc None
      by (simp add: settlement_verdicts_def standing_decisive part) (simp add: standing_verdicts_def multiset.map_comp comp_def)
  next
    case (Some w)
    let ?reg = "lane_rows ''registered'' base rows"
    have one: "mset (filter (\<lambda>r. r \<noteq> w) ?reg) + {#w#} = mset ?reg"
      using d chosen_member [OF Some] by (intro mset_remove_one) (simp_all add: lane_rows_def)
    have lose: "image_mset verdict_sign (mset (map (\<lambda>c. verdict_on HOLD base (hold_reason w c) c) (filter (\<lambda>r. r \<noteq> w) ?reg))) =
      image_mset ?D (mset (filter (\<lambda>r. r \<noteq> w) ?reg))"
      by (auto simp: verdict_on_def decision_def lane_rows_def Some multiset.map_comp intro!: image_mset_cong)
    have win: "?D w = (w, CROWN, ''qualified_win'')" using chosen_registered [OF Some] by (simp add: decision_def Some)
    have part: "mset rows = mset (stale_rows base rows) + mset (lane_rows ''discovery'' base rows) +
        (mset (filter (\<lambda>r. r \<noteq> w) ?reg) + {#w#})"
      using rows_partition [OF rows, of base] one by simp
    show ?thesis using stale disc lose win [unfolded Some]
      by (simp add: settlement_verdicts_def standing_decisive adoption_decisive part Some)
        (simp add: standing_verdicts_def Some multiset.map_comp comp_def)
  qed
qed

text \<open>From verdicts to the numbered events.\<close>

lemma chain_filter:
  "map (\<lambda>e. (ev_event_type e, ev_reason e)) (filter (\<lambda>e. ev_candidate_digest e = d \<and> P (ev_event_type e)) (chain E base n prev vs)) =
   map (\<lambda>v. (vd_type v, vd_reason v)) (filter (\<lambda>v. SettlementCandidate_digest E (vd_candidate v) = d \<and> P (vd_type v)) vs)"
  by (induction vs arbitrary: n prev) (simp_all add: event_of_def)

lemma filter_digest_unique:
  assumes "distinct (map f xs)" and "c \<in> set xs"
  shows "filter (\<lambda>x. f x = f c) xs = [c]"
  using assms
proof (induction xs)
  case (Cons x xs)
  then show ?case by (cases "c = x") (auto simp: filter_empty_conv image_iff)
qed simp

lemma one_event_decides:
  assumes ready: "planner_ready E rows manifest tree n prev" and c: "c \<in> set rows"
  defines "base \<equiv> current_arm E manifest tree"
  shows "map (\<lambda>e. (ev_event_type e, ev_reason e)) (filter (\<lambda>e. ev_candidate_digest e = SettlementCandidate_digest E c
      \<and> decisive (ev_event_type e)) (sp_events (settlement_of E base manifest rows n prev))) = [decision base (chosen base rows) c]"
proof -
  let ?d = "SettlementCandidate_digest E" and ?vs = "settlement_verdicts E base manifest rows"
  have dist: "distinct (map ?d rows)" and rows: "\<forall>c \<in> set rows. settled E c" using ready by (simp_all add: planner_ready_def)
  let ?signs = "map verdict_sign (filter (decisive \<circ> vd_type) ?vs)"
  have "mset (filter (\<lambda>(k, _). ?d k = ?d c) ?signs) =
      image_mset (\<lambda>c. (c, decision base (chosen base rows) c)) (mset (filter (\<lambda>k. ?d k = ?d c) rows))"
    using decided_once [OF rows, of base manifest] dist by (simp add: distinct_map filter_mset_image_mset del: mset_map)
  then have "mset (filter (\<lambda>(k, _). ?d k = ?d c) ?signs) = {#(c, decision base (chosen base rows) c)#}"
    unfolding filter_digest_unique [OF dist c] by (simp only: mset.simps image_mset_add_mset image_mset_empty)
  then have "filter (\<lambda>(k, _). ?d k = ?d c) ?signs = [(c, decision base (chosen base rows) c)]"
    by (simp only: mset_single_iff)
  moreover have "map (\<lambda>v. (vd_type v, vd_reason v)) (filter (\<lambda>v. ?d (vd_candidate v) = ?d c \<and> decisive (vd_type v)) ?vs) =
      map snd (filter (\<lambda>(k, _). ?d k = ?d c) ?signs)"
    by (simp add: filter_map comp_def conj_commute)
  ultimately show ?thesis by (simp add: settlement_of_def chain_filter)
qed

section \<open>Where the events point\<close>

lemma chain_events: "e \<in> set (chain E base n prev vs) \<Longrightarrow> \<exists>v \<in> set vs. \<exists>k d. e = event_of E base v k d"
  by (induction vs arbitrary: n prev) auto

lemma verdict_goals:
  assumes "v \<in> set (settlement_verdicts E base manifest rows)"
  shows "vd_goal v = base \<or> (\<exists>w. chosen base rows = Some w \<and> vd_goal v = candidate_goal w \<and> vd_candidate v = w
     \<and> vd_type v \<in> {ADOPTION, STACK_TRANSITION})"
  using assms by (auto simp: settlement_verdicts_def standing_verdicts_def adoption_verdicts_def verdict_on_def Let_def split: option.splits)

lemma events_start_at_base:
  assumes "e \<in> set (sp_events (settlement_of E base manifest rows n prev))"
  shows "ev_from_stack_digest e = sai_stack_digest base \<and> ev_from_tree_digest e = sai_tree_digest base
    \<and> (ev_to_stack_digest e = sai_stack_digest base \<and> ev_to_tree_digest e = sai_tree_digest base
       \<or> ev_event_type e \<in> {ADOPTION, STACK_TRANSITION}
         \<and> ev_candidate_digest e = sp_winner_candidate_digest (settlement_of E base manifest rows n prev)
         \<and> ev_to_stack_digest e = sai_stack_digest (sp_after (settlement_of E base manifest rows n prev))
         \<and> ev_to_tree_digest e = sai_tree_digest (sp_after (settlement_of E base manifest rows n prev)))"
proof -
  obtain v k d where v: "v \<in> set (settlement_verdicts E base manifest rows)" and e: "e = event_of E base v k d"
    using chain_events assms by (fastforce simp: settlement_of_def)
  show ?thesis using verdict_goals [OF v] by (auto simp: e event_of_def settlement_of_def)
qed

lemma chain_head:
  "case chain E base n prev vs of [] \<Rightarrow> True | e # _ \<Rightarrow> ev_sequence e = n \<and> ev_previous_event_digest e = prev"
  by (cases vs) simp_all

section \<open>The winner\<close>

abbreviation settled_speed :: "SettlementCandidate \<Rightarrow> rat" where
  "settled_speed c \<equiv> speed_value (candidate_speedup c)"

lemma winner_beats:
  assumes rows: "\<forall>c \<in> set rows. settled E c" and w: "chosen base rows = Some w"
    and c: "c \<in> set rows" "candidate_base c = base" "sq_lane (sc_primary c) = ''registered''"
  shows "settled_speed c < settled_speed w \<or> settled_speed c = settled_speed w \<and> sc_order w \<le> sc_order c"
proof -
  have "winner_key w \<le> winner_key c" using chosen_least [OF w] c by (simp add: lane_rows_def)
  moreover have "speed_ok (candidate_speedup w)" "speed_ok (candidate_speedup c)"
    using rows c(1) chosen_registered(1) [OF w] by (auto intro: candidate_speedup_ok)
  ultimately show ?thesis by (auto simp: winner_key_def less_eq_prod_def speed_neg_exact)
qed

lemma chosen_None: "chosen base rows = None \<longleftrightarrow> (\<forall>c \<in> set rows. \<not> (candidate_base c = base \<and> sq_lane (sc_primary c) = ''registered''))"
proof -
  have "chosen base rows = None \<longleftrightarrow> lane_rows ''registered'' base rows = []" by (simp add: chosen_def split: list.splits)
  then show ?thesis by (simp add: lane_rows_def filter_empty_conv)
qed

section \<open>The order of the candidates\<close>

lemma chosen_mset:
  assumes same: "mset rows' = mset rows" and inj: "inj_on winner_key (set rows)"
  shows "chosen base rows' = chosen base rows"
proof (cases "chosen base rows")
  case None
  then have "chosen base rows' = None" using mset_eq_setD [OF same] unfolding chosen_None by simp
  with None show ?thesis by simp
next
  case (Some w)
  have sets: "set rows' = set rows" using mset_eq_setD [OF same] .
  then have lanes: "set (lane_rows ''registered'' base rows') = set (lane_rows ''registered'' base rows)" by (simp add: lane_rows_def)
  obtain v where v: "chosen base rows' = Some v"
    using Some chosen_None [of base rows'] chosen_registered [OF Some] sets by (cases "chosen base rows'") auto
  have "winner_key v \<le> winner_key w" using chosen_least [OF v] chosen_member [OF Some] lanes by simp
  moreover have "winner_key w \<le> winner_key v" using chosen_least [OF Some] chosen_member [OF v] lanes by simp
  ultimately have "v = w" using inj_onD [OF inj] chosen_registered(1) [OF Some] chosen_registered(1) [OF v] sets by auto
  then show ?thesis using v Some by simp
qed

lemma settlement_of_mset:
  assumes same: "mset rows' = mset rows" and d: "distinct (map (\<lambda>c. sq_reservation_digest (sc_primary c)) rows)"
  shows "settlement_of E base manifest rows' n prev = settlement_of E base manifest rows n prev"
proof -
  have inj: "inj_on (\<lambda>c. sq_reservation_digest (sc_primary c)) (set rows)" using d by (simp add: distinct_map)
  then have order: "inj_on sc_order (set rows)" by (auto simp: sc_order_def finalized_order_def inj_on_def)
  then have "inj_on winner_key (set rows)" by (auto simp: winner_key_def inj_on_def)
  then have chosen: "chosen base rows' = chosen base rows" using chosen_mset [OF same] by blast
  have sets: "set rows' = set rows" using mset_eq_setD [OF same] .
  have sorts: "sort_key sc_order (filter P rows') = sort_key sc_order (filter P rows)" for P
    by (rule sort_key_inj_key_eq) (use same sets inj_on_subset [OF order] in \<open>auto simp: sorted_sort_key\<close>)
  have "sort_key sc_order (stale_rows base rows') = sort_key sc_order (stale_rows base rows)"
    "sort_key sc_order (lane_rows lane base rows') = sort_key sc_order (lane_rows lane base rows)"
    "sort_key sc_order (filter (\<lambda>r. r \<noteq> w) (lane_rows lane base rows')) = sort_key sc_order (filter (\<lambda>r. r \<noteq> w) (lane_rows lane base rows))"
    for lane w unfolding stale_rows_def lane_rows_def filter_filter by (rule sorts)+
  then have "standing_verdicts base rows' = standing_verdicts base rows" by (cases "chosen base rows") (simp_all add: standing_verdicts_def chosen)
  then show ?thesis by (simp add: settlement_of_def settlement_verdicts_def chosen)
qed

lemma ready_mset:
  assumes "mset rows' = mset rows" and "planner_ready E rows manifest tree n prev"
  shows "planner_ready E rows' manifest tree n prev"
proof -
  have "mset (map f rows') = mset (map f rows)" for f :: "SettlementCandidate \<Rightarrow> string" using assms(1) by simp
  then have "distinct (map f rows') = distinct (map f rows)" for f :: "SettlementCandidate \<Rightarrow> string"
    using mset_eq_imp_distinct_iff by blast
  then show ?thesis using assms mset_eq_setD [OF assms(1)] by (simp add: planner_ready_def)
qed

section \<open>Adopting a planned arm\<close>

lemma planned_transition:
  assumes plan: "plan_marginal_arm E c ctx incumbent repl itree ctree = Inr arm"
  defines "t \<equiv> map_transition arm"
  shows "map_incumbent arm = incumbent"
    and "map_of (esm_entries incumbent) (tt_target_id t) = tt_prior t"
    and "map_of (esm_entries (map_candidate arm)) (tt_target_id t) = Some (tt_replacement t)"
    and "\<forall>r \<in> set (tt_displaced t). map_of (esm_entries incumbent) (ref_target_id r) = Some r"
    and "fst ` set (esm_entries (map_candidate arm)) =
      insert (tt_target_id t) (fst ` set (esm_entries incumbent) - ref_target_id ` set (tt_displaced t))"
    and "sorted (map ref_target_id (tt_displaced t))" and "distinct (map ref_target_id (tt_displaced t))"
    and "tt_target_id t \<notin> ref_target_id ` set (tt_displaced t)"
proof -
  obtain candidate transition where ct: "candidate_transition E c ctx incumbent repl = Inr (candidate, transition)"
    and new: "MarginalArmPlan_new E arm = Inr arm" and arm: "map_incumbent arm = incumbent" "map_transition arm = transition"
    using plan MarginalArmPlan_new_eq by (fastforce simp: plan_marginal_arm_def bindE_eq_Inr)
  obtain t0 where "TargetTransition_new E t0 = Inr transition"
    using ct unfolding candidate_transition_def Let_def plan_fail_def
    by (simp only: if_Inl_eq_Inr bindE_eq_Inr sum.inject prod.inject) (elim exE conjE, simp)
  then have tr: "map ref_target_id (tt_displaced t) = sort (map ref_target_id (tt_displaced t))"
    "distinct (map ref_target_id (tt_displaced t))" "tt_target_id t \<notin> ref_target_id ` set (tt_displaced t)"
    unfolding t_def arm(2) by (auto simp: TargetTransition_new_def Let_def bindE_eq_Inr plan_fail_def split: if_splits)
  show "sorted (map ref_target_id (tt_displaced t))" by (subst tr(1)) simp
  show "distinct (map ref_target_id (tt_displaced t))" "tt_target_id t \<notin> ref_target_id ` set (tt_displaced t)" by (rule tr)+
  show "map_incumbent arm = incumbent" by (rule arm)
  note facts = new [unfolded MarginalArmPlan_new_def Let_def plan_fail_def if_Inl_eq_Inr, unfolded arm(1), folded t_def]
  show "map_of (esm_entries incumbent) (tt_target_id t) = tt_prior t"
    "map_of (esm_entries (map_candidate arm)) (tt_target_id t) = Some (tt_replacement t)"
    "fst ` set (esm_entries (map_candidate arm)) =
      insert (tt_target_id t) (fst ` set (esm_entries incumbent) - ref_target_id ` set (tt_displaced t))"
    using facts by (simp_all add: image_image)
  show "\<forall>r \<in> set (tt_displaced t). map_of (esm_entries incumbent) (ref_target_id r) = Some r" using facts by auto
qed

lemma planned_target:
  assumes "plan_marginal_arm E c ctx incumbent repl itree ctree = Inr arm"
  shows "tt_target_id (map_transition arm) = ref_target_id repl"
proof -
  obtain candidate transition where t: "candidate_transition E c ctx incumbent repl = Inr (candidate, transition)"
    and arm: "map_transition arm = transition" using plan_marginal_arm_stages [OF assms] by auto
  obtain t0 where t0: "TargetTransition_new E t0 = Inr transition"
    using t unfolding candidate_transition_def Let_def plan_fail_def
    by (simp only: if_Inl_eq_Inr bindE_eq_Inr sum.inject prod.inject) (elim exE conjE, simp)
  have "tt_replacement transition = repl" using candidate_transition_stages [OF t] by blast
  with t0 arm show ?thesis by (auto simp: TargetTransition_new_def Let_def bindE_eq_Inr plan_fail_def split: if_splits)
qed

lemma displaced_entries:
  assumes plan: "plan_marginal_arm E c ctx incumbent repl itree ctree = Inr arm" and d: "distinct (map fst (esm_entries incumbent))"
  shows "filter (\<lambda>(k, _). k \<noteq> tt_target_id (map_transition arm) \<and> k \<notin> fst ` set (esm_entries (map_candidate arm)))
      (sort_key fst (esm_entries incumbent)) = map (\<lambda>r. (ref_target_id r, r)) (tt_displaced (map_transition arm))" (is "?xs = ?ys")
proof (rule map_sorted_distinct_set_unique [where f = fst])
  note f = planned_transition [OF plan]
  let ?t = "map_transition arm"
  have pair: "(k, r) \<in> set (esm_entries incumbent) \<longleftrightarrow> map_of (esm_entries incumbent) k = Some r" for k r using d by simp
  have gone: "k \<noteq> tt_target_id ?t \<and> k \<notin> fst ` set (esm_entries (map_candidate arm)) \<longleftrightarrow> k \<in> ref_target_id ` set (tt_displaced ?t)"
    if "k \<in> fst ` set (esm_entries incumbent)" for k unfolding f(5) using that f(8) by blast
  show "set ?xs = set ?ys"
  proof (intro equalityI subrelI)
    fix k r assume "(k, r) \<in> set ?xs"
    then have kr: "(k, r) \<in> set (esm_entries incumbent)"
      "k \<noteq> tt_target_id ?t \<and> k \<notin> fst ` set (esm_entries (map_candidate arm))" by auto
    from kr(1) have "k \<in> fst ` set (esm_entries incumbent)" by force
    from gone [OF this] kr(2) have "k \<in> ref_target_id ` set (tt_displaced ?t)" by blast
    then obtain r' where "r' \<in> set (tt_displaced ?t)" "k = ref_target_id r'" by blast
    with f(4) kr(1) pair show "(k, r) \<in> set ?ys" by auto
  next
    fix k r assume "(k, r) \<in> set ?ys"
    then have r: "r \<in> set (tt_displaced ?t)" "k = ref_target_id r" by auto
    with f(4) have "map_of (esm_entries incumbent) k = Some r" by blast
    then have kr: "(k, r) \<in> set (esm_entries incumbent)" using pair by simp
    then have "k \<in> fst ` set (esm_entries incumbent)" by force
    from gone [OF this] kr r show "(k, r) \<in> set ?xs" by auto
  qed
  show "inj_on fst (set ?xs \<union> set ?ys)" unfolding \<open>set ?xs = set ?ys\<close> using f(7) by (auto simp: distinct_map inj_on_def)
  show "sorted (map fst ?xs)" by (rule sorted_map_filter_sort_key)
  show "distinct (map fst ?xs)" using d by (simp add: distinct_map_filter distinct_map_sort_key)
  show "sorted (map fst ?ys)" "distinct (map fst ?ys)" using f(6,7) by (simp_all add: comp_def)
qed

lemma chain_of_type:
  "map (\<lambda>e. (ev_target_id e, ev_subject_digest e)) (filter (\<lambda>e. ev_event_type e = t) (chain E base n prev vs)) =
   map (\<lambda>v. (vd_target v, vd_subject v)) (filter (\<lambda>v. vd_type v = t) vs)"
  by (induction vs arbitrary: n prev) (simp_all add: event_of_def)

lemma standing_types: "v \<in> set (standing_verdicts base rows) \<Longrightarrow> vd_type v \<in> {HOLD, DISCOVERY_BOUNTY}"
  by (auto simp: standing_verdicts_def verdict_on_def split: option.splits)

lemma adoption_of_type:
  assumes "chosen base rows = Some w" and "t \<in> {RETIREMENT, NEUTRALIZATION}"
  shows "filter (\<lambda>v. vd_type v = t) (settlement_verdicts E base manifest rows) =
     filter (\<lambda>v. vd_type v = t) (adoption_verdicts E base (candidate_goal w) w manifest (installed_by w) (replacement_of w))"
  using assms standing_types [of _ base rows] by (fastforce simp: settlement_verdicts_def filter_empty_conv)

lemma adopted_arm_events:
  assumes plan: "plan_marginal_arm E cat ctx incumbent repl itree ctree = Inr arm"
    and d: "distinct (map fst (esm_entries incumbent))"
    and w: "chosen base rows = Some w" "settled E w" "sq_candidate_manifest (sc_primary w) = Some (map_candidate arm)"
      "sq_target_id (sc_primary w) = tt_target_id (map_transition arm)"
  shows "map (\<lambda>e. (ev_target_id e, ev_subject_digest e)) (filter (\<lambda>e. ev_event_type e = NEUTRALIZATION)
        (sp_events (settlement_of E base incumbent rows n prev))) =
      map (\<lambda>r. (ref_target_id r, ref_digest E r)) (tt_displaced (map_transition arm))"
    and "map (\<lambda>e. (ev_target_id e, ev_subject_digest e)) (filter (\<lambda>e. ev_event_type e = RETIREMENT)
        (sp_events (settlement_of E base incumbent rows n prev))) =
      (case tt_prior (map_transition arm) of None \<Rightarrow> [] | Some r \<Rightarrow> [(ref_target_id r, ref_digest E r)])"
proof -
  have inst: "installed_by w = map_candidate arm" using w(3) by (simp add: installed_by_def)
  note f = planned_transition [OF plan] and de = displaced_entries [OF plan d]
  have none: "filter (\<lambda>v. vd_type v = t) (map (\<lambda>(d, ref). \<lparr>vd_type = NEUTRALIZATION, vd_candidate = w, vd_subject = ref_digest E ref,
       vd_target = d, vd_goal = base, vd_reason = ''displaced''\<rparr>) xs) = (if t = NEUTRALIZATION then map (\<lambda>(d, ref). \<lparr>vd_type = NEUTRALIZATION,
       vd_candidate = w, vd_subject = ref_digest E ref, vd_target = d, vd_goal = base, vd_reason = ''displaced''\<rparr>) xs else [])" for t xs
    by (auto simp: filter_id_conv filter_empty_conv)
  show "map (\<lambda>e. (ev_target_id e, ev_subject_digest e)) (filter (\<lambda>e. ev_event_type e = NEUTRALIZATION)
        (sp_events (settlement_of E base incumbent rows n prev))) =
      map (\<lambda>r. (ref_target_id r, ref_digest E r)) (tt_displaced (map_transition arm))"
    by (simp add: settlement_of_def chain_of_type adoption_of_type [OF w(1)] adoption_verdicts_def Let_def inst w(4) none de
        case_prod_beta comp_def split: option.splits)
  show "map (\<lambda>e. (ev_target_id e, ev_subject_digest e)) (filter (\<lambda>e. ev_event_type e = RETIREMENT)
        (sp_events (settlement_of E base incumbent rows n prev))) =
      (case tt_prior (map_transition arm) of None \<Rightarrow> [] | Some r \<Rightarrow> [(ref_target_id r, ref_digest E r)])"
    by (simp add: settlement_of_def chain_of_type adoption_of_type [OF w(1)] adoption_verdicts_def Let_def inst w(4) none f(2)
        split: option.splits)
qed

end
