(* ===== verification/Settlement_Properties.thy ===== *)
theory Settlement_Properties
  imports Settlement_Outcome Plan_Properties
begin

text \<open>
  The properties of settlement, on two candidates for an empty stack: one reproduced at twice the
  speed, the other at one and a half times. The hash of the sample environment singles out the current
  stack and the first candidate; that is enough here, and no text has to be evaluated.
\<close>

section \<open>Samples\<close>

lemma sample_speeds [simp]: "speed_ok ''2''" "speed_ok ''3''" "speed_ok ''1.5''"
  by code_simp+

lemma sample_speed_values [simp]: "speed_value ''2'' = 2" "speed_value ''3'' = 3" "speed_value ''1.5'' = 3 / 2"
  by code_simp+

definition sample_run ::
    "EvaluationStackManifest \<Rightarrow> EvaluationStackManifest \<Rightarrow> string \<Rightarrow> string \<Rightarrow> string \<Rightarrow> string \<Rightarrow> SettlementQualification" where
  "sample_run inc cand t reservation speed h =
     \<lparr>sq_lane = ''registered'', sq_arena_digest = hash_a, sq_reservation_digest = reservation, sq_finalized_block = 1,
      sq_event_index = 0, sq_event_subindex = 0, sq_hotkey = ''miner'', sq_target_id = t, sq_members = [t],
      sq_selected_delta_digest = hash_a, sq_qualification_authority_digest = h, sq_qualification_plan_digest = h,
      sq_qualification_attempt_digest = h, sq_qualification_report_digest = h, sq_selection_commitment_digest = h,
      sq_selection_secret_commitment_digest = h, sq_selection_evidence_digest = h, sq_arm_digest = hash_a,
      sq_incumbent_stack_digest = hash_b, sq_incumbent_tree_digest = hash_a, sq_candidate_stack_digest = hash_a,
      sq_candidate_tree_digest = hash_b, sq_speedup = speed, sq_incumbent_manifest = inc, sq_proposal_digest = [],
      sq_candidate_manifest = Some cand, sq_speed_evidence_policy_digest = hash_b, sq_audit_control_digest = hash_a,
      sq_audit_policy = None, sq_audit_evidence_digest = hash_a, sq_resident_lane_orientation = None\<rparr>"

definition sample_candidate ::
    "EvaluationStackManifest \<Rightarrow> EvaluationStackManifest \<Rightarrow> string \<Rightarrow> string \<Rightarrow> string \<Rightarrow> SettlementCandidate" where
  "sample_candidate inc cand t reservation speed =
     \<lparr>sc_primary = sample_run inc cand t reservation speed hash_a, sc_reproduction = sample_run inc cand t reservation ''3'' hash_b\<rparr>"

text \<open>An environment in which the constants of the module have the digest \<open>hash_a\<close>.\<close>

definition plain_constants :: "py_env \<Rightarrow> bool" where
  "plain_constants E \<longleftrightarrow> LEGACY_AUDIT_CONTROL_DIGEST E = hash_a \<and> LEGACY_AUDIT_EVIDENCE_DIGEST E = hash_a
     \<and> RESIDENT_SPEED_POLICY_DIGEST E = hash_a \<and> LEGACY_SPEED_POLICY_DIGEST E = hash_a"

lemma sample_run_ok:
  assumes "plain_constants E" and "manifest_digest E inc = hash_b" and "manifest_digest E cand = hash_a"
    and "esm_arena_digest inc = hash_a" and "esm_arena_digest cand = hash_a"
    and "map_of (esm_entries cand) t = Some r" and "ref_selected_delta E r = hash_a"
    and "settle_id t" and "is_digest reservation" and "speed_ok speed" and "is_digest h"
  shows "qualification_ok E (sample_run inc cand t reservation speed h)"
proof -
  have "settle_id ''miner''" by (simp add: settle_id_def ascii_alnum_def)
  then show ?thesis using assms
    by (simp add: qualification_ok_def sample_run_def sq_digests_def members_ok_def sorted_unique_iff check_audit_def
        check_orientation_def check_incumbent_def check_lane_def check_candidate_arena_def plain_constants_def Let_def)
qed

lemma sample_settled:
  assumes "plain_constants E" and "manifest_digest E inc = hash_b" and "manifest_digest E cand = hash_a"
    and "esm_arena_digest inc = hash_a" and "esm_arena_digest cand = hash_a"
    and "map_of (esm_entries cand) t = Some r" and "ref_selected_delta E r = hash_a"
    and "settle_id t" and "is_digest reservation" and "speed_ok speed"
  shows "settled E (sample_candidate inc cand t reservation speed)"
proof -
  note q = sample_run_ok [OF assms hash_digests(1)] sample_run_ok [OF assms(1-9) sample_speeds(2) hash_digests(2)]
  show ?thesis
    by (simp add: settled_def qualified_iff sample_candidate_def q candidate_new_iff [OF q])
      (simp add: sample_run_def same_contribution_def independent_def reuses_authority_def)
qed

definition empty_stack :: EvaluationStackManifest where
  "empty_stack = \<lparr>esm_runtime_digest = hash_a, esm_base_engine_digest = hash_a, esm_arena_digest = hash_a,
     esm_catalog_digest = hash_a, esm_catalog_json = JObj [], esm_entries = []\<rparr>"

definition one_stack :: "string \<Rightarrow> EvaluationStackManifest" where
  "one_stack t = empty_stack\<lparr>esm_entries := [(t, sample_ref t)]\<rparr>"

definition fast_candidate :: SettlementCandidate where
  "fast_candidate = sample_candidate empty_stack (one_stack ''norm'') ''norm'' hash_a ''2''"

definition slow_candidate :: SettlementCandidate where
  "slow_candidate = sample_candidate empty_stack (one_stack ''plain'') ''plain'' hash_b ''1.5''"

definition settle_env :: py_env where
  "settle_env = \<lparr>sha256_hexdigest = (\<lambda>b.
       if b = utf8 (json_dumps (digest_envelope ''optima.stack.evaluation'' (JObj (manifest_fields empty_stack)) 1))
          \<or> b = utf8 (json_dumps (digest_envelope ''optima.settlement.candidate.v2''
                (JObj (SettlementCandidate_fields flat_env fast_candidate)) 1))
       then hash_b else hash_a), decimal_ln = (\<lambda>x. x)\<rparr>"

lemma settle_env_digests: "\<forall>b. is_digest (sha256_hexdigest settle_env b)"
  by (simp add: settle_env_def)

lemma settle_env_other:
  assumes "d = ''optima.stack.evaluation'' \<Longrightarrow> json_sort j \<noteq> json_sort (JObj (manifest_fields empty_stack))"
    and "d = ''optima.settlement.candidate.v2'' \<Longrightarrow> json_sort j \<noteq> json_sort (JObj (SettlementCandidate_fields flat_env fast_candidate))"
  shows "json_digest settle_env d j = hash_a"
proof -
  have "utf8 (json_dumps (digest_envelope d j 1)) \<noteq> utf8 (json_dumps (digest_envelope ''optima.stack.evaluation'' (JObj (manifest_fields empty_stack)) 1))"
    using envelope_inj assms(1) by blast
  moreover have "utf8 (json_dumps (digest_envelope d j 1)) \<noteq> utf8 (json_dumps (digest_envelope ''optima.settlement.candidate.v2''
                (JObj (SettlementCandidate_fields flat_env fast_candidate)) 1))"
    using envelope_inj assms(2) by blast
  ultimately show ?thesis by (simp add: json_digest_def settle_env_def)
qed

lemma settle_env_plain: "plain_constants settle_env"
  unfolding plain_constants_def LEGACY_AUDIT_CONTROL_DIGEST_def LEGACY_AUDIT_EVIDENCE_DIGEST_def RESIDENT_SPEED_POLICY_DIGEST_def
      LEGACY_SPEED_POLICY_DIGEST_def
  by (intro conjI settle_env_other) simp_all

text \<open>Objects with equal sorted text have the same members.\<close>

lemma json_sort_member:
  assumes eq: "json_sort (JObj kvs) = json_sort (JObj kvs')" and kv: "(k, v) \<in> set kvs"
  shows "\<exists>v'. (k, v') \<in> set kvs' \<and> json_sort v = json_sort v'"
proof -
  let ?f = "\<lambda>(k :: string, v). (k, json_sort v)"
  have "?f (k, v) \<in> ?f ` set kvs'" unfolding json_sort_JObj_set [OF eq, symmetric] using kv by (rule imageI)
  then obtain x where x: "x \<in> set kvs'" "?f (k, v) = ?f x" by (rule imageE)
  moreover obtain k' v' where "x = (k', v')" by (rule prod.exhaust)
  ultimately show ?thesis by auto
qed

lemma settle_env_stacks:
  "manifest_digest settle_env empty_stack = hash_b" "manifest_digest settle_env (one_stack t) = hash_a"
proof -
  show "manifest_digest settle_env empty_stack = hash_b" by (simp add: manifest_digest_def json_digest_def settle_env_def)
  have "json_sort (JObj (manifest_fields (one_stack t))) \<noteq> json_sort (JObj (manifest_fields empty_stack))"
  proof
    assume "json_sort (JObj (manifest_fields (one_stack t))) = json_sort (JObj (manifest_fields empty_stack))"
    moreover have "(''entries'', JObj [(t, JObj (ref_fields (sample_ref t)))]) \<in> set (manifest_fields (one_stack t))"
      by (simp add: manifest_fields_def one_stack_def)
    ultimately obtain v where v: "(''entries'', v) \<in> set (manifest_fields empty_stack)"
      and "json_sort (JObj [(t, JObj (ref_fields (sample_ref t)))]) = json_sort v"
      by (blast dest: json_sort_member)
    moreover from v have "v = JObj []" by (simp add: manifest_fields_def empty_stack_def)
    ultimately show False by simp
  qed
  then show "manifest_digest settle_env (one_stack t) = hash_a" unfolding manifest_digest_def by (intro settle_env_other) simp_all
qed


lemma sample_fields:
  assumes "plain_constants E"
  shows "SettlementCandidate_fields E (sample_candidate inc cand t reservation speed) =
    SettlementCandidate_fields flat_env (sample_candidate inc cand t reservation speed)"
proof -
  have "SettlementQualification_fields E (sample_run inc cand t reservation s h) =
      SettlementQualification_fields flat_env (sample_run inc cand t reservation s h)" for s h
    using assms by (simp add: SettlementQualification_fields_def sample_run_def plain_constants_def LEGACY_SPEED_POLICY_DIGEST_def [of flat_env] flat_digest)
  then show ?thesis by (simp add: SettlementCandidate_fields_def sample_candidate_def)
qed

lemma sample_digest:
  "SettlementCandidate_digest E (sample_candidate inc cand t reservation speed) =
     json_digest E ''optima.settlement.candidate.v2'' (JObj (SettlementCandidate_fields E (sample_candidate inc cand t reservation speed)))"
  by (simp add: SettlementCandidate_digest_def sample_candidate_def sample_run_def)

lemma candidates_differ:
  "json_sort (JObj (SettlementCandidate_fields flat_env slow_candidate)) \<noteq> json_sort (JObj (SettlementCandidate_fields flat_env fast_candidate))"
proof
  let ?q = "\<lambda>c. SettlementQualification_fields flat_env (sc_primary c)"
  assume "json_sort (JObj (SettlementCandidate_fields flat_env slow_candidate)) = json_sort (JObj (SettlementCandidate_fields flat_env fast_candidate))"
  moreover have "(''primary'', JObj (?q slow_candidate)) \<in> set (SettlementCandidate_fields flat_env slow_candidate)"
    by (simp add: SettlementCandidate_fields_def)
  ultimately obtain v where v: "(''primary'', v) \<in> set (SettlementCandidate_fields flat_env fast_candidate)"
    and eq: "json_sort (JObj (?q slow_candidate)) = json_sort v" by (blast dest: json_sort_member)
  from v have "v = JObj (?q fast_candidate)" by (simp add: SettlementCandidate_fields_def)
  with eq have "json_sort (JObj (?q slow_candidate)) = json_sort (JObj (?q fast_candidate))" by simp
  moreover have "(''speedup'', JStr ''1.5'') \<in> set (?q slow_candidate)"
    by (simp add: SettlementQualification_fields_def slow_candidate_def sample_candidate_def sample_run_def)
  ultimately obtain u where u: "(''speedup'', u) \<in> set (?q fast_candidate)" "json_sort (JStr ''1.5'') = json_sort u"
    by (blast dest: json_sort_member)
  from u(1) have "u = JStr ''2''"
    by (simp add: SettlementQualification_fields_def fast_candidate_def sample_candidate_def sample_run_def split: if_splits)
  with u(2) show False by simp
qed

lemma sample_candidate_digests:
  "SettlementCandidate_digest settle_env fast_candidate = hash_b" "SettlementCandidate_digest settle_env slow_candidate = hash_a"
proof -
  show "SettlementCandidate_digest settle_env fast_candidate = hash_b"
    unfolding fast_candidate_def sample_digest sample_fields [OF settle_env_plain]
    by (simp add: json_digest_def settle_env_def fast_candidate_def)
  show "SettlementCandidate_digest settle_env slow_candidate = hash_a"
    using candidates_differ unfolding slow_candidate_def sample_digest sample_fields [OF settle_env_plain]
    by (intro settle_env_other) simp_all
qed

lemma sample_ids: "settle_id ''norm''" "settle_id ''plain''" "settle_id ''fused''"
  by (simp_all add: settle_id_def ascii_alnum_def)

lemma sample_settled_both: "settled settle_env fast_candidate" "settled settle_env slow_candidate"
proof -
  have arenas: "esm_arena_digest empty_stack = hash_a" "esm_arena_digest (one_stack t) = hash_a"
    "map_of (esm_entries (one_stack t)) t = Some (sample_ref t)" for t by (simp_all add: empty_stack_def one_stack_def)
  have "ref_selected_delta settle_env r = hash_a" for r
    unfolding ref_selected_delta_def selected_delta_def by (rule settle_env_other) simp_all
  note s = sample_settled [OF settle_env_plain settle_env_stacks(1,2) arenas(1-3) this]
  show "settled settle_env fast_candidate" unfolding fast_candidate_def by (rule s) (simp_all add: sample_ids)
  show "settled settle_env slow_candidate" unfolding slow_candidate_def by (rule s) (simp_all add: sample_ids)
qed

lemma sample_ready:
  "planner_ready settle_env [slow_candidate, fast_candidate] empty_stack hash_a 0 []"
  "planner_ready settle_env [fast_candidate, slow_candidate] empty_stack hash_a 0 []"
  using sample_settled_both settle_env_digests
  by (simp_all add: planner_ready_def sample_candidate_digests entries_ok_def empty_stack_def)
    (simp_all add: fast_candidate_def slow_candidate_def sample_candidate_def sample_run_def)

lemma sample_winner:
  "chosen (current_arm settle_env empty_stack hash_a) [slow_candidate, fast_candidate] = Some fast_candidate"
proof -
  have base: "candidate_base fast_candidate = current_arm settle_env empty_stack hash_a"
    "candidate_base slow_candidate = current_arm settle_env empty_stack hash_a"
    and lane: "sq_lane (sc_primary fast_candidate) = ''registered''" "sq_lane (sc_primary slow_candidate) = ''registered''"
    by (simp_all add: candidate_base_def fast_candidate_def slow_candidate_def sample_candidate_def sample_run_def settle_env_stacks)
  have "candidate_speedup fast_candidate = ''2''" "candidate_speedup slow_candidate = ''1.5''"
    by (simp_all add: candidate_speedup_def fast_candidate_def slow_candidate_def sample_candidate_def sample_run_def)
  then have "winner_key fast_candidate < winner_key slow_candidate"
    by (simp add: winner_key_def speed_neg_exact less_prod_def)
  then show ?thesis by (simp add: chosen_def lane_rows_def base lane)
qed

section \<open>Decisions\<close>

text \<open>C30. Settlement always decides. On settled candidates with distinct digests and reservations, a current
  manifest whose target ids are identifiers and a journal head, the planner succeeds. Its events are
  numbered and hash-chained from that head. On every candidate exactly one event decides: it is held as
  stale when it was measured against another incumbent, paid a bounty in the discovery lane, crowned
  when it is the winner, and held otherwise, as a conflict when it shares a member with the winner. All
  events start at the current stack, and only the adoption and the transition of the winner lead away
  from it, to the stack of the plan.\<close>

theorem settlement_is_decided:
  assumes "planner_ready E rows manifest tree n prev"
  shows "\<exists>p. plan_settlement E rows manifest tree n prev = Inr p \<and> contiguous E (sp_events p)
    \<and> (case sp_events p of [] \<Rightarrow> True | e # _ \<Rightarrow> ev_sequence e = n \<and> ev_previous_event_digest e = prev)
    \<and> (\<forall>c \<in> set rows. map (\<lambda>e. (ev_event_type e, ev_reason e)) (filter (\<lambda>e. ev_candidate_digest e = SettlementCandidate_digest E c
          \<and> decisive (ev_event_type e)) (sp_events p)) = [decision (current_arm E manifest tree) (chosen (current_arm E manifest tree) rows) c])
    \<and> (\<forall>e \<in> set (sp_events p). ev_from_stack_digest e = manifest_digest E manifest \<and> ev_from_tree_digest e = tree
        \<and> (ev_to_stack_digest e = manifest_digest E manifest \<and> ev_to_tree_digest e = tree
           \<or> ev_event_type e \<in> {ADOPTION, STACK_TRANSITION} \<and> ev_candidate_digest e = sp_winner_candidate_digest p
             \<and> ev_to_stack_digest e = sai_stack_digest (sp_after p) \<and> ev_to_tree_digest e = sai_tree_digest (sp_after p)))"
proof -
  let ?p = "settlement_of E (current_arm E manifest tree) manifest rows n prev"
  have "contiguous E (sp_events ?p)" "case sp_events ?p of [] \<Rightarrow> True | e # _ \<Rightarrow> ev_sequence e = n \<and> ev_previous_event_digest e = prev"
    by (simp_all add: settlement_of_def chain_contiguous chain_head)
  then show ?thesis using ready_plan [OF assms] one_event_decides [OF assms] events_start_at_base [of _ E "current_arm E manifest tree"]
    by (intro exI [of _ ?p]) auto
qed

theorem settlement_is_decided_witness:
  "\<exists>p. plan_settlement settle_env [slow_candidate, fast_candidate] empty_stack hash_a 0 [] = Inr p \<and> contiguous settle_env (sp_events p)
     \<and> map (\<lambda>e. (ev_event_type e, ev_reason e)) (filter (\<lambda>e. ev_candidate_digest e = hash_b \<and> decisive (ev_event_type e)) (sp_events p)) =
         [(CROWN, ''qualified_win'')]
     \<and> map (\<lambda>e. (ev_event_type e, ev_reason e)) (filter (\<lambda>e. ev_candidate_digest e = hash_a \<and> decisive (ev_event_type e)) (sp_events p)) =
         [(HOLD, ''incumbent_advanced'')]"
proof -
  let ?base = "current_arm settle_env empty_stack hash_a"
  have "decision ?base (Some fast_candidate) fast_candidate = (CROWN, ''qualified_win'')"
    "decision ?base (Some fast_candidate) slow_candidate = (HOLD, ''incumbent_advanced'')"
    by (simp_all add: decision_def hold_reason_def candidate_base_def fast_candidate_def slow_candidate_def sample_candidate_def
        sample_run_def settle_env_stacks)
  then show ?thesis using settlement_is_decided [OF sample_ready(1)] by (auto simp: sample_winner sample_candidate_digests)
qed

section \<open>The winner\<close>

text \<open>C31. The stack moves exactly when some registered candidate was measured against the current
  incumbent, and then to the stack of one whose reproduced speedup, the slower of its two independent
  runs, is greatest. Speedups are compared as exact decimals; among equals the earliest finalized one
  wins. The winner's speedup is above one.\<close>

theorem fastest_reproduced_candidate_wins:
  assumes "planner_ready E rows manifest tree n prev" and "plan_settlement E rows manifest tree n prev = Inr p"
  shows "(sp_transition p = None \<longleftrightarrow>
      (\<forall>c \<in> set rows. \<not> (candidate_base c = current_arm E manifest tree \<and> sq_lane (sc_primary c) = ''registered'')))
    \<and> (\<forall>t. sp_transition p = Some t \<longrightarrow> (\<exists>w \<in> set rows.
        candidate_base w = current_arm E manifest tree \<and> sq_lane (sc_primary w) = ''registered''
        \<and> sto_candidate_digest t = SettlementCandidate_digest E w \<and> sp_winner_candidate_digest p = SettlementCandidate_digest E w
        \<and> sp_after p = candidate_goal w \<and> sq_candidate_manifest (sc_primary w) = Some (sto_manifest t)
        \<and> settled_speed w = min (speed_value (sq_speedup (sc_primary w))) (speed_value (sq_speedup (sc_reproduction w)))
        \<and> 1 < settled_speed w
        \<and> (\<forall>c \<in> set rows. candidate_base c = current_arm E manifest tree \<and> sq_lane (sc_primary c) = ''registered'' \<longrightarrow>
            settled_speed c < settled_speed w \<or> settled_speed c = settled_speed w \<and> sc_order w \<le> sc_order c)))"
proof -
  let ?b = "current_arm E manifest tree"
  have p: "p = settlement_of E ?b manifest rows n prev" using ready_plan [OF assms(1)] assms(2) by simp
  have rows: "\<forall>c \<in> set rows. settled E c" using assms(1) by (simp add: planner_ready_def)
  show ?thesis
  proof (cases "chosen ?b rows")
    case None
    then show ?thesis using chosen_None [of ?b rows] by (simp add: p settlement_of_def)
  next
    case (Some w)
    note reg = chosen_registered [OF Some]
    have sw: "settled E w" using rows reg(1) by blast
    have tr: "sp_transition p = Some \<lparr>sto_candidate_digest = SettlementCandidate_digest E w, sto_before = ?b,
        sto_after = candidate_goal w, sto_manifest = installed_by w\<rparr>" "sp_winner_candidate_digest p = SettlementCandidate_digest E w"
      "sp_after p = candidate_goal w" by (simp_all add: p settlement_of_def Some)
    have fast: "1 < settled_speed w" using speed_above_one [OF candidate_speedup_ok [OF sw]] .
    show ?thesis
    proof (intro conjI allI impI)
      show "sp_transition p = None \<longleftrightarrow> (\<forall>c \<in> set rows. \<not> (candidate_base c = ?b \<and> sq_lane (sc_primary c) = ''registered''))"
        using tr(1) reg by auto
      fix t assume t: "sp_transition p = Some t"
      show "\<exists>w \<in> set rows. candidate_base w = ?b \<and> sq_lane (sc_primary w) = ''registered''
        \<and> sto_candidate_digest t = SettlementCandidate_digest E w \<and> sp_winner_candidate_digest p = SettlementCandidate_digest E w
        \<and> sp_after p = candidate_goal w \<and> sq_candidate_manifest (sc_primary w) = Some (sto_manifest t)
        \<and> settled_speed w = min (speed_value (sq_speedup (sc_primary w))) (speed_value (sq_speedup (sc_reproduction w)))
        \<and> 1 < settled_speed w
        \<and> (\<forall>c \<in> set rows. candidate_base c = ?b \<and> sq_lane (sc_primary c) = ''registered'' \<longrightarrow>
            settled_speed c < settled_speed w \<or> settled_speed c = settled_speed w \<and> sc_order w \<le> sc_order c)"
        using t tr winner_facts(1) [OF sw reg(3)]
        by (intro bexI [OF _ reg(1)] conjI ballI impI reg fast candidate_speed winner_beats [OF rows Some]) auto
    qed
  qed
qed

theorem fastest_reproduced_candidate_wins_witness:
  "\<exists>p t. plan_settlement settle_env [slow_candidate, fast_candidate] empty_stack hash_a 0 [] = Inr p \<and> sp_transition p = Some t
     \<and> (\<exists>w \<in> {slow_candidate, fast_candidate}. sto_candidate_digest t = SettlementCandidate_digest settle_env w \<and> 2 \<le> settled_speed w)"
proof -
  let ?p = "settlement_of settle_env (current_arm settle_env empty_stack hash_a) empty_stack [slow_candidate, fast_candidate] 0 []"
  have run: "plan_settlement settle_env [slow_candidate, fast_candidate] empty_stack hash_a 0 [] = Inr ?p"
    by (rule ready_plan [OF sample_ready(1)])
  have fast: "candidate_base fast_candidate = current_arm settle_env empty_stack hash_a" "sq_lane (sc_primary fast_candidate) = ''registered''"
    "settled_speed fast_candidate = 2"
    by (simp_all add: candidate_base_def fast_candidate_def sample_candidate_def sample_run_def settle_env_stacks candidate_speedup_def)
  note w = fastest_reproduced_candidate_wins [OF sample_ready(1) run]
  obtain t where t: "sp_transition ?p = Some t" using conjunct1 [OF w] fast(1,2) by (cases "sp_transition ?p") auto
  from conjunct2 [OF w, rule_format, OF t] obtain v where "v \<in> set [slow_candidate, fast_candidate]"
    "sto_candidate_digest t = SettlementCandidate_digest settle_env v"
    "\<forall>c \<in> set [slow_candidate, fast_candidate]. candidate_base c = current_arm settle_env empty_stack hash_a \<and>
       sq_lane (sc_primary c) = ''registered'' \<longrightarrow> settled_speed c < settled_speed v \<or> settled_speed c = settled_speed v \<and> sc_order v \<le> sc_order c"
    by (elim bexE conjE)
  then show ?thesis using run t fast by (intro exI [of _ ?p] exI [of _ t]) auto
qed

section \<open>Order\<close>

text \<open>The order in which the candidates are handed to the planner does not matter: the same candidates in
  any other order give the same plan, event for event.\<close>

theorem settlement_ignores_candidate_order:
  assumes "planner_ready E rows manifest tree n prev" and "mset rows' = mset rows"
  shows "plan_settlement E rows' manifest tree n prev = plan_settlement E rows manifest tree n prev"
proof -
  have "distinct (map (\<lambda>c. sq_reservation_digest (sc_primary c)) rows)" using assms(1) by (simp add: planner_ready_def)
  from settlement_of_mset [OF assms(2) this] show ?thesis
    by (simp only: ready_plan [OF assms(1)] ready_plan [OF ready_mset [OF assms(2,1)]])
qed

theorem settlement_ignores_candidate_order_witness:
  "plan_settlement settle_env [fast_candidate, slow_candidate] empty_stack hash_a 0 [] =
     plan_settlement settle_env [slow_candidate, fast_candidate] empty_stack hash_a 0 []"
  by (rule settlement_ignores_candidate_order [OF sample_ready(1)]) simp

section \<open>Settlement of a planned arm\<close>

text \<open>C32. Planning and settlement agree on what a contribution replaces. When the winner carries the candidate
  manifest of an arm that planning made from the current stack, the journal retires exactly the prior
  contribution of the arm's transition and neutralizes exactly the contributions it displaces, in the
  order of their targets, and the stack that settlement installs is the candidate of the arm.\<close>

theorem settlement_carries_out_the_arm:
  assumes "planner_ready E rows incumbent itree n prev" and "manifest_ok E incumbent"
    and "plan_marginal_arm E catalog ctx incumbent repl itree ctree = Inr arm"
    and "chosen (current_arm E incumbent itree) rows = Some w"
    and "sq_candidate_manifest (sc_primary w) = Some (map_candidate arm)" and "sq_target_id (sc_primary w) = ref_target_id repl"
  shows "\<exists>p. plan_settlement E rows incumbent itree n prev = Inr p
    \<and> map_option sto_manifest (sp_transition p) = Some (map_candidate arm)
    \<and> map (\<lambda>e. (ev_target_id e, ev_subject_digest e)) (filter (\<lambda>e. ev_event_type e = RETIREMENT) (sp_events p)) =
        (case tt_prior (map_transition arm) of None \<Rightarrow> [] | Some r \<Rightarrow> [(ref_target_id r, ref_digest E r)])
    \<and> map (\<lambda>e. (ev_target_id e, ev_subject_digest e)) (filter (\<lambda>e. ev_event_type e = NEUTRALIZATION) (sp_events p)) =
        map (\<lambda>r. (ref_target_id r, ref_digest E r)) (tt_displaced (map_transition arm))"
proof -
  let ?b = "current_arm E incumbent itree"
  have "settled E w" using assms(1) chosen_registered(1) [OF assms(4)] by (simp add: planner_ready_def)
  moreover have "tt_target_id (map_transition arm) = ref_target_id repl" by (rule planned_target [OF assms(3)])
  moreover have "distinct (map fst (esm_entries incumbent))" using assms(2) by (simp add: manifest_ok_def)
  ultimately show ?thesis
    using adopted_arm_events [OF assms(3) _ assms(4) _ assms(5)] assms(5,6) ready_plan [OF assms(1)]
    by (intro exI [of _ "settlement_of E ?b incumbent rows n prev"]) (simp add: settlement_of_def assms(4) installed_by_def)
qed

lemma plan_env_two: "json_digest (plan_env c) d j = hash_a \<or> json_digest (plan_env c) d j = hash_b"
  by (simp add: json_digest_def plan_env_def split_env_def)

lemma sample_arm_candidate:
  assumes arm: "plan_marginal_arm (plan_env c) c (sample_context c) (sample_stack c) (sample_ref ''fused'') hash_a hash_b = Inr arm"
  defines "w \<equiv> sample_candidate (sample_stack c) (map_candidate arm) ''fused'' hash_a ''2''"
  shows "planner_ready (plan_env c) [w] (sample_stack c) hash_a 0 []"
    and "chosen (current_arm (plan_env c) (sample_stack c) hash_a) [w] = Some w"
proof -
  obtain tr where ct: "candidate_transition (plan_env c) c (sample_context c) (sample_stack c) (sample_ref ''fused'') = Inr (map_candidate arm, tr)"
    using plan_marginal_arm_stages [OF arm] by auto
  then obtain removed where wc: "with_contribution (plan_env c) (sample_stack c) (sample_ref ''fused'') removed = Inr (map_candidate arm)"
    and ne: "manifest_digest (plan_env c) (map_candidate arm) \<noteq> manifest_digest (plan_env c) (sample_stack c)"
    using candidate_transition_stages by blast
  have inc: "manifest_digest (plan_env c) (sample_stack c) = hash_b"
    by (simp add: manifest_digest_def plan_env_def split_digest_own)
  then have cand: "manifest_digest (plan_env c) (map_candidate arm) = hash_a"
    using ne plan_env_two unfolding manifest_digest_def by metis
  have "ref_selected_delta (plan_env c) r = hash_a" for r
    by (simp add: ref_selected_delta_def selected_delta_def plan_env_def split_digest)
  moreover have "plain_constants (plan_env c)"
    by (simp add: plain_constants_def LEGACY_AUDIT_CONTROL_DIGEST_def LEGACY_AUDIT_EVIDENCE_DIGEST_def RESIDENT_SPEED_POLICY_DIGEST_def
        LEGACY_SPEED_POLICY_DIGEST_def plan_env_def split_digest)
  moreover have "esm_arena_digest (sample_stack c) = hash_a" by (simp add: sample_stack_def)
  moreover have "map_of (esm_entries (map_candidate arm)) ''fused'' = Some (sample_ref ''fused'')" "esm_arena_digest (map_candidate arm) = hash_a"
    using with_contribution_entry(1,4) [OF wc] by (simp_all add: sample_ref_def sample_stack_def)
  ultimately have "settled (plan_env c) w" unfolding w_def using inc cand
    by (intro sample_settled [where r = "sample_ref ''fused''"]) (simp_all add: sample_ids)
  moreover have "entries_ok (sample_stack c)" by (simp add: entries_ok_def sample_stack_def sample_ref_def sample_ids)
  ultimately show "planner_ready (plan_env c) [w] (sample_stack c) hash_a 0 []" using plan_env_digests by (simp add: planner_ready_def)
  have "candidate_base w = current_arm (plan_env c) (sample_stack c) hash_a" "sq_lane (sc_primary w) = ''registered''"
    by (simp_all add: w_def candidate_base_def sample_candidate_def sample_run_def inc)
  then show "chosen (current_arm (plan_env c) (sample_stack c) hash_a) [w] = Some w" by (simp add: chosen_def lane_rows_def)
qed

theorem settlement_carries_out_the_arm_witness:
  "\<exists>c (arm :: MarginalArmPlan) p. plan_settlement (plan_env c) [sample_candidate (sample_stack c) (map_candidate arm) ''fused'' hash_a ''2'']
       (sample_stack c) hash_a 0 [] = Inr p
     \<and> map_option sto_manifest (sp_transition p) = Some (map_candidate arm)
     \<and> map (\<lambda>e. (ev_target_id e, ev_subject_digest e)) (filter (\<lambda>e. ev_event_type e = NEUTRALIZATION) (sp_events p)) =
         map (\<lambda>r. (ref_target_id r, ref_digest (plan_env c) r)) (tt_displaced (map_transition arm))"
proof (rule sample_plan_obtain)
  fix c arm
  assume m: "manifest_ok (plan_env c) (sample_stack c)"
    and arm: "plan_marginal_arm (plan_env c) c (sample_context c) (sample_stack c) (sample_ref ''fused'') hash_a hash_b = Inr arm"
  note w = sample_arm_candidate [OF arm]
  have "sq_candidate_manifest (sc_primary (sample_candidate (sample_stack c) (map_candidate arm) ''fused'' hash_a ''2'')) = Some (map_candidate arm)"
    "sq_target_id (sc_primary (sample_candidate (sample_stack c) (map_candidate arm) ''fused'' hash_a ''2'')) = ref_target_id (sample_ref ''fused'')"
    by (simp_all add: sample_candidate_def sample_run_def sample_ref_def)
  from settlement_carries_out_the_arm [OF w(1) m arm w(2) this] obtain p
    where "plan_settlement (plan_env c) [sample_candidate (sample_stack c) (map_candidate arm) ''fused'' hash_a ''2'']
       (sample_stack c) hash_a 0 [] = Inr p"
      "map_option sto_manifest (sp_transition p) = Some (map_candidate arm)"
      "map (\<lambda>e. (ev_target_id e, ev_subject_digest e)) (filter (\<lambda>e. ev_event_type e = NEUTRALIZATION) (sp_events p)) =
         map (\<lambda>r. (ref_target_id r, ref_digest (plan_env c) r)) (tt_displaced (map_transition arm))"
    by (elim exE conjE)
  then show ?thesis by (intro exI conjI)
qed

end
