(* ===== verification/Dep_Patch.thy ===== *)
theory Dep_Patch
  imports Strict
begin

text \<open>
  \<open>optima/deppatch.py\<close>: strict parsing of unified diffs and their exact application. The parser
  walks over the lines of the diff; each of its nested loops is one recursive function that returns
  the lines it has not consumed. The limit that Python puts on the digits of \<open>int(...)\<close> is not
  modelled, quoted text in messages is that of names that need no escapes, and the dash in the
  message of a context mismatch is a hyphen.
\<close>

section \<open>Text\<close>

definition patch_fail :: "string \<Rightarrow> py_error + 'a" where
  "patch_fail message = Inl (DepPatchError message)"

text \<open>\<open>text.split(sep)\<close>.\<close>

fun py_split :: "char \<Rightarrow> string \<Rightarrow> string list" where
  "py_split sep [] = [[]]"
| "py_split sep (c # cs) =
     (if c = sep then [] # py_split sep cs
      else case py_split sep cs of [] \<Rightarrow> [[c]] | l # ls \<Rightarrow> (c # l) # ls)"

definition newline :: char where "newline = CHR 0x0A"

definition starts_with :: "string \<Rightarrow> string \<Rightarrow> bool" where
  "starts_with pre s = (take (length pre) s = pre)"

definition after_prefix :: "string \<Rightarrow> string \<Rightarrow> string option" where
  "after_prefix pre s = (if starts_with pre s then Some (drop (length pre) s) else None)"

section \<open>Records\<close>

record Hunk =
  hk_old_start :: int
  hk_old_count :: int
  hk_new_start :: int
  hk_new_count :: int
  hk_lines :: "string list"

record FilePatch =
  fp_path :: string
  fp_is_new_file :: bool
  fp_hunks :: "Hunk list"

section \<open>Paths\<close>

definition check_rel_path :: "string \<Rightarrow> py_error + string" where
  "check_rel_path path =
     (if path = [] \<or> starts_with ''/'' path \<or> CHR 0x5C \<in> set path \<or> CHR 0x00 \<in> set path
      then patch_fail (''illegal patch path: '' @ show_name path) else
      if list_ex (\<lambda>p. p = [] \<or> p = ''.'' \<or> p = ''..'') (py_split (CHR ''/'') path)
      then patch_fail (''illegal patch path component: '' @ show_name path) else Inr path)"

definition strip_prefix :: "string \<Rightarrow> string \<Rightarrow> py_error + string" where
  "strip_prefix raw side =
     (if raw = ''/dev/null'' then Inr raw else
      let prefix = side @ ''/'' in
      if \<not> starts_with prefix raw
      then patch_fail (side @ ''-side path must start with '' @ show_name prefix @ '': '' @ show_name raw) else
      check_rel_path (drop (length prefix) raw))"

section \<open>Hunks\<close>

text \<open>The pattern of a hunk header, \<open>@@ -(\d+)(?:,(\d+))? \+(\d+)(?:,(\d+))? @@\<close> at the start of the line.\<close>

definition read_number :: "string \<Rightarrow> (int \<times> string) option" where
  "read_number s =
     (let ds = takeWhile is_digit s in
      if ds = [] then None else Some (int (read_nat ds), dropWhile is_digit s))"

text \<open>A count that is left out is one.\<close>

definition read_count :: "string \<Rightarrow> int \<times> string" where
  "read_count s =
     (case after_prefix '','' s of
        None \<Rightarrow> (1, s)
      | Some r \<Rightarrow> (case read_number r of None \<Rightarrow> (1, s) | Some (n, rest) \<Rightarrow> (n, rest)))"

definition read_range :: "string \<Rightarrow> string \<Rightarrow> (int \<times> int \<times> string) option" where
  "read_range pre s =
     (case after_prefix pre s of
        None \<Rightarrow> None
      | Some r \<Rightarrow>
          (case read_number r of
             None \<Rightarrow> None
           | Some (start, r') \<Rightarrow> (case read_count r' of (len, rest) \<Rightarrow> Some (start, len, rest))))"

definition hunk_header :: "string \<Rightarrow> (int \<times> int \<times> int \<times> int) option" where
  "hunk_header line =
     (case read_range ''@@ -'' line of
        None \<Rightarrow> None
      | Some (old_start, old_count, r) \<Rightarrow>
          (case read_range '' +'' r of
             None \<Rightarrow> None
           | Some (new_start, new_count, r') \<Rightarrow>
               if starts_with '' @@'' r' then Some (old_start, old_count, new_start, new_count) else None))"

fun hunk_body ::
    "int \<Rightarrow> int \<Rightarrow> int \<Rightarrow> int \<Rightarrow> string list \<Rightarrow> string list \<Rightarrow> py_error + string list \<times> int \<times> int \<times> string list" where
  "hunk_body old_count new_count got_old got_new body [] = Inr (body, got_old, got_new, [])"
| "hunk_body old_count new_count got_old got_new body (bl # rest) =
     (if got_old < old_count \<or> got_new < new_count then
        (case bl of
           [] \<Rightarrow> hunk_body old_count new_count (got_old + 1) (got_new + 1) (body @ ['' '']) rest
         | tag # _ \<Rightarrow>
             if tag = CHR '' '' then hunk_body old_count new_count (got_old + 1) (got_new + 1) (body @ [bl]) rest
             else if tag = CHR ''-'' then hunk_body old_count new_count (got_old + 1) got_new (body @ [bl]) rest
             else if tag = CHR ''+'' then hunk_body old_count new_count got_old (got_new + 1) (body @ [bl]) rest
             else patch_fail (''illegal hunk body line: '' @ show_name bl))
      else Inr (body, got_old, got_new, bl # rest))"

lemma hunk_body_length:
  "hunk_body oc nc go gn body ls = Inr (body', go', gn', rest) \<Longrightarrow> length rest \<le> length ls"
  by (induction oc nc go gn body ls rule: hunk_body.induct) (auto simp: patch_fail_def split: if_splits list.splits)

definition check_counts :: "string \<Rightarrow> bool \<Rightarrow> Hunk \<Rightarrow> int \<Rightarrow> int \<Rightarrow> py_error + Hunk" where
  "check_counts path is_new h got_old got_new =
     (if got_old \<noteq> hk_old_count h \<or> got_new \<noteq> hk_new_count h
      then patch_fail (''hunk count mismatch in '' @ show_name path @ '' @@ -'' @ show_int (hk_old_start h) @ '','' @
        show_int (hk_old_count h) @ '' +'' @ show_int (hk_new_start h) @ '','' @ show_int (hk_new_count h) @
        '' @@ (saw '' @ show_int got_old @ ''/'' @ show_int got_new @ '')'') else
      if is_new \<and> (hk_old_start h \<noteq> 0 \<or> hk_old_count h \<noteq> 0)
      then patch_fail (''new-file hunk must be @@ -0,0 ... in '' @ show_name path) else Inr h)"

function parse_hunks ::
    "string \<Rightarrow> bool \<Rightarrow> Hunk list \<Rightarrow> string list \<Rightarrow> py_error + Hunk list \<times> string list" where
  "parse_hunks path is_new hunks [] = Inr (hunks, [])"
| "parse_hunks path is_new hunks (line # rest) =
     (case hunk_header line of
        None \<Rightarrow> Inr (hunks, line # rest)
      | Some (old_start, old_count, new_start, new_count) \<Rightarrow>
          bindE (hunk_body old_count new_count 0 0 [] rest) (\<lambda>(body, got_old, got_new, rest').
          bindE (check_counts path is_new \<lparr>hk_old_start = old_start, hk_old_count = old_count, hk_new_start = new_start,
            hk_new_count = new_count, hk_lines = body\<rparr> got_old got_new) (\<lambda>h.
          parse_hunks path is_new (hunks @ [h]) rest')))"
  by pat_completeness auto
termination
  by (relation "measure (\<lambda>(_, _, _, ls). length ls)") (auto dest!: hunk_body_length)

lemma parse_hunks_length:
  "parse_hunks path is_new hs ls = Inr (hs', rest) \<Longrightarrow> length rest \<le> length ls"
proof (induction path is_new hs ls rule: parse_hunks.induct)
  case (2 path is_new hunks line rest0)
  show ?case
  proof (cases "hunk_header line")
    case None
    then show ?thesis using 2(2) by simp
  next
    case (Some h)
    obtain os oc ns nc where h: "h = (os, oc, ns, nc)" by (cases h)
    obtain body go gn rest' hk where b: "hunk_body oc nc 0 0 [] rest0 = Inr (body, go, gn, rest')"
      and k: "check_counts path is_new \<lparr>hk_old_start = os, hk_old_count = oc, hk_new_start = ns, hk_new_count = nc,
        hk_lines = body\<rparr> go gn = Inr hk" "parse_hunks path is_new (hunks @ [hk]) rest' = Inr (hs', rest)"
      using 2(2) Some h by (auto simp: bindE_eq_Inr)
    have "length rest \<le> length rest'" using 2(1) [OF Some h [symmetric] refl refl b refl refl refl k(1) k(2)] .
    then show ?thesis using hunk_body_length [OF b] by simp
  qed
qed simp

section \<open>Files\<close>

definition skippable :: "string \<Rightarrow> bool" where
  "skippable line = (line = [] \<or> list_ex (\<lambda>p. starts_with p line)
     [''diff '', ''index '', ''new file mode'', ''old mode '', ''new mode ''])"

definition reject_starts :: "(string \<times> string) list" where
  "reject_starts =
     [(''GIT binary patch'', ''binary patch''), (''Binary files '', ''binary file diff''), (''rename from '', ''rename''),
      (''rename to '', ''rename''), (''copy from '', ''copy''), (''copy to '', ''copy''),
      (CHR 0x5C # '' No newline at end of file'', ''missing trailing newline marker'')]"

definition check_outside :: "string \<Rightarrow> py_error + unit" where
  "check_outside line =
     (case find (\<lambda>(marker, _). starts_with marker line) reject_starts of
        Some (_, why) \<Rightarrow> patch_fail (''unsupported patch construct ('' @ why @ ''): '' @ show_name line)
      | None \<Rightarrow>
          if \<not> starts_with ''--- '' line
          then patch_fail (''unexpected line outside any file section: '' @ show_name line) else Inr ())"

text \<open>\<open>line[4:].split("\t")[0].strip()\<close>.\<close>

definition header_path :: "string \<Rightarrow> string" where
  "header_path line = py_strip (hd (py_split (CHR 0x09) (drop 4 line)))"

definition section_paths :: "string \<Rightarrow> string \<Rightarrow> string list \<Rightarrow> py_error + string \<times> bool" where
  "section_paths old_raw new_raw seen =
     (if new_raw = ''/dev/null'' then patch_fail (''file deletion not supported: '' @ show_name old_raw) else
      bindE (if old_raw \<noteq> ''/dev/null'' then strip_prefix old_raw ''a'' else Inr old_raw) (\<lambda>old_path.
      bindE (strip_prefix new_raw ''b'') (\<lambda>new_path.
      let is_new = (old_path = ''/dev/null'') in
      if \<not> is_new \<and> old_path \<noteq> new_path
      then patch_fail (''rename not supported: '' @ show_name old_path @ '' -> '' @ show_name new_path) else
      if new_path \<in> set seen then patch_fail (''duplicate file in patch: '' @ show_name new_path)
      else Inr (new_path, is_new))))"

definition check_hunks :: "string \<Rightarrow> bool \<Rightarrow> Hunk list \<Rightarrow> py_error + unit" where
  "check_hunks path is_new hunks =
     (if hunks = [] then patch_fail (''file section without hunks: '' @ show_name path) else
      if is_new \<and> length hunks \<noteq> 1 then patch_fail (''new file must have exactly one hunk: '' @ show_name path)
      else Inr ())"

text \<open>The outer loop; \<open>seen_paths\<close> are the paths of the files so far.\<close>

function parse_sections :: "FilePatch list \<Rightarrow> string list \<Rightarrow> py_error + FilePatch list" where
  "parse_sections files [] = Inr files"
| "parse_sections files (line # rest) =
     (if skippable line then parse_sections files rest else
      bindE (check_outside line) (\<lambda>_.
      let old_raw = header_path line in
      case rest of
        [] \<Rightarrow> patch_fail (''missing +++ line after '' @ show_name old_raw)
      | line' # rest' \<Rightarrow>
          if \<not> starts_with ''+++ '' line' then patch_fail (''missing +++ line after '' @ show_name old_raw) else
          bindE (section_paths old_raw (header_path line') (map fp_path files)) (\<lambda>(path, is_new).
          bindE (parse_hunks path is_new [] rest') (\<lambda>(hunks, rest'').
          bindE (check_hunks path is_new hunks) (\<lambda>_.
          parse_sections (files @ [\<lparr>fp_path = path, fp_is_new_file = is_new, fp_hunks = hunks\<rparr>]) rest'')))))"
  by pat_completeness auto
termination
  by (relation "measure (\<lambda>(_, ls). length ls)") (auto dest!: parse_hunks_length)

definition parse_patch_text :: "string \<Rightarrow> py_error + FilePatch list" where
  "parse_patch_text patch =
     (let split = py_split newline patch;
          ls = (if split \<noteq> [] \<and> last split = [] then butlast split else split) in
      bindE (parse_sections [] ls) (\<lambda>files.
      if files = [] then patch_fail ''patch contains no file sections'' else Inr files))"

section \<open>Application\<close>

definition unlines :: "string list \<Rightarrow> string" where
  "unlines ls = concat (map (\<lambda>l. l @ [newline]) ls)"

text \<open>\<open>[ln[1:] for ln in lines if ln[0] in tags]\<close>.\<close>

definition hunk_side :: "string \<Rightarrow> string list \<Rightarrow> py_error + string list" where
  "hunk_side tags ls =
     (if [] \<in> set ls then Inl (PyIndexError ''string index out of range'')
      else Inr (map tl (filter (\<lambda>ln. hd ln \<in> set tags) ls)))"

fun first_mismatch :: "nat \<Rightarrow> string list \<Rightarrow> string list \<Rightarrow> (nat \<times> string \<times> string) option" where
  "first_mismatch k (e # es) (a # as) = (if e \<noteq> a then Some (k, e, a) else first_mismatch (Suc k) es as)"
| "first_mismatch k _ _ = None"

definition context_error :: "string \<Rightarrow> int \<Rightarrow> string list \<Rightarrow> string list \<Rightarrow> string" where
  "context_error path start expect actual =
     (case first_mismatch 0 expect actual of
        Some (k, e, a) \<Rightarrow> show_name path @ '': context mismatch at line '' @ show_int (start + int k + 1) @ '': expected '' @
          show_name e @ '', found '' @ show_name a @ '' - bundle was not built against the pinned dependency tree''
      | None \<Rightarrow> show_name path @ '': context length mismatch at line '' @ show_int (start + 1))"

definition apply_hunk ::
    "string \<Rightarrow> string list \<Rightarrow> Hunk \<Rightarrow> string list \<times> int \<Rightarrow> py_error + string list \<times> int" where
  "apply_hunk path src h acc =
     (case acc of (out, pos) \<Rightarrow>
      let start = hk_old_start h - 1 in
      if start < pos then patch_fail (show_name path @ '': overlapping/unordered hunks'') else
      if int (length src) < start + hk_old_count h then patch_fail (show_name path @ '': hunk exceeds file length'') else
      bindE (hunk_side '' -'' (hk_lines h)) (\<lambda>expect.
      let actual = take (nat (hk_old_count h)) (drop (nat start) src) in
      if expect \<noteq> actual then patch_fail (context_error path start expect actual) else
      bindE (hunk_side '' +'' (hk_lines h)) (\<lambda>new.
      Inr (out @ take (nat start - nat pos) (drop (nat pos) src) @ new, start + hk_old_count h))))"

definition apply_file_patch :: "string option \<Rightarrow> FilePatch \<Rightarrow> py_error + string" where
  "apply_file_patch original p =
     (if fp_is_new_file p then
        (case original of
           Some _ \<Rightarrow> patch_fail (''new-file patch but '' @ show_name (fp_path p) @ '' already exists'')
         | None \<Rightarrow>
             (case fp_hunks p of
                [] \<Rightarrow> Inl (PyIndexError ''tuple index out of range'')
              | h # _ \<Rightarrow> Inr (unlines (map tl (filter (starts_with ''+'') (hk_lines h))))))
      else case original of
        None \<Rightarrow> patch_fail (''patch target missing: '' @ show_name (fp_path p))
      | Some file \<Rightarrow>
          if file \<noteq> [] \<and> last file \<noteq> newline
          then patch_fail (show_name (fp_path p) @ '': pinned file lacks trailing newline (unsupported)'') else
          let src = butlast (py_split newline file) in
          bindE (foldE (apply_hunk (fp_path p) src) (fp_hunks p) ([], 0)) (\<lambda>(out, pos).
          Inr (unlines (out @ drop (nat pos) src))))"

end
