(* ===== verification/Patch_Laws.thy ===== *)
theory Patch_Laws
  imports Dep_Patch
begin

text \<open>
  What the diff parser accepts, a printer for it, and what exact application means. A patch is laid
  out over the lines of a file when its hunks cut the file at their stated lines into gaps and old
  sides; application replaces the old sides by the new ones and nothing else.
\<close>

section \<open>Lines\<close>

lemma py_split_lines: "l \<in> set (py_split sep s) \<Longrightarrow> sep \<notin> set l"
proof (induction s arbitrary: l)
  case (Cons c cs)
  then show ?case by (cases "py_split sep cs") (auto split: if_splits)
qed simp

lemma py_split_nonempty [simp]: "py_split sep s \<noteq> []"
  by (cases s) (auto split: list.splits)

lemma py_split_none: "sep \<notin> set s \<Longrightarrow> py_split sep s = [s]"
  by (induction s) auto

lemma py_split_cons: "sep \<notin> set l \<Longrightarrow> py_split sep (l @ sep # s) = l # py_split sep s"
  by (induction l) auto

lemma hd_py_split: "hd (py_split sep s) = takeWhile (\<lambda>c. c \<noteq> sep) s"
proof (induction s)
  case (Cons c cs)
  then show ?case by (cases "py_split sep cs") auto
qed simp

definition text_lines :: "string list \<Rightarrow> bool" where
  "text_lines ls \<longleftrightarrow> (\<forall>l \<in> set ls. newline \<notin> set l)"

lemma unlines_simps [simp]:
  "unlines [] = []" "unlines (l # ls) = l @ newline # unlines ls" "unlines (ls @ ks) = unlines ls @ unlines ks"
  by (simp_all add: unlines_def)

lemma split_unlines: "text_lines ls \<Longrightarrow> py_split newline (unlines ls) = ls @ [[]]"
  by (induction ls) (simp_all add: text_lines_def py_split_cons)

lemma lines_of_file:
  assumes "t = [] \<or> last t = newline"
  shows "unlines (butlast (py_split newline t)) = t" and "text_lines (butlast (py_split newline t))"
proof -
  show "text_lines (butlast (py_split newline t))"
    using py_split_lines in_set_butlastD unfolding text_lines_def by fast
  have "t = [] \<or> last t = newline \<Longrightarrow> unlines (butlast (py_split newline t)) = t" for t
  proof (induction t)
    case (Cons c cs)
    obtain l ls where s: "py_split newline cs = l # ls" by (cases "py_split newline cs") auto
    show ?case
    proof (cases "c = newline")
      case True
      have "cs = [] \<or> last cs = newline" using Cons.prems by (cases cs) auto
      from Cons.IH [OF this] show ?thesis by (simp add: True s)
    next
      case False
      then have "cs \<noteq> []" "last cs = newline" using Cons.prems by (cases cs; simp)+
      with Cons.IH s have ih: "unlines (butlast (l # ls)) = cs" by simp
      then have "ls \<noteq> []" using \<open>cs \<noteq> []\<close> by auto
      with ih show ?thesis using False by (simp add: s)
    qed
  qed simp
  from this [OF assms] show "unlines (butlast (py_split newline t)) = t" .
qed

lemma unlines_file: "text_lines ls \<Longrightarrow> unlines ls = [] \<or> last (unlines ls) = newline"
  by (induction ls rule: rev_induct) simp_all

section \<open>Hunks\<close>

definition old_lines :: "Hunk \<Rightarrow> string list" where
  "old_lines h = map tl (filter (\<lambda>l. hd l \<in> set '' -'') (hk_lines h))"

definition new_lines :: "Hunk \<Rightarrow> string list" where
  "new_lines h = map tl (filter (\<lambda>l. hd l \<in> set '' +'') (hk_lines h))"

definition body_line :: "string \<Rightarrow> bool" where
  "body_line l \<longleftrightarrow> l \<noteq> [] \<and> hd l \<in> set '' -+'' \<and> newline \<notin> set l"

definition hunk_ok :: "Hunk \<Rightarrow> bool" where
  "hunk_ok h \<longleftrightarrow> 0 \<le> hk_old_start h \<and> 0 \<le> hk_new_start h \<and> list_all body_line (hk_lines h)
     \<and> hk_old_count h = int (length (old_lines h)) \<and> hk_new_count h = int (length (new_lines h))"

definition side_count :: "string \<Rightarrow> string list \<Rightarrow> int" where
  "side_count tags ls = int (length (filter (\<lambda>l. hd l \<in> set tags) ls))"

lemma side_count_simps [simp]:
  "side_count tags [] = 0" "side_count tags (l # ls) = (if hd l \<in> set tags then 1 else 0) + side_count tags ls"
  by (simp_all add: side_count_def)

lemma side_count_nonneg [simp]: "0 \<le> side_count tags ls"
  by (simp add: side_count_def)

lemma side_counts: "side_count '' -'' (hk_lines h) = int (length (old_lines h))" "side_count '' +'' (hk_lines h) = int (length (new_lines h))"
  by (simp_all add: side_count_def old_lines_def new_lines_def)

lemma body_line_space: "body_line '' ''"
  by (simp add: body_line_def newline_def)

lemma hunk_body_sound:
  assumes "hunk_body oc nc go gn body ls = Inr (body', go', gn', rest)" and "text_lines ls"
  shows "\<exists>bs. body' = body @ bs \<and> list_all body_line bs \<and> go' = go + side_count '' -'' bs \<and> gn' = gn + side_count '' +'' bs
    \<and> text_lines rest"
  using assms
proof (induction oc nc go gn body ls rule: hunk_body.induct)
  case (2 oc nc go gn body bl rest0)
  note tl = \<open>text_lines (bl # rest0)\<close>
  show ?case
  proof (cases "go < oc \<or> gn < nc")
    case False
    with 2(5) tl show ?thesis by (intro exI [of _ "[]"]) auto
  next
    case go: True
    have rest0: "text_lines rest0" using tl by (simp add: text_lines_def)
    show ?thesis
    proof (cases bl)
      case Nil
      with 2(5) go have "hunk_body oc nc (go + 1) (gn + 1) (body @ ['' '']) rest0 = Inr (body', go', gn', rest)" by simp
      from 2(1) [OF go Nil this rest0] obtain bs where "body' = (body @ ['' '']) @ bs" "list_all body_line bs"
        "go' = go + 1 + side_count '' -'' bs" "gn' = gn + 1 + side_count '' +'' bs" "text_lines rest" by blast
      then show ?thesis by (intro exI [of _ "'' '' # bs"]) (simp add: body_line_space)
    next
      case (Cons tag cs)
      have bl: "bl \<noteq> []" "hd bl = tag" "newline \<notin> set bl" using Cons tl by (auto simp: text_lines_def)
      consider "tag = CHR '' ''" | "tag = CHR ''-''" | "tag = CHR ''+''"
        using 2(5) go Cons by (auto simp: patch_fail_def split: if_splits)
      then show ?thesis
      proof cases
        case 1
        with 2(5) go Cons have "hunk_body oc nc (go + 1) (gn + 1) (body @ [bl]) rest0 = Inr (body', go', gn', rest)" by simp
        from 2(2) [OF go Cons 1 this rest0] obtain bs where "body' = (body @ [bl]) @ bs" "list_all body_line bs"
          "go' = go + 1 + side_count '' -'' bs" "gn' = gn + 1 + side_count '' +'' bs" "text_lines rest" by blast
        moreover have "body_line bl" using bl 1 by (simp add: body_line_def)
        ultimately show ?thesis using bl 1 by (intro exI [of _ "bl # bs"]) simp
      next
        case 2
        with \<open>hunk_body _ _ _ _ _ (bl # rest0) = _\<close> go Cons
        have "hunk_body oc nc (go + 1) gn (body @ [bl]) rest0 = Inr (body', go', gn', rest)" by simp
        from "2.IH"(3) [OF go Cons _ 2 this rest0] 2 obtain bs where "body' = (body @ [bl]) @ bs" "list_all body_line bs"
          "go' = go + 1 + side_count '' -'' bs" "gn' = gn + side_count '' +'' bs" "text_lines rest" by auto
        moreover have "body_line bl" using bl 2 by (simp add: body_line_def)
        ultimately show ?thesis using bl 2 by (intro exI [of _ "bl # bs"]) simp
      next
        case 3
        with \<open>hunk_body _ _ _ _ _ (bl # rest0) = _\<close> go Cons
        have "hunk_body oc nc go (gn + 1) (body @ [bl]) rest0 = Inr (body', go', gn', rest)" by simp
        from "2.IH"(4) [OF go Cons _ _ 3 this rest0] 3 obtain bs where "body' = (body @ [bl]) @ bs" "list_all body_line bs"
          "go' = go + side_count '' -'' bs" "gn' = gn + 1 + side_count '' +'' bs" "text_lines rest" by auto
        moreover have "body_line bl" using bl 3 by (simp add: body_line_def)
        ultimately show ?thesis using bl 3 by (intro exI [of _ "bl # bs"]) simp
      qed
    qed
  qed
qed auto

lemma hunk_body_complete:
  assumes "list_all body_line bs" and "go + side_count '' -'' bs = oc" and "gn + side_count '' +'' bs = nc"
  shows "hunk_body oc nc go gn body (bs @ rest) = Inr (body @ bs, oc, nc, rest)"
  using assms
proof (induction bs arbitrary: go gn body)
  case Nil
  then show ?case by (cases rest) simp_all
next
  case (Cons l bs)
  obtain tag cs where l: "l = tag # cs" "tag \<in> set '' -+''" using Cons.prems(1) by (cases l) (auto simp: body_line_def)
  have bs: "list_all body_line bs" using Cons.prems(1) by simp
  consider "tag = CHR '' ''" | "tag = CHR ''-''" | "tag = CHR ''+''" using l(2) by auto
  then show ?case
  proof cases
    case 1
    then have "go + (1 + side_count '' -'' bs) = oc" using Cons.prems(2) l by simp
    then have "go < oc" using side_count_nonneg [of "'' -''" bs] by linarith
    then show ?thesis using 1 l Cons.IH [OF bs, of "go + 1" "gn + 1" "body @ [l]"] Cons.prems(2,3) by simp
  next
    case 2
    then have "go + (1 + side_count '' -'' bs) = oc" using Cons.prems(2) l by simp
    then have "go < oc" using side_count_nonneg [of "'' -''" bs] by linarith
    then show ?thesis using 2 l Cons.IH [OF bs, of "go + 1" gn "body @ [l]"] Cons.prems(2,3) by simp
  next
    case 3
    then have "gn + (1 + side_count '' +'' bs) = nc" using Cons.prems(3) l by simp
    then have "gn < nc" using side_count_nonneg [of "'' +''" bs] by linarith
    then show ?thesis using 3 l Cons.IH [OF bs, of go "gn + 1" "body @ [l]"] Cons.prems(2,3) by simp
  qed
qed

section \<open>Hunk headers\<close>

lemma read_number_nonneg: "read_number s = Some (n, r) \<Longrightarrow> 0 \<le> n"
  by (auto simp: read_number_def Let_def split: if_splits)

lemma hunk_header_nonneg:
  assumes "hunk_header l = Some (os, oc, ns, nc)"
  shows "0 \<le> os" "0 \<le> ns"
proof -
  have range: "0 \<le> a" if "read_range pre t = Some (a, b, r)" for pre t a b r
    using that by (auto simp: read_range_def dest: read_number_nonneg split: option.splits prod.splits)
  obtain r r' where "read_range ''@@ -'' l = Some (os, oc, r)" "read_range '' +'' r = Some (ns, nc, r')"
    using assms by (auto simp: hunk_header_def split: option.splits if_splits)
  then show "0 \<le> os" "0 \<le> ns" by (simp_all add: range)
qed

lemma read_shown:
  assumes "r = [] \<or> \<not> is_digit (hd r)"
  shows "read_number (show_nat n @ r) = Some (int n, r)"
proof -
  have d: "list_all is_digit (show_nat n)" "show_nat n \<noteq> []" using show_nat_digits [of n] by simp_all
  have "takeWhile is_digit (show_nat n @ r) = show_nat n" "dropWhile is_digit (show_nat n @ r) = r"
    using d(1) assms by (cases r; auto simp: list_all_iff takeWhile_append dropWhile_append takeWhile_eq_all_conv)+
  then show ?thesis using d(2) by (simp add: read_number_def read_show_nat)
qed

definition shown_range :: "nat \<Rightarrow> nat \<Rightarrow> string" where
  "shown_range a b = show_nat a @ '','' @ show_nat b"

lemma read_shown_range:
  assumes "r = [] \<or> \<not> is_digit (hd r)"
  shows "read_range pre (pre @ shown_range a b @ r) = Some (int a, int b, r)"
proof -
  have "read_number (show_nat a @ '','' @ show_nat b @ r) = Some (int a, '','' @ show_nat b @ r)"
    by (rule read_shown) (simp add: is_digit_def)
  moreover have "read_count ('','' @ show_nat b @ r) = (int b, r)"
    using read_shown [OF assms, of b] by (simp add: read_count_def after_prefix_def starts_with_def)
  ultimately show ?thesis by (simp add: read_range_def after_prefix_def starts_with_def shown_range_def)
qed

definition header_line :: "Hunk \<Rightarrow> string" where
  "header_line h = ''@@ -'' @ shown_range (nat (hk_old_start h)) (nat (hk_old_count h)) @ '' +'' @
     shown_range (nat (hk_new_start h)) (nat (hk_new_count h)) @ '' @@''"

definition render_hunk :: "Hunk \<Rightarrow> string list" where
  "render_hunk h = header_line h # hk_lines h"

lemma hunk_header_shown:
  "hunk_header (''@@ -'' @ shown_range a b @ '' +'' @ shown_range c d @ '' @@'') = Some (int a, int b, int c, int d)"
proof -
  have "read_range ''@@ -'' (''@@ -'' @ shown_range a b @ '' +'' @ shown_range c d @ '' @@'') =
      Some (int a, int b, '' +'' @ shown_range c d @ '' @@'')"
    by (rule read_shown_range) (simp add: is_digit_def)
  moreover have "read_range '' +'' ('' +'' @ shown_range c d @ '' @@'') = Some (int c, int d, '' @@'')"
    by (rule read_shown_range) (simp add: is_digit_def)
  ultimately show ?thesis by (simp add: hunk_header_def starts_with_def)
qed

lemma hunk_header_line:
  "hunk_ok h \<Longrightarrow> hunk_header (header_line h) = Some (hk_old_start h, hk_old_count h, hk_new_start h, hk_new_count h)"
  unfolding header_line_def hunk_header_shown by (simp add: hunk_ok_def)

definition new_file_hunk :: "Hunk \<Rightarrow> bool" where
  "new_file_hunk h \<longleftrightarrow> hk_old_start h = 0 \<and> hk_old_count h = 0"

lemma patch_fail_simps [err_simps]:
  "(if b then patch_fail m else k) = Inr y \<longleftrightarrow> \<not> b \<and> k = Inr y" "patch_fail m \<noteq> Inr x"
  by (simp_all add: patch_fail_def)

lemma check_counts_eq_Inr [err_simps]:
  "check_counts path is_new h go gn = Inr h' \<longleftrightarrow>
     h' = h \<and> go = hk_old_count h \<and> gn = hk_new_count h \<and> (is_new \<longrightarrow> new_file_hunk h)"
  by (auto simp: check_counts_def patch_fail_simps new_file_hunk_def)

lemma parse_hunks_sound:
  assumes "parse_hunks path is_new hs ls = Inr (hs', rest)" and "text_lines ls"
    and "list_all hunk_ok hs" and "is_new \<longrightarrow> list_all new_file_hunk hs"
  shows "list_all hunk_ok hs' \<and> (is_new \<longrightarrow> list_all new_file_hunk hs') \<and> text_lines rest"
  using assms
proof (induction path is_new hs ls rule: parse_hunks.induct)
  case (2 path is_new hunks line rest0)
  show ?case
  proof (cases "hunk_header line")
    case None
    then show ?thesis using 2(2-5) by auto
  next
    case (Some h)
    obtain os oc ns nc where h: "h = (os, oc, ns, nc)" by (cases h)
    obtain body go gn rest' hk where b: "hunk_body oc nc 0 0 [] rest0 = Inr (body, go, gn, rest')"
      and k: "check_counts path is_new \<lparr>hk_old_start = os, hk_old_count = oc, hk_new_start = ns, hk_new_count = nc,
        hk_lines = body\<rparr> go gn = Inr hk" "parse_hunks path is_new (hunks @ [hk]) rest' = Inr (hs', rest)"
      using 2(2) Some h by (auto simp: bindE_eq_Inr)
    have rest0: "text_lines rest0" using 2(3) by (simp add: text_lines_def)
    obtain bs where bs: "body = bs" "list_all body_line bs" "go = side_count '' -'' bs" "gn = side_count '' +'' bs" "text_lines rest'"
      using hunk_body_sound [OF b rest0] by auto
    note hk = k(1) [unfolded check_counts_eq_Inr]
    have "hunk_ok hk" using hk bs hunk_header_nonneg [of line] Some h side_counts [of hk] by (simp add: hunk_ok_def)
    then show ?thesis
      using 2(1) [OF Some h [symmetric] refl refl b refl refl refl k(1) k(2) bs(5)] 2(4,5) hk by simp
  qed
qed simp

lemma parse_hunks_complete:
  assumes "list_all hunk_ok hs" and "is_new \<longrightarrow> list_all new_file_hunk hs" and "rest = [] \<or> hunk_header (hd rest) = None"
  shows "parse_hunks path is_new acc (concat (map render_hunk hs) @ rest) = Inr (acc @ hs, rest)"
  using assms
proof (induction hs arbitrary: acc)
  case Nil
  then show ?case by (cases rest) simp_all
next
  case (Cons h hs)
  let ?more = "concat (map render_hunk hs) @ rest"
  have ok: "hunk_ok h" using Cons.prems(1) by simp
  have body: "hunk_body (hk_old_count h) (hk_new_count h) 0 0 [] (hk_lines h @ ?more) =
      Inr ([] @ hk_lines h, hk_old_count h, hk_new_count h, ?more)"
    using ok side_counts [of h] by (intro hunk_body_complete) (simp_all add: hunk_ok_def)
  have check: "check_counts path is_new \<lparr>hk_old_start = hk_old_start h, hk_old_count = hk_old_count h, hk_new_start = hk_new_start h,
      hk_new_count = hk_new_count h, hk_lines = hk_lines h\<rparr> (hk_old_count h) (hk_new_count h) = Inr h"
    using Cons.prems(2) by (simp add: check_counts_eq_Inr new_file_hunk_def)
  show ?case using Cons.IH [of "acc @ [h]"] Cons.prems
    by (simp add: render_hunk_def [of h] hunk_header_line [OF ok] body [unfolded append_Nil] check)
qed

section \<open>Files\<close>

text \<open>A path that stays under the root it is joined to.\<close>

definition safe_path :: "string \<Rightarrow> bool" where
  "safe_path path \<longleftrightarrow> CHR 0x5C \<notin> set path \<and> CHR 0x00 \<notin> set path
     \<and> (\<forall>part \<in> set (py_split (CHR ''/'') path). part \<notin> {[], ''.'', ''..''})"

lemma check_rel_path_iff: "check_rel_path p = Inr q \<longleftrightarrow> q = p \<and> safe_path p"
  by (cases p) (auto simp: check_rel_path_def safe_path_def starts_with_def patch_fail_def list_ex_iff)

definition path_ok :: "string \<Rightarrow> bool" where
  "path_ok path \<longleftrightarrow> safe_path path \<and> CHR 0x09 \<notin> set path \<and> newline \<notin> set path \<and> \<not> py_space (last path)"

definition file_ok :: "FilePatch \<Rightarrow> bool" where
  "file_ok p \<longleftrightarrow> path_ok (fp_path p) \<and> fp_hunks p \<noteq> [] \<and> list_all hunk_ok (fp_hunks p)
     \<and> (fp_is_new_file p \<longrightarrow> length (fp_hunks p) = 1 \<and> list_all new_file_hunk (fp_hunks p))"

definition patch_ok :: "FilePatch list \<Rightarrow> bool" where
  "patch_ok files \<longleftrightarrow> files \<noteq> [] \<and> list_all file_ok files \<and> distinct (map fp_path files)"

lemma safe_path_start: "safe_path p \<Longrightarrow> p \<noteq> [] \<and> hd p \<noteq> CHR ''/''"
proof -
  assume safe: "safe_path p"
  then have "[] \<notin> set (py_split (CHR ''/'') p)" unfolding safe_path_def by blast
  then show ?thesis by (cases p) (simp_all split: if_splits)
qed

lemma py_strip_last: "py_strip s \<noteq> [] \<Longrightarrow> \<not> py_space (last (py_strip s))"
  unfolding py_strip_def using hd_dropWhile [of py_space "rev (dropWhile py_space s)"] by (simp add: last_rev)

lemma set_py_strip: "set (py_strip s) \<subseteq> set s"
  unfolding py_strip_def by (auto dest!: set_dropWhileD)

lemma header_path_chars:
  "CHR 0x09 \<notin> set (header_path l)" "newline \<notin> set l \<Longrightarrow> newline \<notin> set (header_path l)"
proof -
  have "set (header_path l) \<subseteq> set (takeWhile (\<lambda>c. c \<noteq> CHR 0x09) (drop 4 l))"
    unfolding header_path_def hd_py_split by (rule set_py_strip)
  then show "CHR 0x09 \<notin> set (header_path l)" "newline \<notin> set l \<Longrightarrow> newline \<notin> set (header_path l)"
    by (auto dest!: set_takeWhileD in_set_dropD subsetD)
qed

lemma strip_prefix_sound:
  assumes "strip_prefix raw side = Inr p" and "raw \<noteq> ''/dev/null''"
  shows "raw = side @ ''/'' @ p \<and> safe_path p"
proof -
  let ?pre = "side @ ''/''"
  have pre: "take (length ?pre) raw = ?pre" and c: "check_rel_path (drop (length ?pre) raw) = Inr p"
    using assms by (auto simp: strip_prefix_def Let_def patch_fail_def starts_with_def split: if_splits)
  have p: "p = drop (length ?pre) raw" and "safe_path p" using c by (auto simp: check_rel_path_iff)
  have "raw = ?pre @ p" unfolding p using pre by (metis append_take_drop_id)
  then show ?thesis using \<open>safe_path p\<close> by simp
qed

lemma section_paths_sound:
  assumes "section_paths (header_path l) (header_path l') seen = Inr (path, is_new)" and "newline \<notin> set l'"
  shows "path_ok path \<and> path \<notin> set seen"
proof -
  have raw: "header_path l' \<noteq> ''/dev/null''" and s: "strip_prefix (header_path l') ''b'' = Inr path" and "path \<notin> set seen"
    using assms(1) by (auto simp: section_paths_def Let_def bindE_eq_Inr patch_fail_simps)
  note p = strip_prefix_sound [OF s raw]
  have "path \<noteq> []" using safe_path_start p by blast
  then have "last (header_path l') = last path" using p by simp
  then have "\<not> py_space (last path)" using py_strip_last p unfolding header_path_def by (metis append_is_Nil_conv list.distinct(1))
  then show ?thesis using p header_path_chars(1) [of l'] header_path_chars(2) [OF assms(2)] \<open>path \<notin> set seen\<close>
    by (simp add: path_ok_def)
qed

lemma parse_sections_sound:
  assumes "parse_sections files ls = Inr files'" and "text_lines ls" and "list_all file_ok files" and "distinct (map fp_path files)"
  shows "list_all file_ok files' \<and> distinct (map fp_path files')"
  using assms
proof (induction files ls rule: parse_sections.induct)
  case (2 files line rest)
  show ?case
  proof (cases "skippable line")
    case True
    then show ?thesis using 2 by (simp add: text_lines_def)
  next
    case False
    obtain line' rest' path is_new hunks rest'' where co: "check_outside line = Inr ()" and r: "rest = line' # rest'"
      and plus: "starts_with ''+++ '' line'"
      and sp: "section_paths (header_path line) (header_path line') (map fp_path files) = Inr (path, is_new)"
      and ph: "parse_hunks path is_new [] rest' = Inr (hunks, rest'')" and ch: "check_hunks path is_new hunks = Inr ()"
      and more: "parse_sections (files @ [\<lparr>fp_path = path, fp_is_new_file = is_new, fp_hunks = hunks\<rparr>]) rest'' = Inr files'"
      using 2(3) False by (auto simp: bindE_eq_Inr Let_def patch_fail_simps split: list.splits)
    have tl: "newline \<notin> set line'" "text_lines rest'" using 2(4) r by (auto simp: text_lines_def)
    note path = section_paths_sound [OF sp tl(1)]
    note hunks = parse_hunks_sound [OF ph tl(2)]
    have "file_ok \<lparr>fp_path = path, fp_is_new_file = is_new, fp_hunks = hunks\<rparr>"
      using path hunks ch by (auto simp: file_ok_def check_hunks_def patch_fail_simps)
    then show ?thesis using 2(2) [OF False co refl r _ sp refl ph refl ch more] plus hunks path 2(5,6) by simp
  qed
qed simp

lemma parse_patch_sound: "parse_patch_text t = Inr files \<Longrightarrow> patch_ok files"
proof -
  assume run: "parse_patch_text t = Inr files"
  let ?ls = "if py_split newline t \<noteq> [] \<and> last (py_split newline t) = [] then butlast (py_split newline t) else py_split newline t"
  have "text_lines ?ls" using py_split_lines [of _ newline t] by (auto simp: text_lines_def dest: in_set_butlastD)
  moreover have "parse_sections [] ?ls = Inr files" "files \<noteq> []"
    using run by (auto simp: parse_patch_text_def Let_def bindE_eq_Inr patch_fail_simps split: if_splits)
  ultimately show ?thesis using parse_sections_sound [of "[]" ?ls files] by (simp add: patch_ok_def)
qed

text \<open>A printer of patches, in the form \<open>git diff\<close> gives without the lines the parser skips.\<close>

definition render_file :: "FilePatch \<Rightarrow> string list" where
  "render_file p = [''--- '' @ (if fp_is_new_file p then ''/dev/null'' else ''a/'' @ fp_path p), ''+++ b/'' @ fp_path p] @
     concat (map render_hunk (fp_hunks p))"

definition render_patch :: "FilePatch list \<Rightarrow> string" where
  "render_patch files = unlines (concat (map render_file files))"

lemma takeWhile_absent: "c \<notin> set s \<Longrightarrow> takeWhile (\<lambda>d. d \<noteq> c) s = s"
  by (auto simp: takeWhile_eq_all_conv)

lemma py_strip_framed: "\<not> py_space c \<Longrightarrow> \<not> py_space (last (c # s)) \<Longrightarrow> py_strip (c # s) = c # s"
proof -
  assume "\<not> py_space c" and l: "\<not> py_space (last (c # s))"
  then have "dropWhile py_space (c # s) = c # s" by simp
  moreover have "dropWhile py_space (rev (c # s)) = rev (c # s)" using l by (cases "c # s" rule: rev_cases) simp_all
  ultimately show ?thesis unfolding py_strip_def by simp
qed

lemma header_path_shown:
  assumes "path_ok p" and "\<not> py_space c" and "c \<noteq> CHR 0x09"
  shows "header_path (d1 # d2 # d3 # d4 # c # CHR ''/'' # p) = c # CHR ''/'' # p"
proof -
  have "p \<noteq> []" using assms(1) safe_path_start unfolding path_ok_def by blast
  then have "\<not> py_space (last (c # CHR ''/'' # p))" using assms(1) by (simp add: path_ok_def)
  moreover have "CHR 0x09 \<notin> set (c # CHR ''/'' # p)" using assms by (auto simp: path_ok_def)
  ultimately show ?thesis unfolding header_path_def hd_py_split
    using takeWhile_absent [of "CHR 0x09" "c # CHR ''/'' # p"] py_strip_framed [OF assms(2)] by simp
qed

lemma not_dev_null: "path_ok p \<Longrightarrow> CHR ''a'' # CHR ''/'' # p \<noteq> ''/dev/null''" "path_ok p \<Longrightarrow> p \<noteq> ''/dev/null''"
  using safe_path_start [of p] by (auto simp: path_ok_def)

lemma section_paths_complete:
  assumes "path_ok p" and "p \<notin> set seen"
  shows "section_paths (if is_new then ''/dev/null'' else CHR ''a'' # CHR ''/'' # p) (CHR ''b'' # CHR ''/'' # p) seen = Inr (p, is_new)"
proof -
  have "strip_prefix (s # CHR ''/'' # p) [s] = Inr p" if "s \<noteq> CHR ''/''" for s
    using assms(1) that by (simp add: strip_prefix_def starts_with_def path_ok_def check_rel_path_iff)
  then show ?thesis using assms not_dev_null [OF assms(1)] by (simp add: section_paths_def)
qed

lemma dash_lines:
  "starts_with ''--- '' (''--- '' @ s)" "\<not> skippable (''--- '' @ s)" "check_outside (''--- '' @ s) = Inr ()"
  "hunk_header (''--- '' @ s) = None"
  by (simp_all add: starts_with_def skippable_def check_outside_def reject_starts_def hunk_header_def read_range_def after_prefix_def)

lemma render_file_head: "\<exists>s ls. render_file p = (''--- '' @ s) # ls"
  by (auto simp: render_file_def)

lemma render_files_head:
  "concat (map render_file files) = [] \<or> hunk_header (hd (concat (map render_file files))) = None"
proof (cases files)
  case (Cons p ps)
  obtain s ls where "render_file p = (''--- '' @ s) # ls" using render_file_head by blast
  then show ?thesis using dash_lines(4) [of s] Cons by simp
qed simp

lemma header_path_dev_null: "header_path ''--- /dev/null'' = ''/dev/null''"
  by code_simp

lemma parse_sections_complete:
  assumes "list_all file_ok files" and "distinct (map fp_path (done_files @ files))"
  shows "parse_sections done_files (concat (map render_file files)) = Inr (done_files @ files)"
  using assms
proof (induction files arbitrary: done_files)
  case (Cons p ps)
  let ?more = "concat (map render_file ps)"
  have p: "\<lparr>fp_path = fp_path p, fp_is_new_file = fp_is_new_file p, fp_hunks = fp_hunks p\<rparr> = p" by (cases p) simp
  have ok: "file_ok p" "path_ok (fp_path p)" using Cons.prems(1) by (simp_all add: file_ok_def)
  have old: "header_path (''--- '' @ (if fp_is_new_file p then ''/dev/null'' else ''a/'' @ fp_path p)) =
      (if fp_is_new_file p then ''/dev/null'' else CHR ''a'' # CHR ''/'' # fp_path p)"
    using header_path_shown [OF ok(2), of "CHR ''a''"] header_path_dev_null by (simp add: py_space_def)
  have new: "header_path (''+++ b/'' @ fp_path p) = CHR ''b'' # CHR ''/'' # fp_path p"
    using header_path_shown [OF ok(2), of "CHR ''b''"] by (simp add: py_space_def)
  have paths: "section_paths (if fp_is_new_file p then ''/dev/null'' else CHR ''a'' # CHR ''/'' # fp_path p)
      (CHR ''b'' # CHR ''/'' # fp_path p) (map fp_path done_files) = Inr (fp_path p, fp_is_new_file p)"
    using Cons.prems(2) by (intro section_paths_complete ok(2)) auto
  have hunks: "parse_hunks (fp_path p) (fp_is_new_file p) [] (concat (map render_hunk (fp_hunks p)) @ ?more) = Inr ([] @ fp_hunks p, ?more)"
    using ok(1) render_files_head [of ps] by (intro parse_hunks_complete) (simp_all add: file_ok_def)
  have "check_hunks (fp_path p) (fp_is_new_file p) (fp_hunks p) = Inr ()"
    using ok(1) by (auto simp: check_hunks_def patch_fail_simps file_ok_def)
  moreover have "starts_with ''+++ '' (''+++ b/'' @ fp_path p)" by (simp add: starts_with_def)
  moreover have "parse_sections (done_files @ [p]) ?more = Inr ((done_files @ [p]) @ ps)" using Cons by simp
  ultimately have "parse_sections done_files ((''--- '' @ (if fp_is_new_file p then ''/dev/null'' else ''a/'' @ fp_path p)) #
      (''+++ b/'' @ fp_path p) # concat (map render_hunk (fp_hunks p)) @ ?more) = Inr (done_files @ p # ps)"
    unfolding parse_sections.simps(2) if_not_P [OF dash_lines(2)] dash_lines(3) bindE_Inr Let_def old new list.case paths prod.case
      hunks by (simp add: p)
  then show ?case by (simp add: render_file_def [of p] del: parse_sections.simps)
qed simp

lemma rendered_lines: "list_all file_ok files \<Longrightarrow> text_lines (concat (map render_file files))"
proof -
  have num: "newline \<notin> set (show_nat n)" for n
    using show_nat_digits [of n] by (auto simp: list_all_iff is_digit_def newline_def)
  have hunk: "text_lines (render_hunk h)" if "hunk_ok h" for h
    using that num by (auto simp: text_lines_def render_hunk_def header_line_def shown_range_def hunk_ok_def list_all_iff body_line_def newline_def)
  have "text_lines (render_file p)" if "file_ok p" for p
    using that hunk by (auto simp: text_lines_def render_file_def file_ok_def path_ok_def list_all_iff newline_def split: if_splits)
  then show "list_all file_ok files \<Longrightarrow> text_lines (concat (map render_file files))" by (auto simp: text_lines_def list_all_iff)
qed

lemma parse_render: "patch_ok files \<Longrightarrow> parse_patch_text (render_patch files) = Inr files"
  using parse_sections_complete [of files "[]"] split_unlines [OF rendered_lines, of files]
  by (simp add: parse_patch_text_def render_patch_def patch_ok_def)

section \<open>Application\<close>

text \<open>The hunks cut the file at their stated lines; \<open>n\<close> lines of it come before.\<close>

fun laid_out :: "nat \<Rightarrow> string list \<Rightarrow> Hunk list \<Rightarrow> string list \<Rightarrow> bool" where
  "laid_out n src [] dst \<longleftrightarrow> dst = src"
| "laid_out n src (h # hs) dst \<longleftrightarrow> (\<exists>gap rest dst'. src = gap @ old_lines h @ rest \<and> int (n + length gap) = hk_old_start h - 1
     \<and> dst = gap @ new_lines h @ dst' \<and> laid_out (n + length gap + length (old_lines h)) rest hs dst')"

lemma hunk_sides:
  assumes "hunk_ok h"
  shows "hunk_side '' -'' (hk_lines h) = Inr (old_lines h)" "hunk_side '' +'' (hk_lines h) = Inr (new_lines h)"
  using assms by (auto simp: hunk_side_def old_lines_def new_lines_def hunk_ok_def list_all_iff body_line_def)

lemma apply_hunk_iff:
  assumes ok: "hunk_ok h" and pos: "pos \<le> length src"
  shows "apply_hunk path src h (out, int pos) = Inr r \<longleftrightarrow> (\<exists>gap rest. drop pos src = gap @ old_lines h @ rest
     \<and> int (pos + length gap) = hk_old_start h - 1 \<and> r = (out @ gap @ new_lines h, int (pos + length gap + length (old_lines h))))"
    (is "?L \<longleftrightarrow> ?R")
proof -
  define start where "start = hk_old_start h - 1"
  let ?oc = "length (old_lines h)"
  have oc: "hk_old_count h = int ?oc" using ok by (simp add: hunk_ok_def)
  have L: "?L \<longleftrightarrow> int pos \<le> start \<and> start + int ?oc \<le> int (length src)
      \<and> old_lines h = take ?oc (drop (nat start) src)
      \<and> r = (out @ take (nat start - pos) (drop pos src) @ new_lines h, start + int ?oc)"
    by (auto simp: apply_hunk_def Let_def patch_fail_simps hunk_sides [OF ok] oc start_def)
  show ?thesis
  proof
    assume ?L
    note f = this [unfolded L]
    let ?gap = "take (nat start - pos) (drop pos src)" and ?rest = "drop (nat start + ?oc) src"
    have len: "length ?gap = nat start - pos" using f by auto
    have "drop pos src = ?gap @ drop (nat start) src"
      using f by (metis append_take_drop_id drop_drop le_add_diff_inverse2 nat_le_iff nat_int nat_mono)
    also have "drop (nat start) src = old_lines h @ ?rest" using f by (metis add.commute append_take_drop_id drop_drop)
    finally have "drop pos src = ?gap @ old_lines h @ ?rest" .
    moreover have "int (pos + length ?gap) = start" using conjunct1 [OF f] unfolding len by arith
    ultimately show ?R using f by (intro exI [of _ ?gap] exI [of _ ?rest]) (simp add: start_def)
  next
    assume ?R
    then obtain gap rest where d: "drop pos src = gap @ old_lines h @ rest" and s: "int (pos + length gap) = start"
      and r: "r = (out @ gap @ new_lines h, int (pos + length gap + length (old_lines h)))" by (auto simp: start_def)
    have st: "nat start = pos + length gap" using s by simp
    have "length src = pos + length gap + ?oc + length rest" using arg_cong [OF d, of length] pos by simp
    moreover have "drop (nat start) src = old_lines h @ rest" unfolding st using d by (metis add.commute append_eq_conv_conj drop_drop)
    moreover have "take (nat start - pos) (drop pos src) = gap" using d st by simp
    ultimately show ?L unfolding L using r s by simp
  qed
qed

lemma apply_hunks_iff:
  assumes "list_all hunk_ok hs" and "pos \<le> length src"
  shows "(\<exists>out' p. foldE (apply_hunk path src) hs (out, int pos) = Inr (out', p) \<and> res = out' @ drop (nat p) src)
     \<longleftrightarrow> (\<exists>dst. laid_out pos (drop pos src) hs dst \<and> res = out @ dst)"
  using assms
proof (induction hs arbitrary: out pos)
  case (Cons h hs)
  have ok: "hunk_ok h" "list_all hunk_ok hs" using Cons.prems(1) by simp_all
  have step: "(\<exists>out' p. foldE (apply_hunk path src) hs (out @ gap @ new_lines h, int (pos + length gap + length (old_lines h))) = Inr (out', p)
        \<and> res = out' @ drop (nat p) src) \<longleftrightarrow>
      (\<exists>dst. laid_out (pos + length gap + length (old_lines h)) rest hs dst \<and> res = (out @ gap @ new_lines h) @ dst)"
    if d: "drop pos src = gap @ old_lines h @ rest" for gap rest
  proof -
    let ?p = "pos + length gap + length (old_lines h)"
    have le: "?p \<le> length src" using arg_cong [OF d, of length] Cons.prems(2) by simp
    have "drop ?p src = drop (length gap + length (old_lines h)) (drop pos src)" by (simp add: add.commute add.left_commute)
    then have "drop ?p src = rest" by (simp add: d)
    with Cons.IH [OF ok(2) le, of "out @ gap @ new_lines h"] show ?thesis by simp
  qed
  have "(\<exists>out' p. foldE (apply_hunk path src) (h # hs) (out, int pos) = Inr (out', p) \<and> res = out' @ drop (nat p) src) \<longleftrightarrow>
      (\<exists>gap rest. drop pos src = gap @ old_lines h @ rest \<and> int (pos + length gap) = hk_old_start h - 1
        \<and> (\<exists>out' p. foldE (apply_hunk path src) hs (out @ gap @ new_lines h, int (pos + length gap + length (old_lines h))) = Inr (out', p)
           \<and> res = out' @ drop (nat p) src))"
    by (simp only: foldE.simps bindE_eq_Inr apply_hunk_iff [OF ok(1) Cons.prems(2)]) blast
  also have "\<dots> \<longleftrightarrow> (\<exists>gap rest. drop pos src = gap @ old_lines h @ rest \<and> int (pos + length gap) = hk_old_start h - 1
        \<and> (\<exists>dst. laid_out (pos + length gap + length (old_lines h)) rest hs dst \<and> res = (out @ gap @ new_lines h) @ dst))"
    by (rule ex_cong1, rule ex_cong1, rule conj_cong [OF refl], rule conj_cong [OF refl], rule step)
  also have "\<dots> \<longleftrightarrow> (\<exists>dst. laid_out pos (drop pos src) (h # hs) dst \<and> res = out @ dst)"
    by (simp only: laid_out.simps append_assoc) blast
  finally show ?case .
qed simp

lemma apply_patch_iff:
  assumes hs: "list_all hunk_ok (fp_hunks p)" and "\<not> fp_is_new_file p"
  shows "apply_file_patch (Some t) p = Inr out \<longleftrightarrow>
    (\<exists>src dst. text_lines src \<and> t = unlines src \<and> laid_out 0 src (fp_hunks p) dst \<and> out = unlines dst)"
proof -
  have run: "apply_file_patch (Some (unlines src)) p = Inr out \<longleftrightarrow> (\<exists>dst. laid_out 0 src (fp_hunks p) dst \<and> out = unlines dst)"
    if src: "text_lines src" for src out
  proof -
    have lines: "butlast (py_split newline (unlines src)) = src" by (simp add: split_unlines [OF src])
    have "apply_file_patch (Some (unlines src)) p = Inr out \<longleftrightarrow>
        (\<exists>res. (\<exists>out' q. foldE (apply_hunk (fp_path p) src) (fp_hunks p) ([], int 0) = Inr (out', q) \<and> res = out' @ drop (nat q) src)
          \<and> out = unlines res)"
      using assms(2) unlines_file [OF src] by (auto simp: apply_file_patch_def patch_fail_simps Let_def lines bindE_eq_Inr)
    then show ?thesis unfolding apply_hunks_iff [OF hs le0] by simp
  qed
  show ?thesis
  proof
    assume ap: "apply_file_patch (Some t) p = Inr out"
    then have "t = [] \<or> last t = newline" using assms(2) by (auto simp: apply_file_patch_def patch_fail_simps)
    note l = lines_of_file [OF this]
    have "apply_file_patch (Some (unlines (butlast (py_split newline t)))) p = Inr out" using ap l(1) by simp
    then obtain dst where "laid_out 0 (butlast (py_split newline t)) (fp_hunks p) dst" "out = unlines dst" using run [OF l(2)] by blast
    with l show "\<exists>src dst. text_lines src \<and> t = unlines src \<and> laid_out 0 src (fp_hunks p) dst \<and> out = unlines dst"
      by (intro exI [of _ "butlast (py_split newline t)"] exI [of _ dst]) simp
  next
    assume "\<exists>src dst. text_lines src \<and> t = unlines src \<and> laid_out 0 src (fp_hunks p) dst \<and> out = unlines dst"
    then show "apply_file_patch (Some t) p = Inr out" using run by blast
  qed
qed

lemma apply_new_file:
  assumes "file_ok p" and "fp_is_new_file p"
  shows "apply_file_patch None p = Inr (unlines (concat (map new_lines (fp_hunks p))))"
proof -
  obtain h where h: "fp_hunks p = [h]" "hunk_ok h" "new_file_hunk h"
    using assms by (cases "fp_hunks p") (auto simp: file_ok_def)
  then have "old_lines h = []" by (simp add: hunk_ok_def new_file_hunk_def)
  then have "\<forall>l \<in> set (hk_lines h). hd l \<notin> set '' -''" by (auto simp: old_lines_def filter_empty_conv)
  moreover have "list_all body_line (hk_lines h)" using h(2) by (simp add: hunk_ok_def)
  ultimately have "filter (starts_with ''+'') (hk_lines h) = filter (\<lambda>l. hd l \<in> set '' +'') (hk_lines h)"
    by (intro filter_cong refl) (auto simp: list_all_iff body_line_def starts_with_def neq_Nil_conv)
  then show ?thesis using assms(2) h(1) by (simp add: apply_file_patch_def new_lines_def)
qed

text \<open>A hunk with no old side.\<close>

lemma insertion_at:
  assumes "hunk_ok h" and "hk_old_count h = 0" and "1 \<le> hk_old_start h"
  shows "laid_out 0 src [h] dst \<longleftrightarrow> hk_old_start h - 1 \<le> int (length src) \<and>
    dst = take (nat (hk_old_start h) - 1) src @ new_lines h @ drop (nat (hk_old_start h) - 1) src"
proof -
  have [simp]: "old_lines h = []" using assms(1,2) by (simp add: hunk_ok_def)
  define k where "k = nat (hk_old_start h) - 1"
  have "int n = hk_old_start h - 1 \<longleftrightarrow> n = k" for n using assms(3) by (auto simp: k_def)
  moreover have "hk_old_start h - 1 \<le> int (length src) \<longleftrightarrow> k \<le> length src" using assms(3) by (auto simp: k_def)
  moreover have "(\<exists>gap rest dst'. src = gap @ rest \<and> length gap = k \<and> dst = gap @ new_lines h @ dst' \<and> dst' = rest) \<longleftrightarrow>
      k \<le> length src \<and> dst = take k src @ new_lines h @ drop k src"
    by (rule iffI, force, rule exI [of _ "take k src"], rule exI [of _ "drop k src"], simp)
  ultimately show ?thesis unfolding k_def [symmetric] by simp
qed

end
