(* ===== verification/Patch_Properties.thy ===== *)
theory Patch_Properties
  imports Patch_Laws
begin

text \<open>The properties of dependency patches, on a patch that adds one line after the first of a file.\<close>

section \<open>Samples\<close>

definition sample_hunk :: Hunk where
  "sample_hunk = \<lparr>hk_old_start = 1, hk_old_count = 1, hk_new_start = 1, hk_new_count = 2, hk_lines = ['' one'', ''+two'']\<rparr>"

definition sample_patch :: FilePatch where
  "sample_patch = \<lparr>fp_path = ''pkg/mod.py'', fp_is_new_file = False, fp_hunks = [sample_hunk]\<rparr>"

lemma sample_hunk_ok: "hunk_ok sample_hunk" "old_lines sample_hunk = [''one'']" "new_lines sample_hunk = [''one'', ''two'']"
  by (simp_all add: hunk_ok_def sample_hunk_def old_lines_def new_lines_def body_line_def newline_def)

lemma sample_patch_ok: "patch_ok [sample_patch]"
proof -
  have "path_ok ''pkg/mod.py''" by (simp add: path_ok_def safe_path_def newline_def py_space_def)
  then show ?thesis by (simp add: patch_ok_def file_ok_def sample_patch_def sample_hunk_ok)
qed

text \<open>The hunk that \<open>git diff -U0\<close> gives for the same change.\<close>

definition sample_insertion :: Hunk where
  "sample_insertion = \<lparr>hk_old_start = 1, hk_old_count = 0, hk_new_start = 2, hk_new_count = 1, hk_lines = [''+two'']\<rparr>"

section \<open>Properties\<close>

text \<open>C34. The parser gives only well-formed patches, and gives every one of them: the files of a parsed diff
  have distinct paths that stay under the root, every hunk's counts are those of its lines, and a new
  file is a single hunk with no old side; printing any such patch and parsing the result gives it back.
\<close>

theorem parsed_patches_are_exactly_the_well_formed:
  "(parse_patch_text diff = Inr files \<longrightarrow> patch_ok files) \<and>
   (patch_ok files \<longrightarrow> parse_patch_text (render_patch files) = Inr files)"
  using parse_patch_sound parse_render by blast

theorem parsed_patches_are_exactly_the_well_formed_witness:
  "patch_ok [sample_patch] \<and> parse_patch_text (render_patch [sample_patch]) = Inr [sample_patch]"
  using parsed_patches_are_exactly_the_well_formed [of "render_patch [sample_patch]" "[sample_patch]"] sample_patch_ok by blast

text \<open>C33. Application of a parsed patch is exact. It succeeds on an existing file exactly when the file is
  a sequence of whole lines that the hunks cut, in order and at their stated line numbers, into gaps
  and old sides; the result keeps the gaps byte for byte and has the new sides in place of the old ones.
  On a missing file it succeeds exactly when the patch creates it, with the new lines as its contents.
\<close>

theorem parsed_patch_applies_exactly:
  assumes "parse_patch_text diff = Inr files" and "p \<in> set files"
  shows "apply_file_patch original p = Inr out \<longleftrightarrow>
    (case original of
       None \<Rightarrow> fp_is_new_file p \<and> out = unlines (concat (map new_lines (fp_hunks p)))
     | Some t \<Rightarrow> \<not> fp_is_new_file p \<and>
         (\<exists>src dst. text_lines src \<and> t = unlines src \<and> laid_out 0 src (fp_hunks p) dst \<and> out = unlines dst))"
proof -
  have ok: "file_ok p" using parse_patch_sound [OF assms(1)] assms(2) by (auto simp: patch_ok_def list_all_iff)
  show ?thesis
  proof (cases original)
    case None
    then show ?thesis using apply_new_file [OF ok] by (auto simp: apply_file_patch_def patch_fail_def)
  next
    case (Some t)
    then show ?thesis using apply_patch_iff [of p t out] ok
      by (cases "fp_is_new_file p") (auto simp: apply_file_patch_def patch_fail_def file_ok_def)
  qed
qed

theorem parsed_patch_applies_exactly_witness:
  "apply_file_patch (Some (unlines [''one'', ''three''])) sample_patch = Inr (unlines [''one'', ''two'', ''three''])"
proof -
  have "laid_out 0 [''one'', ''three''] [sample_hunk] [''one'', ''two'', ''three'']"
    unfolding laid_out.simps sample_hunk_ok
    by (intro exI [of _ "[]"] exI [of _ "[''three'']"]) (simp add: sample_hunk_def)
  moreover have "text_lines [''one'', ''three'']" by (simp add: text_lines_def newline_def)
  moreover have "fp_hunks sample_patch = [sample_hunk]" "\<not> fp_is_new_file sample_patch" by (simp_all add: sample_patch_def)
  moreover have "sample_patch \<in> set [sample_patch]" by simp
  note parsed_patch_applies_exactly [OF parse_render [OF sample_patch_ok] this, of "Some (unlines [''one'', ''three''])"
      "unlines [''one'', ''two'', ''three'']"]
  ultimately show ?thesis unfolding option.case by metis
qed

text \<open>C35. A hunk with no old lines is applied in front of the line it names, and refused when it names line
  zero. In a unified diff the range \<open>k,0\<close> names the line in front of the insertion: \<open>git diff -U0\<close> writes
  an insertion after line \<open>k\<close> as \<open>@@ -k,0\<close> and one at the top of the file as \<open>@@ -0,0\<close>. So an
  insertion without context lands one line too early, with no context that could reveal it.
\<close>

theorem insertion_without_context_lands_early:
  assumes "hunk_ok h" and "hk_old_count h = 0" and "text_lines src" and "fp_hunks p = [h]" and "\<not> fp_is_new_file p"
  shows "(1 \<le> hk_old_start h \<and> hk_old_start h \<le> int (length src) \<longrightarrow>
      apply_file_patch (Some (unlines src)) p =
        Inr (unlines (take (nat (hk_old_start h) - 1) src @ new_lines h @ drop (nat (hk_old_start h) - 1) src)))
    \<and> (hk_old_start h = 0 \<longrightarrow>
      apply_file_patch (Some (unlines src)) p = Inl (DepPatchError (show_name (fp_path p) @ '': overlapping/unordered hunks'')))"
proof (intro conjI impI)
  assume k: "1 \<le> hk_old_start h \<and> hk_old_start h \<le> int (length src)"
  let ?dst = "take (nat (hk_old_start h) - 1) src @ new_lines h @ drop (nat (hk_old_start h) - 1) src"
  have "laid_out 0 src [h] ?dst" using insertion_at [OF assms(1,2)] k by simp
  moreover have "list_all hunk_ok (fp_hunks p)" using assms(1,4) by simp
  ultimately show "apply_file_patch (Some (unlines src)) p = Inr (unlines ?dst)"
    unfolding apply_patch_iff [OF \<open>list_all hunk_ok (fp_hunks p)\<close> assms(5)] using assms(3,4) by metis
next
  assume "hk_old_start h = 0"
  then show "apply_file_patch (Some (unlines src)) p = Inl (DepPatchError (show_name (fp_path p) @ '': overlapping/unordered hunks''))"
    using assms(4,5) unlines_file [OF assms(3)] by (auto simp: apply_file_patch_def apply_hunk_def patch_fail_def Let_def)
qed

theorem insertion_without_context_lands_early_witness:
  "apply_file_patch (Some (unlines [''one'', ''three''])) (sample_patch\<lparr>fp_hunks := [sample_insertion]\<rparr>) =
     Inr (unlines [''two'', ''one'', ''three''])"
proof -
  have "hunk_ok sample_insertion" "new_lines sample_insertion = [''two'']"
    by (simp_all add: hunk_ok_def sample_insertion_def old_lines_def new_lines_def body_line_def newline_def)
  moreover have "text_lines [''one'', ''three'']" by (simp add: text_lines_def newline_def)
  ultimately show ?thesis
    using insertion_without_context_lands_early [of sample_insertion "[''one'', ''three'']" "sample_patch\<lparr>fp_hunks := [sample_insertion]\<rparr>"]
    by (simp add: sample_insertion_def sample_patch_def)
qed

end
