(* ===== verification/Intake_Records.thy ===== *)
theory Intake_Records
  imports Settlement Economics Effect
begin

text \<open>
  The records of the finalized intake: scope and policy, the arrival and the reservation of
  \<open>optima/chain/intake.py\<close>, the fingerprint of a submitted delta (\<open>optima/copy_fingerprint.py\<close>), the
  receipt of an arena screen (\<open>optima/arena_service.py\<close>) and the batch of qualification outcomes
  (\<open>optima/eval/qualification_intake.py\<close>). \<open><Class>_new\<close> runs a constructor on typed values. The status
  of a reservation is a datatype, so the test that it is one of the known strings is its type.
\<close>

definition intake_fail :: "string \<Rightarrow> py_error + 'a" where
  "intake_fail message = Inl (IntakeError message)"

section \<open>Scope and policy\<close>

record IntakeScope =
  isc_genesis_hash :: string
  isc_netuid :: int

definition IntakeScope_new :: "IntakeScope \<Rightarrow> py_error + IntakeScope" where
  "IntakeScope_new s =
     (if \<not> is_block_hash (isc_genesis_hash s) then intake_fail ''intake genesis hash is malformed'' else
      if isc_netuid s < 0 then intake_fail ''intake netuid is malformed'' else Inr s)"

definition IntakeScope_digest :: "py_env \<Rightarrow> IntakeScope \<Rightarrow> string" where
  "IntakeScope_digest E s = json_digest E ''optima.chain.intake-scope''
     (JObj [(''genesis_hash'', JStr (isc_genesis_hash s)), (''netuid'', JInt (isc_netuid s))])"

record IntakePolicy =
  ip_epoch_blocks :: int
  ip_cutoff_blocks :: int
  ip_max_pending :: int
  ip_max_per_hotkey_epoch :: int
  ip_max_per_target_epoch :: int
  ip_max_transport_retries :: int
  ip_max_qualification_retries :: int
  ip_max_cohort :: int
  ip_expiry_blocks :: int

definition IntakePolicy_new :: "IntakePolicy \<Rightarrow> py_error + IntakePolicy" where
  "IntakePolicy_new p =
     (if list_ex (\<lambda>v. v \<le> 0) [ip_epoch_blocks p, ip_cutoff_blocks p, ip_max_pending p, ip_max_per_hotkey_epoch p,
         ip_max_per_target_epoch p, ip_max_transport_retries p, ip_max_qualification_retries p, ip_max_cohort p,
         ip_expiry_blocks p]
      then intake_fail ''intake policy bounds must be positive integers'' else
      if ip_epoch_blocks p \<le> ip_cutoff_blocks p then intake_fail ''intake cutoff must be smaller than its epoch'' else
      if ip_max_pending p < ip_max_cohort p then intake_fail ''cohort bound exceeds the pending queue bound'' else Inr p)"

section \<open>Submitted deltas\<close>

record SubmittedDeltaFingerprint =
  df_product_kind :: string
  df_target_id :: string
  df_target_spec_digest :: string
  df_members :: "string list"
  df_exact_payload_digest :: string
  df_selected_delta_digest :: string
  df_normalized_delta_digest :: string
  df_containment_fingerprints :: "string list"
  df_advisory_fingerprints :: "string list"

definition delta_fail :: "string \<Rightarrow> py_error + 'a" where
  "delta_fail message = Inl (PyValueError message)"

definition SubmittedDeltaFingerprint_new :: "SubmittedDeltaFingerprint \<Rightarrow> py_error + SubmittedDeltaFingerprint" where
  "SubmittedDeltaFingerprint_new f =
     (let component = (df_product_kind f = ''component'') in
      if df_product_kind f \<notin> {''component'', ''discovery''} then delta_fail ''submitted delta product kind is unsupported'' else
      if df_target_id f = [] then delta_fail ''submitted delta target is malformed'' else
      if df_members f = [] \<or> \<not> sorted_unique (df_members f) \<or> [] \<in> set (df_members f)
         \<or> \<not> sorted_unique (df_containment_fingerprints f) \<or> \<not> sorted_unique (df_advisory_fingerprints f)
      then delta_fail ''submitted delta fingerprint sets are not canonical'' else
      if \<not> component \<and> df_target_spec_digest f \<noteq> [] then delta_fail ''discovery fingerprint cannot claim target authority'' else
      bindE (forE ([(''exact_payload_digest'', df_exact_payload_digest f), (''selected_delta_digest'', df_selected_delta_digest f),
         (''normalized_delta_digest'', df_normalized_delta_digest f)] @
         (if component then [(''target_spec_digest'', df_target_spec_digest f)] else []))
        (\<lambda>(field, v). if is_sha256_hex v then Inr () else delta_fail (''submitted delta '' @ field @ '' is malformed''))) (\<lambda>_.
      if \<not> list_all is_sha256_hex (df_containment_fingerprints f @ df_advisory_fingerprints f)
      then delta_fail ''submitted delta member fingerprint is malformed'' else Inr f))"

definition reward_namespace :: "SubmittedDeltaFingerprint \<Rightarrow> string list" where
  "reward_namespace f = (if df_product_kind f = ''component'' then df_members f else [''discovery''])"

record DeltaCopyDecision =
  dcd_authoritative :: bool
  dcd_reason :: string
  dcd_shared_fragments :: "string list"
  dcd_shared_advisory :: "string list"

definition compare_submitted_deltas ::
    "SubmittedDeltaFingerprint \<Rightarrow> SubmittedDeltaFingerprint \<Rightarrow> DeltaCopyDecision" where
  "compare_submitted_deltas earlier later =
     (let decide = (\<lambda>b reason. \<lparr>dcd_authoritative = b, dcd_reason = reason, dcd_shared_fragments = [], dcd_shared_advisory = []\<rparr>);
          left = df_containment_fingerprints earlier; right = df_containment_fingerprints later;
          common = (\<lambda>xs ys. sort (remdups (filter (\<lambda>x. x \<in> set ys) xs))) in
      if df_product_kind earlier \<noteq> df_product_kind later then decide False ''different_product_kind'' else
      if set (reward_namespace earlier) \<inter> set (reward_namespace later) = {} then decide False ''different_reward_namespace'' else
      if df_exact_payload_digest earlier = df_exact_payload_digest later then decide True ''exact_delta_identity'' else
      if df_normalized_delta_digest earlier \<noteq> [] \<and> df_normalized_delta_digest earlier = df_normalized_delta_digest later
      then decide True ''normalized_delta_identity'' else
      if left \<noteq> [] \<and> right \<noteq> [] \<and> (set left \<subseteq> set right \<or> set right \<subseteq> set left)
      then decide True ''symmetric_delta_containment'' else
      \<lparr>dcd_authoritative = False, dcd_reason = ''advisory_only'', dcd_shared_fragments = common left right,
       dcd_shared_advisory = common (df_advisory_fingerprints earlier) (df_advisory_fingerprints later)\<rparr>)"

section \<open>Arrivals\<close>

record FinalizedArrival =
  fa_hotkey :: string
  fa_content_hash :: string
  fa_url :: string
  fa_block :: int
  fa_block_hash :: string
  fa_event_index :: int
  fa_event_subindex :: int
  fa_payload_digest :: string
  fa_invalid_reason :: string

definition FinalizedArrival_new :: "py_env \<Rightarrow> FinalizedArrival \<Rightarrow> py_error + FinalizedArrival" where
  "FinalizedArrival_new E a =
     (let valid_reference = is_sha256_hex (fa_content_hash a) \<and> fa_url a \<noteq> [] \<and> fa_invalid_reason a = [];
          invalid_reference = fa_content_hash a = [] \<and> fa_url a = [] \<and> fa_invalid_reason a \<noteq> []
            \<and> length (fa_invalid_reason a) \<le> 2048;
          digest = (if fa_payload_digest a = [] then json_digest E ''optima.chain.finalized-payload''
            (JObj [(''content_hash'', JStr (fa_content_hash a)), (''url'', JStr (fa_url a))]) else fa_payload_digest a) in
      if fa_hotkey a = [] \<or> py_strip (fa_hotkey a) \<noteq> fa_hotkey a \<or> 256 < length (fa_hotkey a)
         \<or> list_ex (\<lambda>c. c \<in> set (fa_hotkey a)) [CHR 0x00, CHR 0x0D, CHR 0x0A]
      then intake_fail ''arrival hotkey is malformed'' else
      if \<not> (valid_reference \<or> invalid_reference) then intake_fail ''arrival payload disposition is malformed'' else
      if fa_block a < 0 then intake_fail ''arrival block is malformed'' else
      if \<not> is_block_hash (fa_block_hash a) then intake_fail ''arrival block hash is malformed'' else
      if fa_event_index a < 0 then intake_fail ''arrival event_index is malformed'' else
      if fa_event_subindex a < 0 then intake_fail ''arrival event_subindex is malformed'' else
      bindE (require_sha256_hex (PyStr digest) ''payload_digest'') (\<lambda>_. Inr (a\<lparr>fa_payload_digest := digest\<rparr>)))"

definition arrival_valid :: "FinalizedArrival \<Rightarrow> bool" where
  "arrival_valid a \<longleftrightarrow> fa_invalid_reason a = []"

definition arrival_key :: "FinalizedArrival \<Rightarrow> int \<times> int \<times> int \<times> string \<times> string" where
  "arrival_key a = (fa_block a, fa_event_index a, fa_event_subindex a, fa_hotkey a, fa_content_hash a)"

definition reservation_id :: "py_env \<Rightarrow> FinalizedArrival \<Rightarrow> string" where
  "reservation_id E a = json_digest E ''optima.chain.finalized-arrival''
     (JObj [(''block'', JInt (fa_block a)), (''block_hash'', JStr (fa_block_hash a)), (''content_hash'', JStr (fa_content_hash a)),
       (''event_index'', JInt (fa_event_index a)), (''event_subindex'', JInt (fa_event_subindex a)), (''hotkey'', JStr (fa_hotkey a)),
       (''payload_digest'', JStr (fa_payload_digest a)), (''url'', JStr (fa_url a))])"

section \<open>Reservations\<close>

datatype intake_status = Reserved | Fetching | TransportRetry | Published | Screening | Promoted | Qualifying
  | ReproductionPending | Failed | Expired | Qualified | Held | NoDecision

fun status_name :: "intake_status \<Rightarrow> string" where
  "status_name Reserved = ''reserved''"
| "status_name Fetching = ''fetching''"
| "status_name TransportRetry = ''transport_retry''"
| "status_name Published = ''published''"
| "status_name Screening = ''screening''"
| "status_name Promoted = ''promoted''"
| "status_name Qualifying = ''qualifying''"
| "status_name ReproductionPending = ''reproduction_pending''"
| "status_name Failed = ''failed''"
| "status_name Expired = ''expired''"
| "status_name Qualified = ''qualified''"
| "status_name Held = ''held''"
| "status_name NoDecision = ''no_decision''"

definition TERMINAL :: "intake_status list" where
  "TERMINAL = [Failed, Expired, Qualified]"

text \<open>\<open>_EXPLICITLY_EXPIRABLE\<close> and \<open>_AUTOMATICALLY_EXPIRABLE\<close> list the same statuses.\<close>

definition EXPIRABLE :: "intake_status list" where
  "EXPIRABLE = [Reserved, TransportRetry, Published, Promoted, ReproductionPending, Held, NoDecision]"

definition AUTOMATIC_EXPIRY_REASON :: string where
  "AUTOMATIC_EXPIRY_REASON = ''finalized_block_sla_expired''"

definition SCHEMA3_HOLD :: string where
  "SCHEMA3_HOLD = ''schema3_reproduction_required''"

definition SCHEMA3_ARCHIVE_PREFIX :: string where
  "SCHEMA3_ARCHIVE_PREFIX = ''schema3_archived@''"

record IntakeReservation =
  ir_reservation_id :: string
  ir_arrival :: FinalizedArrival
  ir_admission_epoch :: int
  ir_status :: intake_status
  ir_target_id :: string
  ir_target_members :: "string list"
  ir_delta_fingerprint :: "SubmittedDeltaFingerprint option"
  ir_transport_attempts :: int
  ir_publication_digest :: string
  ir_publication_root :: string
  ir_qualification_authority_digest :: string
  ir_qualification_evidence_digest :: string
  ir_arena_service_digest :: string
  ir_screen_lane :: string
  ir_screen_status :: string
  ir_screen_stage_count :: int
  ir_screen_attempts :: int
  ir_decision :: string
  ir_reason :: string

definition IntakeReservation_new :: "py_env \<Rightarrow> 'a IntakeReservation_scheme \<Rightarrow> py_error + 'a IntakeReservation_scheme" where
  "IntakeReservation_new E r =
     bindE (require_sha256_hex (PyStr (ir_reservation_id r)) ''reservation_id'') (\<lambda>_.
     if ir_reservation_id r \<noteq> reservation_id E (ir_arrival r)
     then intake_fail ''reservation identity differs from finalized arrival'' else
     if ir_admission_epoch r < 0 then intake_fail ''reservation epoch is malformed'' else
     if \<not> sorted_unique (ir_target_members r) then intake_fail ''reservation target members are not canonical'' else
     if (case ir_delta_fingerprint r of None \<Rightarrow> False
         | Some f \<Rightarrow> df_target_id f \<noteq> ir_target_id r \<or> df_members f \<noteq> ir_target_members r)
     then intake_fail ''reservation delta fingerprint differs from its target'' else
     if ir_transport_attempts r < 0 then intake_fail ''reservation transport attempts are malformed'' else
     bindE (forE [(''publication_digest'', ir_publication_digest r),
         (''qualification_authority_digest'', ir_qualification_authority_digest r),
         (''qualification_evidence_digest'', ir_qualification_evidence_digest r), (''arena_service_digest'', ir_arena_service_digest r)]
       (\<lambda>(field, v). if v \<noteq> [] \<and> \<not> is_sha256_hex v then intake_fail (''reservation '' @ field @ '' is malformed'') else Inr ())) (\<lambda>_.
     if ir_decision r \<notin> {'''', ''PASS'', ''FAIL'', ''NO_DECISION''} then intake_fail ''reservation decision is unsupported'' else
     if ir_screen_lane r \<notin> {'''', ''primary'', ''reproduction''} then intake_fail ''reservation screen lane is unsupported'' else
     if ir_screen_status r \<notin> {'''', ''running'', ''promote'', ''reject'', ''retry'', ''hold''}
     then intake_fail ''reservation screen status is unsupported'' else
     if ir_screen_stage_count r < 0 \<or> ir_screen_attempts r < 0
     then intake_fail ''reservation screen counters are malformed'' else Inr r))"

section \<open>Screen receipts\<close>

definition arena_fail :: "string \<Rightarrow> py_error + 'a" where
  "arena_fail message = Inl (ArenaServiceError message)"

datatype ScreenGrade = GradePass | GradeFail | GradeNoDecision

datatype PromotionDecision = Promote | Reject | Retry | Hold

fun grade_value :: "ScreenGrade \<Rightarrow> string" where
  "grade_value GradePass = ''pass''"
| "grade_value GradeFail = ''fail''"
| "grade_value GradeNoDecision = ''no_decision''"

fun promotion_value :: "PromotionDecision \<Rightarrow> string" where
  "promotion_value Promote = ''promote''"
| "promotion_value Reject = ''reject''"
| "promotion_value Retry = ''retry''"
| "promotion_value Hold = ''hold''"

definition SCREEN_STAGES :: "string list" where
  "SCREEN_STAGES = [''static'', ''build'', ''abi'', ''graph'', ''abbreviated_serving'']"

record ScreenStageResult =
  ssr_stage :: string
  ssr_grade :: ScreenGrade
  ssr_evidence_digest :: string
  ssr_elapsed_ms :: int

definition arena_positive :: "int \<Rightarrow> string \<Rightarrow> py_error + int" where
  "arena_positive n field = (if n < 1 then arena_fail (field @ '' must be a positive integer'') else Inr n)"

definition ScreenStageResult_new :: "ScreenStageResult \<Rightarrow> py_error + ScreenStageResult" where
  "ScreenStageResult_new r =
     (if ssr_stage r \<notin> set SCREEN_STAGES then arena_fail ''screen result stage or grade is invalid'' else
      bindE (require_digest (PyStr (ssr_evidence_digest r)) ''screen evidence'' ArenaServiceError False False) (\<lambda>_.
      bindE (arena_positive (ssr_elapsed_ms r) ''elapsed_ms'') (\<lambda>_. Inr r)))"

record ArenaScreenReceipt =
  asr_service_digest :: string
  asr_candidate_digest :: string
  asr_screen_attempt :: int
  asr_results :: "ScreenStageResult list"
  asr_decision :: PromotionDecision

definition ArenaScreenReceipt_new :: "ArenaScreenReceipt \<Rightarrow> py_error + ArenaScreenReceipt" where
  "ArenaScreenReceipt_new r =
     bindE (require_digest (PyStr (asr_service_digest r)) ''service_digest'' ArenaServiceError False False) (\<lambda>_.
     bindE (require_digest (PyStr (asr_candidate_digest r)) ''candidate_digest'' ArenaServiceError False False) (\<lambda>_.
     bindE (arena_positive (asr_screen_attempt r) ''screen_attempt'') (\<lambda>_.
     let results = asr_results r; grades = map ssr_grade results; terminal = last grades in
     if results = [] \<or> map ssr_stage results \<noteq> take (length results) SCREEN_STAGES
        \<or> list_ex (\<lambda>g. g \<noteq> GradePass) (butlast grades)
     then arena_fail ''screen receipt results are not a canonical prefix'' else
     if asr_decision r = Promote \<and> (length results \<noteq> length SCREEN_STAGES \<or> terminal \<noteq> GradePass)
        \<or> asr_decision r = Reject \<and> terminal \<noteq> GradeFail
        \<or> asr_decision r \<in> {Retry, Hold} \<and> terminal \<noteq> GradeNoDecision
     then arena_fail ''screen decision is not derived from stage evidence'' else Inr r)))"

definition ArenaScreenReceipt_fields :: "ArenaScreenReceipt \<Rightarrow> (string \<times> json) list" where
  "ArenaScreenReceipt_fields r =
     [(''candidate_digest'', JStr (asr_candidate_digest r)), (''decision'', JStr (promotion_value (asr_decision r))),
      (''results'', JList (map (\<lambda>x. JObj [(''elapsed_ms'', JInt (ssr_elapsed_ms x)),
         (''evidence_digest'', JStr (ssr_evidence_digest x)), (''grade'', JStr (grade_value (ssr_grade x))),
         (''stage'', JStr (ssr_stage x))]) (asr_results r))),
      (''screen_attempt'', JInt (asr_screen_attempt r)), (''service_digest'', JStr (asr_service_digest r))]"

definition ArenaScreenReceipt_digest :: "py_env \<Rightarrow> ArenaScreenReceipt \<Rightarrow> string" where
  "ArenaScreenReceipt_digest E r = json_digest E ''optima.arena.screen-receipt'' (JObj (ArenaScreenReceipt_fields r))"

section \<open>Qualification outcomes\<close>

definition qualify_fail :: "string \<Rightarrow> py_error + 'a" where
  "qualify_fail message = Inl (QualificationIntakeError message)"

definition qualify_digest :: "string \<Rightarrow> string \<Rightarrow> py_error + string" where
  "qualify_digest v field = require_digest (PyStr v) field QualificationIntakeError False False"

datatype QualificationDecision = PASS | FAIL | NO_DECISION

fun decision_value :: "QualificationDecision \<Rightarrow> string" where
  "decision_value PASS = ''PASS''"
| "decision_value FAIL = ''FAIL''"
| "decision_value NO_DECISION = ''NO_DECISION''"

record QualificationRetryPlan =
  rp_authority_manifest_digest :: string
  rp_strategy :: string
  rp_reservation_groups :: "string list list"
  rp_failure_digest :: string

definition QualificationRetryPlan_new :: "QualificationRetryPlan \<Rightarrow> py_error + QualificationRetryPlan" where
  "QualificationRetryPlan_new p =
     bindE (qualify_digest (rp_authority_manifest_digest p) ''authority manifest'') (\<lambda>_.
     bindE (qualify_digest (rp_failure_digest p) ''failure'') (\<lambda>_.
     if rp_strategy p \<notin> {''requeue'', ''bisect''} then qualify_fail ''retry strategy is unsupported'' else
     let groups = rp_reservation_groups p; flat = concat groups in
     if groups = [] \<or> [] \<in> set groups then qualify_fail ''retry groups are malformed'' else
     bindE (forE flat (\<lambda>row. bindE (qualify_digest row ''retry reservation'') (\<lambda>_. Inr ()))) (\<lambda>_.
     if \<not> distinct flat \<or> (rp_strategy p = ''bisect'' \<and> length groups \<noteq> 2)
     then qualify_fail ''retry groups are malformed'' else Inr p)))"

record QualificationIntakeOutcome =
  qo_reservation_digest :: string
  qo_selected_delta_digest :: string
  qo_authority_manifest_digest :: string
  qo_decision :: QualificationDecision
  qo_reason :: string
  qo_retryable :: bool
  qo_attempt_artifact_sha256 :: "string option"
  qo_report_digest :: "string option"
  qo_failure_digest :: "string option"
  qo_settlement_qualification :: "SettlementQualification option"

definition outcome_reason :: "string \<Rightarrow> bool" where
  "outcome_reason s = (case s of [] \<Rightarrow> False
     | c # r \<Rightarrow> ascii_alnum c \<and> length r \<le> 255 \<and> list_all (\<lambda>d. ascii_alnum d \<or> d \<in> set ''._-'') r)"

definition outcome_digest :: "string option \<Rightarrow> string \<Rightarrow> py_error + unit" where
  "outcome_digest v field = (case v of None \<Rightarrow> Inr () | Some s \<Rightarrow> bindE (qualify_digest s field) (\<lambda>_. Inr ()))"

definition outcome_qualification :: "QualificationIntakeOutcome \<Rightarrow> py_error + unit" where
  "outcome_qualification o1 =
     (case qo_settlement_qualification o1 of
        None \<Rightarrow> Inr ()
      | Some q \<Rightarrow>
          if qo_decision o1 \<noteq> PASS then qualify_fail ''non-PASS outcome cannot carry a settlement qualification'' else
          if sq_reservation_digest q \<noteq> qo_reservation_digest o1 \<or> sq_selected_delta_digest q \<noteq> qo_selected_delta_digest o1
             \<or> sq_qualification_authority_digest q \<noteq> qo_authority_manifest_digest o1
             \<or> Some (sq_qualification_attempt_digest q) \<noteq> qo_attempt_artifact_sha256 o1
             \<or> Some (sq_qualification_report_digest q) \<noteq> qo_report_digest o1
          then qualify_fail ''settlement qualification differs from qualification outcome'' else Inr ())"

definition QualificationIntakeOutcome_new :: "QualificationIntakeOutcome \<Rightarrow> py_error + QualificationIntakeOutcome" where
  "QualificationIntakeOutcome_new o1 =
     bindE (qualify_digest (qo_reservation_digest o1) ''reservation_digest'') (\<lambda>_.
     bindE (qualify_digest (qo_selected_delta_digest o1) ''selected_delta_digest'') (\<lambda>_.
     bindE (qualify_digest (qo_authority_manifest_digest o1) ''authority_manifest_digest'') (\<lambda>_.
     bindE (require_identifier (PyStr (qo_reason o1)) ''reason'' QualificationIntakeError outcome_reason) (\<lambda>_.
     if qo_retryable o1 \<noteq> (qo_decision o1 = NO_DECISION) then qualify_fail ''outcome retryability disagrees with decision'' else
     bindE (outcome_digest (qo_attempt_artifact_sha256 o1) ''attempt_artifact_sha256'') (\<lambda>_.
     bindE (outcome_digest (qo_report_digest o1) ''report_digest'') (\<lambda>_.
     bindE (outcome_digest (qo_failure_digest o1) ''failure_digest'') (\<lambda>_.
     let report_based = (qo_report_digest o1 \<noteq> None); failure_based = (qo_failure_digest o1 \<noteq> None) in
     if (qo_report_digest o1 = None) \<noteq> (qo_attempt_artifact_sha256 o1 = None)
     then qualify_fail ''outcome report and attempt coverage differ'' else
     if failure_based \<and> report_based then qualify_fail ''outcome cannot be both report and failure based'' else
     if qo_decision o1 = NO_DECISION \<and> report_based = failure_based
     then qualify_fail ''NO_DECISION must retain exactly one report or failure product'' else
     if qo_decision o1 \<noteq> NO_DECISION \<and> (\<not> report_based \<or> failure_based)
     then qualify_fail ''PASS/FAIL requires a complete attempt and report product'' else
     bindE (outcome_qualification o1) (\<lambda>_. Inr o1))))))))"

record QualificationIntakeBatch =
  qb_authority_manifest_digest :: string
  qb_outcomes :: "QualificationIntakeOutcome list"
  qb_attempt_ref :: "EvidenceArtifactRef option"
  qb_retry_plan :: "QualificationRetryPlan option"

definition retry_ids :: "QualificationIntakeBatch \<Rightarrow> string list" where
  "retry_ids b = (case qb_retry_plan b of None \<Rightarrow> [] | Some p \<Rightarrow> concat (rp_reservation_groups p))"

definition QualificationIntakeBatch_new :: "QualificationIntakeBatch \<Rightarrow> py_error + QualificationIntakeBatch" where
  "QualificationIntakeBatch_new b =
     bindE (qualify_digest (qb_authority_manifest_digest b) ''authority manifest'') (\<lambda>_.
     let outcomes = qb_outcomes b in
     if outcomes = [] \<or> list_ex (\<lambda>x. qo_authority_manifest_digest x \<noteq> qb_authority_manifest_digest b) outcomes
        \<or> \<not> distinct (map qo_reservation_digest outcomes)
        \<or> (case qb_retry_plan b of None \<Rightarrow> False | Some p \<Rightarrow> rp_authority_manifest_digest p \<noteq> qb_authority_manifest_digest b)
        \<or> (case qb_attempt_ref b of
             None \<Rightarrow> list_ex (\<lambda>x. qo_attempt_artifact_sha256 x \<noteq> None) outcomes
           | Some ref \<Rightarrow> list_ex (\<lambda>x. qo_attempt_artifact_sha256 x \<noteq> Some (ear_sha256 ref)) outcomes)
        \<or> retry_ids b \<noteq> map qo_reservation_digest (filter (\<lambda>x. qo_decision x = NO_DECISION) outcomes)
     then qualify_fail ''qualification batch is internally inconsistent'' else Inr b)"

end
