(* ===== verification/Intake_Store.thy ===== *)
theory Intake_Store
  imports Intake_Records
begin

text \<open>
  \<open>FinalizedIntakeStore\<close> of \<open>optima/chain/intake.py\<close>: admission of finalized arrivals and the life of a
  reservation up to a settlement candidate. Every table the operations read or write is a list of rows
  in insertion order; a JSON column holds the value its text reads back to, \<open>ORDER BY\<close> is a sort.
  An operation is a program over the store. A transaction that raises leaves no trace; a row is
  validated again whenever it is read, which may raise after the transaction was committed.
\<close>

section \<open>The store\<close>

record IntakeRow = IntakeReservation +
  iw_authority_json :: string
  iw_retry_group :: string
  iw_retry_position :: int

record DispositionRow =
  qd_reservation_id :: string
  qd_attempt_index :: int
  qd_authority_digest :: string
  qd_authority_json :: string
  qd_evidence_digest :: string
  qd_attempt_ref :: "EvidenceArtifactRef option"
  qd_report_digest :: string
  qd_failure_digest :: string
  qd_decision :: string
  qd_reason :: string

record ScreenRow =
  sd_reservation_id :: string
  sd_attempt_index :: int
  sd_service_digest :: string
  sd_candidate_digest :: string
  sd_receipt_digest :: string
  sd_receipt_json :: json
  sd_decision :: string
  sd_stage_count :: int
  sd_lane :: string

record RetainedRow =
  rq_reservation_id :: string
  rq_reproduction_index :: int
  rq_qualification_digest :: string
  rq_qualification_json :: json
  rq_attempt_ref :: EvidenceArtifactRef
  rq_evidence_root :: string
  rq_retained_block :: int

record CandidateRow =
  cr_reservation_id :: string
  cr_authority_digest :: string
  cr_candidate_digest :: string
  cr_candidate_json :: json
  cr_evidence_root :: string
  cr_reproduction_evidence_root :: string
  cr_settlement_evidence_digest :: string
  cr_status :: string
  cr_lease_id :: string
  cr_lease_generation :: int
  cr_lease_expires_block :: int
  cr_reason :: string

record StackRow =
  sr_arena_id :: string
  sr_generation :: int
  sr_stack_digest :: string
  sr_tree_digest :: string
  sr_stack_json :: json
  sr_transition_event_id :: string

text \<open>
  \<open>st_awarded\<close> are the proposals of \<open>discovery_bounty_claims\<close> and \<open>incentive_discovery_wins\<close>, \<open>st_settled\<close> the
  reservations of \<open>settlement_events\<close>; settlement writes both.
\<close>

record intake_store =
  st_rows :: "IntakeRow list"
  st_cursor :: "(int \<times> string) option"
  st_dispositions :: "DispositionRow list"
  st_screens :: "ScreenRow list"
  st_retained :: "RetainedRow list"
  st_candidates :: "CandidateRow list"
  st_stacks :: "StackRow list"
  st_awarded :: "string list"
  st_settled :: "string list"

type_synonym 'a intake = "(intake_store, 'a) eff"

definition askM :: "('s \<Rightarrow> 'a) \<Rightarrow> ('s, 'a) eff" where
  "askM f s = (Inr (f s), s)"

definition modifyM :: "('s \<Rightarrow> 's) \<Rightarrow> ('s, unit) eff" where
  "modifyM f s = (Inr (), f s)"

definition transaction :: "('s, 'a) eff \<Rightarrow> ('s, 'a) eff" where
  "transaction m s = (case m s of (Inl e, _) \<Rightarrow> (Inl e, s) | (Inr x, t) \<Rightarrow> (Inr x, t))"

definition reject :: "bool \<Rightarrow> string \<Rightarrow> ('s, unit) eff" where
  "reject b message = (if b then liftM (intake_fail message) else retM ())"

fun foldM :: "('a \<Rightarrow> 'b \<Rightarrow> ('s, 'b) eff) \<Rightarrow> 'a list \<Rightarrow> 'b \<Rightarrow> ('s, 'b) eff" where
  "foldM f [] b = retM b"
| "foldM f (x # xs) b = bindM (f x b) (foldM f xs)"

fun mapM :: "('a \<Rightarrow> ('s, 'b) eff) \<Rightarrow> 'a list \<Rightarrow> ('s, 'b list) eff" where
  "mapM f [] = retM []"
| "mapM f (x # xs) = bindM (f x) (\<lambda>y. bindM (mapM f xs) (\<lambda>ys. retM (y # ys)))"

section \<open>Reading\<close>

definition reopen_row :: "py_env \<Rightarrow> IntakeRow \<Rightarrow> py_error + IntakeRow" where
  "reopen_row E r =
     bindE (case ir_delta_fingerprint r of
              None \<Rightarrow> Inr ()
            | Some f \<Rightarrow>
                (case SubmittedDeltaFingerprint_new f of
                   Inl e \<Rightarrow> intake_fail (''reservation provenance is corrupt: '' @ err_text e)
                 | Inr _ \<Rightarrow> Inr ())) (\<lambda>_.
     bindE (FinalizedArrival_new E (ir_arrival r)) (\<lambda>a. IntakeReservation_new E (r\<lparr>ir_arrival := a\<rparr>)))"

definition stored_row :: "string \<Rightarrow> intake_store \<Rightarrow> IntakeRow option" where
  "stored_row rid s = List.find (\<lambda>r. ir_reservation_id r = rid) (st_rows s)"

definition intake_get :: "py_env \<Rightarrow> string \<Rightarrow> IntakeRow intake" where
  "intake_get E rid =
     bindM (askM (stored_row rid)) (\<lambda>found.
     case found of None \<Rightarrow> liftM (intake_fail ''unknown intake reservation'') | Some r \<Rightarrow> liftM (reopen_row E r))"

definition row_key :: "'a IntakeReservation_scheme \<Rightarrow> int \<times> int \<times> int \<times> string \<times> string" where
  "row_key r = arrival_key (ir_arrival r)"

definition intake_all :: "py_env \<Rightarrow> IntakeRow list intake" where
  "intake_all E = bindM (askM (\<lambda>s. sort_key row_key (st_rows s))) (\<lambda>rs. liftM (mapE (reopen_row E) rs))"

definition select_rows :: "py_env \<Rightarrow> (intake_store \<Rightarrow> IntakeRow list) \<Rightarrow> IntakeRow list intake" where
  "select_rows E q = bindM (askM q) (\<lambda>rs. liftM (mapE (reopen_row E) rs))"

definition intake_pending :: "py_env \<Rightarrow> IntakePolicy \<Rightarrow> int option \<Rightarrow> IntakeRow list intake" where
  "intake_pending E P limit =
     (let bound = (case limit of None \<Rightarrow> ip_max_cohort P | Some n \<Rightarrow> n) in
      bindM (reject (bound \<le> 0 \<or> ip_max_pending P < bound) ''pending reservation limit is invalid'') (\<lambda>_.
      select_rows E (\<lambda>s. take (nat bound) (sort_key row_key (filter (\<lambda>r. ir_status r \<in> {Reserved, TransportRetry}
        \<and> ir_transport_attempts r < ip_max_transport_retries P) (st_rows s))))))"

definition intake_published :: "py_env \<Rightarrow> IntakePolicy \<Rightarrow> int option \<Rightarrow> IntakeRow list intake" where
  "intake_published E P limit =
     (let bound = (case limit of None \<Rightarrow> ip_max_cohort P | Some n \<Rightarrow> n) in
      bindM (reject (bound \<le> 0 \<or> ip_max_cohort P < bound) ''published cohort limit is invalid'') (\<lambda>_.
      select_rows E (\<lambda>s.
        let rows = sort_key row_key (filter (\<lambda>r. ir_status r = Published) (st_rows s)) in
        if rows \<noteq> [] \<and> iw_retry_group (hd rows) \<noteq> []
        then take (nat bound) (sort_key iw_retry_position
               (filter (\<lambda>r. ir_status r = Published \<and> iw_retry_group r = iw_retry_group (hd rows)) (st_rows s)))
        else take (nat bound) (filter (\<lambda>r. iw_retry_group r = []) rows))))"

definition intake_screenable :: "py_env \<Rightarrow> IntakePolicy \<Rightarrow> int option \<Rightarrow> IntakeRow list intake" where
  "intake_screenable E P limit =
     (let bound = (case limit of None \<Rightarrow> ip_max_cohort P | Some n \<Rightarrow> n) in
      bindM (reject (bound \<le> 0 \<or> ip_max_cohort P < bound) ''screen cohort limit is invalid'') (\<lambda>_.
      select_rows E (\<lambda>s. take (nat bound) (sort_key (\<lambda>r. (if ir_status r = ReproductionPending then 0 else 1 :: int, row_key r))
        (filter (\<lambda>r. ir_status r \<in> {Published, ReproductionPending}) (st_rows s))))))"

definition intake_promoted :: "py_env \<Rightarrow> IntakePolicy \<Rightarrow> int option \<Rightarrow> IntakeRow list intake" where
  "intake_promoted E P limit =
     (let bound = (case limit of None \<Rightarrow> ip_max_cohort P | Some n \<Rightarrow> n) in
      bindM (reject (bound \<le> 0 \<or> ip_max_cohort P < bound) ''promoted cohort limit is invalid'') (\<lambda>_.
      select_rows E (\<lambda>s.
        let rows = filter (\<lambda>r. ir_status r = Promoted) (st_rows s);
            ordered = sort_key (\<lambda>r. (if ir_screen_lane r = ''reproduction'' then 0 else 1 :: int, row_key r)) rows in
        case ordered of
          [] \<Rightarrow> []
        | first # _ \<Rightarrow>
            if ir_screen_lane first = ''reproduction''
            then take 1 (sort_key row_key (filter (\<lambda>r. ir_screen_lane r = ''reproduction'') rows))
            else if iw_retry_group first \<noteq> []
            then take (nat bound) (sort_key iw_retry_position (filter (\<lambda>r. iw_retry_group r = iw_retry_group first) rows))
            else take (nat bound) (sort_key row_key
              (filter (\<lambda>r. ir_screen_lane r = ''primary'' \<and> iw_retry_group r = []) rows)))))"

text \<open>The loops that stop at the candidate's own place in finalized order.\<close>

definition earlier_rows :: "IntakeRow \<Rightarrow> IntakeRow list \<Rightarrow> IntakeRow list" where
  "earlier_rows candidate rows = takeWhile (\<lambda>r. row_key r < row_key candidate) rows"

definition settlement_blockers :: "py_env \<Rightarrow> string \<Rightarrow> IntakeRow list intake" where
  "settlement_blockers E rid =
     bindM (intake_get E rid) (\<lambda>candidate.
     bindM (reject (ir_target_members candidate = []) ''candidate has no resolved target members'') (\<lambda>_.
     bindM (intake_all E) (\<lambda>rows.
     retM (filter (\<lambda>r. ir_status r \<notin> set TERMINAL
         \<and> (ir_target_members r = [] \<or> set (ir_target_members r) \<inter> set (ir_target_members candidate) \<noteq> {}))
       (earlier_rows candidate rows)))))"

definition copy_of :: "IntakeRow \<Rightarrow> IntakeRow \<Rightarrow> bool" where
  "copy_of r candidate =
     (fa_hotkey (ir_arrival r) \<noteq> fa_hotkey (ir_arrival candidate) \<and>
      (case (ir_delta_fingerprint r, ir_delta_fingerprint candidate) of
         (Some f, Some g) \<Rightarrow> dcd_authoritative (compare_submitted_deltas f g)
       | _ \<Rightarrow> False))"

definition copy_predecessors :: "py_env \<Rightarrow> string \<Rightarrow> IntakeRow list intake" where
  "copy_predecessors E rid =
     bindM (intake_get E rid) (\<lambda>candidate.
     bindM (reject (ir_delta_fingerprint candidate = None) ''candidate has no submitted-delta fingerprint'') (\<lambda>_.
     bindM (intake_all E) (\<lambda>rows.
     retM (filter (\<lambda>r. copy_of r candidate) (earlier_rows candidate rows)))))"

section \<open>Admission and expiry\<close>

definition update_row :: "string \<Rightarrow> (IntakeRow \<Rightarrow> IntakeRow) \<Rightarrow> unit intake" where
  "update_row rid f = modifyM (\<lambda>s. s\<lparr>st_rows := map (\<lambda>r. if ir_reservation_id r = rid then f r else r) (st_rows s)\<rparr>)"

definition retained_of :: "intake_store \<Rightarrow> string \<Rightarrow> RetainedRow list" where
  "retained_of s rid = filter (\<lambda>q. rq_reservation_id q = rid) (st_retained s)"

definition stale :: "intake_store \<Rightarrow> int \<Rightarrow> IntakeRow \<Rightarrow> bool" where
  "stale s threshold r =
     (ir_status r \<in> set EXPIRABLE \<and> ir_reason r \<noteq> SCHEMA3_HOLD \<and>
      (fa_block (ir_arrival r) \<le> threshold \<and> retained_of s (ir_reservation_id r) = [] \<or>
       list_ex (\<lambda>q. rq_reproduction_index q = 0 \<and> 0 < rq_retained_block q \<and> rq_retained_block q \<le> threshold)
         (retained_of s (ir_reservation_id r))))"

definition unsupported_reproduction :: "intake_store \<Rightarrow> IntakeRow \<Rightarrow> bool" where
  "unsupported_reproduction s r =
     (let qs = retained_of s (ir_reservation_id r) in
      ir_status r = ReproductionPending \<and>
      (length qs \<noteq> 1 \<or> length (filter (\<lambda>q. rq_reproduction_index q = 0) qs) \<noteq> 1))"

definition expire_row :: "IntakeRow \<Rightarrow> IntakeRow" where
  "expire_row r = r\<lparr>ir_status := Expired, ir_decision := ''NO_DECISION'', ir_reason := AUTOMATIC_EXPIRY_REASON\<rparr>"

definition expire_stale_rows :: "IntakePolicy \<Rightarrow> int \<Rightarrow> string list intake" where
  "expire_stale_rows P current_block =
     (let threshold = current_block - ip_expiry_blocks P in
      if threshold < 0 then retM [] else
      bindM (askM id) (\<lambda>s.
      bindM (reject (list_ex (unsupported_reproduction s) (st_rows s)) ''reproduction-pending authority is inconsistent'') (\<lambda>_.
      bindM (reject (list_ex (\<lambda>q. rq_retained_block q < 0 \<or> current_block < rq_retained_block q) (st_retained s))
        ''retained qualification block is not finalized'') (\<lambda>_.
      bindM (modifyM (\<lambda>s. s\<lparr>st_rows := map (\<lambda>r. if stale s threshold r then expire_row r else r) (st_rows s)\<rparr>)) (\<lambda>_.
      retM (map ir_reservation_id (sort_key row_key (filter (stale s threshold) (st_rows s)))))))))"

definition expire_stale :: "py_env \<Rightarrow> IntakePolicy \<Rightarrow> int \<Rightarrow> IntakeRow list intake" where
  "expire_stale E P current_block =
     bindM (reject (current_block < 0) ''automatic expiry block is malformed'') (\<lambda>_.
     bindM (transaction (expire_stale_rows P current_block)) (\<lambda>expired. mapM (intake_get E) expired))"

definition unresolved :: "'a IntakeReservation_scheme \<Rightarrow> bool" where
  "unresolved r \<longleftrightarrow> ir_status r \<in> {Reserved, Fetching, TransportRetry, Published, Screening, Promoted, Qualifying,
     ReproductionPending, Held, NoDecision}"

definition admission_epoch :: "IntakePolicy \<Rightarrow> int \<Rightarrow> int" where
  "admission_epoch P block =
     block div ip_epoch_blocks P +
     (if ip_epoch_blocks P - ip_cutoff_blocks P \<le> block mod ip_epoch_blocks P then 1 else 0)"

definition admit :: "IntakePolicy \<Rightarrow> int \<Rightarrow> FinalizedArrival \<Rightarrow> int \<Rightarrow> int \<Rightarrow> intake_status \<times> string" where
  "admit P finalized_block a hotkey_count pending =
     (if \<not> arrival_valid a then (Failed, fa_invalid_reason a) else
      if ip_expiry_blocks P \<le> finalized_block - fa_block a then (Expired, AUTOMATIC_EXPIRY_REASON) else
      if ip_max_per_hotkey_epoch P \<le> hotkey_count then (Failed, ''hotkey_epoch_admission_limit'') else
      if ip_max_pending P \<le> pending then (Failed, ''pending_queue_admission_limit'') else (Reserved, ''''))"

definition new_row :: "py_env \<Rightarrow> FinalizedArrival \<Rightarrow> int \<Rightarrow> intake_status \<Rightarrow> string \<Rightarrow> IntakeRow" where
  "new_row E a epoch status reason =
     \<lparr>ir_reservation_id = reservation_id E a, ir_arrival = a, ir_admission_epoch = epoch, ir_status = status, ir_target_id = '''',
      ir_target_members = [], ir_delta_fingerprint = None, ir_transport_attempts = 0, ir_publication_digest = '''',
      ir_publication_root = '''', ir_qualification_authority_digest = '''', ir_qualification_evidence_digest = '''',
      ir_arena_service_digest = '''', ir_screen_lane = '''', ir_screen_status = '''', ir_screen_stage_count = 0,
      ir_screen_attempts = 0, ir_decision = '''', ir_reason = reason, iw_authority_json = '''', iw_retry_group = '''',
      iw_retry_position = 0\<rparr>"

text \<open>\<open>UNIQUE(block_hash, event_index, event_subindex, hotkey, content_hash)\<close>.\<close>

definition same_event :: "FinalizedArrival \<Rightarrow> FinalizedArrival \<Rightarrow> bool" where
  "same_event a b \<longleftrightarrow> fa_block_hash a = fa_block_hash b \<and> fa_event_index a = fa_event_index b
     \<and> fa_event_subindex a = fa_event_subindex b \<and> fa_hotkey a = fa_hotkey b \<and> fa_content_hash a = fa_content_hash b"

definition insert_row :: "IntakeRow \<Rightarrow> unit intake" where
  "insert_row r =
     bindM (askM (\<lambda>s. list_ex (\<lambda>x. same_event (ir_arrival x) (ir_arrival r)) (st_rows s))) (\<lambda>clash.
     if clash then raiseM (SQLiteIntegrityError ''UNIQUE constraint failed: reservations'') else
     modifyM (\<lambda>s. s\<lparr>st_rows := st_rows s @ [r]\<rparr>))"

definition reserve_one ::
    "py_env \<Rightarrow> IntakePolicy \<Rightarrow> int \<Rightarrow> FinalizedArrival \<Rightarrow> int \<times> string list \<Rightarrow> (int \<times> string list) intake" where
  "reserve_one E P finalized_block a acc =
     (case acc of (pending, inserted) \<Rightarrow>
      bindM (askM (stored_row (reservation_id E a))) (\<lambda>existing.
      case existing of
        Some r \<Rightarrow>
          bindM (liftM (reopen_row E r)) (\<lambda>r.
          bindM (reject (ir_arrival r \<noteq> a) ''reservation ID collision changed arrival bytes'') (\<lambda>_. retM (pending, inserted)))
      | None \<Rightarrow>
          (let epoch = admission_epoch P (fa_block a) in
           bindM (askM (\<lambda>s. int (length (filter (\<lambda>r. ir_admission_epoch r = epoch \<and> fa_hotkey (ir_arrival r) = fa_hotkey a)
             (st_rows s))))) (\<lambda>hotkey_count.
           case admit P finalized_block a hotkey_count pending of (status, reason) \<Rightarrow>
           bindM (insert_row (new_row E a epoch status reason)) (\<lambda>_.
           retM (if status = Reserved then pending + 1 else pending, inserted @ [reservation_id E a]))))))"

definition reserve_finalized ::
    "py_env \<Rightarrow> IntakePolicy \<Rightarrow> FinalizedArrival list \<Rightarrow> int \<Rightarrow> string \<Rightarrow> IntakeRow list intake" where
  "reserve_finalized E P rows finalized_block finalized_block_hash =
     bindM (reject (\<not> sorted_unique (map arrival_key rows)) ''finalized arrivals are duplicated or out of order'') (\<lambda>_.
     bindM (reject (finalized_block < 0) ''finalized block is malformed'') (\<lambda>_.
     bindM (reject (\<not> is_block_hash finalized_block_hash) ''finalized block hash is malformed'') (\<lambda>_.
     bindM (reject (list_ex (\<lambda>a. finalized_block < fa_block a) rows) ''unfinalized arrival reached durable intake'') (\<lambda>_.
     bindM (transaction (
       bindM (expire_stale_rows P finalized_block) (\<lambda>_.
       bindM (askM st_cursor) (\<lambda>cursor.
       bindM (reject (case cursor of None \<Rightarrow> False
           | Some (b, h) \<Rightarrow> finalized_block < b \<or> finalized_block = b \<and> finalized_block_hash \<noteq> h)
         ''finalized cursor regressed or changed hash'') (\<lambda>_.
       bindM (askM (\<lambda>s. int (length (filter unresolved (st_rows s))))) (\<lambda>pending.
       bindM (foldM (reserve_one E P finalized_block) rows (pending, [])) (\<lambda>(_, inserted).
       bindM (modifyM (\<lambda>s. s\<lparr>st_cursor := Some (finalized_block, finalized_block_hash)\<rparr>)) (\<lambda>_. retM inserted)))))))) (\<lambda>inserted.
     mapM (intake_get E) inserted)))))"

section \<open>Transport\<close>

definition intake_transition ::
    "py_env \<Rightarrow> string \<Rightarrow> intake_status list \<Rightarrow> intake_status \<Rightarrow> string \<Rightarrow> string \<Rightarrow> IntakeRow intake" where
  "intake_transition E rid expected status decision reason =
     bindM (reject (2048 < length reason) ''intake transition is malformed'') (\<lambda>_.
     bindM (transaction (
       bindM (intake_get E rid) (\<lambda>row.
       bindM (reject (ir_status row \<notin> set expected)
         (''intake transition from '' @ show_name (status_name (ir_status row)) @ '' is forbidden'')) (\<lambda>_.
       update_row rid (\<lambda>r. r\<lparr>ir_status := status, ir_decision := decision, ir_reason := reason,
         ir_qualification_evidence_digest := ''''\<rparr>))))) (\<lambda>_.
     intake_get E rid))"

definition mark_fetching :: "py_env \<Rightarrow> IntakePolicy \<Rightarrow> string \<Rightarrow> IntakeRow intake" where
  "mark_fetching E P rid =
     bindM (transaction (
       bindM (intake_get E rid) (\<lambda>row.
       bindM (reject (ir_status row \<notin> {Reserved, TransportRetry}) ''only pending intake may begin transport'') (\<lambda>_.
       let attempts = ir_transport_attempts row + 1; allowed = (attempts \<le> ip_max_transport_retries P) in
       update_row rid (\<lambda>r. r\<lparr>ir_status := if allowed then Fetching else Held, ir_transport_attempts := attempts,
         ir_reason := if allowed then '''' else ''transport_retry_limit''\<rparr>))))) (\<lambda>_.
     intake_get E rid)"

definition mark_transport_retry :: "py_env \<Rightarrow> IntakePolicy \<Rightarrow> string \<Rightarrow> string \<Rightarrow> IntakeRow intake" where
  "mark_transport_retry E P rid reason =
     bindM (intake_get E rid) (\<lambda>row.
     let exhausted = (ip_max_transport_retries P \<le> ir_transport_attempts row) in
     intake_transition E rid [Fetching] (if exhausted then Held else TransportRetry) ''NO_DECISION''
       (if exhausted then ''transport_retry_limit'' else reason))"

definition mark_failed :: "py_env \<Rightarrow> string \<Rightarrow> string \<Rightarrow> IntakeRow intake" where
  "mark_failed E rid reason = intake_transition E rid [Fetching, Published] Failed ''FAIL'' reason"

definition mark_held :: "py_env \<Rightarrow> string \<Rightarrow> string \<Rightarrow> IntakeRow intake" where
  "mark_held E rid reason =
     intake_transition E rid [Reserved, Fetching, TransportRetry, Published, Screening, Promoted, Qualifying,
       ReproductionPending, NoDecision] Held ''NO_DECISION'' reason"

definition awarded_or_duplicate ::
    "py_env \<Rightarrow> IntakeRow \<Rightarrow> SubmittedDeltaFingerprint \<Rightarrow> intake_status \<times> string \<times> string
     \<Rightarrow> (intake_status \<times> string \<times> string) intake" where
  "awarded_or_duplicate E row f verdict =
     bindM (askM (\<lambda>s. df_exact_payload_digest f \<in> set (st_awarded s))) (\<lambda>awarded.
     bindM (intake_all E) (\<lambda>rows.
     let duplicate = list_ex (\<lambda>prior. row_key prior < row_key row \<and>
           (case ir_delta_fingerprint prior of None \<Rightarrow> False
            | Some g \<Rightarrow> df_product_kind g = ''discovery'' \<and> df_exact_payload_digest g = df_exact_payload_digest f)) rows in
     retM (if awarded then (Failed, ''FAIL'', ''already_awarded'')
           else if duplicate then (Failed, ''FAIL'', ''duplicate_proposal'') else verdict)))"

definition mark_published ::
    "py_env \<Rightarrow> IntakePolicy \<Rightarrow> string \<Rightarrow> SubmittedDeltaFingerprint \<Rightarrow> string \<Rightarrow> string \<Rightarrow> IntakeRow intake" where
  "mark_published E P rid f publication_digest publication_root =
     bindM (liftM (require_sha256_hex (PyStr publication_digest) ''publication_digest'')) (\<lambda>_.
     bindM (transaction (
       bindM (intake_get E rid) (\<lambda>row.
       bindM (reject (ir_status row \<noteq> Fetching) ''publication requires an active transport'') (\<lambda>_.
       bindM (askM (\<lambda>s. int (length (filter (\<lambda>r. ir_admission_epoch r = ir_admission_epoch row
         \<and> ir_target_id r = df_target_id f) (st_rows s))))) (\<lambda>count.
       let verdict = (if ip_max_per_target_epoch P \<le> count then (Failed, '''', ''target_epoch_admission_limit'')
         else (Published, '''', '''')) in
       bindM (if df_product_kind f = ''discovery'' then awarded_or_duplicate E row f verdict else retM verdict)
         (\<lambda>(status, decision, reason).
       update_row rid (\<lambda>r. r\<lparr>ir_status := status, ir_target_id := df_target_id f, ir_target_members := df_members f,
         ir_delta_fingerprint := Some f, ir_publication_digest := publication_digest, ir_publication_root := publication_root,
         ir_decision := decision, ir_reason := reason\<rparr>))))))) (\<lambda>_.
     intake_get E rid))"

section \<open>Screening\<close>

definition begin_screen :: "py_env \<Rightarrow> string \<Rightarrow> string \<Rightarrow> IntakeRow intake" where
  "begin_screen E rid service_digest =
     bindM (liftM (require_sha256_hex (PyStr service_digest) ''arena service digest'')) (\<lambda>_.
     bindM (transaction (
       bindM (intake_get E rid) (\<lambda>row.
       bindM (reject (ir_status row \<notin> {Published, ReproductionPending}) ''only screenable intake may begin arena screening'') (\<lambda>_.
       let lane = (if ir_status row = ReproductionPending then ''reproduction'' else ''primary'') in
       bindM (askM (\<lambda>s. int (length (filter (\<lambda>d. sd_reservation_id d = rid) (st_screens s))))) (\<lambda>attempts.
       update_row rid (\<lambda>r. r\<lparr>ir_status := Screening, ir_arena_service_digest := service_digest, ir_screen_lane := lane,
         ir_screen_status := ''running'', ir_screen_stage_count := 0, ir_screen_attempts := attempts + 1,
         ir_decision := '''', ir_reason := ''''\<rparr>)))))) (\<lambda>_.
     intake_get E rid))"

text \<open>Back to where the screen or the qualification came from.\<close>

definition lane_status :: "'a IntakeReservation_scheme \<Rightarrow> intake_status" where
  "lane_status r = (if ir_screen_lane r = ''reproduction'' then ReproductionPending else Published)"

definition screen_verdict :: "IntakeRow \<Rightarrow> PromotionDecision \<Rightarrow> intake_status \<times> string \<times> string" where
  "screen_verdict row d =
     (case d of
        Promote \<Rightarrow> (Promoted, '''', ''screen_promoted'')
      | Reject \<Rightarrow> (Failed, ''FAIL'', ''screen_rejected'')
      | Retry \<Rightarrow> (lane_status row, '''', ''screen_retry'')
      | Hold \<Rightarrow> (Held, ''NO_DECISION'', ''screen_held''))"

definition insert_screen :: "ScreenRow \<Rightarrow> unit intake" where
  "insert_screen d =
     bindM (askM (\<lambda>s. list_ex (\<lambda>x. sd_receipt_digest x = sd_receipt_digest d
       \<or> sd_reservation_id x = sd_reservation_id d \<and> sd_attempt_index x = sd_attempt_index d) (st_screens s))) (\<lambda>clash.
     if clash then raiseM (SQLiteIntegrityError ''UNIQUE constraint failed: arena_screen_dispositions'') else
     modifyM (\<lambda>s. s\<lparr>st_screens := st_screens s @ [d]\<rparr>))"

definition apply_screen_receipt :: "py_env \<Rightarrow> string \<Rightarrow> string \<Rightarrow> ArenaScreenReceipt \<Rightarrow> IntakeRow intake" where
  "apply_screen_receipt E rid candidate_digest receipt =
     bindM (liftM (require_sha256_hex (PyStr candidate_digest) ''screen candidate digest'')) (\<lambda>_.
     bindM (transaction (
       bindM (intake_get E rid) (\<lambda>row.
       bindM (reject (ir_status row \<noteq> Screening \<or> ir_arena_service_digest row \<noteq> asr_service_digest receipt
           \<or> ir_screen_attempts row \<noteq> asr_screen_attempt receipt \<or> asr_candidate_digest receipt \<noteq> candidate_digest)
         ''arena screen receipt differs from active screening'') (\<lambda>_.
       bindM (insert_screen \<lparr>sd_reservation_id = rid, sd_attempt_index = ir_screen_attempts row - 1,
         sd_service_digest = asr_service_digest receipt, sd_candidate_digest = candidate_digest,
         sd_receipt_digest = ArenaScreenReceipt_digest E receipt,
         sd_receipt_json = json_sort (JObj (ArenaScreenReceipt_fields receipt)),
         sd_decision = promotion_value (asr_decision receipt), sd_stage_count = int (length (asr_results receipt)),
         sd_lane = ir_screen_lane row\<rparr>) (\<lambda>_.
       case screen_verdict row (asr_decision receipt) of (status, decision, reason) \<Rightarrow>
       update_row rid (\<lambda>r. r\<lparr>ir_status := status, ir_screen_status := promotion_value (asr_decision receipt),
         ir_screen_stage_count := int (length (asr_results receipt)), ir_decision := decision, ir_reason := reason\<rparr>)))))) (\<lambda>_.
     intake_get E rid))"

section \<open>Copies\<close>

definition mark_copy :: "py_env \<Rightarrow> string \<Rightarrow> string \<Rightarrow> IntakeRow intake" where
  "mark_copy E rid predecessor_id =
     bindM (intake_get E predecessor_id) (\<lambda>predecessor.
     bindM (intake_get E rid) (\<lambda>candidate.
     bindM (reject (row_key candidate \<le> row_key predecessor) ''copy predecessor is not earlier in finalized order'') (\<lambda>_.
     bindM (copy_predecessors E rid) (\<lambda>matches.
     bindM (reject (predecessor \<notin> set matches) ''claimed predecessor is not an authoritative delta copy'') (\<lambda>_.
     intake_transition E rid [Published, Screening, Promoted, Qualifying, ReproductionPending, Qualified, Held, NoDecision]
       Failed ''FAIL'' (''copy_of:'' @ ir_reservation_id predecessor))))))"

definition reconcile_one :: "py_env \<Rightarrow> IntakeRow \<Rightarrow> (string \<times> string) list \<Rightarrow> (string \<times> string) list intake" where
  "reconcile_one E r dispositions =
     (if ir_delta_fingerprint r = None \<or> ir_status r \<in> {Failed, Expired} then retM dispositions else
      bindM (copy_predecessors E (ir_reservation_id r)) (\<lambda>predecessors.
      case predecessors of
        [] \<Rightarrow> retM dispositions
      | p # _ \<Rightarrow>
          bindM (mark_copy E (ir_reservation_id r) (ir_reservation_id p)) (\<lambda>_.
          retM (dispositions @ [(ir_reservation_id r, ir_reservation_id p)]))))"

definition reconcile_copies :: "py_env \<Rightarrow> (string \<times> string) list intake" where
  "reconcile_copies E = bindM (intake_all E) (\<lambda>rows. foldM (reconcile_one E) rows [])"

end
