(* ===== verification/Intake_Qualification.thy ===== *)
theory Intake_Qualification
  imports Intake_Store
begin

text \<open>
  The second half of \<open>FinalizedIntakeStore\<close>: qualification, its retries, the two retained passes that make a
  settlement candidate, holds and their release, explicit expiry, and the recovery at start-up.
\<close>

section \<open>Evaluation stacks\<close>

record EvaluationStackState =
  ess_arena_digest :: string
  ess_generation :: int
  ess_manifest :: EvaluationStackManifest
  ess_tree_digest :: string
  ess_transition_event_id :: string

definition EvaluationStackState_new :: "EvaluationStackState \<Rightarrow> py_error + EvaluationStackState" where
  "EvaluationStackState_new s =
     bindE (require_sha256_hex (PyStr (ess_arena_digest s)) ''arena_digest'') (\<lambda>_.
     bindE (require_sha256_hex (PyStr (ess_tree_digest s)) ''tree_digest'') (\<lambda>_.
     bindE (require_sha256_hex (PyStr (ess_transition_event_id s)) ''transition_event_id'') (\<lambda>_.
     if ess_generation s < 0 \<or> esm_arena_digest (ess_manifest s) \<noteq> ess_arena_digest s
     then intake_fail ''evaluation stack state is malformed'' else Inr s)))"

text \<open>\<open>except (TypeError, ValueError, json.JSONDecodeError)\<close>: every exception class of the modules is a \<open>ValueError\<close>.\<close>

definition value_or_type_error :: "py_error \<Rightarrow> bool" where
  "value_or_type_error e =
     (case e of PyKeyError _ \<Rightarrow> False | PyAssertionError _ \<Rightarrow> False | PyIndexError _ \<Rightarrow> False
      | SQLiteIntegrityError _ \<Rightarrow> False | IntakeError _ \<Rightarrow> False | DecimalOverflow \<Rightarrow> False | _ \<Rightarrow> True)"

definition wrap_corrupt :: "string \<Rightarrow> py_error + 'a \<Rightarrow> py_error + 'a" where
  "wrap_corrupt message m =
     (case m of Inl e \<Rightarrow> if value_or_type_error e then intake_fail (message @ err_text e) else Inl e | Inr x \<Rightarrow> Inr x)"

definition evaluation_stack :: "py_env \<Rightarrow> string \<Rightarrow> EvaluationStackState intake" where
  "evaluation_stack E arena_digest =
     bindM (liftM (require_sha256_hex (PyStr arena_digest) ''arena_digest'')) (\<lambda>_.
     bindM (askM (\<lambda>s. List.find (\<lambda>r. sr_arena_id r = arena_digest) (st_stacks s))) (\<lambda>found.
     case found of
       None \<Rightarrow> liftM (intake_fail ''evaluation stack is not initialized'')
     | Some r \<Rightarrow>
         bindM (liftM (wrap_corrupt ''evaluation stack state is corrupt: '' (manifest_from_dict E (py_of_json (sr_stack_json r))))) (\<lambda>m.
         bindM (reject (manifest_digest E m \<noteq> sr_stack_digest r) ''evaluation stack digest differs from stored bytes'') (\<lambda>_.
         liftM (EvaluationStackState_new \<lparr>ess_arena_digest = sr_arena_id r, ess_generation = sr_generation r, ess_manifest = m,
           ess_tree_digest = sr_tree_digest r, ess_transition_event_id = sr_transition_event_id r\<rparr>)))))"

definition initialize_evaluation_stack_row :: "py_env \<Rightarrow> EvaluationStackManifest \<Rightarrow> string \<Rightarrow> unit intake" where
  "initialize_evaluation_stack_row E manifest tree_digest =
     bindM (liftM (require_sha256_hex (PyStr tree_digest) ''tree_digest'')) (\<lambda>_.
     let arena = esm_arena_digest manifest;
         genesis = json_digest E ''optima.chain.evaluation-stack-genesis'' (JObj [(''arena_digest'', JStr arena),
           (''stack_digest'', JStr (manifest_digest E manifest)), (''tree_digest'', JStr tree_digest)]);
         encoded = json_sort (JObj (manifest_fields manifest)) in
     bindM (askM (\<lambda>s. List.find (\<lambda>r. sr_arena_id r = arena) (st_stacks s))) (\<lambda>existing.
     case existing of
       None \<Rightarrow> modifyM (\<lambda>s. s\<lparr>st_stacks := st_stacks s @ [\<lparr>sr_arena_id = arena, sr_generation = 0,
         sr_stack_digest = manifest_digest E manifest, sr_tree_digest = tree_digest, sr_stack_json = encoded,
         sr_transition_event_id = genesis\<rparr>]\<rparr>)
     | Some r \<Rightarrow> reject (sr_generation r = 0 \<and> (sr_stack_digest r \<noteq> manifest_digest E manifest
         \<or> sr_tree_digest r \<noteq> tree_digest \<or> sr_stack_json r \<noteq> encoded)) ''genesis qualification names another incumbent''))"

definition initialize_evaluation_stack :: "py_env \<Rightarrow> EvaluationStackManifest \<Rightarrow> string \<Rightarrow> EvaluationStackState intake" where
  "initialize_evaluation_stack E manifest tree_digest =
     bindM (transaction (initialize_evaluation_stack_row E manifest tree_digest)) (\<lambda>_.
     bindM (evaluation_stack E (esm_arena_digest manifest)) (\<lambda>state.
     bindM (reject (manifest_digest E (ess_manifest state) \<noteq> manifest_digest E manifest \<or> ess_tree_digest state \<noteq> tree_digest)
       ''evaluation stack is already initialized differently'') (\<lambda>_. retM state)))"

section \<open>Single outcomes\<close>

text \<open>\<open>json.dumps\<close> with its default \<open>ensure_ascii\<close>: characters outside the printable ASCII range are escaped.\<close>

definition ascii_esc :: "char \<Rightarrow> string" where
  "ascii_esc c = (let n = of_char c :: nat in
     if 127 \<le> n then [CHR 0x5C, CHR ''u'', CHR ''0'', CHR ''0'', hex_char (n div 16), hex_char (n mod 16)] else [c])"

definition ascii_json :: "json \<Rightarrow> string" where
  "ascii_json j = concat (map ascii_esc (json_dumps j))"

definition mark_qualifying :: "py_env \<Rightarrow> string \<Rightarrow> string \<Rightarrow> (string \<times> json) list \<Rightarrow> IntakeRow intake" where
  "mark_qualifying E rid authority_digest manifest =
     bindM (liftM (require_sha256_hex (PyStr authority_digest) ''qualification_authority_digest'')) (\<lambda>_.
     bindM (reject (manifest = []) ''qualification authority manifest is not a closed object'') (\<lambda>_.
     let authority_json = ascii_json (JObj manifest) in
     bindM (reject (1048576 < length authority_json) ''qualification authority manifest is oversized'') (\<lambda>_.
     bindM (transaction (
       bindM (intake_get E rid) (\<lambda>row.
       bindM (reject (ir_status row \<noteq> Promoted \<or> ir_screen_status row \<noteq> ''promote'')
         ''only screen-promoted intake may enter qualification'') (\<lambda>_.
       update_row rid (\<lambda>r. r\<lparr>ir_status := Qualifying, ir_qualification_authority_digest := authority_digest,
         iw_authority_json := authority_json, ir_decision := '''', ir_reason := ''''\<rparr>))))) (\<lambda>_.
     intake_get E rid))))"

definition insert_disposition :: "DispositionRow \<Rightarrow> unit intake" where
  "insert_disposition d =
     bindM (askM (\<lambda>s. list_ex (\<lambda>x. qd_reservation_id x = qd_reservation_id d \<and> qd_attempt_index x = qd_attempt_index d)
       (st_dispositions s))) (\<lambda>clash.
     if clash then raiseM (SQLiteIntegrityError ''UNIQUE constraint failed: qualification_dispositions'') else
     modifyM (\<lambda>s. s\<lparr>st_dispositions := st_dispositions s @ [d]\<rparr>))"

definition count_dispositions :: "string \<Rightarrow> int intake" where
  "count_dispositions rid = askM (\<lambda>s. int (length (filter (\<lambda>d. qd_reservation_id d = rid) (st_dispositions s))))"

definition outcome_inputs ::
    "string \<Rightarrow> EvidenceArtifactRef option \<Rightarrow> string \<Rightarrow> string \<Rightarrow> py_error + unit" where
  "outcome_inputs decision attempt_ref report_digest failure_digest =
     (let report_based = (attempt_ref \<noteq> None \<or> report_digest \<noteq> []) in
      if decision \<notin> {''PASS'', ''FAIL'', ''NO_DECISION''} then intake_fail ''qualification decision is unsupported'' else
      if decision = ''PASS'' then intake_fail ''PASS requires a typed settlement qualification and reproduction gate'' else
      if report_based \<and> (attempt_ref = None \<or> report_digest = []) then intake_fail ''qualification report evidence is incomplete'' else
      bindE (if report_digest \<noteq> [] then require_sha256_hex (PyStr report_digest) ''qualification report digest'' else Inr []) (\<lambda>_.
      bindE (if failure_digest \<noteq> [] then require_sha256_hex (PyStr failure_digest) ''qualification failure digest'' else Inr []) (\<lambda>_.
      if decision = ''NO_DECISION'' \<and> report_based = (failure_digest \<noteq> [])
      then intake_fail ''NO_DECISION requires one report or failure product'' else
      if decision \<noteq> ''NO_DECISION'' \<and> (\<not> report_based \<or> failure_digest \<noteq> [])
      then intake_fail ''PASS/FAIL requires a retained attempt and report'' else Inr ())))"

definition mark_outcome ::
    "py_env \<Rightarrow> string \<Rightarrow> string \<Rightarrow> EvidenceArtifactRef option \<Rightarrow> string \<Rightarrow> string \<Rightarrow> string \<Rightarrow> IntakeRow intake" where
  "mark_outcome E rid decision attempt_ref report_digest failure_digest reason =
     bindM (liftM (outcome_inputs decision attempt_ref report_digest failure_digest)) (\<lambda>_.
     let evidence = (case attempt_ref of Some ref \<Rightarrow> ear_sha256 ref | None \<Rightarrow> failure_digest) in
     bindM (transaction (
       bindM (intake_get E rid) (\<lambda>row.
       bindM (reject (ir_status row \<noteq> Qualifying \<or> ir_qualification_authority_digest row = [] \<or> iw_authority_json row = [])
         ''qualification outcome lacks an active authority'') (\<lambda>_.
       bindM (count_dispositions rid) (\<lambda>attempt.
       bindM (insert_disposition \<lparr>qd_reservation_id = rid, qd_attempt_index = attempt,
         qd_authority_digest = ir_qualification_authority_digest row, qd_authority_json = iw_authority_json row,
         qd_evidence_digest = evidence, qd_attempt_ref = attempt_ref, qd_report_digest = report_digest,
         qd_failure_digest = failure_digest, qd_decision = decision, qd_reason = reason\<rparr>) (\<lambda>_.
       update_row rid (\<lambda>r. r\<lparr>ir_status := if decision = ''FAIL'' then Failed else NoDecision, ir_decision := decision,
         ir_reason := reason, ir_qualification_evidence_digest := evidence\<rparr>))))))) (\<lambda>_.
     intake_get E rid))"

section \<open>Batches\<close>

text \<open>A path: whether it is absolute, and its parts without empty ones and dots. \<open>normpath\<close> resolves only \<open>..\<close>.\<close>

type_synonym path = "bool \<times> string list"

definition canonical_root :: "path option \<Rightarrow> bool" where
  "canonical_root evroot = (case evroot of None \<Rightarrow> False | Some (absolute, parts) \<Rightarrow> absolute \<and> ''..'' \<notin> set parts)"

definition path_text :: "path \<Rightarrow> string" where
  "path_text p = (if snd p = [] then ''/'' else concat (map (\<lambda>part. ''/'' @ part) (snd p)))"

fun index_from :: "int \<Rightarrow> 'a list \<Rightarrow> (int \<times> 'a) list" where
  "index_from k [] = []"
| "index_from k (x # xs) = (k, x) # index_from (k + 1) xs"

definition retry_rows :: "py_env \<Rightarrow> QualificationIntakeBatch \<Rightarrow> (string \<times> string \<times> int \<times> string) list" where
  "retry_rows E b =
     (case qb_retry_plan b of
        None \<Rightarrow> []
      | Some plan \<Rightarrow>
          dict_of (concat (map (\<lambda>(k, members).
            let rgroup = json_digest E ''optima.chain.qualification-retry-group'' (JObj
              [(''authority_manifest_digest'', JStr (qb_authority_manifest_digest b)), (''group_index'', JInt k),
               (''members'', JList (map JStr members)), (''strategy'', JStr (rp_strategy plan))]) in
            map (\<lambda>(position, rid). (rid, rgroup, position, ''qualification_'' @ rp_strategy plan)) (index_from 0 members))
            (index_from 0 (rp_reservation_groups plan)))))"

definition qualification_matches ::
    "QualificationIntakeBatch \<Rightarrow> QualificationIntakeOutcome \<Rightarrow> string \<Rightarrow> IntakeRow \<Rightarrow> SettlementQualification \<Rightarrow> bool" where
  "qualification_matches b x evidence row q \<longleftrightarrow>
     sq_reservation_digest q = qo_reservation_digest x \<and> sq_hotkey q = fa_hotkey (ir_arrival row)
     \<and> sq_finalized_block q = fa_block (ir_arrival row) \<and> sq_event_index q = fa_event_index (ir_arrival row)
     \<and> sq_event_subindex q = fa_event_subindex (ir_arrival row)
     \<and> sq_target_id q = ir_target_id row \<and> sq_members q = ir_target_members row
     \<and> Some (sq_selected_delta_digest q) = map_option df_selected_delta_digest (ir_delta_fingerprint row)
     \<and> sq_qualification_authority_digest q = qb_authority_manifest_digest b
     \<and> sq_qualification_attempt_digest q = evidence
     \<and> Some (sq_qualification_report_digest q) = qo_report_digest x"

definition insert_retained :: "RetainedRow \<Rightarrow> unit intake" where
  "insert_retained q =
     bindM (askM (\<lambda>s. list_ex (\<lambda>x. rq_qualification_digest x = rq_qualification_digest q
       \<or> rq_reservation_id x = rq_reservation_id q \<and> rq_reproduction_index x = rq_reproduction_index q) (st_retained s))) (\<lambda>clash.
     if clash then raiseM (SQLiteIntegrityError ''UNIQUE constraint failed: settlement_qualifications'') else
     modifyM (\<lambda>s. s\<lparr>st_retained := st_retained s @ [q]\<rparr>))"

definition insert_candidate :: "CandidateRow \<Rightarrow> unit intake" where
  "insert_candidate c =
     bindM (askM (\<lambda>s. list_ex (\<lambda>x. cr_reservation_id x = cr_reservation_id c \<or> cr_candidate_digest x = cr_candidate_digest c)
       (st_candidates s))) (\<lambda>clash.
     if clash then raiseM (SQLiteIntegrityError ''UNIQUE constraint failed: settlement_candidates'') else
     modifyM (\<lambda>s. s\<lparr>st_candidates := st_candidates s @ [c]\<rparr>))"

text \<open>The second pass of a reservation becomes a settlement candidate with the first.\<close>

definition pair_reproductions :: "py_env \<Rightarrow> RetainedRow \<Rightarrow> SettlementQualification \<Rightarrow> string \<Rightarrow> unit intake" where
  "pair_reproductions E first q evroot =
     bindM (liftM (wrap_corrupt ''independent reproduction is inconsistent: ''
       (bindE (SettlementQualification_from_dict E (py_of_json (rq_qualification_json first))) (\<lambda>primary.
        bindE (from_reproductions primary q) (\<lambda>c. Inr (primary, c)))))) (\<lambda>(primary, c).
     bindM (reject (SettlementQualification_digest E primary \<noteq> rq_qualification_digest first)
       ''primary settlement qualification is corrupt'') (\<lambda>_.
     insert_candidate \<lparr>cr_reservation_id = rq_reservation_id first, cr_authority_digest = sq_qualification_authority_digest primary,
       cr_candidate_digest = SettlementCandidate_digest E c, cr_candidate_json = json_sort (JObj (SettlementCandidate_fields E c)),
       cr_evidence_root = rq_evidence_root first, cr_reproduction_evidence_root = evroot, cr_settlement_evidence_digest = '''',
       cr_status = ''pending'', cr_lease_id = '''', cr_lease_generation = 0, cr_lease_expires_block = 0, cr_reason = ''''\<rparr>))"

definition retain_pass ::
    "py_env \<Rightarrow> int \<Rightarrow> path option \<Rightarrow> string \<Rightarrow> IntakeRow \<Rightarrow> EvidenceArtifactRef option \<Rightarrow> SettlementQualification \<Rightarrow> unit intake" where
  "retain_pass E current evroot rid row attempt_ref q =
     bindM (evaluation_stack E (sq_arena_digest q)) (\<lambda>_.
     case (attempt_ref, evroot) of
       (Some ref, Some path) \<Rightarrow>
         bindM (askM (\<lambda>s. sort_key rq_reproduction_index (retained_of s rid))) (\<lambda>retained.
         let expected_lane = (if retained = [] then ''primary'' else ''reproduction'') in
         bindM (reject (ir_screen_lane row \<noteq> expected_lane \<or> 1 < length retained)
           ''qualification PASS used the wrong reproduction lane'') (\<lambda>_.
         bindM (insert_retained \<lparr>rq_reservation_id = rid, rq_reproduction_index = int (length retained),
           rq_qualification_digest = SettlementQualification_digest E q,
           rq_qualification_json = json_sort (JObj (SettlementQualification_fields E q)), rq_attempt_ref = ref,
           rq_evidence_root = path_text path, rq_retained_block = current\<rparr>) (\<lambda>_.
         if length retained = 1 then pair_reproductions E (hd retained) q (path_text path) else retM ())))
     | _ \<Rightarrow> liftM (intake_fail ''retained PASS evidence is incomplete''))"

definition retry_outcome :: "IntakePolicy \<Rightarrow> string \<Rightarrow> IntakeRow \<Rightarrow> int \<Rightarrow> string \<times> int \<times> string \<Rightarrow> unit intake" where
  "retry_outcome P rid row attempt retry =
     (case retry of (rgroup, position, reason) \<Rightarrow>
      let again = (attempt + 1 < ip_max_qualification_retries P) in
      update_row rid (\<lambda>r. r\<lparr>ir_status := if again then lane_status row else Held, ir_decision := if again then '''' else ''NO_DECISION'',
        ir_reason := reason, iw_retry_group := rgroup, iw_retry_position := position, ir_qualification_authority_digest := '''',
        iw_authority_json := '''', ir_qualification_evidence_digest := ''''\<rparr>))"

definition final_outcome :: "string \<Rightarrow> QualificationIntakeOutcome \<Rightarrow> string \<Rightarrow> unit intake" where
  "final_outcome rid x evidence =
     bindM (askM (\<lambda>s. length (retained_of s rid))) (\<lambda>completed.
     case (if qo_decision x = PASS
           then (if completed = 2 then (Qualified, ''PASS'', qo_reason x) else (ReproductionPending, '''', ''reproduction_pending''))
           else (Failed, decision_value (qo_decision x), qo_reason x)) of (status, decision, reason) \<Rightarrow>
     update_row rid (\<lambda>r. r\<lparr>ir_status := status, ir_decision := decision, ir_reason := reason,
       ir_qualification_evidence_digest := evidence, iw_retry_group := '''', iw_retry_position := 0,
       ir_qualification_authority_digest := '''', iw_authority_json := ''''\<rparr>))"

definition apply_outcome ::
    "py_env \<Rightarrow> IntakePolicy \<Rightarrow> QualificationIntakeBatch \<Rightarrow> int \<Rightarrow> path option \<Rightarrow> QualificationIntakeOutcome \<Rightarrow> unit intake" where
  "apply_outcome E P b current evroot x =
     (let rid = qo_reservation_digest x;
          attempt_ref = (if qo_attempt_artifact_sha256 x \<noteq> None then qb_attempt_ref b else None);
          text = (\<lambda>v. case v of None \<Rightarrow> '''' | Some t \<Rightarrow> t);
          evidence = (case attempt_ref of Some ref \<Rightarrow> ear_sha256 ref | None \<Rightarrow> text (qo_failure_digest x)) in
      bindM (intake_get E rid) (\<lambda>row.
      bindM (reject (ir_status row \<noteq> Qualifying \<or> ir_qualification_authority_digest row \<noteq> qb_authority_manifest_digest b
          \<or> map_option df_selected_delta_digest (ir_delta_fingerprint row) \<noteq> Some (qo_selected_delta_digest x))
        ''qualification batch differs from active authority'') (\<lambda>_.
      bindM (count_dispositions rid) (\<lambda>attempt.
      bindM (insert_disposition \<lparr>qd_reservation_id = rid, qd_attempt_index = attempt,
        qd_authority_digest = qb_authority_manifest_digest b, qd_authority_json = iw_authority_json row,
        qd_evidence_digest = evidence, qd_attempt_ref = attempt_ref, qd_report_digest = text (qo_report_digest x),
        qd_failure_digest = text (qo_failure_digest x), qd_decision = decision_value (qo_decision x), qd_reason = qo_reason x\<rparr>) (\<lambda>_.
      bindM (case qo_settlement_qualification x of
               None \<Rightarrow> retM ()
             | Some q \<Rightarrow>
                 bindM (reject (\<not> qualification_matches b x evidence row q) ''settlement qualification differs from retained PASS'') (\<lambda>_.
                 retain_pass E current evroot rid row attempt_ref q)) (\<lambda>_.
      case map_of (retry_rows E b) rid of
        Some retry \<Rightarrow> retry_outcome P rid row attempt retry
      | None \<Rightarrow> final_outcome rid x evidence))))))"

definition apply_qualification_batch ::
    "py_env \<Rightarrow> IntakePolicy \<Rightarrow> QualificationIntakeBatch \<Rightarrow> int \<Rightarrow> path option \<Rightarrow> IntakeRow list intake" where
  "apply_qualification_batch E P b current evroot =
     bindM (askM st_cursor) (\<lambda>cursor.
     bindM (reject (current < 0 \<or> (case cursor of None \<Rightarrow> False | Some (block, _) \<Rightarrow> current < block))
       ''qualification progress block is not finalized'') (\<lambda>_.
     bindM (reject (list_ex (\<lambda>x. qo_decision x = PASS \<and> qo_settlement_qualification x = None) (qb_outcomes b))
       ''PASS qualification lacks a settlement projection qualification'') (\<lambda>_.
     bindM (reject (list_ex (\<lambda>x. qo_decision x = PASS) (qb_outcomes b) \<and> \<not> canonical_root evroot)
       ''PASS qualification lacks a canonical evidence root'') (\<lambda>_.
     bindM (transaction (foldM (\<lambda>x _. apply_outcome E P b current evroot x) (qb_outcomes b) ())) (\<lambda>_.
     mapM (\<lambda>x. intake_get E (qo_reservation_digest x)) (qb_outcomes b))))))"

section \<open>Holds, expiry and recovery\<close>

definition requeue_qualification :: "py_env \<Rightarrow> IntakePolicy \<Rightarrow> string \<Rightarrow> string \<Rightarrow> string \<Rightarrow> int \<Rightarrow> IntakeRow intake" where
  "requeue_qualification E P rid reason rgroup position =
     bindM (reject (reason = []) ''qualification requeue requires a reason'') (\<lambda>_.
     bindM (liftM (require_sha256_hex (PyStr rgroup) ''retry_group_digest'')) (\<lambda>_.
     bindM (reject (position < 0) ''qualification retry position is malformed'') (\<lambda>_.
     bindM (transaction (
       bindM (intake_get E rid) (\<lambda>row.
       bindM (reject (ir_status row \<noteq> NoDecision) ''only a retained NO_DECISION may be requeued'') (\<lambda>_.
       bindM (count_dispositions rid) (\<lambda>attempts.
       bindM (askM (\<lambda>s. length (retained_of s rid))) (\<lambda>retained.
       let status = (if attempts < ip_max_qualification_retries P
         then if retained = 1 then ReproductionPending else Published else Held) in
       update_row rid (\<lambda>r. r\<lparr>ir_status := status, ir_decision := '''', ir_reason := reason, iw_retry_group := rgroup,
         iw_retry_position := position, ir_qualification_authority_digest := '''', iw_authority_json := '''',
         ir_qualification_evidence_digest := ''''\<rparr>))))))) (\<lambda>_.
     intake_get E rid))))"

definition expire :: "py_env \<Rightarrow> IntakePolicy \<Rightarrow> string \<Rightarrow> int \<Rightarrow> string \<Rightarrow> IntakeRow intake" where
  "expire E P rid current_block reason =
     bindM (intake_get E rid) (\<lambda>row.
     bindM (reject (ir_reason row = SCHEMA3_HOLD) ''legacy single-PASS settlement requires explicit archival migration'') (\<lambda>_.
     bindM (reject (reason = []) ''explicit expiry requires an operator reason'') (\<lambda>_.
     bindM (reject (current_block - fa_block (ir_arrival row) < ip_expiry_blocks P)
       ''reservation is not old enough for explicit expiry'') (\<lambda>_.
     intake_transition E rid EXPIRABLE Expired ''NO_DECISION'' reason))))"

definition archivable :: "intake_store \<Rightarrow> string \<Rightarrow> CandidateRow \<Rightarrow> bool" where
  "archivable s rid c \<longleftrightarrow> cr_status c = ''held'' \<and> cr_reason c = SCHEMA3_HOLD \<and> cr_lease_id c = []
     \<and> cr_lease_expires_block c = 0 \<and> cr_settlement_evidence_digest c = [] \<and> rid \<notin> set (st_settled s)"

definition archive_schema3_migration_hold :: "py_env \<Rightarrow> string \<Rightarrow> int \<Rightarrow> string \<Rightarrow> IntakeRow intake" where
  "archive_schema3_migration_hold E rid current reason =
     bindM (reject (current < 0 \<or> reason = [] \<or> py_strip reason \<noteq> reason
         \<or> list_ex (\<lambda>c. of_char c < (32 :: nat) \<or> of_char c = (127 :: nat)) reason)
       ''schema3 archival authority is malformed'') (\<lambda>_.
     let archive_reason = SCHEMA3_ARCHIVE_PREFIX @ show_int current @ '':'' @ reason in
     bindM (reject (2048 < length archive_reason) ''schema3 archival reason is oversized'') (\<lambda>_.
     bindM (transaction (
       bindM (intake_get E rid) (\<lambda>row.
       bindM (reject (ir_status row \<noteq> Held \<or> ir_reason row \<noteq> SCHEMA3_HOLD \<or> current < fa_block (ir_arrival row))
         ''only an exact schema3 reproduction migration hold may be archived'') (\<lambda>_.
       bindM (askM (\<lambda>s. List.find (\<lambda>c. cr_reservation_id c = rid) (st_candidates s))) (\<lambda>found.
       case found of
         None \<Rightarrow> liftM (intake_fail ''schema3 migration hold lacks retained settlement authority'')
       | Some c \<Rightarrow>
           bindM (liftM (require_sha256_hex (PyStr (cr_candidate_digest c)) ''candidate_digest'')) (\<lambda>_.
           bindM (askM (\<lambda>s. archivable s rid c)) (\<lambda>fit.
           bindM (reject (\<not> fit) ''schema3 migration hold has settlement authority that cannot be archived'') (\<lambda>_.
           bindM (update_row rid (\<lambda>r. r\<lparr>ir_status := Expired, ir_decision := ''NO_DECISION'', ir_reason := archive_reason\<rparr>)) (\<lambda>_.
           modifyM (\<lambda>s. s\<lparr>st_candidates := map (\<lambda>c. if cr_reservation_id c = rid then c\<lparr>cr_reason := archive_reason\<rparr> else c)
             (st_candidates s)\<rparr>)))))))))) (\<lambda>_.
     intake_get E rid)))"

definition release_hold :: "py_env \<Rightarrow> string \<Rightarrow> string \<Rightarrow> IntakeRow intake" where
  "release_hold E rid reason =
     bindM (reject (reason = []) ''hold release requires an operator reason'') (\<lambda>_.
     bindM (transaction (
       bindM (intake_get E rid) (\<lambda>row.
       bindM (reject (ir_status row \<notin> {Held, NoDecision}) ''only held intake may be released'') (\<lambda>_.
       bindM (reject (ir_reason row = SCHEMA3_HOLD) ''legacy single-PASS settlement requires explicit archival migration'') (\<lambda>_.
       bindM (askM (\<lambda>s. length (retained_of s rid))) (\<lambda>reproductions.
       let status = (if reproductions = 1 then ReproductionPending
             else if ir_publication_digest row \<noteq> [] then Published else TransportRetry);
           attempts = (if ir_publication_digest row \<noteq> [] then ir_transport_attempts row else 0) in
       update_row rid (\<lambda>r. r\<lparr>ir_status := status, ir_decision := '''', ir_reason := reason, ir_transport_attempts := attempts,
         iw_retry_group := '''', iw_retry_position := 0, ir_qualification_authority_digest := '''', iw_authority_json := '''',
         ir_qualification_evidence_digest := ''''\<rparr>))))))) (\<lambda>_.
     intake_get E rid))"

definition recover_row :: "IntakeRow \<Rightarrow> IntakeRow" where
  "recover_row r =
     (if ir_status r \<in> {Fetching, Qualifying}
      then r\<lparr>ir_status := Held, ir_decision := ''NO_DECISION'', ir_reason := ''controller_restart_during_'' @ status_name (ir_status r)\<rparr>
      else if ir_status r = Screening
      then r\<lparr>ir_status := lane_status r, ir_decision := '''', ir_screen_status := ''retry'',
        ir_reason := ''controller_restart_during_screening''\<rparr> else r)"

definition recover_candidate :: "CandidateRow \<Rightarrow> CandidateRow" where
  "recover_candidate c =
     (if cr_status c = ''leased''
      then c\<lparr>cr_status := ''pending'', cr_lease_id := '''', cr_lease_generation := cr_lease_generation c + 1,
        cr_lease_expires_block := 0, cr_reason := ''controller_restart_during_settlement''\<rparr> else c)"

definition recover_interrupted :: "unit intake" where
  "recover_interrupted = transaction (modifyM (\<lambda>s. s\<lparr>st_rows := map recover_row (st_rows s),
     st_candidates := map recover_candidate (st_candidates s)\<rparr>))"

end
