(* ===== verification/Intake_Laws.thy ===== *)
theory Intake_Laws
  imports Intake_Qualification
begin

text \<open>
  The invariant of the intake store and the relation along which it evolves. Every operation, whether it
  returns or raises, keeps the invariant and only moves the store forward: no reservation disappears or
  changes its arrival, a decided one stays decided, the finalized cursor does not go back.
\<close>

section \<open>Programs\<close>

lemma holds_askM [simp]: "holds (askM f) s Q \<longleftrightarrow> Q (Inr (f s)) s"
  by (simp add: holds_def askM_def)

lemma holds_modifyM [simp]: "holds (modifyM f) s Q \<longleftrightarrow> Q (Inr ()) (f s)"
  by (simp add: holds_def modifyM_def)

lemma holds_reject [simp]: "holds (reject b m) s Q \<longleftrightarrow> (if b then Q (Inl (IntakeError m)) s else Q (Inr ()) s)"
  by (simp add: reject_def holds_liftM intake_fail_def)

lemma holds_transaction:
  "holds (transaction m) s Q \<longleftrightarrow> holds m s (\<lambda>r t. case r of Inl e \<Rightarrow> Q (Inl e) s | Inr x \<Rightarrow> Q (Inr x) t)"
  by (auto simp: holds_def transaction_def split: prod.splits sum.splits)

text \<open>Programs that only read.\<close>

definition pure_read :: "('s, 'a) eff \<Rightarrow> bool" where
  "pure_read m \<longleftrightarrow> (\<forall>s. snd (m s) = s)"

named_theorems reads \<open>programs that leave the state alone\<close>

lemma pure_readI [reads]:
  "pure_read (askM f)" "pure_read (liftM r)" "pure_read (retM x)" "pure_read (raiseM e)" "pure_read (reject b msg)"
  by (simp_all add: pure_read_def askM_def liftM_def retM_def raiseM_def reject_def)

lemma pure_read_bind [reads]: "pure_read m \<Longrightarrow> (\<And>x. pure_read (f x)) \<Longrightarrow> pure_read (bindM m f)"
  by (auto simp: pure_read_def bindM_def split: prod.splits sum.splits) (metis snd_conv)+

lemma pure_read_case_option [reads]: "pure_read a \<Longrightarrow> (\<And>x. pure_read (b x)) \<Longrightarrow> pure_read (case v of None \<Rightarrow> a | Some x \<Rightarrow> b x)"
  by (cases v) simp_all

lemma pure_read_mapM [reads]: "(\<And>x. pure_read (f x)) \<Longrightarrow> pure_read (mapM f xs)"
  by (induction xs) (auto intro!: reads)

lemma pure_read_get [reads]: "pure_read (intake_get E rid)"
  unfolding intake_get_def by (intro reads)

lemma pure_read_all [reads]: "pure_read (intake_all E)"
  unfolding intake_all_def by (intro reads)

lemma pure_read_copies [reads]: "pure_read (copy_predecessors E rid)"
  unfolding copy_predecessors_def by (intro reads)

lemma pure_read_stack [reads]: "pure_read (evaluation_stack E a)"
  unfolding evaluation_stack_def by (intro reads)

lemma pure_read_holds: "pure_read m \<Longrightarrow> (\<And>r. Q r s) \<Longrightarrow> holds m s Q"
  by (auto simp: pure_read_def holds_def split: prod.splits) (metis snd_conv)

section \<open>Rows\<close>

definition delta_ok :: "SubmittedDeltaFingerprint option \<Rightarrow> bool" where
  "delta_ok v \<longleftrightarrow> (case v of None \<Rightarrow> True | Some f \<Rightarrow> SubmittedDeltaFingerprint_new f = Inr f)"

lemma delta_new_eq: "SubmittedDeltaFingerprint_new f = Inr g \<Longrightarrow> g = f"
  by (auto simp: SubmittedDeltaFingerprint_new_def Let_def delta_fail_def bindE_eq_Inr split: if_splits)

definition hex_or_empty :: "string \<Rightarrow> bool" where
  "hex_or_empty v \<longleftrightarrow> v = [] \<or> is_sha256_hex v"

definition decision_text :: "string \<Rightarrow> bool" where
  "decision_text d \<longleftrightarrow> d \<in> {[], ''PASS'', ''FAIL'', ''NO_DECISION''}"

definition lane_text :: "string \<Rightarrow> bool" where
  "lane_text v \<longleftrightarrow> v \<in> {[], ''primary'', ''reproduction''}"

definition screen_text :: "string \<Rightarrow> bool" where
  "screen_text v \<longleftrightarrow> v \<in> {[], ''running'', ''promote'', ''reject'', ''retry'', ''hold''}"

lemma text_simps [simp]:
  "hex_or_empty []" "is_sha256_hex v \<Longrightarrow> hex_or_empty v" "decision_text []" "decision_text ''PASS''" "decision_text ''FAIL''"
  "decision_text ''NO_DECISION''" "lane_text ''primary''" "lane_text ''reproduction''" "screen_text ''running''" "screen_text ''retry''"
  "screen_text (promotion_value d)" "decision_text (decision_value x)"
  by (cases d; cases x; simp add: hex_or_empty_def decision_text_def lane_text_def screen_text_def)+

definition reservation_ok :: "py_env \<Rightarrow> 'a IntakeReservation_scheme \<Rightarrow> bool" where
  "reservation_ok E r \<longleftrightarrow> is_sha256_hex (ir_reservation_id r) \<and> ir_reservation_id r = reservation_id E (ir_arrival r)
     \<and> 0 \<le> ir_admission_epoch r \<and> sorted_unique (ir_target_members r)
     \<and> (\<forall>f. ir_delta_fingerprint r = Some f \<longrightarrow> df_target_id f = ir_target_id r \<and> df_members f = ir_target_members r)
     \<and> 0 \<le> ir_transport_attempts r
     \<and> hex_or_empty (ir_publication_digest r) \<and> hex_or_empty (ir_qualification_authority_digest r)
     \<and> hex_or_empty (ir_qualification_evidence_digest r) \<and> hex_or_empty (ir_arena_service_digest r)
     \<and> decision_text (ir_decision r) \<and> lane_text (ir_screen_lane r) \<and> screen_text (ir_screen_status r)
     \<and> 0 \<le> ir_screen_stage_count r \<and> 0 \<le> ir_screen_attempts r"

lemma intake_fail_simps [err_simps]:
  "(if b then intake_fail m else k) = Inr y \<longleftrightarrow> \<not> b \<and> k = Inr y" "intake_fail m \<noteq> Inr x"
  by (simp_all add: intake_fail_def)

lemma require_hex_eq [err_simps]: "require_sha256_hex (PyStr d) field = Inr x \<longleftrightarrow> x = d \<and> is_sha256_hex d"
  by (auto simp: require_sha256_hex_def)

lemma reservation_new_iff: "IntakeReservation_new E r = Inr r' \<longleftrightarrow> r' = r \<and> reservation_ok E r"
  by (auto simp: IntakeReservation_new_def reservation_ok_def bindE_eq_Inr require_hex_eq intake_fail_simps not_less
      hex_or_empty_def decision_text_def lane_text_def screen_text_def split: option.splits if_splits)

lemma arrival_new_eq: "FinalizedArrival_new E a = Inr b \<Longrightarrow> b = a\<lparr>fa_payload_digest := fa_payload_digest b\<rparr> \<and> FinalizedArrival_new E b = Inr b"
  by (auto simp: FinalizedArrival_new_def Let_def bindE_eq_Inr require_hex_eq intake_fail_simps split: if_splits)

definition intake_row_ok :: "py_env \<Rightarrow> IntakeRow \<Rightarrow> bool" where
  "intake_row_ok E r \<longleftrightarrow> delta_ok (ir_delta_fingerprint r) \<and> FinalizedArrival_new E (ir_arrival r) = Inr (ir_arrival r) \<and> reservation_ok E r"

lemma intake_row_ok_reopen: "intake_row_ok E r \<Longrightarrow> reopen_row E r = Inr r"
  by (auto simp: intake_row_ok_def reopen_row_def delta_ok_def reservation_new_iff split: option.splits)

section \<open>The invariant\<close>

definition progress :: "intake_store \<Rightarrow> IntakeRow \<Rightarrow> bool" where
  "progress s r \<longleftrightarrow>
     (let n = length (retained_of s (ir_reservation_id r)); known = (ir_delta_fingerprint r \<noteq> None) in
      (ir_publication_digest r \<noteq> [] \<longleftrightarrow> known) \<and>
      (case ir_status r of
         Reserved \<Rightarrow> \<not> known \<and> n = 0
       | Fetching \<Rightarrow> \<not> known \<and> n = 0
       | TransportRetry \<Rightarrow> \<not> known \<and> n = 0
       | Published \<Rightarrow> known \<and> n = 0
       | ReproductionPending \<Rightarrow> known \<and> n = 1
       | Screening \<Rightarrow> known \<and> (ir_screen_lane r = ''primary'' \<and> n = 0 \<or> ir_screen_lane r = ''reproduction'' \<and> n = 1)
       | Promoted \<Rightarrow> known \<and> (ir_screen_lane r = ''primary'' \<and> n = 0 \<or> ir_screen_lane r = ''reproduction'' \<and> n = 1)
       | Qualifying \<Rightarrow> known \<and> (ir_screen_lane r = ''primary'' \<and> n = 0 \<or> ir_screen_lane r = ''reproduction'' \<and> n = 1)
       | NoDecision \<Rightarrow> known \<and> n \<le> 1
       | Held \<Rightarrow> n \<le> 1 \<and> (\<not> known \<longrightarrow> n = 0)
       | Qualified \<Rightarrow> known \<and> n = 2
       | Failed \<Rightarrow> True
       | Expired \<Rightarrow> True))"

text \<open>Two retained passes of a reservation are a primary run and an independent reproduction of it, and stand as a candidate.\<close>

definition backed :: "py_env \<Rightarrow> intake_store \<Rightarrow> string \<Rightarrow> bool" where
  "backed E s rid \<longleftrightarrow> (\<exists>first second p q c row. retained_of s rid = [first, second]
     \<and> SettlementQualification_from_dict E (py_of_json (rq_qualification_json first)) = Inr p
     \<and> SettlementQualification_digest E p = rq_qualification_digest first
     \<and> SettlementQualification_digest E q = rq_qualification_digest second
     \<and> from_reproductions p q = Inr c
     \<and> row \<in> set (st_candidates s) \<and> cr_reservation_id row = rid
     \<and> cr_candidate_digest row = SettlementCandidate_digest E c)"

definition retained_ok :: "py_env \<Rightarrow> intake_store \<Rightarrow> bool" where
  "retained_ok E s \<longleftrightarrow> (\<forall>q \<in> set (st_retained s). 0 \<le> rq_retained_block q)
     \<and> (\<forall>rid. let n = length (retained_of s rid) in n \<le> 2 \<and> map rq_reproduction_index (retained_of s rid) = map int [0..<n]
        \<and> (n = 2 \<longrightarrow> backed E s rid))
     \<and> (\<forall>c \<in> set (st_candidates s). length (retained_of s (cr_reservation_id c)) = 2)"

definition queued :: "intake_store \<Rightarrow> int" where
  "queued s = int (length (filter unresolved (st_rows s)))"

definition intake_ok :: "py_env \<Rightarrow> IntakePolicy \<Rightarrow> intake_store \<Rightarrow> bool" where
  "intake_ok E P s \<longleftrightarrow> distinct (map ir_reservation_id (st_rows s)) \<and> (\<forall>r \<in> set (st_rows s). intake_row_ok E r \<and> progress s r)
     \<and> queued s \<le> ip_max_pending P \<and> retained_ok E s
     \<and> rq_reservation_id ` set (st_retained s) \<subseteq> ir_reservation_id ` set (st_rows s)"

definition row_step :: "IntakeRow \<Rightarrow> IntakeRow \<Rightarrow> bool" where
  "row_step r r' \<longleftrightarrow> ir_reservation_id r' = ir_reservation_id r \<and> ir_arrival r' = ir_arrival r
     \<and> ir_admission_epoch r' = ir_admission_epoch r
     \<and> (ir_status r \<in> {Failed, Expired} \<longrightarrow> r' = r) \<and> (ir_status r = Qualified \<longrightarrow> ir_status r' \<in> {Qualified, Failed})"

definition evolves :: "intake_store \<Rightarrow> intake_store \<Rightarrow> bool" where
  "evolves s t \<longleftrightarrow> length (st_rows s) \<le> length (st_rows t) \<and> list_all2 row_step (st_rows s) (take (length (st_rows s)) (st_rows t))
     \<and> (\<forall>b h. st_cursor s = Some (b, h) \<longrightarrow> (\<exists>b' h'. st_cursor t = Some (b', h') \<and> b \<le> b' \<and> (b = b' \<longrightarrow> h = h')))
     \<and> (\<exists>more. st_retained t = st_retained s @ more)"

lemma row_step_refl [simp]: "row_step r r"
  by (simp add: row_step_def)

lemma row_step_trans: "row_step a b \<Longrightarrow> row_step b c \<Longrightarrow> row_step a c"
  by (auto simp: row_step_def)

lemma forward_refl [simp]: "evolves s s"
  by (simp add: evolves_def list.rel_refl)

lemma forward_trans:
  assumes "evolves s t" and "evolves t u"
  shows "evolves s u"
proof -
  let ?n = "length (st_rows s)"
  have "list_all2 row_step (take ?n (st_rows t)) (take ?n (take (length (st_rows t)) (st_rows u)))"
    using assms(2) unfolding evolves_def by (intro list_all2_takeI) blast
  then have "list_all2 row_step (take ?n (st_rows t)) (take ?n (st_rows u))"
    using assms(1) by (simp add: evolves_def min_def)
  then have "list_all2 row_step (st_rows s) (take ?n (st_rows u))"
    using assms(1) list_all2_trans [of row_step row_step row_step] row_step_trans unfolding evolves_def by blast
  then show ?thesis using assms unfolding evolves_def by (fastforce intro: order_trans)
qed

section \<open>Changing rows\<close>

lemma retained_of_rows [simp]:
  "retained_of (s\<lparr>st_rows := v\<rparr>) = retained_of s" "retained_of (s\<lparr>st_screens := w\<rparr>) = retained_of s"
  "retained_of (s\<lparr>st_dispositions := d\<rparr>) = retained_of s" "retained_of (s\<lparr>st_cursor := c\<rparr>) = retained_of s"
  "retained_of (s\<lparr>st_stacks := k\<rparr>) = retained_of s" "retained_of (s\<lparr>st_candidates := m\<rparr>) = retained_of s"
  by (simp_all add: retained_of_def fun_eq_iff)

lemma progress_rows [simp]:
  "progress (s\<lparr>st_rows := v\<rparr>) = progress s" "progress (s\<lparr>st_screens := w\<rparr>) = progress s"
  "progress (s\<lparr>st_dispositions := d\<rparr>) = progress s" "progress (s\<lparr>st_cursor := c\<rparr>) = progress s"
  "progress (s\<lparr>st_stacks := k\<rparr>) = progress s" "progress (s\<lparr>st_candidates := m\<rparr>) = progress s"
  by (simp_all add: progress_def fun_eq_iff)

lemma retained_ok_rows [simp]:
  "retained_ok E (s\<lparr>st_rows := v\<rparr>) = retained_ok E s" "retained_ok E (s\<lparr>st_screens := w\<rparr>) = retained_ok E s"
  "retained_ok E (s\<lparr>st_dispositions := d\<rparr>) = retained_ok E s" "retained_ok E (s\<lparr>st_cursor := c\<rparr>) = retained_ok E s"
  "retained_ok E (s\<lparr>st_stacks := k\<rparr>) = retained_ok E s"
  by (simp_all add: retained_ok_def backed_def Let_def)

lemma intake_ok_tables [simp]:
  "intake_ok E P (s\<lparr>st_screens := w\<rparr>) = intake_ok E P s" "intake_ok E P (s\<lparr>st_dispositions := d\<rparr>) = intake_ok E P s"
  "intake_ok E P (s\<lparr>st_cursor := c\<rparr>) = intake_ok E P s" "intake_ok E P (s\<lparr>st_stacks := k\<rparr>) = intake_ok E P s"
  by (simp_all add: intake_ok_def queued_def)

lemma evolves_tables [simp]:
  "evolves s (t\<lparr>st_screens := w\<rparr>) = evolves s t" "evolves s (t\<lparr>st_dispositions := d\<rparr>) = evolves s t"
  "evolves s (t\<lparr>st_stacks := k\<rparr>) = evolves s t" "evolves s (t\<lparr>st_candidates := m\<rparr>) = evolves s t"
  "evolves (s\<lparr>st_screens := w\<rparr>) t = evolves s t" "evolves (s\<lparr>st_dispositions := d\<rparr>) t = evolves s t"
  by (simp_all add: evolves_def)

definition row_change :: "py_env \<Rightarrow> intake_store \<Rightarrow> IntakeRow \<Rightarrow> IntakeRow \<Rightarrow> bool" where
  "row_change E s r r' \<longleftrightarrow> row_step r r' \<and> intake_row_ok E r' \<and> progress s r' \<and> (unresolved r' \<longrightarrow> unresolved r)"

lemma map_rows_ok:
  assumes ok: "intake_ok E P s" and change: "\<And>r. r \<in> set (st_rows s) \<Longrightarrow> row_change E s r (g r)"
  shows "intake_ok E P (s\<lparr>st_rows := map g (st_rows s)\<rparr>) \<and> evolves s (s\<lparr>st_rows := map g (st_rows s)\<rparr>)"
proof -
  have ids: "map ir_reservation_id (map g (st_rows s)) = map ir_reservation_id (st_rows s)"
    using change by (simp add: row_change_def row_step_def)
  have ids_set: "ir_reservation_id ` g ` set (st_rows s) = ir_reservation_id ` set (st_rows s)"
    using arg_cong [OF ids, of set] by (simp add: image_image)
  have "length (filter unresolved (map g rs)) \<le> length (filter unresolved rs)" if "set rs \<subseteq> set (st_rows s)" for rs
    using that
  proof (induction rs)
    case (Cons r rs)
    then show ?case using change [of r] by (auto simp: row_change_def)
  qed simp
  then have "queued (s\<lparr>st_rows := map g (st_rows s)\<rparr>) \<le> queued s" by (simp add: queued_def)
  then have "intake_ok E P (s\<lparr>st_rows := map g (st_rows s)\<rparr>)"
    using ok ids ids_set change by (simp add: intake_ok_def row_change_def del: map_map)
  moreover have "list_all2 row_step (st_rows s) (map g (st_rows s))"
    using change by (auto simp: list_all2_conv_all_nth row_change_def)
  then have "evolves s (s\<lparr>st_rows := map g (st_rows s)\<rparr>)" by (simp add: evolves_def)
  ultimately show ?thesis ..
qed

lemma stored_row_Some: "stored_row rid s = Some r \<Longrightarrow> r \<in> set (st_rows s) \<and> ir_reservation_id r = rid"
  by (auto simp: stored_row_def find_Some_iff)

lemma okD:
  assumes "intake_ok E P s" and "stored_row rid s = Some r"
  shows "intake_row_ok E r" "progress s r" "ir_reservation_id r = rid"
  using assms stored_row_Some [OF assms(2)] by (auto simp: intake_ok_def)

lemma row_change_refl: "intake_ok E P s \<Longrightarrow> r \<in> set (st_rows s) \<Longrightarrow> row_change E s r r"
  by (simp add: intake_ok_def row_change_def)

lemma stored_row_member: "intake_ok E P s \<Longrightarrow> r \<in> set (st_rows s) \<Longrightarrow> stored_row (ir_reservation_id r) s = Some r"
proof -
  assume ok: "intake_ok E P s" and r: "r \<in> set (st_rows s)"
  then obtain x where x: "stored_row (ir_reservation_id r) s = Some x"
    using find_None_iff [of "\<lambda>x. ir_reservation_id x = ir_reservation_id r" "st_rows s"] unfolding stored_row_def by fastforce
  moreover have "inj_on ir_reservation_id (set (st_rows s))" using ok by (simp add: intake_ok_def distinct_map)
  ultimately show ?thesis using stored_row_Some [OF x] r by (auto dest: inj_onD)
qed

lemma update_ok:
  assumes ok: "intake_ok E P s" and found: "stored_row rid s = Some r" and change: "row_change E s r (f r)"
  shows "intake_ok E P (s\<lparr>st_rows := map (\<lambda>x. if ir_reservation_id x = rid then f x else x) (st_rows s)\<rparr>) \<and>
    evolves s (s\<lparr>st_rows := map (\<lambda>x. if ir_reservation_id x = rid then f x else x) (st_rows s)\<rparr>)"
proof (rule map_rows_ok [OF ok])
  fix x assume x: "x \<in> set (st_rows s)"
  then have "ir_reservation_id x = rid \<Longrightarrow> x = r" using stored_row_member [OF ok x] found by simp
  then show "row_change E s x (if ir_reservation_id x = rid then f x else x)" using change row_change_refl [OF ok x] by auto
qed

section \<open>Safe programs\<close>

definition safe :: "py_env \<Rightarrow> IntakePolicy \<Rightarrow> (intake_store, 'a) eff \<Rightarrow> bool" where
  "safe E P m \<longleftrightarrow> (\<forall>s. intake_ok E P s \<longrightarrow> holds m s (\<lambda>_ t. intake_ok E P t \<and> evolves s t))"

lemma safe_read: "pure_read m \<Longrightarrow> safe E P m"
  by (simp add: safe_def pure_read_holds)

lemma safe_leaves:
  "safe E P (askM f)" "safe E P (liftM r)" "safe E P (retM x)" "safe E P (raiseM e)" "safe E P (reject b msg)"
  "safe E P (intake_get E' rid)" "safe E P (intake_all E')" "safe E P (copy_predecessors E' rid)" "safe E P (evaluation_stack E' a)"
  by (intro safe_read reads)+

lemma safe_bind: "safe E P m \<Longrightarrow> (\<And>x. safe E P (f x)) \<Longrightarrow> safe E P (bindM m f)"
  unfolding safe_def
proof (intro allI impI)
  fix s assume m: "\<forall>s. intake_ok E P s \<longrightarrow> holds m s (\<lambda>_ t. intake_ok E P t \<and> evolves s t)"
    and f: "\<And>x. \<forall>s. intake_ok E P s \<longrightarrow> holds (f x) s (\<lambda>_ t. intake_ok E P t \<and> evolves s t)" and ok: "intake_ok E P s"
  show "holds (bindM m f) s (\<lambda>_ t. intake_ok E P t \<and> evolves s t)"
    unfolding holds_bindM
  proof (rule holds_mono [OF m [rule_format, OF ok]])
    fix r t assume t: "intake_ok E P t \<and> evolves s t"
    have "holds (f x) t (\<lambda>_ u. intake_ok E P u \<and> evolves s u)" for x
      using f [of x] t by (auto intro: holds_mono forward_trans)
    then show "case r of Inl e \<Rightarrow> intake_ok E P t \<and> evolves s t | Inr x \<Rightarrow> holds (f x) t (\<lambda>_ u. intake_ok E P u \<and> evolves s u)"
      using t by (auto split: sum.splits)
  qed
qed

lemma safe_transaction: "safe E P m \<Longrightarrow> safe E P (transaction m)"
  unfolding safe_def holds_transaction by (auto elim!: holds_mono split: sum.splits)

lemma safe_foldM: "(\<And>x b. x \<in> set xs \<Longrightarrow> safe E P (f x b)) \<Longrightarrow> safe E P (foldM f xs b)"
proof (induction xs arbitrary: b)
  case (Cons x xs)
  then show ?case by (auto intro: safe_bind)
qed (simp add: safe_leaves)

lemma safe_mapM: "(\<And>x. pure_read (f x)) \<Longrightarrow> safe E P (mapM f xs)"
  by (intro safe_read reads)

text \<open>A transaction that reads one row, checks it and changes it.\<close>

lemma safe_row:
  assumes "\<And>s r. intake_ok E P s \<Longrightarrow> stored_row rid s = Some r \<Longrightarrow>
      holds (body r) s (\<lambda>v t. case v of Inl _ \<Rightarrow> True | Inr _ \<Rightarrow> intake_ok E P t \<and> evolves s t)"
  shows "safe E P (transaction (bindM (intake_get E rid) body))"
  unfolding safe_def
proof (intro allI impI)
  fix s assume ok: "intake_ok E P s"
  show "holds (transaction (bindM (intake_get E rid) body)) s (\<lambda>_ t. intake_ok E P t \<and> evolves s t)"
  proof (cases "stored_row rid s")
    case None
    then show ?thesis using ok by (simp add: holds_transaction holds_bindM intake_get_def holds_liftM intake_fail_def)
  next
    case (Some r)
    have "reopen_row E r = Inr r" using okD(1) [OF ok Some] by (rule intake_row_ok_reopen)
    moreover have "holds (body r) s (\<lambda>v t. case v of Inl e \<Rightarrow> intake_ok E P s \<and> evolves s s | Inr x \<Rightarrow> intake_ok E P t \<and> evolves s t)"
      using assms [OF ok Some] by (rule holds_mono) (auto simp: ok split: sum.splits)
    ultimately show ?thesis by (simp add: holds_transaction holds_bindM intake_get_def holds_liftM Some)
  qed
qed

lemma holds_update_row [simp]:
  "holds (update_row rid f) s Q \<longleftrightarrow>
     Q (Inr ()) (s\<lparr>st_rows := map (\<lambda>x. if ir_reservation_id x = rid then f x else x) (st_rows s)\<rparr>)"
  by (simp add: update_row_def)

lemmas row_defs = row_change_def row_step_def intake_row_ok_def reservation_ok_def unresolved_def progress_def

section \<open>Transport\<close>

lemma safe_transition:
  assumes "\<And>s r. intake_ok E P s \<Longrightarrow> stored_row rid s = Some r \<Longrightarrow> ir_status r \<in> set expected \<Longrightarrow>
      row_change E s r (r\<lparr>ir_status := status, ir_decision := decision, ir_reason := reason, ir_qualification_evidence_digest := ''''\<rparr>)"
  shows "safe E P (intake_transition E rid expected status decision reason)"
  unfolding intake_transition_def
proof (intro safe_bind safe_leaves safe_row)
  fix s r assume ok: "intake_ok E P s" and found: "stored_row rid s = Some r"
  show "holds (bindM (reject (ir_status r \<notin> set expected)
      (''intake transition from '' @ show_name (status_name (ir_status r)) @ '' is forbidden'')) (\<lambda>_. update_row rid (\<lambda>r. r\<lparr>ir_status := status,
      ir_decision := decision, ir_reason := reason, ir_qualification_evidence_digest := ''''\<rparr>))) s
      (\<lambda>v t. case v of Inl _ \<Rightarrow> True | Inr _ \<Rightarrow> intake_ok E P t \<and> evolves s t)"
    using update_ok [OF ok found, of "\<lambda>r. r\<lparr>ir_status := status, ir_decision := decision, ir_reason := reason,
      ir_qualification_evidence_digest := ''''\<rparr>"] assms [OF ok found] by (simp add: holds_bindM)
qed

end
