(* ===== verification/Intake_Steps.thy ===== *)
theory Intake_Steps
  imports Intake_Laws
begin

text \<open>Every operation of the store, one lemma each: it keeps the invariant and moves the store forward.\<close>

section \<open>Transitions\<close>

lemma intake_row_ok_columns:
  "intake_row_ok E r \<Longrightarrow> 0 \<le> ir_transport_attempts r \<and> hex_or_empty (ir_qualification_authority_digest r)
     \<and> hex_or_empty (ir_qualification_evidence_digest r) \<and> hex_or_empty (ir_arena_service_digest r) \<and> decision_text (ir_decision r)
     \<and> lane_text (ir_screen_lane r) \<and> screen_text (ir_screen_status r) \<and> 0 \<le> ir_screen_stage_count r \<and> 0 \<le> ir_screen_attempts r"
  by (simp add: intake_row_ok_def reservation_ok_def)

text \<open>A change that keeps what was submitted.\<close>

definition keeps_submission :: "IntakeRow \<Rightarrow> IntakeRow \<Rightarrow> bool" where
  "keeps_submission r r' \<longleftrightarrow> ir_reservation_id r' = ir_reservation_id r \<and> ir_arrival r' = ir_arrival r
     \<and> ir_admission_epoch r' = ir_admission_epoch r \<and> ir_target_id r' = ir_target_id r \<and> ir_target_members r' = ir_target_members r
     \<and> ir_delta_fingerprint r' = ir_delta_fingerprint r \<and> ir_publication_digest r' = ir_publication_digest r"

definition columns_ok :: "IntakeRow \<Rightarrow> bool" where
  "columns_ok r \<longleftrightarrow> 0 \<le> ir_transport_attempts r \<and> hex_or_empty (ir_qualification_authority_digest r)
     \<and> hex_or_empty (ir_qualification_evidence_digest r) \<and> hex_or_empty (ir_arena_service_digest r) \<and> decision_text (ir_decision r)
     \<and> lane_text (ir_screen_lane r) \<and> screen_text (ir_screen_status r) \<and> 0 \<le> ir_screen_stage_count r \<and> 0 \<le> ir_screen_attempts r"

lemma keeps_change:
  assumes "intake_row_ok E r" and "keeps_submission r r'" and "columns_ok r'" and "progress s r'"
    and "ir_status r \<notin> {Failed, Expired}" and "ir_status r = Qualified \<longrightarrow> ir_status r' = Failed" and "unresolved r' \<longrightarrow> unresolved r"
  shows "row_change E s r r'"
  using assms unfolding row_change_def row_step_def intake_row_ok_def reservation_ok_def columns_ok_def keeps_submission_def by auto

lemmas change_defs = keeps_submission_def columns_ok_def progress_def Let_def unresolved_def

lemma row_changeI: "row_step r r' \<Longrightarrow> intake_row_ok E r' \<Longrightarrow> progress s r' \<Longrightarrow> (unresolved r' \<Longrightarrow> unresolved r) \<Longrightarrow> row_change E s r r'"
  by (simp add: row_change_def)

lemma terminal_change:
  assumes "intake_ok E P s" and "stored_row rid s = Some r" and "ir_status r \<notin> {Failed, Expired}"
    and "status = Failed \<or> status = Expired \<and> ir_status r \<noteq> Qualified" and "decision \<in> {'''', ''FAIL'', ''NO_DECISION''}"
  shows "row_change E s r (r\<lparr>ir_status := status, ir_decision := decision, ir_reason := reason, ir_qualification_evidence_digest := ''''\<rparr>)"
  using okD [OF assms(1,2)] assms(3-5) by (auto simp: row_defs Let_def)

lemma held_change:
  assumes "intake_ok E P s" and "stored_row rid s = Some r" and "unresolved r"
  shows "row_change E s r (r\<lparr>ir_status := Held, ir_decision := ''NO_DECISION'', ir_reason := reason, ir_qualification_evidence_digest := ''''\<rparr>)"
proof (rule row_changeI)
  show "progress s (r\<lparr>ir_status := Held, ir_decision := ''NO_DECISION'', ir_reason := reason, ir_qualification_evidence_digest := ''''\<rparr>)"
    using okD(2) [OF assms(1,2)] assms(3) by (cases "ir_status r") (auto simp: progress_def Let_def unresolved_def)
qed (use okD(1) [OF assms(1,2)] assms(3) in \<open>auto simp: row_step_def intake_row_ok_def reservation_ok_def unresolved_def\<close>)

lemma safe_mark_failed: "safe E P (mark_failed E rid reason)"
  unfolding mark_failed_def by (rule safe_transition) (auto intro!: terminal_change)

lemma safe_mark_held: "safe E P (mark_held E rid reason)"
  unfolding mark_held_def by (rule safe_transition) (auto intro!: held_change simp: unresolved_def)

lemma safe_expire: "safe E P (expire E P rid block reason)"
  unfolding expire_def by (intro safe_bind safe_leaves safe_transition) (auto intro!: terminal_change simp: EXPIRABLE_def)

lemma safe_mark_copy: "safe E P (mark_copy E rid pid)"
  unfolding mark_copy_def by (intro safe_bind safe_leaves safe_transition) (auto intro!: terminal_change)

lemma safe_mark_transport_retry: "safe E P (mark_transport_retry E P rid reason)"
proof -
  have retry: "row_change E s r (r\<lparr>ir_status := TransportRetry, ir_decision := ''NO_DECISION'', ir_reason := reason,
      ir_qualification_evidence_digest := ''''\<rparr>)" if "intake_ok E P s" "stored_row rid s = Some r" "ir_status r = Fetching" for s r
    using okD [OF that(1,2)] that(3) by (auto simp: row_defs Let_def)
  show ?thesis unfolding mark_transport_retry_def Let_def
    by (intro safe_bind safe_leaves) (auto intro!: safe_transition held_change retry simp: unresolved_def)
qed

text \<open>Operations of the shape: read one row, refuse unless it is fit, change it.\<close>

lemma safe_guarded:
  assumes "\<And>s r. intake_ok E P s \<Longrightarrow> stored_row rid s = Some r \<Longrightarrow> \<not> bad r \<Longrightarrow> row_change E s r (f r r)"
  shows "safe E P (transaction (bindM (intake_get E rid) (\<lambda>row. bindM (reject (bad row) (msg row)) (\<lambda>_. update_row rid (f row)))))"
proof (rule safe_row)
  fix s r assume ok: "intake_ok E P s" and found: "stored_row rid s = Some r"
  show "holds (bindM (reject (bad r) (msg r)) (\<lambda>_. update_row rid (f r))) s
      (\<lambda>v t. case v of Inl _ \<Rightarrow> True | Inr _ \<Rightarrow> intake_ok E P t \<and> evolves s t)"
    using update_ok [OF ok found, of "f r"] assms [OF ok found] by (simp add: holds_bindM)
qed

lemma safe_mark_fetching: "safe E P (mark_fetching E P rid)"
  unfolding mark_fetching_def Let_def
proof (intro safe_bind safe_leaves safe_guarded)
  fix s r assume ok: "intake_ok E P s" and found: "stored_row rid s = Some r" and st: "\<not> ir_status r \<notin> {Reserved, TransportRetry}"
  show "row_change E s r (r\<lparr>ir_status := if ir_transport_attempts r + 1 \<le> ip_max_transport_retries P then Fetching else Held,
      ir_transport_attempts := ir_transport_attempts r + 1,
      ir_reason := if ir_transport_attempts r + 1 \<le> ip_max_transport_retries P then '''' else ''transport_retry_limit''\<rparr>)"
    using okD(2) [OF ok found] intake_row_ok_columns [OF okD(1) [OF ok found]] st
    by (intro keeps_change [OF okD(1) [OF ok found]]) (auto simp: change_defs)
qed

lemma safe_mark_qualifying: "safe E P (mark_qualifying E rid digest manifest)"
proof -
  have "safe E P (transaction (bindM (intake_get E rid) (\<lambda>row.
      bindM (reject (ir_status row \<noteq> Promoted \<or> ir_screen_status row \<noteq> ''promote'') msg) (\<lambda>_.
      update_row rid (\<lambda>r. r\<lparr>ir_status := Qualifying, ir_qualification_authority_digest := digest, iw_authority_json := json,
        ir_decision := '''', ir_reason := ''''\<rparr>)))))" if hex: "is_sha256_hex digest" for msg json
  proof (rule safe_guarded)
    fix s r assume ok: "intake_ok E P s" and found: "stored_row rid s = Some r"
      and st: "\<not> (ir_status r \<noteq> Promoted \<or> ir_screen_status r \<noteq> ''promote'')"
    show "row_change E s r (r\<lparr>ir_status := Qualifying, ir_qualification_authority_digest := digest, iw_authority_json := json,
        ir_decision := '''', ir_reason := ''''\<rparr>)"
      using okD [OF ok found] st hex by (auto simp: row_defs Let_def)
  qed
  then have inner: "safe E P (bindM (reject (manifest = []) m1) (\<lambda>_. bindM (reject (1048576 < length (ascii_json (JObj manifest))) m2) (\<lambda>_.
      bindM (transaction (bindM (intake_get E rid) (\<lambda>row.
      bindM (reject (ir_status row \<noteq> Promoted \<or> ir_screen_status row \<noteq> ''promote'') m3) (\<lambda>_.
      update_row rid (\<lambda>r. r\<lparr>ir_status := Qualifying, ir_qualification_authority_digest := digest,
        iw_authority_json := ascii_json (JObj manifest), ir_decision := '''', ir_reason := ''''\<rparr>))))) (\<lambda>_. intake_get E rid))))"
    if "is_sha256_hex digest" for m1 m2 m3
    using that by (intro safe_bind safe_leaves)
  show ?thesis
  proof (cases "is_sha256_hex digest")
    case True
    then show ?thesis unfolding mark_qualifying_def Let_def by (intro safe_bind [OF safe_leaves(2)] inner)
  next
    case False
    then show ?thesis unfolding mark_qualifying_def safe_def
      by (simp add: holds_bindM holds_liftM require_sha256_hex_def)
  qed
qed

lemma hex_or_fail:
  assumes "is_sha256_hex d \<Longrightarrow> safe E P m"
  shows "safe E P (bindM (liftM (require_sha256_hex (PyStr d) field)) (\<lambda>_. m))"
proof (cases "is_sha256_hex d")
  case True
  then show ?thesis using assms by (intro safe_bind safe_leaves)
next
  case False
  then show ?thesis by (simp add: safe_def holds_bindM holds_liftM require_sha256_hex_def)
qed

lemmas update_keeps = update_ok [THEN conjunct1] update_ok [THEN conjunct2]

lemma update_screens:
  assumes "intake_ok E P s" and "stored_row rid s = Some r" and "row_change E s r (f r)"
  shows "intake_ok E P (s\<lparr>st_screens := w, st_rows := map (\<lambda>x. if ir_reservation_id x = rid then f x else x) (st_rows s)\<rparr>)"
    "evolves s (s\<lparr>st_screens := w, st_rows := map (\<lambda>x. if ir_reservation_id x = rid then f x else x) (st_rows s)\<rparr>)"
  using update_ok [OF assms(1,2), of f] assms(3) by (simp_all add: intake_ok_def evolves_def queued_def)

lemma update_dispositions:
  assumes "intake_ok E P s" and "stored_row rid s = Some r" and "row_change E s r (f r)"
  shows "intake_ok E P (s\<lparr>st_dispositions := w, st_rows := map (\<lambda>x. if ir_reservation_id x = rid then f x else x) (st_rows s)\<rparr>)"
    "evolves s (s\<lparr>st_dispositions := w, st_rows := map (\<lambda>x. if ir_reservation_id x = rid then f x else x) (st_rows s)\<rparr>)"
  using update_ok [OF assms(1,2), of f] assms(3) by (simp_all add: intake_ok_def evolves_def queued_def)

section \<open>Publication and screening\<close>

lemma safe_mark_published:
  assumes f: "SubmittedDeltaFingerprint_new f = Inr f"
  shows "safe E P (mark_published E P rid f digest pubroot)"
  unfolding mark_published_def
proof (intro hex_or_fail safe_bind safe_leaves safe_row)
  fix s r assume ok: "intake_ok E P s" and found: "stored_row rid s = Some r" and hex: "is_sha256_hex digest"
  have change: "row_change E s r (r\<lparr>ir_status := status, ir_target_id := df_target_id f, ir_target_members := df_members f,
      ir_delta_fingerprint := Some f, ir_publication_digest := digest, ir_publication_root := pubroot,
      ir_decision := decision, ir_reason := reason\<rparr>)"
    if "ir_status r = Fetching" "status \<in> {Failed, Published}" "decision_text decision" for status decision reason
  proof -
    have "sorted_unique (df_members f)" "digest \<noteq> []"
      using f hex by (auto simp: SubmittedDeltaFingerprint_new_def Let_def delta_fail_def split: if_splits)
    then show ?thesis using okD [OF ok found] that f hex
      by (auto simp: row_change_def row_step_def intake_row_ok_def reservation_ok_def progress_def unresolved_def delta_ok_def Let_def)
  qed
  show "holds (bindM (reject (ir_status r \<noteq> Fetching) ''publication requires an active transport'') (\<lambda>_.
       bindM (askM (\<lambda>s. int (length (filter (\<lambda>x. ir_admission_epoch x = ir_admission_epoch r \<and> ir_target_id x = df_target_id f) (st_rows s))))) (\<lambda>count.
       let verdict = (if ip_max_per_target_epoch P \<le> count then (Failed, '''', ''target_epoch_admission_limit'') else (Published, '''', '''')) in
       bindM (if df_product_kind f = ''discovery'' then awarded_or_duplicate E r f verdict else retM verdict)
         (\<lambda>(status, decision, reason).
       update_row rid (\<lambda>r. r\<lparr>ir_status := status, ir_target_id := df_target_id f, ir_target_members := df_members f,
         ir_delta_fingerprint := Some f, ir_publication_digest := digest, ir_publication_root := pubroot,
         ir_decision := decision, ir_reason := reason\<rparr>))))) s
      (\<lambda>v t. case v of Inl _ \<Rightarrow> True | Inr _ \<Rightarrow> intake_ok E P t \<and> evolves s t)"
    by (auto simp: holds_bindM Let_def awarded_or_duplicate_def intake_all_def holds_liftM split: sum.splits
        intro!: change update_keeps [OF ok found])
qed

lemma safe_begin_screen: "safe E P (begin_screen E rid digest)"
  unfolding begin_screen_def
proof (intro hex_or_fail safe_bind safe_leaves safe_row)
  fix s r assume ok: "intake_ok E P s" and found: "stored_row rid s = Some r" and hex: "is_sha256_hex digest"
  have change: "row_change E s r (r\<lparr>ir_status := Screening, ir_arena_service_digest := digest,
      ir_screen_lane := lane, ir_screen_status := ''running'',
      ir_screen_stage_count := 0, ir_screen_attempts := int n + 1, ir_decision := '''', ir_reason := ''''\<rparr>)"
    if "ir_status r = Published \<and> lane = ''primary'' \<or> ir_status r = ReproductionPending \<and> lane = ''reproduction''" for n lane
    using that okD(2) [OF ok found] intake_row_ok_columns [OF okD(1) [OF ok found]] hex
    by (intro keeps_change [OF okD(1) [OF ok found]]) (auto simp: change_defs)
  show "holds (bindM (reject (ir_status r \<notin> {Published, ReproductionPending}) ''only screenable intake may begin arena screening'') (\<lambda>_.
       let lane = (if ir_status r = ReproductionPending then ''reproduction'' else ''primary'') in
       bindM (askM (\<lambda>s. int (length (filter (\<lambda>d. sd_reservation_id d = rid) (st_screens s))))) (\<lambda>attempts.
       update_row rid (\<lambda>r. r\<lparr>ir_status := Screening, ir_arena_service_digest := digest, ir_screen_lane := lane,
         ir_screen_status := ''running'', ir_screen_stage_count := 0, ir_screen_attempts := attempts + 1,
         ir_decision := '''', ir_reason := ''''\<rparr>)))) s
      (\<lambda>v t. case v of Inl _ \<Rightarrow> True | Inr _ \<Rightarrow> intake_ok E P t \<and> evolves s t)"
    by (auto simp: holds_bindM Let_def intro!: change update_keeps [OF ok found])
qed

lemma safe_apply_screen_receipt: "safe E P (apply_screen_receipt E rid digest receipt)"
  unfolding apply_screen_receipt_def
proof (intro hex_or_fail safe_bind safe_leaves safe_row)
  fix s r assume ok: "intake_ok E P s" and found: "stored_row rid s = Some r"
  have change: "row_change E s r (r\<lparr>ir_status := status, ir_screen_status := promotion_value d, ir_screen_stage_count := int n,
      ir_decision := decision, ir_reason := reason\<rparr>)"
    if "ir_status r = Screening" "screen_verdict r d = (status, decision, reason)" for status decision reason d n
    using that okD(2) [OF ok found] intake_row_ok_columns [OF okD(1) [OF ok found]]
    by (intro keeps_change [OF okD(1) [OF ok found]]; cases d) (auto simp: change_defs screen_verdict_def lane_status_def screen_text_def)
  show "holds (bindM (reject (ir_status r \<noteq> Screening \<or> ir_arena_service_digest r \<noteq> asr_service_digest receipt
           \<or> ir_screen_attempts r \<noteq> asr_screen_attempt receipt \<or> asr_candidate_digest receipt \<noteq> digest)
         ''arena screen receipt differs from active screening'') (\<lambda>_.
       bindM (insert_screen \<lparr>sd_reservation_id = rid, sd_attempt_index = ir_screen_attempts r - 1,
         sd_service_digest = asr_service_digest receipt, sd_candidate_digest = digest,
         sd_receipt_digest = ArenaScreenReceipt_digest E receipt,
         sd_receipt_json = json_sort (JObj (ArenaScreenReceipt_fields receipt)),
         sd_decision = promotion_value (asr_decision receipt), sd_stage_count = int (length (asr_results receipt)),
         sd_lane = ir_screen_lane r\<rparr>) (\<lambda>_.
       case screen_verdict r (asr_decision receipt) of (status, decision, reason) \<Rightarrow>
       update_row rid (\<lambda>r. r\<lparr>ir_status := status, ir_screen_status := promotion_value (asr_decision receipt),
         ir_screen_stage_count := int (length (asr_results receipt)), ir_decision := decision, ir_reason := reason\<rparr>)))) s
      (\<lambda>v t. case v of Inl _ \<Rightarrow> True | Inr _ \<Rightarrow> intake_ok E P t \<and> evolves s t)"
    by (auto simp: holds_bindM insert_screen_def split: prod.splits intro!: change update_screens [OF ok found])
qed

section \<open>Outcomes and holds\<close>

definition attempt_ref_ok :: "EvidenceArtifactRef option \<Rightarrow> bool" where
  "attempt_ref_ok v \<longleftrightarrow> (case v of None \<Rightarrow> True | Some ref \<Rightarrow> is_sha256_hex (ear_sha256 ref))"

lemma outcome_inputs_ok:
  assumes "outcome_inputs decision ref report failure = Inr x" and "attempt_ref_ok ref"
  shows "decision_text decision \<and> decision \<in> {''FAIL'', ''NO_DECISION''}
    \<and> hex_or_empty (case ref of Some v \<Rightarrow> ear_sha256 v | None \<Rightarrow> failure)"
  using assms by (auto simp: outcome_inputs_def Let_def intake_fail_simps bindE_eq_Inr require_hex_eq attempt_ref_ok_def hex_or_empty_def
      decision_text_def split: option.splits if_splits)

lemma safe_mark_outcome:
  assumes "attempt_ref_ok ref"
  shows "safe E P (mark_outcome E rid decision ref report failure reason)"
proof (cases "outcome_inputs decision ref report failure")
  case (Inl e)
  then show ?thesis by (simp add: mark_outcome_def safe_def holds_bindM holds_liftM)
next
  case (Inr x)
  define evidence where "evidence = (case ref of Some v \<Rightarrow> ear_sha256 v | None \<Rightarrow> failure)"
  note input = outcome_inputs_ok [OF Inr assms, folded evidence_def]
  show ?thesis unfolding mark_outcome_def Let_def Inr bindM_value evidence_def [symmetric]
  proof (intro safe_bind safe_leaves safe_row)
    fix s r assume ok: "intake_ok E P s" and found: "stored_row rid s = Some r"
    have change: "row_change E s r (r\<lparr>ir_status := status, ir_decision := d, ir_reason := reason,
        ir_qualification_evidence_digest := evidence\<rparr>)"
      if "ir_status r = Qualifying" "status \<in> {Failed, NoDecision}" "d = decision" for status d
      using that okD(2) [OF ok found] intake_row_ok_columns [OF okD(1) [OF ok found]] input
      by (intro keeps_change [OF okD(1) [OF ok found]]) (auto simp: change_defs)
    show "holds (bindM (reject (ir_status r \<noteq> Qualifying \<or> ir_qualification_authority_digest r = [] \<or> iw_authority_json r = [])
        ''qualification outcome lacks an active authority'') (\<lambda>_.
        bindM (count_dispositions rid) (\<lambda>attempt.
        bindM (insert_disposition \<lparr>qd_reservation_id = rid, qd_attempt_index = attempt,
          qd_authority_digest = ir_qualification_authority_digest r, qd_authority_json = iw_authority_json r,
          qd_evidence_digest = evidence, qd_attempt_ref = ref, qd_report_digest = report,
          qd_failure_digest = failure, qd_decision = decision, qd_reason = reason\<rparr>) (\<lambda>_.
        update_row rid (\<lambda>r. r\<lparr>ir_status := if decision = ''FAIL'' then Failed else NoDecision, ir_decision := decision,
          ir_reason := reason, ir_qualification_evidence_digest := evidence\<rparr>))))) s
        (\<lambda>v t. case v of Inl _ \<Rightarrow> True | Inr _ \<Rightarrow> intake_ok E P t \<and> evolves s t)"
      by (auto simp: holds_bindM insert_disposition_def count_dispositions_def intro!: change update_dispositions [OF ok found])
  qed
qed

lemma safe_requeue: "safe E P (requeue_qualification E P rid reason rgroup position)"
  unfolding requeue_qualification_def Let_def
proof (intro hex_or_fail safe_bind safe_leaves safe_row)
  fix s r assume ok: "intake_ok E P s" and found: "stored_row rid s = Some r"
  have change: "row_change E s r (r\<lparr>ir_status := status, ir_decision := '''', ir_reason := reason, iw_retry_group := rgroup,
      iw_retry_position := position, ir_qualification_authority_digest := '''', iw_authority_json := '''',
      ir_qualification_evidence_digest := ''''\<rparr>)"
    if "ir_status r = NoDecision"
      "status = Held \<or> length (retained_of s rid) = 1 \<and> status = ReproductionPending
        \<or> length (retained_of s rid) \<noteq> 1 \<and> status = Published" for status
    using that okD(2,3) [OF ok found] intake_row_ok_columns [OF okD(1) [OF ok found]]
    by (intro keeps_change [OF okD(1) [OF ok found]]) (auto simp: change_defs le_Suc_eq)
  show "holds (bindM (reject (ir_status r \<noteq> NoDecision) ''only a retained NO_DECISION may be requeued'') (\<lambda>_.
      bindM (count_dispositions rid) (\<lambda>attempts.
      bindM (askM (\<lambda>s. length (retained_of s rid))) (\<lambda>retained.
      update_row rid (\<lambda>r. r\<lparr>ir_status := if attempts < ip_max_qualification_retries P
          then if retained = 1 then ReproductionPending else Published else Held, ir_decision := '''', ir_reason := reason,
        iw_retry_group := rgroup, iw_retry_position := position, ir_qualification_authority_digest := '''', iw_authority_json := '''',
        ir_qualification_evidence_digest := ''''\<rparr>))))) s
      (\<lambda>v t. case v of Inl _ \<Rightarrow> True | Inr _ \<Rightarrow> intake_ok E P t \<and> evolves s t)"
    by (auto simp: holds_bindM count_dispositions_def intro!: change update_keeps [OF ok found])
qed

lemma safe_release_hold: "safe E P (release_hold E rid reason)"
  unfolding release_hold_def Let_def
proof (intro safe_bind safe_leaves safe_row)
  fix s r assume ok: "intake_ok E P s" and found: "stored_row rid s = Some r"
  have change: "row_change E s r (r\<lparr>ir_status := status, ir_decision := '''', ir_reason := reason, ir_transport_attempts := attempts,
      iw_retry_group := '''', iw_retry_position := 0, ir_qualification_authority_digest := '''', iw_authority_json := '''',
      ir_qualification_evidence_digest := ''''\<rparr>)"
    if "ir_status r = Held \<or> ir_status r = NoDecision" "attempts = 0 \<or> attempts = ir_transport_attempts r"
      "length (retained_of s rid) = 1 \<and> status = ReproductionPending
        \<or> length (retained_of s rid) \<noteq> 1 \<and> ir_publication_digest r \<noteq> [] \<and> status = Published
        \<or> length (retained_of s rid) \<noteq> 1 \<and> ir_publication_digest r = [] \<and> status = TransportRetry" for status attempts
    using that okD(2,3) [OF ok found] intake_row_ok_columns [OF okD(1) [OF ok found]]
    by (intro keeps_change [OF okD(1) [OF ok found]]) (auto simp: change_defs le_Suc_eq)
  show "holds (bindM (reject (ir_status r \<notin> {Held, NoDecision}) ''only held intake may be released'') (\<lambda>_.
      bindM (reject (ir_reason r = SCHEMA3_HOLD) ''legacy single-PASS settlement requires explicit archival migration'') (\<lambda>_.
      bindM (askM (\<lambda>s. length (retained_of s rid))) (\<lambda>reproductions.
      update_row rid (\<lambda>x. x\<lparr>ir_status := if reproductions = 1 then ReproductionPending
          else if ir_publication_digest r \<noteq> [] then Published else TransportRetry, ir_decision := '''', ir_reason := reason,
        ir_transport_attempts := if ir_publication_digest r \<noteq> [] then ir_transport_attempts r else 0,
        iw_retry_group := '''', iw_retry_position := 0, ir_qualification_authority_digest := '''', iw_authority_json := '''',
        ir_qualification_evidence_digest := ''''\<rparr>))))) s
      (\<lambda>v t. case v of Inl _ \<Rightarrow> True | Inr _ \<Rightarrow> intake_ok E P t \<and> evolves s t)"
    by (auto simp: holds_bindM intro!: change update_keeps [OF ok found])
qed

text \<open>Changes of a candidate that keep what it is a candidate of.\<close>

definition same_candidate :: "CandidateRow \<Rightarrow> CandidateRow \<Rightarrow> bool" where
  "same_candidate c d \<longleftrightarrow> cr_reservation_id d = cr_reservation_id c \<and> cr_candidate_digest d = cr_candidate_digest c
     \<and> cr_candidate_json d = cr_candidate_json c"

lemma backed_candidates:
  assumes "backed E s rid" and "list_all2 same_candidate (st_candidates s) cs"
  shows "backed E (s\<lparr>st_candidates := cs\<rparr>) rid"
proof -
  obtain first second p q c row where *: "retained_of s rid = [first, second]"
    "SettlementQualification_from_dict E (py_of_json (rq_qualification_json first)) = Inr p"
    "SettlementQualification_digest E p = rq_qualification_digest first"
    "SettlementQualification_digest E q = rq_qualification_digest second"
    "from_reproductions p q = Inr c" "row \<in> set (st_candidates s)" "cr_reservation_id row = rid"
    "cr_candidate_digest row = SettlementCandidate_digest E c"
    using assms(1) unfolding backed_def by blast
  obtain row' where "row' \<in> set cs" "same_candidate row row'" using assms(2) *(6) by (fastforce simp: list_all2_conv_all_nth in_set_conv_nth)
  then have "row' \<in> set cs" "cr_reservation_id row' = rid" "cr_candidate_digest row' = SettlementCandidate_digest E c"
    using *(7,8) by (simp_all add: same_candidate_def)
  then show ?thesis using *(1-5) unfolding backed_def by (auto intro!: exI [of _ first] exI [of _ second] exI [of _ q] exI [of _ c])
qed

lemma candidates_ok:
  assumes "intake_ok E P s" and cs: "list_all2 same_candidate (st_candidates s) cs"
  shows "intake_ok E P (s\<lparr>st_candidates := cs\<rparr>)"
proof -
  have "length (retained_of s (cr_reservation_id d)) = 2" if d: "d \<in> set cs" for d
  proof -
    obtain c where "c \<in> set (st_candidates s)" "same_candidate c d" using cs d by (fastforce simp: list_all2_conv_all_nth in_set_conv_nth)
    then show ?thesis using assms(1) by (simp add: intake_ok_def retained_ok_def same_candidate_def)
  qed
  then show ?thesis using assms backed_candidates [OF _ cs] by (auto simp: intake_ok_def retained_ok_def queued_def Let_def)
qed

lemma candidates_map_ok:
  assumes "intake_ok E P s" and "\<And>c. same_candidate c (g c)"
  shows "intake_ok E P (s\<lparr>st_candidates := map g (st_candidates s)\<rparr>)"
  by (rule candidates_ok [OF assms(1)]) (simp add: list_all2_conv_all_nth assms(2))

lemma safe_archive: "safe E P (archive_schema3_migration_hold E rid current reason)"
proof -
  define why where "why = SCHEMA3_ARCHIVE_PREFIX @ show_int current @ '':'' @ reason"
  show ?thesis unfolding archive_schema3_migration_hold_def Let_def why_def [symmetric]
  proof (intro safe_bind safe_leaves safe_row)
    fix s r assume ok: "intake_ok E P s" and found: "stored_row rid s = Some r"
    have "row_change E s r (r\<lparr>ir_status := Expired, ir_decision := ''NO_DECISION'', ir_reason := why\<rparr>)" if "ir_status r = Held"
      using that okD(2,3) [OF ok found] intake_row_ok_columns [OF okD(1) [OF ok found]]
      by (intro keeps_change [OF okD(1) [OF ok found]]) (auto simp: change_defs)
    then have "intake_ok E P t \<and> evolves s t" if "ir_status r = Held"
        "t = s\<lparr>st_rows := map (\<lambda>x. if ir_reservation_id x = rid then x\<lparr>ir_status := Expired, ir_decision := ''NO_DECISION'', ir_reason := why\<rparr> else x)
          (st_rows s)\<rparr>" for t
      using that update_ok [OF ok found, of "\<lambda>r. r\<lparr>ir_status := Expired, ir_decision := ''NO_DECISION'', ir_reason := why\<rparr>"] by simp
    from this [OF _ refl] have both: "intake_ok E P (s\<lparr>st_rows := map (\<lambda>x. if ir_reservation_id x = rid then x\<lparr>ir_status := Expired,
            ir_decision := ''NO_DECISION'', ir_reason := why\<rparr> else x) (st_rows s),
          st_candidates := map (\<lambda>c. if cr_reservation_id c = rid then c\<lparr>cr_reason := why\<rparr> else c) (st_candidates s)\<rparr>)
        \<and> evolves s (s\<lparr>st_rows := map (\<lambda>x. if ir_reservation_id x = rid then x\<lparr>ir_status := Expired,
            ir_decision := ''NO_DECISION'', ir_reason := why\<rparr> else x) (st_rows s)\<rparr>)" if "ir_status r = Held"
      using that candidates_map_ok [of E P _ "\<lambda>c. if cr_reservation_id c = rid then c\<lparr>cr_reason := why\<rparr> else c"]
      by (fastforce simp: same_candidate_def)
    show "holds (bindM (reject (ir_status r \<noteq> Held \<or> ir_reason r \<noteq> SCHEMA3_HOLD \<or> current < fa_block (ir_arrival r))
           ''only an exact schema3 reproduction migration hold may be archived'') (\<lambda>_.
         bindM (askM (\<lambda>s. List.find (\<lambda>c. cr_reservation_id c = rid) (st_candidates s))) (\<lambda>found.
         case found of
           None \<Rightarrow> liftM (intake_fail ''schema3 migration hold lacks retained settlement authority'')
         | Some c \<Rightarrow>
             bindM (liftM (require_sha256_hex (PyStr (cr_candidate_digest c)) ''candidate_digest'')) (\<lambda>_.
             bindM (askM (\<lambda>s. archivable s rid c)) (\<lambda>fit.
             bindM (reject (\<not> fit) ''schema3 migration hold has settlement authority that cannot be archived'') (\<lambda>_.
             bindM (update_row rid (\<lambda>r. r\<lparr>ir_status := Expired, ir_decision := ''NO_DECISION'', ir_reason := why\<rparr>)) (\<lambda>_.
             modifyM (\<lambda>s. s\<lparr>st_candidates := map (\<lambda>c. if cr_reservation_id c = rid then c\<lparr>cr_reason := why\<rparr> else c)
               (st_candidates s)\<rparr>)))))))) s
        (\<lambda>v t. case v of Inl _ \<Rightarrow> True | Inr _ \<Rightarrow> intake_ok E P t \<and> evolves s t)"
      using both by (auto simp: holds_bindM holds_liftM intake_fail_def split: option.splits sum.splits)
  qed
qed

lemma safe_recover: "safe E P recover_interrupted"
  unfolding recover_interrupted_def safe_def holds_transaction
proof (intro allI impI)
  fix s assume ok: "intake_ok E P s"
  have "row_change E s r (recover_row r)" if r: "r \<in> set (st_rows s)" for r
  proof (cases "ir_status r \<in> {Fetching, Qualifying, Screening}")
    case True
    note found = stored_row_member [OF ok r]
    show ?thesis
      using True okD(2,3) [OF ok found] intake_row_ok_columns [OF okD(1) [OF ok found]]
      by (intro keeps_change [OF okD(1) [OF ok found]]) (auto simp: change_defs recover_row_def lane_status_def)
  next
    case False
    then show ?thesis using row_change_refl [OF ok r] by (simp add: recover_row_def)
  qed
  then have rows: "intake_ok E P (s\<lparr>st_rows := map recover_row (st_rows s)\<rparr>) \<and> evolves s (s\<lparr>st_rows := map recover_row (st_rows s)\<rparr>)"
    by (rule map_rows_ok [OF ok])
  then have "intake_ok E P (s\<lparr>st_rows := map recover_row (st_rows s), st_candidates := map recover_candidate (st_candidates s)\<rparr>)"
    using candidates_map_ok [of E P "s\<lparr>st_rows := map recover_row (st_rows s)\<rparr>" recover_candidate]
    by (simp add: recover_candidate_def same_candidate_def)
  then show "holds (modifyM (\<lambda>s. s\<lparr>st_rows := map recover_row (st_rows s), st_candidates := map recover_candidate (st_candidates s)\<rparr>)) s
      (\<lambda>r t. case r of Inl e \<Rightarrow> intake_ok E P s \<and> evolves s s | Inr x \<Rightarrow> intake_ok E P t \<and> evolves s t)"
    using rows by simp
qed

lemma safe_initialize_stack: "safe E P (initialize_evaluation_stack E manifest tree)"
proof -
  have new: "safe E P (modifyM (\<lambda>s. s\<lparr>st_stacks := f s\<rparr>))" for f by (auto simp: safe_def)
  show ?thesis unfolding initialize_evaluation_stack_def initialize_evaluation_stack_row_def Let_def
    by (intro safe_bind safe_leaves safe_transaction) (auto intro: new safe_leaves split: option.splits)
qed

end
