(* ===== verification/Intake_Admission.thy ===== *)
theory Intake_Admission
  imports Intake_Steps
begin

text \<open>Admission, automatic expiry and copy reconciliation keep the invariant: the queue stays within its bound.\<close>

section \<open>Programs inside a transaction\<close>

text \<open>Where it returns, a program keeps the invariant; the transaction around it undoes one that raises.\<close>

definition lands :: "py_env \<Rightarrow> IntakePolicy \<Rightarrow> (intake_store, 'a) eff \<Rightarrow> bool" where
  "lands E P m \<longleftrightarrow> (\<forall>s. intake_ok E P s \<longrightarrow>
     holds m s (\<lambda>r t. case r of Inl _ \<Rightarrow> True | Inr _ \<Rightarrow> intake_ok E P t \<and> evolves s t))"

lemma safe_lands: "safe E P m \<Longrightarrow> lands E P m"
  by (auto simp: safe_def lands_def elim!: holds_mono split: sum.splits)

lemma lands_transaction: "lands E P m \<Longrightarrow> safe E P (transaction m)"
  unfolding safe_def lands_def holds_transaction by (auto elim!: holds_mono split: sum.splits)

lemma lands_bind:
  assumes m: "lands E P m" and f: "\<And>x. lands E P (f x)"
  shows "lands E P (bindM m f)"
  unfolding lands_def holds_bindM
proof (intro allI impI, rule holds_mono [OF m [unfolded lands_def, rule_format]], goal_cases)
  case (2 s r t)
  have "holds (f x) t (\<lambda>r t. case r of Inl _ \<Rightarrow> True | Inr _ \<Rightarrow> intake_ok E P t \<and> evolves s t)" if "r = Inr x" for x
    using 2 f [of x] that unfolding lands_def by (auto elim!: holds_mono split: sum.splits intro: forward_trans)
  then show ?case by (simp split: sum.splits)
qed

lemma lands_foldM: "(\<And>x b. x \<in> set xs \<Longrightarrow> lands E P (f x b)) \<Longrightarrow> lands E P (foldM f xs b)"
proof (induction xs arbitrary: b)
  case (Cons x xs)
  then show ?case by (auto intro: lands_bind)
qed (simp add: safe_lands safe_leaves)

section \<open>Automatic expiry\<close>

lemma expire_row_change:
  assumes ok: "intake_ok E P s" and r: "r \<in> set (st_rows s)" and "ir_status r \<in> set EXPIRABLE"
  shows "row_change E s r (expire_row r)"
  using assms(3) okD(2) [OF ok stored_row_member [OF ok r]] intake_row_ok_columns [OF okD(1) [OF ok stored_row_member [OF ok r]]]
  by (intro keeps_change [OF okD(1) [OF ok stored_row_member [OF ok r]]]) (auto simp: change_defs expire_row_def EXPIRABLE_def)

lemma stale_rows_ok:
  assumes "intake_ok E P s"
  shows "intake_ok E P (s\<lparr>st_rows := map (\<lambda>r. if stale s n r then expire_row r else r) (st_rows s)\<rparr>) \<and>
    evolves s (s\<lparr>st_rows := map (\<lambda>r. if stale s n r then expire_row r else r) (st_rows s)\<rparr>)"
  by (rule map_rows_ok [OF assms]) (auto intro: expire_row_change [OF assms] row_change_refl [OF assms] simp: stale_def)

lemma safe_expire_stale_rows: "safe E P (expire_stale_rows P n)"
  unfolding safe_def using stale_rows_ok by (auto simp: expire_stale_rows_def Let_def holds_bindM)

lemma safe_expire_stale: "safe E P (expire_stale E P n)"
  unfolding expire_stale_def by (intro safe_bind safe_leaves safe_transaction safe_expire_stale_rows safe_mapM reads)

section \<open>Admission\<close>

lemma reservation_id_hex: "sha256_digests E \<Longrightarrow> is_sha256_hex (reservation_id E a)"
  by (simp add: sha256_digests_def reservation_id_def json_digest_def is_digest_def)

lemma new_row_ok:
  assumes "sha256_digests E" and "FinalizedArrival_new E a = Inr a" and "0 \<le> epoch"
  shows "intake_row_ok E (new_row E a epoch status reason)"
  using assms reservation_id_hex [OF assms(1)]
  by (simp add: intake_row_ok_def delta_ok_def reservation_ok_def new_row_def sorted_unique_def lane_text_def screen_text_def)

lemma admission_epoch_nonneg: "0 < ip_epoch_blocks P \<Longrightarrow> 0 \<le> b \<Longrightarrow> 0 \<le> admission_epoch P b"
  by (simp add: admission_epoch_def pos_imp_zdiv_nonneg_iff)

lemma stored_row_None: "stored_row rid s = None \<longleftrightarrow> rid \<notin> ir_reservation_id ` set (st_rows s)"
  by (auto simp: stored_row_def find_None_iff)

lemma append_row_ok:
  assumes ok: "intake_ok E P s" and fresh: "stored_row (ir_reservation_id r) s = None" and row: "intake_row_ok E r"
    and status: "ir_status r \<in> {Reserved, Failed, Expired}" "ir_status r = Reserved \<longrightarrow> queued s < ip_max_pending P"
    and blank: "ir_delta_fingerprint r = None" "ir_publication_digest r = []"
  shows "intake_ok E P (s\<lparr>st_rows := st_rows s @ [r]\<rparr>) \<and> evolves s (s\<lparr>st_rows := st_rows s @ [r]\<rparr>)"
proof -
  have "retained_of s (ir_reservation_id r) = []"
    using ok fresh unfolding intake_ok_def retained_of_def filter_empty_conv stored_row_None by (metis image_eqI subsetD)
  then have "progress s r" using status(1) blank by (auto simp: progress_def Let_def)
  then have "intake_ok E P (s\<lparr>st_rows := st_rows s @ [r]\<rparr>)"
    using ok fresh row status by (auto simp: intake_ok_def queued_def unresolved_def stored_row_None)
  then show ?thesis by (simp add: evolves_def list.rel_refl)
qed

text \<open>The counter that \<open>reserve_finalized\<close> carries along is the number of unresolved reservations.\<close>

definition counted :: "py_env \<Rightarrow> IntakePolicy \<Rightarrow> intake_store \<Rightarrow> py_error + int \<times> string list \<Rightarrow> intake_store \<Rightarrow> bool" where
  "counted E P s v t \<longleftrightarrow> (case v of Inl _ \<Rightarrow> True | Inr (n, _) \<Rightarrow> n = queued t \<and> intake_ok E P t \<and> evolves s t \<and> st_cursor t = st_cursor s)"

definition arrivals_ok :: "py_env \<Rightarrow> FinalizedArrival list \<Rightarrow> bool" where
  "arrivals_ok E as \<longleftrightarrow> list_all (\<lambda>a. FinalizedArrival_new E a = Inr a) as"

lemma arrival_block: "FinalizedArrival_new E a = Inr b \<Longrightarrow> 0 \<le> fa_block a"
  by (auto simp: FinalizedArrival_new_def Let_def intake_fail_simps)

lemma reserve_one_counted:
  assumes sha: "sha256_digests E" and epoch: "0 < ip_epoch_blocks P" and a: "FinalizedArrival_new E a = Inr a"
    and ok: "intake_ok E P s"
  shows "holds (reserve_one E P b a (queued s, ins)) s (counted E P s)"
proof (cases "stored_row (reservation_id E a) s")
  case (Some r)
  then show ?thesis using okD(1) [OF ok Some, THEN intake_row_ok_reopen] ok
    by (simp add: reserve_one_def holds_bindM holds_liftM counted_def)
next
  case None
  let ?epoch = "admission_epoch P (fa_block a)"
  let ?n = "int (length (filter (\<lambda>r. ir_admission_epoch r = ?epoch \<and> fa_hotkey (ir_arrival r) = fa_hotkey a) (st_rows s)))"
  obtain status reason where admit: "admit P b a ?n (queued s) = (status, reason)" by fastforce
  let ?row = "new_row E a ?epoch status reason"
  have row: "intake_row_ok E ?row" using new_row_ok [OF sha a admission_epoch_nonneg [OF epoch arrival_block [OF a]]] .
  have status: "status \<in> {Reserved, Failed, Expired}" "status = Reserved \<longrightarrow> queued s < ip_max_pending P"
    using admit by (auto simp: admit_def split: if_splits)
  have "intake_ok E P (s\<lparr>st_rows := st_rows s @ [?row]\<rparr>) \<and> evolves s (s\<lparr>st_rows := st_rows s @ [?row]\<rparr>)"
    using None status by (intro append_row_ok [OF ok _ row]) (simp_all add: new_row_def)
  moreover have "queued (s\<lparr>st_rows := st_rows s @ [?row]\<rparr>) = (if status = Reserved then queued s + 1 else queued s)"
    using status(1) by (auto simp: queued_def unresolved_def new_row_def)
  ultimately show ?thesis using None admit
    by (auto simp: reserve_one_def holds_bindM Let_def insert_row_def counted_def)
qed

lemma reserve_all_counted:
  assumes sha: "sha256_digests E" and epoch: "0 < ip_epoch_blocks P" and "arrivals_ok E as" and "intake_ok E P s"
  shows "holds (foldM (reserve_one E P b) as (queued s, ins)) s (counted E P s)"
  using assms(3,4)
proof (induction as arbitrary: s ins)
  case Nil
  then show ?case by (simp add: counted_def)
next
  case (Cons a as)
  have "holds (reserve_one E P b a (queued s, ins)) s (counted E P s)"
    using Cons.prems by (intro reserve_one_counted [OF sha epoch]) (simp_all add: arrivals_ok_def)
  then show ?case unfolding foldM.simps holds_bindM
  proof (rule holds_mono)
    fix r t assume t: "counted E P s r t"
    show "case r of Inl e \<Rightarrow> counted E P s (Inl e) t | Inr x \<Rightarrow> holds (foldM (reserve_one E P b) as x) t (counted E P s)"
    proof (cases r)
      case (Inr x)
      then obtain ins' where x: "x = (queued t, ins')" and rest: "intake_ok E P t" "evolves s t" "st_cursor t = st_cursor s"
        using t by (cases x) (auto simp: counted_def)
      have "holds (foldM (reserve_one E P b) as x) t (counted E P t)"
        unfolding x using Cons.prems rest(1) by (intro Cons.IH) (simp_all add: arrivals_ok_def)
      then have "holds (foldM (reserve_one E P b) as x) t (counted E P s)"
        using rest by (auto elim!: holds_mono simp: counted_def split: sum.splits intro: forward_trans)
      then show ?thesis using Inr by simp
    qed (simp add: counted_def)
  qed
qed

lemma cursor_evolves:
  assumes "evolves s t" and "st_cursor t = st_cursor s"
    and "\<not> (case st_cursor s of None \<Rightarrow> False | Some (c, h) \<Rightarrow> b < c \<or> b = c \<and> hash \<noteq> h)"
  shows "evolves s (t\<lparr>st_cursor := Some (b, hash)\<rparr>)"
  using assms by (auto simp: evolves_def split: option.splits)

lemma reserving_counted:
  assumes "sha256_digests E" and "0 < ip_epoch_blocks P" and "arrivals_ok E as"
  shows "lands E P (
       bindM (askM st_cursor) (\<lambda>cursor.
       bindM (reject (case cursor of None \<Rightarrow> False | Some (b, h) \<Rightarrow> block < b \<or> block = b \<and> hash \<noteq> h) msg) (\<lambda>_.
       bindM (askM (\<lambda>s. int (length (filter unresolved (st_rows s))))) (\<lambda>pending.
       bindM (foldM (reserve_one E P block) as (pending, [])) (\<lambda>(_, inserted).
       bindM (modifyM (\<lambda>s. s\<lparr>st_cursor := Some (block, hash)\<rparr>)) (\<lambda>_. retM inserted))))))"
  unfolding lands_def
proof (intro allI impI)
  fix s assume ok: "intake_ok E P s"
  let ?regressed = "case st_cursor s of None \<Rightarrow> False | Some (b, h) \<Rightarrow> block < b \<or> block = b \<and> hash \<noteq> h"
  have "holds (foldM (reserve_one E P block) as (queued s, [])) s (\<lambda>r t. case r of Inl e \<Rightarrow> True
      | Inr x \<Rightarrow> intake_ok E P t \<and> evolves s (t\<lparr>st_cursor := Some (block, hash)\<rparr>))" if "\<not> ?regressed"
    using that by (intro holds_mono [OF reserve_all_counted [OF assms ok]]) (auto simp: counted_def split: sum.splits intro!: cursor_evolves)
  then show "holds (bindM (askM st_cursor) (\<lambda>cursor.
       bindM (reject (case cursor of None \<Rightarrow> False | Some (b, h) \<Rightarrow> block < b \<or> block = b \<and> hash \<noteq> h) msg) (\<lambda>_.
       bindM (askM (\<lambda>s. int (length (filter unresolved (st_rows s))))) (\<lambda>pending.
       bindM (foldM (reserve_one E P block) as (pending, [])) (\<lambda>(_, inserted).
       bindM (modifyM (\<lambda>s. s\<lparr>st_cursor := Some (block, hash)\<rparr>)) (\<lambda>_. retM inserted)))))) s
      (\<lambda>r t. case r of Inl _ \<Rightarrow> True | Inr _ \<Rightarrow> intake_ok E P t \<and> evolves s t)"
    by (cases ?regressed) (auto simp: holds_bindM queued_def elim!: holds_mono split: sum.splits)
qed

lemma safe_reserve_finalized:
  assumes "sha256_digests E" and "0 < ip_epoch_blocks P" and "arrivals_ok E as"
  shows "safe E P (reserve_finalized E P as block hash)"
  unfolding reserve_finalized_def
  by (intro safe_bind safe_leaves safe_mapM reads lands_transaction lands_bind reserving_counted [OF assms]
      safe_lands [OF safe_expire_stale_rows])

section \<open>Copies\<close>

lemma safe_reconcile: "safe E P (reconcile_copies E)"
  unfolding reconcile_copies_def
proof (intro safe_bind safe_leaves safe_foldM)
  fix r dispositions
  show "safe E P (reconcile_one E r dispositions)"
    unfolding reconcile_one_def by (auto intro!: safe_bind safe_leaves safe_mark_copy split: list.splits)
qed

end
