(* ===== verification/Intake_Batch.thy ===== *)
theory Intake_Batch
  imports Intake_Admission
begin

text \<open>
  Applying a qualification batch: a retained pass is recorded together with the new status of its
  reservation, and the second one together with the settlement candidate it completes.
\<close>

section \<open>What the constructors promise\<close>

definition batch_ok :: "QualificationIntakeBatch \<Rightarrow> bool" where
  "batch_ok b \<longleftrightarrow> QualificationIntakeBatch_new b = Inr b \<and> list_all (\<lambda>x. QualificationIntakeOutcome_new x = Inr x) (qb_outcomes b)"

lemma qualify_simps [err_simps]:
  "(if c then qualify_fail m else k) = Inr y \<longleftrightarrow> \<not> c \<and> k = Inr y" "qualify_fail m \<noteq> Inr x"
  "qualify_digest v field = Inr d \<longleftrightarrow> d = v \<and> is_digest v"
  by (auto simp: qualify_fail_def qualify_digest_def require_digest_eq_Inr)

lemma outcome_digest_ok: "outcome_digest v field = Inr u \<longleftrightarrow> (\<forall>d. v = Some d \<longrightarrow> is_digest d)"
  by (auto simp: outcome_digest_def bindE_eq_Inr qualify_simps split: option.splits)

lemma outcome_new_ok:
  assumes "QualificationIntakeOutcome_new x = Inr x"
  shows "qo_attempt_artifact_sha256 x = Some d \<Longrightarrow> is_sha256_hex d" "qo_failure_digest x = Some d \<Longrightarrow> is_sha256_hex d"
    "qo_settlement_qualification x = Some q \<Longrightarrow> qo_decision x = PASS"
  using assms by (auto simp: QualificationIntakeOutcome_new_def bindE_eq_Inr qualify_simps outcome_digest_ok Let_def is_digest_def
      outcome_qualification_def split: if_splits)

definition batch_evidence :: "QualificationIntakeBatch \<Rightarrow> QualificationIntakeOutcome \<Rightarrow> string" where
  "batch_evidence b x =
     (case if qo_attempt_artifact_sha256 x \<noteq> None then qb_attempt_ref b else None of
        Some ref \<Rightarrow> ear_sha256 ref | None \<Rightarrow> (case qo_failure_digest x of None \<Rightarrow> '''' | Some t \<Rightarrow> t))"

lemma batch_evidence_ok:
  assumes "batch_ok b" and "x \<in> set (qb_outcomes b)"
  shows "hex_or_empty (batch_evidence b x)"
proof -
  have x: "QualificationIntakeOutcome_new x = Inr x" using assms by (simp add: batch_ok_def list_all_iff)
  have "qb_attempt_ref b = Some ref \<Longrightarrow> qo_attempt_artifact_sha256 x = Some (ear_sha256 ref)" for ref
    using assms by (auto simp: batch_ok_def QualificationIntakeBatch_new_def bindE_eq_Inr qualify_simps list_ex_iff Let_def)
  then show ?thesis using outcome_new_ok(1,2) [OF x] by (auto simp: batch_evidence_def split: option.splits)
qed

lemma map_of_dict_of: "map_of (dict_of xs) k = Some v \<Longrightarrow> (k, v) \<in> set xs"
proof -
  have "map_of (fold (\<lambda>(k, v). dict_set k v) ys d) k = Some v \<Longrightarrow> (k, v) \<in> set ys \<or> map_of d k = Some v" for ys d
  proof (induction ys arbitrary: d)
    case (Cons y ys)
    then show ?case by (cases y) (fastforce split: if_splits)
  qed simp
  from this [of xs "[]"] show "map_of (dict_of xs) k = Some v \<Longrightarrow> (k, v) \<in> set xs" by (simp add: dict_of_def)
qed

lemma index_from_snd: "map snd (index_from k xs) = xs"
  by (induction xs arbitrary: k) auto

lemma index_from_member: "(i, x) \<in> set (index_from k xs) \<Longrightarrow> x \<in> set xs"
  by (metis index_from_snd image_eqI set_map snd_conv)

lemma retried_is_undecided:
  assumes b: "batch_ok b" and x: "x \<in> set (qb_outcomes b)" and retry: "map_of (retry_rows E b) (qo_reservation_digest x) = Some v"
  shows "qo_decision x = NO_DECISION"
proof -
  have "qo_reservation_digest x \<in> set (retry_ids b)"
    using retry by (cases "qb_retry_plan b") (auto simp: retry_rows_def retry_ids_def Let_def dest!: map_of_dict_of index_from_member)
  moreover have "retry_ids b = map qo_reservation_digest (filter (\<lambda>x. qo_decision x = NO_DECISION) (qb_outcomes b))"
    and "distinct (map qo_reservation_digest (qb_outcomes b))"
    using b by (auto simp: batch_ok_def QualificationIntakeBatch_new_def bindE_eq_Inr qualify_simps Let_def)
  ultimately show ?thesis using x by (auto simp: distinct_map dest: inj_onD)
qed

section \<open>Retaining a pass\<close>

lemma queued_map: "(\<And>r. r \<in> set rs \<Longrightarrow> unresolved (g r) \<Longrightarrow> unresolved r) \<Longrightarrow>
    length (filter unresolved (map g rs)) \<le> length (filter unresolved rs)"
proof (induction rs)
  case (Cons r rs)
  then have "length (filter unresolved (map g rs)) \<le> length (filter unresolved rs)" by simp
  then show ?case using Cons.prems [of r] by auto
qed simp

lemma backed_grows:
  assumes "backed E s rid" and "retained_of t rid = retained_of s rid" and "set (st_candidates s) \<subseteq> set (st_candidates t)"
  shows "backed E t rid"
  using assms unfolding backed_def by (metis subsetD)

lemma retain_keeps:
  assumes ok: "intake_ok E P s" and found: "stored_row rid s = Some r" and n: "length (retained_of s rid) \<le> 1"
    and q: "rq_reservation_id q = rid" "rq_reproduction_index q = int (length (retained_of s rid))" "0 \<le> rq_retained_block q"
    and t: "st_retained t = st_retained s @ [q]" "st_cursor t = st_cursor s" "set (st_candidates s) \<subseteq> set (st_candidates t)"
      "\<And>c. c \<in> set (st_candidates t) \<Longrightarrow> c \<in> set (st_candidates s) \<or> cr_reservation_id c = rid \<and> length (retained_of s rid) = 1"
      "st_rows t = map (\<lambda>x. if ir_reservation_id x = rid then f x else x) (st_rows s)"
    and pair: "length (retained_of s rid) = 1 \<Longrightarrow> backed E t rid"
    and status: "ir_status r = Qualifying" "ir_status (f r) = (if retained_of s rid = [] then ReproductionPending else Qualified)"
    and row: "keeps_submission r (f r)" "columns_ok (f r)"
  shows "intake_ok E P t \<and> evolves s t"
proof -
  let ?g = "\<lambda>x. if ir_reservation_id x = rid then f x else x"
  have ret: "retained_of t x = (if x = rid then retained_of s rid @ [q] else retained_of s x)" for x
    using t(1) q(1) by (simp add: retained_of_def)
  have only: "x = r" if "x \<in> set (st_rows s)" "ir_reservation_id x = rid" for x
    using stored_row_member [OF ok that(1)] that(2) found by simp
  have "row_change E t r (f r)"
    using okD(2,3) [OF ok found] status row ret [of rid] n
    by (intro keeps_change [OF okD(1) [OF ok found]]) (auto simp: progress_def Let_def unresolved_def keeps_submission_def le_Suc_eq length_Suc_conv)
  moreover have "progress t x" if "x \<in> set (st_rows s)" "ir_reservation_id x \<noteq> rid" for x
    using ok that by (simp add: intake_ok_def progress_def ret)
  ultimately have change: "row_change E t x (?g x)" if "x \<in> set (st_rows s)" for x
    using only [OF that] ok that by (auto simp: row_change_def intake_ok_def)
  have ids: "map ir_reservation_id (st_rows t) = map ir_reservation_id (st_rows s)"
    using change by (auto simp: t(5) row_change_def row_step_def)
  have "retained_ok E t"
    unfolding retained_ok_def Let_def
  proof (intro conjI allI ballI)
    fix x
    show "length (retained_of t x) \<le> 2" "map rq_reproduction_index (retained_of t x) = map int [0..<length (retained_of t x)]"
      using ok n q(2) by (auto simp: ret intake_ok_def retained_ok_def Let_def)
    show "length (retained_of t x) = 2 \<longrightarrow> backed E t x"
      using ok pair backed_grows [of E s x t] t(3) by (auto simp: ret intake_ok_def retained_ok_def Let_def)
  next
    fix c assume c: "c \<in> set (st_candidates t)"
    have "length (retained_of s (cr_reservation_id c)) = 2" if "c \<in> set (st_candidates s)"
      using ok that by (simp add: intake_ok_def retained_ok_def)
    then show "length (retained_of t (cr_reservation_id c)) = 2" using t(4) [OF c] n by (auto simp: ret)
  qed (use ok t(1) q(3) in \<open>auto simp: intake_ok_def retained_ok_def\<close>)
  moreover have "queued t \<le> queued s" unfolding queued_def t(5)
  proof (intro of_nat_mono queued_map)
    fix x assume "x \<in> set (st_rows s)" and "unresolved (?g x)"
    then show "unresolved x" using change [of x] unfolding row_change_def by blast
  qed
  moreover have "rq_reservation_id ` set (st_retained t) \<subseteq> ir_reservation_id ` set (st_rows t)"
    using ok stored_row_Some [OF found] unfolding t(1) intake_ok_def set_map [symmetric] ids by (auto simp: q(1))
  moreover have "intake_row_ok E x \<and> progress t x" if "x \<in> set (st_rows t)" for x
    using that change unfolding t(5) row_change_def set_map by blast
  ultimately have "intake_ok E P t"
    using ok ids unfolding intake_ok_def by auto
  moreover have "list_all2 row_step (st_rows s) (st_rows t)"
    using change by (auto simp: t(5) list_all2_conv_all_nth row_change_def)
  then have "evolves s t" using list_all2_lengthD by (fastforce simp: evolves_def t(1,2))
  ultimately show ?thesis ..
qed

section \<open>Outcomes\<close>

definition kept :: "py_env \<Rightarrow> IntakePolicy \<Rightarrow> intake_store \<Rightarrow> py_error + 'a \<Rightarrow> intake_store \<Rightarrow> bool" where
  "kept E P s v t \<longleftrightarrow> (case v of Inl _ \<Rightarrow> True | Inr _ \<Rightarrow> intake_ok E P t \<and> evolves s t)"

lemma kept_simps [simp]: "kept E P s (Inl e) t" "kept E P s (Inr x) t \<longleftrightarrow> intake_ok E P t \<and> evolves s t"
  by (simp_all add: kept_def)

lemma holds_read_bind:
  assumes "pure_read m" and "\<And>x. holds (f x) s Q" and "\<And>e. Q (Inl e) s"
  shows "holds (bindM m f) s Q"
  unfolding holds_bindM by (rule pure_read_holds [OF assms(1)]) (use assms(2,3) in \<open>simp split: sum.splits\<close>)

lemma retry_kept:
  assumes ok: "intake_ok E P s" and found: "stored_row rid s = Some r" and st: "ir_status r = Qualifying"
  shows "holds (retry_outcome P rid r attempt retry) s (kept E P s)"
proof -
  obtain rgroup position reason where retry: "retry = (rgroup, position, reason)" by (cases retry) auto
  have change: "row_change E s r (r\<lparr>ir_status := status, ir_decision := decision, ir_reason := reason, iw_retry_group := rgroup,
      iw_retry_position := position, ir_qualification_authority_digest := '''', iw_authority_json := '''',
      ir_qualification_evidence_digest := ''''\<rparr>)" if "status \<in> {lane_status r, Held}" "decision_text decision" for status decision
    using that st okD(2,3) [OF ok found] intake_row_ok_columns [OF okD(1) [OF ok found]]
    by (intro keeps_change [OF okD(1) [OF ok found]]) (auto simp: change_defs lane_status_def)
  show ?thesis unfolding retry retry_outcome_def Let_def
    by (auto intro!: change update_keeps [OF ok found])
qed

lemma failed_kept:
  assumes ok: "intake_ok E P s" and found: "stored_row rid s = Some r" and st: "ir_status r = Qualifying"
    and "qo_decision x \<noteq> PASS" and ev: "hex_or_empty evidence"
  shows "holds (final_outcome rid x evidence) s (kept E P s)"
proof -
  have "row_change E s r (r\<lparr>ir_status := Failed, ir_decision := decision_value (qo_decision x), ir_reason := qo_reason x,
       ir_qualification_evidence_digest := evidence, iw_retry_group := '''', iw_retry_position := 0,
       ir_qualification_authority_digest := '''', iw_authority_json := ''''\<rparr>)"
    using ev st okD(2,3) [OF ok found] intake_row_ok_columns [OF okD(1) [OF ok found]]
    by (intro keeps_change [OF okD(1) [OF ok found]]) (auto simp: change_defs)
  then show ?thesis using assms(4) by (auto simp: final_outcome_def holds_bindM intro!: update_keeps [OF ok found])
qed

lemma retained_sorted: "intake_ok E P s \<Longrightarrow> sort_key rq_reproduction_index (retained_of s rid) = retained_of s rid"
  by (rule sort_key_id_if_sorted) (simp add: intake_ok_def retained_ok_def Let_def sorted_wrt_map sorted_wrt_upt)

lemma wrap_corrupt_Inr: "wrap_corrupt m v = Inr x \<longleftrightarrow> v = Inr x"
  by (auto simp: wrap_corrupt_def intake_fail_def split: sum.splits)

lemma pass_change:
  assumes ok: "intake_ok E P s" and found: "stored_row rid s = Some r" and st: "ir_status r = Qualifying" and ev: "hex_or_empty evidence"
    and "decision_text decision"
  shows "keeps_submission r (r\<lparr>ir_status := status, ir_decision := decision, ir_reason := reason,
       ir_qualification_evidence_digest := evidence, iw_retry_group := '''', iw_retry_position := 0,
       ir_qualification_authority_digest := '''', iw_authority_json := ''''\<rparr>)"
    "columns_ok (r\<lparr>ir_status := status, ir_decision := decision, ir_reason := reason,
       ir_qualification_evidence_digest := evidence, iw_retry_group := '''', iw_retry_position := 0,
       ir_qualification_authority_digest := '''', iw_authority_json := ''''\<rparr>)"
  using assms(5) ev intake_row_ok_columns [OF okD(1) [OF ok found]] by (simp_all add: change_defs)

lemma first_pass_kept:
  assumes ok: "intake_ok E P s" and found: "stored_row rid s = Some r" and st: "ir_status r = Qualifying"
    and none: "retained_of s rid = []" and pass: "qo_decision x = PASS" and ev: "hex_or_empty evidence"
    and q: "rq_reservation_id q = rid" "rq_reproduction_index q = 0" "0 \<le> rq_retained_block q"
  shows "holds (final_outcome rid x evidence) (s\<lparr>st_retained := st_retained s @ [q]\<rparr>) (kept E P s)"
proof -
  have one: "length (retained_of (s\<lparr>st_retained := st_retained s @ [q]\<rparr>) rid) = 1" using none q(1) by (simp add: retained_of_def)
  have "intake_ok E P t \<and> evolves s t" if "t = s\<lparr>st_retained := st_retained s @ [q], st_rows := map (\<lambda>x. if ir_reservation_id x = rid
      then x\<lparr>ir_status := ReproductionPending, ir_decision := '''', ir_reason := ''reproduction_pending'',
       ir_qualification_evidence_digest := evidence, iw_retry_group := '''', iw_retry_position := 0,
       ir_qualification_authority_digest := '''', iw_authority_json := ''''\<rparr> else x) (st_rows s)\<rparr>" for t
    by (rule retain_keeps [OF ok found, of q t "\<lambda>r. r\<lparr>ir_status := ReproductionPending, ir_decision := '''',
        ir_reason := ''reproduction_pending'', ir_qualification_evidence_digest := evidence, iw_retry_group := '''',
        iw_retry_position := 0, ir_qualification_authority_digest := '''', iw_authority_json := ''''\<rparr>"])
      (use none q st pass_change [OF ok found st ev] in \<open>simp_all add: that\<close>)
  then show ?thesis using pass by (simp add: final_outcome_def holds_bindM one)
qed

lemma second_pass_kept:
  assumes ok: "intake_ok E P s" and found: "stored_row rid s = Some r" and st: "ir_status r = Qualifying"
    and one: "retained_of s rid = [first]" and pass: "qo_decision x = PASS" and ev: "hex_or_empty evidence"
    and q: "rq_reservation_id q = rid" "rq_reproduction_index q = 1" "0 \<le> rq_retained_block q"
      "rq_qualification_digest q = SettlementQualification_digest E sq"
    and p: "SettlementQualification_from_dict E (py_of_json (rq_qualification_json first)) = Inr p"
      "SettlementQualification_digest E p = rq_qualification_digest first" "from_reproductions p sq = Inr c"
    and row: "cr_reservation_id row = rid" "cr_candidate_digest row = SettlementCandidate_digest E c"
  shows "holds (final_outcome rid x evidence) (s\<lparr>st_retained := st_retained s @ [q], st_candidates := st_candidates s @ [row]\<rparr>) (kept E P s)"
proof -
  have two: "retained_of (s\<lparr>st_retained := st_retained s @ [q]\<rparr>) rid = [first, q]"
    using one q(1) by (simp add: retained_of_def)
  have "intake_ok E P t \<and> evolves s t" if t: "t = s\<lparr>st_retained := st_retained s @ [q], st_candidates := st_candidates s @ [row],
      st_rows := map (\<lambda>y. if ir_reservation_id y = rid
      then y\<lparr>ir_status := Qualified, ir_decision := ''PASS'', ir_reason := qo_reason x,
       ir_qualification_evidence_digest := evidence, iw_retry_group := '''', iw_retry_position := 0,
       ir_qualification_authority_digest := '''', iw_authority_json := ''''\<rparr> else y) (st_rows s)\<rparr>" for t
  proof (rule retain_keeps [OF ok found, of q t "\<lambda>r. r\<lparr>ir_status := Qualified, ir_decision := ''PASS'',
        ir_reason := qo_reason x, ir_qualification_evidence_digest := evidence, iw_retry_group := '''',
        iw_retry_position := 0, ir_qualification_authority_digest := '''', iw_authority_json := ''''\<rparr>"])
    have "retained_of t rid = [first, q]" "row \<in> set (st_candidates t)" using two by (simp_all add: t)
    then show "backed E t rid" using p q(4) row unfolding backed_def by metis
  qed (use one q st row(1) pass_change [OF ok found st ev] in \<open>auto simp: t\<close>)
  then show ?thesis using pass by (simp add: final_outcome_def holds_bindM two)
qed

lemma bindM_assoc: "bindM (bindM m f) g = bindM m (\<lambda>x. bindM (f x) g)"
  by (auto simp: bindM_def fun_eq_iff split: prod.splits sum.splits)

lemma passed_kept:
  assumes ok: "intake_ok E P s" and found: "stored_row rid s = Some r" and st: "ir_status r = Qualifying"
    and pass: "qo_decision x = PASS" and ev: "hex_or_empty evidence" and block: "0 \<le> current"
  shows "holds (bindM (retain_pass E current evroot rid r attempt_ref sq) (\<lambda>_. final_outcome rid x evidence)) s (kept E P s)"
proof -
  have rows: "rq_reservation_id q = rid" if "q \<in> set (retained_of s rid)" for q using that by (auto simp: retained_of_def)
  have "length (retained_of s rid) \<le> 2" using ok by (simp add: intake_ok_def retained_ok_def Let_def)
  then consider "retained_of s rid = []" | first where "retained_of s rid = [first]" "rq_reservation_id first = rid"
      | "1 < length (retained_of s rid)"
    using rows by (cases "retained_of s rid"; cases "tl (retained_of s rid)") auto
  then show ?thesis
  proof cases
    case 1
    show ?thesis unfolding retain_pass_def bindM_assoc
      by (rule holds_read_bind [OF pure_read_stack])
        (auto simp: holds_bindM holds_liftM intake_fail_def retained_sorted [OF ok] 1 Let_def insert_retained_def block
          split: option.splits intro!: first_pass_kept [OF ok found st 1 pass ev, THEN holds_mono])
  next
    case 2
    show ?thesis unfolding retain_pass_def bindM_assoc
      by (rule holds_read_bind [OF pure_read_stack])
        (auto simp: holds_bindM holds_liftM intake_fail_def retained_sorted [OF ok] 2 Let_def insert_retained_def block
          pair_reproductions_def insert_candidate_def wrap_corrupt_Inr bindE_eq_Inr
          split: option.splits sum.splits intro!: second_pass_kept [OF ok found st 2(1) pass ev, THEN holds_mono])
  next
    case 3
    show ?thesis unfolding retain_pass_def bindM_assoc
      by (rule holds_read_bind [OF pure_read_stack])
        (use 3 in \<open>auto simp: holds_bindM holds_liftM intake_fail_def retained_sorted [OF ok] Let_def split: option.splits\<close>)
  qed
qed

lemma kept_get:
  assumes "intake_ok E P s" and "stored_row rid s = Some r" and "holds (f r) s Q"
  shows "holds (bindM (intake_get E rid) f) s Q"
  using assms(3) intake_row_ok_reopen [OF okD(1) [OF assms(1,2)]] by (simp add: intake_get_def holds_bindM holds_liftM assms(2))

lemma kept_reject: "(\<not> c \<Longrightarrow> holds (f ()) s (kept E P s')) \<Longrightarrow> holds (bindM (reject c m) f) s (kept E P s')"
  by (simp add: holds_bindM)

lemma kept_count: "(\<And>n. holds (f n) s Q) \<Longrightarrow> holds (bindM (count_dispositions rid) f) s Q"
  by (simp add: count_dispositions_def holds_bindM)

lemma kept_disposition:
  "(\<And>d. holds (f ()) (s\<lparr>st_dispositions := d\<rparr>) (kept E P s')) \<Longrightarrow> holds (bindM (insert_disposition D) f) s (kept E P s')"
  by (simp add: insert_disposition_def holds_bindM)

lemma lands_apply_outcome:
  assumes b: "batch_ok b" and x: "x \<in> set (qb_outcomes b)" and block: "0 \<le> current"
    and pass: "qo_decision x = PASS \<Longrightarrow> qo_settlement_qualification x \<noteq> None"
  shows "lands E P (apply_outcome E P b current evroot x)"
  unfolding lands_def kept_def [symmetric]
proof (intro allI impI)
  fix s assume ok: "intake_ok E P s"
  let ?rid = "qo_reservation_digest x"
  note ev = batch_evidence_ok [OF b x]
  have tail: "holds (bindM (case qo_settlement_qualification x of
               None \<Rightarrow> retM ()
             | Some q \<Rightarrow>
                 bindM (reject (\<not> qualification_matches b x (batch_evidence b x) r q) ''settlement qualification differs from retained PASS'') (\<lambda>_.
                 retain_pass E current evroot ?rid r ref q)) (\<lambda>_.
      case map_of (retry_rows E b) ?rid of
        Some retry \<Rightarrow> retry_outcome P ?rid r attempt retry
      | None \<Rightarrow> final_outcome ?rid x (batch_evidence b x))) t (kept E P t)"
    if t: "intake_ok E P t" "stored_row ?rid t = Some r" "ir_status r = Qualifying" for t r ref attempt
  proof (cases "qo_settlement_qualification x")
    case None
    then have "qo_decision x \<noteq> PASS" using pass by blast
    then show ?thesis using None retry_kept [OF t] failed_kept [OF t _ ev] by (auto split: option.splits)
  next
    case (Some q)
    have decided: "qo_decision x = PASS"
      using Some b x outcome_new_ok(3) [of x q] by (simp add: batch_ok_def list_all_iff)
    then have "map_of (retry_rows E b) ?rid = None" using retried_is_undecided [OF b x, of E]
      by (cases "map_of (retry_rows E b) ?rid") auto
    then show ?thesis using Some passed_kept [OF t decided ev block] by (simp add: bindM_assoc reject_def holds_bindM holds_liftM intake_fail_def)
  qed
  show "holds (apply_outcome E P b current evroot x) s (kept E P s)"
  proof (cases "stored_row ?rid s")
    case None
    then show ?thesis by (simp add: apply_outcome_def Let_def intake_get_def holds_bindM holds_liftM intake_fail_def)
  next
    case (Some r)
    have tail': "holds M (s\<lparr>st_dispositions := d\<rparr>) (kept E P s)" if "holds M (s\<lparr>st_dispositions := d\<rparr>) (kept E P (s\<lparr>st_dispositions := d\<rparr>))" for M d
      using that by (rule holds_mono) (simp add: kept_def split: sum.splits)
    show ?thesis unfolding apply_outcome_def Let_def batch_evidence_def [symmetric]
      by (intro kept_get [OF ok Some] kept_reject kept_count kept_disposition tail' tail) (use ok Some in \<open>auto simp: stored_row_def\<close>)
  qed
qed

lemma safe_apply_batch:
  assumes "batch_ok b"
  shows "safe E P (apply_qualification_batch E P b current evroot)"
  unfolding apply_qualification_batch_def
proof (intro safe_bind [OF safe_leaves(1)], goal_cases)
  case (1 cursor)
  let ?outcomes = "foldM (\<lambda>x _. apply_outcome E P b current evroot x) (qb_outcomes b) ()"
  show ?case
  proof (cases "0 \<le> current \<and> \<not> list_ex (\<lambda>x. qo_decision x = PASS \<and> qo_settlement_qualification x = None) (qb_outcomes b)")
    case True
    then have "safe E P (transaction ?outcomes)"
      using assms by (intro lands_transaction lands_foldM lands_apply_outcome) (auto simp: list_ex_iff)
    then show ?thesis by (intro safe_bind safe_leaves safe_mapM reads)
  next
    case False
    then show ?thesis by (auto simp: safe_def holds_bindM)
  qed
qed

end
