(* ===== verification/Intake_Copies.thy ===== *)
theory Intake_Copies
  imports Intake_Batch
begin

text \<open>
  What \<open>reconcile_copies\<close> computes, one row at a time, is what a single look at the store says: a row whose
  delta was already submitted by another hotkey, earlier in finalized order, fails.
\<close>

section \<open>The specification\<close>

definition first_copy :: "intake_store \<Rightarrow> IntakeRow \<Rightarrow> IntakeRow option" where
  "first_copy s r =
     (if ir_delta_fingerprint r = None \<or> ir_status r \<in> {Failed, Expired} then None
      else List.find (\<lambda>p. row_key p < row_key r \<and> copy_of p r) (sort_key row_key (st_rows s)))"

definition settle_copy :: "intake_store \<Rightarrow> IntakeRow \<Rightarrow> IntakeRow" where
  "settle_copy s r =
     (case first_copy s r of
        None \<Rightarrow> r
      | Some p \<Rightarrow> r\<lparr>ir_status := Failed, ir_decision := ''FAIL'', ir_reason := ''copy_of:'' @ ir_reservation_id p,
          ir_qualification_evidence_digest := ''''\<rparr>)"

definition copy_entry :: "intake_store \<Rightarrow> IntakeRow \<Rightarrow> (string \<times> string) list" where
  "copy_entry s r = (case first_copy s r of None \<Rightarrow> [] | Some p \<Rightarrow> [(ir_reservation_id r, ir_reservation_id p)])"

text \<open>The store in which the reservations \<open>D\<close> have been looked at.\<close>

definition visited :: "intake_store \<Rightarrow> string set \<Rightarrow> intake_store" where
  "visited s D = s\<lparr>st_rows := map (\<lambda>r. if ir_reservation_id r \<in> D then settle_copy s r else r) (st_rows s)\<rparr>"

section \<open>Programs that run through\<close>

lemma bindM_apply [simp]: "m s = (Inr x, t) \<Longrightarrow> bindM m f s = f x t"
  by (simp add: bindM_def)

lemma reject_apply [simp]: "\<not> b \<Longrightarrow> reject b m s = (Inr (), s)"
  by (simp add: reject_def retM_def)

lemma get_apply: "intake_ok E P s \<Longrightarrow> stored_row rid s = Some r \<Longrightarrow> intake_get E rid s = (Inr r, s)"
  by (simp add: intake_get_def bindM_def askM_def liftM_def intake_row_ok_reopen [OF okD(1)])

lemma mapE_id: "(\<And>x. x \<in> set xs \<Longrightarrow> f x = Inr x) \<Longrightarrow> mapE f xs = Inr xs"
  by (induction xs) auto

lemma all_apply: "intake_ok E P s \<Longrightarrow> intake_all E s = (Inr (sort_key row_key (st_rows s)), s)"
proof -
  assume ok: "intake_ok E P s"
  have "mapE (reopen_row E) (sort_key row_key (st_rows s)) = Inr (sort_key row_key (st_rows s))"
    by (rule mapE_id) (use ok in \<open>auto simp: intake_ok_def intro: intake_row_ok_reopen\<close>)
  then show ?thesis by (simp add: intake_all_def bindM_def askM_def liftM_def)
qed

section \<open>Looking at rows does not change who copied whom\<close>

lemma find_SomeD: "List.find Q xs = Some x \<Longrightarrow> x \<in> set xs \<and> Q x"
  by (induction xs) (auto split: if_splits)

lemma first_copyD:
  assumes "first_copy s r = Some p"
  shows "p \<in> set (st_rows s)" "row_key p < row_key r" "copy_of p r" "ir_delta_fingerprint r \<noteq> None" "ir_status r \<notin> {Failed, Expired}"
  using assms by (auto simp: first_copy_def split: if_splits dest!: find_SomeD)

lemma settle_copy_same [simp]:
  "row_key (settle_copy s r) = row_key r" "ir_reservation_id (settle_copy s r) = ir_reservation_id r"
  "copy_of (settle_copy s r) x = copy_of r x" "ir_delta_fingerprint (settle_copy s r) = ir_delta_fingerprint r"
  by (simp_all add: settle_copy_def row_key_def copy_of_def split: option.splits)

lemma settle_copy_change:
  assumes ok: "intake_ok E P s" and r: "r \<in> set (st_rows s)"
  shows "row_change E s r (settle_copy s r)"
proof (cases "first_copy s r")
  case None
  then show ?thesis using row_change_refl [OF ok r] by (simp add: settle_copy_def)
next
  case (Some p)
  then show ?thesis unfolding settle_copy_def using first_copyD(5) [OF Some]
    by (simp add: terminal_change [OF ok stored_row_member [OF ok r]])
qed

lemma visited_ok: "intake_ok E P s \<Longrightarrow> intake_ok E P (visited s D)"
  unfolding visited_def by (intro map_rows_ok [THEN conjunct1]) (auto intro: settle_copy_change row_change_refl)

lemma sort_key_map: "(\<And>x. f (g x) = f x) \<Longrightarrow> sort_key f (map g xs) = map g (sort_key f xs)"
proof (induction xs)
  case (Cons x xs)
  have "insort_key f (g x) (map g ys) = map g (insort_key f x ys)" for ys by (induction ys) (simp_all add: Cons.prems)
  then show ?case using Cons by simp
qed simp

lemma earlier_sorted:
  "sorted (map row_key rows) \<Longrightarrow> earlier_rows r rows = filter (\<lambda>p. row_key p < row_key r) rows"
  unfolding earlier_rows_def
proof (induction rows)
  case (Cons p rows)
  have "filter (\<lambda>p. row_key p < row_key r) rows = []" if "\<not> row_key p < row_key r"
    using Cons.prems that by (fastforce simp: filter_empty_conv)
  then show ?case using Cons by auto
qed simp

lemma copies_apply:
  assumes ok: "intake_ok E P t" and found: "stored_row rid t = Some r" and "ir_delta_fingerprint r \<noteq> None"
  shows "copy_predecessors E rid t = (Inr (filter (\<lambda>p. row_key p < row_key r \<and> copy_of p r) (sort_key row_key (st_rows t))), t)"
  using assms(3) get_apply [OF ok found] all_apply [OF ok]
  by (simp add: copy_predecessors_def retM_def earlier_sorted conj_commute)

lemma visited_sorted:
  "sort_key row_key (st_rows (visited s D)) =
    map (\<lambda>r. if ir_reservation_id r \<in> D then settle_copy s r else r) (sort_key row_key (st_rows s))"
  unfolding visited_def by (simp add: sort_key_map)

lemma visited_found:
  assumes "intake_ok E P s" and "r \<in> set (st_rows s)"
  shows "stored_row (ir_reservation_id r) (visited s D) = Some (if ir_reservation_id r \<in> D then settle_copy s r else r)"
  using stored_row_member [OF visited_ok [OF assms(1)], of "if ir_reservation_id r \<in> D then settle_copy s r else r" D] assms(2)
  by (auto simp: visited_def split: if_splits)

lemma visited_copies:
  assumes ok: "intake_ok E P s" and r: "r \<in> set (st_rows s)" "ir_reservation_id r \<notin> D" "ir_delta_fingerprint r \<noteq> None"
  shows "copy_predecessors E (ir_reservation_id r) (visited s D) =
    (Inr (map (\<lambda>p. if ir_reservation_id p \<in> D then settle_copy s p else p)
       (filter (\<lambda>p. row_key p < row_key r \<and> copy_of p r) (sort_key row_key (st_rows s)))), visited s D)"
proof -
  have "stored_row (ir_reservation_id r) (visited s D) = Some r" using visited_found [OF ok r(1)] r(2) by simp
  from copies_apply [OF visited_ok [OF ok] this r(3)] show ?thesis
    by (simp add: visited_sorted filter_map comp_def if_distrib [of row_key] if_distrib [of "\<lambda>p. copy_of p r"] cong: if_cong)
qed

section \<open>One row at a time\<close>

lemma find_filter: "List.find Q xs = (case filter Q xs of [] \<Rightarrow> None | x # _ \<Rightarrow> Some x)"
  by (induction xs) auto

lemma copy_status:
  assumes ok: "intake_ok E P s" and r: "r \<in> set (st_rows s)" and "ir_delta_fingerprint r \<noteq> None" "ir_status r \<notin> {Failed, Expired}"
  shows "ir_status r \<in> set [Published, Screening, Promoted, Qualifying, ReproductionPending, Qualified, Held, NoDecision]"
proof -
  have "progress s r" using ok r by (simp add: intake_ok_def)
  then show ?thesis using assms(3,4) by (cases "ir_status r") (auto simp: progress_def Let_def)
qed

lemma transition_apply:
  assumes ok: "intake_ok E P t" and found: "stored_row rid t = Some r" and "ir_status r \<in> set expected" and "length reason \<le> 2048"
    and u: "u = t\<lparr>st_rows := map (\<lambda>x. if ir_reservation_id x = rid then x\<lparr>ir_status := status, ir_decision := decision,
        ir_reason := reason, ir_qualification_evidence_digest := ''''\<rparr> else x) (st_rows t)\<rparr>"
      "intake_ok E P u"
  shows "\<exists>x. intake_transition E rid expected status decision reason t = (Inr x, u)"
proof -
  let ?r = "r\<lparr>ir_status := status, ir_decision := decision, ir_reason := reason, ir_qualification_evidence_digest := ''''\<rparr>"
  have "r \<in> set (st_rows t)" "ir_reservation_id r = rid" using stored_row_Some [OF found] by simp_all
  then have "?r \<in> set (st_rows u)" unfolding u(1) by force
  then have "stored_row rid u = Some ?r" using stored_row_member [OF u(2)] \<open>ir_reservation_id r = rid\<close> by fastforce
  then have "intake_get E rid u = (Inr ?r, u)" by (rule get_apply [OF u(2)])
  moreover have "transaction (bindM (intake_get E rid) (\<lambda>row.
       bindM (reject (ir_status row \<notin> set expected)
         (''intake transition from '' @ show_name (status_name (ir_status row)) @ '' is forbidden'')) (\<lambda>_.
       update_row rid (\<lambda>r. r\<lparr>ir_status := status, ir_decision := decision, ir_reason := reason,
         ir_qualification_evidence_digest := ''''\<rparr>)))) t = (Inr (), u)"
    using assms(3) get_apply [OF ok found] by (simp add: transaction_def update_row_def modifyM_def u(1))
  ultimately show ?thesis using assms(4) by (simp add: intake_transition_def)
qed

lemma same_row:
  "intake_ok E P s \<Longrightarrow> x \<in> set (st_rows s) \<Longrightarrow> r \<in> set (st_rows s) \<Longrightarrow> ir_reservation_id x = ir_reservation_id r \<Longrightarrow> x = r"
  by (metis stored_row_member option.inject)

lemma visited_insert:
  assumes ok: "intake_ok E P s" and r: "r \<in> set (st_rows s)" and new: "ir_reservation_id r \<notin> D" and p: "first_copy s r = Some p"
  shows "visited s (insert (ir_reservation_id r) D) = (visited s D)\<lparr>st_rows := map (\<lambda>x. if ir_reservation_id x = ir_reservation_id r
      then x\<lparr>ir_status := Failed, ir_decision := ''FAIL'', ir_reason := ''copy_of:'' @ ir_reservation_id p,
        ir_qualification_evidence_digest := ''''\<rparr> else x) (st_rows (visited s D))\<rparr>"
proof -
  let ?f = "\<lambda>x. x\<lparr>ir_status := Failed, ir_decision := ''FAIL'', ir_reason := ''copy_of:'' @ ir_reservation_id p,
        ir_qualification_evidence_digest := ''''\<rparr>"
  have "(if ir_reservation_id x \<in> insert (ir_reservation_id r) D then settle_copy s x else x) =
      (let y = if ir_reservation_id x \<in> D then settle_copy s x else x in if ir_reservation_id y = ir_reservation_id r then ?f y else y)"
    if x: "x \<in> set (st_rows s)" for x
  proof (cases "ir_reservation_id x = ir_reservation_id r")
    case True
    then have "x = r" by (rule same_row [OF ok x r])
    then show ?thesis using new p by (simp add: settle_copy_def)
  next
    case False
    then show ?thesis by simp
  qed
  then show ?thesis by (simp add: visited_def Let_def)
qed

lemma mark_copy_apply:
  assumes ok: "intake_ok E P s" and r: "r \<in> set (st_rows s)" and new: "ir_reservation_id r \<notin> D" and p: "first_copy s r = Some p"
  shows "\<exists>x. mark_copy E (ir_reservation_id r) (ir_reservation_id p) (visited s D) = (Inr x, visited s (insert (ir_reservation_id r) D))"
proof -
  let ?t = "visited s D"
  let ?p = "if ir_reservation_id p \<in> D then settle_copy s p else p"
  note copy = first_copyD [OF p]
  have t: "intake_ok E P ?t" by (rule visited_ok [OF ok])
  have found: "stored_row (ir_reservation_id r) ?t = Some r" using visited_found [OF ok r] new by simp
  have "is_sha256_hex (ir_reservation_id p)" using ok copy(1) by (auto simp: intake_ok_def intake_row_ok_def reservation_ok_def)
  then have short: "length (''copy_of:'' @ ir_reservation_id p) \<le> 2048" by (simp add: is_sha256_hex_def)
  obtain x where x: "intake_transition E (ir_reservation_id r)
      [Published, Screening, Promoted, Qualifying, ReproductionPending, Qualified, Held, NoDecision]
      Failed ''FAIL'' (''copy_of:'' @ ir_reservation_id p) ?t = (Inr x, visited s (insert (ir_reservation_id r) D))"
    using transition_apply [OF t found copy_status [OF ok r copy(4,5)] short visited_insert [OF ok r new p] visited_ok [OF ok]] by blast
  have "intake_get E (ir_reservation_id p) ?t = (Inr ?p, ?t)" by (rule get_apply [OF t visited_found [OF ok copy(1)]])
  moreover have "intake_get E (ir_reservation_id r) ?t = (Inr r, ?t)" by (rule get_apply [OF t found])
  moreover have "row_key ?p = row_key p" "ir_reservation_id ?p = ir_reservation_id p" by simp_all
  moreover have "?p \<in> set (map (\<lambda>p. if ir_reservation_id p \<in> D then settle_copy s p else p)
       (filter (\<lambda>p. row_key p < row_key r \<and> copy_of p r) (sort_key row_key (st_rows s))))" using copy(1-3) by auto
  ultimately show ?thesis
    using x visited_copies [OF ok r new copy(4)] copy(2) by (simp add: mark_copy_def leD del: set_map)
qed

lemma reconcile_one_apply:
  assumes ok: "intake_ok E P s" and r: "r \<in> set (st_rows s)" and new: "ir_reservation_id r \<notin> D"
  shows "reconcile_one E r ds (visited s D) = (Inr (ds @ copy_entry s r), visited s (insert (ir_reservation_id r) D))"
proof -
  have same: "visited s (insert (ir_reservation_id r) D) = visited s D" if "first_copy s r = None"
  proof -
    have "(if ir_reservation_id x \<in> insert (ir_reservation_id r) D then settle_copy s x else x) =
        (if ir_reservation_id x \<in> D then settle_copy s x else x)" if x: "x \<in> set (st_rows s)" for x
      using same_row [OF ok x r] \<open>first_copy s r = None\<close> by (cases "ir_reservation_id x = ir_reservation_id r") (simp_all add: settle_copy_def)
    then show ?thesis by (simp add: visited_def)
  qed
  show ?thesis
  proof (cases "ir_delta_fingerprint r = None \<or> ir_status r \<in> {Failed, Expired}")
    case True
    then have "first_copy s r = None" by (simp add: first_copy_def)
    then show ?thesis using True same by (simp add: reconcile_one_def copy_entry_def retM_def)
  next
    case False
    then have first: "first_copy s r = (case filter (\<lambda>p. row_key p < row_key r \<and> copy_of p r) (sort_key row_key (st_rows s)) of
        [] \<Rightarrow> None | p # _ \<Rightarrow> Some p)" unfolding first_copy_def find_filter by auto
    note copies = visited_copies [OF ok r new]
    show ?thesis
    proof (cases "filter (\<lambda>p. row_key p < row_key r \<and> copy_of p r) (sort_key row_key (st_rows s))")
      case Nil
      then have "first_copy s r = None" using first by simp
      then show ?thesis using False Nil same copies by (simp add: reconcile_one_def copy_entry_def retM_def)
    next
      case (Cons p ps)
      then have p: "first_copy s r = Some p" using first by simp
      obtain x where "mark_copy E (ir_reservation_id r) (ir_reservation_id p) (visited s D) = (Inr x, visited s (insert (ir_reservation_id r) D))"
        using mark_copy_apply [OF ok r new p] by blast
      then show ?thesis using False Cons p copies by (simp add: reconcile_one_def copy_entry_def retM_def)
    qed
  qed
qed

lemma reconcile_all_apply:
  assumes ok: "intake_ok E P s"
  shows "set rs \<subseteq> set (st_rows s) \<Longrightarrow> distinct (map ir_reservation_id rs) \<Longrightarrow> D \<inter> ir_reservation_id ` set rs = {} \<Longrightarrow>
    foldM (reconcile_one E) rs ds (visited s D) = (Inr (ds @ concat (map (copy_entry s) rs)), visited s (D \<union> ir_reservation_id ` set rs))"
proof (induction rs arbitrary: D ds)
  case (Cons r rs)
  have "reconcile_one E r ds (visited s D) = (Inr (ds @ copy_entry s r), visited s (insert (ir_reservation_id r) D))"
    using Cons.prems by (intro reconcile_one_apply [OF ok]) auto
  moreover have "foldM (reconcile_one E) rs (ds @ copy_entry s r) (visited s (insert (ir_reservation_id r) D)) =
      (Inr ((ds @ copy_entry s r) @ concat (map (copy_entry s) rs)), visited s (insert (ir_reservation_id r) D \<union> ir_reservation_id ` set rs))"
    using Cons.prems by (intro Cons.IH) auto
  ultimately show ?case by simp
qed (simp add: retM_def)

lemma reconcile_apply:
  assumes ok: "intake_ok E P s"
  shows "reconcile_copies E s = (Inr (concat (map (copy_entry s) (sort_key row_key (st_rows s)))),
    s\<lparr>st_rows := map (settle_copy s) (st_rows s)\<rparr>)"
proof -
  have "visited s {} = s" by (simp add: visited_def)
  moreover have "visited s (ir_reservation_id ` set (st_rows s)) = s\<lparr>st_rows := map (settle_copy s) (st_rows s)\<rparr>"
    by (simp add: visited_def)
  moreover have "distinct (map ir_reservation_id (sort_key row_key (st_rows s)))"
    using ok by (simp add: intake_ok_def distinct_map)
  ultimately show ?thesis
    using reconcile_all_apply [OF ok, of "sort_key row_key (st_rows s)" "{}" "[]"] all_apply [OF ok] by (simp add: reconcile_copies_def)
qed

end
