(* ===== verification/Intake_Replay.thy ===== *)
theory Intake_Replay
  imports Intake_Copies
begin

text \<open>Reading a finalized page again, after a crash or because of overlap, changes nothing.\<close>

section \<open>What a page leaves behind\<close>

definition fresh_row :: "IntakePolicy \<Rightarrow> int \<Rightarrow> IntakeRow \<Rightarrow> bool" where
  "fresh_row P b r \<longleftrightarrow> ir_status r \<in> {Failed, Expired} \<or> ir_status r = Reserved \<and> b - ip_expiry_blocks P < fa_block (ir_arrival r)"

definition recorded :: "py_env \<Rightarrow> intake_store \<Rightarrow> FinalizedArrival \<Rightarrow> bool" where
  "recorded E s a \<longleftrightarrow> (\<exists>r. stored_row (reservation_id E a) s = Some r \<and> ir_arrival r = a)"

definition admitted :: "py_env \<Rightarrow> IntakePolicy \<Rightarrow> int \<Rightarrow> FinalizedArrival list \<Rightarrow> intake_store \<Rightarrow> intake_store \<Rightarrow> bool" where
  "admitted E P b as s t \<longleftrightarrow> st_retained t = st_retained s
     \<and> (\<exists>added. st_rows t = st_rows s @ added \<and> list_all (fresh_row P b) added) \<and> list_all (recorded E t) as"

lemma recorded_grows: "recorded E s a \<Longrightarrow> st_rows t = st_rows s @ added \<Longrightarrow> recorded E t a"
proof -
  have "List.find Q xs = Some x \<Longrightarrow> List.find Q (xs @ ys) = Some x" for Q xs ys and x :: IntakeRow
    by (induction xs) (auto split: if_splits)
  then show "recorded E s a \<Longrightarrow> st_rows t = st_rows s @ added \<Longrightarrow> recorded E t a"
    unfolding recorded_def stored_row_def by metis
qed

lemma admit_fresh: "admit P b a n k = (status, reason) \<Longrightarrow> fresh_row P b (new_row E a epoch status reason)"
  by (auto simp: admit_def fresh_row_def new_row_def split: if_splits)

lemma reserve_one_admits:
  assumes ok: "intake_ok E P s"
  shows "holds (reserve_one E P b a acc) s (\<lambda>v t. case v of Inl _ \<Rightarrow> True | Inr _ \<Rightarrow> admitted E P b [a] s t)"
proof (cases "stored_row (reservation_id E a) s")
  case (Some r)
  then show ?thesis using okD(1) [OF ok Some, THEN intake_row_ok_reopen]
    by (auto simp: reserve_one_def holds_bindM holds_liftM admitted_def recorded_def split: prod.splits)
next
  case None
  have "recorded E (s\<lparr>st_rows := st_rows s @ [new_row E a epoch status reason]\<rparr>) a" for epoch status reason
  proof -
    have "List.find Q (xs @ [x]) = Some x" if "List.find Q xs = None" "Q x" for Q xs and x :: IntakeRow
      using that by (induction xs) (auto split: if_splits)
    then show ?thesis using None by (simp add: recorded_def stored_row_def new_row_def)
  qed
  then show ?thesis using None
    by (auto simp: reserve_one_def holds_bindM Let_def insert_row_def admitted_def admit_fresh split: prod.splits)
qed

lemma admitted_trans:
  assumes "admitted E P b as s t" and "admitted E P b bs t u"
  shows "admitted E P b (as @ bs) s u"
  using assms by (fastforce simp: admitted_def list_all_iff intro: recorded_grows)

lemma reserve_all_admits:
  assumes sha: "sha256_digests E" and epoch: "0 < ip_epoch_blocks P" and "arrivals_ok E as" and "intake_ok E P s"
  shows "holds (foldM (reserve_one E P b) as (queued s, ins)) s (\<lambda>v t. case v of Inl _ \<Rightarrow> True | Inr _ \<Rightarrow> admitted E P b as s t)"
  using assms(3,4)
proof (induction as arbitrary: s ins)
  case Nil
  then show ?case by (simp add: admitted_def)
next
  case (Cons a as)
  have a: "FinalizedArrival_new E a = Inr a" and rest: "arrivals_ok E as" using Cons.prems(1) by (simp_all add: arrivals_ok_def)
  have "holds (reserve_one E P b a (queued s, ins)) s
      (\<lambda>v t. counted E P s v t \<and> (case v of Inl _ \<Rightarrow> True | Inr _ \<Rightarrow> admitted E P b [a] s t))"
    unfolding holds_conj using reserve_one_counted [OF sha epoch a Cons.prems(2)] reserve_one_admits [OF Cons.prems(2)] by blast
  then show ?case unfolding foldM.simps holds_bindM
  proof (rule holds_mono, goal_cases)
    case (1 v t)
    then show ?case
    proof (cases v)
      case (Inr x)
      then obtain ins' where x: "x = (queued t, ins')" and t: "intake_ok E P t" using 1 by (cases x) (auto simp: counted_def)
      have "holds (foldM (reserve_one E P b) as x) t (\<lambda>v u. case v of Inl _ \<Rightarrow> True | Inr _ \<Rightarrow> admitted E P b as t u)"
        unfolding x by (rule Cons.IH [OF rest t])
      then show ?thesis using 1 Inr admitted_trans [of E P b "[a]" s t as]
        by (auto elim!: holds_mono split: sum.splits)
    qed simp
  qed
qed

section \<open>Reading it again\<close>

lemma reserve_recorded:
  assumes ok: "intake_ok E P t"
  shows "list_all (recorded E t) as \<Longrightarrow> foldM (reserve_one E P b) as acc t = (Inr acc, t)"
proof (induction as)
  case (Cons a as)
  then obtain r where r: "stored_row (reservation_id E a) t = Some r" "ir_arrival r = a" by (auto simp: recorded_def)
  have "reserve_one E P b a acc t = (Inr acc, t)"
    using r okD(1) [OF ok r(1), THEN intake_row_ok_reopen]
    by (cases acc) (simp add: reserve_one_def bindM_def askM_def liftM_def reject_def retM_def)
  then show ?case using Cons by simp
qed (simp add: retM_def)

lemma nothing_unsupported:
  assumes ok: "intake_ok E P s"
  shows "\<not> list_ex (unsupported_reproduction s) (st_rows s)"
proof -
  have "\<not> unsupported_reproduction s r" if r: "r \<in> set (st_rows s)" for r
  proof -
    have "progress s r" using ok r by (simp add: intake_ok_def)
    moreover have "map rq_reproduction_index (retained_of s (ir_reservation_id r)) = map int [0..<length (retained_of s (ir_reservation_id r))]"
      using ok by (simp add: intake_ok_def retained_ok_def Let_def)
    ultimately show ?thesis
      by (auto simp: unsupported_reproduction_def progress_def Let_def length_Suc_conv)
  qed
  then show ?thesis by (simp add: list_ex_iff)
qed

lemma expired_not_stale: "\<not> stale s n (expire_row r)"
  by (simp add: stale_def expire_row_def EXPIRABLE_def)

lemma stale_retained: "st_retained t = st_retained s \<Longrightarrow> stale t = stale s"
  by (simp add: stale_def retained_of_def fun_eq_iff)

lemma fresh_not_stale:
  assumes ok: "intake_ok E P t" and r: "r \<in> set (st_rows t)" and "fresh_row P b r"
  shows "\<not> stale t (b - ip_expiry_blocks P) r"
proof -
  have "progress t r" using ok r by (simp add: intake_ok_def)
  then show ?thesis using assms(3) by (auto simp: fresh_row_def stale_def EXPIRABLE_def progress_def Let_def)
qed

lemma no_stale_expiry:
  assumes ok: "intake_ok E P t" and fine: "\<not> list_ex (\<lambda>q. rq_retained_block q < 0 \<or> b < rq_retained_block q) (st_retained t)"
    and none: "\<And>r. r \<in> set (st_rows t) \<Longrightarrow> \<not> stale t (b - ip_expiry_blocks P) r"
  shows "expire_stale_rows P b t = (Inr [], t)"
proof -
  have "filter (stale t (b - ip_expiry_blocks P)) (st_rows t) = []" using none by (simp add: filter_empty_conv)
  moreover have "map (\<lambda>r. if stale t (b - ip_expiry_blocks P) r then expire_row r else r) (st_rows t) = st_rows t"
    using none by (simp add: map_idI)
  ultimately show ?thesis using nothing_unsupported [OF ok] fine
    by (simp add: expire_stale_rows_def Let_def retM_def bindM_def askM_def modifyM_def reject_def)
qed

lemma expiry_leaves_none:
  assumes "intake_ok E P s"
  shows "holds (expire_stale_rows P b) s (\<lambda>v t. case v of Inl _ \<Rightarrow> True | Inr _ \<Rightarrow>
    st_retained t = st_retained s \<and> st_cursor t = st_cursor s
    \<and> (0 \<le> b - ip_expiry_blocks P \<longrightarrow> \<not> list_ex (\<lambda>q. rq_retained_block q < 0 \<or> b < rq_retained_block q) (st_retained t)
        \<and> (\<forall>r \<in> set (st_rows t). \<not> stale t (b - ip_expiry_blocks P) r)))"
  by (auto simp: expire_stale_rows_def Let_def holds_bindM expired_not_stale stale_retained [of "s\<lparr>st_rows := _\<rparr>" s])

definition quiet :: "IntakePolicy \<Rightarrow> int \<Rightarrow> intake_store \<Rightarrow> bool" where
  "quiet P b t \<longleftrightarrow> (0 \<le> b - ip_expiry_blocks P \<longrightarrow>
     \<not> list_ex (\<lambda>q. rq_retained_block q < 0 \<or> b < rq_retained_block q) (st_retained t)
     \<and> (\<forall>r \<in> set (st_rows t). \<not> stale t (b - ip_expiry_blocks P) r))"

lemma quiet_expiry: "intake_ok E P t \<Longrightarrow> quiet P b t \<Longrightarrow> expire_stale_rows P b t = (Inr [], t)"
  using no_stale_expiry [of E P t b] by (cases "0 \<le> b - ip_expiry_blocks P") (auto simp: quiet_def expire_stale_rows_def retM_def)

lemma admitted_quiet:
  assumes "admitted E P b as s t" and ok: "intake_ok E P t" and "quiet P b s"
  shows "quiet P b t"
proof -
  obtain added where added: "st_rows t = st_rows s @ added" "list_all (fresh_row P b) added" "st_retained t = st_retained s"
    using assms(1) by (auto simp: admitted_def)
  have "\<not> stale t (b - ip_expiry_blocks P) r" if "r \<in> set added" for r
    using added(1,2) that by (intro fresh_not_stale [OF ok]) (auto simp: list_all_iff)
  then show ?thesis using assms(3) added(1) stale_retained [OF added(3)] by (auto simp: quiet_def added(3))
qed

lemma quiet_cursor [simp]: "quiet P b (t\<lparr>st_cursor := c\<rparr>) = quiet P b t"
  using stale_retained [of "t\<lparr>st_cursor := c\<rparr>" t] by (simp add: quiet_def)

lemma recorded_cursor [simp]: "recorded E (t\<lparr>st_cursor := c\<rparr>) = recorded E t"
  by (simp add: recorded_def stored_row_def fun_eq_iff)

definition page_done :: "py_env \<Rightarrow> IntakePolicy \<Rightarrow> FinalizedArrival list \<Rightarrow> int \<Rightarrow> string \<Rightarrow> intake_store \<Rightarrow> bool" where
  "page_done E P as b h t \<longleftrightarrow> intake_ok E P t \<and> st_cursor t = Some (b, h) \<and> list_all (recorded E t) as \<and> quiet P b t"

lemma page_transaction_done:
  assumes "sha256_digests E" and "0 < ip_epoch_blocks P" and "arrivals_ok E as" and ok: "intake_ok E P s"
  shows "holds (bindM (expire_stale_rows P b) (\<lambda>_.
       bindM (askM st_cursor) (\<lambda>cursor.
       bindM (reject (case cursor of None \<Rightarrow> False | Some (c, k) \<Rightarrow> b < c \<or> b = c \<and> h \<noteq> k) msg) (\<lambda>_.
       bindM (askM (\<lambda>s. int (length (filter unresolved (st_rows s))))) (\<lambda>pending.
       bindM (foldM (reserve_one E P b) as (pending, [])) (\<lambda>(_, inserted).
       bindM (modifyM (\<lambda>s. s\<lparr>st_cursor := Some (b, h)\<rparr>)) (\<lambda>_. retM inserted))))))) s
    (\<lambda>v t. case v of Inl _ \<Rightarrow> True | Inr _ \<Rightarrow> page_done E P as b h t)"
proof -
  have fold: "holds (foldM (reserve_one E P b) as (queued t, [])) t
      (\<lambda>v u. case v of Inl _ \<Rightarrow> True | Inr _ \<Rightarrow> page_done E P as b h (u\<lparr>st_cursor := Some (b, h)\<rparr>))"
    if t: "intake_ok E P t" "quiet P b t" for t
  proof -
    have "holds (foldM (reserve_one E P b) as (queued t, [])) t
        (\<lambda>v u. counted E P t v u \<and> (case v of Inl _ \<Rightarrow> True | Inr _ \<Rightarrow> admitted E P b as t u))"
      unfolding holds_conj using reserve_all_counted [OF assms(1-3) t(1)] reserve_all_admits [OF assms(1-3) t(1)] by blast
    then show ?thesis
      by (rule holds_mono) (auto simp: page_done_def counted_def split: sum.splits intro: admitted_quiet [OF _ _ t(2)] simp: admitted_def)
  qed
  have "holds (expire_stale_rows P b) s (\<lambda>v t. (intake_ok E P t \<and> evolves s t) \<and> (case v of Inl _ \<Rightarrow> True | Inr _ \<Rightarrow> quiet P b t))"
    unfolding holds_conj [of _ _ "\<lambda>v t. intake_ok E P t \<and> evolves s t"]
  proof
    show "holds (expire_stale_rows P b) s (\<lambda>v t. intake_ok E P t \<and> evolves s t)"
      using safe_expire_stale_rows [of E P b] ok by (simp add: safe_def)
    show "holds (expire_stale_rows P b) s (\<lambda>v t. case v of Inl _ \<Rightarrow> True | Inr _ \<Rightarrow> quiet P b t)"
      by (rule holds_mono [OF expiry_leaves_none [OF ok, of b]]) (auto simp: quiet_def split: sum.splits)
  qed
  then show ?thesis unfolding holds_bindM [of "expire_stale_rows P b"]
  proof (rule holds_mono, goal_cases)
    case (1 v t)
    then show ?case using fold [of t]
      by (cases v) (auto simp: holds_bindM queued_def elim!: holds_mono split: sum.splits)
  qed
qed

lemma reserve_done:
  assumes "sha256_digests E" and "0 < ip_epoch_blocks P" and "arrivals_ok E as" and "intake_ok E P s"
    and run: "reserve_finalized E P as b h s = (Inr inserted, t)"
  shows "page_done E P as b h t" "sorted_unique (map arrival_key as)" "0 \<le> b" "is_block_hash h" "\<not> list_ex (\<lambda>a. b < fa_block a) as"
proof -
  have "holds (reserve_finalized E P as b h) s (\<lambda>v t. case v of Inl _ \<Rightarrow> True | Inr _ \<Rightarrow>
      page_done E P as b h t \<and> sorted_unique (map arrival_key as) \<and> 0 \<le> b \<and> is_block_hash h \<and> \<not> list_ex (\<lambda>a. b < fa_block a) as)"
  proof (cases "sorted_unique (map arrival_key as) \<and> 0 \<le> b \<and> is_block_hash h \<and> \<not> list_ex (\<lambda>a. b < fa_block a) as")
    case True
    have "holds (mapM (intake_get E) ids) u (\<lambda>v t. (\<exists>x. v = Inr x) \<longrightarrow> page_done E P as b h t)"
      if "page_done E P as b h u" for ids u
      by (rule pure_read_holds) (use that in \<open>auto intro!: reads split: sum.splits\<close>)
    then show ?thesis using True
      unfolding reserve_finalized_def holds_bindM [of "reject _ _"] holds_reject holds_bindM [of "transaction _"] holds_transaction
      by (auto intro!: holds_mono [OF page_transaction_done [OF assms(1-4)]] split: sum.splits)
  next
    case False
    then show ?thesis by (auto simp: reserve_finalized_def holds_bindM)
  qed
  from holds_apply [OF this run]
  show "page_done E P as b h t" "sorted_unique (map arrival_key as)" "0 \<le> b" "is_block_hash h" "\<not> list_ex (\<lambda>a. b < fa_block a) as"
    by simp_all
qed

lemma page_again:
  assumes done': "page_done E P as b h t" and guards: "sorted_unique (map arrival_key as)" "0 \<le> b" "is_block_hash h" "\<not> list_ex (\<lambda>a. b < fa_block a) as"
  shows "reserve_finalized E P as b h t = (Inr [], t)"
proof -
  have ok: "intake_ok E P t" and rec: "list_all (recorded E t) as" and cursor: "st_cursor t = Some (b, h)" and quiet: "quiet P b t"
    using done' by (simp_all add: page_done_def)
  have "t\<lparr>st_cursor := Some (b, h)\<rparr> = t" using cursor by simp
  then show ?thesis
    using guards quiet_expiry [OF ok quiet] reserve_recorded [OF ok rec, of b] cursor
    by (simp add: reserve_finalized_def bindM_def transaction_def askM_def modifyM_def retM_def reject_def)
qed

end
