(* ===== verification/Intake_History.thy ===== *)
theory Intake_History
  imports Intake_Replay
begin

text \<open>
  Histories of a store: any sequence of operations, each of which may return or raise, the recovery that runs
  when a process opens the store after a crash, and whatever settlement does to the tables it owns. Arrivals,
  fingerprints, evidence references and batches are values that their constructors have accepted.
\<close>

definition fresh_store :: "intake_store \<Rightarrow> bool" where
  "fresh_store s \<longleftrightarrow> st_rows s = [] \<and> st_retained s = [] \<and> st_candidates s = [] \<and> st_cursor s = None"

inductive intake_step :: "py_env \<Rightarrow> IntakePolicy \<Rightarrow> intake_store \<Rightarrow> intake_store \<Rightarrow> bool" for E P where
  reserve: "arrivals_ok E as \<Longrightarrow> intake_step E P s (snd (reserve_finalized E P as b h s))"
| stale: "intake_step E P s (snd (expire_stale E P b s))"
| fetch: "intake_step E P s (snd (mark_fetching E P rid s))"
| retry: "intake_step E P s (snd (mark_transport_retry E P rid reason s))"
| fail: "intake_step E P s (snd (mark_failed E rid reason s))"
| hold: "intake_step E P s (snd (mark_held E rid reason s))"
| publish: "SubmittedDeltaFingerprint_new f = Inr f \<Longrightarrow> intake_step E P s (snd (mark_published E P rid f digest pubroot s))"
| screen: "intake_step E P s (snd (begin_screen E rid digest s))"
| receipt: "intake_step E P s (snd (apply_screen_receipt E rid digest receipt s))"
| copied: "intake_step E P s (snd (mark_copy E rid pid s))"
| reconcile: "intake_step E P s (snd (reconcile_copies E s))"
| qualify: "intake_step E P s (snd (mark_qualifying E rid digest manifest s))"
| outcome: "attempt_ref_ok ref \<Longrightarrow> intake_step E P s (snd (mark_outcome E rid decision ref report failure reason s))"
| batch: "batch_ok b \<Longrightarrow> intake_step E P s (snd (apply_qualification_batch E P b current evroot s))"
| stack: "intake_step E P s (snd (initialize_evaluation_stack E manifest tree s))"
| requeue: "intake_step E P s (snd (requeue_qualification E P rid reason rgroup position s))"
| expire: "intake_step E P s (snd (expire E P rid block reason s))"
| archive: "intake_step E P s (snd (archive_schema3_migration_hold E rid block reason s))"
| release: "intake_step E P s (snd (release_hold E rid reason s))"
| recover: "intake_step E P s (snd (recover_interrupted s))"
| settlement: "list_all2 same_candidate (st_candidates s) cs \<Longrightarrow>
    intake_step E P s (s\<lparr>st_candidates := cs, st_stacks := stacks, st_awarded := awarded, st_settled := settled\<rparr>)"

lemma safe_snd: "safe E P m \<Longrightarrow> intake_ok E P s \<Longrightarrow> intake_ok E P (snd (m s)) \<and> evolves s (snd (m s))"
  by (simp add: safe_def holds_def case_prod_beta)

lemma intake_policy_bounds:
  "IntakePolicy_new P = Inr P \<Longrightarrow> 0 < ip_epoch_blocks P \<and> 0 < ip_max_pending P"
  by (auto simp: IntakePolicy_new_def intake_fail_simps)

lemmas safe_operations = safe_expire_stale safe_mark_fetching safe_mark_transport_retry safe_mark_failed safe_mark_held
  safe_mark_published safe_begin_screen safe_apply_screen_receipt safe_mark_copy safe_reconcile safe_mark_qualifying safe_mark_outcome
  safe_apply_batch safe_initialize_stack safe_requeue safe_expire safe_archive safe_release_hold safe_recover

lemmas kept_operations = safe_operations [THEN safe_snd]

lemma settlement_ok:
  assumes "intake_ok E P s" and "list_all2 same_candidate (st_candidates s) cs"
  shows "intake_ok E P (s\<lparr>st_candidates := cs, st_stacks := k, st_awarded := a, st_settled := e\<rparr>)"
proof -
  have "intake_ok E P (t\<lparr>st_stacks := k, st_awarded := a, st_settled := e\<rparr>) = intake_ok E P t" for t
    by (simp add: intake_ok_def retained_ok_def backed_def progress_def retained_of_def queued_def)
  then show ?thesis using candidates_ok [OF assms] by simp
qed

lemma step_keeps:
  assumes "intake_step E P s t" and "IntakePolicy_new P = Inr P" and "sha256_digests E" and "intake_ok E P s"
  shows "intake_ok E P t \<and> evolves s t"
  using assms
proof (induction rule: intake_step.induct)
  case (reserve as s b h)
  then show ?case by (intro safe_snd safe_reserve_finalized) (simp_all add: intake_policy_bounds)
next
  case (settlement s cs stacks awarded settled)
  then show ?case using settlement_ok [of E P s cs] by (simp add: evolves_def list.rel_refl)
qed (rule kept_operations, assumption+)+

lemma fresh_ok: "fresh_store s \<Longrightarrow> IntakePolicy_new P = Inr P \<Longrightarrow> intake_ok E P s"
  using intake_policy_bounds [of P] by (auto simp: fresh_store_def intake_ok_def queued_def retained_ok_def retained_of_def)

lemma history_keeps:
  assumes "(intake_step E P)\<^sup>*\<^sup>* s t" and "IntakePolicy_new P = Inr P" and "sha256_digests E" and "intake_ok E P s"
  shows "intake_ok E P t \<and> evolves s t"
  using assms(1)
proof (induction rule: rtranclp_induct)
  case base
  then show ?case using assms(4) by simp
next
  case (step t u)
  then show ?case using step_keeps [OF step.hyps(2) assms(2,3)] forward_trans by blast
qed

lemma reachable_ok:
  assumes "fresh_store s" and "(intake_step E P)\<^sup>*\<^sup>* s t" and "IntakePolicy_new P = Inr P" and "sha256_digests E"
  shows "intake_ok E P t"
  using history_keeps [OF assms(2-4) fresh_ok [OF assms(1,3)]] by blast

end
