(* ===== verification/Intake_Properties.thy ===== *)
theory Intake_Properties
  imports Intake_History Sample_Hash
begin

text \<open>
  The properties of finalized intake, over every history of a store. The sample history: two miners submit
  the same delta in one block, the controller admits, fetches and publishes both.
\<close>

section \<open>A history\<close>

definition sample_arrival :: "string \<Rightarrow> int \<Rightarrow> FinalizedArrival" where
  "sample_arrival hotkey n = \<lparr>fa_hotkey = hotkey, fa_content_hash = hash_a, fa_url = ''https://miner'', fa_block = 10,
     fa_block_hash = ''0x'' @ hash_a, fa_event_index = n, fa_event_subindex = 0, fa_payload_digest = hash_a, fa_invalid_reason = ''''\<rparr>"

definition intake_env :: py_env where
  "intake_env = \<lparr>sha256_hexdigest = (\<lambda>b. if b = utf8 (json_dumps (digest_envelope ''optima.chain.finalized-arrival''
     (JObj [(''block'', JInt 10), (''block_hash'', JStr (''0x'' @ hash_a)), (''content_hash'', JStr hash_a),
       (''event_index'', JInt 0), (''event_subindex'', JInt 0), (''hotkey'', JStr ''alice''), (''payload_digest'', JStr hash_a),
       (''url'', JStr ''https://miner'')]) 1)) then hash_b else hash_a), decimal_ln = (\<lambda>x. x)\<rparr>"

lemma intake_env_digests: "sha256_digests intake_env"
  by (simp add: sha256_digests_def intake_env_def)

lemma sample_reservations:
  "reservation_id intake_env (sample_arrival ''alice'' 0) = hash_b"
  "reservation_id intake_env (sample_arrival ''bob'' n) = hash_a"
proof -
  show "reservation_id intake_env (sample_arrival ''alice'' 0) = hash_b"
    by (simp add: reservation_id_def json_digest_def intake_env_def sample_arrival_def)
  have "(''hotkey'', JStr ''alice'') \<in> (\<lambda>(k, v). (k, json_sort v)) ` set kvs"
    if "json_sort (JObj kvs) = json_sort (JObj [(''block'', JInt 10), (''block_hash'', JStr (''0x'' @ hash_a)), (''content_hash'', JStr hash_a),
       (''event_index'', JInt 0), (''event_subindex'', JInt 0), (''hotkey'', JStr ''alice''), (''payload_digest'', JStr hash_a),
       (''url'', JStr ''https://miner'')])" for kvs
    using json_sort_JObj_set [OF that] by simp
  from this [of "[(''block'', JInt 10), (''block_hash'', JStr (''0x'' @ hash_a)), (''content_hash'', JStr hash_a),
       (''event_index'', JInt n), (''event_subindex'', JInt 0), (''hotkey'', JStr ''bob''), (''payload_digest'', JStr hash_a),
       (''url'', JStr ''https://miner'')]"]
  show "reservation_id intake_env (sample_arrival ''bob'' n) = hash_a"
    using envelope_inj(2) by (fastforce simp: reservation_id_def json_digest_def intake_env_def sample_arrival_def)
qed

definition sample_intake_policy :: IntakePolicy where
  "sample_intake_policy = \<lparr>ip_epoch_blocks = 100, ip_cutoff_blocks = 10, ip_max_pending = 2, ip_max_per_hotkey_epoch = 1,
     ip_max_per_target_epoch = 4, ip_max_transport_retries = 3, ip_max_qualification_retries = 3, ip_max_cohort = 2,
     ip_expiry_blocks = 50\<rparr>"

lemma sample_intake_policy_ok: "IntakePolicy_new sample_intake_policy = Inr sample_intake_policy"
  by (simp add: IntakePolicy_new_def sample_intake_policy_def)

lemma sample_strip: "py_strip ''alice'' = ''alice''" "py_strip ''bob'' = ''bob''"
  by code_simp+

lemma sample_hash: "is_sha256_hex hash_a" "is_sha256_hex hash_b" "hash_a \<noteq> []" "hash_b \<noteq> []"
  using hash_digests(1,2) by (auto simp: is_digest_def)

lemma sample_arrival_ok: "FinalizedArrival_new intake_env (sample_arrival hotkey n) = Inr (sample_arrival hotkey n)"
  if "hotkey \<in> {''alice'', ''bob''}" "0 \<le> n"
  using that sample_hash
  by (auto simp: FinalizedArrival_new_def sample_arrival_def is_block_hash_def sample_strip Let_def require_sha256_hex_def)

definition empty_store :: intake_store where
  "empty_store = \<lparr>st_rows = [], st_cursor = None, st_dispositions = [], st_screens = [], st_retained = [], st_candidates = [],
     st_stacks = [], st_awarded = [], st_settled = []\<rparr>"

definition sample_page :: "FinalizedArrival list" where
  "sample_page = [sample_arrival ''alice'' 0, sample_arrival ''bob'' 1]"

definition reserved_row :: "string \<Rightarrow> int \<Rightarrow> IntakeRow" where
  "reserved_row hotkey n = new_row intake_env (sample_arrival hotkey n) 0 Reserved ''''"

definition sample_store :: "IntakeRow list \<Rightarrow> intake_store" where
  "sample_store rows = empty_store\<lparr>st_rows := rows, st_cursor := Some (12, ''0x'' @ hash_b)\<rparr>"

lemma sample_intake_fields:
  "fa_hotkey (sample_arrival hotkey n) = hotkey" "fa_block (sample_arrival hotkey n) = 10" "fa_event_index (sample_arrival hotkey n) = n"
  "arrival_valid (sample_arrival hotkey n)" "ip_epoch_blocks sample_intake_policy = 100" "ip_cutoff_blocks sample_intake_policy = 10"
  "ip_max_pending sample_intake_policy = 2" "ip_max_per_hotkey_epoch sample_intake_policy = 1" "ip_expiry_blocks sample_intake_policy = 50"
  "ip_max_transport_retries sample_intake_policy = 3" "ip_max_per_target_epoch sample_intake_policy = 4"
  "st_rows empty_store = []" "st_cursor empty_store = None" "st_retained empty_store = []" "st_candidates empty_store = []"
  by (simp_all add: sample_arrival_def sample_intake_policy_def empty_store_def arrival_valid_def)

lemma reserve_new:
  assumes "stored_row (reservation_id E a) s = None" and "\<not> list_ex (\<lambda>x. same_event (ir_arrival x) a) (st_rows s)"
    and "admit P b a (int (length (filter (\<lambda>r. ir_admission_epoch r = admission_epoch P (fa_block a) \<and> fa_hotkey (ir_arrival r) = fa_hotkey a)
      (st_rows s)))) k = (Reserved, '''')"
  shows "reserve_one E P b a (k, ins) s = (Inr (k + 1, ins @ [reservation_id E a]),
    s\<lparr>st_rows := st_rows s @ [new_row E a (admission_epoch P (fa_block a)) Reserved '''']\<rparr>)"
  using assms by (simp add: reserve_one_def bindM_def askM_def Let_def insert_row_def modifyM_def retM_def new_row_def)

lemma reserved_row_simps:
  "ir_reservation_id (reserved_row ''alice'' 0) = hash_b" "ir_reservation_id (reserved_row ''bob'' 1) = hash_a"
  "ir_arrival (reserved_row hotkey n) = sample_arrival hotkey n" "ir_admission_epoch (reserved_row hotkey n) = 0"
  by (simp_all add: reserved_row_def new_row_def sample_reservations)

lemma sample_first:
  "reserve_one intake_env sample_intake_policy 12 (sample_arrival ''alice'' 0) (0, []) empty_store =
    (Inr (1, [hash_b]), empty_store\<lparr>st_rows := [reserved_row ''alice'' 0]\<rparr>)"
  using reserve_new [of intake_env "sample_arrival ''alice'' 0" empty_store sample_intake_policy 12 0 "[]"]
  by (simp add: sample_reservations stored_row_def admit_def sample_intake_fields admission_epoch_def reserved_row_def)

lemma sample_second:
  "reserve_one intake_env sample_intake_policy 12 (sample_arrival ''bob'' 1) (1, [hash_b]) (empty_store\<lparr>st_rows := [reserved_row ''alice'' 0]\<rparr>) =
    (Inr (2, [hash_b, hash_a]), empty_store\<lparr>st_rows := [reserved_row ''alice'' 0, reserved_row ''bob'' 1]\<rparr>)"
  using reserve_new [of intake_env "sample_arrival ''bob'' 1" "empty_store\<lparr>st_rows := [reserved_row ''alice'' 0]\<rparr>" sample_intake_policy 12 1 "[hash_b]"]
  by (simp add: sample_reservations stored_row_def reserved_row_simps same_event_def admit_def sample_intake_fields admission_epoch_def)
    (simp add: reserved_row_def)

lemma reserved_row_ok: "intake_row_ok intake_env (reserved_row ''alice'' 0)" "intake_row_ok intake_env (reserved_row ''bob'' 1)"
  unfolding reserved_row_def by (rule new_row_ok [OF intake_env_digests]; simp add: sample_arrival_ok)+

lemma sample_reserved:
  "reserve_finalized intake_env sample_intake_policy sample_page 12 (''0x'' @ hash_b) empty_store =
    (Inr [reserved_row ''alice'' 0, reserved_row ''bob'' 1], sample_store [reserved_row ''alice'' 0, reserved_row ''bob'' 1])"
proof -
  let ?s = "empty_store\<lparr>st_rows := [reserved_row ''alice'' 0, reserved_row ''bob'' 1]\<rparr>"
  have "foldM (reserve_one intake_env sample_intake_policy 12) sample_page (0, []) empty_store = (Inr (2, [hash_b, hash_a]), ?s)"
    using sample_first sample_second by (simp add: sample_page_def retM_def bindM_def)
  moreover have "sorted_unique (map arrival_key sample_page)" "is_block_hash (''0x'' @ hash_b)" "\<not> list_ex (\<lambda>a. 12 < fa_block a) sample_page"
    using sample_hash by (simp_all add: sample_page_def sorted_unique_def arrival_key_def sample_arrival_def is_block_hash_def)
  moreover have "expire_stale_rows sample_intake_policy 12 empty_store = (Inr [], empty_store)"
    by (simp add: expire_stale_rows_def sample_intake_fields retM_def)
  moreover have "mapM (intake_get intake_env) [hash_b, hash_a] (sample_store (st_rows ?s)) =
      (Inr (st_rows ?s), sample_store (st_rows ?s))"
    using reserved_row_ok [THEN intake_row_ok_reopen]
    by (simp add: intake_get_def bindM_def askM_def liftM_def retM_def stored_row_def sample_store_def reserved_row_simps)
  ultimately show ?thesis
    by (simp add: sample_intake_fields reserve_finalized_def bindM_def transaction_def reject_def retM_def askM_def modifyM_def sample_store_def del: mapM.simps)
qed

lemma snd_get: "snd (intake_get E rid s) = s"
  using pure_read_get [of E rid] by (simp add: pure_read_def)

lemma fetch_state:
  assumes "intake_ok E P s" and "stored_row rid s = Some r" and "ir_status r = Reserved" and "ir_transport_attempts r + 1 \<le> ip_max_transport_retries P"
  shows "snd (mark_fetching E P rid s) = s\<lparr>st_rows := map (\<lambda>x. if ir_reservation_id x = rid
    then x\<lparr>ir_status := Fetching, ir_transport_attempts := ir_transport_attempts r + 1, ir_reason := ''''\<rparr> else x) (st_rows s)\<rparr>"
  using get_apply [OF assms(1,2)] assms(3,4)
  by (simp add: mark_fetching_def snd_get transaction_def Let_def update_row_def modifyM_def)

lemma publish_state:
  assumes "intake_ok E P s" and "stored_row rid s = Some r" and "ir_status r = Fetching" and "is_sha256_hex digest"
    and "df_product_kind f = ''component''"
    and "int (length (filter (\<lambda>x. ir_admission_epoch x = ir_admission_epoch r \<and> ir_target_id x = df_target_id f) (st_rows s)))
      < ip_max_per_target_epoch P"
  shows "snd (mark_published E P rid f digest pubroot s) = s\<lparr>st_rows := map (\<lambda>x. if ir_reservation_id x = rid
    then x\<lparr>ir_status := Published, ir_target_id := df_target_id f, ir_target_members := df_members f,
         ir_delta_fingerprint := Some f, ir_publication_digest := digest, ir_publication_root := pubroot,
         ir_decision := '''', ir_reason := ''''\<rparr> else x) (st_rows s)\<rparr>"
  using get_apply [OF assms(1,2)] assms(3-6)
  by (simp add: mark_published_def snd_get transaction_def Let_def update_row_def modifyM_def askM_def liftM_def require_sha256_hex_def retM_def)

definition sample_delta :: SubmittedDeltaFingerprint where
  "sample_delta = \<lparr>df_product_kind = ''component'', df_target_id = ''norm'', df_target_spec_digest = hash_a, df_members = [''norm''],
     df_exact_payload_digest = hash_a, df_selected_delta_digest = hash_a, df_normalized_delta_digest = hash_a,
     df_containment_fingerprints = [], df_advisory_fingerprints = []\<rparr>"

lemma sample_delta_ok: "SubmittedDeltaFingerprint_new sample_delta = Inr sample_delta"
  using sample_hash by (simp add: SubmittedDeltaFingerprint_new_def sample_delta_def sorted_unique_def)

definition fetched_row :: "string \<Rightarrow> int \<Rightarrow> IntakeRow" where
  "fetched_row hotkey n = (reserved_row hotkey n)\<lparr>ir_status := Fetching, ir_transport_attempts := 1, ir_reason := ''''\<rparr>"

definition published_row :: "string \<Rightarrow> int \<Rightarrow> IntakeRow" where
  "published_row hotkey n = (fetched_row hotkey n)\<lparr>ir_status := Published, ir_target_id := ''norm'', ir_target_members := [''norm''],
     ir_delta_fingerprint := Some sample_delta, ir_publication_digest := hash_a, ir_publication_root := ''/published'',
     ir_decision := '''', ir_reason := ''''\<rparr>"

definition sample_reach :: "intake_store \<Rightarrow> bool" where
  "sample_reach s \<longleftrightarrow> (intake_step intake_env sample_intake_policy)\<^sup>*\<^sup>* empty_store s"

lemma fresh_empty: "fresh_store empty_store"
  by (simp add: fresh_store_def sample_intake_fields)

lemma sample_ok: "sample_reach s \<Longrightarrow> intake_ok intake_env sample_intake_policy s"
  unfolding sample_reach_def using reachable_ok [OF fresh_empty] sample_intake_policy_ok intake_env_digests by blast

lemma sample_step: "sample_reach s \<Longrightarrow> intake_step intake_env sample_intake_policy s t \<Longrightarrow> sample_reach t"
  unfolding sample_reach_def by (rule rtranclp.rtrancl_into_rtrancl)

lemma sample_arrivals_ok: "arrivals_ok intake_env sample_page"
  by (simp add: arrivals_ok_def sample_page_def sample_arrival_ok)

lemma reach_reserved: "sample_reach (sample_store [reserved_row ''alice'' 0, reserved_row ''bob'' 1])"
proof -
  have "sample_reach empty_store" by (simp add: sample_reach_def)
  from sample_step [OF this intake_step.reserve [OF sample_arrivals_ok, of _ _ 12 "''0x'' @ hash_b"]]
  show ?thesis unfolding sample_reserved snd_conv .
qed

lemma reach_fetched: "sample_reach (sample_store [fetched_row ''alice'' 0, fetched_row ''bob'' 1])"
proof -
  have "snd (mark_fetching intake_env sample_intake_policy hash_b (sample_store [reserved_row ''alice'' 0, reserved_row ''bob'' 1])) =
      sample_store [fetched_row ''alice'' 0, reserved_row ''bob'' 1]"
    by (subst fetch_state [OF sample_ok [OF reach_reserved], of _ "reserved_row ''alice'' 0"])
      (simp_all add: stored_row_def sample_store_def reserved_row_simps sample_intake_fields fetched_row_def, simp_all add: reserved_row_def new_row_def)
  then have alice: "sample_reach (sample_store [fetched_row ''alice'' 0, reserved_row ''bob'' 1])"
    using sample_step [OF reach_reserved intake_step.fetch [of _ _ _ hash_b]] by simp
  have "snd (mark_fetching intake_env sample_intake_policy hash_a (sample_store [fetched_row ''alice'' 0, reserved_row ''bob'' 1])) =
      sample_store [fetched_row ''alice'' 0, fetched_row ''bob'' 1]"
    by (subst fetch_state [OF sample_ok [OF alice], of _ "reserved_row ''bob'' 1"])
      (simp_all add: stored_row_def sample_store_def reserved_row_simps sample_intake_fields fetched_row_def, simp_all add: reserved_row_def new_row_def)
  then show ?thesis using sample_step [OF alice intake_step.fetch [of _ _ _ hash_a]] by simp
qed

lemma row_simps:
  "ir_reservation_id (fetched_row ''alice'' 0) = hash_b" "ir_reservation_id (fetched_row ''bob'' 1) = hash_a"
  "ir_reservation_id (published_row ''alice'' 0) = hash_b" "ir_reservation_id (published_row ''bob'' 1) = hash_a"
  "ir_status (fetched_row hotkey n) = Fetching" "ir_status (published_row hotkey n) = Published"
  "ir_admission_epoch (fetched_row hotkey n) = 0" "ir_admission_epoch (published_row hotkey n) = 0"
  "ir_target_id (fetched_row hotkey n) = ''''" "ir_arrival (published_row hotkey n) = sample_arrival hotkey n"
  "ir_delta_fingerprint (published_row hotkey n) = Some sample_delta"
  by (simp_all add: fetched_row_def published_row_def reserved_row_simps) (simp add: reserved_row_def new_row_def)

lemma delta_simps: "df_target_id sample_delta = ''norm''" "df_members sample_delta = [''norm'']" "df_product_kind sample_delta = ''component''"
  by (simp_all add: sample_delta_def)

lemma reach_published: "sample_reach (sample_store [published_row ''alice'' 0, published_row ''bob'' 1])"
proof -
  have "snd (mark_published intake_env sample_intake_policy hash_b sample_delta hash_a ''/published'' (sample_store [fetched_row ''alice'' 0, fetched_row ''bob'' 1])) =
      sample_store [published_row ''alice'' 0, fetched_row ''bob'' 1]"
    by (subst publish_state [OF sample_ok [OF reach_fetched], of _ "fetched_row ''alice'' 0"])
      (simp_all add: stored_row_def sample_store_def row_simps delta_simps sample_intake_fields sample_hash published_row_def)
  then have alice: "sample_reach (sample_store [published_row ''alice'' 0, fetched_row ''bob'' 1])"
    using sample_step [OF reach_fetched intake_step.publish [OF sample_delta_ok, of _ _ _ hash_b hash_a "''/published''"]] by simp
  have "snd (mark_published intake_env sample_intake_policy hash_a sample_delta hash_a ''/published'' (sample_store [published_row ''alice'' 0, fetched_row ''bob'' 1])) =
      sample_store [published_row ''alice'' 0, published_row ''bob'' 1]"
    by (subst publish_state [OF sample_ok [OF alice], of _ "fetched_row ''bob'' 1"])
      (simp_all add: stored_row_def sample_store_def row_simps delta_simps sample_intake_fields sample_hash published_row_def)
  then show ?thesis
    using sample_step [OF alice intake_step.publish [OF sample_delta_ok, of _ _ _ hash_a hash_a "''/published''"]] by simp
qed

lemma sample_copy:
  "copy_entry (sample_store [published_row ''alice'' 0, published_row ''bob'' 1]) (published_row ''bob'' 1) = [(hash_a, hash_b)]"
  "copy_entry (sample_store [published_row ''alice'' 0, published_row ''bob'' 1]) (published_row ''alice'' 0) = []"
  "sort_key row_key [published_row ''alice'' 0, published_row ''bob'' 1] = [published_row ''alice'' 0, published_row ''bob'' 1]"
proof -
  have keys: "row_key (published_row ''alice'' 0) < row_key (published_row ''bob'' 1)"
    by (simp add: row_key_def arrival_key_def row_simps sample_intake_fields)
  then show sorted: "sort_key row_key [published_row ''alice'' 0, published_row ''bob'' 1] = [published_row ''alice'' 0, published_row ''bob'' 1]"
    by simp
  have "copy_of (published_row ''alice'' 0) (published_row ''bob'' 1)"
    by (simp add: copy_of_def row_simps sample_intake_fields compare_submitted_deltas_def reward_namespace_def delta_simps)
  moreover have "\<not> copy_of (published_row ''alice'' 0) (published_row ''alice'' 0)" by (simp add: copy_of_def)
  ultimately show "copy_entry (sample_store [published_row ''alice'' 0, published_row ''bob'' 1]) (published_row ''bob'' 1) = [(hash_a, hash_b)]"
    "copy_entry (sample_store [published_row ''alice'' 0, published_row ''bob'' 1]) (published_row ''alice'' 0) = []"
    using keys by (auto simp: copy_entry_def first_copy_def sample_store_def row_simps)
qed


section \<open>Every history\<close>



text \<open>C36. Whatever operations run on a store, in whatever order and whether they return or raise, it stays consistent: the
  queue of unresolved reservations is within the policy bound, no reservation is recorded twice, every row reads back
  through its validating constructors unchanged, and no reservation waits for a reproduction without exactly one retained
  primary pass, so the check that automatic expiry makes never fails.\<close>

theorem reachable_intake_is_consistent:
  assumes "IntakePolicy_new P = Inr P" and "sha256_digests E" and "fresh_store s0" and "(intake_step E P)\<^sup>*\<^sup>* s0 s"
  shows "int (length (filter unresolved (st_rows s))) \<le> ip_max_pending P \<and> distinct (map ir_reservation_id (st_rows s))
    \<and> intake_all E s = (Inr (sort_key row_key (st_rows s)), s) \<and> \<not> list_ex (unsupported_reproduction s) (st_rows s)"
proof -
  have ok: "intake_ok E P s" by (rule reachable_ok [OF assms(3,4,1,2)])
  then show ?thesis using all_apply [OF ok] nothing_unsupported [OF ok] by (simp add: intake_ok_def queued_def)
qed

theorem reachable_intake_is_consistent_witness:
  "int (length (filter unresolved [published_row ''alice'' 0, published_row ''bob'' 1])) = 2 \<and> ip_max_pending sample_intake_policy = 2
    \<and> \<not> list_ex (unsupported_reproduction (sample_store [published_row ''alice'' 0, published_row ''bob'' 1]))
        [published_row ''alice'' 0, published_row ''bob'' 1]"
  using reachable_intake_is_consistent [OF sample_intake_policy_ok intake_env_digests fresh_empty reach_published [unfolded sample_reach_def]]
  by (simp add: sample_intake_fields sample_store_def row_simps unresolved_def)



text \<open>C38. A history only moves forward. Every reservation keeps its place, identity, finalized arrival and admission epoch; one
  that failed or expired never changes again; one that qualified stays so or fails as a copy; retained passes are never
  withdrawn; the finalized cursor never goes back and never changes its hash.\<close>

theorem intake_history_moves_forward:
  assumes "IntakePolicy_new P = Inr P" and "sha256_digests E" and "fresh_store s0"
    and "(intake_step E P)\<^sup>*\<^sup>* s0 s" and "(intake_step E P)\<^sup>*\<^sup>* s t"
  shows "evolves s t"
  using history_keeps [OF assms(5,1,2) reachable_ok [OF assms(3,4,1,2)]] by blast

theorem intake_history_moves_forward_witness:
  "evolves (sample_store [reserved_row ''alice'' 0, reserved_row ''bob'' 1]) (snd (mark_held intake_env hash_b ''operator''
     (sample_store [reserved_row ''alice'' 0, reserved_row ''bob'' 1])))"
  by (rule intake_history_moves_forward [OF sample_intake_policy_ok intake_env_digests fresh_empty reach_reserved [unfolded sample_reach_def]
      r_into_rtranclp [of "intake_step intake_env sample_intake_policy", OF intake_step.hold]])

text \<open>C39. Copy reconciliation is exact. It never raises on a reachable store; it fails precisely the undecided and qualified
  rows whose delta an earlier row of another hotkey already carries, naming the first such row in finalized order, and
  leaves every other row as it is. That it works row by row, rereading the store each time, makes no difference.\<close>

theorem copies_are_reconciled_exactly:
  assumes "IntakePolicy_new P = Inr P" and "sha256_digests E" and "fresh_store s0" and "(intake_step E P)\<^sup>*\<^sup>* s0 s"
  shows "reconcile_copies E s = (Inr (concat (map (copy_entry s) (sort_key row_key (st_rows s)))),
    s\<lparr>st_rows := map (settle_copy s) (st_rows s)\<rparr>)"
  by (rule reconcile_apply [OF reachable_ok [OF assms(3,4,1,2)]])

theorem copies_are_reconciled_exactly_witness:
  "fst (reconcile_copies intake_env (sample_store [published_row ''alice'' 0, published_row ''bob'' 1])) = Inr [(hash_a, hash_b)]"
proof -
  have rows: "st_rows (sample_store [published_row ''alice'' 0, published_row ''bob'' 1]) = [published_row ''alice'' 0, published_row ''bob'' 1]"
    by (simp add: sample_store_def)
  show ?thesis
    using copies_are_reconciled_exactly [OF sample_intake_policy_ok intake_env_digests fresh_empty reach_published [unfolded sample_reach_def]]
    unfolding rows sample_copy(3) by (simp add: sample_copy(1,2))
qed

text \<open>C40. A finalized page may be read again, after a crash or because reads overlap: once a page has been reserved, reserving it
  again at the same finalized block inserts nothing and leaves the store exactly as it is.\<close>

theorem page_replay_changes_nothing:
  assumes "IntakePolicy_new P = Inr P" and "sha256_digests E" and "fresh_store s0" and "(intake_step E P)\<^sup>*\<^sup>* s0 s"
    and "arrivals_ok E as" and "reserve_finalized E P as b h s = (Inr inserted, t)"
  shows "reserve_finalized E P as b h t = (Inr [], t)"
proof -
  have ok: "intake_ok E P s" by (rule reachable_ok [OF assms(3,4,1,2)])
  have epoch: "0 < ip_epoch_blocks P" using intake_policy_bounds [OF assms(1)] by simp
  show ?thesis by (rule page_again; rule reserve_done [OF assms(2) epoch assms(5) ok assms(6)])
qed

theorem page_replay_changes_nothing_witness:
  "reserve_finalized intake_env sample_intake_policy sample_page 12 (''0x'' @ hash_b) (sample_store [reserved_row ''alice'' 0, reserved_row ''bob'' 1]) =
    (Inr [], sample_store [reserved_row ''alice'' 0, reserved_row ''bob'' 1])"
  by (rule page_replay_changes_nothing [OF sample_intake_policy_ok intake_env_digests fresh_empty rtranclp.rtrancl_refl sample_arrivals_ok sample_reserved])

end
